(* ===== verification/Orm_Prelude.thy ===== *)
theory Orm_Prelude
  imports Main "HOL-Library.Word" "HOL-Library.Char_ord" "HOL-Library.List_Lexorder"
begin

text \<open>
  Shared ground of the development: results with errors as values, the string operations of
  the C++ standard library the sources use, decimal text, and the ordered association lists
  that stand for \<^verbatim>\<open>std::map\<close>. Nothing here is specific to one component of the
  library.
\<close>

named_theorems result_simps \<open>equations that run the result monad\<close>
named_theorems text_simps \<open>equations on decimal and hexadecimal text\<close>
named_theorems codec_simps \<open>lengths and positions in formatted values\<close>

section \<open>Results\<close>

text \<open>A C++ function that may throw returns \<open>Inl\<close> of the exception or \<open>Inr\<close> of its value.\<close>

type_synonym ('e, 'a) result = "'e + 'a"

fun bindR :: "('e, 'a) result \<Rightarrow> ('a \<Rightarrow> ('e, 'b) result) \<Rightarrow> ('e, 'b) result" where
  "bindR (Inl e) f = Inl e"
| "bindR (Inr x) f = f x"

text \<open>\<open>throwIf b e\<close> is the statement \<^verbatim>\<open>if (b) throw e;\<close>.\<close>

definition throwIf :: "bool \<Rightarrow> 'e \<Rightarrow> ('e, unit) result" where
  "throwIf b e = (if b then Inl e else Inr ())"

fun foldR :: "('x \<Rightarrow> 's \<Rightarrow> ('e, 's) result) \<Rightarrow> 'x list \<Rightarrow> 's \<Rightarrow> ('e, 's) result" where
  "foldR f [] s = Inr s"
| "foldR f (x # xs) s = bindR (f x s) (foldR f xs)"

fun mapR :: "('x \<Rightarrow> ('e, 'y) result) \<Rightarrow> 'x list \<Rightarrow> ('e, 'y list) result" where
  "mapR f [] = Inr []"
| "mapR f (x # xs) = bindR (f x) (\<lambda>y. bindR (mapR f xs) (\<lambda>ys. Inr (y # ys)))"

text \<open>A loop whose body only checks.\<close>

fun forR :: "('x \<Rightarrow> ('e, unit) result) \<Rightarrow> 'x list \<Rightarrow> ('e, unit) result" where
  "forR f [] = Inr ()"
| "forR f (x # xs) = bindR (f x) (\<lambda>_. forR f xs)"

fun isOk :: "('e, 'a) result \<Rightarrow> bool" where
  "isOk (Inl e) = False"
| "isOk (Inr x) = True"

lemma bindR_Inr_iff [simp]: "bindR m f = Inr y \<longleftrightarrow> (\<exists>x. m = Inr x \<and> f x = Inr y)"
  by (cases m) auto

lemma bindR_Inl_iff: "bindR m f = Inl e \<longleftrightarrow> m = Inl e \<or> (\<exists>x. m = Inr x \<and> f x = Inl e)"
  by (cases m) auto

lemma bindR_right [simp]: "bindR m Inr = m"
  by (cases m) auto

lemma bindR_assoc: "bindR (bindR m f) g = bindR m (\<lambda>x. bindR (f x) g)"
  by (cases m) auto

lemma bindR_cong [fundef_cong]:
  "m = m' \<Longrightarrow> (\<And>x. m' = Inr x \<Longrightarrow> f x = f' x) \<Longrightarrow> bindR m f = bindR m' f'"
  by (cases m') auto

text \<open>Evaluation decides the branch before it looks at the continuation.\<close>

lemma bindR_lazy [code_unfold]: "bindR m f = (case m of Inl e \<Rightarrow> Inl e | Inr x \<Rightarrow> f x)"
  by (cases m) auto

lemma throwIf_Inr [simp]: "throwIf b e = Inr u \<longleftrightarrow> \<not> b"
  by (simp add: throwIf_def)

lemma throwIf_Inl [simp]: "throwIf b e = Inl e' \<longleftrightarrow> b \<and> e' = e"
  by (auto simp: throwIf_def)

lemma throwIf_run [simp, result_simps]:
  "throwIf False e = Inr ()" "throwIf True e = Inl e"
  by (simp_all add: throwIf_def)

lemma isOk_iff: "isOk m \<longleftrightarrow> (\<exists>x. m = Inr x)"
  by (cases m) auto

lemma isOk_bindR [simp]: "isOk (bindR m f) \<longleftrightarrow> (\<exists>x. m = Inr x \<and> isOk (f x))"
  by (cases m) auto

lemma forR_Inr [simp]: "forR f xs = Inr u \<longleftrightarrow> (\<forall>x \<in> set xs. f x = Inr ())"
  by (induction xs) auto

lemma forR_isOk: "isOk (forR f xs) \<longleftrightarrow> (\<forall>x \<in> set xs. isOk (f x))"
  by (induction xs) (auto simp: isOk_iff)

lemma mapR_Inr_map:
  assumes "\<And>x. x \<in> set xs \<Longrightarrow> f x = Inr (g x)"
  shows "mapR f xs = Inr (map g xs)"
  using assms by (induction xs) auto

lemma mapR_Inr_iff:
  "mapR f xs = Inr ys \<longleftrightarrow> list_all2 (\<lambda>x y. f x = Inr y) xs ys"
  by (induction xs arbitrary: ys) (auto simp: list_all2_Cons1)

lemma mapR_length: "mapR f xs = Inr ys \<Longrightarrow> length ys = length xs"
  by (auto simp: mapR_Inr_iff dest: list_all2_lengthD)

lemma mapR_isOk: "isOk (mapR f xs) \<longleftrightarrow> (\<forall>x \<in> set xs. isOk (f x))"
  by (induction xs) (auto simp: isOk_iff)

lemma foldR_append: "foldR f (xs @ ys) s = bindR (foldR f xs s) (foldR f ys)"
proof (induction xs arbitrary: s)
  case (Cons x xs)
  then show ?case by (cases "f x s") auto
qed simp

lemma foldR_invariant:
  assumes "foldR f xs s = Inr t" and "P s"
    and "\<And>x s t. x \<in> set xs \<Longrightarrow> P s \<Longrightarrow> f x s = Inr t \<Longrightarrow> P t"
  shows "P t"
  using assms by (induction xs arbitrary: s) auto

text \<open>A loop that inserts the key of each element into a set and refuses a second insertion.\<close>

lemma foldR_seen:
  assumes "\<And>x seen r. f x seen = Inr r \<longleftrightarrow> P x \<and> key x \<notin> set seen \<and> r = key x # seen"
  shows "foldR f xs seen = Inr r \<longleftrightarrow>
    (\<forall>x \<in> set xs. P x) \<and> distinct (map key xs) \<and> set (map key xs) \<inter> set seen = {} \<and>
    r = rev (map key xs) @ seen"
proof (induction xs arbitrary: seen)
  case (Cons x xs)
  then show ?case by (auto simp: assms)
qed auto

section \<open>Strings\<close>

abbreviation squote :: char where "squote \<equiv> CHR 0x27"
abbreviation dquote :: char where "dquote \<equiv> CHR 0x22"
abbreviation backtick :: char where "backtick \<equiv> CHR 0x60"
abbreviation backslash :: char where "backslash \<equiv> CHR 0x5C"
abbreviation newline :: char where "newline \<equiv> CHR 0x0A"
abbreviation creturn :: char where "creturn \<equiv> CHR 0x0D"
abbreviation nul :: char where "nul \<equiv> CHR 0x00"
abbreviation tab :: char where "tab \<equiv> CHR 0x09"

text \<open>\<open>code c\<close> is \<^verbatim>\<open>static_cast<unsigned char>(c)\<close>.\<close>

abbreviation code :: "char \<Rightarrow> nat" where "code c \<equiv> of_char c"

definition between :: "char \<Rightarrow> char \<Rightarrow> char \<Rightarrow> bool" where
  "between lo hi c \<longleftrightarrow> code lo \<le> code c \<and> code c \<le> code hi"

abbreviation is_digit :: "char \<Rightarrow> bool" where "is_digit \<equiv> between (CHR ''0'') (CHR ''9'')"
abbreviation is_lower :: "char \<Rightarrow> bool" where "is_lower \<equiv> between (CHR ''a'') (CHR ''z'')"
abbreviation is_upper :: "char \<Rightarrow> bool" where "is_upper \<equiv> between (CHR ''A'') (CHR ''Z'')"

text \<open>\<^verbatim>\<open>string_view::substr(pos, len)\<close>, \<^verbatim>\<open>starts_with\<close> and \<^verbatim>\<open>ends_with\<close>.\<close>

definition substr :: "string \<Rightarrow> nat \<Rightarrow> nat \<Rightarrow> string" where
  "substr s pos len = take len (drop pos s)"

definition starts_with :: "string \<Rightarrow> string \<Rightarrow> bool" where
  "starts_with s p \<longleftrightarrow> take (length p) s = p"

definition ends_with :: "string \<Rightarrow> string \<Rightarrow> bool" where
  "ends_with s p \<longleftrightarrow> length p \<le> length s \<and> drop (length s - length p) s = p"

lemma starts_with_append [simp]: "starts_with (p @ s) p"
  by (simp add: starts_with_def)

lemma starts_with_iff: "starts_with s p \<longleftrightarrow> (\<exists>t. s = p @ t)"
  by (auto simp: starts_with_def) (metis append_take_drop_id)

lemma ends_with_append [simp]: "ends_with (s @ p) p"
  by (simp add: ends_with_def)

text \<open>
  \<^verbatim>\<open>s.find(p, from)\<close> and \<^verbatim>\<open>s.find_first_of(set, from)\<close>: \<open>None\<close> is \<^verbatim>\<open>npos\<close>.
  Both scan the suffix that starts at \<open>from\<close>.
\<close>

fun find_prefix :: "string \<Rightarrow> string \<Rightarrow> nat option" where
  "find_prefix p [] = (if p = [] then Some 0 else None)"
| "find_prefix p (c # s) =
     (if starts_with (c # s) p then Some 0 else map_option Suc (find_prefix p s))"

definition find_from :: "string \<Rightarrow> string \<Rightarrow> nat \<Rightarrow> nat option" where
  "find_from s p pos =
     (if pos \<le> length s then map_option (\<lambda>k. pos + k) (find_prefix p (drop pos s)) else None)"

fun find_char :: "(char \<Rightarrow> bool) \<Rightarrow> string \<Rightarrow> nat option" where
  "find_char P [] = None"
| "find_char P (c # s) = (if P c then Some 0 else map_option Suc (find_char P s))"

definition find_first_of :: "string \<Rightarrow> char list \<Rightarrow> nat \<Rightarrow> nat option" where
  "find_first_of s cs pos = map_option (\<lambda>k. pos + k) (find_char (\<lambda>c. c \<in> set cs) (drop pos s))"

lemma find_char_None [simp]: "find_char P s = None \<longleftrightarrow> (\<forall>c \<in> set s. \<not> P c)"
  by (induction s) auto

lemma find_char_Some:
  "find_char P s = Some k \<Longrightarrow> k < length s \<and> P (s ! k) \<and> (\<forall>j < k. \<not> P (s ! j))"
proof (induction s arbitrary: k)
  case (Cons c s)
  then show ?case
    by (auto simp: less_Suc_eq_0_disj split: if_splits)
qed simp

lemma find_char_append:
  "(\<forall>c \<in> set xs. \<not> P c) \<Longrightarrow> P c \<Longrightarrow> find_char P (xs @ c # ys) = Some (length xs)"
  by (induction xs) auto

lemma find_prefix_Some:
  "find_prefix p s = Some k \<Longrightarrow> k + length p \<le> length s \<and> take (length p) (drop k s) = p"
proof (induction p s arbitrary: k rule: find_prefix.induct)
  case (2 p c s)
  show ?case
  proof (cases "starts_with (c # s) p")
    case True
    then obtain t where "c # s = p @ t" by (auto simp: starts_with_iff)
    then have "take (length p) (c # s) = p" "length p \<le> length (c # s)"
      by (metis append_eq_conv_conj, metis length_append le_add1)
    with True "2.prems" show ?thesis by simp
  next
    case False
    with "2.prems" "2.IH" show ?thesis by auto
  qed
qed (auto split: if_splits)

lemma find_from_Some:
  "find_from s p pos = Some k \<Longrightarrow> pos \<le> k \<and> k + length p \<le> length s"
  by (auto simp: find_from_def split: if_splits dest!: find_prefix_Some)

lemma find_first_of_Some: "find_first_of s cs pos = Some k \<Longrightarrow> pos \<le> k \<and> k < length s"
  by (auto simp: find_first_of_def dest!: find_char_Some)

text \<open>\<^verbatim>\<open>join(values, separator)\<close>, the local helper several source files repeat.\<close>

fun joinWith :: "string \<Rightarrow> string list \<Rightarrow> string" where
  "joinWith sep [] = []"
| "joinWith sep [x] = x"
| "joinWith sep (x # y # xs) = x @ sep @ joinWith sep (y # xs)"

lemma joinWith_Cons: "xs \<noteq> [] \<Longrightarrow> joinWith sep (x # xs) = x @ sep @ joinWith sep xs"
  by (cases xs) auto

section \<open>Decimal text\<close>

definition digit_char :: "nat \<Rightarrow> char" where
  "digit_char d = char_of (48 + d)"

text \<open>\<^verbatim>\<open>std::to_string\<close> of an unsigned value.\<close>

fun dec :: "nat \<Rightarrow> string" where
  "dec n = (if n < 10 then [digit_char n] else dec (n div 10) @ [digit_char (n mod 10)])"

declare dec.simps [simp del]

text \<open>\<^verbatim>\<open>std::format("{:0w}", n)\<close>: at least \<open>w\<close> characters, filled with zeros.\<close>

definition zpad :: "nat \<Rightarrow> nat \<Rightarrow> string" where
  "zpad w n = replicate (w - length (dec n)) (CHR ''0'') @ dec n"

text \<open>\<open>digs w n\<close> is the text of \<open>n\<close> in exactly \<open>w\<close> digits.\<close>

fun digs :: "nat \<Rightarrow> nat \<Rightarrow> string" where
  "digs 0 n = []"
| "digs (Suc w) n = digs w (n div 10) @ [digit_char (n mod 10)]"

definition digit_val :: "char \<Rightarrow> nat" where
  "digit_val c = code c - 48"

definition dec_val :: "string \<Rightarrow> nat" where
  "dec_val s = foldl (\<lambda>r c. r * 10 + digit_val c) 0 s"

lemma code_digit_char [simp]: "d < 10 \<Longrightarrow> code (digit_char d) = 48 + d"
  by (simp add: digit_char_def)

lemma is_digit_digit_char [simp]: "d < 10 \<Longrightarrow> is_digit (digit_char d)"
  by (simp add: between_def)

lemma digit_val_digit_char [simp]: "d < 10 \<Longrightarrow> digit_val (digit_char d) = d"
  by (simp add: digit_val_def)

lemma digit_char_inj [simp]: "d < 10 \<Longrightarrow> e < 10 \<Longrightarrow> digit_char d = digit_char e \<longleftrightarrow> d = e"
  by (metis digit_val_digit_char)

lemma length_digs [simp, codec_simps]: "length (digs w n) = w"
  by (induction w arbitrary: n) auto

lemma digs_digit [simp]: "c \<in> set (digs w n) \<Longrightarrow> is_digit c"
  by (induction w arbitrary: n) auto

lemma dec_nonempty [simp]: "dec n \<noteq> []"
  by (subst dec.simps) simp

lemma dec_digit [simp]: "c \<in> set (dec n) \<Longrightarrow> is_digit c"
proof (induction n rule: dec.induct)
  case (1 n)
  then show ?case
    by (cases "n < 10") (auto simp: dec.simps [of n])
qed

lemma dec_val_snoc: "dec_val (s @ [c]) = dec_val s * 10 + digit_val c"
  by (simp add: dec_val_def)

lemma dec_val_dec [simp]: "dec_val (dec n) = n"
proof (induction n rule: dec.induct)
  case (1 n)
  then show ?case
    by (cases "n < 10") (simp_all add: dec.simps [of n] dec_val_snoc, simp add: dec_val_def)
qed

lemma dec_inj [simp]: "dec m = dec n \<longleftrightarrow> m = n"
  by (metis dec_val_dec)

lemma dec_val_digs: "dec_val (digs w n) = n mod 10 ^ w"
proof (induction w arbitrary: n)
  case (Suc w)
  then show ?case
    by (simp add: dec_val_snoc mod_mult2_eq)
qed (simp add: dec_val_def)

lemma digs_dec: "n < 10 ^ w \<Longrightarrow> length (dec n) \<le> w \<or> w = 0"
proof (induction w arbitrary: n)
  case (Suc w)
  show ?case
  proof (cases "n < 10")
    case True
    then show ?thesis by (simp add: dec.simps [of n])
  next
    case False
    with Suc.prems have "n div 10 < 10 ^ w" by (simp add: less_mult_imp_div_less mult.commute)
    with Suc.IH [of "n div 10"] False Suc.prems show ?thesis
      by (cases w) (auto simp: dec.simps [of n])
  qed
qed simp

lemma digs_0: "digs w 0 = replicate w (CHR ''0'')"
proof (induction w)
  case (Suc w)
  have "digit_char 0 = CHR ''0''" by code_simp
  with Suc show ?case by (simp add: replicate_append_same)
qed simp

lemma zpad_digs: "n < 10 ^ w \<Longrightarrow> 0 < w \<Longrightarrow> zpad w n = digs w n"
proof (induction w arbitrary: n)
  case (Suc w)
  show ?case
  proof (cases "n < 10")
    case True
    then show ?thesis by (simp add: zpad_def dec.simps [of n] digs_0)
  next
    case False
    with Suc.prems have lt: "n div 10 < 10 ^ w"
      by (simp add: less_mult_imp_div_less mult.commute)
    with False have "0 < w" by (cases w) auto
    with Suc.IH [OF lt] have "zpad w (n div 10) = digs w (n div 10)" by simp
    with False show ?thesis by (simp add: zpad_def dec.simps [of n])
  qed
qed simp

text \<open>\<open>frame v\<close>: a value behind its length, as the sources frame the parts of a hashed text.\<close>

definition frame :: "string \<Rightarrow> string" where
  "frame v = dec (length v) @ '':'' @ v"

lemma colon_not_digit [simp]: "\<not> is_digit (CHR '':'')" "CHR '':'' \<notin> set (dec n)"
  using dec_digit [of "CHR '':''" n] by (auto simp: between_def)

lemma split_at_colon:
  "CHR '':'' \<notin> set a \<Longrightarrow> CHR '':'' \<notin> set b \<Longrightarrow>
   a @ CHR '':'' # x = b @ CHR '':'' # y \<longleftrightarrow> a = b \<and> x = y"
proof (induction a arbitrary: b)
  case Nil
  then show ?case by (cases b) auto
next
  case (Cons c a)
  then show ?case by (cases b) auto
qed

lemma frame_append_inj [simp]: "frame a @ x = frame b @ y \<longleftrightarrow> a = b \<and> x = y"
proof
  assume "frame a @ x = frame b @ y"
  then have "dec (length a) @ CHR '':'' # a @ x = dec (length b) @ CHR '':'' # b @ y"
    by (simp add: frame_def)
  then have "dec (length a) = dec (length b)" and rest: "a @ x = b @ y"
    by (simp_all add: split_at_colon)
  then have "length a = length b" by (simp add: dec_inj)
  with rest show "a = b \<and> x = y" by simp
qed simp

lemma frames_inj:
  "length as = length bs \<Longrightarrow>
   concat (map frame as) @ x = concat (map frame bs) @ y \<longleftrightarrow> as = bs \<and> x = y"
  by (induction as bs rule: list_induct2) auto

lemma frames_eq:
  "length as = length bs \<Longrightarrow> concat (map frame as) = concat (map frame bs) \<longleftrightarrow> as = bs"
  using frames_inj [of as bs "[]" "[]"] by simp

text \<open>A loop of a fixed number of rounds, unfolded.\<close>

lemma funpow_numeral: "(f ^^ numeral k) x = f ((f ^^ pred_numeral k) x)"
  by (simp add: numeral_eq_Suc)

section \<open>Ordered maps\<close>

text \<open>
  \<^verbatim>\<open>std::map<K, V>\<close> iterates in key order, and the sources depend on that order, so it is an
  association list sorted by strictly increasing keys. \<open>map_of\<close> looks a key up.
\<close>

type_synonym ('k, 'v) omap = "('k \<times> 'v) list"

definition omap_ok :: "('k :: linorder, 'v) omap \<Rightarrow> bool" where
  "omap_ok m \<longleftrightarrow> sorted_wrt (<) (map fst m)"

text \<open>\<^verbatim>\<open>m.emplace(k, v)\<close>: \<open>None\<close> when the key is already there.\<close>

fun omap_insert :: "'k :: linorder \<Rightarrow> 'v \<Rightarrow> ('k, 'v) omap \<Rightarrow> ('k, 'v) omap" where
  "omap_insert k v [] = [(k, v)]"
| "omap_insert k v ((k', v') # m) =
     (if k < k' then (k, v) # (k', v') # m
      else if k = k' then (k', v) # m
      else (k', v') # omap_insert k v m)"

lemma fst_set_omap_insert: "fst ` set (omap_insert k v m) = insert k (fst ` set m)"
  by (induction k v m rule: omap_insert.induct) (auto simp del: not_less)

lemma omap_ok_insert: "omap_ok m \<Longrightarrow> omap_ok (omap_insert k v m)"
proof (induction m)
  case (Cons a m)
  obtain k' v' where a: "a = (k', v')" by fastforce
  have keys: "set (map fst (omap_insert k v m)) = insert k (set (map fst m))"
    using fst_set_omap_insert [of k v m] by simp
  from Cons have "omap_ok (omap_insert k v m)" by (simp add: omap_ok_def)
  with Cons.prems keys show ?case
    by (auto simp: omap_ok_def a simp del: set_map)
qed (simp add: omap_ok_def)

lemma map_of_omap_insert: "map_of (omap_insert k v m) = (map_of m)(k \<mapsto> v)"
  by (induction m) (auto simp: fun_eq_iff)

lemma omap_ok_distinct: "omap_ok m \<Longrightarrow> distinct (map fst m)"
  by (simp add: omap_ok_def strict_sorted_iff)

end
