(* ===== verification/Orm_Foundation.thy ===== *)
theory Orm_Foundation
  imports Orm_Prelude
begin

text \<open>
  The enumerations and exceptions of \<^verbatim>\<open>modules/orm/foundation/types.cppm\<close>, the names of
  logical column types (\<^verbatim>\<open>src/model/ColumnType.cpp\<close>) and the string helper of
  \<^verbatim>\<open>src/utils/StringUtils.cpp\<close>.
\<close>

section \<open>Enumerations\<close>

datatype column_type =
    BoolT | CharT | UnsignedCharT | ShortT | UnsignedShortT | IntT | UnsignedIntT | LongLongT
  | UnsignedLongLongT | FloatT | DoubleT | StringT | UuidT | DateT | TimeOfDayT
  | LocalDateTimeT | UtcTimestampT

datatype relation_kind = ToOne | OneToMany | ManyToMany

datatype backend_type =
    Sqlite | Postgres | Mysql | Oracle | Firebird | Db2 | Odbc | Empty | Mariadb

text \<open>The numeric values of the enumerators; \<^verbatim>\<open>std::map<BackendType, _>\<close> is ordered by them.\<close>

fun backend_number :: "backend_type \<Rightarrow> nat" where
  "backend_number Sqlite = 0"
| "backend_number Postgres = 1"
| "backend_number Mysql = 2"
| "backend_number Oracle = 3"
| "backend_number Firebird = 4"
| "backend_number Db2 = 5"
| "backend_number Odbc = 6"
| "backend_number Empty = 7"
| "backend_number Mariadb = 8"

lemma backend_number_inj [simp]: "backend_number a = backend_number b \<longleftrightarrow> a = b"
  by (cases a; cases b) simp_all

instantiation backend_type :: linorder
begin

definition less_eq_backend_type :: "backend_type \<Rightarrow> backend_type \<Rightarrow> bool" where
  "less_eq_backend_type a b \<longleftrightarrow> backend_number a \<le> backend_number b"

definition less_backend_type :: "backend_type \<Rightarrow> backend_type \<Rightarrow> bool" where
  "less_backend_type a b \<longleftrightarrow> backend_number a < backend_number b"

instance
  by standard (auto simp: less_eq_backend_type_def less_backend_type_def)

end

lemmas backend_order_defs = less_eq_backend_type_def less_backend_type_def

datatype migration_error_code =
    InvalidCatalog | InvalidSql | NotConnected | ActiveTransaction | UnsupportedBackend
  | InvalidHistory | ChecksumMismatch | InvalidTarget | MissingDown | BaselineBoundary
  | LockUnavailable | HistoryChanged | Execution | CommitUncertain | IncompleteMigrationCode
  | InvalidResolution | InvalidSchema | SessionRestoration

datatype database_error_code =
    DbNotConnected | DbAlreadyConnected | DbUnsupportedBackend | DbUnsupportedFeature | DbConnection
  | DbStatement | DbConstraint | DbTransaction | DbConversion | DbAffectedRowsUnavailable

section \<open>Exceptions\<close>

text \<open>\<^verbatim>\<open>GenerationDiagnostic\<close> is the payload of \<^verbatim>\<open>GenerationError\<close>.\<close>

record generation_diagnostic =
  diag_code :: string
  diag_message :: string
  diag_path :: string
  diag_backend :: backend_type
  diag_error :: bool

text \<open>
  One constructor per exception class the modelled code throws or lets through:
  \<^verbatim>\<open>std::invalid_argument\<close>, \<^verbatim>\<open>std::runtime_error\<close>, \<^verbatim>\<open>std::logic_error\<close>,
  \<^verbatim>\<open>MigrationError\<close> (code, message, version, backend, native code),
  \<^verbatim>\<open>GenerationError\<close>, \<^verbatim>\<open>soci::soci_error\<close> (its native code),
  \<^verbatim>\<open>nlohmann::json::exception\<close>, \<^verbatim>\<open>std::bad_cast\<close> and \<^verbatim>\<open>DatabaseError\<close> (code, backend, operation,
  message, native code), \<^verbatim>\<open>binding::ConversionError\<close>. \<open>Terminate\<close> is the end of the program when a destructor throws.
\<close>

datatype exn =
    InvalidArgument string
  | RuntimeError string
  | LogicError string
  | MigrationError migration_error_code string int backend_type "string option"
  | GenerationError string "generation_diagnostic list"
  | SociError "string option"
  | JsonException
  | BadCast
  | DatabaseError database_error_code backend_type string string "string option"
  | ConversionError string
  | Terminate

section \<open>Names of column types\<close>

fun column_type_toString :: "column_type \<Rightarrow> string" where
  "column_type_toString BoolT = ''bool''"
| "column_type_toString CharT = ''char''"
| "column_type_toString UnsignedCharT = ''unsigned char''"
| "column_type_toString ShortT = ''short''"
| "column_type_toString UnsignedShortT = ''unsigned short''"
| "column_type_toString IntT = ''int''"
| "column_type_toString UnsignedIntT = ''unsigned int''"
| "column_type_toString LongLongT = ''long long''"
| "column_type_toString UnsignedLongLongT = ''unsigned long long''"
| "column_type_toString FloatT = ''float''"
| "column_type_toString DoubleT = ''double''"
| "column_type_toString StringT = ''std::string''"
| "column_type_toString UuidT = ''uuid''"
| "column_type_toString DateT = ''date''"
| "column_type_toString TimeOfDayT = ''time_of_day''"
| "column_type_toString LocalDateTimeT = ''local_date_time''"
| "column_type_toString UtcTimestampT = ''utc_timestamp''"

lemma column_type_toString_inj [simp]:
  "column_type_toString a = column_type_toString b \<longleftrightarrow> a = b"
  by (cases a; cases b; simp)

section \<open>Removing a trailing comma\<close>

text \<open>
  The scan of \<^verbatim>\<open>removeLastComma\<close> goes down from the last character and stops at a comma or
  at position 0.
\<close>

fun last_comma :: "string \<Rightarrow> nat \<Rightarrow> nat" where
  "last_comma s 0 = 0"
| "last_comma s (Suc pos) = (if s ! Suc pos \<noteq> CHR '','' then last_comma s pos else Suc pos)"

definition removeLastComma :: "string \<Rightarrow> string" where
  "removeLastComma s =
     (if s = [] then s
      else let pos = last_comma s (length s - 1)
           in if s ! pos = CHR '','' then take pos s else s)"

lemma last_comma_append:
  "CHR '','' \<notin> set t \<Longrightarrow> last_comma (s @ CHR '','' # t) (length s + length t) = length s"
proof (induction t rule: rev_induct)
  case Nil
  then show ?case
    by (cases s rule: rev_cases) (auto simp: nth_append)
next
  case (snoc c t)
  have nth: "(s @ CHR '','' # t @ [c]) ! Suc (length s + length t) = c"
    by (simp add: nth_append)
  have skip: "last_comma (u @ [c]) n = last_comma u n" if "n < length u" for u n
    using that by (induction n) (auto simp: nth_append)
  have "last_comma (s @ CHR '','' # t @ [c]) (length s + length (t @ [c])) =
        last_comma (s @ CHR '','' # t @ [c]) (length s + length t)"
    using snoc.prems nth by auto
  also have "\<dots> = last_comma (s @ CHR '','' # t) (length s + length t)"
    using skip [of "length s + length t" "s @ CHR '','' # t"] by simp
  finally show ?case using snoc by simp
qed

lemma removeLastComma_append:
  assumes "CHR '','' \<notin> set t"
  shows "removeLastComma (s @ CHR '','' # t) = s"
proof -
  have "last_comma (s @ CHR '','' # t) (length (s @ CHR '','' # t) - 1) = length s"
    using last_comma_append [OF assms, of s] by simp
  then show ?thesis by (simp add: removeLastComma_def Let_def)
qed

lemma last_comma_none: "CHR '','' \<notin> set s \<Longrightarrow> n < length s \<Longrightarrow> last_comma s n = 0"
  by (induction n) (auto dest: nth_mem)

lemma removeLastComma_none: "CHR '','' \<notin> set s \<Longrightarrow> removeLastComma s = s"
  using last_comma_none [of s "length s - 1"]
  by (cases s) (auto simp: removeLastComma_def Let_def)

end
