(* ===== verification/Orm_Uuid.thy ===== *)
theory Orm_Uuid
  imports Orm_Foundation
begin

text \<open>
  UUID values: \<^verbatim>\<open>src/foundation/Uuid.cpp\<close>. A UUID is its sixteen bytes in canonical order;
  \<^verbatim>\<open>unsigned int\<close> is a 32-bit word and \<^verbatim>\<open>std::byte\<close> an 8-bit word.
\<close>

unbundle bit_operations_syntax

type_synonym byte = "8 word"
type_synonym u32 = "32 word"
type_synonym uuid = "byte list"

definition uuid_ok :: "uuid \<Rightarrow> bool" where
  "uuid_ok u \<longleftrightarrow> length u = 16"

section \<open>Hexadecimal digits\<close>

definition uuid_format_error :: exn where
  "uuid_format_error =
     InvalidArgument ''UUID must use the 8-4-4-4-12 hexadecimal format''"

definition hexDigit :: "char \<Rightarrow> (exn, u32) result" where
  "hexDigit c =
     (if between (CHR ''0'') (CHR ''9'') c then Inr (of_nat (code c - code (CHR ''0'')))
      else if between (CHR ''a'') (CHR ''f'') c then Inr (of_nat (code c - code (CHR ''a'')) + 10)
      else if between (CHR ''A'') (CHR ''F'') c then Inr (of_nat (code c - code (CHR ''A'')) + 10)
      else Inl uuid_format_error)"

definition hex_digits :: string where
  "hex_digits = ''0123456789abcdef''"

definition separator_at :: "nat \<Rightarrow> bool" where
  "separator_at position \<longleftrightarrow> position = 8 \<or> position = 13 \<or> position = 18 \<or> position = 23"

section \<open>Parsing and formatting\<close>

text \<open>The loop over the sixteen bytes; \<open>n\<close> bytes remain and \<open>position\<close> is the next character.\<close>

fun parse_bytes :: "string \<Rightarrow> nat \<Rightarrow> nat \<Rightarrow> (exn, uuid) result" where
  "parse_bytes text 0 position = Inr []"
| "parse_bytes text (Suc n) position =
     (let start = (if separator_at position then position + 1 else position)
      in bindR (throwIf (separator_at position \<and> text ! position \<noteq> CHR ''-'') uuid_format_error)
           (\<lambda>_. bindR (hexDigit (text ! start))
           (\<lambda>high. bindR (hexDigit (text ! (start + 1)))
           (\<lambda>low. bindR (parse_bytes text n (start + 2))
           (\<lambda>rest. Inr (ucast ((push_bit 4 high) OR low) # rest))))))"

definition Uuid_parse :: "string \<Rightarrow> (exn, uuid) result" where
  "Uuid_parse text =
     bindR (throwIf (length text \<noteq> 36) uuid_format_error) (\<lambda>_. parse_bytes text 16 0)"

text \<open>\<^verbatim>\<open>toString\<close> starts from 36 dashes and overwrites two characters per byte.\<close>

fun write_bytes :: "uuid \<Rightarrow> nat \<Rightarrow> string \<Rightarrow> string" where
  "write_bytes [] position text = text"
| "write_bytes (b # bs) position text =
     (let start = (if separator_at position then position + 1 else position);
          number = (ucast b :: u32)
      in write_bytes bs (start + 2)
           (text[start := hex_digits ! unat (drop_bit 4 number),
                 start + 1 := hex_digits ! unat (number AND 0x0f)]))"

definition Uuid_toString :: "uuid \<Rightarrow> string" where
  "Uuid_toString u = write_bytes u 0 (replicate 36 (CHR ''-''))"

section \<open>Digits round trip\<close>

lemma length_hex_digits [simp]: "length hex_digits = 16"
  by (simp add: hex_digits_def)

lemma hexDigit_hex_digits_all:
  "list_all (\<lambda>k. hexDigit (hex_digits ! k) = Inr (of_nat k)) [0..<16]"
  by code_simp

lemma hexDigit_hex_digits [simp]: "k < 16 \<Longrightarrow> hexDigit (hex_digits ! k) = Inr (of_nat k)"
  using hexDigit_hex_digits_all by (simp add: list_all_iff)

lemma nibble_high_less: "unat (drop_bit 4 (ucast b :: u32)) < 16" for b :: byte
proof -
  have lt: "unat b < 2 ^ 8" using unsigned_less [of b] by simp
  have "unat (drop_bit 4 (ucast b :: u32)) = drop_bit 4 (unat (ucast b :: u32))"
    by (rule unat_drop_bit_eq)
  moreover have "unat (ucast b :: u32) = unat b"
    using lt by (simp add: unsigned_ucast_eq take_bit_nat_eq_self)
  ultimately show ?thesis using lt by (simp add: drop_bit_eq_div)
qed

lemma nibble_low_less: "unat ((ucast b :: u32) AND 15) < 16" for b :: byte
proof -
  have "(ucast b :: u32) AND 15 \<le> 15" by (rule word_and_le1)
  then show ?thesis by (simp add: word_le_nat_alt)
qed

lemma nibbles_join: "ucast (push_bit 4 (drop_bit 4 (ucast b :: u32)) OR (ucast b AND 15)) = b"
  for b :: byte
proof (rule bit_word_eqI)
  fix n assume "n < LENGTH(8)"
  moreover have "bit (15 :: u32) n \<longleftrightarrow> n < 4"
  proof -
    have "(15 :: u32) = mask 4" by (simp add: mask_eq_exp_minus_1)
    with \<open>n < LENGTH(8)\<close> show ?thesis by (simp only: bit_mask_iff) simp
  qed
  ultimately show
    "bit (ucast (push_bit 4 (drop_bit 4 (ucast b :: u32)) OR (ucast b AND 15)) :: byte) n = bit b n"
    by (auto simp: bit_simps)
qed

lemma hexDigit_nibbles [simp]:
  "hexDigit (hex_digits ! unat (drop_bit 4 (ucast b :: u32))) = Inr (drop_bit 4 (ucast b))"
  "hexDigit (hex_digits ! unat ((ucast b :: u32) AND 15)) = Inr (ucast b AND 15)"
  for b :: byte
  using nibble_high_less [of b] nibble_low_less [of b] by simp_all

section \<open>The text layout\<close>

text \<open>The two characters of a byte, and the layout the loop of \<^verbatim>\<open>toString\<close> produces.\<close>

definition hex2 :: "byte \<Rightarrow> string" where
  "hex2 b = [hex_digits ! unat (drop_bit 4 (ucast b :: u32)),
             hex_digits ! unat ((ucast b :: u32) AND 15)]"

fun layout :: "uuid \<Rightarrow> nat \<Rightarrow> string" where
  "layout [] position = []"
| "layout (b # bs) position =
     (if separator_at position then CHR ''-'' # hex2 b @ layout bs (position + 3)
      else hex2 b @ layout bs (position + 2))"

lemma length_hex2 [simp]: "length (hex2 b) = 2"
  by (simp add: hex2_def)

lemma write_bytes_layout:
  "length pre = position \<Longrightarrow>
   write_bytes bs position (pre @ replicate (length (layout bs position)) (CHR ''-'')) =
   pre @ layout bs position"
proof (induction bs arbitrary: pre position)
  case (Cons b bs)
  show ?case
  proof (cases "separator_at position")
    case True
    with Cons.IH [of "pre @ CHR ''-'' # hex2 b" "position + 3"] Cons.prems show ?thesis
      by (simp add: hex2_def list_update_append Let_def numeral_3_eq_3)
  next
    case False
    with Cons.IH [of "pre @ hex2 b" "position + 2"] Cons.prems show ?thesis
      by (simp add: hex2_def list_update_append Let_def)
  qed
qed simp

lemma parse_bytes_layout:
  "length pre = position \<Longrightarrow>
   parse_bytes (pre @ layout bs position @ post) (length bs) position = Inr bs"
proof (induction bs arbitrary: pre position)
  case (Cons b bs)
  show ?case
  proof (cases "separator_at position")
    case True
    with Cons.IH [of "pre @ CHR ''-'' # hex2 b" "position + 3"] Cons.prems show ?thesis
      by (simp add: hex2_def nth_append Let_def nibbles_join numeral_3_eq_3)
  next
    case False
    with Cons.IH [of "pre @ hex2 b" "position + 2"] Cons.prems show ?thesis
      by (simp add: hex2_def nth_append Let_def nibbles_join)
  qed
qed simp

fun layout_length :: "nat \<Rightarrow> nat \<Rightarrow> nat" where
  "layout_length 0 position = 0"
| "layout_length (Suc n) position =
     (if separator_at position then 3 + layout_length n (position + 3)
      else 2 + layout_length n (position + 2))"

lemma length_layout_length: "length (layout bs position) = layout_length (length bs) position"
  by (induction bs arbitrary: position) auto

lemma length_layout: "length bs = 16 \<Longrightarrow> length (layout bs 0) = 36"
proof -
  assume "length bs = 16"
  moreover have "layout_length 16 0 = 36" by code_simp
  ultimately show ?thesis by (simp add: length_layout_length)
qed

lemma Uuid_toString_layout: "length u = 16 \<Longrightarrow> Uuid_toString u = layout u 0"
  using write_bytes_layout [of "[]" 0 u] by (simp add: Uuid_toString_def length_layout)

text \<open>What a successful parse has read: the layout, up to the case of the hexadecimal letters.\<close>

definition hex_lower :: "char \<Rightarrow> char" where
  "hex_lower c = (if between (CHR ''A'') (CHR ''F'') c then char_of (code c + 32) else c)"

lemma code_hex_lower:
  "code (hex_lower c) = (if 65 \<le> code c \<and> code c \<le> 70 then code c + 32 else code c)"
  by (simp add: hex_lower_def between_def)

lemma hex_lower_dash [simp]: "hex_lower c = CHR ''-'' \<longleftrightarrow> c = CHR ''-''"
proof -
  have "hex_lower c = CHR ''-'' \<longleftrightarrow> code (hex_lower c) = code (CHR ''-'')"
    by (simp only: of_char_eq_iff)
  also have "\<dots> \<longleftrightarrow> code c = code (CHR ''-'')"
    by (auto simp: code_hex_lower)
  finally show ?thesis by (simp only: of_char_eq_iff)
qed

lemma hexDigit_hex_lower [simp]: "hexDigit (hex_lower c) = hexDigit c"
  by (auto simp: hexDigit_def between_def code_hex_lower)

lemma hex_digits_nth_all:
  "list_all (\<lambda>k. code (hex_digits ! k) = (if k < 10 then 48 + k else 87 + k)) [0..<16]"
  by code_simp

lemma code_hex_digits: "k < 16 \<Longrightarrow> code (hex_digits ! k) = (if k < 10 then 48 + k else 87 + k)"
  using hex_digits_nth_all by (simp add: list_all_iff)

lemma hexDigit_InrD:
  assumes "hexDigit c = Inr k"
  shows "unat k < 16 \<and> hex_digits ! unat k = hex_lower c"
proof -
  have unat_small: "unat (of_nat n :: u32) = n" if "n < 16" for n
    using that by (simp add: unat_of_nat take_bit_nat_eq_self)
  have "\<exists>n. k = of_nat n \<and> n < 16 \<and> (if n < 10 then 48 + n else 87 + n) = code (hex_lower c)"
  proof -
    consider "48 \<le> code c \<and> code c \<le> 57" | "97 \<le> code c \<and> code c \<le> 102"
      | "65 \<le> code c \<and> code c \<le> 70"
      using assms by (auto simp: hexDigit_def between_def split: if_splits)
    then show ?thesis
    proof cases
      case 1
      then show ?thesis using assms
        by (intro exI [of _ "code c - 48"]) (auto simp: hexDigit_def between_def code_hex_lower)
    next
      case 2
      then show ?thesis using assms
        by (intro exI [of _ "code c - 87"])
          (auto simp: hexDigit_def between_def code_hex_lower of_nat_diff)
    next
      case 3
      then show ?thesis using assms
        by (intro exI [of _ "code c - 55"])
          (auto simp: hexDigit_def between_def code_hex_lower of_nat_diff)
    qed
  qed
  then obtain n where n: "k = of_nat n" "n < 16" "code (hex_digits ! n) = code (hex_lower c)"
    by (auto simp: code_hex_digits)
  then show ?thesis by (simp add: unat_small)
qed

lemma parse_bytes_lower:
  "position + layout_length n position \<le> length text \<Longrightarrow>
   parse_bytes (map hex_lower text) n position = parse_bytes text n position"
proof (induction n arbitrary: position)
  case (Suc n)
  show ?case
  proof (cases "separator_at position")
    case True
    with Suc.IH [of "position + 3"] Suc.prems show ?thesis
      by (simp add: Let_def numeral_3_eq_3)
  next
    case False
    with Suc.IH [of "position + 2"] Suc.prems show ?thesis by (simp add: Let_def)
  qed
qed simp

lemma nibble_bit: "unat w < 16 \<Longrightarrow> bit w n \<Longrightarrow> n < 4" for w :: u32
proof -
  assume "unat w < 16" and b: "bit w n"
  then have "take_bit 4 w = w"
    by (intro unsigned_word_eqI [where 'a = nat])
      (simp add: unsigned_take_bit_eq take_bit_nat_eq_self)
  with b show "n < 4" by (metis bit_take_bit_iff)
qed

lemma bit_15 [simp]: "bit (15 :: int) n \<longleftrightarrow> n < 4"
proof -
  have "(15 :: int) = mask 4" by (simp add: mask_eq_exp_minus_1)
  then show ?thesis by (simp only: bit_mask_iff) auto
qed

lemma hex2_join:
  fixes high low :: u32
  assumes "unat high < 16" "unat low < 16"
  shows "hex2 (ucast (push_bit 4 high OR low)) = [hex_digits ! unat high, hex_digits ! unat low]"
    (is "hex2 ?b = _")
proof -
  have small: "bit high n \<Longrightarrow> n < 28" for n using nibble_bit [OF assms(1), of n] by simp
  have small_low: "bit low n \<Longrightarrow> n < 8" for n using nibble_bit [OF assms(2), of n] by simp
  have "drop_bit 4 (ucast ?b :: u32) = high"
    using nibble_bit [OF assms(1)] nibble_bit [OF assms(2)]
    by (intro bit_word_eqI) (auto simp: bit_simps intro: small)
  moreover have "(ucast ?b :: u32) AND 15 = low"
    using nibble_bit [OF assms(2)]
    by (intro bit_word_eqI) (auto simp: bit_simps intro: small_low)
  ultimately show ?thesis by (simp add: hex2_def)
qed

lemma parse_bytes_InrD:
  "parse_bytes text n position = Inr bs \<Longrightarrow> position + layout_length n position \<le> length text \<Longrightarrow>
   length bs = n \<and>
   map hex_lower (take (layout_length n position) (drop position text)) = layout bs position"
proof (induction n arbitrary: position bs)
  case (Suc n)
  define start where "start = (if separator_at position then position + 1 else position)"
  from Suc.prems(1) obtain high low rest where
    dash: "separator_at position \<Longrightarrow> text ! position = CHR ''-''"
    and high: "hexDigit (text ! start) = Inr high"
    and low: "hexDigit (text ! (start + 1)) = Inr low"
    and rest: "parse_bytes text n (start + 2) = Inr rest"
    and bs: "bs = ucast (push_bit 4 high OR low) # rest"
    by (auto simp: Let_def start_def)
  from Suc.prems(2) have len: "start + 2 + layout_length n (start + 2) \<le> length text"
    by (auto simp: start_def numeral_3_eq_3 split: if_splits)
  from Suc.IH [OF rest len] have ih: "length rest = n"
    "map hex_lower (take (layout_length n (start + 2)) (drop (start + 2) text)) =
     layout rest (start + 2)" by auto
  have two: "hex2 (ucast (push_bit 4 high OR low)) =
      [hex_lower (text ! start), hex_lower (text ! (start + 1))]"
    using hexDigit_InrD [OF high] hexDigit_InrD [OF low] by (simp add: hex2_join)
  have step: "take (2 + k) (drop start text) =
      text ! start # text ! (start + 1) # take k (drop (start + 2) text)" for k
    using len by (simp add: Cons_nth_drop_Suc [symmetric])
  show ?case
    using ih two step bs dash len
    by (auto simp: start_def numeral_3_eq_3 Cons_nth_drop_Suc [symmetric] split: if_splits)
qed simp

section \<open>Text codecs\<close>

text \<open>
  The contract between a value type and its database text: formatting a valid value succeeds,
  and parsing the text gives the value back. Clients (literals of generated migrations, bound
  parameters, the check of migrated values) rest on its consequences.
\<close>

locale text_codec =
  fixes valid :: "'v \<Rightarrow> bool"
    and format :: "'v \<Rightarrow> ('e, string) result"
    and parse :: "string \<Rightarrow> ('e, 'v) result"
  assumes format_ok: "valid v \<Longrightarrow> \<exists>t. format v = Inr t"
    and parse_format: "valid v \<Longrightarrow> format v = Inr t \<Longrightarrow> parse t = Inr v"
begin

lemma round_trip: "valid v \<Longrightarrow> bindR (format v) parse = Inr v"
  by (auto dest: format_ok parse_format)

lemma format_inj:
  assumes "valid v" "valid w" "format v = format w"
  shows "v = w"
proof -
  from format_ok [OF assms(1)] obtain t where t: "format v = Inr t" ..
  with assms have "parse t = Inr v" "parse t = Inr w" by (auto intro: parse_format)
  then show ?thesis by simp
qed

lemma parse_onto: "valid v \<Longrightarrow> \<exists>t. parse t = Inr v"
  by (blast dest: format_ok intro: parse_format)

end

interpretation uuid_codec: text_codec uuid_ok "\<lambda>u. Inr (Uuid_toString u)" Uuid_parse
proof unfold_locales
  fix v :: uuid and t :: string
  assume ok: "uuid_ok v" and "Inr (Uuid_toString v) = (Inr t :: (exn, string) result)"
  then have t: "t = layout v 0" by (simp add: uuid_ok_def Uuid_toString_layout)
  have "parse_bytes t 16 0 = Inr v"
    using parse_bytes_layout [of "[]" 0 v "[]"] ok t by (simp add: uuid_ok_def)
  then show "Uuid_parse t = Inr v"
    using ok t by (simp add: Uuid_parse_def uuid_ok_def length_layout)
qed simp

text \<open>
  Every 128-bit UUID survives the trip through text: \<^verbatim>\<open>Uuid::parse(u.toString())\<close> returns
  \<open>u\<close> for all sixteen-byte values, without exception.
\<close>

theorem Uuid_round_trip:
  assumes "length u = 16"
  shows "Uuid_parse (Uuid_toString u) = Inr u"
  using uuid_codec.round_trip [of u] assms by (simp add: uuid_ok_def)

theorem Uuid_round_trip_witness:
  "length (replicate 16 (0xA5 :: byte)) = 16 \<and>
   Uuid_parse (Uuid_toString (replicate 16 0xA5)) = Inr (replicate 16 0xA5)"
  using Uuid_round_trip [of "replicate 16 0xA5"] by simp

text \<open>
  \<^verbatim>\<open>Uuid::parse\<close> accepts exactly the 8-4-4-4-12 hexadecimal texts: it returns \<open>u\<close> if and
  only if \<open>u\<close> has sixteen bytes and the input, with its letters A to F lowered, is the text
  \<^verbatim>\<open>u.toString()\<close>. Both directions, every input string.
\<close>

theorem Uuid_parse_iff:
  "Uuid_parse s = Inr u \<longleftrightarrow> length u = 16 \<and> map hex_lower s = Uuid_toString u"
proof
  have total: "layout_length 16 0 = 36" by code_simp
  assume "Uuid_parse s = Inr u"
  then have len: "length s = 36" and parsed: "parse_bytes s 16 0 = Inr u"
    by (auto simp: Uuid_parse_def)
  from parse_bytes_InrD [OF parsed] len total
  show "length u = 16 \<and> map hex_lower s = Uuid_toString u"
    by (simp add: Uuid_toString_layout)
next
  have total: "layout_length 16 0 = 36" by code_simp
  assume u: "length u = 16 \<and> map hex_lower s = Uuid_toString u"
  then have "length (map hex_lower s) = 36"
    using u by (simp only: Uuid_toString_layout length_layout)
  then have len: "length s = 36" by simp
  have "parse_bytes (map hex_lower s) 16 0 = Inr u"
    using parse_bytes_layout [of "[]" 0 u "[]"] u by (simp add: Uuid_toString_layout)
  with parse_bytes_lower [of 0 16 s] len total show "Uuid_parse s = Inr u"
    by (simp add: Uuid_parse_def)
qed

end
