(* ===== verification/Orm_Sha256.thy ===== *)
theory Orm_Sha256
  imports Orm_Uuid
begin

text \<open>
  \<^verbatim>\<open>sha256\<close> of \<^verbatim>\<open>src/migrations/Catalog.cpp\<close>: padding, message schedule, the 64 rounds of the
  compression function on 32-bit words and the hexadecimal digest. Checksums of migrations and
  the names of generated constraints are built from it.
\<close>

unbundle bit_operations_syntax

type_synonym u64 = "64 word"

definition sha_constants :: "u32 list" where
  "sha_constants = concat
     [[0x428a2f98, 0x71374491, 0xb5c0fbcf, 0xe9b5dba5, 0x3956c25b, 0x59f111f1, 0x923f82a4, 0xab1c5ed5],
      [0xd807aa98, 0x12835b01, 0x243185be, 0x550c7dc3, 0x72be5d74, 0x80deb1fe, 0x9bdc06a7, 0xc19bf174],
      [0xe49b69c1, 0xefbe4786, 0x0fc19dc6, 0x240ca1cc, 0x2de92c6f, 0x4a7484aa, 0x5cb0a9dc, 0x76f988da],
      [0x983e5152, 0xa831c66d, 0xb00327c8, 0xbf597fc7, 0xc6e00bf3, 0xd5a79147, 0x06ca6351, 0x14292967],
      [0x27b70a85, 0x2e1b2138, 0x4d2c6dfc, 0x53380d13, 0x650a7354, 0x766a0abb, 0x81c2c92e, 0x92722c85],
      [0xa2bfe8a1, 0xa81a664b, 0xc24b8b70, 0xc76c51a3, 0xd192e819, 0xd6990624, 0xf40e3585, 0x106aa070],
      [0x19a4c116, 0x1e376c08, 0x2748774c, 0x34b0bcb5, 0x391c0cb3, 0x4ed8aa4a, 0x5b9cca4f, 0x682e6ff3],
      [0x748f82ee, 0x78a5636f, 0x84c87814, 0x8cc70208, 0x90befffa, 0xa4506ceb, 0xbef9a3f7, 0xc67178f2]]"

definition sha_initial :: "u32 list" where
  "sha_initial =
     [0x6a09e667, 0xbb67ae85, 0x3c6ef372, 0xa54ff53a] @ [0x510e527f, 0x9b05688c, 0x1f83d9ab, 0x5be0cd19]"

section \<open>Padding\<close>

definition byte_of :: "char \<Rightarrow> byte" where
  "byte_of c = of_nat (code c)"

text \<open>The loop \<^verbatim>\<open>while (data.size() % 64 != 56) data.push_back(0)\<close>.\<close>

function pad_zeros :: "byte list \<Rightarrow> byte list" where
  "pad_zeros data = (if length data mod 64 \<noteq> 56 then pad_zeros (data @ [0]) else data)"
  by pat_completeness auto

text \<open>How many more zero bytes the loop appends.\<close>

definition pad_missing :: "byte list \<Rightarrow> nat" where
  "pad_missing data = (120 - length data mod 64) mod 64"

lemma pad_missing_step:
  assumes "length data mod 64 \<noteq> 56"
  shows "pad_missing data = Suc (pad_missing (data @ [0]))"
proof -
  define r where "r = length data mod 64"
  have "\<forall>r < 64. r \<noteq> 56 \<longrightarrow> (120 - r) mod 64 = Suc ((120 - (r + 1) mod 64) mod 64 :: nat)"
    by code_simp
  moreover have "r < 64" "r \<noteq> 56" using assms by (auto simp: r_def)
  moreover have "(length data + 1) mod 64 = (r + 1) mod 64" by (simp add: r_def mod_simps)
  ultimately show ?thesis by (simp add: pad_missing_def r_def [symmetric])
qed

termination pad_zeros
  by (relation "measure pad_missing") (auto dest: pad_missing_step)

declare pad_zeros.simps [simp del]

definition length_bytes :: "u64 \<Rightarrow> byte list" where
  "length_bytes bitLength =
     map (\<lambda>shift. ucast (drop_bit shift bitLength)) [56, 48, 40, 32, 24, 16, 8, 0]"

definition sha_padded :: "string \<Rightarrow> byte list" where
  "sha_padded bytes =
     (let data = map byte_of bytes;
          bitLength = of_nat (length data) * 8 :: u64
      in pad_zeros (data @ [0x80]) @ length_bytes bitLength)"

section \<open>Compression\<close>

definition block_word :: "byte list \<Rightarrow> nat \<Rightarrow> u32" where
  "block_word block i =
     foldl (\<lambda>word b. push_bit 8 word OR ucast b) 0 (take 4 (drop (i * 4) block))"

definition next_word :: "u32 list \<Rightarrow> u32" where
  "next_word words =
     (let i = length words; a = words ! (i - 15); b = words ! (i - 2)
      in words ! (i - 16) + (word_rotr 7 a XOR word_rotr 18 a XOR drop_bit 3 a) + words ! (i - 7)
         + (word_rotr 17 b XOR word_rotr 19 b XOR drop_bit 10 b))"

text \<open>The loop that fills the words from index 16 up to 64.\<close>

fun extend_schedule :: "nat \<Rightarrow> u32 list \<Rightarrow> u32 list" where
  "extend_schedule 0 words = words"
| "extend_schedule (Suc n) words = extend_schedule n (words @ [next_word words])"

definition message_schedule :: "byte list \<Rightarrow> u32 list" where
  "message_schedule block = extend_schedule 48 (map (block_word block) [0..<16])"

definition sha_round :: "u32 list \<Rightarrow> u32 \<times> u32 \<Rightarrow> u32 list" where
  "sha_round work = (\<lambda>(constant, word).
     let first = work ! 7 + (word_rotr 6 (work ! 4) XOR word_rotr 11 (work ! 4) XOR word_rotr 25 (work ! 4))
                 + ((work ! 4 AND work ! 5) XOR (NOT (work ! 4) AND work ! 6)) + constant + word;
         second = (word_rotr 2 (work ! 0) XOR word_rotr 13 (work ! 0) XOR word_rotr 22 (work ! 0))
                 + ((work ! 0 AND work ! 1) XOR (work ! 0 AND work ! 2) XOR (work ! 1 AND work ! 2))
     in [first + second, work ! 0, work ! 1, work ! 2, work ! 3 + first, work ! 4, work ! 5, work ! 6])"

definition sha_compress :: "u32 list \<Rightarrow> byte list \<Rightarrow> u32 list" where
  "sha_compress state block =
     map2 (+) state (foldl sha_round state (zip sha_constants (message_schedule block)))"

fun sha_blocks :: "u32 list \<Rightarrow> byte list \<Rightarrow> u32 list" where
  "sha_blocks state data =
     (if data = [] then state else sha_blocks (sha_compress state (take 64 data)) (drop 64 data))"

declare sha_blocks.simps [simp del]

section \<open>Digest\<close>

definition word_hex :: "u32 \<Rightarrow> string" where
  "word_hex word =
     map (\<lambda>shift. hex_digits ! unat (drop_bit shift word AND 15)) [28, 24, 20, 16, 12, 8, 4, 0]"

definition sha256 :: "string \<Rightarrow> string" where
  "sha256 bytes = concat (map word_hex (sha_blocks sha_initial (sha_padded bytes)))"

section \<open>Shape\<close>

lemma pad_zeros_length:
  "length (pad_zeros data) mod 64 = 56" "length (pad_zeros data) = length data + pad_missing data"
proof (induction data rule: pad_zeros.induct)
  case (1 data)
  show "length (pad_zeros data) mod 64 = 56"
    using "1.IH"(1) by (subst pad_zeros.simps) simp
  show "length (pad_zeros data) = length data + pad_missing data"
    using "1.IH"(2) pad_missing_step [of data]
    by (subst pad_zeros.simps) (auto simp: pad_missing_def)
qed

lemma pad_zeros_prefix: "\<exists>n. pad_zeros data = data @ replicate n 0"
proof (induction data rule: pad_zeros.induct)
  case (1 data)
  show ?case
  proof (cases "length data mod 64 = 56")
    case True
    then have "pad_zeros data = data @ replicate 0 0" by (subst pad_zeros.simps) simp
    then show ?thesis ..
  next
    case False
    with 1 obtain n where "pad_zeros (data @ [0]) = (data @ [0]) @ replicate n 0" by blast
    with False have "pad_zeros data = data @ replicate (Suc n) 0" by (subst pad_zeros.simps) simp
    then show ?thesis ..
  qed
qed

lemma length_sha_round [simp]: "length (sha_round work cw) = 8"
  by (simp add: sha_round_def Let_def split: prod.split)

lemma length_foldl_round: "length work = 8 \<Longrightarrow> length (foldl sha_round work cws) = 8"
  by (induction cws arbitrary: work) auto

lemma length_sha_compress [simp]: "length state = 8 \<Longrightarrow> length (sha_compress state block) = 8"
  by (simp add: sha_compress_def length_foldl_round)

lemma length_sha_blocks: "length state = 8 \<Longrightarrow> length (sha_blocks state data) = 8"
proof (induction state data rule: sha_blocks.induct)
  case (1 state data)
  then show ?case by (subst sha_blocks.simps) simp
qed

lemma length_word_hex [simp]: "length (word_hex w) = 8"
  by (simp add: word_hex_def)

lemma word_hex_digits: "c \<in> set (word_hex w) \<Longrightarrow> c \<in> set hex_digits"
proof -
  have "unat (v AND 15) < length hex_digits" for v :: u32
  proof -
    have "v AND 15 \<le> 15" by (rule word_and_le1)
    then have "unat (v AND 15) \<le> unat (15 :: u32)" by (simp only: word_le_nat_alt)
    then show ?thesis by (simp add: hex_digits_def)
  qed
  then show "c \<in> set (word_hex w) \<Longrightarrow> c \<in> set hex_digits" by (auto simp: word_hex_def)
qed

lemma sha256_digits: "c \<in> set (sha256 s) \<Longrightarrow> c \<in> set hex_digits"
  by (auto simp: sha256_def dest: word_hex_digits)

lemma length_concat_const: "\<forall>x \<in> set xs. length x = n \<Longrightarrow> length (concat xs) = length xs * n"
  by (induction xs) auto

lemma length_sha256 [simp]: "length (sha256 s) = 64"
proof -
  have "length (sha_blocks sha_initial (sha_padded s)) = 8"
    by (rule length_sha_blocks) (simp add: sha_initial_def)
  then show ?thesis by (simp add: sha256_def length_concat_const [where n = 8])
qed

section \<open>Properties\<close>

text \<open>
  Padding and digest shape, for every input: the padded message is the input, one byte
  \<^verbatim>\<open>0x80\<close>, fewer than 64 zero bytes and the 64-bit length, and fills whole 64-byte blocks; the
  digest is 64 lower-case hexadecimal digits.
\<close>

theorem sha256_shape:
  "(\<exists>zeros < 64. sha_padded s =
      map byte_of s @ 0x80 # replicate zeros 0 @ length_bytes (of_nat (length s) * 8)) \<and>
   64 dvd length (sha_padded s) \<and>
   length (sha256 s) = 64 \<and> set (sha256 s) \<subseteq> set hex_digits"
proof -
  define data where "data = map byte_of s @ [0x80]"
  have padded: "sha_padded s = pad_zeros data @ length_bytes (of_nat (length s) * 8)"
    by (simp add: sha_padded_def data_def Let_def)
  obtain zeros where zeros: "pad_zeros data = data @ replicate zeros 0"
    using pad_zeros_prefix by blast
  then have "zeros = pad_missing data" using pad_zeros_length(2) [of data] by simp
  then have "zeros < 64" by (simp add: pad_missing_def)
  with zeros padded have "\<exists>zeros < 64. sha_padded s =
      map byte_of s @ 0x80 # replicate zeros 0 @ length_bytes (of_nat (length s) * 8)"
    by (auto simp: data_def)
  moreover have "64 dvd length (sha_padded s)"
    using pad_zeros_length(1) [of data] by (simp add: padded length_bytes_def) presburger
  ultimately show ?thesis using sha256_digits [of _ s] by auto
qed

text \<open>
  The published test vectors of FIPS 180-4: the digests of the empty message and of
  \<^verbatim>\<open>abc\<close>.
\<close>

theorem sha256_test_vectors:
  "sha256 '''' = ''e3b0c44298fc1c149afbf4c8996fb92427ae41e4649b934ca495991b7852b855'' \<and>
   sha256 ''abc'' = ''ba7816bf8f01cfea414140de5dae2223b00361a396177a9cb410ff61f20015ad''"
  by code_simp

end
