(* ===== verification/Orm_Model.thy ===== *)
theory Orm_Model
  imports Orm_Foundation
begin

text \<open>
  The immutable model views of \<^verbatim>\<open>modules/orm/model/views.cppm\<close>. A schema view is the list of its
  models; a \<^verbatim>\<open>ModelView\<close> handle is the data of one model of it, and an invalid handle is \<open>None\<close>.
\<close>

datatype field_kind = ScalarField | ToOneField

record column_view =
  cv_fieldIndex :: nat
  cv_fieldName :: string
  cv_name :: string
  cv_type :: "column_type option"
  cv_kind :: field_kind
  cv_targetModelIndex :: "nat option"
  cv_isPrimaryKey :: bool
  cv_isAutoIncrement :: bool
  cv_isNotNull :: bool
  cv_maxStringLength :: "nat option"

record junction_view =
  jv_tableName :: string
  jv_ownerColumns :: "string list"
  jv_targetColumns :: "string list"
  jv_owningSide :: bool

definition no_junction :: junction_view where
  "no_junction = \<lparr>jv_tableName = [], jv_ownerColumns = [], jv_targetColumns = [], jv_owningSide = False\<rparr>"

definition isConfigured :: "junction_view \<Rightarrow> bool" where
  "isConfigured j \<longleftrightarrow> jv_tableName j \<noteq> []"

record relation_view =
  rv_fieldIndex :: nat
  rv_fieldName :: string
  rv_columnName :: string
  rv_kind :: relation_kind
  rv_mappedBy :: string
  rv_nullable :: bool
  rv_targetModelIndex :: "nat option"
  rv_junction :: junction_view

record model_data =
  md_schemaIndex :: nat
  md_typeName :: string
  md_tableName :: string
  md_columns :: "column_view list"
  md_primaryKeyIndices :: "nat list"
  md_relations :: "relation_view list"

type_synonym schema_view = "model_data list"

section \<open>Lookups\<close>

definition findColumn :: "model_data \<Rightarrow> string \<Rightarrow> column_view option" where
  "findColumn m nm = find (\<lambda>c. cv_fieldName c = nm \<or> cv_name c = nm) (md_columns m)"

definition findRelationField :: "model_data \<Rightarrow> string \<Rightarrow> relation_view option" where
  "findRelationField m nm = find (\<lambda>r. rv_fieldName r = nm) (md_relations m)"

definition findRelation :: "model_data \<Rightarrow> string \<Rightarrow> relation_view option" where
  "findRelation m nm =
     (case find (\<lambda>r. rv_fieldName r = nm) (md_relations m) of
        Some r \<Rightarrow> Some r
      | None \<Rightarrow> find (\<lambda>r. rv_columnName r = nm) (md_relations m))"

definition schema_at :: "schema_view \<Rightarrow> nat \<Rightarrow> model_data option" where
  "schema_at schema index = (if index < length schema then Some (schema ! index) else None)"

definition findTable :: "schema_view \<Rightarrow> string \<Rightarrow> model_data option" where
  "findTable schema nm = find (\<lambda>m. md_tableName m = nm) schema"

definition resolveTarget_column :: "schema_view \<Rightarrow> column_view \<Rightarrow> model_data option" where
  "resolveTarget_column schema c =
     (if cv_kind c \<noteq> ToOneField then None
      else case cv_targetModelIndex c of None \<Rightarrow> None | Some i \<Rightarrow> schema_at schema i)"

definition resolveTarget_relation :: "schema_view \<Rightarrow> relation_view \<Rightarrow> model_data option" where
  "resolveTarget_relation schema r =
     (case rv_targetModelIndex r of None \<Rightarrow> None | Some i \<Rightarrow> schema_at schema i)"

definition resolveJunction :: "schema_view \<Rightarrow> relation_view \<Rightarrow> junction_view" where
  "resolveJunction schema r =
     (if isConfigured (rv_junction r) then rv_junction r
      else if rv_kind r \<noteq> ManyToMany \<or> rv_mappedBy r = [] then no_junction
      else case resolveTarget_relation schema r of
        None \<Rightarrow> no_junction
      | Some target \<Rightarrow>
          (case findRelationField target (rv_mappedBy r) of
             None \<Rightarrow> no_junction
           | Some owning \<Rightarrow>
               if rv_kind owning \<noteq> ManyToMany \<or> \<not> isConfigured (rv_junction owning) then no_junction
               else \<lparr>jv_tableName = jv_tableName (rv_junction owning),
                     jv_ownerColumns = jv_targetColumns (rv_junction owning),
                     jv_targetColumns = jv_ownerColumns (rv_junction owning),
                     jv_owningSide = False\<rparr>))"

definition primaryKeySize :: "model_data \<Rightarrow> nat" where
  "primaryKeySize m = length (md_primaryKeyIndices m)"

section \<open>Facts\<close>

lemma findColumn_Some:
  "findColumn m nm = Some c \<Longrightarrow> c \<in> set (md_columns m) \<and> (cv_fieldName c = nm \<or> cv_name c = nm)"
  by (auto simp: findColumn_def find_Some_iff)

lemma findRelation_Some: "findRelation m nm = Some r \<Longrightarrow> r \<in> set (md_relations m)"
  by (auto simp: findRelation_def find_Some_iff split: option.splits)

lemma schema_at_Some: "schema_at schema i = Some m \<Longrightarrow> m \<in> set schema"
  by (auto simp: schema_at_def split: if_splits)

lemma resolveTarget_column_mem: "resolveTarget_column schema c = Some m \<Longrightarrow> m \<in> set schema"
  by (auto simp: resolveTarget_column_def dest: schema_at_Some split: if_splits option.splits)

text \<open>
  The inverse side of a many-to-many relation reads the junction of the owning side with the two
  column lists exchanged, so both sides name the same columns of the same table.
\<close>

lemma resolveJunction_inverse:
  assumes "\<not> isConfigured (rv_junction r)" "isConfigured (resolveJunction schema r)"
  obtains target owning where "resolveTarget_relation schema r = Some target"
    "findRelationField target (rv_mappedBy r) = Some owning" "rv_kind owning = ManyToMany"
    "jv_tableName (resolveJunction schema r) = jv_tableName (rv_junction owning)"
    "jv_ownerColumns (resolveJunction schema r) = jv_targetColumns (rv_junction owning)"
    "jv_targetColumns (resolveJunction schema r) = jv_ownerColumns (rv_junction owning)"
    "\<not> jv_owningSide (resolveJunction schema r)"
proof -
  have "\<not> isConfigured no_junction" by (simp add: isConfigured_def no_junction_def)
  with assms that show thesis
    by (auto simp: resolveJunction_def split: if_splits option.splits)
qed

end
