(* ===== verification/Orm_Schema.thy ===== *)
theory Orm_Schema
  imports Orm_Sha256 Orm_Model "HOL-Library.Product_Lexorder" "HOL-Library.Multiset"
begin

text \<open>
  The physical schema of \<^verbatim>\<open>modules/orm/migrations/schema.cppm\<close> and the first half of
  \<^verbatim>\<open>src/migrations/SchemaSnapshot.cpp\<close>: identifiers, generated constraint names, physical SQL
  types and the grammar of SQL types a snapshot may contain. Physical records are values: two
  schemas are equal exactly when all their fields are, which is what the defaulted
  \<^verbatim>\<open>operator==\<close> of the source computes.
\<close>

section \<open>Data\<close>

record physical_column =
  pc_name :: string
  pc_logicalType :: column_type
  pc_sqlType :: string
  pc_nullable :: bool
  pc_maxStringLength :: "nat option"
  pc_autoIncrement :: bool

record physical_foreign_key =
  fk_name :: string
  fk_columns :: "string list"
  fk_targetTable :: string
  fk_targetColumns :: "string list"
  fk_onDelete :: string
  fk_onUpdate :: string

record physical_index =
  ix_name :: string
  ix_columns :: "string list"
  ix_unique :: bool

record physical_table =
  tb_name :: string
  tb_columns :: "physical_column list"
  tb_primaryKey :: "string list"
  tb_primaryKeyName :: string
  tb_foreignKeys :: "physical_foreign_key list"
  tb_indexes :: "physical_index list"
  tb_options :: string

record physical_schema =
  sc_backend :: backend_type
  sc_profile :: string
  sc_tables :: "physical_table list"

record schema_snapshot =
  ss_formatVersion :: int
  ss_backends :: "(backend_type, physical_schema) omap"

datatype execution_mode = NormalMode | SqliteRebuildMode

record rebuild_table =
  rt_source :: string
  rt_target :: string
  rt_staging :: string
  rt_sourceIdentity :: "string option"
  rt_targetIdentity :: "string option"

record execution_context =
  ec_mode :: execution_mode
  ec_tables :: "string list"
  ec_rebuildTables :: "rebuild_table list"
  ec_source :: "physical_schema option"
  ec_target :: "physical_schema option"

definition generationBackends :: "backend_type list" where
  "generationBackends = [Sqlite, Postgres, Mysql, Mariadb]"

section \<open>Errors and names\<close>

definition invalid :: "string \<Rightarrow> backend_type \<Rightarrow> string \<Rightarrow> exn" where
  "invalid message backend path =
     GenerationError message
       [\<lparr>diag_code = ''invalid-snapshot'', diag_message = message, diag_path = path,
         diag_backend = backend, diag_error = True\<rparr>]"

definition requireBackend :: "backend_type \<Rightarrow> (exn, unit) result" where
  "requireBackend backend =
     throwIf (backend \<notin> set generationBackends)
       (invalid ''Unsupported schema-generation backend'' backend [])"

definition family :: "backend_type \<Rightarrow> bool" where
  "family backend \<longleftrightarrow> backend = Mysql \<or> backend = Mariadb"

definition backendName :: "backend_type \<Rightarrow> (exn, string) result" where
  "backendName backend =
     (if backend = Sqlite then Inr ''sqlite''
      else if backend = Postgres then Inr ''postgresql''
      else if backend = Mysql then Inr ''mysql''
      else if backend = Mariadb then Inr ''mariadb''
      else Inl (MigrationError UnsupportedBackend ''Unsupported migration backend'' 0 backend None))"

definition profile :: "backend_type \<Rightarrow> (exn, string) result" where
  "profile backend =
     bindR (requireBackend backend) (\<lambda>_. bindR (backendName backend)
       (\<lambda>name. Inr (''orm-cxx-ddl-v1:'' @ name)))"

definition validName :: "string \<Rightarrow> bool" where
  "validName name \<longleftrightarrow> name \<noteq> [] \<and> nul \<notin> set name"

definition requireName :: "string \<Rightarrow> backend_type \<Rightarrow> string \<Rightarrow> (exn, unit) result" where
  "requireName name backend path =
     bindR (throwIf (\<not> validName name)
              (invalid ''SQL identifiers must be nonempty and cannot contain NUL'' backend path))
       (\<lambda>_. bindR (throwIf (starts_with name ''__orm_'')
              (invalid ''SQL identifiers cannot use the generator's reserved __orm_ prefix'' backend path))
       (\<lambda>_. let maximum = (if backend = Postgres then 63 else if family backend then 64 else length name)
            in throwIf (length name > maximum)
                 (invalid ''SQL identifier exceeds the backend's supported identifier length'' backend path)))"

section \<open>Constraint names\<close>

definition appendToken :: "string \<Rightarrow> string \<Rightarrow> string" where
  "appendToken bytes value = bytes @ dec (length value) @ '':'' @ value"

definition constraint_bytes ::
  "string \<Rightarrow> string \<Rightarrow> string list \<Rightarrow> string \<Rightarrow> string list \<Rightarrow> string" where
  "constraint_bytes kind table columns target targetColumns =
     (let bytes = ''orm-cxx-constraint-v1:'';
          bytes = appendToken bytes kind;
          bytes = appendToken bytes table;
          bytes = appendToken bytes (dec (length columns));
          bytes = foldl appendToken bytes columns;
          bytes = appendToken bytes target;
          bytes = appendToken bytes (dec (length targetColumns))
      in foldl appendToken bytes targetColumns)"

definition constraintName ::
  "string \<Rightarrow> string \<Rightarrow> string list \<Rightarrow> string \<Rightarrow> string list \<Rightarrow> string" where
  "constraintName kind table columns target targetColumns =
     ''orm_'' @ kind @ ''_'' @ substr (sha256 (constraint_bytes kind table columns target targetColumns)) 0 24"

definition tableOptions :: "backend_type \<Rightarrow> string" where
  "tableOptions backend =
     (if \<not> family backend then []
      else ''ENGINE=InnoDB DEFAULT CHARACTER SET utf8mb4 COLLATE ''
           @ (if backend = Mysql then ''utf8mb4_0900_bin'' else ''utf8mb4_nopad_bin''))"

section \<open>Indexes that support foreign keys\<close>

definition supportsKey :: "string list \<Rightarrow> string list \<Rightarrow> bool" where
  "supportsKey indexColumns keyColumns \<longleftrightarrow>
     length keyColumns \<le> length indexColumns \<and> take (length keyColumns) indexColumns = keyColumns"

text \<open>The comparator sorts longer column lists first, then lexicographically.\<close>

definition key_before :: "physical_foreign_key \<Rightarrow> physical_foreign_key \<Rightarrow> bool" where
  "key_before left right \<longleftrightarrow>
     (if length (fk_columns left) \<noteq> length (fk_columns right)
      then length (fk_columns left) > length (fk_columns right)
      else fk_columns left < fk_columns right)"

fun insert_key :: "physical_foreign_key \<Rightarrow> physical_foreign_key list \<Rightarrow> physical_foreign_key list" where
  "insert_key k [] = [k]"
| "insert_key k (x # xs) = (if key_before x k then x # insert_key k xs else k # x # xs)"

definition sort_keys :: "physical_foreign_key list \<Rightarrow> physical_foreign_key list" where
  "sort_keys keys = foldr insert_key keys []"

definition add_key_index :: "physical_table \<Rightarrow> physical_foreign_key \<Rightarrow> physical_table" where
  "add_key_index table key =
     (if supportsKey (tb_primaryKey table) (fk_columns key) \<or>
         (\<exists>index \<in> set (tb_indexes table). supportsKey (ix_columns index) (fk_columns key))
      then table
      else table\<lparr>tb_indexes := tb_indexes table @
             [\<lparr>ix_name = constraintName ''fkidx'' (tb_name table) (fk_columns key) [] [],
               ix_columns = fk_columns key, ix_unique = False\<rparr>]\<rparr>)"

definition foreignKeyIndexes :: "physical_table \<Rightarrow> physical_table" where
  "foreignKeyIndexes table = foldl add_key_index table (sort_keys (tb_foreignKeys table))"

section \<open>Physical types\<close>

definition varchar :: "nat \<Rightarrow> string" where
  "varchar n = ''VARCHAR('' @ dec n @ '')''"

fun mysql_type :: "backend_type \<Rightarrow> column_type \<Rightarrow> nat option \<Rightarrow> string option" where
  "mysql_type _ BoolT _ = Some ''TINYINT''"
| "mysql_type _ CharT _ = Some ''SMALLINT''"
| "mysql_type _ UnsignedCharT _ = Some ''TINYINT UNSIGNED''"
| "mysql_type _ ShortT _ = Some ''SMALLINT''"
| "mysql_type _ UnsignedShortT _ = Some ''SMALLINT UNSIGNED''"
| "mysql_type _ IntT _ = Some ''INT''"
| "mysql_type _ UnsignedIntT _ = Some ''INT UNSIGNED''"
| "mysql_type _ LongLongT _ = Some ''BIGINT''"
| "mysql_type _ UnsignedLongLongT _ = Some ''BIGINT UNSIGNED''"
| "mysql_type _ FloatT _ = Some ''DOUBLE''"
| "mysql_type _ DoubleT _ = Some ''DOUBLE''"
| "mysql_type _ StringT len = Some (case len of Some n \<Rightarrow> varchar n | None \<Rightarrow> ''LONGTEXT'')"
| "mysql_type _ DateT _ = Some ''DATE''"
| "mysql_type _ TimeOfDayT _ = Some ''TIME(6)''"
| "mysql_type _ LocalDateTimeT _ = Some ''DATETIME(6)''"
| "mysql_type _ UtcTimestampT _ = Some ''TIMESTAMP(6)''"
| "mysql_type backend UuidT _ = (if backend = Mariadb then Some ''UUID'' else None)"

fun sqlite_type :: "column_type \<Rightarrow> string option" where
  "sqlite_type BoolT = Some ''BOOLEAN''"
| "sqlite_type CharT = Some ''TINYINT''"
| "sqlite_type UnsignedCharT = Some ''TINYINT''"
| "sqlite_type ShortT = Some ''SMALLINT''"
| "sqlite_type UnsignedShortT = Some ''SMALLINT''"
| "sqlite_type IntT = Some ''INTEGER''"
| "sqlite_type UnsignedIntT = Some ''UNSIGNED BIG INT''"
| "sqlite_type UnsignedLongLongT = Some ''UNSIGNED BIG INT''"
| "sqlite_type LongLongT = Some ''BIGINT''"
| "sqlite_type FloatT = Some ''REAL''"
| "sqlite_type DoubleT = Some ''REAL''"
| "sqlite_type StringT = Some ''TEXT''"
| "sqlite_type DateT = None"
| "sqlite_type TimeOfDayT = None"
| "sqlite_type LocalDateTimeT = None"
| "sqlite_type UtcTimestampT = None"
| "sqlite_type UuidT = None"

fun postgres_type :: "column_type \<Rightarrow> nat option \<Rightarrow> string" where
  "postgres_type BoolT _ = ''BOOLEAN''"
| "postgres_type CharT _ = ''SMALLINT''"
| "postgres_type UnsignedCharT _ = ''SMALLINT''"
| "postgres_type ShortT _ = ''SMALLINT''"
| "postgres_type UnsignedShortT _ = ''INTEGER''"
| "postgres_type IntT _ = ''INTEGER''"
| "postgres_type UnsignedIntT _ = ''BIGINT''"
| "postgres_type LongLongT _ = ''BIGINT''"
| "postgres_type UnsignedLongLongT _ = ''BIGINT''"
| "postgres_type FloatT _ = ''DOUBLE PRECISION''"
| "postgres_type DoubleT _ = ''DOUBLE PRECISION''"
| "postgres_type StringT len = (case len of Some n \<Rightarrow> varchar n | None \<Rightarrow> ''TEXT'')"
| "postgres_type DateT _ = ''DATE''"
| "postgres_type TimeOfDayT _ = ''TIME(6) WITHOUT TIME ZONE''"
| "postgres_type LocalDateTimeT _ = ''TIMESTAMP(6) WITHOUT TIME ZONE''"
| "postgres_type UtcTimestampT _ = ''TIMESTAMP(6) WITH TIME ZONE''"
| "postgres_type UuidT _ = ''UUID''"

definition length_ok :: "backend_type \<Rightarrow> column_type \<Rightarrow> nat option \<Rightarrow> bool" where
  "length_ok backend type len \<longleftrightarrow>
     (case len of None \<Rightarrow> True
      | Some n \<Rightarrow> \<not> (type \<noteq> StringT \<or> n = 0 \<or> (family backend \<and> n > 16383)))"

definition sqlType :: "backend_type \<Rightarrow> column_type \<Rightarrow> nat option \<Rightarrow> (exn, string) result" where
  "sqlType backend type len =
     bindR (requireBackend backend)
       (\<lambda>_. bindR (throwIf (\<not> length_ok backend type len)
                     (invalid ''String length is invalid for this column and backend'' backend []))
       (\<lambda>_. case (if family backend then mysql_type backend type len
                  else if backend = Sqlite then sqlite_type type
                  else Some (postgres_type type len)) of
              Some text \<Rightarrow> Inr text
            | None \<Rightarrow> Inl (invalid ''The logical column type has no supported physical SQL type''
                             backend [])))"

section \<open>The grammar of SQL types\<close>

text \<open>
  \<^verbatim>\<open>validSqlType\<close> moves a position through the text; here the state is the text that remains.
\<close>

definition type_letter :: "char \<Rightarrow> bool" where
  "type_letter c \<longleftrightarrow> is_upper c \<or> is_lower c \<or> c = CHR ''_''"

definition type_upper :: "char \<Rightarrow> char" where
  "type_upper c = (if is_lower c then char_of (code c - code (CHR ''a'') + code (CHR ''A'')) else c)"

definition skip_spaces :: "string \<Rightarrow> string" where
  "skip_spaces = dropWhile (\<lambda>c. c = CHR '' '')"

abbreviation type_word_char :: "char \<Rightarrow> bool" where
  "type_word_char \<equiv> \<lambda>c. type_letter c \<or> is_digit c"

text \<open>The lambda \<^verbatim>\<open>words\<close>: words joined by one space, until no space or no letter follows.\<close>

function type_words :: "string \<Rightarrow> string \<Rightarrow> string \<times> string" where
  "type_words name rest =
     (if rest = [] \<or> \<not> type_letter (hd rest) then (name, rest)
      else let name' = (if name \<noteq> [] then name @ '' '' else name)
                       @ map type_upper (takeWhile type_word_char rest);
               rest' = dropWhile type_word_char rest
           in if skip_spaces rest' = rest' then (name', rest')
              else type_words name' (skip_spaces rest'))"
  by pat_completeness auto

lemma length_skip_spaces: "length (skip_spaces s) \<le> length s"
  by (simp add: skip_spaces_def length_dropWhile_le)

termination type_words
proof (relation "measure (\<lambda>(name, rest). length rest)", simp)
  fix name rest x :: string and rest'
  assume "\<not> (rest = [] \<or> \<not> type_letter (hd rest))" "rest' = dropWhile type_word_char rest"
  then have "length rest' < length rest"
    by (cases rest) (auto simp: le_imp_less_Suc length_dropWhile_le)
  then show "((x, skip_spaces rest'), name, rest) \<in> measure (\<lambda>(name, rest). length rest)"
    using length_skip_spaces [of rest'] by simp
qed

declare type_words.simps [simp del]

text \<open>The lambda \<^verbatim>\<open>number\<close>: whether digits were read, and what follows them.\<close>

definition type_number :: "string \<Rightarrow> bool \<times> string" where
  "type_number rest =
     (let start = skip_spaces rest; rest' = skip_spaces (dropWhile is_digit start)
      in (length rest' < length start \<and> is_digit (hd start), rest'))"

text \<open>The argument list after the opening parenthesis, and the words after it.\<close>

definition type_arguments :: "string \<Rightarrow> string \<Rightarrow> (string \<times> string) option" where
  "type_arguments name rest =
     (case type_number rest of (ok, rest) \<Rightarrow>
        if \<not> ok then None
        else case (if rest \<noteq> [] \<and> hd rest = CHR '','' then type_number (tl rest) else (True, rest))
             of (ok, rest) \<Rightarrow>
               if \<not> ok then None
               else if rest = [] \<or> hd rest \<noteq> CHR '')'' then None
               else let close = tl rest; rest = skip_spaces close
                    in if rest = [] then Some (name, rest)
                       else if rest = close then None
                       else Some (type_words name rest))"

definition forbidden_types :: "string list" where
  "forbidden_types =
     [''DEFAULT'', ''CHECK'', ''CONSTRAINT'', ''PRIMARY'', ''KEY'', ''FOREIGN'', ''REFERENCES'',
      ''UNIQUE'', ''NOT'', ''NULL'', ''GENERATED'', ''AS'', ''STORED'', ''VIRTUAL'',
      ''NOTNULL'', ''COLLATE'', ''AUTOINCREMENT'', ''AUTO_INCREMENT'', ''INDEX'']"

definition multiword_types :: "string list" where
  "multiword_types =
     [''UNSIGNED BIG INT'', ''DOUBLE PRECISION'', ''BIG INT'', ''CHARACTER VARYING'', ''CHAR VARYING'',
      ''VARYING CHARACTER'', ''NATIONAL CHARACTER'', ''NATIONAL CHAR'', ''NATIONAL CHARACTER VARYING'',
      ''NATIONAL CHAR VARYING'', ''BIT VARYING'', ''TIME WITHOUT TIME ZONE'', ''TIME WITH TIME ZONE'',
      ''TIMESTAMP WITHOUT TIME ZONE'', ''TIMESTAMP WITH TIME ZONE'']"

definition numeric_types :: "string list" where
  "numeric_types =
     [''TINYINT'', ''SMALLINT'', ''MEDIUMINT'', ''INT'', ''INTEGER'', ''BIGINT'', ''DECIMAL'',
      ''NUMERIC'', ''FLOAT'', ''DOUBLE'', ''DOUBLE PRECISION'', ''REAL'']"

definition type_name_ok :: "string \<Rightarrow> bool" where
  "type_name_ok name \<longleftrightarrow>
     (if name \<in> set forbidden_types then False
      else if CHR '' '' \<notin> set name then True
      else if name \<in> set multiword_types then True
      else if ends_with name '' UNSIGNED''
           then take (length name - length '' UNSIGNED'') name \<in> set numeric_types
      else if ends_with name '' SIGNED''
           then take (length name - length '' SIGNED'') name \<in> set numeric_types
      else False)"

definition validSqlType :: "string \<Rightarrow> bool" where
  "validSqlType type =
     (case type_words [] (skip_spaces type) of (name, rest) \<Rightarrow>
        if name = [] then False
        else case (if rest \<noteq> [] \<and> hd rest = CHR ''('' then type_arguments name (tl rest)
                   else Some (name, rest)) of
               None \<Rightarrow> False
             | Some (name, rest) \<Rightarrow> if rest \<noteq> [] then False else type_name_ok name)"

definition validLogicalType :: "column_type \<Rightarrow> bool" where
  "validLogicalType type \<longleftrightarrow>
     type \<in> set [BoolT, CharT, UnsignedCharT, ShortT, UnsignedShortT, IntT, UnsignedIntT, LongLongT,
                 UnsignedLongLongT, FloatT, DoubleT, StringT, UuidT, DateT, TimeOfDayT,
                 LocalDateTimeT, UtcTimestampT]"

section \<open>Columns of a table\<close>

definition columnNamed :: "physical_table \<Rightarrow> string \<Rightarrow> physical_column option" where
  "columnNamed table name = find (\<lambda>c. pc_name c = name) (tb_columns table)"

fun column_list_ok :: "physical_table \<Rightarrow> backend_type \<Rightarrow> string list \<Rightarrow> string list \<Rightarrow> (exn, unit) result" where
  "column_list_ok table backend seen [] = Inr ()"
| "column_list_ok table backend seen (name # names) =
     bindR (throwIf (columnNamed table name = None \<or> name \<in> set seen)
              (invalid ''A key or index contains an unknown or duplicate column'' backend
                 (tb_name table @ ''.'' @ name)))
       (\<lambda>_. column_list_ok table backend (name # seen) names)"

definition requireColumnList ::
  "physical_table \<Rightarrow> string list \<Rightarrow> backend_type \<Rightarrow> bool \<Rightarrow> (exn, unit) result" where
  "requireColumnList table names backend allowEmpty =
     bindR (throwIf (names = [] \<and> \<not> allowEmpty)
              (invalid ''A key or index must have at least one column'' backend (tb_name table)))
       (\<lambda>_. column_list_ok table backend [] names)"

definition validAction :: "string \<Rightarrow> bool" where
  "validAction action \<longleftrightarrow>
     action = ''NO ACTION'' \<or> action = ''RESTRICT'' \<or> action = ''CASCADE'' \<or> action = ''SET NULL''"

section \<open>Names and types\<close>

lemma appendToken_frame: "appendToken bytes v = bytes @ frame v"
  by (simp add: appendToken_def frame_def)

lemma foldl_appendToken: "foldl appendToken bytes vs = bytes @ concat (map frame vs)"
  by (induction vs arbitrary: bytes) (simp_all add: appendToken_frame)

lemma constraint_bytes_inj:
  assumes "constraint_bytes kind table columns target targetColumns =
           constraint_bytes kind' table' columns' target' targetColumns'"
  shows "kind = kind' \<and> table = table' \<and> columns = columns' \<and> target = target' \<and>
         targetColumns = targetColumns'"
proof -
  have eq: "frame kind @ frame table @ frame (dec (length columns)) @ concat (map frame columns) @
      frame target @ frame (dec (length targetColumns)) @ concat (map frame targetColumns) @ [] =
    frame kind' @ frame table' @ frame (dec (length columns')) @ concat (map frame columns') @
      frame target' @ frame (dec (length targetColumns')) @ concat (map frame targetColumns') @ []"
    using assms by (simp add: constraint_bytes_def appendToken_frame foldl_appendToken Let_def)
  then have "length columns = length columns'" by simp
  with eq show ?thesis by (auto simp: frames_inj frames_eq)
qed

lemma hex_name:
  assumes "c \<in> set (sha256 s)"
  shows "c \<noteq> nul"
  using sha256_digits [OF assms] by (auto simp: hex_digits_def)

lemma requireName_constraintName:
  assumes "kind \<in> {''pk'', ''fk'', ''fkidx''}"
  shows "requireName (constraintName kind table columns target targetColumns) backend path = Inr ()"
proof -
  let ?n = "constraintName kind table columns target targetColumns"
  let ?h = "take 24 (sha256 (constraint_bytes kind table columns target targetColumns))"
  have n: "?n = ''orm_'' @ kind @ ''_'' @ ?h" by (simp add: constraintName_def substr_def)
  have "length ?n \<le> 34" using assms by (auto simp: n)
  moreover have "nul \<notin> set ?h" using hex_name by (metis in_set_takeD)
  then have "nul \<notin> set ?n" using assms by (auto simp: n)
  moreover have "\<not> starts_with ?n ''__orm_''" by (simp add: starts_with_def n)
  moreover have "?n \<noteq> []" by (simp add: n)
  ultimately show ?thesis by (auto simp: requireName_def validName_def Let_def)
qed

lemma type_words_stop:
  "rest = [] \<or> \<not> type_letter (hd rest) \<Longrightarrow> type_words name rest = (name, rest)"
  by (simp add: type_words.simps)

lemma validSqlType_varchar: "validSqlType (varchar n)"
proof -
  have "type_words [] (varchar n) = (''VARCHAR'', CHR ''('' # dec n @ '')'')"
    by (simp add: type_words.simps [of "[]"] varchar_def type_letter_def type_upper_def between_def
        skip_spaces_def)
  moreover obtain d ds where d: "dec n = d # ds" by (cases "dec n") auto
  then have "is_digit d" using dec_digit [of d n] by simp
  then have "d \<noteq> CHR '' ''" by (auto simp: between_def)
  have drop: "dropWhile is_digit (dec n @ '')'') = '')''"
    by (subst dropWhile_append2) (simp_all, simp add: between_def)
  have "type_number (dec n @ '')'') = (True, '')'')"
    using d \<open>is_digit d\<close> \<open>d \<noteq> CHR '' ''\<close> drop
    by (simp add: type_number_def skip_spaces_def Let_def)
  ultimately show ?thesis
    by (simp add: validSqlType_def skip_spaces_def varchar_def type_arguments_def type_name_ok_def
        forbidden_types_def)
qed

lemma sqlType_valid:
  assumes "sqlType backend type len = Inr text"
  shows "validSqlType text"
proof -
  have fixed: "\<forall>t \<in> set [''TINYINT'', ''SMALLINT'', ''TINYINT UNSIGNED'', ''SMALLINT UNSIGNED'', ''INT'',
    ''INT UNSIGNED'', ''BIGINT'', ''BIGINT UNSIGNED'', ''DOUBLE'', ''LONGTEXT'', ''DATE'', ''TIME(6)'',
    ''DATETIME(6)'', ''TIMESTAMP(6)'', ''UUID'', ''BOOLEAN'', ''INTEGER'', ''UNSIGNED BIG INT'', ''REAL'',
    ''TEXT'', ''DOUBLE PRECISION'', ''TIME(6) WITHOUT TIME ZONE'', ''TIMESTAMP(6) WITHOUT TIME ZONE'',
    ''TIMESTAMP(6) WITH TIME ZONE'']. validSqlType t" by code_simp
  from assms show ?thesis
    by (cases type) (auto simp: sqlType_def split: if_splits option.splits intro: validSqlType_varchar
        fixed [rule_format])
qed

section \<open>Column lists\<close>

lemma column_list_ok_iff:
  "column_list_ok table backend seen names = Inr () \<longleftrightarrow>
   distinct names \<and> set names \<inter> set seen = {} \<and> set names \<subseteq> pc_name ` set (tb_columns table)"
proof (induction names arbitrary: seen)
  case (Cons name names)
  have "columnNamed table name = None \<longleftrightarrow> name \<notin> pc_name ` set (tb_columns table)"
    by (auto simp: columnNamed_def find_None_iff)
  with Cons show ?case by (auto simp: throwIf_def)
qed simp

lemma requireColumnList_iff:
  "requireColumnList table names backend allowEmpty = Inr () \<longleftrightarrow>
   (allowEmpty \<or> names \<noteq> []) \<and> distinct names \<and> set names \<subseteq> pc_name ` set (tb_columns table)"
  by (auto simp: requireColumnList_def column_list_ok_iff)

section \<open>Supporting indexes\<close>

definition key_rank :: "string list \<Rightarrow> int \<times> string list" where
  "key_rank columns = (- int (length columns), columns)"

lemma key_rank_inj: "inj key_rank"
  by (simp add: inj_def key_rank_def)

lemma key_before_rank: "key_before l r \<longleftrightarrow> key_rank (fk_columns l) < key_rank (fk_columns r)"
  by (auto simp: key_before_def key_rank_def less_prod_def)

lemma insert_key_insort: "insert_key k ks = insort_key (key_rank \<circ> fk_columns) k ks"
  by (induction ks) (auto simp: key_before_rank not_less)

lemma sort_keys_sort_key: "sort_keys ks = sort_key (key_rank \<circ> fk_columns) ks"
  by (simp add: sort_keys_def sort_key_def insert_key_insort [abs_def])

text \<open>The columns of the keys, in order, decide what is added.\<close>

lemma add_key_index_cong:
  "fk_columns k = fk_columns k' \<Longrightarrow> add_key_index table k = add_key_index table k'"
  by (simp add: add_key_index_def)

definition add_columns_index :: "physical_table \<Rightarrow> string list \<Rightarrow> physical_table" where
  "add_columns_index table columns =
     add_key_index table \<lparr>fk_name = [], fk_columns = columns, fk_targetTable = [],
       fk_targetColumns = [], fk_onDelete = [], fk_onUpdate = []\<rparr>"

lemma foldl_add_key_index:
  "foldl add_key_index table ks = foldl add_columns_index table (map fk_columns ks)"
proof (induction ks arbitrary: table)
  case (Cons k ks)
  have "add_key_index table k = add_columns_index table (fk_columns k)"
    by (auto simp: add_columns_index_def intro: add_key_index_cong)
  with Cons show ?case by simp
qed simp

lemma map_sort_keys_cong:
  assumes "mset ks = mset ks'"
  shows "map fk_columns (sort_keys ks) = map fk_columns (sort_keys ks')"
proof -
  have sorted: "sorted (map key_rank (map fk_columns (sort_keys xs)))" for xs
    using sorted_sort_key [of "key_rank \<circ> fk_columns" xs] by (simp add: sort_keys_sort_key)
  have "mset (sort_keys ks) = mset (sort_keys ks')" using assms by (simp add: sort_keys_sort_key)
  then have "mset (map key_rank (map fk_columns (sort_keys ks))) =
             mset (map key_rank (map fk_columns (sort_keys ks')))"
    by (simp only: mset_map)
  with sorted [of ks] sorted [of ks']
  have "map key_rank (map fk_columns (sort_keys ks)) = map key_rank (map fk_columns (sort_keys ks'))"
    by (metis properties_for_sort)
  then show ?thesis by (simp only: inj_map_eq_map [OF key_rank_inj])
qed

lemma supportsKey_append: "supportsKey xs ys \<longleftrightarrow> (\<exists>zs. xs = ys @ zs)"
  unfolding supportsKey_def by (metis append_eq_conv_conj append_take_drop_id length_append le_add1)

definition key_supported :: "physical_table \<Rightarrow> string list \<Rightarrow> bool" where
  "key_supported table columns \<longleftrightarrow>
     supportsKey (tb_primaryKey table) columns \<or>
     (\<exists>index \<in> set (tb_indexes table). supportsKey (ix_columns index) columns)"

lemma add_columns_index_facts:
  "key_supported (add_columns_index table columns) columns"
  "key_supported table other \<Longrightarrow> key_supported (add_columns_index table columns) other"
  by (auto simp: key_supported_def add_columns_index_def add_key_index_def supportsKey_def)

lemma foldl_add_columns_supported:
  "key_supported table other \<or> other \<in> set cols \<Longrightarrow> key_supported (foldl add_columns_index table cols) other"
  by (induction cols arbitrary: table) (auto intro: add_columns_index_facts)

lemma foldl_add_columns_keeps:
  "set (tb_indexes table) \<subseteq> set (tb_indexes (foldl add_columns_index table cols))"
proof (induction cols arbitrary: table)
  case (Cons c cols)
  have "set (tb_indexes table) \<subseteq> set (tb_indexes (add_columns_index table c))"
    by (auto simp: add_columns_index_def add_key_index_def)
  with Cons [of "add_columns_index table c"] show ?case by auto
qed simp

lemma foldl_add_columns_frame:
  "tb_indexes (foldl add_columns_index (table\<lparr>tb_foreignKeys := keys\<rparr>) cols) =
   tb_indexes (foldl add_columns_index table cols)"
proof (induction cols arbitrary: table)
  case (Cons c cols)
  have "add_columns_index (table\<lparr>tb_foreignKeys := keys\<rparr>) c =
        (add_columns_index table c)\<lparr>tb_foreignKeys := keys\<rparr>"
    by (simp add: add_columns_index_def add_key_index_def)
  with Cons show ?case by simp
qed simp

lemma set_sort_keys [simp]: "set (sort_keys ks) = set ks"
  by (simp add: sort_keys_sort_key)

lemma foreignKeyIndexes_supports:
  "key \<in> set (tb_foreignKeys table) \<Longrightarrow> key_supported (foreignKeyIndexes table) (fk_columns key)"
  by (simp add: foreignKeyIndexes_def foldl_add_key_index foldl_add_columns_supported)

section \<open>Properties\<close>

text \<open>
  The text hashed into a generated constraint name frames every part behind its length, so
  it determines the kind, the table, the columns, the target table and the target columns: two
  different constraints never hash the same text.
\<close>

theorem constraint_bytes_injective:
  "constraint_bytes kind table columns target targetColumns =
   constraint_bytes kind' table' columns' target' targetColumns' \<longleftrightarrow>
   kind = kind' \<and> table = table' \<and> columns = columns' \<and> target = target' \<and>
   targetColumns = targetColumns'"
  by (blast dest: constraint_bytes_inj)

text \<open>
  Every generated constraint name is an identifier each backend accepts: it passes
  \<^verbatim>\<open>requireName\<close> (nonempty, no NUL, not the reserved prefix, at most 63 characters) whatever the
  table and the columns are called.
\<close>

theorem constraintName_accepted:
  assumes "kind \<in> {''pk'', ''fk'', ''fkidx''}"
  shows "requireName (constraintName kind table columns target targetColumns) backend path = Inr ()"
  using assms by (rule requireName_constraintName)

theorem constraintName_accepted_witness:
  "requireName (constraintName ''fk'' ''orders'' [''user_id''] ''users'' [''id'']) Postgres ''orders'' = Inr ()"
  by (rule constraintName_accepted) simp

text \<open>
  Every physical type the generator chooses is one the snapshot validator accepts: the text
  \<^verbatim>\<open>sqlType\<close> returns, for any backend, logical type and string length, satisfies
  \<^verbatim>\<open>validSqlType\<close>.
\<close>

theorem sqlType_accepted:
  assumes "sqlType backend type len = Inr text"
  shows "validSqlType text"
  using assms by (rule sqlType_valid)

theorem sqlType_accepted_witness:
  "sqlType Postgres StringT (Some 255) = Inr (varchar 255) \<and> validSqlType (varchar 255)"
proof -
  have "sqlType Postgres StringT (Some 255) = Inr (varchar 255)"
    by (simp add: sqlType_def requireBackend_def generationBackends_def length_ok_def family_def)
  with sqlType_accepted [OF this] show ?thesis by simp
qed

text \<open>
  MySQL-family tables get the indexes their foreign keys need: after
  \<^verbatim>\<open>foreignKeyIndexes\<close> the columns of every foreign key are a prefix of the primary key or of an
  index, no index that was there is lost, and the added indexes do not depend on the order in
  which the foreign keys were declared.
\<close>

theorem foreignKeyIndexes_complete:
  assumes "mset keys = mset (tb_foreignKeys table)"
  shows "(\<forall>key \<in> set keys. key_supported (foreignKeyIndexes table) (fk_columns key)) \<and>
    set (tb_indexes table) \<subseteq> set (tb_indexes (foreignKeyIndexes table)) \<and>
    tb_indexes (foreignKeyIndexes (table\<lparr>tb_foreignKeys := keys\<rparr>)) = tb_indexes (foreignKeyIndexes table)"
proof -
  have "set keys = set (tb_foreignKeys table)" using assms by (rule mset_eq_setD)
  then have "\<forall>key \<in> set keys. key_supported (foreignKeyIndexes table) (fk_columns key)"
    by (auto intro: foreignKeyIndexes_supports)
  moreover have "set (tb_indexes table) \<subseteq> set (tb_indexes (foreignKeyIndexes table))"
    by (simp add: foreignKeyIndexes_def foldl_add_key_index foldl_add_columns_keeps)
  moreover have "tb_indexes (foreignKeyIndexes (table\<lparr>tb_foreignKeys := keys\<rparr>)) =
      tb_indexes (foreignKeyIndexes table)"
    using map_sort_keys_cong [OF assms] foldl_add_columns_frame [of keys table]
    by (simp add: foreignKeyIndexes_def foldl_add_key_index)
  ultimately show ?thesis by blast
qed

theorem foreignKeyIndexes_complete_witness:
  "let key = \<lparr>fk_name = ''f'', fk_columns = [''a''], fk_targetTable = ''t'', fk_targetColumns = [''id''],
              fk_onDelete = ''CASCADE'', fk_onUpdate = ''NO ACTION''\<rparr>;
       table = \<lparr>tb_name = ''s'', tb_columns = [], tb_primaryKey = [''id''], tb_primaryKeyName = ''PRIMARY'',
              tb_foreignKeys = [key], tb_indexes = [], tb_options = []\<rparr>
   in key_supported (foreignKeyIndexes table) [''a'']"
  using foreignKeyIndexes_complete
    [of "[\<lparr>fk_name = ''f'', fk_columns = [''a''], fk_targetTable = ''t'', fk_targetColumns = [''id''],
           fk_onDelete = ''CASCADE'', fk_onUpdate = ''NO ACTION''\<rparr>]"
        "\<lparr>tb_name = ''s'', tb_columns = [], tb_primaryKey = [''id''], tb_primaryKeyName = ''PRIMARY'',
           tb_foreignKeys = [\<lparr>fk_name = ''f'', fk_columns = [''a''], fk_targetTable = ''t'',
             fk_targetColumns = [''id''], fk_onDelete = ''CASCADE'', fk_onUpdate = ''NO ACTION''\<rparr>],
           tb_indexes = [], tb_options = []\<rparr>"]
  by (simp add: Let_def)

end
