(* ===== verification/Orm_Render.thy ===== *)
theory Orm_Render
  imports Orm_Schema
begin

text \<open>
  The rendering half of \<^verbatim>\<open>src/migrations/SchemaSnapshot.cpp\<close>: expansion of models into physical
  tables and junction tables, quoting of identifiers and the text of \<^verbatim>\<open>CREATE TABLE\<close>. The
  functions the source writes as templates over a quoting or type-resolving callable take that
  callable as a parameter here too.
\<close>

type_synonym type_resolver = "column_type \<Rightarrow> nat option \<Rightarrow> (exn, string) result"
type_synonym quoter = "string \<Rightarrow> (exn, string) result"

section \<open>Expansion of models\<close>

definition keyColumns :: "model_data \<Rightarrow> (exn, column_view list) result" where
  "keyColumns model =
     mapR (\<lambda>index.
        bindR (throwIf (index \<ge> length (md_columns model)
                        \<or> cv_kind (md_columns model ! index) \<noteq> ScalarField
                        \<or> cv_type (md_columns model ! index) = None)
                (invalid ''Primary-key indices must refer to scalar model columns'' Empty []))
          (\<lambda>_. Inr (md_columns model ! index)))
       (md_primaryKeyIndices model)"

definition scalarColumn ::
  "string \<Rightarrow> column_view \<Rightarrow> bool \<Rightarrow> type_resolver \<Rightarrow> (exn, physical_column) result" where
  "scalarColumn name column nullable resolve =
     (case cv_type column of
        None \<Rightarrow> Inl (invalid ''Scalar column has no logical type'' Empty [])
      | Some type \<Rightarrow>
          bindR (resolve type (cv_maxStringLength column))
            (\<lambda>text. Inr \<lparr>pc_name = name, pc_logicalType = type, pc_sqlType = text,
               pc_nullable = nullable, pc_maxStringLength = cv_maxStringLength column,
               pc_autoIncrement = False\<rparr>))"

definition empty_table :: "string \<Rightarrow> physical_table" where
  "empty_table name = \<lparr>tb_name = name, tb_columns = [], tb_primaryKey = [], tb_primaryKeyName = [],
     tb_foreignKeys = [], tb_indexes = [], tb_options = []\<rparr>"

definition empty_key :: "string \<Rightarrow> string \<Rightarrow> physical_foreign_key" where
  "empty_key target onDelete = \<lparr>fk_name = [], fk_columns = [], fk_targetTable = target,
     fk_targetColumns = [], fk_onDelete = onDelete, fk_onUpdate = ''NO ACTION''\<rparr>"

text \<open>One key column of a to-one relation: a column of the table and of the key.\<close>

definition expand_target_column ::
  "column_view \<Rightarrow> type_resolver \<Rightarrow> column_view \<Rightarrow> physical_table \<times> physical_foreign_key \<Rightarrow>
   (exn, physical_table \<times> physical_foreign_key) result" where
  "expand_target_column column resolve targetColumn = (\<lambda>(table, key).
     let name = cv_name column @ ''_'' @ cv_name targetColumn
     in bindR (scalarColumn name targetColumn (\<not> cv_isNotNull column) resolve)
          (\<lambda>physical. Inr (table\<lparr>tb_columns := tb_columns table @ [physical]\<rparr>,
             key\<lparr>fk_columns := fk_columns key @ [name],
                 fk_targetColumns := fk_targetColumns key @ [cv_name targetColumn]\<rparr>)))"

definition expand_column ::
  "schema_view \<Rightarrow> type_resolver \<Rightarrow> column_view \<Rightarrow> physical_table \<Rightarrow> (exn, physical_table) result" where
  "expand_column schema resolve column table =
     (if cv_kind column = ScalarField then
        bindR (scalarColumn (cv_name column) column (\<not> cv_isNotNull column) resolve)
          (\<lambda>physical. Inr (table\<lparr>tb_columns := tb_columns table
             @ [physical\<lparr>pc_autoIncrement := cv_isAutoIncrement column\<rparr>]\<rparr>))
      else
        case resolveTarget_column schema column of
          None \<Rightarrow> Inl (invalid ''To-one relation target is not available in the schema'' Empty [])
        | Some target \<Rightarrow>
            bindR (keyColumns target)
              (\<lambda>targetKey.
                 bindR (throwIf (targetKey = [])
                          (invalid ''To-one relation target must have a primary key'' Empty []))
                 (\<lambda>_. bindR (foldR (expand_target_column column resolve) targetKey
                               (table, empty_key (md_tableName target) ''NO ACTION''))
                 (\<lambda>(table, key). Inr (table\<lparr>tb_foreignKeys := tb_foreignKeys table
                    @ [key\<lparr>fk_name := constraintName ''fk'' (tb_name table) (fk_columns key)
                           (fk_targetTable key) (fk_targetColumns key)\<rparr>]\<rparr>)))))"

definition primary_key_name :: "bool \<Rightarrow> physical_table \<Rightarrow> string" where
  "primary_key_name mysqlPrimaryKey table =
     (if mysqlPrimaryKey then ''PRIMARY'' else constraintName ''pk'' (tb_name table) (tb_primaryKey table) [] [])"

definition expandTable ::
  "schema_view \<Rightarrow> model_data option \<Rightarrow> type_resolver \<Rightarrow> bool \<Rightarrow> (exn, physical_table) result" where
  "expandTable schema model resolve mysqlPrimaryKey =
     (case model of
        None \<Rightarrow> Inl (invalid ''Cannot capture an invalid model view'' Empty [])
      | Some model \<Rightarrow>
          bindR (keyColumns model)
            (\<lambda>key. let table = (empty_table (md_tableName model))\<lparr>tb_primaryKey := map cv_name key\<rparr>;
                       table = (if tb_primaryKey table \<noteq> []
                                then table\<lparr>tb_primaryKeyName := primary_key_name mysqlPrimaryKey table\<rparr>
                                else table)
                   in foldR (expand_column schema resolve) (md_columns model) table))"

definition append_endpoint_column ::
  "type_resolver \<Rightarrow> column_view \<times> string \<Rightarrow> physical_table \<times> physical_foreign_key \<Rightarrow>
   (exn, physical_table \<times> physical_foreign_key) result" where
  "append_endpoint_column resolve = (\<lambda>(column, name) (table, key).
     bindR (scalarColumn name column False resolve)
       (\<lambda>physical. Inr (table\<lparr>tb_columns := tb_columns table @ [physical],
                             tb_primaryKey := tb_primaryKey table @ [name]\<rparr>,
          key\<lparr>fk_columns := fk_columns key @ [name],
              fk_targetColumns := fk_targetColumns key @ [cv_name column]\<rparr>)))"

definition appendEndpoint ::
  "type_resolver \<Rightarrow> model_data \<Rightarrow> column_view list \<Rightarrow> string list \<Rightarrow> physical_table \<Rightarrow>
   (exn, physical_table) result" where
  "appendEndpoint resolve endpoint columns physicalNames table =
     bindR (foldR (append_endpoint_column resolve) (zip columns physicalNames)
              (table, empty_key (md_tableName endpoint) ''CASCADE''))
       (\<lambda>(table, key). Inr (table\<lparr>tb_foreignKeys := tb_foreignKeys table
          @ [key\<lparr>fk_name := constraintName ''fk'' (tb_name table) (fk_columns key)
                 (fk_targetTable key) (fk_targetColumns key)\<rparr>]\<rparr>))"

definition expand_junction ::
  "schema_view \<Rightarrow> model_data \<Rightarrow> type_resolver \<Rightarrow> bool \<Rightarrow> relation_view \<Rightarrow>
   (exn, physical_table list) result" where
  "expand_junction schema model resolve mysqlPrimaryKey relation =
     (if rv_kind relation \<noteq> ManyToMany \<or> \<not> isConfigured (rv_junction relation)
         \<or> \<not> jv_owningSide (rv_junction relation)
      then Inr []
      else case resolveTarget_relation schema relation of
        None \<Rightarrow> Inl (invalid ''Collection relation target is not available in the schema'' Empty [])
      | Some target \<Rightarrow>
          bindR (keyColumns model) (\<lambda>ownerKey.
          bindR (keyColumns target) (\<lambda>targetKey.
          let junction = rv_junction relation
          in bindR (throwIf (ownerKey = [] \<or> targetKey = []
                       \<or> length (jv_ownerColumns junction) \<noteq> length ownerKey
                       \<or> length (jv_targetColumns junction) \<noteq> length targetKey)
                  (invalid ''Junction columns must match both endpoint primary keys'' Empty []))
             (\<lambda>_. bindR (appendEndpoint resolve model ownerKey (jv_ownerColumns junction)
                           (empty_table (jv_tableName junction)))
             (\<lambda>table. bindR (appendEndpoint resolve target targetKey (jv_targetColumns junction) table)
             (\<lambda>table. Inr [table\<lparr>tb_primaryKeyName := primary_key_name mysqlPrimaryKey table\<rparr>]))))))"

definition expandJunctions ::
  "schema_view \<Rightarrow> model_data option \<Rightarrow> type_resolver \<Rightarrow> bool \<Rightarrow> (exn, physical_table list) result" where
  "expandJunctions schema model resolve mysqlPrimaryKey =
     (case model of
        None \<Rightarrow> Inl (invalid ''Cannot capture junctions from an invalid model view'' Empty [])
      | Some model \<Rightarrow>
          bindR (mapR (expand_junction schema model resolve mysqlPrimaryKey) (md_relations model))
            (\<lambda>tables. Inr (concat tables)))"

section \<open>SQL text\<close>

definition quotedList :: "quoter \<Rightarrow> string list \<Rightarrow> (exn, string) result" where
  "quotedList quote names =
     foldR (\<lambda>name r. bindR (quote name) (\<lambda>q. Inr ((if r \<noteq> [] then r @ '', '' else r) @ q))) names []"

definition foreignKeySql :: "quoter \<Rightarrow> physical_foreign_key \<Rightarrow> (exn, string) result" where
  "foreignKeySql quote key =
     bindR (throwIf (fk_columns key = [] \<or> length (fk_columns key) \<noteq> length (fk_targetColumns key)
                     \<or> \<not> validAction (fk_onDelete key) \<or> \<not> validAction (fk_onUpdate key))
              (invalid ''Invalid foreign-key shape or action'' Empty []))
       (\<lambda>_. bindR (quote (fk_name key))
       (\<lambda>name. bindR (quotedList quote (fk_columns key))
       (\<lambda>columns. bindR (quote (fk_targetTable key))
       (\<lambda>target. bindR (quotedList quote (fk_targetColumns key))
       (\<lambda>targets. Inr (''CONSTRAINT '' @ name @ '' FOREIGN KEY ('' @ columns @ '') REFERENCES '' @ target
          @ '' ('' @ targets @ '')''
          @ (if fk_onDelete key \<noteq> ''NO ACTION'' then '' ON DELETE '' @ fk_onDelete key else [])
          @ (if fk_onUpdate key \<noteq> ''NO ACTION'' then '' ON UPDATE '' @ fk_onUpdate key else [])))))))"

definition auto_increment_ok :: "physical_table \<Rightarrow> physical_column \<Rightarrow> bool" where
  "auto_increment_ok table column \<longleftrightarrow>
     pc_autoIncrement column \<longrightarrow>
       \<not> pc_nullable column \<and> tb_primaryKey table = [pc_name column] \<and> pc_logicalType column = IntT"

definition index_definition :: "quoter \<Rightarrow> physical_index \<Rightarrow> (exn, string) result" where
  "index_definition quote index =
     bindR (quote (ix_name index)) (\<lambda>name.
     bindR (quotedList quote (ix_columns index)) (\<lambda>columns.
     Inr ((if ix_unique index then ''UNIQUE INDEX '' else ''INDEX '') @ name @ '' ('' @ columns @ '')'')))"

definition primary_definition :: "quoter \<Rightarrow> physical_table \<Rightarrow> (exn, string list) result" where
  "primary_definition quote table =
     (if tb_primaryKey table \<noteq> [] \<and> \<not> (\<exists>c \<in> set (tb_columns table). pc_autoIncrement c) then
        bindR (if tb_primaryKeyName table = ''PRIMARY'' then Inr []
               else bindR (quote (tb_primaryKeyName table)) (\<lambda>q. Inr (''CONSTRAINT '' @ q @ '' '')))
          (\<lambda>named. bindR (quotedList quote (tb_primaryKey table))
          (\<lambda>columns. Inr [named @ ''PRIMARY KEY ('' @ columns @ '')'']))
      else Inr [])"

definition createTableSql ::
  "physical_table \<Rightarrow> string \<Rightarrow> string \<Rightarrow> bool \<Rightarrow> bool \<Rightarrow> quoter \<Rightarrow>
   (physical_column \<Rightarrow> bool \<Rightarrow> string \<Rightarrow> (exn, string) result) \<Rightarrow> (exn, string) result" where
  "createTableSql table before after includeForeignKeys inlineIndexes quote columnSql =
     bindR (throwIf (tb_columns table = [])
              (invalid ''Physical tables must contain at least one column'' Empty []))
       (\<lambda>_. bindR (mapR (\<lambda>column.
                bindR (throwIf (\<not> auto_increment_ok table column)
                         (invalid ''Auto increment requires the table's single non-null integer primary key''
                            Empty []))
                  (\<lambda>_. columnSql column (pc_autoIncrement column) (tb_primaryKeyName table)))
              (tb_columns table))
       (\<lambda>columns. bindR (primary_definition quote table)
       (\<lambda>primary. bindR (if inlineIndexes then mapR (index_definition quote) (tb_indexes table) else Inr [])
       (\<lambda>indexes. bindR (if includeForeignKeys then mapR (foreignKeySql quote) (tb_foreignKeys table) else Inr [])
       (\<lambda>keys. Inr (before @ [newline]
          @ joinWith ('','' @ [newline]) (map (\<lambda>d. tab # d) (columns @ primary @ indexes @ keys))
          @ after))))))"

fun double_delimiter :: "char \<Rightarrow> string \<Rightarrow> string" where
  "double_delimiter d [] = []"
| "double_delimiter d (c # cs) = (if c = d then c # c # double_delimiter d cs else c # double_delimiter d cs)"

definition delimiter_of :: "backend_type \<Rightarrow> char" where
  "delimiter_of backend = (if family backend then backtick else dquote)"

definition quoteIdentifier :: "backend_type \<Rightarrow> string \<Rightarrow> (exn, string) result" where
  "quoteIdentifier backend name =
     bindR (requireBackend backend)
       (\<lambda>_. bindR (throwIf (\<not> validName name)
                     (invalid ''Cannot quote an empty or NUL-containing SQL identifier'' backend []))
       (\<lambda>_. Inr (delimiter_of backend # double_delimiter (delimiter_of backend) name
                 @ [delimiter_of backend])))"

definition primary_clause ::
  "backend_type \<Rightarrow> physical_column \<Rightarrow> bool \<Rightarrow> string \<Rightarrow> (exn, string) result" where
  "primary_clause backend column inlinePrimary primaryName =
     (if inlinePrimary then
        bindR (if primaryName \<noteq> [] \<and> primaryName \<noteq> ''PRIMARY''
               then bindR (quoteIdentifier backend primaryName) (\<lambda>q. Inr ('' CONSTRAINT '' @ q))
               else Inr [])
          (\<lambda>named. Inr (named @ '' PRIMARY KEY''
             @ (if pc_autoIncrement column \<and> backend = Sqlite then '' AUTOINCREMENT'' else [])))
      else Inr [])"

definition renderColumn ::
  "backend_type \<Rightarrow> physical_column \<Rightarrow> bool \<Rightarrow> string \<Rightarrow> (exn, string) result" where
  "renderColumn backend column inlinePrimary primaryName =
     bindR (requireBackend backend)
       (\<lambda>_. bindR (throwIf (\<not> validSqlType (pc_sqlType column))
                     (invalid ''Invalid frozen SQL column type'' backend (pc_name column)))
       (\<lambda>_. bindR (quoteIdentifier backend (pc_name column))
       (\<lambda>name. bindR (throwIf (pc_autoIncrement column \<and> (pc_nullable column \<or> pc_logicalType column \<noteq> IntT))
                        (invalid ''Auto increment requires a non-null integer column'' backend (pc_name column)))
       (\<lambda>_. bindR (throwIf (pc_autoIncrement column \<and> backend = Sqlite \<and> \<not> inlinePrimary)
                     (invalid ''SQLite auto increment must be rendered as an inline primary key''
                        backend (pc_name column)))
       (\<lambda>_. bindR (primary_clause backend column inlinePrimary primaryName)
       (\<lambda>primary. Inr (name @ '' '' @ pc_sqlType column
          @ (if pc_autoIncrement column \<and> backend = Postgres then '' GENERATED BY DEFAULT AS IDENTITY''
             else if pc_autoIncrement column \<and> family backend then '' NOT NULL AUTO_INCREMENT'' else [])
          @ (if \<not> pc_nullable column
                \<and> \<not> (pc_autoIncrement column \<and> (family backend \<or> backend = Sqlite))
             then '' NOT NULL'' else [])
          @ (if pc_nullable column \<and> family backend \<and> pc_logicalType column = UtcTimestampT
             then '' NULL'' else [])
          @ primary
          @ (case pc_maxStringLength column of
               Some n \<Rightarrow> if backend = Sqlite
                         then '' CHECK (length(replace('' @ name @ '', char(0), char(1))) <= '' @ dec n @ '')''
                         else []
             | None \<Rightarrow> []))))))))"

definition renderForeignKey :: "backend_type \<Rightarrow> physical_foreign_key \<Rightarrow> (exn, string) result" where
  "renderForeignKey backend key =
     bindR (requireBackend backend) (\<lambda>_. foreignKeySql (quoteIdentifier backend) key)"

definition renderCreateTable ::
  "backend_type \<Rightarrow> physical_table \<Rightarrow> bool \<Rightarrow> bool \<Rightarrow> (exn, string) result" where
  "renderCreateTable backend table includeForeignKeys ifNotExists =
     bindR (requireBackend backend)
       (\<lambda>_. bindR (quoteIdentifier backend (tb_name table))
       (\<lambda>name.
          let before = ''CREATE TABLE '' @ (if ifNotExists then ''IF NOT EXISTS '' else []) @ name @ '' ('';
              after = newline # '')'' @ (if tb_options table = [] then [] else '' '' @ tb_options table) @ '';''
          in createTableSql table before after includeForeignKeys (family backend)
               (quoteIdentifier backend) (renderColumn backend)))"

section \<open>Physical tables of a model\<close>

definition with_indexes :: "backend_type \<Rightarrow> physical_table \<Rightarrow> physical_table" where
  "with_indexes backend table =
     (let table = table\<lparr>tb_options := tableOptions backend\<rparr>
      in if family backend then foreignKeyIndexes table else table)"

definition physicalTable ::
  "schema_view \<Rightarrow> model_data option \<Rightarrow> backend_type \<Rightarrow> (exn, physical_table) result" where
  "physicalTable schema model backend =
     bindR (requireBackend backend)
       (\<lambda>_. bindR (expandTable schema model (sqlType backend) (family backend))
       (\<lambda>table. Inr (with_indexes backend table)))"

definition physicalJunctions ::
  "schema_view \<Rightarrow> model_data option \<Rightarrow> backend_type \<Rightarrow> (exn, physical_table list) result" where
  "physicalJunctions schema model backend =
     bindR (requireBackend backend)
       (\<lambda>_. bindR (expandJunctions schema model (sqlType backend) (family backend))
       (\<lambda>tables. Inr (map (with_indexes backend) tables)))"

end
