(* ===== verification/Orm_Snapshot.thy ===== *)
theory Orm_Snapshot
  imports Orm_Render
begin

text \<open>
  \<^verbatim>\<open>canonicalize\<close>, \<^verbatim>\<open>validateSnapshot\<close>, \<^verbatim>\<open>emptySnapshot\<close> and \<^verbatim>\<open>capture\<close> of
  \<^verbatim>\<open>src/migrations/SchemaSnapshot.cpp\<close>. \<^verbatim>\<open>std::ranges::sort\<close> by name is a sort by key; where two
  elements share a name the source leaves their order open and the model keeps their order, and a
  validated snapshot has no such elements.
\<close>

section \<open>Canonical order\<close>

definition canonical_table :: "physical_table \<Rightarrow> physical_table" where
  "canonical_table table =
     table\<lparr>tb_columns := sort_key pc_name (tb_columns table),
           tb_foreignKeys := sort_key fk_name (tb_foreignKeys table),
           tb_indexes := sort_key ix_name (tb_indexes table)\<rparr>"

definition canonical_schema :: "physical_schema \<Rightarrow> physical_schema" where
  "canonical_schema schema =
     schema\<lparr>sc_tables := map canonical_table (sort_key tb_name (sc_tables schema))\<rparr>"

definition canonicalize :: "schema_snapshot \<Rightarrow> schema_snapshot" where
  "canonicalize snapshot =
     snapshot\<lparr>ss_backends := map (\<lambda>(backend, schema). (backend, canonical_schema schema))
                               (ss_backends snapshot)\<rparr>"

section \<open>Validation\<close>

definition native_only :: "column_type \<Rightarrow> bool" where
  "native_only type \<longleftrightarrow> type \<in> {UuidT, DateT, TimeOfDayT, LocalDateTimeT, UtcTimestampT}"

text \<open>The body of the loop over the columns; \<open>seen\<close> is the set \<^verbatim>\<open>columnNames\<close>.\<close>

definition validate_column ::
  "backend_type \<Rightarrow> physical_table \<Rightarrow> physical_column \<Rightarrow> string list \<Rightarrow> (exn, string list) result" where
  "validate_column backend table column seen =
     (let path = tb_name table @ ''.'' @ pc_name column
      in bindR (requireName (pc_name column) backend path)
       (\<lambda>_. bindR (throwIf (pc_name column \<in> set seen \<or> \<not> validLogicalType (pc_logicalType column)
                             \<or> \<not> validSqlType (pc_sqlType column))
                (invalid ''Snapshot column names and types must be valid and unique'' backend path))
       (\<lambda>_. bindR (if native_only (pc_logicalType column)
                   then bindR (sqlType backend (pc_logicalType column) (pc_maxStringLength column))
                     (\<lambda>text. throwIf (pc_sqlType column \<noteq> text)
                        (invalid ''Temporal and UUID columns require their canonical native SQL type''
                           backend path))
                   else Inr ())
       (\<lambda>_. bindR (throwIf (\<not> length_ok backend (pc_logicalType column) (pc_maxStringLength column))
                (invalid ''Snapshot contains an invalid bounded string'' backend path))
       (\<lambda>_. bindR (throwIf (\<not> auto_increment_ok table column)
                (invalid ''Snapshot auto increment must be its single non-null integer primary key''
                   backend path))
       (\<lambda>_. Inr (pc_name column # seen)))))))"

definition validate_primary_key ::
  "backend_type \<Rightarrow> physical_table \<Rightarrow> (exn, string list) result" where
  "validate_primary_key backend table =
     bindR (requireColumnList table (tb_primaryKey table) backend True)
       (\<lambda>_. bindR (forR (\<lambda>name.
                throwIf (case columnNamed table name of None \<Rightarrow> False | Some c \<Rightarrow> pc_nullable c)
                  (invalid ''Snapshot primary-key columns must be non-null'' backend
                     (tb_name table @ ''.'' @ name))) (tb_primaryKey table))
       (\<lambda>_. bindR (throwIf ((tb_primaryKey table = []) \<noteq> (tb_primaryKeyName table = []))
                (invalid ''Snapshot primary key and its name must be declared together'' backend
                   (tb_name table)))
       (\<lambda>_. if tb_primaryKeyName table \<noteq> [] then
               bindR (requireName (tb_primaryKeyName table) backend (tb_name table))
                 (\<lambda>_. bindR (throwIf (family backend \<and> tb_primaryKeyName table \<noteq> ''PRIMARY'')
                          (invalid ''MySQL-family primary keys must use their physical name PRIMARY''
                             backend (tb_name table)))
                 (\<lambda>_. Inr [tb_primaryKeyName table]))
             else Inr [])))"

definition validate_index ::
  "backend_type \<Rightarrow> physical_table \<Rightarrow> physical_index \<Rightarrow> string list \<Rightarrow> (exn, string list) result" where
  "validate_index backend table index seen =
     bindR (requireName (ix_name index) backend (tb_name table))
       (\<lambda>_. bindR (throwIf (ix_name index \<in> set seen)
                (invalid ''Snapshot index names must be unique'' backend (tb_name table)))
       (\<lambda>_. bindR (requireColumnList table (ix_columns index) backend False)
       (\<lambda>_. Inr (ix_name index # seen))))"

definition key_pair_ok ::
  "physical_table \<Rightarrow> physical_table \<Rightarrow> physical_foreign_key \<Rightarrow> string \<times> string \<Rightarrow> bool" where
  "key_pair_ok table target key = (\<lambda>(localName, remoteName).
     case (columnNamed table localName, columnNamed target remoteName) of
       (Some here, Some remote) \<Rightarrow>
         \<not> (pc_logicalType here \<noteq> pc_logicalType remote \<or> pc_sqlType here \<noteq> pc_sqlType remote
            \<or> pc_maxStringLength here \<noteq> pc_maxStringLength remote
            \<or> ((fk_onDelete key = ''SET NULL'' \<or> fk_onUpdate key = ''SET NULL'') \<and> \<not> pc_nullable here))
     | _ \<Rightarrow> False)"

definition validate_foreign_key ::
  "backend_type \<Rightarrow> physical_schema \<Rightarrow> physical_table \<Rightarrow> physical_foreign_key \<Rightarrow> string list \<Rightarrow>
   (exn, string list) result" where
  "validate_foreign_key backend schema table key seen =
     bindR (requireName (fk_name key) backend (tb_name table))
       (\<lambda>_. bindR (throwIf (fk_name key \<in> set seen \<or> \<not> validAction (fk_onDelete key)
                             \<or> \<not> validAction (fk_onUpdate key)
                             \<or> length (fk_columns key) \<noteq> length (fk_targetColumns key))
                (invalid ''Snapshot foreign-key names, actions and column counts must be valid'' backend
                   (tb_name table)))
       (\<lambda>_. bindR (requireColumnList table (fk_columns key) backend False)
       (\<lambda>_. bindR (throwIf (family backend \<and> \<not> key_supported table (fk_columns key))
                (invalid ''MySQL-family foreign keys require a declared supporting index'' backend
                   (tb_name table)))
       (\<lambda>_. case find (\<lambda>t. tb_name t = fk_targetTable key) (sc_tables schema) of
              None \<Rightarrow> Inl (invalid ''Snapshot foreign key references an absent table'' backend (tb_name table))
            | Some target \<Rightarrow>
                bindR (requireColumnList target (fk_targetColumns key) backend False)
                  (\<lambda>_. bindR (throwIf (\<not> (fk_targetColumns key = tb_primaryKey target
                            \<or> (\<exists>index \<in> set (tb_indexes target).
                                 ix_unique index \<and> ix_columns index = fk_targetColumns key)))
                           (invalid ''Snapshot foreign key must reference an ordered unique key'' backend
                              (tb_name table)))
                  (\<lambda>_. bindR (forR (\<lambda>pair. throwIf (\<not> key_pair_ok table target key pair)
                           (invalid ''Snapshot foreign-key columns must have matching types and compatible nullability''
                              backend (tb_name table))) (zip (fk_columns key) (fk_targetColumns key)))
                  (\<lambda>_. Inr (fk_name key # seen))))))))"

definition reserved_table :: "string \<Rightarrow> bool" where
  "reserved_table name \<longleftrightarrow>
     name = ''_orm_migrations'' \<or> name = ''_orm_migrations_incomplete'' \<or> starts_with name ''sqlite_''"

definition validate_table ::
  "backend_type \<Rightarrow> physical_schema \<Rightarrow> physical_table \<Rightarrow> string list \<Rightarrow> (exn, string list) result" where
  "validate_table backend schema table seen =
     bindR (requireName (tb_name table) backend (tb_name table))
       (\<lambda>_. bindR (throwIf (reserved_table (tb_name table) \<or> tb_name table \<in> set seen \<or> tb_columns table = [])
                (invalid ''Snapshot contains a duplicate, empty or reserved table'' backend (tb_name table)))
       (\<lambda>_. bindR (throwIf (tb_options table \<noteq> tableOptions backend)
                (invalid ''Snapshot table options do not match its frozen backend profile'' backend
                   (tb_name table)))
       (\<lambda>_. bindR (foldR (validate_column backend table) (tb_columns table) [])
       (\<lambda>_. bindR (validate_primary_key backend table)
       (\<lambda>constraintNames. bindR (foldR (validate_index backend table) (tb_indexes table) constraintNames)
       (\<lambda>constraintNames. bindR (foldR (validate_foreign_key backend schema table) (tb_foreignKeys table)
                                 constraintNames)
       (\<lambda>_. Inr (tb_name table # seen))))))))"

definition validate_schema :: "backend_type \<times> physical_schema \<Rightarrow> (exn, unit) result" where
  "validate_schema = (\<lambda>(backend, schema).
     bindR (requireBackend backend)
       (\<lambda>_. bindR (profile backend)
       (\<lambda>expected. bindR (throwIf (sc_backend schema \<noteq> backend \<or> sc_profile schema \<noteq> expected)
                (invalid ''Snapshot backend or DDL render profile is inconsistent'' backend []))
       (\<lambda>_. bindR (foldR (validate_table backend schema) (sc_tables schema) [])
       (\<lambda>_. Inr ())))))"

definition validateSnapshot :: "schema_snapshot \<Rightarrow> (exn, unit) result" where
  "validateSnapshot snapshot =
     bindR (throwIf (ss_formatVersion snapshot \<noteq> 1 \<or> ss_backends snapshot = [])
              (invalid ''Snapshot format must be version 1 and declare at least one backend'' Empty []))
       (\<lambda>_. forR validate_schema (ss_backends snapshot))"

section \<open>Snapshots of models\<close>

definition emptySnapshot :: "backend_type list \<Rightarrow> (exn, schema_snapshot) result" where
  "emptySnapshot backends =
     bindR (foldR (\<lambda>backend entries.
              bindR (requireBackend backend)
                (\<lambda>_. bindR (profile backend)
                (\<lambda>text. bindR (throwIf (backend \<in> fst ` set entries)
                          (invalid ''Snapshot backend set contains duplicates'' backend []))
                (\<lambda>_. Inr (omap_insert backend
                        \<lparr>sc_backend = backend, sc_profile = text, sc_tables = []\<rparr> entries)))))
            backends [])
       (\<lambda>entries. let result = \<lparr>ss_formatVersion = 1, ss_backends = entries\<rparr>
                  in bindR (validateSnapshot result) (\<lambda>_. Inr result))"

text \<open>The tables of one model: its own, then its owned junction tables.\<close>

definition model_tables ::
  "schema_view \<Rightarrow> backend_type \<Rightarrow> nat \<Rightarrow> (exn, physical_table list) result" where
  "model_tables models backend index =
     bindR (physicalTable models (schema_at models index) backend)
       (\<lambda>table. bindR (physicalJunctions models (schema_at models index) backend)
       (\<lambda>junctions. Inr (table # junctions)))"

definition capture :: "schema_view \<Rightarrow> backend_type list \<Rightarrow> (exn, schema_snapshot) result" where
  "capture models backends =
     bindR (emptySnapshot backends)
       (\<lambda>empty. bindR (mapR (\<lambda>(backend, schema).
                  bindR (mapR (model_tables models backend) [0..<length models])
                    (\<lambda>tables. Inr (backend, schema\<lparr>sc_tables := concat tables\<rparr>))) (ss_backends empty))
       (\<lambda>entries. let result = canonicalize (empty\<lparr>ss_backends := entries\<rparr>)
                  in bindR (validateSnapshot result) (\<lambda>_. Inr result)))"

section \<open>Well-formed snapshots\<close>

text \<open>What the validator promises, without its order of checks and its accumulated sets.\<close>

definition name_ok :: "backend_type \<Rightarrow> string \<Rightarrow> bool" where
  "name_ok backend name \<longleftrightarrow>
     validName name \<and> \<not> starts_with name ''__orm_'' \<and>
     (backend = Postgres \<longrightarrow> length name \<le> 63) \<and> (family backend \<longrightarrow> length name \<le> 64)"

definition column_wf :: "backend_type \<Rightarrow> physical_table \<Rightarrow> physical_column \<Rightarrow> bool" where
  "column_wf backend table c \<longleftrightarrow>
     name_ok backend (pc_name c) \<and> validSqlType (pc_sqlType c) \<and>
     (native_only (pc_logicalType c) \<longrightarrow>
        sqlType backend (pc_logicalType c) (pc_maxStringLength c) = Inr (pc_sqlType c)) \<and>
     length_ok backend (pc_logicalType c) (pc_maxStringLength c) \<and> auto_increment_ok table c"

definition columns_of :: "physical_table \<Rightarrow> string list \<Rightarrow> bool" where
  "columns_of table names \<longleftrightarrow> distinct names \<and> set names \<subseteq> pc_name ` set (tb_columns table)"

definition primary_key_wf :: "backend_type \<Rightarrow> physical_table \<Rightarrow> bool" where
  "primary_key_wf backend table \<longleftrightarrow>
     columns_of table (tb_primaryKey table) \<and>
     (\<forall>name \<in> set (tb_primaryKey table). \<forall>c. columnNamed table name = Some c \<longrightarrow> \<not> pc_nullable c) \<and>
     (tb_primaryKey table = [] \<longleftrightarrow> tb_primaryKeyName table = []) \<and>
     (tb_primaryKeyName table \<noteq> [] \<longrightarrow> name_ok backend (tb_primaryKeyName table) \<and>
        (family backend \<longrightarrow> tb_primaryKeyName table = ''PRIMARY''))"

definition index_wf :: "backend_type \<Rightarrow> physical_table \<Rightarrow> physical_index \<Rightarrow> bool" where
  "index_wf backend table index \<longleftrightarrow>
     name_ok backend (ix_name index) \<and> ix_columns index \<noteq> [] \<and> columns_of table (ix_columns index)"

definition foreign_key_wf ::
  "backend_type \<Rightarrow> physical_schema \<Rightarrow> physical_table \<Rightarrow> physical_foreign_key \<Rightarrow> bool" where
  "foreign_key_wf backend schema table key \<longleftrightarrow>
     name_ok backend (fk_name key) \<and> validAction (fk_onDelete key) \<and> validAction (fk_onUpdate key) \<and>
     length (fk_columns key) = length (fk_targetColumns key) \<and>
     fk_columns key \<noteq> [] \<and> columns_of table (fk_columns key) \<and>
     (family backend \<longrightarrow> key_supported table (fk_columns key)) \<and>
     (\<exists>target. find (\<lambda>t. tb_name t = fk_targetTable key) (sc_tables schema) = Some target \<and>
        columns_of target (fk_targetColumns key) \<and>
        (fk_targetColumns key = tb_primaryKey target \<or>
         (\<exists>index \<in> set (tb_indexes target). ix_unique index \<and> ix_columns index = fk_targetColumns key)) \<and>
        (\<forall>pair \<in> set (zip (fk_columns key) (fk_targetColumns key)). key_pair_ok table target key pair))"

definition constraint_names :: "physical_table \<Rightarrow> string list" where
  "constraint_names table =
     (if tb_primaryKeyName table = [] then [] else [tb_primaryKeyName table])
     @ map ix_name (tb_indexes table) @ map fk_name (tb_foreignKeys table)"

definition table_wf :: "backend_type \<Rightarrow> physical_schema \<Rightarrow> physical_table \<Rightarrow> bool" where
  "table_wf backend schema table \<longleftrightarrow>
     name_ok backend (tb_name table) \<and> \<not> reserved_table (tb_name table) \<and> tb_columns table \<noteq> [] \<and>
     tb_options table = tableOptions backend \<and>
     distinct (map pc_name (tb_columns table)) \<and>
     (\<forall>c \<in> set (tb_columns table). column_wf backend table c) \<and>
     primary_key_wf backend table \<and> distinct (constraint_names table) \<and>
     (\<forall>index \<in> set (tb_indexes table). index_wf backend table index) \<and>
     (\<forall>key \<in> set (tb_foreignKeys table). foreign_key_wf backend schema table key)"

definition schema_wf :: "backend_type \<Rightarrow> physical_schema \<Rightarrow> bool" where
  "schema_wf backend schema \<longleftrightarrow>
     backend \<in> set generationBackends \<and> sc_backend schema = backend \<and>
     profile backend = Inr (sc_profile schema) \<and>
     distinct (map tb_name (sc_tables schema)) \<and>
     (\<forall>table \<in> set (sc_tables schema). table_wf backend schema table)"

definition snapshot_wf :: "schema_snapshot \<Rightarrow> bool" where
  "snapshot_wf snapshot \<longleftrightarrow>
     ss_formatVersion snapshot = 1 \<and> ss_backends snapshot \<noteq> [] \<and>
     (\<forall>(backend, schema) \<in> set (ss_backends snapshot). schema_wf backend schema)"

lemma requireName_iff [simp]: "requireName name backend path = Inr u \<longleftrightarrow> name_ok backend name"
  by (auto simp: requireName_def name_ok_def Let_def family_def)

lemma requireColumnList_columns_of [simp]:
  "requireColumnList table names backend allowEmpty = Inr u \<longleftrightarrow>
   (allowEmpty \<or> names \<noteq> []) \<and> columns_of table names"
  using requireColumnList_iff [of table names backend allowEmpty] by (simp add: columns_of_def)

lemma validLogicalType_all [simp]: "validLogicalType type"
  by (cases type) (simp_all add: validLogicalType_def)

lemma validate_column_iff:
  "validate_column backend table c seen = Inr r \<longleftrightarrow>
   column_wf backend table c \<and> pc_name c \<notin> set seen \<and> r = pc_name c # seen"
  by (auto simp: validate_column_def column_wf_def Let_def split: if_splits)

lemma validate_primary_key_iff:
  "validate_primary_key backend table = Inr r \<longleftrightarrow>
   primary_key_wf backend table \<and>
   r = (if tb_primaryKeyName table = [] then [] else [tb_primaryKeyName table])"
  by (auto simp: validate_primary_key_def primary_key_wf_def split: if_splits option.splits)

lemma validate_index_iff:
  "validate_index backend table index seen = Inr r \<longleftrightarrow>
   index_wf backend table index \<and> ix_name index \<notin> set seen \<and> r = ix_name index # seen"
  by (auto simp: validate_index_def index_wf_def)

lemma validate_foreign_key_iff:
  "validate_foreign_key backend schema table key seen = Inr r \<longleftrightarrow>
   foreign_key_wf backend schema table key \<and> fk_name key \<notin> set seen \<and> r = fk_name key # seen"
proof (cases "find (\<lambda>t. tb_name t = fk_targetTable key) (sc_tables schema)")
  case None
  then show ?thesis by (simp add: validate_foreign_key_def foreign_key_wf_def)
next
  case (Some target)
  have "fk_targetColumns key \<noteq> []" if "fk_columns key \<noteq> []"
    "length (fk_columns key) = length (fk_targetColumns key)" using that by auto
  then show ?thesis
    unfolding validate_foreign_key_def foreign_key_wf_def Some
    by auto
qed

section \<open>The validator against its specification\<close>

lemma validate_table_iff:
  "validate_table backend schema table seen = Inr r \<longleftrightarrow>
   table_wf backend schema table \<and> tb_name table \<notin> set seen \<and> r = tb_name table # seen"
proof -
  note columns = foldR_seen [where f = "validate_column backend table", OF validate_column_iff]
  note indexes = foldR_seen [where f = "validate_index backend table", OF validate_index_iff]
  note keys = foldR_seen [where f = "validate_foreign_key backend schema table", OF validate_foreign_key_iff]
  show ?thesis
    unfolding validate_table_def table_wf_def constraint_names_def
    by (auto simp: columns indexes keys validate_primary_key_iff)
qed

lemma profile_ok: "requireBackend backend = Inr () \<Longrightarrow> \<exists>text. profile backend = Inr text"
  by (auto simp: profile_def requireBackend_def generationBackends_def backendName_def)

lemma validate_schema_iff:
  "validate_schema (backend, schema) = Inr u \<longleftrightarrow> schema_wf backend schema"
proof -
  note tables = foldR_seen [where f = "validate_table backend schema", OF validate_table_iff]
  have "requireBackend backend = Inr u \<longleftrightarrow> backend \<in> set generationBackends"
    by (auto simp: requireBackend_def)
  then show ?thesis
    unfolding validate_schema_def schema_wf_def by (auto simp: tables)
qed

lemma validateSnapshot_wf: "validateSnapshot snapshot = Inr u \<longleftrightarrow> snapshot_wf snapshot"
proof -
  have "(\<forall>x \<in> set (ss_backends snapshot). validate_schema x = Inr ()) \<longleftrightarrow>
        (\<forall>(backend, schema) \<in> set (ss_backends snapshot). schema_wf backend schema)"
    using validate_schema_iff by fast
  then show ?thesis
    by (auto simp: validateSnapshot_def snapshot_wf_def)
qed

section \<open>Canonical order\<close>

lemma find_by_key:
  assumes "distinct (map f xs)"
  shows "find (\<lambda>x. f x = n) xs = Some x \<longleftrightarrow> x \<in> set xs \<and> f x = n"
  using assms by (induction xs) (auto simp: image_iff)

lemma find_by_key_cong:
  assumes "distinct (map f xs)" "mset xs = mset ys"
  shows "find (\<lambda>x. f x = n) ys = find (\<lambda>x. f x = n) xs"
proof -
  have "distinct (map f ys)" using assms by (metis mset_map mset_eq_imp_distinct_iff)
  moreover have "set ys = set xs" using assms(2) by (metis mset_eq_setD)
  ultimately have "find (\<lambda>x. f x = n) ys = Some z \<longleftrightarrow> find (\<lambda>x. f x = n) xs = Some z" for z
    using assms(1) by (simp add: find_by_key)
  then show ?thesis by (metis not_Some_eq)
qed

lemma sort_key_unique:
  assumes "distinct (map f xs)" "mset xs = mset ys"
  shows "sort_key f xs = sort_key f ys"
proof (rule properties_for_sort_key)
  show "mset (sort_key f ys) = mset xs" using assms(2) by simp
  show "sorted (map f (sort_key f ys))" by simp
  fix k
  have one: "length (filter (\<lambda>x. f k = f x) zs) \<le> 1" if "distinct (map f zs)" for zs
    using that by (induction zs) (auto simp: image_iff filter_empty_conv)
  have "distinct (map f (sort_key f ys))" using assms by (metis mset_map mset_eq_imp_distinct_iff mset_sort)
  then have "length (filter (\<lambda>x. f k = f x) (sort_key f ys)) \<le> 1" by (rule one)
  moreover have "length (filter (\<lambda>x. f k = f x) xs) \<le> 1" using assms(1) by (rule one)
  moreover have "mset (filter (\<lambda>x. f k = f x) (sort_key f ys)) = mset (filter (\<lambda>x. f k = f x) xs)"
    using assms(2) by (simp add: mset_filter)
  ultimately show "filter (\<lambda>x. f k = f x) (sort_key f ys) = filter (\<lambda>x. f k = f x) xs"
    by (cases "filter (\<lambda>x. f k = f x) xs"; cases "filter (\<lambda>x. f k = f x) (sort_key f ys)") auto
qed

lemma sort_key_idem [simp]: "sort_key f (sort_key f xs) = sort_key f xs"
  by (rule sort_key_id_if_sorted) simp

lemma canonical_table_name [simp]:
  "tb_name (canonical_table t) = tb_name t" "tb_primaryKey (canonical_table t) = tb_primaryKey t"
  "tb_primaryKeyName (canonical_table t) = tb_primaryKeyName t" "tb_options (canonical_table t) = tb_options t"
  "set (tb_columns (canonical_table t)) = set (tb_columns t)"
  "set (tb_indexes (canonical_table t)) = set (tb_indexes t)"
  "set (tb_foreignKeys (canonical_table t)) = set (tb_foreignKeys t)"
  by (simp_all add: canonical_table_def)

lemma canonical_table_idem [simp]: "canonical_table (canonical_table t) = canonical_table t"
  by (simp add: canonical_table_def)

lemma canonical_schema_idem [simp]: "canonical_schema (canonical_schema s) = canonical_schema s"
proof -
  have "sorted (map tb_name (map canonical_table (sort_key tb_name (sc_tables s))))"
    by (simp add: comp_def)
  then have "sort_key tb_name (map canonical_table (sort_key tb_name (sc_tables s))) =
        map canonical_table (sort_key tb_name (sc_tables s))"
    by (rule sort_key_id_if_sorted)
  then show ?thesis by (simp add: canonical_schema_def comp_def)
qed

lemma canonicalize_idem [simp]: "canonicalize (canonicalize s) = canonicalize s"
  by (simp add: canonicalize_def comp_def case_prod_beta)


section \<open>Validity does not depend on the order\<close>

lemma columnNamed_canonical:
  "distinct (map pc_name (tb_columns t)) \<Longrightarrow> columnNamed (canonical_table t) n = columnNamed t n"
  using find_by_key_cong [of pc_name "tb_columns t" "sort_key pc_name (tb_columns t)" n]
  by (simp add: columnNamed_def canonical_table_def)

lemma columns_of_canonical [simp]: "columns_of (canonical_table t) ns = columns_of t ns"
  by (simp add: columns_of_def)

lemma key_supported_canonical [simp]: "key_supported (canonical_table t) cs = key_supported t cs"
  by (simp add: key_supported_def)

lemma auto_increment_ok_canonical [simp]: "auto_increment_ok (canonical_table t) c = auto_increment_ok t c"
  by (simp add: auto_increment_ok_def)

lemma distinct_map_sort_key [simp]: "distinct (map f (sort_key f xs)) = distinct (map f xs)"
  by (metis mset_map mset_eq_imp_distinct_iff mset_sort)

lemma distinct_constraint_names [simp]:
  "distinct (constraint_names (canonical_table t)) = distinct (constraint_names t)"
proof -
  have "mset (constraint_names (canonical_table t)) = mset (constraint_names t)"
    by (simp add: constraint_names_def canonical_table_def)
  then show ?thesis by (rule mset_eq_imp_distinct_iff)
qed

lemma find_canonical_table:
  assumes "distinct (map tb_name (sc_tables schema))"
  shows "find (\<lambda>t. tb_name t = n) (sc_tables (canonical_schema schema)) =
         map_option canonical_table (find (\<lambda>t. tb_name t = n) (sc_tables schema))"
proof -
  have "find (\<lambda>t. tb_name t = n) (map canonical_table xs) =
        map_option canonical_table (find (\<lambda>t. tb_name t = n) xs)" for xs
    by (induction xs) auto
  moreover have "find (\<lambda>t. tb_name t = n) (sort_key tb_name (sc_tables schema)) =
        find (\<lambda>t. tb_name t = n) (sc_tables schema)"
    by (rule find_by_key_cong [OF assms]) simp
  ultimately show ?thesis by (simp add: canonical_schema_def)
qed

definition columns_distinct :: "physical_schema \<Rightarrow> bool" where
  "columns_distinct schema \<longleftrightarrow> distinct (map tb_name (sc_tables schema)) \<and>
     (\<forall>t \<in> set (sc_tables schema). distinct (map pc_name (tb_columns t)))"

lemma foreign_key_wf_canonical:
  assumes "columns_distinct schema" "t \<in> set (sc_tables schema)"
  shows "foreign_key_wf backend (canonical_schema schema) (canonical_table t) key =
         foreign_key_wf backend schema t key"
proof -
  have names: "distinct (map tb_name (sc_tables schema))"
    and cols: "distinct (map pc_name (tb_columns u))" if "u \<in> set (sc_tables schema)" for u
    using assms that by (auto simp: columns_distinct_def)
  have pair: "key_pair_ok (canonical_table t) (canonical_table u) key p = key_pair_ok t u key p"
    if "u \<in> set (sc_tables schema)" for u p
    using cols [OF that] cols [OF assms(2)] by (simp add: key_pair_ok_def columnNamed_canonical)
  show ?thesis
  proof (cases "find (\<lambda>t. tb_name t = fk_targetTable key) (sc_tables schema)")
    case None
    then show ?thesis
      using assms by (simp add: foreign_key_wf_def find_canonical_table columns_distinct_def)
  next
    case (Some u)
    then have "u \<in> set (sc_tables schema)" by (auto simp: find_Some_iff)
    with Some assms pair show ?thesis
      by (simp add: foreign_key_wf_def find_canonical_table columns_distinct_def)
  qed
qed

lemma primary_key_wf_canonical:
  "distinct (map pc_name (tb_columns t)) \<Longrightarrow>
   primary_key_wf backend (canonical_table t) = primary_key_wf backend t"
  by (simp add: primary_key_wf_def columnNamed_canonical)

lemma table_wf_canonical:
  assumes "columns_distinct schema" "t \<in> set (sc_tables schema)"
  shows "table_wf backend (canonical_schema schema) (canonical_table t) = table_wf backend schema t"
proof -
  have "distinct (map pc_name (tb_columns (canonical_table t))) = distinct (map pc_name (tb_columns t))"
    by (simp add: canonical_table_def)
  moreover have "(tb_columns (canonical_table t) \<noteq> []) = (tb_columns t \<noteq> [])"
    by (metis canonical_table_name(5) set_empty)
  moreover have "distinct (map pc_name (tb_columns t))" using assms by (simp add: columns_distinct_def)
  ultimately show ?thesis
    using foreign_key_wf_canonical [OF assms]
    by (simp add: table_wf_def column_wf_def index_wf_def primary_key_wf_canonical)
qed

lemma schema_wf_canonical: "schema_wf backend (canonical_schema schema) = schema_wf backend schema"
proof -
  have names: "distinct (map tb_name (sc_tables (canonical_schema schema))) =
        distinct (map tb_name (sc_tables schema))"
    by (simp add: canonical_schema_def comp_def)
  have tables: "set (sc_tables (canonical_schema schema)) = canonical_table ` set (sc_tables schema)"
    by (simp add: canonical_schema_def)
  have same: "sc_backend (canonical_schema schema) = sc_backend schema"
    "sc_profile (canonical_schema schema) = sc_profile schema" by (simp_all add: canonical_schema_def)
  have distinct: "columns_distinct schema"
    if "distinct (map tb_name (sc_tables schema))"
      "(\<forall>t \<in> set (sc_tables schema). table_wf backend (canonical_schema schema) (canonical_table t)) \<or>
       (\<forall>t \<in> set (sc_tables schema). table_wf backend schema t)"
    using that by (auto simp: columns_distinct_def table_wf_def canonical_table_def)
  show ?thesis
    unfolding schema_wf_def names same tables using distinct table_wf_canonical by blast
qed

lemma snapshot_wf_canonical: "snapshot_wf (canonicalize s) = snapshot_wf s"
  by (auto simp: snapshot_wf_def canonicalize_def schema_wf_canonical)

section \<open>Rendering succeeds on quotable names\<close>

lemma foldR_isOk: "(\<forall>x \<in> set xs. \<forall>s. isOk (f x s)) \<Longrightarrow> isOk (foldR f xs s)"
proof (induction xs arbitrary: s)
  case (Cons x xs)
  have "isOk (f x s)" using Cons.prems by simp
  then obtain t where "f x s = Inr t" by (auto simp: isOk_iff)
  with Cons show ?case by simp
qed simp

text \<open>
  What the rendering templates need of the callable that quotes identifiers: it succeeds on the
  names a client considers acceptable.
\<close>

locale identifier_quoting =
  fixes quote :: quoter and acceptable :: "string \<Rightarrow> bool"
  assumes quote_ok: "acceptable name \<Longrightarrow> isOk (quote name)"
begin

lemma quotedList_ok: "\<forall>n \<in> set names. acceptable n \<Longrightarrow> isOk (quotedList quote names)"
  unfolding quotedList_def by (rule foldR_isOk) (auto simp: isOk_iff dest!: quote_ok)

lemma foreignKeySql_ok:
  assumes "fk_columns key \<noteq> []" "length (fk_columns key) = length (fk_targetColumns key)"
    "validAction (fk_onDelete key)" "validAction (fk_onUpdate key)"
    "\<forall>n \<in> insert (fk_name key) (insert (fk_targetTable key) (set (fk_columns key) \<union> set (fk_targetColumns key))).
       acceptable n"
  shows "isOk (foreignKeySql quote key)"
proof -
  have "isOk (quotedList quote (fk_columns key))" "isOk (quotedList quote (fk_targetColumns key))"
    "isOk (quote (fk_name key))" "isOk (quote (fk_targetTable key))"
    using assms(5) by (auto intro: quotedList_ok quote_ok)
  with assms(1-4) show ?thesis by (auto simp: isOk_iff foreignKeySql_def)
qed

lemma index_definition_ok:
  "acceptable (ix_name i) \<Longrightarrow> \<forall>n \<in> set (ix_columns i). acceptable n \<Longrightarrow> isOk (index_definition quote i)"
  using quote_ok [of "ix_name i"] quotedList_ok [of "ix_columns i"]
  by (auto simp: isOk_iff index_definition_def)

lemma primary_definition_ok:
  assumes "tb_primaryKey t \<noteq> [] \<Longrightarrow> acceptable (tb_primaryKeyName t)"
    "\<forall>n \<in> set (tb_primaryKey t). acceptable n"
  shows "isOk (primary_definition quote t)"
  using assms quote_ok [of "tb_primaryKeyName t"] quotedList_ok [of "tb_primaryKey t"]
  by (auto simp: isOk_iff primary_definition_def)

lemma createTableSql_ok:
  assumes "tb_columns t \<noteq> []"
    and "\<forall>c \<in> set (tb_columns t). auto_increment_ok t c \<and> isOk (columnSql c (pc_autoIncrement c) (tb_primaryKeyName t))"
    and "isOk (primary_definition quote t)"
    and "\<forall>i \<in> set (tb_indexes t). isOk (index_definition quote i)"
    and "\<forall>k \<in> set (tb_foreignKeys t). isOk (foreignKeySql quote k)"
  shows "isOk (createTableSql t before after includeForeignKeys inlineIndexes quote columnSql)"
proof -
  have "isOk (mapR (\<lambda>column. bindR (throwIf (\<not> auto_increment_ok t column) e)
      (\<lambda>_. columnSql column (pc_autoIncrement column) (tb_primaryKeyName t))) (tb_columns t))" for e
    using assms(2) by (simp add: mapR_isOk)
  moreover have "isOk (if inlineIndexes then mapR (index_definition quote) (tb_indexes t) else Inr [])"
    "isOk (if includeForeignKeys then mapR (foreignKeySql quote) (tb_foreignKeys t) else Inr [])"
    using assms(4,5) by (simp_all add: mapR_isOk)
  ultimately show ?thesis using assms(1,3) by (fastforce simp: isOk_iff createTableSql_def)
qed

end

interpretation backend_quoting:
  identifier_quoting "quoteIdentifier backend" "\<lambda>n. backend \<in> set generationBackends \<and> validName n"
  for backend
  by unfold_locales (simp add: quoteIdentifier_def requireBackend_def)

lemma name_ok_validName: "name_ok backend n \<Longrightarrow> validName n"
  by (simp add: name_ok_def)

lemma columns_of_valid:
  "table_wf backend schema t \<Longrightarrow> columns_of t names \<Longrightarrow> \<forall>n \<in> set names. validName n"
  by (auto simp: table_wf_def columns_of_def column_wf_def name_ok_def)

lemma schema_wf_table: "schema_wf backend schema \<Longrightarrow> t \<in> set (sc_tables schema) \<Longrightarrow> table_wf backend schema t"
  by (simp add: schema_wf_def)

lemma find_SomeD: "find P xs = Some x \<Longrightarrow> x \<in> set xs \<and> P x"
  by (auto simp: find_Some_iff)

lemma foreign_key_rendered:
  assumes schema: "schema_wf backend schema" and t: "t \<in> set (sc_tables schema)"
    and key: "key \<in> set (tb_foreignKeys t)"
  shows "isOk (foreignKeySql (quoteIdentifier backend) key)"
proof (rule backend_quoting.foreignKeySql_ok)
  have wf: "foreign_key_wf backend schema t key"
    using schema_wf_table [OF schema t] key by (simp add: table_wf_def)
  then show "fk_columns key \<noteq> []" "length (fk_columns key) = length (fk_targetColumns key)"
    "validAction (fk_onDelete key)" "validAction (fk_onUpdate key)" by (simp_all add: foreign_key_wf_def)
  from wf obtain u where u: "u \<in> set (sc_tables schema)" "tb_name u = fk_targetTable key"
    "columns_of u (fk_targetColumns key)" unfolding foreign_key_wf_def by (blast dest: find_SomeD)
  have "validName (fk_targetTable key)"
    using schema_wf_table [OF schema u(1)] u(2) by (auto simp: table_wf_def dest: name_ok_validName)
  moreover have "\<forall>n \<in> set (fk_targetColumns key). validName n"
    by (rule columns_of_valid [OF schema_wf_table [OF schema u(1)] u(3)])
  moreover have "\<forall>n \<in> set (fk_columns key). validName n"
    using wf by (intro columns_of_valid [OF schema_wf_table [OF schema t]]) (simp add: foreign_key_wf_def)
  moreover have "validName (fk_name key)" using wf by (auto simp: foreign_key_wf_def dest: name_ok_validName)
  ultimately show "\<forall>n \<in> insert (fk_name key) (insert (fk_targetTable key)
      (set (fk_columns key) \<union> set (fk_targetColumns key))). backend \<in> set generationBackends \<and> validName n"
    using schema by (auto simp: schema_wf_def)
qed

lemma column_rendered:
  assumes "backend \<in> set generationBackends" "column_wf backend t c" "primary_key_wf backend t"
  shows "isOk (renderColumn backend c (pc_autoIncrement c) (tb_primaryKeyName t))"
proof -
  have quote: "isOk (quoteIdentifier backend n)" if "name_ok backend n" for n
    using that assms(1) by (intro backend_quoting.quote_ok) (auto dest: name_ok_validName)
  have "isOk (primary_clause backend c (pc_autoIncrement c) (tb_primaryKeyName t))"
    using assms(3) quote [of "tb_primaryKeyName t"] by (auto simp: primary_clause_def primary_key_wf_def isOk_iff)
  moreover have "isOk (quoteIdentifier backend (pc_name c))"
    using assms(2) by (intro quote) (simp add: column_wf_def)
  ultimately show ?thesis
    using assms by (auto simp: isOk_iff renderColumn_def column_wf_def auto_increment_ok_def requireBackend_def)
qed

lemma create_table_rendered:
  assumes schema: "schema_wf backend schema" and t: "t \<in> set (sc_tables schema)"
  shows "isOk (renderCreateTable backend t includeForeignKeys ifNotExists)"
proof -
  have wf: "table_wf backend schema t" by (rule schema_wf_table [OF schema t])
  have backend: "backend \<in> set generationBackends" using schema by (simp add: schema_wf_def)
  have pk: "primary_key_wf backend t" using wf by (simp add: table_wf_def)
  have name: "isOk (quoteIdentifier backend (tb_name t))"
    using wf backend by (intro backend_quoting.quote_ok) (auto simp: table_wf_def dest: name_ok_validName)
  have "isOk (createTableSql t before after includeForeignKeys (family backend)
      (quoteIdentifier backend) (renderColumn backend))" for before after
  proof (rule backend_quoting.createTableSql_ok)
    show "tb_columns t \<noteq> []" using wf by (simp add: table_wf_def)
    show "\<forall>c \<in> set (tb_columns t). auto_increment_ok t c \<and>
        isOk (renderColumn backend c (pc_autoIncrement c) (tb_primaryKeyName t))"
      using wf column_rendered [OF backend _ pk] by (auto simp: table_wf_def column_wf_def)
    show "isOk (primary_definition (quoteIdentifier backend) t)"
      using pk backend columns_of_valid [OF wf] name_ok_validName [of backend "tb_primaryKeyName t"]
      by (intro backend_quoting.primary_definition_ok) (auto simp: primary_key_wf_def)
    show "\<forall>i \<in> set (tb_indexes t). isOk (index_definition (quoteIdentifier backend) i)"
      using wf backend columns_of_valid [OF wf] name_ok_validName [of backend]
      by (intro ballI backend_quoting.index_definition_ok) (auto simp: table_wf_def index_wf_def)
    show "\<forall>k \<in> set (tb_foreignKeys t). isOk (foreignKeySql (quoteIdentifier backend) k)"
      using foreign_key_rendered [OF schema t] by blast
  qed
  with name backend show ?thesis
    by (auto simp: renderCreateTable_def isOk_iff requireBackend_def Let_def)
qed

section \<open>Quoting\<close>

text \<open>
  How SQL reads a delimited identifier after its opening delimiter: a doubled delimiter stands for
  one, a single one ends the identifier; the result is the name and the text after it.
\<close>

fun scan_quoted :: "char \<Rightarrow> string \<Rightarrow> (string \<times> string) option" where
  "scan_quoted d [] = None"
| "scan_quoted d [c] = (if c = d then Some ([], []) else None)"
| "scan_quoted d (c # e # cs) =
     (if c \<noteq> d then map_option (\<lambda>(name, rest). (c # name, rest)) (scan_quoted d (e # cs))
      else if e = d then map_option (\<lambda>(name, rest). (d # name, rest)) (scan_quoted d cs)
      else Some ([], e # cs))"

lemma scan_double_delimiter:
  "rest = [] \<or> hd rest \<noteq> d \<Longrightarrow> scan_quoted d (double_delimiter d name @ d # rest) = Some (name, rest)"
proof (induction name)
  case Nil
  then show ?case by (cases rest) auto
next
  case (Cons c name)
  show ?case
  proof (cases "c = d")
    case True
    with Cons show ?thesis by simp
  next
    case False
    with Cons show ?thesis by (cases "double_delimiter d name") auto
  qed
qed

section \<open>Captured snapshots\<close>

definition empty_step :: "backend_type \<Rightarrow> (backend_type, physical_schema) omap \<Rightarrow>
  (exn, (backend_type, physical_schema) omap) result" where
  "empty_step backend entries =
     bindR (requireBackend backend)
       (\<lambda>_. bindR (profile backend)
       (\<lambda>text. bindR (throwIf (backend \<in> fst ` set entries)
                 (invalid ''Snapshot backend set contains duplicates'' backend []))
       (\<lambda>_. Inr (omap_insert backend \<lparr>sc_backend = backend, sc_profile = text, sc_tables = []\<rparr> entries))))"

lemma empty_steps:
  "foldR empty_step backends entries = Inr r \<Longrightarrow> omap_ok entries \<Longrightarrow>
   omap_ok r \<and> fst ` set r = fst ` set entries \<union> set backends \<and> distinct backends \<and>
   fst ` set entries \<inter> set backends = {}"
proof (induction backends arbitrary: entries)
  case (Cons b bs)
  then obtain more where step: "empty_step b entries = Inr more"
    and rest: "foldR empty_step bs more = Inr r" by auto
  from step obtain prof where fresh: "b \<notin> fst ` set entries"
    and e: "more = omap_insert b \<lparr>sc_backend = b, sc_profile = prof, sc_tables = []\<rparr> entries"
    by (auto simp: empty_step_def)
  have "omap_ok more" unfolding e by (rule omap_ok_insert [OF Cons.prems(2)])
  from Cons.IH [OF rest this] fresh show ?case unfolding e fst_set_omap_insert by auto
qed simp

lemma emptySnapshot_backends:
  assumes "emptySnapshot backends = Inr s"
  shows "omap_ok (ss_backends s) \<and> fst ` set (ss_backends s) = set backends \<and> distinct backends"
proof -
  obtain entries where "foldR empty_step backends [] = Inr entries" "ss_backends s = entries"
    using assms unfolding emptySnapshot_def empty_step_def [abs_def] by (auto simp: Let_def)
  with empty_steps [of backends "[]" entries] show ?thesis by (simp add: omap_ok_def)
qed

lemma capture_result:
  assumes "capture models backends = Inr s"
  shows "snapshot_wf s \<and> canonicalize s = s"
    "omap_ok (ss_backends s) \<and> fst ` set (ss_backends s) = set backends"
    "(backend, schema) \<in> set (ss_backends s) \<Longrightarrow>
      \<exists>tables base. mapR (model_tables models backend) [0..<length models] = Inr tables \<and>
        schema = canonical_schema (base\<lparr>sc_tables := concat tables\<rparr>)"
proof -
  obtain start entries where start: "emptySnapshot backends = Inr start"
    and entries: "mapR (\<lambda>(backend, schema).
                  bindR (mapR (model_tables models backend) [0..<length models])
                    (\<lambda>tables. Inr (backend, schema\<lparr>sc_tables := concat tables\<rparr>))) (ss_backends start) = Inr entries"
    and s: "s = canonicalize (start\<lparr>ss_backends := entries\<rparr>)" and valid: "validateSnapshot s = Inr ()"
    using assms by (auto simp: capture_def Let_def)
  show "snapshot_wf s \<and> canonicalize s = s" using valid s by (simp add: validateSnapshot_wf)
  have pairs: "list_all2 (\<lambda>x y. fst x = fst y \<and> (\<exists>tables.
      mapR (model_tables models (fst y)) [0..<length models] = Inr tables \<and>
      snd y = (snd x)\<lparr>sc_tables := concat tables\<rparr>)) (ss_backends start) entries"
    by (rule list_all2_mono [OF mapR_Inr_iff [THEN iffD1, OF entries]]) (auto split: prod.splits)
  then have "map fst entries = map fst (ss_backends start)"
    by (induction rule: list_all2_induct) auto
  then have keys: "map fst (ss_backends s) = map fst (ss_backends start)"
    by (simp add: s canonicalize_def comp_def case_prod_beta)
  then have "fst ` set (ss_backends s) = fst ` set (ss_backends start)" by (metis set_map)
  with keys show "omap_ok (ss_backends s) \<and> fst ` set (ss_backends s) = set backends"
    using emptySnapshot_backends [OF start] by (simp add: omap_ok_def)
  assume "(backend, schema) \<in> set (ss_backends s)"
  then obtain raw where raw: "(backend, raw) \<in> set entries" "schema = canonical_schema raw"
    by (auto simp: s canonicalize_def)
  with pairs show "\<exists>tables base. mapR (model_tables models backend) [0..<length models] = Inr tables \<and>
        schema = canonical_schema (base\<lparr>sc_tables := concat tables\<rparr>)"
    by (fastforce simp: list_all2_conv_all_nth in_set_conv_nth)
qed

section \<open>Properties\<close>

text \<open>A model with an identity column and a bounded string, for the witnesses.\<close>

definition sample_models :: schema_view where
  "sample_models =
     [\<lparr>md_schemaIndex = 0, md_typeName = ''User'', md_tableName = ''users'',
       md_columns =
         [\<lparr>cv_fieldIndex = 0, cv_fieldName = ''id'', cv_name = ''id'', cv_type = Some IntT,
           cv_kind = ScalarField, cv_targetModelIndex = None, cv_isPrimaryKey = True,
           cv_isAutoIncrement = True, cv_isNotNull = True, cv_maxStringLength = None\<rparr>,
          \<lparr>cv_fieldIndex = 1, cv_fieldName = ''email'', cv_name = ''email'', cv_type = Some StringT,
           cv_kind = ScalarField, cv_targetModelIndex = None, cv_isPrimaryKey = False,
           cv_isAutoIncrement = False, cv_isNotNull = False, cv_maxStringLength = Some 255\<rparr>],
       md_primaryKeyIndices = [0], md_relations = []\<rparr>]"

definition sample_table :: physical_table where
  "sample_table =
     \<lparr>tb_name = ''users'',
      tb_columns =
        [\<lparr>pc_name = ''email'', pc_logicalType = StringT, pc_sqlType = ''VARCHAR(255)'', pc_nullable = True,
          pc_maxStringLength = Some 255, pc_autoIncrement = False\<rparr>,
         \<lparr>pc_name = ''id'', pc_logicalType = IntT, pc_sqlType = ''INT'', pc_nullable = False,
          pc_maxStringLength = None, pc_autoIncrement = True\<rparr>],
      tb_primaryKey = [''id''], tb_primaryKeyName = ''PRIMARY'', tb_foreignKeys = [], tb_indexes = [],
      tb_options = tableOptions Mysql\<rparr>"

definition sample_snapshot :: schema_snapshot where
  "sample_snapshot = \<lparr>ss_formatVersion = 1, ss_backends =
     [(Mysql, \<lparr>sc_backend = Mysql, sc_profile = ''orm-cxx-ddl-v1:mysql'', sc_tables = [sample_table]\<rparr>)]\<rparr>"

lemma sample_capture: "capture sample_models [Mysql] = Inr sample_snapshot"
  by code_simp


text \<open>
  C32. \<^verbatim>\<open>validateSnapshot\<close> accepts a snapshot exactly when it is well formed: format version 1, a
  known backend and profile per schema, unique table, column and constraint names, known SQL
  types, keys over existing columns, and foreign keys whose target exists, is a unique key and
  has the same column types. Both directions, for every snapshot.
\<close>

theorem validateSnapshot_spec: "validateSnapshot snapshot = Inr () \<longleftrightarrow> snapshot_wf snapshot"
  by (rule validateSnapshot_wf)

text \<open>
  Canonicalization is idempotent and does not change whether a snapshot is valid.
\<close>

theorem canonicalize_stable:
  "canonicalize (canonicalize s) = canonicalize s \<and>
   (validateSnapshot (canonicalize s) = Inr () \<longleftrightarrow> validateSnapshot s = Inr ())"
  by (simp add: validateSnapshot_wf snapshot_wf_canonical)

text \<open>
  Canonical tables do not depend on declaration order: two tables with unique names whose
  columns, foreign keys and indexes are permutations of each other have the same canonical form,
  so that the hash of a snapshot is a function of its contents.
\<close>

theorem canonical_order_independent:
  assumes "distinct (map pc_name (tb_columns t))" "distinct (map fk_name (tb_foreignKeys t))"
    "distinct (map ix_name (tb_indexes t))"
    and "mset columns = mset (tb_columns t)" "mset keys = mset (tb_foreignKeys t)"
    "mset indexes = mset (tb_indexes t)"
  shows "canonical_table (t\<lparr>tb_columns := columns, tb_foreignKeys := keys, tb_indexes := indexes\<rparr>) =
    canonical_table t"
  using sort_key_unique [OF assms(1) assms(4) [symmetric]] sort_key_unique [OF assms(2) assms(5) [symmetric]]
    sort_key_unique [OF assms(3) assms(6) [symmetric]]
  by (simp add: canonical_table_def)

theorem canonical_order_independent_witness:
  "canonical_table (sample_table\<lparr>tb_columns := rev (tb_columns sample_table), tb_foreignKeys := [],
     tb_indexes := []\<rparr>) = canonical_table sample_table"
  by (rule canonical_order_independent) (simp_all add: sample_table_def)



text \<open>
  Rendering never fails on a valid snapshot: every table of every backend of a snapshot that
  \<^verbatim>\<open>validateSnapshot\<close> accepts has a \<^verbatim>\<open>CREATE TABLE\<close> statement, with and without its foreign keys.
\<close>

theorem renderCreateTable_total:
  assumes "validateSnapshot s = Inr ()" "(backend, schema) \<in> set (ss_backends s)"
    "t \<in> set (sc_tables schema)"
  shows "\<exists>sql. renderCreateTable backend t includeForeignKeys ifNotExists = Inr sql"
  using assms create_table_rendered [of backend schema t] by (auto simp: validateSnapshot_wf snapshot_wf_def isOk_iff)

theorem renderCreateTable_total_witness:
  "\<exists>sql. renderCreateTable Mysql sample_table True False = Inr sql"
proof (rule renderCreateTable_total)
  show "validateSnapshot sample_snapshot = Inr ()"
    using capture_result(1) [OF sample_capture] by (simp add: validateSnapshot_wf)
  show "(Mysql, \<lparr>sc_backend = Mysql, sc_profile = ''orm-cxx-ddl-v1:mysql'', sc_tables = [sample_table]\<rparr>)
      \<in> set (ss_backends sample_snapshot)" by (simp add: sample_snapshot_def)
qed simp

text \<open>
  A quoted identifier cannot end early: read by the SQL rule for delimited identifiers, the
  text \<^verbatim>\<open>quoteIdentifier\<close> produces is one identifier, the original name, and what follows it is
  untouched, whatever delimiters the name contains.
\<close>

theorem quoteIdentifier_scans_back:
  assumes "quoteIdentifier backend name = Inr q" "rest = [] \<or> hd rest \<noteq> delimiter_of backend"
  shows "\<exists>body. q = delimiter_of backend # body \<and>
    scan_quoted (delimiter_of backend) (body @ rest) = Some (name, rest)"
  using assms scan_double_delimiter [OF assms(2), of name] by (auto simp: quoteIdentifier_def)

theorem quoteIdentifier_scans_back_witness:
  "quoteIdentifier Postgres ([CHR ''a'', dquote, CHR ''b'']) = Inr [dquote, CHR ''a'', dquote, dquote, CHR ''b'', dquote] \<and>
   scan_quoted dquote ([CHR ''a'', dquote, dquote, CHR ''b'', dquote] @ ''; x'') = Some ([CHR ''a'', dquote, CHR ''b''], ''; x'')"
proof -
  have q: "quoteIdentifier Postgres ([CHR ''a'', dquote, CHR ''b'']) =
      Inr [dquote, CHR ''a'', dquote, dquote, CHR ''b'', dquote]" by code_simp
  have d: "delimiter_of Postgres = dquote" by code_simp
  from quoteIdentifier_scans_back [OF q, of "''; x''"] q show ?thesis by (simp add: d)
qed

end
