(* ===== verification/Orm_Json.thy ===== *)
theory Orm_Json
  imports Orm_Snapshot
begin

text \<open>
  \<^verbatim>\<open>src/migrations/SchemaJson.cpp\<close>: the JSON metadata of migrations. A value of
  \<^verbatim>\<open>nlohmann::json\<close> is a \<open>json\<close>; its text form is the library's, so \<open>dump\<close> (for \<^verbatim>\<open>dump(2)\<close>) and
  \<open>parse\<close> (for \<^verbatim>\<open>strictJson\<close>, the library's parser with the callback that refuses duplicate
  fields) are parameters. Encoding and decoding of schemas and execution contexts are defined in
  full. A failed library accessor raises \<open>JsonException\<close>.
\<close>

datatype json =
    JNull
  | JBool bool
  | JInt int
  | JFloat string
  | JString string
  | JArray "json list"
  | JObject "(string, json) omap"

type_synonym dumper = "json \<Rightarrow> (exn, string) result"
type_synonym json_parser = "string \<Rightarrow> (exn, json) result"

section \<open>Library accessors\<close>

text \<open>A braced list of key/value pairs builds an object, ordered by key.\<close>

definition mk_object :: "(string \<times> json) list \<Rightarrow> json" where
  "mk_object pairs = JObject (foldl (\<lambda>m (k, v). omap_insert k v m) [] pairs)"

definition json_at :: "json \<Rightarrow> string \<Rightarrow> (exn, json) result" where
  "json_at value key =
     (case value of
        JObject m \<Rightarrow> (case map_of m key of Some v \<Rightarrow> Inr v | None \<Rightarrow> Inl JsonException)
      | _ \<Rightarrow> Inl JsonException)"

definition get_string :: "json \<Rightarrow> (exn, string) result" where
  "get_string value = (case value of JString s \<Rightarrow> Inr s | _ \<Rightarrow> Inl JsonException)"

definition get_bool :: "json \<Rightarrow> (exn, bool) result" where
  "get_bool value = (case value of JBool b \<Rightarrow> Inr b | _ \<Rightarrow> Inl JsonException)"

definition get_strings :: "json \<Rightarrow> (exn, string list) result" where
  "get_strings value = (case value of JArray vs \<Rightarrow> mapR get_string vs | _ \<Rightarrow> Inl JsonException)"

definition string_at :: "json \<Rightarrow> string \<Rightarrow> (exn, string) result" where
  "string_at value key = bindR (json_at value key) get_string"

definition bool_at :: "json \<Rightarrow> string \<Rightarrow> (exn, bool) result" where
  "bool_at value key = bindR (json_at value key) get_bool"

definition strings_at :: "json \<Rightarrow> string \<Rightarrow> (exn, string list) result" where
  "strings_at value key = bindR (json_at value key) get_strings"

fun is_array :: "json \<Rightarrow> bool" where
  "is_array (JArray _) = True"
| "is_array _ = False"

fun elements :: "json \<Rightarrow> json list" where
  "elements (JArray vs) = vs"
| "elements _ = []"

section \<open>Helpers of the source\<close>

definition metadata_error :: "string \<Rightarrow> exn" where
  "metadata_error message = MigrationError InvalidCatalog message 0 Empty None"

definition backendFromName :: "string \<Rightarrow> (exn, backend_type) result" where
  "backendFromName name =
     (case find (\<lambda>backend. backendName backend = Inr name) generationBackends of
        Some backend \<Rightarrow> Inr backend
      | None \<Rightarrow> Inl (metadata_error ''Unknown backend in migration metadata''))"

definition requireKeys :: "json \<Rightarrow> string list \<Rightarrow> (exn, unit) result" where
  "requireKeys value keys =
     (case value of
        JObject m \<Rightarrow>
          bindR (throwIf (length m \<noteq> length keys) (metadata_error ''Invalid migration metadata fields''))
            (\<lambda>_. forR (\<lambda>key. throwIf (map_of m key = None)
                                (metadata_error ''Missing migration metadata field'')) keys)
      | _ \<Rightarrow> Inl (metadata_error ''Invalid migration metadata fields''))"

definition optional_string :: "json \<Rightarrow> (exn, string option) result" where
  "optional_string value =
     (if value = JNull then Inr None else bindR (get_string value) (\<lambda>s. Inr (Some s)))"

fun column_number :: "column_type \<Rightarrow> int" where
  "column_number BoolT = 0"
| "column_number CharT = 1"
| "column_number UnsignedCharT = 2"
| "column_number ShortT = 3"
| "column_number UnsignedShortT = 4"
| "column_number IntT = 5"
| "column_number UnsignedIntT = 6"
| "column_number LongLongT = 7"
| "column_number UnsignedLongLongT = 8"
| "column_number FloatT = 9"
| "column_number DoubleT = 10"
| "column_number StringT = 11"
| "column_number UuidT = 12"
| "column_number DateT = 13"
| "column_number TimeOfDayT = 14"
| "column_number LocalDateTimeT = 15"
| "column_number UtcTimestampT = 16"

definition all_column_types :: "column_type list" where
  "all_column_types =
     [BoolT, CharT, UnsignedCharT, ShortT, UnsignedShortT, IntT, UnsignedIntT, LongLongT,
      UnsignedLongLongT, FloatT, DoubleT, StringT, UuidT, DateT, TimeOfDayT, LocalDateTimeT,
      UtcTimestampT]"

section \<open>Encoding\<close>

definition encode_strings :: "string list \<Rightarrow> json" where
  "encode_strings names = JArray (map JString names)"

definition encode_optional :: "string option \<Rightarrow> json" where
  "encode_optional value = (case value of Some s \<Rightarrow> JString s | None \<Rightarrow> JNull)"

definition encode_column :: "physical_column \<Rightarrow> json" where
  "encode_column c = mk_object
     [(''name'', JString (pc_name c)), (''logicalType'', JInt (column_number (pc_logicalType c))),
      (''sqlType'', JString (pc_sqlType c)), (''nullable'', JBool (pc_nullable c)),
      (''maxStringLength'', case pc_maxStringLength c of Some n \<Rightarrow> JInt (int n) | None \<Rightarrow> JNull),
      (''autoIncrement'', JBool (pc_autoIncrement c))]"

definition encode_key :: "physical_foreign_key \<Rightarrow> json" where
  "encode_key k = mk_object
     [(''name'', JString (fk_name k)), (''columns'', encode_strings (fk_columns k)),
      (''targetTable'', JString (fk_targetTable k)), (''targetColumns'', encode_strings (fk_targetColumns k)),
      (''onDelete'', JString (fk_onDelete k)), (''onUpdate'', JString (fk_onUpdate k))]"

definition encode_index :: "physical_index \<Rightarrow> json" where
  "encode_index i = mk_object
     [(''name'', JString (ix_name i)), (''columns'', encode_strings (ix_columns i)),
      (''unique'', JBool (ix_unique i))]"

definition encode_table :: "physical_table \<Rightarrow> json" where
  "encode_table t = mk_object
     [(''name'', JString (tb_name t)), (''columns'', JArray (map encode_column (tb_columns t))),
      (''primaryKey'', encode_strings (tb_primaryKey t)), (''primaryKeyName'', JString (tb_primaryKeyName t)),
      (''foreignKeys'', JArray (map encode_key (tb_foreignKeys t))),
      (''indexes'', JArray (map encode_index (tb_indexes t))), (''options'', JString (tb_options t))]"

definition encodeSchema :: "physical_schema \<Rightarrow> (exn, json) result" where
  "encodeSchema schema =
     bindR (backendName (sc_backend schema)) (\<lambda>name.
       Inr (mk_object [(''backend'', JString name), (''profile'', JString (sc_profile schema)),
              (''tables'', JArray (map encode_table (sc_tables schema)))]))"

definition encodeSnapshot :: "schema_snapshot \<Rightarrow> (exn, json) result" where
  "encodeSnapshot snapshot =
     bindR (mapR (\<lambda>(backend, schema).
              bindR (backendName backend) (\<lambda>name. bindR (encodeSchema schema) (\<lambda>j. Inr (name, j))))
            (ss_backends snapshot))
       (\<lambda>entries. Inr (mk_object [(''formatVersion'', JInt (ss_formatVersion snapshot)),
                                  (''backends'', mk_object entries)]))"

section \<open>Decoding\<close>

definition length_json_ok :: "json \<Rightarrow> bool" where
  "length_json_ok value = (case value of JNull \<Rightarrow> True | JInt n \<Rightarrow> 0 \<le> n | _ \<Rightarrow> False)"

definition decode_length :: "json \<Rightarrow> nat option" where
  "decode_length value = (case value of JInt n \<Rightarrow> Some (nat n) | _ \<Rightarrow> None)"

definition decode_column :: "json \<Rightarrow> (exn, physical_column) result" where
  "decode_column column =
     bindR (requireKeys column [''name'', ''logicalType'', ''sqlType'', ''nullable'', ''maxStringLength'',
                                ''autoIncrement''])
       (\<lambda>_. bindR (json_at column ''logicalType'')
       (\<lambda>type. bindR (json_at column ''maxStringLength'')
       (\<lambda>len. case (case type of JInt n \<Rightarrow> find (\<lambda>t. column_number t = n) all_column_types | _ \<Rightarrow> None) of
              None \<Rightarrow> Inl (metadata_error ''Column type and length must be valid integers'')
            | Some logical \<Rightarrow>
                bindR (throwIf (\<not> length_json_ok len)
                         (metadata_error ''Column type and length must be valid integers''))
                  (\<lambda>_. bindR (string_at column ''name'')
                  (\<lambda>name. bindR (string_at column ''sqlType'')
                  (\<lambda>sql. bindR (bool_at column ''nullable'')
                  (\<lambda>nullable. bindR (bool_at column ''autoIncrement'')
                  (\<lambda>auto. Inr \<lparr>pc_name = name, pc_logicalType = logical, pc_sqlType = sql,
                     pc_nullable = nullable, pc_maxStringLength = decode_length len,
                     pc_autoIncrement = auto\<rparr>))))))))"

definition decode_key :: "json \<Rightarrow> (exn, physical_foreign_key) result" where
  "decode_key key =
     bindR (requireKeys key [''name'', ''columns'', ''targetTable'', ''targetColumns'', ''onDelete'', ''onUpdate''])
       (\<lambda>_. bindR (string_at key ''name'')
       (\<lambda>name. bindR (strings_at key ''columns'')
       (\<lambda>columns. bindR (string_at key ''targetTable'')
       (\<lambda>target. bindR (strings_at key ''targetColumns'')
       (\<lambda>targets. bindR (string_at key ''onDelete'')
       (\<lambda>onDelete. bindR (string_at key ''onUpdate'')
       (\<lambda>onUpdate. Inr \<lparr>fk_name = name, fk_columns = columns, fk_targetTable = target,
          fk_targetColumns = targets, fk_onDelete = onDelete, fk_onUpdate = onUpdate\<rparr>)))))))"

definition decode_index :: "json \<Rightarrow> (exn, physical_index) result" where
  "decode_index index =
     bindR (requireKeys index [''name'', ''columns'', ''unique''])
       (\<lambda>_. bindR (string_at index ''name'')
       (\<lambda>name. bindR (strings_at index ''columns'')
       (\<lambda>columns. bindR (bool_at index ''unique'')
       (\<lambda>unique. Inr \<lparr>ix_name = name, ix_columns = columns, ix_unique = unique\<rparr>))))"

definition decode_table :: "json \<Rightarrow> (exn, physical_table) result" where
  "decode_table item =
     bindR (requireKeys item [''name'', ''columns'', ''primaryKey'', ''primaryKeyName'', ''foreignKeys'',
                              ''indexes'', ''options''])
       (\<lambda>_. bindR (string_at item ''name'')
       (\<lambda>name. bindR (strings_at item ''primaryKey'')
       (\<lambda>primary. bindR (string_at item ''primaryKeyName'')
       (\<lambda>primaryName. bindR (string_at item ''options'')
       (\<lambda>options. bindR (json_at item ''columns'')
       (\<lambda>columns. bindR (json_at item ''foreignKeys'')
       (\<lambda>keys. bindR (json_at item ''indexes'')
       (\<lambda>indexes. bindR (throwIf (\<not> is_array columns \<or> \<not> is_array keys \<or> \<not> is_array indexes)
                    (metadata_error ''Snapshot column, key and index fields must be arrays''))
       (\<lambda>_. bindR (mapR decode_column (elements columns))
       (\<lambda>columns. bindR (mapR decode_key (elements keys))
       (\<lambda>keys. bindR (mapR decode_index (elements indexes))
       (\<lambda>indexes. Inr \<lparr>tb_name = name, tb_columns = columns, tb_primaryKey = primary,
          tb_primaryKeyName = primaryName, tb_foreignKeys = keys, tb_indexes = indexes,
          tb_options = options\<rparr>))))))))))))"

definition decodeSchema :: "json \<Rightarrow> (exn, physical_schema) result" where
  "decodeSchema value =
     bindR (requireKeys value [''backend'', ''profile'', ''tables''])
       (\<lambda>_. bindR (string_at value ''backend'')
       (\<lambda>name. bindR (backendFromName name)
       (\<lambda>backend. bindR (string_at value ''profile'')
       (\<lambda>prof. bindR (json_at value ''tables'')
       (\<lambda>tables. bindR (throwIf (\<not> is_array tables) (metadata_error ''Snapshot tables must be an array''))
       (\<lambda>_. bindR (mapR decode_table (elements tables))
       (\<lambda>tables. Inr \<lparr>sc_backend = backend, sc_profile = prof, sc_tables = tables\<rparr>)))))))"

definition decode_entry :: "string \<times> json \<Rightarrow> (exn, backend_type \<times> physical_schema) result" where
  "decode_entry = (\<lambda>(name, schema).
     bindR (backendFromName name) (\<lambda>backend. bindR (decodeSchema schema) (\<lambda>physical.
     bindR (throwIf (sc_backend physical \<noteq> backend) (metadata_error ''Snapshot backend names disagree''))
       (\<lambda>_. Inr (backend, physical)))))"

definition decodeSnapshot :: "json \<Rightarrow> (exn, schema_snapshot) result" where
  "decodeSnapshot value =
     bindR (requireKeys value [''formatVersion'', ''backends''])
       (\<lambda>_. bindR (json_at value ''formatVersion'')
       (\<lambda>version. bindR (throwIf (version \<noteq> JInt 1) (metadata_error ''Unsupported snapshot format version''))
       (\<lambda>_. bindR (json_at value ''backends'')
       (\<lambda>backends. case backends of
          JObject m \<Rightarrow>
            bindR (mapR decode_entry m) (\<lambda>entries.
              let result = canonicalize \<lparr>ss_formatVersion = 1,
                    ss_backends = foldl (\<lambda>r (b, s). omap_insert b s r) [] entries\<rparr>
              in bindR (validateSnapshot result) (\<lambda>_. Inr result))
        | _ \<Rightarrow> Inl (metadata_error ''Snapshot backends must be an object'')))))"

text \<open>\<^verbatim>\<open>parseMetadata\<close>: which exceptions of the body become catalog errors.\<close>

fun metadata_exception :: "exn \<Rightarrow> exn" where
  "metadata_exception JsonException = metadata_error ''Invalid migration JSON metadata''"
| "metadata_exception (GenerationError _ _) = metadata_error ''Invalid physical schema in migration metadata''"
| "metadata_exception (InvalidArgument _) = metadata_error ''Invalid typed migration value''"
| "metadata_exception e = e"

definition parseMetadata :: "json_parser \<Rightarrow> string \<Rightarrow> (json \<Rightarrow> (exn, 'a) result) \<Rightarrow> (exn, 'a) result" where
  "parseMetadata parse input body =
     (case bindR (parse input) body of Inr x \<Rightarrow> Inr x | Inl e \<Rightarrow> Inl (metadata_exception e))"

section \<open>Entry points\<close>

definition snapshotJson :: "dumper \<Rightarrow> schema_snapshot \<Rightarrow> (exn, string) result" where
  "snapshotJson dump snapshot =
     (let canonical = canonicalize snapshot
      in bindR (validateSnapshot canonical) (\<lambda>_. bindR (encodeSnapshot canonical)
           (\<lambda>j. bindR (dump j) (\<lambda>s. Inr (s @ [newline])))))"

definition snapshotFromJson :: "json_parser \<Rightarrow> string \<Rightarrow> (exn, schema_snapshot) result" where
  "snapshotFromJson parse input = parseMetadata parse input decodeSnapshot"

text \<open>\<^verbatim>\<open>snapshot.backends.at(backend)\<close> throws when the backend is absent.\<close>

definition snapshotHash :: "dumper \<Rightarrow> schema_snapshot \<Rightarrow> backend_type \<Rightarrow> (exn, string) result" where
  "snapshotHash dump snapshot backend =
     (case map_of (ss_backends snapshot) backend of
        None \<Rightarrow> Inl (LogicError ''map::at'')
      | Some schema \<Rightarrow>
          bindR (snapshotJson dump \<lparr>ss_formatVersion = ss_formatVersion snapshot,
                                    ss_backends = [(backend, schema)]\<rparr>)
            (\<lambda>s. Inr (sha256 s)))"

definition encode_rebuild :: "rebuild_table \<Rightarrow> json" where
  "encode_rebuild t = mk_object
     [(''source'', JString (rt_source t)), (''target'', JString (rt_target t)),
      (''staging'', JString (rt_staging t)), (''sourceIdentity'', encode_optional (rt_sourceIdentity t)),
      (''targetIdentity'', encode_optional (rt_targetIdentity t))]"

definition encode_optional_schema :: "physical_schema option \<Rightarrow> (exn, json) result" where
  "encode_optional_schema schema = (case schema of Some s \<Rightarrow> encodeSchema s | None \<Rightarrow> Inr JNull)"

definition encode_context :: "execution_context \<Rightarrow> (exn, json) result" where
  "encode_context context =
     bindR (encode_optional_schema (ec_source context)) (\<lambda>source.
     bindR (encode_optional_schema (ec_target context)) (\<lambda>target.
       Inr (mk_object
         [(''mode'', JString (if ec_mode context = NormalMode then ''normal'' else ''sqlite-rebuild'')),
          (''tables'', encode_strings (ec_tables context)),
          (''rebuildTables'', JArray (map encode_rebuild (ec_rebuildTables context))),
          (''source'', source), (''target'', target)])))"

definition contextJson :: "dumper \<Rightarrow> execution_context \<Rightarrow> (exn, string) result" where
  "contextJson dump context =
     bindR (encode_context context) (\<lambda>j. bindR (dump j) (\<lambda>s. Inr (s @ [newline])))"

definition decode_rebuild :: "json \<Rightarrow> (exn, rebuild_table) result" where
  "decode_rebuild t =
     bindR (requireKeys t [''source'', ''target'', ''staging'', ''sourceIdentity'', ''targetIdentity''])
       (\<lambda>_. bindR (string_at t ''source'') (\<lambda>source. bindR (string_at t ''target'')
       (\<lambda>target. bindR (string_at t ''staging'') (\<lambda>staging.
          bindR (json_at t ''sourceIdentity'') (\<lambda>si. bindR (optional_string si)
       (\<lambda>sourceIdentity. bindR (json_at t ''targetIdentity'') (\<lambda>ti. bindR (optional_string ti)
       (\<lambda>targetIdentity. Inr \<lparr>rt_source = source, rt_target = target, rt_staging = staging,
          rt_sourceIdentity = sourceIdentity, rt_targetIdentity = targetIdentity\<rparr>))))))))"

definition decode_optional_schema :: "json \<Rightarrow> (exn, physical_schema option) result" where
  "decode_optional_schema value =
     (if value = JNull then Inr None else bindR (decodeSchema value) (\<lambda>s. Inr (Some s)))"

definition validate_optional_schema :: "physical_schema option \<Rightarrow> (exn, unit) result" where
  "validate_optional_schema schema =
     (case schema of None \<Rightarrow> Inr ()
      | Some s \<Rightarrow> validateSnapshot \<lparr>ss_formatVersion = 1, ss_backends = [(sc_backend s, s)]\<rparr>)"

definition check_context :: "execution_context \<Rightarrow> (exn, execution_context) result" where
  "check_context result =
     bindR (throwIf ((ec_source result = None) \<noteq> (ec_target result = None)
              \<or> ((ec_tables result \<noteq> [] \<or> ec_rebuildTables result \<noteq> []) \<and> ec_source result = None)
              \<or> (ec_mode result = NormalMode \<and> ec_rebuildTables result \<noteq> []))
            (metadata_error ''Execution contexts require consistent schema declarations''))
       (\<lambda>_. bindR (validate_optional_schema (ec_source result))
       (\<lambda>_. bindR (validate_optional_schema (ec_target result))
       (\<lambda>_. bindR (throwIf (ec_mode result = SqliteRebuildMode \<and>
               (case (ec_source result, ec_target result) of
                  (Some s, Some t) \<Rightarrow> ec_tables result = [] \<or> sc_backend s \<noteq> Sqlite \<or> sc_backend t \<noteq> Sqlite
                | _ \<Rightarrow> True))
              (metadata_error ''A SQLite rebuild requires its complete schema context''))
       (\<lambda>_. Inr result))))"

definition decode_context :: "json \<Rightarrow> (exn, execution_context) result" where
  "decode_context value =
     bindR (requireKeys value [''mode'', ''tables'', ''rebuildTables'', ''source'', ''target''])
       (\<lambda>_. bindR (string_at value ''mode'')
       (\<lambda>mode. bindR (throwIf (mode \<noteq> ''normal'' \<and> mode \<noteq> ''sqlite-rebuild'')
                  (metadata_error ''Unknown migration execution mode''))
       (\<lambda>_. bindR (strings_at value ''tables'')
       (\<lambda>tables. bindR (json_at value ''rebuildTables'')
       (\<lambda>rebuild. bindR (throwIf (\<not> is_array rebuild) (metadata_error ''Rebuild tables must be an array''))
       (\<lambda>_. bindR (mapR decode_rebuild (elements rebuild))
       (\<lambda>rebuilds. bindR (bindR (json_at value ''source'') decode_optional_schema)
       (\<lambda>source. bindR (bindR (json_at value ''target'') decode_optional_schema)
       (\<lambda>target. check_context
          \<lparr>ec_mode = (if mode = ''normal'' then NormalMode else SqliteRebuildMode), ec_tables = tables,
           ec_rebuildTables = rebuilds, ec_source = source, ec_target = target\<rparr>)))))))))"

definition contextFromJson :: "json_parser \<Rightarrow> string \<Rightarrow> (exn, execution_context) result" where
  "contextFromJson parse input = parseMetadata parse input decode_context"

section \<open>Objects\<close>

lemma map_of_foldl_insert:
  "map_of (foldl (\<lambda>m (k, v). omap_insert k v m) m pairs) k =
   (case map_of (rev pairs) k of Some v \<Rightarrow> Some v | None \<Rightarrow> map_of m k)"
  by (induction pairs arbitrary: m) (auto simp: map_of_omap_insert map_add_def split: option.splits prod.splits)

lemma foldl_insert_keys:
  "fst ` set (foldl (\<lambda>m (k, v). omap_insert k v m) m pairs) = fst ` set m \<union> fst ` set pairs"
proof (induction pairs arbitrary: m)
  case (Cons p pairs)
  obtain k v where p: "p = (k, v)" by fastforce
  show ?case unfolding p foldl_Cons prod.case Cons.IH fst_set_omap_insert by simp
qed simp

lemma foldl_insert_ok:
  "omap_ok m \<Longrightarrow> omap_ok (foldl (\<lambda>m (k, v). omap_insert k v m) m pairs)"
  by (induction pairs arbitrary: m) (auto simp: omap_ok_insert split: prod.splits)

lemma omap_ok_length: "omap_ok m \<Longrightarrow> length m = card (fst ` set m)"
  by (metis omap_ok_distinct distinct_card length_map set_map)

lemma map_of_rev:
  assumes "distinct (map fst pairs)"
  shows "map_of (rev pairs) k = map_of pairs k"
proof -
  have "map_of (rev pairs) k = Some v \<longleftrightarrow> map_of pairs k = Some v" for v
    using assms by (simp add: map_of_eq_Some_iff rev_map [symmetric])
  then show ?thesis by (metis not_Some_eq)
qed

lemma json_at_object:
  "distinct (map fst pairs) \<Longrightarrow> json_at (mk_object pairs) k =
   (case map_of pairs k of Some v \<Rightarrow> Inr v | None \<Rightarrow> Inl JsonException)"
  by (simp add: json_at_def mk_object_def map_of_foldl_insert map_of_rev split: option.splits)

lemma requireKeys_object:
  assumes "distinct (map fst pairs)" "length keys = length pairs" "set keys \<subseteq> fst ` set pairs"
  shows "requireKeys (mk_object pairs) keys = Inr ()"
proof -
  let ?m = "foldl (\<lambda>m (k, v). omap_insert k v m) [] pairs"
  have "omap_ok ?m" by (rule foldl_insert_ok) (simp add: omap_ok_def)
  then have "length ?m = card (fst ` set pairs)" by (simp add: omap_ok_length foldl_insert_keys)
  then have "length ?m = length keys" using assms by (metis distinct_card length_map set_map)
  moreover have "map_of ?m k \<noteq> None" if "k \<in> set keys" for k
    using that assms(3) by (auto simp: map_of_eq_None_iff foldl_insert_keys simp del: not_None_eq)
  ultimately show ?thesis by (simp add: requireKeys_def mk_object_def)
qed


section \<open>Schemas survive JSON\<close>

lemma get_strings_encode [simp]: "get_strings (encode_strings xs) = Inr xs"
proof -
  have "mapR get_string (map JString xs) = Inr xs"
    by (induction xs) (simp_all add: get_string_def)
  then show ?thesis by (simp add: get_strings_def encode_strings_def)
qed

lemma get_simps [simp]: "get_string (JString s) = Inr s" "get_bool (JBool b) = Inr b"
  "optional_string (encode_optional opt) = Inr opt"
  by (simp_all add: get_string_def get_bool_def optional_string_def encode_optional_def split: option.splits)

lemma find_column_number: "find (\<lambda>t. column_number t = column_number type) all_column_types = Some type"
  by (cases type) (simp_all add: all_column_types_def)

lemma decode_encode_column: "decode_column (encode_column c) = Inr c"
  unfolding decode_column_def encode_column_def
  by (simp add: requireKeys_object json_at_object string_at_def bool_at_def find_column_number
      length_json_ok_def decode_length_def split: option.splits)

lemma decode_encode_key: "decode_key (encode_key k) = Inr k"
  unfolding decode_key_def encode_key_def
  by (simp add: requireKeys_object json_at_object string_at_def strings_at_def)

lemma decode_encode_index: "decode_index (encode_index i) = Inr i"
  unfolding decode_index_def encode_index_def
  by (simp add: requireKeys_object json_at_object string_at_def strings_at_def bool_at_def)

text \<open>What decodes element by element decodes as a list.\<close>

locale json_codec =
  fixes encode :: "'a \<Rightarrow> json" and decode :: "json \<Rightarrow> (exn, 'a) result"
  assumes decode_encode: "decode (encode x) = Inr x"
begin

lemma decode_all: "mapR decode (map encode xs) = Inr xs"
  by (induction xs) (simp_all add: decode_encode)

lemma encode_inj: "encode x = encode y \<longleftrightarrow> x = y"
  by (metis decode_encode Inr_inject)

end

interpretation column_json: json_codec encode_column decode_column
  by unfold_locales (rule decode_encode_column)

interpretation key_json: json_codec encode_key decode_key
  by unfold_locales (rule decode_encode_key)

interpretation index_json: json_codec encode_index decode_index
  by unfold_locales (rule decode_encode_index)

lemma decode_encode_table: "decode_table (encode_table t) = Inr t"
  unfolding decode_table_def encode_table_def
  by (simp add: requireKeys_object json_at_object string_at_def strings_at_def
      column_json.decode_all key_json.decode_all index_json.decode_all)

interpretation table_json: json_codec encode_table decode_table
  by unfold_locales (rule decode_encode_table)

lemma backendFromName_backendName:
  "backendName b = Inr n \<Longrightarrow> backendFromName n = Inr b"
  by (auto simp: backendName_def backendFromName_def generationBackends_def split: if_splits)

lemma decode_encode_schema:
  assumes "encodeSchema s = Inr j"
  shows "decodeSchema j = Inr s"
proof -
  from assms obtain n where n: "backendName (sc_backend s) = Inr n"
    and j: "j = mk_object [(''backend'', JString n), (''profile'', JString (sc_profile s)),
              (''tables'', JArray (map encode_table (sc_tables s)))]"
    by (auto simp: encodeSchema_def)
  show ?thesis
    unfolding decodeSchema_def j
    by (simp add: requireKeys_object json_at_object string_at_def backendFromName_backendName [OF n]
      table_json.decode_all)
qed

lemma decode_encode_rebuild: "decode_rebuild (encode_rebuild t) = Inr t"
  unfolding decode_rebuild_def encode_rebuild_def
  by (simp add: requireKeys_object json_at_object string_at_def)

interpretation rebuild_json: json_codec encode_rebuild decode_rebuild
  by unfold_locales (rule decode_encode_rebuild)

lemma decode_encode_optional:
  assumes "encode_optional_schema s = Inr j"
  shows "decode_optional_schema j = Inr s"
proof (cases s)
  case (Some a)
  with assms have j: "encodeSchema a = Inr j" by (simp add: encode_optional_schema_def)
  then have "j \<noteq> JNull" by (auto simp: encodeSchema_def mk_object_def)
  with Some decode_encode_schema [OF j] show ?thesis by (simp add: decode_optional_schema_def)
qed (use assms in \<open>simp add: encode_optional_schema_def decode_optional_schema_def\<close>)

lemma decode_encode_context:
  assumes "encode_context c = Inr j"
  shows "decode_context j = check_context c"
proof -
  from assms obtain source target where s: "encode_optional_schema (ec_source c) = Inr source"
    and t: "encode_optional_schema (ec_target c) = Inr target"
    and j: "j = mk_object
         [(''mode'', JString (if ec_mode c = NormalMode then ''normal'' else ''sqlite-rebuild'')),
          (''tables'', encode_strings (ec_tables c)),
          (''rebuildTables'', JArray (map encode_rebuild (ec_rebuildTables c))),
          (''source'', source), (''target'', target)]"
    by (auto simp: encode_context_def)
  show ?thesis
    unfolding decode_context_def j
    by (cases c; cases "ec_mode c")
      (simp_all add: requireKeys_object json_at_object string_at_def strings_at_def
        rebuild_json.decode_all decode_encode_optional [OF s] decode_encode_optional [OF t])
qed

section \<open>Snapshots survive JSON\<close>

lemma omap_ext:
  assumes "omap_ok m" "omap_ok m'" "set m = set m'"
  shows "m = m'"
proof (rule map_sorted_distinct_set_unique [where f = fst])
  have "distinct (map fst m)" by (rule omap_ok_distinct [OF assms(1)])
  then show "inj_on fst (set m \<union> set m')" using assms(3) by (simp add: distinct_map)
qed (use assms in \<open>auto simp: omap_ok_def strict_sorted_iff\<close>)

lemma set_foldl_insert:
  assumes "distinct (map fst pairs)"
  shows "set (foldl (\<lambda>m (k, v). omap_insert k v m) [] pairs) = set pairs"
proof -
  let ?m = "foldl (\<lambda>m (k, v). omap_insert k v m) [] pairs"
  have "omap_ok ?m" by (rule foldl_insert_ok) (simp add: omap_ok_def)
  note new = map_of_eq_Some_iff [OF omap_ok_distinct [OF this]]
  have "map_of ?m k = map_of pairs k" for k
    using assms by (simp add: map_of_foldl_insert map_of_rev split: option.splits)
  then have "(k, v) \<in> set ?m \<longleftrightarrow> (k, v) \<in> set pairs" for k v
    using new [of k v] map_of_eq_Some_iff [OF assms, of k v] by simp
  then show ?thesis by auto
qed

lemma backendName_inj: "backendName b = Inr n \<Longrightarrow> backendName b' = Inr n \<Longrightarrow> b = b'"
  by (auto simp: backendName_def split: if_splits)

lemma decode_entry_encoded:
  assumes "backendName b = Inr n" "encodeSchema s = Inr j" "sc_backend s = b"
  shows "decode_entry (n, j) = Inr (b, s)"
  using assms by (simp add: decode_entry_def backendFromName_backendName decode_encode_schema)

lemma distinct_encoded_names:
  assumes "list_all2 (\<lambda>x e. backendName (fst x) = Inr (fst e) \<and> encodeSchema (snd x) = Inr (snd e)) backends entries"
    and "distinct (map fst backends)"
  shows "distinct (map fst entries)"
  using assms
proof (induction rule: list_all2_induct)
  case (Cons x xs y ys)
  have "fst y \<notin> fst ` set ys"
  proof
    assume "fst y \<in> fst ` set ys"
    then obtain i where i: "i < length ys" "fst (ys ! i) = fst y" by (auto simp: in_set_conv_nth)
    with Cons(2) have "backendName (fst (xs ! i)) = Inr (fst y)" "i < length xs"
      by (auto simp: list_all2_conv_all_nth)
    moreover have "backendName (fst x) = Inr (fst y)" using Cons(1) by simp
    ultimately have "fst x = fst (xs ! i)" by (blast intro: backendName_inj)
    with Cons(4) \<open>i < length xs\<close> show False by auto
  qed
  with Cons show ?case by auto
qed simp

lemma decode_entries:
  fixes backends :: "(backend_type \<times> physical_schema) list"
  assumes ok: "omap_ok backends" and names: "\<forall>(b, s) \<in> set backends. sc_backend s = b"
    and enc: "mapR (\<lambda>(backend, schema).
              bindR (backendName backend) (\<lambda>name. bindR (encodeSchema schema) (\<lambda>j. Inr (name, j))))
            backends = Inr entries"
  shows "\<exists>ds. mapR decode_entry (foldl (\<lambda>m (k, v). omap_insert k v m) [] entries) = Inr ds \<and>
    foldl (\<lambda>m (k, v). omap_insert k v m) [] ds = backends"
proof -
  let ?m = "foldl (\<lambda>m (k, v). omap_insert k v m) [] entries"
  have pairs: "list_all2 (\<lambda>x e. backendName (fst x) = Inr (fst e) \<and> encodeSchema (snd x) = Inr (snd e)) backends entries"
    by (rule list_all2_mono [OF mapR_Inr_iff [THEN iffD1, OF enc]]) auto
  have dist: "distinct (map fst backends)" by (rule omap_ok_distinct [OF ok])
  have names_distinct: "distinct (map fst entries)" by (rule distinct_encoded_names [OF pairs dist])
  then have elems: "set ?m = set entries" by (rule set_foldl_insert)
  define orig where "orig = (\<lambda>e. case decode_entry e of Inr d \<Rightarrow> d | Inl _ \<Rightarrow> undefined)"
  have orig: "decode_entry e = Inr (orig e) \<and> orig e \<in> set backends" if "e \<in> set entries" for e
  proof -
    from that obtain i where i: "i < length entries" "e = entries ! i" by (auto simp: in_set_conv_nth)
    define d where "d = backends ! i"
    have "d \<in> set backends" "backendName (fst d) = Inr (fst e)" "encodeSchema (snd d) = Inr (snd e)"
      using pairs i by (auto simp: list_all2_conv_all_nth d_def)
    with names decode_entry_encoded [of "fst d" "fst e" "snd d" "snd e"] show ?thesis by (auto simp: orig_def)
  qed
  have onto: "\<exists>e \<in> set entries. orig e = d" if "d \<in> set backends" for d
  proof -
    from that obtain i where i: "i < length backends" "d = backends ! i" by (auto simp: in_set_conv_nth)
    define e where "e = entries ! i"
    have "e \<in> set entries" "backendName (fst d) = Inr (fst e)" "encodeSchema (snd d) = Inr (snd e)"
      using pairs i by (auto simp: list_all2_conv_all_nth e_def)
    with names that decode_entry_encoded [of "fst d" "fst e" "snd d" "snd e"] show ?thesis
      by (intro bexI [of _ e]) (auto simp: orig_def)
  qed
  have run: "mapR decode_entry ?m = Inr (map orig ?m)"
    by (rule mapR_Inr_map) (use orig elems in auto)
  have range: "set (map orig ?m) = set backends" using orig onto elems by (auto simp: image_iff) metis+
  have "omap_ok ?m" by (rule foldl_insert_ok) (simp add: omap_ok_def)
  then have "distinct ?m" using omap_ok_distinct [of ?m] by (simp add: distinct_map)
  then have "length ?m = card (set ?m)" by (simp add: distinct_card)
  also have "\<dots> = length entries" using elems names_distinct by (simp add: distinct_card distinct_map)
  also have "\<dots> = length backends" using pairs by (simp add: list_all2_lengthD)
  finally have "length ?m = length backends" .
  then have "card (set (map orig ?m)) = length (map orig ?m)"
    using range dist by (simp add: distinct_card distinct_map)
  then have "distinct (map orig ?m)" by (rule card_distinct)
  then have "distinct (map fst (map orig ?m))"
    using range dist by (simp add: distinct_map inj_on_def) blast
  with set_foldl_insert [OF this] range
  have "set (foldl (\<lambda>m (k, v). omap_insert k v m) [] (map orig ?m)) = set backends" by simp
  then have "foldl (\<lambda>m (k, v). omap_insert k v m) [] (map orig ?m) = backends"
    by (intro omap_ext foldl_insert_ok ok) (simp_all add: omap_ok_def)
  with run show ?thesis by blast
qed


lemma decodeSnapshot_encoded:
  assumes ok: "omap_ok (ss_backends s)" and wf: "snapshot_wf s" and enc: "encodeSnapshot s = Inr j"
  shows "decodeSnapshot j = Inr (canonicalize s)"
proof -
  have version: "ss_formatVersion s = 1" and names: "\<forall>(b, sc) \<in> set (ss_backends s). sc_backend sc = b"
    using wf by (auto simp: snapshot_wf_def schema_wf_def)
  obtain entries where entries: "mapR (\<lambda>(backend, schema).
              bindR (backendName backend) (\<lambda>name. bindR (encodeSchema schema) (\<lambda>j. Inr (name, j))))
            (ss_backends s) = Inr entries"
    and j: "j = mk_object [(''formatVersion'', JInt 1), (''backends'', mk_object entries)]"
    using enc version by (auto simp: encodeSnapshot_def)
  obtain ds where ds: "mapR decode_entry (foldl (\<lambda>m (k, v). omap_insert k v m) [] entries) = Inr ds"
    "foldl (\<lambda>m (k, v). omap_insert k v m) [] ds = ss_backends s"
    using decode_entries [OF ok names entries] by blast
  have same: "\<lparr>ss_formatVersion = 1, ss_backends = ss_backends s\<rparr> = s" using version by (cases s) simp
  have "validateSnapshot (canonicalize s) = Inr ()" using wf by (simp add: validateSnapshot_wf snapshot_wf_canonical)
  then show ?thesis
    unfolding decodeSnapshot_def j
    by (simp add: requireKeys_object json_at_object mk_object_def [of entries] ds same Let_def)
qed

lemma omap_ok_canonicalize: "omap_ok (ss_backends s) \<Longrightarrow> omap_ok (ss_backends (canonicalize s))"
  by (simp add: omap_ok_def canonicalize_def comp_def case_prod_beta)

lemma parseMetadata_ok: "parse input = Inr j \<Longrightarrow> body j = Inr x \<Longrightarrow> parseMetadata parse input body = Inr x"
  by (simp add: parseMetadata_def)

section \<open>Properties\<close>

text \<open>
  C38. Snapshot metadata survives its JSON form: when the JSON library reads back what it wrote,
  the text \<^verbatim>\<open>snapshotJson\<close> produces is decoded by \<^verbatim>\<open>snapshotFromJson\<close> to the canonical form of the
  snapshot, for every set of backends and tables.
\<close>

theorem snapshot_json_round_trip:
  assumes parse_dump: "\<And>j t. dump j = Inr t \<Longrightarrow> parse (t @ [newline]) = Inr j"
    and "omap_ok (ss_backends s)" and "snapshotJson dump s = Inr input"
  shows "snapshotFromJson parse input = Inr (canonicalize s)"
proof -
  from assms(3) obtain j t where "validateSnapshot (canonicalize s) = Inr ()"
    and j: "encodeSnapshot (canonicalize s) = Inr j" and t: "dump j = Inr t" "input = t @ [newline]"
    by (auto simp: snapshotJson_def Let_def)
  then have "decodeSnapshot j = Inr (canonicalize (canonicalize s))"
    using assms(2) by (intro decodeSnapshot_encoded omap_ok_canonicalize) (simp_all add: validateSnapshot_wf)
  with parse_dump [OF t(1)] show ?thesis
    unfolding snapshotFromJson_def t(2) by (intro parseMetadata_ok) simp_all
qed

text \<open>A library with one known value, for the witnesses.\<close>

definition dump_one :: "json \<Rightarrow> dumper" where
  "dump_one known j = (if j = known then Inr ''{}'' else Inl JsonException)"

definition parse_one :: "json \<Rightarrow> json_parser" where
  "parse_one known input = (if input = ''{}'' @ [newline] then Inr known else Inl JsonException)"

lemma parse_dump_one: "dump_one known j = Inr t \<Longrightarrow> parse_one known (t @ [newline]) = Inr j"
  by (auto simp: dump_one_def parse_one_def split: if_splits)

definition sample_json :: json where
  "sample_json = (case encodeSnapshot sample_snapshot of Inr j \<Rightarrow> j | Inl _ \<Rightarrow> JNull)"

lemma sample_snapshot_text: "snapshotJson (dump_one sample_json) sample_snapshot = Inr (''{}'' @ [newline])"
  by code_simp

theorem snapshot_json_round_trip_witness:
  "snapshotFromJson (parse_one sample_json) (''{}'' @ [newline]) = Inr (canonicalize sample_snapshot)"
  by (rule snapshot_json_round_trip [where dump = "dump_one sample_json" and parse = "parse_one sample_json", OF parse_dump_one _ sample_snapshot_text])
    (simp_all add: omap_ok_def sample_snapshot_def)

text \<open>
  Execution contexts survive their JSON form: what \<^verbatim>\<open>contextJson\<close> writes is read by
  \<^verbatim>\<open>contextFromJson\<close> as the same context, or refused for the inconsistency
  \<^verbatim>\<open>contextFromJson\<close> checks; no field is lost or changed.
\<close>

theorem context_json_round_trip:
  assumes parse_dump: "\<And>j t. dump j = Inr t \<Longrightarrow> parse (t @ [newline]) = Inr j"
    and "contextJson dump c = Inr input"
  shows "contextFromJson parse input =
      (case check_context c of Inr _ \<Rightarrow> Inr c | Inl e \<Rightarrow> Inl (metadata_exception e))"
proof -
  from assms(2) obtain j t where j: "encode_context c = Inr j" and t: "dump j = Inr t" "input = t @ [newline]"
    by (auto simp: contextJson_def)
  have "c' = c" if "check_context c = Inr c'" for c' using that by (auto simp: check_context_def)
  with parse_dump [OF t(1)] decode_encode_context [OF j] show ?thesis
    by (auto simp: contextFromJson_def parseMetadata_def t(2) split: sum.splits)
qed

definition sample_context :: execution_context where
  "sample_context = \<lparr>ec_mode = NormalMode, ec_tables = [], ec_rebuildTables = [], ec_source = None,
     ec_target = None\<rparr>"

theorem context_json_round_trip_witness:
  "contextFromJson (parse_one (mk_object [(''mode'', JString ''normal''), (''tables'', JArray []),
      (''rebuildTables'', JArray []), (''source'', JNull), (''target'', JNull)])) (''{}'' @ [newline]) =
    Inr sample_context"
proof -
  let ?j = "mk_object [(''mode'', JString ''normal''), (''tables'', JArray []),
      (''rebuildTables'', JArray []), (''source'', JNull), (''target'', JNull)]"
  have "contextJson (dump_one ?j) sample_context = Inr (''{}'' @ [newline])" by code_simp
  from context_json_round_trip [where dump = "dump_one ?j" and parse = "parse_one ?j", OF parse_dump_one this]
  show ?thesis by (simp add: check_context_def validate_optional_schema_def sample_context_def)
qed

end
