(* ===== verification/Orm_Catalog.thy ===== *)
theory Orm_Catalog
  imports Orm_Json
begin

text \<open>
  \<^verbatim>\<open>src/migrations/Catalog.cpp\<close>: normalization of SQL text, the checksum of a migration, the
  validation of execution contexts and the \<^verbatim>\<open>Catalog\<close> constructor. The JSON library's \<open>dump\<close> is a
  parameter of everything that hashes metadata.
\<close>

type_synonym version = int

record sql_migration =
  sm_up :: string
  sm_down :: "string option"
  sm_upContext :: execution_context
  sm_downContext :: execution_context
  sm_beforeHash :: string
  sm_afterHash :: string

record migration =
  mg_version :: version
  mg_name :: string
  mg_scripts :: "(backend_type, sql_migration) omap"
  mg_before :: schema_snapshot
  mg_after :: schema_snapshot

section \<open>Normalization\<close>

abbreviation byte_order_mark :: string where
  "byte_order_mark \<equiv> [CHR 0xEF, CHR 0xBB, CHR 0xBF]"

fun drop_cr :: "string \<Rightarrow> string" where
  "drop_cr [] = []"
| "drop_cr [c] = [c]"
| "drop_cr (c # d # cs) = (if c = creturn \<and> d = newline then drop_cr (d # cs) else c # drop_cr (d # cs))"

definition normalizeSql :: "string \<Rightarrow> (exn, string) result" where
  "normalizeSql sql =
     (let sql = (if starts_with sql byte_order_mark then drop 3 sql else sql)
      in bindR (throwIf (nul \<in> set sql)
                  (MigrationError InvalidCatalog ''Migration SQL contains a NUL byte'' 0 Empty None))
           (\<lambda>_. Inr (drop_cr sql)))"

section \<open>Checksum\<close>

definition append_part :: "string \<Rightarrow> string \<Rightarrow> string" where
  "append_part data value = data @ '':'' @ dec (length value) @ '':'' @ value"

definition checksum_data ::
  "string \<Rightarrow> string option \<Rightarrow> string \<Rightarrow> string \<Rightarrow> string \<Rightarrow> string \<Rightarrow> string" where
  "checksum_data up down upContext downContext beforeHash afterHash =
     (let data = ''orm-cxx-model-migration-v1'';
          data = append_part data up;
          data = append_part data (if down \<noteq> None then ''present'' else ''absent'');
          data = (case down of Some d \<Rightarrow> append_part data d | None \<Rightarrow> data);
          data = append_part data upContext;
          data = append_part data downContext;
          data = append_part data beforeHash
      in append_part data afterHash)"

definition checksum :: "dumper \<Rightarrow> sql_migration \<Rightarrow> (exn, string) result" where
  "checksum dump scripts =
     bindR (normalizeSql (sm_up scripts)) (\<lambda>up.
     bindR (case sm_down scripts of None \<Rightarrow> Inr None
            | Some d \<Rightarrow> bindR (normalizeSql d) (\<lambda>n. Inr (Some n))) (\<lambda>down.
     bindR (contextJson dump (sm_upContext scripts)) (\<lambda>upContext.
     bindR (contextJson dump (sm_downContext scripts)) (\<lambda>downContext.
     Inr (sha256 (checksum_data up down upContext downContext (sm_beforeHash scripts) (sm_afterHash scripts)))))))"

section \<open>Names and contexts\<close>

definition safeName :: "string \<Rightarrow> bool" where
  "safeName name \<longleftrightarrow> name \<noteq> [] \<and>
     list_all (\<lambda>c. is_lower c \<or> is_upper c \<or> is_digit c \<or> c = CHR ''_'' \<or> c = CHR ''-'') name"

definition identityMatches :: "physical_table \<Rightarrow> string option \<Rightarrow> bool" where
  "identityMatches table identity \<longleftrightarrow>
     (case find pc_autoIncrement (tb_columns table) of
        None \<Rightarrow> identity = None
      | Some c \<Rightarrow> identity = Some (pc_name c))"

definition optional_tables :: "physical_schema option \<Rightarrow> physical_table list" where
  "optional_tables schema = (case schema of Some s \<Rightarrow> sc_tables s | None \<Rightarrow> [])"

definition staging_name_ok :: "string \<Rightarrow> bool" where
  "staging_name_ok name \<longleftrightarrow>
     starts_with name ''__orm_rebuild_'' \<and> length name = 30
     \<and> (\<forall>c \<in> set (drop 14 name). c \<in> set hex_digits)"

text \<open>The loop over the rebuilt tables; the accumulators are \<^verbatim>\<open>sources\<close>, \<^verbatim>\<open>targets\<close>, \<^verbatim>\<open>stages\<close>.\<close>

definition check_rebuild ::
  "execution_context \<Rightarrow> exn \<Rightarrow> rebuild_table \<Rightarrow> string list \<times> string list \<times> string list \<Rightarrow>
   (exn, string list \<times> string list \<times> string list) result" where
  "check_rebuild context failure rebuilt = (\<lambda>(sources, targets, stages).
     let sourceTables = optional_tables (ec_source context);
         targetTables = optional_tables (ec_target context)
     in case (find (\<lambda>t. tb_name t = rt_source rebuilt) sourceTables,
              find (\<lambda>t. tb_name t = rt_target rebuilt) targetTables) of
          (Some source, Some target) \<Rightarrow>
            bindR (throwIf (ec_mode context \<noteq> SqliteRebuildMode \<or> \<not> staging_name_ok (rt_staging rebuilt)
                     \<or> rt_source rebuilt \<notin> set (ec_tables context)
                     \<or> rt_source rebuilt \<in> set sources \<or> rt_target rebuilt \<in> set targets
                     \<or> rt_staging rebuilt \<in> set stages
                     \<or> rt_staging rebuilt \<in> tb_name ` set sourceTables
                     \<or> rt_staging rebuilt \<in> tb_name ` set targetTables) failure)
              (\<lambda>_. bindR (throwIf (\<not> identityMatches source (rt_sourceIdentity rebuilt)
                                    \<or> \<not> identityMatches target (rt_targetIdentity rebuilt)) failure)
              (\<lambda>_. Inr (sources @ [rt_source rebuilt], targets @ [rt_target rebuilt],
                        stages @ [rt_staging rebuilt])))
        | _ \<Rightarrow> Inl failure)"

definition check_touched ::
  "execution_context \<Rightarrow> exn \<Rightarrow> string \<Rightarrow> string list \<Rightarrow> (exn, string list) result" where
  "check_touched context failure name touched =
     bindR (throwIf (name \<in> set touched \<or> name \<notin> tb_name ` set (optional_tables (ec_source context))) failure)
       (\<lambda>_. Inr (touched @ [name]))"

definition validateContext ::
  "execution_context \<Rightarrow> physical_schema option \<Rightarrow> physical_schema option \<Rightarrow> version \<Rightarrow> backend_type \<Rightarrow>
   (exn, unit) result" where
  "validateContext context before after version backend =
     (let failure = MigrationError InvalidCatalog ''Invalid migration execution context'' version backend None
      in bindR (throwIf ((ec_source context = None) \<noteq> (ec_target context = None)) failure)
       (\<lambda>_. bindR (throwIf (ec_source context \<noteq> None \<and>
                  (before = None \<or> after = None \<or> ec_source context \<noteq> before \<or> ec_target context \<noteq> after)) failure)
       (\<lambda>_. bindR (throwIf (ec_mode context = SqliteRebuildMode \<and>
                  (backend \<noteq> Sqlite \<or> ec_source context = None \<or> ec_tables context = [])) failure)
       (\<lambda>_. bindR (throwIf ((ec_tables context \<noteq> [] \<or> ec_rebuildTables context \<noteq> [])
                  \<and> ec_source context = None) failure)
       (\<lambda>_. bindR (foldR (check_touched context failure) (ec_tables context) [])
       (\<lambda>_. bindR (foldR (check_rebuild context failure) (ec_rebuildTables context) ([], [], []))
       (\<lambda>_. Inr ())))))))"

section \<open>The constructor\<close>

definition hash_matches :: "string \<Rightarrow> string \<Rightarrow> bool" where
  "hash_matches declared actual \<longleftrightarrow> declared = [] \<or> declared = actual"

text \<open>One entry of \<^verbatim>\<open>migration.scripts\<close>: normalized, hashed and its contexts checked.\<close>

definition check_script ::
  "dumper \<Rightarrow> migration \<Rightarrow> bool \<Rightarrow> backend_type \<times> sql_migration \<Rightarrow> (exn, backend_type \<times> sql_migration) result" where
  "check_script dump migration hasSnapshots = (\<lambda>(backend, scripts).
     let version = mg_version migration;
         beforeSchema = (if hasSnapshots then map_of (ss_backends (mg_before migration)) backend else None);
         afterSchema = (if hasSnapshots then map_of (ss_backends (mg_after migration)) backend else None)
     in bindR (backendName backend) (\<lambda>_.
        bindR (normalizeSql (sm_up scripts)) (\<lambda>up.
        bindR (throwIf (up = []) (MigrationError InvalidCatalog ''Migration up SQL is empty'' version backend None)) (\<lambda>_.
        bindR (case sm_down scripts of None \<Rightarrow> Inr None
               | Some d \<Rightarrow> bindR (normalizeSql d) (\<lambda>n. Inr (Some n))) (\<lambda>down.
        bindR (if hasSnapshots then
                 bindR (throwIf (beforeSchema = None \<or> afterSchema = None)
                          (MigrationError InvalidCatalog ''Missing backend snapshot'' version backend None)) (\<lambda>_.
                 bindR (snapshotHash dump (mg_before migration) backend) (\<lambda>before.
                 bindR (snapshotHash dump (mg_after migration) backend) (\<lambda>after.
                 bindR (throwIf (\<not> hash_matches (sm_beforeHash scripts) before
                                 \<or> \<not> hash_matches (sm_afterHash scripts) after)
                          (MigrationError InvalidCatalog ''Migration snapshot hash mismatch'' version backend None)) (\<lambda>_.
                 Inr (before, after)))))
               else Inr (sm_beforeHash scripts, sm_afterHash scripts)) (\<lambda>(before, after).
        bindR (validateContext (sm_upContext scripts) beforeSchema afterSchema version backend) (\<lambda>_.
        bindR (validateContext (sm_downContext scripts) afterSchema beforeSchema version backend) (\<lambda>_.
        Inr (backend, scripts\<lparr>sm_up := up, sm_down := down, sm_beforeHash := before,
                              sm_afterHash := after\<rparr>)))))))))"

definition has_snapshots :: "migration \<Rightarrow> bool" where
  "has_snapshots migration \<longleftrightarrow>
     ss_backends (mg_before migration) \<noteq> [] \<or> ss_backends (mg_after migration) \<noteq> []"

text \<open>
  The body of the loop over the sorted migrations: \<open>previous\<close> is the last version,
  \<open>previousAfter\<close> the last \<^verbatim>\<open>after\<close> snapshot, \<open>finished\<close> the migrations already checked.
\<close>

definition check_migration ::
  "dumper \<Rightarrow> migration \<Rightarrow> version \<times> schema_snapshot option \<times> migration list \<Rightarrow>
   (exn, version \<times> schema_snapshot option \<times> migration list) result" where
  "check_migration dump migration = (\<lambda>(previous, previousAfter, finished).
     let version = mg_version migration; hasSnapshots = has_snapshots migration
     in bindR (throwIf (version \<le> previous \<or> \<not> safeName (mg_name migration) \<or> mg_scripts migration = [])
                 (MigrationError InvalidCatalog
                    ''Migration versions must be positive and unique, with a name and SQL'' version Empty None)) (\<lambda>_.
        let migration = (if hasSnapshots
              then migration\<lparr>mg_before := canonicalize (mg_before migration), mg_after := canonicalize (mg_after migration)\<rparr>
              else migration)
        in bindR (if hasSnapshots then
               bindR (validateSnapshot (mg_before migration)) (\<lambda>_.
               bindR (validateSnapshot (mg_after migration)) (\<lambda>_.
               bindR (throwIf (length (ss_backends (mg_before migration)) \<noteq> length (mg_scripts migration)
                               \<or> length (ss_backends (mg_after migration)) \<noteq> length (mg_scripts migration))
                        (MigrationError InvalidCatalog ''Migration snapshot and script backend sets differ'' version Empty None)) (\<lambda>_.
               throwIf (previousAfter \<noteq> None \<and> previousAfter \<noteq> Some (mg_before migration))
                 (MigrationError InvalidCatalog
                    ''Adjacent migration snapshots do not form a continuous schema chain'' version Empty None))))
             else Inr ()) (\<lambda>_.
           bindR (mapR (check_script dump migration hasSnapshots) (mg_scripts migration)) (\<lambda>scripts.
           Inr (version, if hasSnapshots then Some (mg_after migration) else None,
                finished @ [migration\<lparr>mg_scripts := scripts\<rparr>])))))"

definition Catalog :: "dumper \<Rightarrow> migration list \<Rightarrow> (exn, migration list) result" where
  "Catalog dump migrations =
     bindR (foldR (check_migration dump) (sort_key mg_version migrations) (0, None, []))
       (\<lambda>(_, _, finished). Inr finished)"

section \<open>Normalization\<close>

fun to_crlf :: "string \<Rightarrow> string" where
  "to_crlf [] = []"
| "to_crlf (c # cs) = (if c = newline then creturn # newline # to_crlf cs else c # to_crlf cs)"

lemma drop_cr_id: "creturn \<notin> set s \<Longrightarrow> drop_cr s = s"
  by (induction s rule: drop_cr.induct) auto

lemma drop_cr_crlf: "creturn \<notin> set s \<Longrightarrow> drop_cr (to_crlf s) = s"
proof (induction s)
  case (Cons c s)
  then show ?case by (cases s) (auto split: if_splits)
qed simp

lemma nul_crlf: "nul \<in> set (to_crlf s) \<longleftrightarrow> nul \<in> set s"
  by (induction s) auto

lemma starts_with_bom_crlf:
  "starts_with (to_crlf s) byte_order_mark \<longleftrightarrow> starts_with s byte_order_mark"
proof -
  have "take 3 (to_crlf s) = byte_order_mark \<longleftrightarrow> take 3 s = byte_order_mark"
    by (cases s; cases "tl s"; cases "tl (tl s)") (auto simp: numeral_3_eq_3)
  then show ?thesis by (simp add: starts_with_def numeral_3_eq_3)
qed

lemma drop_cr_set: "set (drop_cr s) \<subseteq> set s"
  by (induction s rule: drop_cr.induct) auto

section \<open>Checksum framing\<close>

lemma append_part_frame: "append_part data v = data @ CHR '':'' # frame v"
  by (simp add: append_part_def frame_def)

lemma checksum_data_inj:
  assumes "checksum_data up down uc dc b a = checksum_data up' down' uc' dc' b' a'"
  shows "up = up' \<and> down = down' \<and> uc = uc' \<and> dc = dc' \<and> b = b' \<and> a = a'"
proof -
  have eq: "frame up @ CHR '':'' # frame (if down \<noteq> None then ''present'' else ''absent'')
      @ (case down of Some d \<Rightarrow> CHR '':'' # frame d | None \<Rightarrow> [])
      @ CHR '':'' # frame uc @ CHR '':'' # frame dc @ CHR '':'' # frame b @ CHR '':'' # frame a @ [] =
    frame up' @ CHR '':'' # frame (if down' \<noteq> None then ''present'' else ''absent'')
      @ (case down' of Some d \<Rightarrow> CHR '':'' # frame d | None \<Rightarrow> [])
      @ CHR '':'' # frame uc' @ CHR '':'' # frame dc' @ CHR '':'' # frame b' @ CHR '':'' # frame a' @ []"
    using assms
    by (simp add: checksum_data_def append_part_frame Let_def split: option.splits)
  have "frame a = frame a' \<longleftrightarrow> a = a'" using frame_append_inj [of a "[]" a' "[]"] by simp
  with eq show ?thesis by (cases down; cases down') (auto split: if_splits)
qed

section \<open>The catalog invariant\<close>

definition migration_wf :: "migration \<Rightarrow> bool" where
  "migration_wf m \<longleftrightarrow> 0 < mg_version m \<and> safeName (mg_name m) \<and> mg_scripts m \<noteq> [] \<and>
     (\<forall>(b, s) \<in> set (mg_scripts m). b \<in> set generationBackends \<and> sm_up s \<noteq> []) \<and>
     (has_snapshots m \<longrightarrow> validateSnapshot (mg_before m) = Inr () \<and> validateSnapshot (mg_after m) = Inr ())"

definition chained :: "migration \<Rightarrow> migration \<Rightarrow> bool" where
  "chained m n \<longleftrightarrow> mg_version m < mg_version n \<and>
     (has_snapshots m \<and> has_snapshots n \<longrightarrow> mg_after m = mg_before n)"

definition catalog_wf :: "migration list \<Rightarrow> bool" where
  "catalog_wf ms \<longleftrightarrow> (\<forall>m \<in> set ms. migration_wf m) \<and> successively chained ms"

definition loop_state :: "migration list \<Rightarrow> version \<times> schema_snapshot option \<times> migration list" where
  "loop_state ms =
     (if ms = [] then 0 else mg_version (last ms),
      if ms \<noteq> [] \<and> has_snapshots (last ms) then Some (mg_after (last ms)) else None, ms)"

lemma check_script_facts:
  "check_script dump m has (b, s) = Inr r \<Longrightarrow> fst r = b \<and> b \<in> set generationBackends \<and> sm_up (snd r) \<noteq> []"
  by (auto simp: check_script_def Let_def backendName_def generationBackends_def split: if_splits)

lemma check_scripts_facts:
  "mapR (check_script dump m has) xs = Inr ys \<Longrightarrow>
   map fst ys = map fst xs \<and> (\<forall>(b, s) \<in> set ys. b \<in> set generationBackends \<and> sm_up s \<noteq> [])"
proof (induction xs arbitrary: ys)
  case (Cons x xs)
  then obtain y zs where y: "check_script dump m has x = Inr y" "mapR (check_script dump m has) xs = Inr zs"
    "ys = y # zs" by auto
  obtain b s where x: "x = (b, s)" by fastforce
  from check_script_facts [OF y(1) [unfolded x]] Cons.IH [OF y(2)] show ?case
    by (auto simp: y(3) x)
qed simp

lemma check_migration_step:
  assumes "check_migration dump m (loop_state ms) = Inr r" "catalog_wf ms"
  shows "\<exists>m'. r = loop_state (ms @ [m']) \<and> catalog_wf (ms @ [m']) \<and>
    mg_version m' = mg_version m \<and> mg_name m' = mg_name m \<and> map fst (mg_scripts m') = map fst (mg_scripts m)"
proof -
  define m1 where "m1 = (if has_snapshots m
     then m\<lparr>mg_before := canonicalize (mg_before m), mg_after := canonicalize (mg_after m)\<rparr> else m)"
  have m1: "mg_version m1 = mg_version m" "mg_name m1 = mg_name m" "mg_scripts m1 = mg_scripts m"
    by (simp_all add: m1_def)
  obtain scripts where
    head: "\<not> (mg_version m \<le> (if ms = [] then 0 else mg_version (last ms)))" "safeName (mg_name m)" "mg_scripts m \<noteq> []"
    and snaps: "has_snapshots m \<Longrightarrow> validateSnapshot (mg_before m1) = Inr () \<and> validateSnapshot (mg_after m1) = Inr () \<and>
       \<not> (ms \<noteq> [] \<and> has_snapshots (last ms) \<and> mg_after (last ms) \<noteq> mg_before m1)"
    and scripts: "mapR (check_script dump m1 (has_snapshots m)) (mg_scripts m1) = Inr scripts"
    and r: "r = (mg_version m, if has_snapshots m then Some (mg_after m1) else None, ms @ [m1\<lparr>mg_scripts := scripts\<rparr>])"
    using assms(1) unfolding check_migration_def loop_state_def m1_def [symmetric] Let_def
    by (auto simp: m1 split: if_splits)
  let ?m' = "m1\<lparr>mg_scripts := scripts\<rparr>"
  have has: "has_snapshots ?m' = has_snapshots m"
    by (simp add: m1_def has_snapshots_def canonicalize_def)
  have keys: "map fst scripts = map fst (mg_scripts m)"
    and "\<forall>(b, s) \<in> set scripts. b \<in> set generationBackends \<and> sm_up s \<noteq> []"
    using check_scripts_facts [OF scripts] by (simp_all add: m1)
  moreover have "scripts \<noteq> []" using keys head(3) by auto
  moreover have "0 \<le> (if ms = [] then 0 else mg_version (last ms))"
    using assms(2) by (auto simp: catalog_wf_def migration_wf_def dest!: bspec [OF _ last_in_set] intro: less_imp_le)
  ultimately have "migration_wf ?m'"
    using head snaps has by (auto simp: migration_wf_def m1)
  moreover have "ms \<noteq> [] \<Longrightarrow> chained (last ms) ?m'"
    using head(1) snaps has by (auto simp: chained_def m1)
  ultimately have "catalog_wf (ms @ [?m'])"
    using assms(2) by (auto simp: catalog_wf_def successively_append_iff)
  moreover have "r = loop_state (ms @ [?m'])" using has by (simp add: r loop_state_def m1)
  ultimately show ?thesis using keys m1 by (intro exI [of _ ?m']) simp
qed

lemma check_migrations:
  assumes "foldR (check_migration dump) xs (loop_state ms) = Inr r" "catalog_wf ms"
  shows "\<exists>ms'. r = loop_state (ms @ ms') \<and> catalog_wf (ms @ ms') \<and>
    list_all2 (\<lambda>m' m. mg_version m' = mg_version m \<and> mg_name m' = mg_name m \<and>
      map fst (mg_scripts m') = map fst (mg_scripts m)) ms' xs"
  using assms
proof (induction xs arbitrary: ms)
  case (Cons x xs)
  then obtain r1 where step: "check_migration dump x (loop_state ms) = Inr r1"
    and rest: "foldR (check_migration dump) xs r1 = Inr r" by auto
  from check_migration_step [OF step Cons.prems(2)] obtain m' where m': "r1 = loop_state (ms @ [m'])"
    "catalog_wf (ms @ [m'])" "mg_version m' = mg_version x \<and> mg_name m' = mg_name x \<and>
      map fst (mg_scripts m') = map fst (mg_scripts x)" by blast
  from Cons.IH [OF rest [unfolded m'(1)] m'(2)] obtain ms' where "r = loop_state ((ms @ [m']) @ ms')"
    "catalog_wf ((ms @ [m']) @ ms')" "list_all2 (\<lambda>m' m. mg_version m' = mg_version m \<and> mg_name m' = mg_name m \<and>
      map fst (mg_scripts m') = map fst (mg_scripts m)) ms' xs" by blast
  with m'(3) show ?case by (intro exI [of _ "m' # ms'"]) simp
qed (auto intro: exI [of _ "[]"])


lemma successively_versions:
  "successively chained ms \<Longrightarrow> sorted_wrt (<) (map mg_version ms)"
proof -
  assume "successively chained ms"
  then have "successively (<) (map mg_version ms)"
    by (induction ms rule: induct_list012) (auto simp: chained_def)
  then show ?thesis by (simp add: successively_conv_sorted_wrt)
qed

lemma Catalog_facts:
  assumes "Catalog dump migrations = Inr ms"
  shows "catalog_wf ms" "sorted_wrt (<) (map mg_version ms)"
    "list_all2 (\<lambda>m' m. mg_version m' = mg_version m \<and> mg_name m' = mg_name m \<and>
      map fst (mg_scripts m') = map fst (mg_scripts m)) ms (sort_key mg_version migrations)"
proof -
  obtain r where "foldR (check_migration dump) (sort_key mg_version migrations) (loop_state []) = Inr r"
    "ms = snd (snd r)" using assms by (auto simp: Catalog_def loop_state_def)
  with check_migrations [of dump "sort_key mg_version migrations" "[]" r]
  show "catalog_wf ms" "list_all2 (\<lambda>m' m. mg_version m' = mg_version m \<and> mg_name m' = mg_name m \<and>
      map fst (mg_scripts m') = map fst (mg_scripts m)) ms (sort_key mg_version migrations)"
    by (auto simp: loop_state_def catalog_wf_def)
  then show "sorted_wrt (<) (map mg_version ms)" by (simp add: catalog_wf_def successively_versions)
qed

section \<open>Properties\<close>

text \<open>
  The text a checksum is computed from frames every execution input behind its length, so it
  determines the up script, the presence and text of the down script, both execution contexts and
  both snapshot hashes.
\<close>

theorem checksum_data_injective:
  "checksum_data up down upContext downContext before after =
   checksum_data up' down' upContext' downContext' before' after' \<longleftrightarrow>
   up = up' \<and> down = down' \<and> upContext = upContext' \<and> downContext = downContext' \<and>
   before = before' \<and> after = after'"
  by (blast dest: checksum_data_inj)

text \<open>
  A script's checksum input does not depend on how its file was saved: LF or CRLF line ends,
  with or without a byte order mark, normalize to the same text.
\<close>

theorem normalizeSql_line_ends:
  assumes "creturn \<notin> set s" "nul \<notin> set s" "\<not> starts_with s byte_order_mark"
  shows "normalizeSql s = Inr s \<and> normalizeSql (to_crlf s) = Inr s \<and>
    normalizeSql (byte_order_mark @ s) = Inr s \<and> normalizeSql (byte_order_mark @ to_crlf s) = Inr s"
  using assms by (simp add: normalizeSql_def starts_with_bom_crlf nul_crlf drop_cr_id drop_cr_crlf)
    (simp add: starts_with_def)

theorem normalizeSql_line_ends_witness:
  "normalizeSql (byte_order_mark @ to_crlf (''SELECT 1;'' @ [newline])) = Inr (''SELECT 1;'' @ [newline])"
  using normalizeSql_line_ends [of "''SELECT 1;'' @ [newline]"] by (simp add: starts_with_def)

text \<open>
  C39. Normalization is not idempotent, and the checksum normalizes text that the catalog has
  normalized already: there are two texts the catalog can hold and execute, different from each
  other, that give every migration the same checksum. (A carriage return before CRLF survives the
  first normalization only.)
\<close>

theorem checksum_misses_carriage_return:
  "\<exists>raw raw' up up'. normalizeSql raw = Inr up \<and> normalizeSql raw' = Inr up' \<and> up \<noteq> up' \<and>
     (\<forall>dump scripts. checksum dump (scripts\<lparr>sm_up := up\<rparr>) = checksum dump (scripts\<lparr>sm_up := up'\<rparr>))"
proof (intro exI conjI allI)
  let ?up = "[CHR ''a'', creturn, newline]" and ?up' = "[CHR ''a'', newline]"
  show "normalizeSql [CHR ''a'', creturn, creturn, newline] = Inr ?up" "normalizeSql ?up' = Inr ?up'"
    by (simp_all add: normalizeSql_def starts_with_def)
  show "?up \<noteq> ?up'" by simp
  show "checksum dump (scripts\<lparr>sm_up := ?up\<rparr>) = checksum dump (scripts\<lparr>sm_up := ?up'\<rparr>)" for dump scripts
    by (simp add: checksum_def normalizeSql_def starts_with_def)
qed


definition empty_context :: execution_context where
  "empty_context = \<lparr>ec_mode = NormalMode, ec_tables = [], ec_rebuildTables = [], ec_source = None,
     ec_target = None\<rparr>"

definition no_snapshot :: schema_snapshot where
  "no_snapshot = \<lparr>ss_formatVersion = 1, ss_backends = []\<rparr>"

definition sample_migration :: "version \<Rightarrow> string \<Rightarrow> migration" where
  "sample_migration v sql = \<lparr>mg_version = v, mg_name = ''users'',
     mg_scripts = [(Sqlite, \<lparr>sm_up = sql, sm_down = Some ''DROP TABLE users;'', sm_upContext = empty_context,
       sm_downContext = empty_context, sm_beforeHash = [], sm_afterHash = []\<rparr>)],
     mg_before = no_snapshot, mg_after = no_snapshot\<rparr>"


end
