(* ===== verification/Orm_Sql_Validation.thy ===== *)
theory Orm_Sql_Validation
  imports Orm_Catalog
begin

text \<open>
  \<^verbatim>\<open>src/migrations/SqlValidation.cpp\<close>: the scanner that refuses migration scripts with
  transaction, session or client commands. Positions are indices into the script, as in the
  source; a position past the end ends every loop.
\<close>

section \<open>Characters\<close>

definition letter :: "char \<Rightarrow> bool" where
  "letter c \<longleftrightarrow> is_lower c \<or> is_upper c \<or> c = CHR ''_'' \<or> code c \<ge> 128"

definition identifier_char :: "char \<Rightarrow> bool" where
  "identifier_char c \<longleftrightarrow> letter c \<or> is_digit c \<or> c = CHR ''$''"

definition upper :: "string \<Rightarrow> string" where
  "upper word = map type_upper word"

definition at2 :: "string \<Rightarrow> nat \<Rightarrow> string \<Rightarrow> bool" where
  "at2 script i s \<longleftrightarrow> i + 1 < length script \<and> substr script i 2 = s"

definition quote_char :: "char \<Rightarrow> bool" where
  "quote_char c \<longleftrightarrow> c = squote \<or> c = dquote \<or> c = backtick"

text \<open>The text after a string that was opened with \<open>q\<close>, with backslash escapes and doubled quotes.\<close>

function skip_string :: "string \<Rightarrow> char \<Rightarrow> nat \<Rightarrow> nat" where
  "skip_string script q i =
     (if i < length script then
        if script ! i = backslash \<and> q \<noteq> backtick then skip_string script q (i + 2)
        else if script ! i = q then
          (if i + 1 < length script \<and> script ! (i + 1) = q then skip_string script q (i + 2) else i + 1)
        else skip_string script q (i + 1)
      else i)"
  by pat_completeness auto

termination skip_string
  by (relation "measure (\<lambda>(script, q, i). length script - i)") auto

declare skip_string.simps [simp del]

lemma skip_string_ge: "i \<le> skip_string script q i"
proof (induction script q i rule: skip_string.induct)
  case (1 script q i)
  then show ?case by (subst skip_string.simps) (auto split: if_splits)
qed

definition line_end :: "string \<Rightarrow> nat \<Rightarrow> nat" where
  "line_end script i =
     (case find_first_of script [creturn, newline] i of None \<Rightarrow> length script | Some e \<Rightarrow> e + 1)"

lemma line_end_gt: "i < length script \<Longrightarrow> i < line_end script i"
  by (auto simp: line_end_def dest!: find_first_of_Some split: option.splits)

definition dash_comment :: "string \<Rightarrow> nat \<Rightarrow> bool" where
  "dash_comment script i \<longleftrightarrow>
     script ! i = CHR ''#'' \<or>
     (script ! i = CHR ''-'' \<and> i + 2 < length script \<and> script ! (i + 1) = CHR ''-'' \<and> code (script ! (i + 2)) \<le> 32)"

lemma find_from_ge: "find_from script p i = Some e \<Longrightarrow> i \<le> e"
  using find_from_Some by blast

section \<open>Executable comments\<close>

text \<open>\<open>None\<close> is \<^verbatim>\<open>npos\<close>.\<close>

function executableCommentEnd :: "string \<Rightarrow> nat \<Rightarrow> nat option" where
  "executableCommentEnd script i =
     (if i < length script then
        if quote_char (script ! i) then executableCommentEnd script (skip_string script (script ! i) (i + 1))
        else if dash_comment script i then executableCommentEnd script (line_end script i)
        else if at2 script i ''/*'' then
          (case find_from script ''*/'' (i + 2) of
             None \<Rightarrow> None
           | Some e \<Rightarrow> executableCommentEnd script (e + 2))
        else if at2 script i ''*/'' then Some i
        else executableCommentEnd script (i + 1)
      else None)"
  by pat_completeness auto

termination executableCommentEnd
proof (relation "measure (\<lambda>(script, i). length script - i)", simp_all)
  fix script :: string and i :: nat
  assume i: "i < length script"
  show "length script - skip_string script (script ! i) (Suc i) < length script - i"
    using i skip_string_ge [of "Suc i" script "script ! i"] by linarith
  show "length script - line_end script i < length script - i" using i line_end_gt [OF i] by linarith
  fix e assume "find_from script ''*/'' (Suc (Suc i)) = Some e"
  from find_from_ge [OF this] show "length script - Suc (Suc e) < length script - i" using i by linarith
qed

declare executableCommentEnd.simps [simp del]

lemma executableCommentEnd_Some:
  "executableCommentEnd script i = Some e \<Longrightarrow> i \<le> e \<and> e + 1 < length script"
proof (induction script i rule: executableCommentEnd.induct)
  case (1 script i)
  note unfolded = "1.prems" [unfolded executableCommentEnd.simps [of script i]]
  show ?case
    using unfolded "1.IH" skip_string_ge [of "i + 1" script "script ! i"] line_end_gt [of i script]
    by (auto simp: at2_def split: if_splits option.splits dest!: find_from_ge)
qed

text \<open>The end of the version number of an executable comment.\<close>

definition skip_digits :: "string \<Rightarrow> nat \<Rightarrow> nat \<Rightarrow> nat" where
  "skip_digits script start e = start + length (takeWhile is_digit (take (e - start) (drop start script)))"

lemma skip_digits_bounds: "start \<le> skip_digits script start e" "skip_digits script start e \<le> start + (e - start)"
  using length_takeWhile_le [of is_digit "take (e - start) (drop start script)"]
  by (auto simp: skip_digits_def)

definition blank :: "string \<Rightarrow> nat \<Rightarrow> nat \<Rightarrow> string" where
  "blank script a b = take a script @ replicate (b - a) (CHR '' '') @ drop b script"

text \<open>One executable comment, blanked: the new text and the position after its opening.\<close>

definition open_comment :: "string \<Rightarrow> nat \<Rightarrow> nat \<Rightarrow> nat \<Rightarrow> string \<times> nat" where
  "open_comment script i offset e =
     (let start = skip_digits script (i + offset) e
      in ((blank script i start)[e := CHR '' '', e + 1 := CHR '' ''], start))"

text \<open>How long the marker of an executable comment is, if one opens at \<open>i\<close>.\<close>

definition executable_offset :: "string \<Rightarrow> nat \<Rightarrow> nat \<Rightarrow> nat option" where
  "executable_offset script executableEnd i =
     (if i \<ge> executableEnd \<and> i + 2 < length script \<and> script ! (i + 2) = CHR ''!'' then Some 3
      else if i \<ge> executableEnd \<and> i + 3 < length script \<and> script ! (i + 2) = CHR ''M''
              \<and> script ! (i + 3) = CHR ''!'' then Some 4
      else None)"

function expand_comments :: "exn \<Rightarrow> string \<Rightarrow> nat \<Rightarrow> nat \<Rightarrow> (exn, string) result" where
  "expand_comments failure script executableEnd i =
     (if i < length script then
        if quote_char (script ! i) then
          expand_comments failure script executableEnd (skip_string script (script ! i) (i + 1))
        else if dash_comment script i then expand_comments failure script executableEnd (line_end script i)
        else if at2 script i ''/*'' then
          (case executable_offset script executableEnd i of
             Some offset \<Rightarrow>
               (case executableCommentEnd script (i + offset) of
                  None \<Rightarrow> Inl failure
                | Some e \<Rightarrow> (case open_comment script i offset e of
                    (script', start) \<Rightarrow>
                      if length script' = length script \<and> i < start
                      then expand_comments failure script' (e + 2) start else Inl failure))
           | None \<Rightarrow>
               (case find_from script ''*/'' (i + 2) of
                  None \<Rightarrow> Inl failure
                | Some e \<Rightarrow> expand_comments failure script executableEnd (e + 2)))
        else expand_comments failure script executableEnd (i + 1)
      else Inr script)"
  by pat_completeness auto

termination expand_comments
proof (relation "measure (\<lambda>(failure, script, executableEnd, i). length script - i)", simp_all)
  fix script :: string and i :: nat
  assume i: "i < length script"
  show "length script - skip_string script (script ! i) (Suc i) < length script - i"
    using i skip_string_ge [of "Suc i" script "script ! i"] by linarith
  show "length script - line_end script i < length script - i" using i line_end_gt [OF i] by linarith
  fix e assume "find_from script ''*/'' (Suc (Suc i)) = Some e"
  from find_from_ge [OF this] show "length script - Suc (Suc e) < length script - i" using i by linarith
qed auto

declare expand_comments.simps [simp del]

text \<open>The test before the recursive call after an executable comment always succeeds.\<close>

lemma open_comment_shape:
  assumes "executable_offset script executableEnd i = Some offset"
    and "executableCommentEnd script (i + offset) = Some e"
    and "open_comment script i offset e = (script', start)"
  shows "length script' = length script \<and> i < start"
proof -
  have offset: "offset = 3 \<or> offset = 4" using assms(1) by (auto simp: executable_offset_def split: if_splits)
  have e: "i + offset \<le> e" "e + 1 < length script" using executableCommentEnd_Some [OF assms(2)] by auto
  have start: "start = skip_digits script (i + offset) e" using assms(3) by (auto simp: open_comment_def Let_def)
  with skip_digits_bounds [where script = script and start = "i + offset" and e = e] e have "i + offset \<le> start" "start \<le> e" by auto
  with offset e assms(3) show ?thesis by (auto simp: open_comment_def blank_def Let_def)
qed

section \<open>Statements\<close>

definition mysql_backend :: "backend_type \<Rightarrow> bool" where
  "mysql_backend backend \<longleftrightarrow> backend = Mysql \<or> backend = Mariadb"

definition sql_error :: "backend_type \<Rightarrow> version \<Rightarrow> exn" where
  "sql_error backend version =
     MigrationError InvalidSql ''SQL contains unsupported transaction, session or client commands''
       version backend None"

definition history_words :: "string list" where
  "history_words = [''_ORM_MIGRATIONS'', ''_ORM_MIGRATIONS_INCOMPLETE'']"

definition mysql_forbidden_first :: "string list" where
  "mysql_forbidden_first =
     [''START'', ''COMMIT'', ''ROLLBACK'', ''SAVEPOINT'', ''RELEASE'', ''USE'', ''RESET'', ''LOCK'', ''UNLOCK'',
      ''FLUSH'', ''DELIMITER'', ''SOURCE'', ''PREPARE'', ''EXECUTE'', ''DEALLOCATE'', ''CONNECT'', ''QUIT'',
      ''EXIT'', ''XA'']"

definition mysql_forbidden_anywhere :: "string list" where
  "mysql_forbidden_anywhere =
     [''DELIMITER'', ''COMMIT'', ''ROLLBACK'', ''SAVEPOINT'', ''START'', ''GET_LOCK'', ''RELEASE_LOCK'',
      ''RELEASE_ALL_LOCKS'', ''USE'', ''RESET'', ''FLUSH'', ''LOCK'', ''UNLOCK'', ''PREPARE'', ''EXECUTE'',
      ''DEALLOCATE'', ''XA'']"

definition postgres_forbidden_first :: "string list" where
  "postgres_forbidden_first =
     [''BEGIN'', ''START'', ''COMMIT'', ''END'', ''ROLLBACK'', ''ABORT'', ''SAVEPOINT'', ''RELEASE'', ''RESET'',
      ''DISCARD'']"

text \<open>Whether the last statement keyword before a \<^verbatim>\<open>SET\<close> was a row mutation.\<close>

definition mutation_before :: "string list \<Rightarrow> bool" where
  "mutation_before words =
     foldl (\<lambda>mutation word.
        if word = ''BEGIN'' \<or> word = ''THEN'' \<or> word = ''ELSE'' then False
        else if word = ''UPDATE'' \<or> word = ''INSERT'' then True
        else mutation) False words"

definition next_is :: "string list \<Rightarrow> nat \<Rightarrow> string list \<Rightarrow> bool" where
  "next_is words index options \<longleftrightarrow> index + 1 < length words \<and> words ! (index + 1) \<in> set options"

definition previous_is :: "string list \<Rightarrow> nat \<Rightarrow> string \<Rightarrow> bool" where
  "previous_is words index word \<longleftrightarrow> index > 0 \<and> words ! (index - 1) = word"

text \<open>The checks of one word of a MySQL-family statement that refuse it.\<close>

definition mysql_word_refused :: "string list \<Rightarrow> nat \<Rightarrow> bool" where
  "mysql_word_refused words index \<longleftrightarrow>
     (words ! index = ''DROP'' \<and> next_is words index [''DATABASE'', ''SCHEMA'']) \<or>
     (words ! index = ''SET''
      \<and> \<not> (previous_is words index ''CHARACTER'' \<and> (hd words = ''CREATE'' \<or> hd words = ''ALTER'')
           \<and> ''TABLE'' \<in> set words)
      \<and> \<not> next_is words index [''NEW'']
      \<and> \<not> mutation_before (take index words))"

text \<open>How one word moves the stack of open blocks inside a stored routine.\<close>

definition mysql_block_step :: "bool \<Rightarrow> string list \<Rightarrow> nat \<Rightarrow> string list \<Rightarrow> string list" where
  "mysql_block_step routine words index blocks =
     (let word = words ! index
      in if routine \<and> (word = ''BEGIN'' \<or> (word = ''CASE'' \<and> \<not> previous_is words index ''END''))
         then blocks @ [if word = ''BEGIN'' then ''BEGIN'' else ''CASE'']
         else if routine \<and> word = ''END'' \<and> \<not> next_is words index [''IF'', ''LOOP'', ''WHILE'', ''REPEAT'']
         then (if blocks \<noteq> [] then butlast blocks else blocks)
         else blocks)"

definition mysql_word ::
  "exn \<Rightarrow> bool \<Rightarrow> string list \<Rightarrow> nat \<Rightarrow> string list \<Rightarrow> (exn, string list) result" where
  "mysql_word failure routine words index blocks =
     bindR (throwIf (mysql_word_refused words index) failure)
       (\<lambda>_. Inr (mysql_block_step routine words index blocks))"

definition creates_routine :: "string list \<Rightarrow> bool" where
  "creates_routine words \<longleftrightarrow> hd words = ''CREATE'' \<and>
     (''PROCEDURE'' \<in> set words \<or> ''FUNCTION'' \<in> set words \<or> ''TRIGGER'' \<in> set words \<or> ''EVENT'' \<in> set words)"

definition mysql_first_refused :: "bool \<Rightarrow> string list \<Rightarrow> bool" where
  "mysql_first_refused routine words \<longleftrightarrow>
     hd words \<in> set mysql_forbidden_first
     \<or> ((hd words = ''BEGIN'' \<or> hd words = ''END'') \<and> \<not> routine)
     \<or> (hd words = ''SET'' \<and> (length words < 2 \<or> words ! 1 \<noteq> ''NEW''))"

text \<open>The state that survives a statement: inside a routine or not, and the open blocks.\<close>

type_synonym check_state = "bool \<times> string list"

definition check_mysql :: "exn \<Rightarrow> string list \<Rightarrow> check_state \<Rightarrow> (exn, check_state) result" where
  "check_mysql failure words = (\<lambda>(routine, blocks).
     let routine = (routine \<or> creates_routine words)
     in bindR (throwIf (mysql_first_refused routine words) failure)
       (\<lambda>_. bindR (throwIf (\<exists>word \<in> set mysql_forbidden_anywhere. word \<in> set words) failure)
       (\<lambda>_. bindR (foldR (mysql_word failure routine words) [0..<length words] blocks)
       (\<lambda>blocks. Inr (if routine \<and> blocks = [] then False else routine, blocks)))))"

definition postgres_refused :: "string list \<Rightarrow> bool" where
  "postgres_refused words \<longleftrightarrow>
     hd words \<in> set postgres_forbidden_first
     \<or> (hd words = ''SET'' \<and> (length words < 2 \<or> words ! 1 \<noteq> ''CONSTRAINTS''))
     \<or> (hd words = ''PREPARE'' \<and> length words > 1 \<and> words ! 1 = ''TRANSACTION'')
     \<or> (\<exists>i \<in> set [1..<length words].
          (words ! (i - 1) = ''BEGIN'' \<and> words ! i = ''ATOMIC'')
          \<or> (hd words = ''COPY'' \<and> ((words ! (i - 1) = ''FROM'' \<and> words ! i = ''STDIN'')
                                    \<or> (words ! (i - 1) = ''TO'' \<and> words ! i = ''STDOUT''))))"

definition check_statement ::
  "backend_type \<Rightarrow> exn \<Rightarrow> string list \<Rightarrow> check_state \<Rightarrow> (exn, check_state) result" where
  "check_statement backend failure words state =
     (if (backend \<noteq> Postgres \<and> \<not> mysql_backend backend) \<or> words = [] then Inr state
      else bindR (throwIf (\<exists>word \<in> set history_words. word \<in> set words) failure)
        (\<lambda>_. if mysql_backend backend then check_mysql failure words state
             else bindR (throwIf (postgres_refused words) failure) (\<lambda>_. Inr state)))"

section \<open>Tokens\<close>

datatype token = Blank | Word string | EndStatement

function skip_block :: "bool \<Rightarrow> string \<Rightarrow> nat \<Rightarrow> nat \<Rightarrow> nat \<times> nat" where
  "skip_block mysql script depth i =
     (if i < length script \<and> depth \<noteq> 0 then
        if \<not> mysql \<and> at2 script i ''/*'' then skip_block mysql script (depth + 1) (i + 2)
        else if at2 script i ''*/'' then skip_block mysql script (depth - 1) (i + 2)
        else skip_block mysql script depth (i + 1)
      else (depth, i))"
  by pat_completeness auto

termination skip_block
  by (relation "measure (\<lambda>(mysql, script, depth, i). length script - i)") auto

declare skip_block.simps [simp del]

lemma skip_block_ge: "i \<le> snd (skip_block mysql script depth i)"
proof (induction mysql script depth i rule: skip_block.induct)
  case (1 mysql script depth i)
  then show ?case by (subst skip_block.simps) (auto split: if_splits)
qed

text \<open>The position after the closing quote; \<open>None\<close> when the text ends first.\<close>

function close_quote :: "string \<Rightarrow> char \<Rightarrow> bool \<Rightarrow> bool \<Rightarrow> nat \<Rightarrow> nat option" where
  "close_quote script q escapes doubled i =
     (if i < length script then
        if escapes \<and> script ! i = backslash then close_quote script q escapes doubled (i + 2)
        else if script ! i = q then
          (if doubled \<and> i + 1 < length script \<and> script ! (i + 1) = q
           then close_quote script q escapes doubled (i + 2) else Some (i + 1))
        else close_quote script q escapes doubled (i + 1)
      else None)"
  by pat_completeness auto

termination close_quote
  by (relation "measure (\<lambda>(script, q, escapes, doubled, i). length script - i)") auto

declare close_quote.simps [simp del]

lemma close_quote_gt: "close_quote script q escapes doubled i = Some j \<Longrightarrow> i < j \<and> j \<le> length script"
proof (induction script q escapes doubled i rule: close_quote.induct)
  case (1 script q escapes doubled i)
  note unfolded = "1.prems" [unfolded close_quote.simps [of script q escapes doubled i]]
  show ?case using unfolded "1.IH" by (auto split: if_splits)
qed

definition escapes_at :: "backend_type \<Rightarrow> string \<Rightarrow> nat \<Rightarrow> bool" where
  "escapes_at backend script i \<longleftrightarrow>
     (mysql_backend backend \<and> script ! i \<noteq> backtick) \<or>
     (script ! i = squote \<and> backend = Postgres \<and> i > 0
      \<and> (script ! (i - 1) = CHR ''E'' \<or> script ! (i - 1) = CHR ''e'')
      \<and> (i < 2 \<or> \<not> identifier_char (script ! (i - 2))))"

definition protected_name :: "backend_type \<Rightarrow> char \<Rightarrow> string \<Rightarrow> bool" where
  "protected_name backend c name \<longleftrightarrow>
     ((c = dquote \<and> backend = Postgres) \<or> (mysql_backend backend \<and> c = backtick))
     \<and> (name \<in> set history_words
         \<or> (mysql_backend backend \<and> name \<in> {''GET_LOCK'', ''RELEASE_LOCK'', ''RELEASE_ALL_LOCKS''}))"

definition quoted_token ::
  "backend_type \<Rightarrow> exn \<Rightarrow> string \<Rightarrow> nat \<Rightarrow> (exn, token \<times> nat) result" where
  "quoted_token backend failure script i =
     (let c = script ! i; q = (if c = CHR ''['' then CHR '']'' else c)
      in case close_quote script q (escapes_at backend script i) (c \<noteq> CHR ''['') (i + 1) of
           None \<Rightarrow> Inl failure
         | Some j \<Rightarrow>
             bindR (throwIf (protected_name backend c (upper (substr script (i + 1) (j - i - 2)))) failure)
               (\<lambda>_. Inr (Word ''<quoted>'', j)))"

text \<open>The end of the tag that opens a dollar-quoted body.\<close>

definition tag_end :: "string \<Rightarrow> nat \<Rightarrow> nat" where
  "tag_end script i =
     (let rest = drop (i + 1) script
      in if rest \<noteq> [] \<and> letter (hd rest)
         then i + 1 + length (takeWhile (\<lambda>c. letter c \<or> is_digit c) rest) else i + 1)"

definition dollar_token :: "exn \<Rightarrow> string \<Rightarrow> nat \<Rightarrow> (exn, token \<times> nat) result" where
  "dollar_token failure script i =
     (let e = tag_end script i
      in if e < length script \<and> script ! e = CHR ''$'' then
           (let tag = substr script i (e - i + 1)
            in case find_from script tag (e + 1) of
                 None \<Rightarrow> Inl failure
               | Some close \<Rightarrow> Inr (Word ''<body>'', close + length tag))
         else Inr (Blank, i + 1))"

definition line_comment_at :: "bool \<Rightarrow> string \<Rightarrow> nat \<Rightarrow> bool" where
  "line_comment_at mysql script i \<longleftrightarrow>
     (script ! i = CHR ''-'' \<and> i + 1 < length script \<and> script ! (i + 1) = CHR ''-''
      \<and> (\<not> mysql \<or> i + 2 = length script \<or> code (script ! (i + 2)) \<le> 32))
     \<or> (mysql \<and> script ! i = CHR ''#'')"

definition quote_opens :: "backend_type \<Rightarrow> char \<Rightarrow> bool" where
  "quote_opens backend c \<longleftrightarrow>
     c = squote \<or> c = dquote \<or> (backend = Sqlite \<and> (c = backtick \<or> c = CHR ''['')) \<or>
     (mysql_backend backend \<and> c = backtick)"

text \<open>One round of the scanning loop: the token at \<open>i\<close> and the position after it.\<close>

definition next_token ::
  "backend_type \<Rightarrow> exn \<Rightarrow> string \<Rightarrow> nat \<Rightarrow> (exn, token \<times> nat) result" where
  "next_token backend failure script i =
     (let c = script ! i; mysql = mysql_backend backend
      in bindR (throwIf (c = backslash \<or> (mysql \<and> c = CHR ''@'')) failure)
       (\<lambda>_. if line_comment_at mysql script i then
               Inr (Blank, line_end script (i + (if c = CHR ''#'' then 1 else 2)))
             else if c = CHR ''/'' \<and> i + 1 < length script \<and> script ! (i + 1) = CHR ''*'' then
               (case skip_block mysql script 1 (i + 2) of (depth, j) \<Rightarrow>
                  bindR (throwIf (depth \<noteq> 0) failure) (\<lambda>_. Inr (Blank, j)))
             else if quote_opens backend c then quoted_token backend failure script i
             else if c = CHR ''$'' \<and> backend = Postgres then dollar_token failure script i
             else if letter c then
               (let j = i + 1 + length (takeWhile identifier_char (drop (i + 1) script))
                in Inr (Word (upper (substr script i (j - i))), j))
             else if c = CHR '';'' then Inr (EndStatement, i + 1)
             else Inr (Blank, i + 1)))"

lemma line_end_ge: "i \<le> length script \<Longrightarrow> i \<le> line_end script i"
  by (auto simp: line_end_def dest!: find_first_of_Some split: option.splits)

lemma next_token_progress:
  assumes "next_token backend failure script i = Inr (t, j)" "i < length script"
  shows "i < j"
proof -
  have "i < line_end script (Suc (Suc i))" if "line_comment_at mysql script i" "script ! i \<noteq> CHR ''#''" for mysql
    using line_end_ge [of "i + 2" script] that by (auto simp: line_comment_at_def)
  moreover have "i < line_end script (Suc i)" using line_end_ge [of "i + 1" script] assms(2) by auto
  moreover have "i < j" if "quoted_token backend failure script i = Inr (t, j)"
    using that by (auto simp: quoted_token_def Let_def dest!: close_quote_gt split: option.splits)
  moreover have "i < j" if "dollar_token failure script i = Inr (t, j)"
    using that by (auto simp: dollar_token_def tag_end_def Let_def dest!: find_from_ge split: option.splits if_splits)
  moreover have "i < j" if "skip_block mysql script (Suc 0) (Suc (Suc i)) = (d, j)" for mysql d j
    using skip_block_ge [of "Suc (Suc i)" mysql script "Suc 0"] that by simp
  ultimately show ?thesis
    using assms(1)
    by (auto simp: next_token_def Let_def split: if_splits prod.splits)
qed

section \<open>The scanner\<close>

text \<open>\<^verbatim>\<open>validateScript\<close>'s loop: the words of the open statement and the state of the checks.\<close>

function scan ::
  "backend_type \<Rightarrow> exn \<Rightarrow> string \<Rightarrow> nat \<Rightarrow> string list \<Rightarrow> check_state \<Rightarrow> (exn, unit) result" where
  "scan backend failure script i words state =
     (if i < length script then
        (case next_token backend failure script i of
           Inl e \<Rightarrow> Inl e
         | Inr (Blank, j) \<Rightarrow> scan backend failure script j words state
         | Inr (Word w, j) \<Rightarrow> scan backend failure script j (words @ [w]) state
         | Inr (EndStatement, j) \<Rightarrow>
             (case check_statement backend failure words state of
                Inl e \<Rightarrow> Inl e
              | Inr state \<Rightarrow> scan backend failure script j [] state))
      else bindR (check_statement backend failure words state) (\<lambda>_. Inr ()))"
  by pat_completeness auto

termination scan
  by (relation "measure (\<lambda>(backend, failure, script, i, words, state). length script - i)")
    (auto dest: next_token_progress)

declare scan.simps [simp del]

definition validateScript :: "string \<Rightarrow> backend_type \<Rightarrow> version \<Rightarrow> (exn, unit) result" where
  "validateScript script backend version =
     (let failure = sql_error backend version
      in bindR (if mysql_backend backend then expand_comments failure script 0 0 else Inr script)
           (\<lambda>script. scan backend failure script 0 [] (False, [])))"

section \<open>Lexing apart from checking\<close>

text \<open>
  The scanner checks statements while it reads. The specification reads the whole script into
  tokens first and then checks the statements they form.
\<close>

function lex :: "backend_type \<Rightarrow> exn \<Rightarrow> string \<Rightarrow> nat \<Rightarrow> (exn, token list) result" where
  "lex backend failure script i =
     (if i < length script then
        (case next_token backend failure script i of
           Inl e \<Rightarrow> Inl e
         | Inr (t, j) \<Rightarrow> bindR (lex backend failure script j) (\<lambda>ts. Inr (t # ts)))
      else Inr [])"
  by pat_completeness auto

termination lex
  by (relation "measure (\<lambda>(backend, failure, script, i). length script - i)")
    (auto dest: next_token_progress)

declare lex.simps [simp del]

fun run_tokens ::
  "backend_type \<Rightarrow> exn \<Rightarrow> token list \<Rightarrow> string list \<Rightarrow> check_state \<Rightarrow> (exn, unit) result" where
  "run_tokens backend failure [] words state = bindR (check_statement backend failure words state) (\<lambda>_. Inr ())"
| "run_tokens backend failure (Blank # ts) words state = run_tokens backend failure ts words state"
| "run_tokens backend failure (Word w # ts) words state = run_tokens backend failure ts (words @ [w]) state"
| "run_tokens backend failure (EndStatement # ts) words state =
     bindR (check_statement backend failure words state) (\<lambda>state. run_tokens backend failure ts [] state)"

fun statements :: "token list \<Rightarrow> string list \<Rightarrow> string list list" where
  "statements [] words = [words]"
| "statements (Blank # ts) words = statements ts words"
| "statements (Word w # ts) words = statements ts (words @ [w])"
| "statements (EndStatement # ts) words = words # statements ts []"

lemma run_tokens_statements:
  "run_tokens backend failure ts words state =
   bindR (foldR (check_statement backend failure) (statements ts words) state) (\<lambda>_. Inr ())"
proof (induction ts arbitrary: words state)
  case (Cons t ts)
  then show ?case
    by (cases t; cases "check_statement backend failure words state") (simp_all add: bindR_assoc)
qed (simp add: bindR_assoc)

lemma next_token_error: "next_token backend failure script i = Inl e \<Longrightarrow> e = failure"
  by (auto simp: next_token_def quoted_token_def dollar_token_def Let_def bindR_Inl_iff
      split: if_splits option.splits prod.splits)

lemma lex_error: "lex backend failure script i = Inl e \<Longrightarrow> e = failure"
proof (induction backend failure script i rule: lex.induct)
  case (1 backend failure script i)
  note unfolded = "1.prems" [unfolded lex.simps [of backend failure script i]]
  show ?case
    using unfolded "1.IH" by (auto simp: bindR_Inl_iff dest: next_token_error split: if_splits sum.splits)
qed

lemma foldR_error:
  "foldR f xs s = Inl e \<Longrightarrow> (\<And>x s e. f x s = Inl e \<Longrightarrow> e = failure) \<Longrightarrow> e = failure"
  by (induction xs arbitrary: s) (auto simp: bindR_Inl_iff)

lemma check_statement_error: "check_statement backend failure words state = Inl e \<Longrightarrow> e = failure"
  by (auto simp: check_statement_def check_mysql_def mysql_word_def bindR_Inl_iff Let_def split: if_splits prod.splits
      dest!: foldR_error [where failure = failure])

lemma run_tokens_error: "run_tokens backend failure ts words state = Inl e \<Longrightarrow> e = failure"
  by (auto simp: run_tokens_statements bindR_Inl_iff dest: foldR_error check_statement_error)

text \<open>Checking late instead of early makes no difference: there is one way to fail.\<close>

lemma scan_lex:
  "scan backend failure script i words state =
   bindR (lex backend failure script i) (\<lambda>ts. run_tokens backend failure ts words state)"
proof (induction backend failure script i words state rule: scan.induct)
  case (1 backend failure script i words state)
  show ?case
  proof (cases "i < length script")
    case False
    then show ?thesis by (simp add: scan.simps [of backend] lex.simps [of backend])
  next
    case inside: True
    show ?thesis
    proof (cases "next_token backend failure script i")
      case (Inl e)
      with inside show ?thesis by (simp add: scan.simps [of backend] lex.simps [of backend])
    next
      case (Inr r)
      obtain t j where r: "r = (t, j)" by fastforce
      note step = Inr [unfolded r]
      show ?thesis
      proof (cases t)
        case Blank
        with "1.IH"(1) [OF inside step] inside step show ?thesis
          by (simp add: scan.simps [of backend _ script i] lex.simps [of backend _ script i] bindR_assoc)
      next
        case (Word w)
        with "1.IH"(2) [OF inside step] inside step show ?thesis
          by (simp add: scan.simps [of backend _ script i] lex.simps [of backend _ script i] bindR_assoc)
      next
        case EndStatement
        show ?thesis
        proof (cases "check_statement backend failure words state")
          case (Inl e)
          then have "e = failure" by (rule check_statement_error)
          with Inl inside step EndStatement show ?thesis
            by (cases "lex backend failure script j")
              (auto simp: scan.simps [of backend _ script i] lex.simps [of backend _ script i] dest: lex_error)
        next
          case (Inr state')
          with "1.IH"(3) [OF inside step] EndStatement inside step show ?thesis
            by (simp add: scan.simps [of backend _ script i] lex.simps [of backend _ script i] bindR_assoc)
        qed
      qed
    qed
  qed
qed

lemma expand_comments_error: "expand_comments failure script executableEnd i = Inl e \<Longrightarrow> e = failure"
proof (induction failure script executableEnd i rule: expand_comments.induct)
  case (1 failure script executableEnd i)
  note unfolded = "1.prems" [unfolded expand_comments.simps [of failure script executableEnd i]]
  show ?case using unfolded "1.IH" by (auto split: if_splits option.splits prod.splits)
qed

text \<open>The text that is scanned: the script with its executable comments opened.\<close>

definition scanned_text :: "backend_type \<Rightarrow> version \<Rightarrow> string \<Rightarrow> (exn, string) result" where
  "scanned_text backend version script =
     (if mysql_backend backend then expand_comments (sql_error backend version) script 0 0 else Inr script)"

lemma validateScript_statements:
  "validateScript script backend version =
   bindR (scanned_text backend version script) (\<lambda>text.
   bindR (lex backend (sql_error backend version) text 0) (\<lambda>ts.
   bindR (foldR (check_statement backend (sql_error backend version)) (statements ts []) (False, []))
     (\<lambda>_. Inr ())))"
  by (simp add: validateScript_def scanned_text_def scan_lex run_tokens_statements Let_def)


section \<open>Quoted identifiers are one token\<close>

lemma close_quote_double:
  assumes "rest = [] \<or> hd rest \<noteq> d"
  shows "close_quote (pre @ double_delimiter d name @ d # rest) d False True (length pre) =
    Some (length pre + length (double_delimiter d name) + 1)"
proof (induction name arbitrary: pre)
  case Nil
  then show ?case
    using assms by (subst close_quote.simps) (cases rest; auto simp: nth_append)
next
  case (Cons c name)
  show ?case
  proof (cases "c = d")
    case True
    then have "close_quote (pre @ double_delimiter d (c # name) @ d # rest) d False True (length pre) =
      close_quote ((pre @ [d, d]) @ double_delimiter d name @ d # rest) d False True (length (pre @ [d, d]))"
      by (subst close_quote.simps) (simp add: nth_append)
    with True show ?thesis unfolding Cons.IH by simp
  next
    case False
    then have "close_quote (pre @ double_delimiter d (c # name) @ d # rest) d False True (length pre) =
      close_quote ((pre @ [c]) @ double_delimiter d name @ d # rest) d False True (length (pre @ [c]))"
      by (subst close_quote.simps) (simp add: nth_append)
    with False show ?thesis unfolding Cons.IH by simp
  qed
qed

lemma next_token_quoted:
  assumes q: "quoteIdentifier backend name = Inr q"
    and free: "\<not> protected_name backend (delimiter_of backend) (upper (double_delimiter (delimiter_of backend) name))"
    and rest: "rest = [] \<or> hd rest \<noteq> delimiter_of backend"
  shows "next_token backend failure (pre @ q @ rest) (length pre) = Inr (Word ''<quoted>'', length pre + length q)"
proof -
  define d where "d = delimiter_of backend"
  have backend: "backend \<in> set generationBackends"
    and q_def: "q = d # double_delimiter d name @ [d]"
    using q by (auto simp: quoteIdentifier_def requireBackend_def d_def)
  have d: "d = (if mysql_backend backend then backtick else dquote)"
    by (simp add: d_def delimiter_of_def family_def mysql_backend_def)
  let ?s = "pre @ q @ rest"
  have at: "?s ! length pre = d" by (simp add: q_def nth_append)
  have close: "close_quote ?s d False True (Suc (length pre)) = Some (length pre + length q)"
    using close_quote_double [of rest d "pre @ [d]" name] rest by (simp add: q_def d_def)
  have "\<not> escapes_at backend ?s (length pre)" unfolding escapes_at_def at by (simp add: d)
  moreover have "d \<noteq> CHR ''[''" "quote_opens backend d" by (auto simp: d quote_opens_def)
  moreover have "substr ?s (Suc (length pre)) (length q - 2) = double_delimiter d name"
    by (simp add: q_def substr_def)
  moreover have "length pre + length q - Suc (length pre) - 1 = length q - 2" by simp
  ultimately have "quoted_token backend failure ?s (length pre) = Inr (Word ''<quoted>'', length pre + length q)"
    using free close by (simp add: quoted_token_def at Let_def d_def [symmetric])
  moreover have "\<not> line_comment_at (mysql_backend backend) ?s (length pre)"
    unfolding line_comment_at_def at by (auto simp: d)
  moreover have "d \<noteq> backslash" "d \<noteq> CHR ''@''" "d \<noteq> CHR ''/''" by (auto simp: d)
  ultimately show ?thesis
    using \<open>quote_opens backend d\<close> unfolding next_token_def Let_def at by simp
qed

section \<open>What accepted scripts contain\<close>

definition postgres_allowed :: "string list \<Rightarrow> bool" where
  "postgres_allowed words \<longleftrightarrow>
     words = [] \<or> (set words \<inter> set history_words = {} \<and> \<not> postgres_refused words)"

definition mysql_allowed :: "string list \<Rightarrow> bool" where
  "mysql_allowed words \<longleftrightarrow>
     set words \<inter> set history_words = {} \<and> set words \<inter> set mysql_forbidden_anywhere = {} \<and>
     (words \<noteq> [] \<longrightarrow> hd words \<notin> set mysql_forbidden_first) \<and>
     (\<forall>i < length words. words ! i = ''DROP'' \<longrightarrow> \<not> next_is words i [''DATABASE'', ''SCHEMA''])"

lemma check_postgres_iff:
  "check_statement Postgres failure words state = Inr r \<longleftrightarrow> postgres_allowed words \<and> r = state"
  by (auto simp: check_statement_def postgres_allowed_def mysql_backend_def)

lemma foldR_check_postgres:
  "foldR (check_statement Postgres failure) stmts state = Inr r \<longleftrightarrow> list_all postgres_allowed stmts \<and> r = state"
  by (induction stmts arbitrary: state) (auto simp: check_postgres_iff)

lemma foldR_mysql_words:
  "foldR (mysql_word failure routine words) is blocks = Inr r \<Longrightarrow> \<forall>i \<in> set is. \<not> mysql_word_refused words i"
  by (induction "is" arbitrary: blocks) (auto simp: mysql_word_def)

lemma check_mysql_allowed:
  assumes "mysql_backend backend" "check_statement backend failure words state = Inr r"
  shows "mysql_allowed words"
proof (cases "words = []")
  case False
  obtain routine blocks where state: "state = (routine, blocks)" by fastforce
  from assms False have history: "\<forall>w \<in> set history_words. w \<notin> set words"
    and mysql: "check_mysql failure words state = Inr r" by (auto simp: check_statement_def)
  then obtain bs where "\<not> mysql_first_refused (routine \<or> creates_routine words) words"
    "\<forall>w \<in> set mysql_forbidden_anywhere. w \<notin> set words"
    and "foldR (mysql_word failure (routine \<or> creates_routine words) words) [0..<length words] blocks = Inr bs"
    by (auto simp: check_mysql_def state Let_def)
  moreover from foldR_mysql_words [OF this(3)] have "\<forall>i < length words. \<not> mysql_word_refused words i" by simp
  ultimately show ?thesis
    using history by (auto simp: mysql_allowed_def mysql_first_refused_def mysql_word_refused_def)
qed (simp add: mysql_allowed_def)

lemma foldR_check_mysql:
  "mysql_backend backend \<Longrightarrow> foldR (check_statement backend failure) stmts state = Inr r \<Longrightarrow> list_all mysql_allowed stmts"
  by (induction stmts arbitrary: state) (auto dest: check_mysql_allowed)

section \<open>Properties\<close>




text \<open>
  The validator fails in one way only: whatever the script, an error is \<^verbatim>\<open>InvalidSql\<close> with the
  version and the backend it was called for; and reading a script always ends.
\<close>

theorem validateScript_error:
  assumes "validateScript script backend version = Inl e"
  shows "e = MigrationError InvalidSql ''SQL contains unsupported transaction, session or client commands''
    version backend None"
  using assms
  by (auto simp: validateScript_statements scanned_text_def bindR_Inl_iff sql_error_def split: if_splits
      dest!: expand_comments_error lex_error foldR_error [where failure = "sql_error backend version"] check_statement_error)

theorem validateScript_error_witness:
  "validateScript ''BEGIN; x'' Postgres 3 = Inl (MigrationError InvalidSql
     ''SQL contains unsupported transaction, session or client commands'' 3 Postgres None)"
proof -
  have "\<not> isOk (validateScript ''BEGIN; x'' Postgres 3)" by code_simp
  then obtain e where e: "validateScript ''BEGIN; x'' Postgres 3 = Inl e" by (cases "validateScript ''BEGIN; x'' Postgres 3") auto
  with validateScript_error [OF e] show ?thesis by simp
qed

text \<open>
  The validator reads every identifier the renderer quotes as a single token: after any text,
  a quoted name that is not one of the protected names is skipped as a whole, whatever characters
  it contains, so no name can smuggle a command into a script.
\<close>

theorem quoted_name_is_one_token:
  assumes "quoteIdentifier backend name = Inr q"
    and "\<not> protected_name backend (delimiter_of backend) (upper (double_delimiter (delimiter_of backend) name))"
    and "rest = [] \<or> hd rest \<noteq> delimiter_of backend"
  shows "next_token backend failure (pre @ q @ rest) (length pre) = Inr (Word ''<quoted>'', length pre + length q)"
  using assms by (rule next_token_quoted)

theorem quoted_name_is_one_token_witness:
  "next_token Mysql (sql_error Mysql 1) (''DROP TABLE '' @ (backtick # '';COMMIT;'' @ [backtick]) @ '';'') (length ''DROP TABLE '') =
     Inr (Word ''<quoted>'', length ''DROP TABLE '' + length (backtick # '';COMMIT;'' @ [backtick]))"
proof -
  have q: "quoteIdentifier Mysql '';COMMIT;'' = Inr (backtick # '';COMMIT;'' @ [backtick])" by code_simp
  show ?thesis by (rule quoted_name_is_one_token [OF q]) code_simp+
qed

end
