(* ===== verification/Orm_Migration_Plan.thy ===== *)
theory Orm_Migration_Plan
  imports Orm_Sql_Validation
begin

text \<open>
  The part of \<^verbatim>\<open>src/migrations/MigrationState.cpp\<close> that computes: the validation of the catalog's
  scripts, the decoding of history and marker rows, the comparison of a history with a catalog
  (\<^verbatim>\<open>evaluate\<close>), \<^verbatim>\<open>requireValid\<close> and \<^verbatim>\<open>makePlan\<close>. Rows of a result set are values of the database
  library; their typed accessors are parameters.
\<close>

section \<open>Data\<close>

record applied_migration =
  am_version :: version
  am_name :: string
  am_backend :: backend_type
  am_checksum :: string
  am_appliedAt :: string
  am_baseline :: bool

datatype direction = Up | Down

datatype resolution = Completed | Reverted

record incomplete_migration =
  im_version :: version
  im_name :: string
  im_backend :: backend_type
  im_direction :: direction
  im_checksum :: string

record diagnostic =
  dg_code :: migration_error_code
  dg_version :: version
  dg_message :: string

record migration_summary =
  su_version :: version
  su_name :: string

record status =
  st_currentVersion :: version
  st_baselineVersion :: version
  st_applied :: "applied_migration list"
  st_pending :: "migration_summary list"
  st_incomplete :: "incomplete_migration option"
  st_problems :: "diagnostic list"

record planned_migration =
  pm_version :: version
  pm_name :: string
  pm_sql :: string

datatype atomicity = WholeMigration | NonTransactional

record plan =
  pl_direction :: direction
  pl_from :: version
  pl_to :: version
  pl_atomicity :: atomicity
  pl_migrations :: "planned_migration list"

section \<open>Scripts of a backend\<close>

definition scriptsFor :: "migration \<Rightarrow> backend_type \<Rightarrow> (exn, sql_migration) result" where
  "scriptsFor migration backend =
     (case map_of (mg_scripts migration) backend of
        None \<Rightarrow> Inl (MigrationError InvalidCatalog ''Migration has no SQL for this backend''
                       (mg_version migration) backend None)
      | Some scripts \<Rightarrow> Inr scripts)"

definition validate_migration :: "backend_type \<Rightarrow> migration \<Rightarrow> (exn, unit) result" where
  "validate_migration backend migration =
     bindR (scriptsFor migration backend) (\<lambda>scripts.
     bindR (validateScript (sm_up scripts) backend (mg_version migration)) (\<lambda>_.
       case sm_down scripts of
         Some down \<Rightarrow> validateScript down backend (mg_version migration)
       | None \<Rightarrow> Inr ()))"

definition validateCatalog :: "migration list \<Rightarrow> backend_type \<Rightarrow> (exn, unit) result" where
  "validateCatalog catalog backend = forR (validate_migration backend) catalog"

section \<open>Rows\<close>

text \<open>
  The typed accessors of \<^verbatim>\<open>soci::row\<close>. A wrong type is \<^verbatim>\<open>std::bad_cast\<close>, a null a
  \<^verbatim>\<open>soci_error\<close>. \<open>is_null\<close> is the indicator, \<open>get_time\<close> is \<^verbatim>\<open>get<std::tm>\<close>: year,
  month, day, hour, minute, second; \<open>get_double\<close> is \<^verbatim>\<open>get<double>\<close>, the bits of an IEEE double.
\<close>

record 'r row_access =
  get_int :: "'r \<Rightarrow> nat \<Rightarrow> (exn, int) result"
  get_long :: "'r \<Rightarrow> nat \<Rightarrow> (exn, int) result"
  get_string :: "'r \<Rightarrow> nat \<Rightarrow> (exn, string) result"
  is_date :: "'r \<Rightarrow> nat \<Rightarrow> bool"
  is_null :: "'r \<Rightarrow> nat \<Rightarrow> bool"
  get_time :: "'r \<Rightarrow> nat \<Rightarrow> (exn, nat \<times> nat \<times> nat \<times> nat \<times> nat \<times> nat) result"
  get_double :: "'r \<Rightarrow> nat \<Rightarrow> (exn, 64 word) result"

definition put_time :: "nat \<times> nat \<times> nat \<times> nat \<times> nat \<times> nat \<Rightarrow> string" where
  "put_time = (\<lambda>(y, mo, d, h, mi, s).
     dec y @ ''-'' @ zpad 2 mo @ ''-'' @ zpad 2 d @ '' '' @ zpad 2 h @ '':'' @ zpad 2 mi @ '':'' @ zpad 2 s)"

definition backend_of_number :: "int \<Rightarrow> backend_type option" where
  "backend_of_number n = find (\<lambda>b. int (backend_number b) = n) [Sqlite, Postgres, Mysql, Mariadb]"

definition bad_cast_as :: "exn \<Rightarrow> (exn, 'a) result \<Rightarrow> (exn, 'a) result" where
  "bad_cast_as failure r = (case r of Inl BadCast \<Rightarrow> Inl failure | _ \<Rightarrow> r)"

definition history_row :: "'r row_access \<Rightarrow> 'r \<Rightarrow> (exn, applied_migration) result" where
  "history_row acc row =
     bindR (get_int acc row 5) (\<lambda>flag.
     bindR (get_int acc row 2) (\<lambda>backend.
     bindR (throwIf ((flag \<noteq> 0 \<and> flag \<noteq> 1) \<or> backend_of_number backend = None)
              (MigrationError InvalidHistory ''Invalid migration history record'' 0 Empty None)) (\<lambda>_.
     bindR (if is_date acc row 4 then bindR (get_time acc row 4) (\<lambda>t. Inr (put_time t))
            else get_string acc row 4) (\<lambda>appliedAt.
     bindR (get_long acc row 0) (\<lambda>version.
     bindR (get_string acc row 1) (\<lambda>name.
     bindR (get_string acc row 3) (\<lambda>checksum.
       Inr \<lparr>am_version = version, am_name = name, am_backend = the (backend_of_number backend),
            am_checksum = checksum, am_appliedAt = appliedAt, am_baseline = flag \<noteq> 0\<rparr>)))))))"

definition history_rows :: "'r row_access \<Rightarrow> 'r list \<Rightarrow> (exn, applied_migration list) result" where
  "history_rows acc rows =
     bad_cast_as (MigrationError InvalidHistory ''Migration history has incompatible column types'' 0 Empty None)
       (mapR (history_row acc) rows)"

definition marker_row ::
  "'r row_access \<Rightarrow> 'r \<Rightarrow> incomplete_migration option \<Rightarrow> (exn, incomplete_migration option) result" where
  "marker_row acc row found =
     bindR (get_int acc row 3) (\<lambda>backend.
     bindR (get_int acc row 4) (\<lambda>direction.
     let failure = MigrationError InvalidHistory ''Invalid incomplete migration marker'' 0 Empty None
     in bindR (throwIf (found \<noteq> None) failure) (\<lambda>_.
     bindR (get_int acc row 0) (\<lambda>slot.
     bindR (throwIf (slot \<noteq> 1 \<or> (direction \<noteq> 0 \<and> direction \<noteq> 1) \<or>
                     (backend \<noteq> int (backend_number Mysql) \<and> backend \<noteq> int (backend_number Mariadb))) failure) (\<lambda>_.
     bindR (get_long acc row 1) (\<lambda>version.
     bindR (get_string acc row 2) (\<lambda>name.
     bindR (get_string acc row 5) (\<lambda>checksum.
       Inr (Some \<lparr>im_version = version, im_name = name, im_backend = the (backend_of_number backend),
                   im_direction = (if direction = 0 then Up else Down), im_checksum = checksum\<rparr>)))))))))"

definition marker_rows :: "'r row_access \<Rightarrow> 'r list \<Rightarrow> (exn, incomplete_migration option) result" where
  "marker_rows acc rows =
     bad_cast_as (MigrationError InvalidHistory ''Incomplete marker has incompatible column types'' 0 Empty None)
       (foldR (marker_row acc) rows None)"

section \<open>Comparing a history with a catalog\<close>

text \<open>
  The loop of \<^verbatim>\<open>evaluate\<close> over the applied migrations: the baseline version, whether an ordinary
  record was seen, and the problems so far.
\<close>

definition record_problems ::
  "dumper \<Rightarrow> migration list \<Rightarrow> backend_type \<Rightarrow> bool \<Rightarrow> nat \<Rightarrow> applied_migration \<Rightarrow> (exn, diagnostic list) result" where
  "record_problems dump migrations backend ordinarySeen i record =
     (if (ordinarySeen \<and> am_baseline record) \<or> i \<ge> length migrations
         \<or> am_version record \<noteq> mg_version (migrations ! i) \<or> am_name record \<noteq> mg_name (migrations ! i)
         \<or> am_backend record \<noteq> backend
      then Inr [\<lparr>dg_code = InvalidHistory, dg_version = am_version record,
                 dg_message = ''Migration history is not a matching catalog prefix''\<rparr>]
      else bindR (scriptsFor (migrations ! i) backend) (\<lambda>scripts.
           bindR (checksum dump scripts) (\<lambda>sum.
             Inr (if am_checksum record \<noteq> sum
                  then [\<lparr>dg_code = ChecksumMismatch, dg_version = am_version record,
                         dg_message = ''Applied migration SQL has changed''\<rparr>] else []))))"

fun evaluate_records ::
  "dumper \<Rightarrow> migration list \<Rightarrow> backend_type \<Rightarrow> nat \<Rightarrow> bool \<Rightarrow> version \<Rightarrow> applied_migration list
   \<Rightarrow> (exn, version \<times> diagnostic list) result" where
  "evaluate_records dump migrations backend i ordinarySeen baseline [] = Inr (baseline, [])"
| "evaluate_records dump migrations backend i ordinarySeen baseline (record # records) =
     bindR (record_problems dump migrations backend ordinarySeen i record) (\<lambda>problems.
     bindR (evaluate_records dump migrations backend (i + 1) (ordinarySeen \<or> \<not> am_baseline record)
              (if am_baseline record then am_version record else baseline) records) (\<lambda>(baseline, rest).
       Inr (baseline, problems @ rest)))"

definition find_version :: "migration list \<Rightarrow> version \<Rightarrow> migration option" where
  "find_version migrations version = find (\<lambda>m. mg_version m = version) migrations"

definition expected_index :: "migration list \<Rightarrow> applied_migration list \<Rightarrow> direction \<Rightarrow> nat" where
  "expected_index migrations applied direction =
     (case direction of
        Up \<Rightarrow> length applied
      | Down \<Rightarrow> if applied = [] then length migrations else length applied - 1)"

definition marker_problems ::
  "dumper \<Rightarrow> migration list \<Rightarrow> backend_type \<Rightarrow> applied_migration list \<Rightarrow> version \<Rightarrow> incomplete_migration
   \<Rightarrow> (exn, diagnostic list) result" where
  "marker_problems dump migrations backend applied baseline marker =
     (let expectedIndex = expected_index migrations applied (im_direction marker);
          mismatch = [\<lparr>dg_code = InvalidHistory, dg_version = im_version marker,
                       dg_message = ''Incomplete marker does not match catalog position''\<rparr>]
      in case find_version migrations (im_version marker) of
           None \<Rightarrow> Inr mismatch
         | Some found \<Rightarrow>
             if im_backend marker \<noteq> backend \<or> im_name marker \<noteq> mg_name found
                \<or> expectedIndex \<ge> length migrations
                \<or> mg_version (migrations ! expectedIndex) \<noteq> im_version marker
                \<or> (im_direction marker = Down \<and> im_version marker \<le> baseline)
             then Inr mismatch
             else bindR (scriptsFor found backend) (\<lambda>scripts.
                  bindR (checksum dump scripts) (\<lambda>sum.
                    Inr (if im_checksum marker \<noteq> sum
                         then [\<lparr>dg_code = ChecksumMismatch, dg_version = im_version marker,
                                dg_message = ''Incomplete migration SQL has changed''\<rparr>] else []))))"

definition current_version :: "applied_migration list \<Rightarrow> version" where
  "current_version history = (if history = [] then 0 else am_version (last history))"

definition evaluate ::
  "dumper \<Rightarrow> migration list \<Rightarrow> backend_type \<Rightarrow> applied_migration list \<Rightarrow> incomplete_migration option
   \<Rightarrow> (exn, status) result" where
  "evaluate dump migrations backend history incomplete =
     bindR (evaluate_records dump migrations backend 0 False 0 history) (\<lambda>(baseline, problems).
     bindR (case incomplete of
              None \<Rightarrow> Inr []
            | Some marker \<Rightarrow> marker_problems dump migrations backend history baseline marker) (\<lambda>markerProblems.
       Inr \<lparr>st_currentVersion = current_version history, st_baselineVersion = baseline,
            st_applied = history,
            st_pending = map (\<lambda>m. \<lparr>su_version = mg_version m, su_name = mg_name m\<rparr>)
                           (drop (length history) migrations),
            st_incomplete = incomplete, st_problems = problems @ markerProblems\<rparr>))"

definition requireValid :: "status \<Rightarrow> backend_type \<Rightarrow> (exn, unit) result" where
  "requireValid status backend =
     (case st_problems status of
        issue # _ \<Rightarrow> Inl (MigrationError (dg_code issue) (dg_message issue) (dg_version issue) backend None)
      | [] \<Rightarrow> (case st_incomplete status of
          Some marker \<Rightarrow> Inl (MigrationError IncompleteMigrationCode
             ''Incomplete migration requires operator resolution'' (im_version marker) backend None)
        | None \<Rightarrow> Inr ()))"

section \<open>Plans\<close>

definition plan_target :: "migration list \<Rightarrow> direction \<Rightarrow> version option \<Rightarrow> version" where
  "plan_target migrations direction requested =
     (case requested of
        Some version \<Rightarrow> version
      | None \<Rightarrow> if direction = Up \<and> migrations \<noteq> [] then mg_version (last migrations) else 0)"

definition invalid_target :: "migration list \<Rightarrow> status \<Rightarrow> direction \<Rightarrow> version \<Rightarrow> bool" where
  "invalid_target migrations status direction target \<longleftrightarrow>
     target < 0 \<or> (target \<noteq> 0 \<and> find_version migrations target = None)
     \<or> (direction = Up \<and> target < st_currentVersion status)
     \<or> (direction = Down \<and> target > st_currentVersion status)"

definition selected :: "direction \<Rightarrow> version \<Rightarrow> version \<Rightarrow> migration \<Rightarrow> bool" where
  "selected direction current target migration =
     (case direction of
        Up \<Rightarrow> mg_version migration > current \<and> mg_version migration \<le> target
      | Down \<Rightarrow> mg_version migration \<le> current \<and> mg_version migration > target)"

definition plan_step :: "backend_type \<Rightarrow> direction \<Rightarrow> migration \<Rightarrow> (exn, planned_migration) result" where
  "plan_step backend direction migration =
     bindR (scriptsFor migration backend) (\<lambda>scripts.
     case direction of
       Up \<Rightarrow> Inr \<lparr>pm_version = mg_version migration, pm_name = mg_name migration, pm_sql = sm_up scripts\<rparr>
     | Down \<Rightarrow> (case sm_down scripts of
         None \<Rightarrow> Inl (MigrationError MissingDown ''Migration has no down SQL'' (mg_version migration) backend None)
       | Some down \<Rightarrow> Inr \<lparr>pm_version = mg_version migration, pm_name = mg_name migration, pm_sql = down\<rparr>))"

definition makePlan ::
  "migration list \<Rightarrow> backend_type \<Rightarrow> status \<Rightarrow> direction \<Rightarrow> version option \<Rightarrow> (exn, plan) result" where
  "makePlan migrations backend status direction requested =
     bindR (requireValid status backend) (\<lambda>_.
     let target = plan_target migrations direction requested
     in bindR (throwIf (invalid_target migrations status direction target)
                 (MigrationError InvalidTarget ''Invalid migration target'' target backend None)) (\<lambda>_.
        bindR (throwIf (direction = Down \<and> target < st_baselineVersion status)
                 (MigrationError BaselineBoundary ''Cannot migrate below the baseline'' target backend None)) (\<lambda>_.
        bindR (mapR (plan_step backend direction)
                 (filter (selected direction (st_currentVersion status) target) migrations)) (\<lambda>steps.
          Inr \<lparr>pl_direction = direction, pl_from = st_currentVersion status, pl_to = target,
               pl_atomicity = WholeMigration,
               pl_migrations = (if direction = Down then rev steps else steps)\<rparr>))))"

section \<open>What a valid history is\<close>

text \<open>A record belongs to a migration: version, name, backend and checksum agree.\<close>

definition record_matches :: "dumper \<Rightarrow> backend_type \<Rightarrow> applied_migration \<Rightarrow> migration \<Rightarrow> bool" where
  "record_matches dump backend r m \<longleftrightarrow>
     am_version r = mg_version m \<and> am_name r = mg_name m \<and> am_backend r = backend \<and>
     bindR (scriptsFor m backend) (checksum dump) = Inr (am_checksum r)"

definition baselines_first :: "applied_migration list \<Rightarrow> bool" where
  "baselines_first history \<longleftrightarrow> list_all (\<lambda>r. \<not> am_baseline r) (dropWhile am_baseline history)"

definition history_matches :: "dumper \<Rightarrow> migration list \<Rightarrow> backend_type \<Rightarrow> applied_migration list \<Rightarrow> bool" where
  "history_matches dump ms backend history \<longleftrightarrow>
     length history \<le> length ms \<and> list_all2 (record_matches dump backend) history (take (length history) ms) \<and>
     baselines_first history"

definition baseline_version :: "applied_migration list \<Rightarrow> version" where
  "baseline_version history = current_version (takeWhile am_baseline history)"

lemma record_problems_none:
  "record_problems dump ms backend seen i r = Inr [] \<longleftrightarrow>
   i < length ms \<and> record_matches dump backend r (ms ! i) \<and> \<not> (seen \<and> am_baseline r)"
  by (auto simp: record_problems_def record_matches_def split: if_splits)

lemma evaluate_records_none:
  "evaluate_records dump ms backend i seen base recs = Inr (b, []) \<longleftrightarrow>
   length recs \<le> length (drop i ms) \<and>
   list_all2 (record_matches dump backend) recs (take (length recs) (drop i ms)) \<and>
   (if seen then list_all (\<lambda>r. \<not> am_baseline r) recs else baselines_first recs) \<and>
   b = (if seen \<or> takeWhile am_baseline recs = [] then base else baseline_version recs)"
proof (induction recs arbitrary: i seen base)
  case Nil
  then show ?case by (auto simp: baselines_first_def)
next
  case (Cons r recs)
  have drop: "drop i ms = (if i < length ms then ms ! i # drop (Suc i) ms else [])"
    by (simp add: Cons_nth_drop_Suc)
  have all: "list_all (\<lambda>r. \<not> am_baseline r) recs \<Longrightarrow> takeWhile am_baseline recs = []"
    by (cases recs) auto
  have base: "baseline_version (r # recs) = (if am_baseline r then
     if takeWhile am_baseline recs = [] then am_version r else baseline_version recs else 0)"
    by (simp add: baseline_version_def current_version_def)
  have "evaluate_records dump ms backend i seen base (r # recs) = Inr (b, []) \<longleftrightarrow>
    record_problems dump ms backend seen i r = Inr [] \<and>
    evaluate_records dump ms backend (Suc i) (seen \<or> \<not> am_baseline r) (if am_baseline r then am_version r else base) recs = Inr (b, [])"
    by (auto split: prod.splits)
  also have "\<dots> \<longleftrightarrow> (i < length ms \<and> record_matches dump backend r (ms ! i) \<and> \<not> (seen \<and> am_baseline r)) \<and>
    evaluate_records dump ms backend (Suc i) (seen \<or> \<not> am_baseline r) (if am_baseline r then am_version r else base) recs = Inr (b, [])"
    by (simp only: record_problems_none)
  finally show ?case
    unfolding Cons.IH drop base using all by (auto simp: baselines_first_def)
qed

lemma evaluate_fields:
  "evaluate dump ms backend history incomplete = Inr st \<Longrightarrow>
   st_applied st = history \<and> st_incomplete st = incomplete \<and> st_currentVersion st = current_version history"
  by (auto simp: evaluate_def)

definition valid_status :: "migration list \<Rightarrow> applied_migration list \<Rightarrow> status" where
  "valid_status ms history =
     \<lparr>st_currentVersion = current_version history, st_baselineVersion = baseline_version history,
      st_applied = history,
      st_pending = map (\<lambda>m. \<lparr>su_version = mg_version m, su_name = mg_name m\<rparr>) (drop (length history) ms),
      st_incomplete = None, st_problems = []\<rparr>"

lemma evaluate_no_problems:
  "evaluate dump ms backend history None = Inr st \<and> st_problems st = [] \<longleftrightarrow>
   history_matches dump ms backend history \<and> st = valid_status ms history"
proof -
  have "baseline_version history = 0" if "takeWhile am_baseline history = []"
    using that by (simp add: baseline_version_def current_version_def)
  then have records: "evaluate_records dump ms backend 0 False 0 history = Inr (b, []) \<longleftrightarrow>
    history_matches dump ms backend history \<and> b = baseline_version history" for b
    by (auto simp: evaluate_records_none history_matches_def)
  have "evaluate dump ms backend history None = Inr st \<and> st_problems st = [] \<longleftrightarrow>
    (\<exists>b. evaluate_records dump ms backend 0 False 0 history = Inr (b, []) \<and> st = (valid_status ms history)\<lparr>st_baselineVersion := b\<rparr>)"
    by (auto simp: evaluate_def valid_status_def)
  then show ?thesis unfolding records by (auto simp: valid_status_def)
qed

lemma requireValid_iff:
  "requireValid st backend = Inr () \<longleftrightarrow> st_problems st = [] \<and> st_incomplete st = None"
  by (auto simp: requireValid_def split: list.splits option.splits)

text \<open>The version a catalog is at after its first \<open>k\<close> migrations.\<close>

definition version_at :: "migration list \<Rightarrow> nat \<Rightarrow> version" where
  "version_at ms k = (if k = 0 then 0 else mg_version (ms ! (k - 1)))"

definition ascending :: "migration list \<Rightarrow> bool" where
  "ascending ms \<longleftrightarrow> sorted_wrt (<) (map mg_version ms) \<and> (\<forall>m \<in> set ms. 0 < mg_version m)"

lemma catalog_ascending: "catalog_wf ms \<Longrightarrow> ascending ms"
  by (simp add: ascending_def catalog_wf_def migration_wf_def successively_versions)

lemma ascending_less:
  "ascending ms \<Longrightarrow> i < length ms \<Longrightarrow> j < length ms \<Longrightarrow> mg_version (ms ! i) < mg_version (ms ! j) \<longleftrightarrow> i < j"
  by (metis ascending_def length_map linorder_less_linear nth_map order_less_asym sorted_wrt_nth_less)

lemma version_at_le:
  assumes "ascending ms" "i < length ms" "k \<le> length ms"
  shows "mg_version (ms ! i) \<le> version_at ms k \<longleftrightarrow> i < k"
proof (cases k)
  case 0
  with assms show ?thesis by (auto simp: version_at_def ascending_def not_le)
next
  case (Suc j)
  then have "mg_version (ms ! i) \<le> version_at ms k \<longleftrightarrow> \<not> j < i"
    using assms ascending_less [OF assms(1), of j i] by (auto simp: version_at_def linorder_not_less [symmetric])
  with Suc show ?thesis by auto
qed

lemma version_at_inj:
  assumes "ascending ms" "j \<le> length ms" "k \<le> length ms"
  shows "version_at ms j \<le> version_at ms k \<longleftrightarrow> j \<le> k"
proof (cases j)
  case 0
  then have "0 \<le> version_at ms k" using assms by (auto simp: version_at_def ascending_def less_imp_le)
  with 0 show ?thesis by (simp add: version_at_def)
next
  case (Suc i)
  with version_at_le [OF assms(1) _ assms(3), of i] assms(2) show ?thesis by (auto simp: version_at_def)
qed

lemma filter_slice:
  "(\<And>i. i < length xs \<Longrightarrow> P (xs ! i) \<longleftrightarrow> n \<le> i \<and> i < k) \<Longrightarrow> filter P xs = drop n (take k xs)"
proof (induction xs arbitrary: n k)
  case (Cons x xs)
  have "filter P xs = drop (n - 1) (take (k - 1) xs)"
  proof (rule Cons.IH)
    show "P (xs ! i) \<longleftrightarrow> n - 1 \<le> i \<and> i < k - 1" if "i < length xs" for i
      using Cons.prems [of "Suc i"] that by auto
  qed
  moreover have "P x \<longleftrightarrow> n = 0 \<and> 0 < k" using Cons.prems [of 0] by auto
  ultimately show ?case by (cases n; cases k) (auto simp: take_Cons' drop_Cons')
qed simp

lemma target_position:
  assumes "ascending ms"
  shows "0 \<le> t \<and> (t = 0 \<or> find_version ms t \<noteq> None) \<longleftrightarrow> (\<exists>k \<le> length ms. t = version_at ms k)"
proof
  assume "0 \<le> t \<and> (t = 0 \<or> find_version ms t \<noteq> None)"
  then consider "t = 0" | i where "i < length ms" "mg_version (ms ! i) = t"
    by (auto simp: find_version_def find_Some_iff)
  then show "\<exists>k \<le> length ms. t = version_at ms k"
  proof cases
    case 1
    then show ?thesis by (intro exI [of _ 0]) (simp add: version_at_def)
  next
    case 2
    then show ?thesis by (intro exI [of _ "Suc i"]) (simp add: version_at_def)
  qed
next
  assume "\<exists>k \<le> length ms. t = version_at ms k"
  then obtain k where k: "k \<le> length ms" "t = version_at ms k" by blast
  show "0 \<le> t \<and> (t = 0 \<or> find_version ms t \<noteq> None)"
  proof (cases k)
    case (Suc i)
    with k have i: "ms ! i \<in> set ms" "t = mg_version (ms ! i)" by (auto simp: version_at_def)
    with assms have "0 < t" by (auto simp: ascending_def)
    with i show ?thesis by (auto simp: find_version_def find_None_iff)
  qed (simp add: k version_at_def)
qed

lemma current_version_at:
  assumes "history_matches dump ms backend history"
  shows "current_version history = version_at ms (length history)"
    and "baseline_version history = version_at ms (length (takeWhile am_baseline history))"
proof -
  have nth: "am_version (history ! i) = mg_version (ms ! i)" if "i < length history" for i
    using assms that by (auto simp: history_matches_def list_all2_conv_all_nth record_matches_def)
  then show "current_version history = version_at ms (length history)"
    by (auto simp: current_version_def version_at_def last_conv_nth)
  show "baseline_version history = version_at ms (length (takeWhile am_baseline history))"
  proof (cases "takeWhile am_baseline history = []")
    case False
    let ?b = "takeWhile am_baseline history"
    have "last ?b = history ! (length ?b - 1)" using False by (simp add: last_conv_nth takeWhile_nth)
    moreover have "length ?b - 1 < length history" using False length_takeWhile_le [of am_baseline history]
      by (cases history) (auto simp: less_Suc_eq_le)
    ultimately show ?thesis using False nth by (simp add: baseline_version_def current_version_def version_at_def)
  qed (simp add: baseline_version_def current_version_def version_at_def)
qed

lemma mapR_rev: "mapR f (rev xs) = Inr ys \<longleftrightarrow> mapR f xs = Inr (rev ys)"
proof -
  have "mapR f xs = Inr ys \<longleftrightarrow> list_all2 (\<lambda>x y. f x = Inr y) xs ys" for xs ys
    by (induction xs arbitrary: ys) (auto simp: list_all2_Cons1)
  then show ?thesis by (simp add: list_all2_rev1)
qed


text \<open>The migrations a plan runs, in the order it runs them.\<close>

definition plan_slice :: "direction \<Rightarrow> migration list \<Rightarrow> nat \<Rightarrow> nat \<Rightarrow> migration list" where
  "plan_slice direction ms n k = (case direction of Up \<Rightarrow> drop n (take k ms) | Down \<Rightarrow> rev (drop k (take n ms)))"

definition plan_bounds :: "direction \<Rightarrow> applied_migration list \<Rightarrow> migration list \<Rightarrow> nat \<Rightarrow> bool" where
  "plan_bounds direction history ms k =
     (case direction of
        Up \<Rightarrow> length history \<le> k \<and> k \<le> length ms
      | Down \<Rightarrow> length (takeWhile am_baseline history) \<le> k \<and> k \<le> length history)"

lemma selected_slice:
  assumes "ascending ms" "n \<le> length ms" "k \<le> length ms"
  shows "filter (selected direction (version_at ms n) (version_at ms k)) ms =
    (case direction of Up \<Rightarrow> drop n (take k ms) | Down \<Rightarrow> drop k (take n ms))"
proof (cases direction)
  case Up
  have "filter (selected direction (version_at ms n) (version_at ms k)) ms = drop n (take k ms)"
    by (rule filter_slice)
      (use assms version_at_le [OF assms(1) _ assms(2)] version_at_le [OF assms(1) _ assms(3)] Up in
        \<open>auto simp: selected_def linorder_not_le [symmetric]\<close>)
  with Up show ?thesis by simp
next
  case Down
  have "filter (selected direction (version_at ms n) (version_at ms k)) ms = drop k (take n ms)"
    by (rule filter_slice)
      (use assms version_at_le [OF assms(1) _ assms(2)] version_at_le [OF assms(1) _ assms(3)] Down in
        \<open>auto simp: selected_def linorder_not_le [symmetric]\<close>)
  with Down show ?thesis by simp
qed

lemma makePlan_spec:
  assumes "ascending ms" "evaluate dump ms backend history None = Inr st" "history_matches dump ms backend history"
  shows "makePlan ms backend st direction (Some t) = Inr p \<longleftrightarrow>
    (\<exists>k steps. t = version_at ms k \<and> plan_bounds direction history ms k \<and>
       mapR (plan_step backend direction) (plan_slice direction ms (length history) k) = Inr steps \<and>
       p = \<lparr>pl_direction = direction, pl_from = current_version history, pl_to = t, pl_atomicity = WholeMigration,
            pl_migrations = steps\<rparr>)"
  (is "_ \<longleftrightarrow> (\<exists>k steps. ?planned k steps)")
proof -
  let ?n = "length history" and ?b = "length (takeWhile am_baseline history)"
  have "st = valid_status ms history"
    using evaluate_no_problems [of dump ms backend history "valid_status ms history"] assms(2,3) by simp
  then have st: "requireValid st backend = Inr ()" "st_currentVersion st = version_at ms ?n"
    "current_version history = version_at ms ?n" "st_baselineVersion st = version_at ms ?b"
    using current_version_at [OF assms(3)] by (simp_all add: valid_status_def requireValid_iff)
  have n: "?n \<le> length ms" "?b \<le> ?n" using assms(3) by (auto simp: history_matches_def length_takeWhile_le)
  have order: "version_at ms j < version_at ms k \<longleftrightarrow> j < k" if "j \<le> length ms" "k \<le> length ms" for j k
    using version_at_inj [OF assms(1) that(2,1)] by (simp add: linorder_not_le [symmetric])
  have bounds: "\<not> invalid_target ms st direction (version_at ms k) \<and>
      \<not> (direction = Down \<and> version_at ms k < st_baselineVersion st) \<longleftrightarrow> plan_bounds direction history ms k"
    if "k \<le> length ms" for k
    using that n target_position [OF assms(1), of "version_at ms k"] order [of k ?n] order [of ?n k] order [of k ?b]
    by (cases direction) (auto simp: invalid_target_def plan_bounds_def st not_less)
  have steps: "mapR (plan_step backend direction) (plan_slice direction ms ?n k) = Inr steps \<longleftrightarrow>
     (\<exists>found. mapR (plan_step backend direction) (filter (selected direction (version_at ms ?n) (version_at ms k)) ms) = Inr found \<and>
       steps = (if direction = Down then rev found else found))"
    if "k \<le> length ms" for k steps
    unfolding selected_slice [OF assms(1) n(1) that] plan_slice_def by (cases direction) (auto simp: mapR_rev intro: exI [of _ "rev steps"])
  have plan: "makePlan ms backend st direction (Some t) = Inr p \<longleftrightarrow>
    \<not> invalid_target ms st direction t \<and> \<not> (direction = Down \<and> t < st_baselineVersion st) \<and>
    (\<exists>found. mapR (plan_step backend direction) (filter (selected direction (version_at ms ?n) t) ms) = Inr found \<and>
      p = \<lparr>pl_direction = direction, pl_from = current_version history, pl_to = t, pl_atomicity = WholeMigration,
           pl_migrations = (if direction = Down then rev found else found)\<rparr>)"
    by (auto simp: makePlan_def st plan_target_def Let_def)
  have position: "\<exists>k \<le> length ms. t = version_at ms k" if "\<not> invalid_target ms st direction t"
    using that target_position [OF assms(1), of t] by (auto simp: invalid_target_def)
  have upper: "k \<le> length ms" if "plan_bounds direction history ms k" for k
    using that n by (auto simp: plan_bounds_def split: direction.splits)
  show ?thesis
  proof
    assume p: "makePlan ms backend st direction (Some t) = Inr p"
    with plan position obtain k where k: "k \<le> length ms" "t = version_at ms k" by blast
    with p bounds [OF k(1)] steps [OF k(1)] show "\<exists>k steps. ?planned k steps" unfolding plan by blast
  next
    assume "\<exists>k steps. ?planned k steps"
    then obtain k steps where "?planned k steps" by blast
    with bounds [OF upper] steps [OF upper] show "makePlan ms backend st direction (Some t) = Inr p"
      unfolding plan by blast
  qed
qed

lemma plan_steps_versions:
  "mapR (plan_step backend direction) ms = Inr steps \<Longrightarrow> map pm_version steps = map mg_version ms"
  by (cases direction; induction ms arbitrary: steps) (auto simp: plan_step_def split: option.splits)

section \<open>Properties\<close>

text \<open>
  C29. A history passes the validation of the migration state exactly when there is no incomplete
  marker and the history is a prefix of the catalog: each record has the version, name, backend and
  checksum of the migration at its position, and baseline records come before ordinary ones.
\<close>

theorem valid_history_iff:
  "bindR (evaluate dump ms backend history incomplete) (\<lambda>st. requireValid st backend) = Inr () \<longleftrightarrow>
   incomplete = None \<and> history_matches dump ms backend history"
proof -
  have "bindR (evaluate dump ms backend history incomplete) (\<lambda>st. requireValid st backend) = Inr () \<longleftrightarrow>
    incomplete = None \<and> (\<exists>st. evaluate dump ms backend history None = Inr st \<and> st_problems st = [])"
    using evaluate_fields [of dump ms backend history incomplete] by (auto simp: requireValid_iff)
  then show ?thesis by (simp add: evaluate_no_problems)
qed

text \<open>
  C30. \<^verbatim>\<open>makePlan\<close> is exact. For a catalog that was constructed and a valid history, a plan exists
  for a target exactly when the target is the version after the first \<open>k\<close> migrations for a \<open>k\<close> that
  is not behind the history (up), or not ahead of it and not below the baseline (down), and every
  selected migration has the script; and the plan runs exactly the migrations between the two
  positions, oldest first going up and newest first going down.
\<close>

theorem makePlan_exact:
  assumes "Catalog dump migrations = Inr ms"
    and "evaluate dump ms backend history None = Inr st" "requireValid st backend = Inr ()"
  shows "makePlan ms backend st direction (Some t) = Inr p \<longleftrightarrow>
    (\<exists>k steps. t = version_at ms k \<and> plan_bounds direction history ms k \<and>
       mapR (plan_step backend direction) (plan_slice direction ms (length history) k) = Inr steps \<and>
       p = \<lparr>pl_direction = direction, pl_from = current_version history, pl_to = t, pl_atomicity = WholeMigration,
            pl_migrations = steps\<rparr>)"
proof (rule makePlan_spec)
  show "ascending ms" using Catalog_facts(1) [OF assms(1)] by (rule catalog_ascending)
  show "history_matches dump ms backend history"
    using assms(2,3) evaluate_no_problems [of dump ms backend history st] by (simp add: requireValid_iff)
qed (rule assms(2))

text \<open>A catalog of two migrations and a history in which the first one was applied.\<close>

definition sample_dump :: dumper where
  "sample_dump = (\<lambda>_. Inr ''{}'')"

definition sample_catalog :: "migration list" where
  "sample_catalog = [sample_migration 1 ''A;'', sample_migration 2 ''B;'']"

definition sample_record :: "version \<Rightarrow> string \<Rightarrow> applied_migration" where
  "sample_record v sql = \<lparr>am_version = v, am_name = ''users'', am_backend = Sqlite,
     am_checksum = projr (bindR (scriptsFor (sample_migration v sql) Sqlite) (checksum sample_dump)),
     am_appliedAt = ''2024-01-01 00:00:00'', am_baseline = False\<rparr>"

lemma sample_record_matches:
  assumes "normalizeSql sql = Inr s"
  shows "record_matches sample_dump Sqlite (sample_record v sql) (sample_migration v sql)"
proof -
  have "normalizeSql ''DROP TABLE users;'' = Inr ''DROP TABLE users;''" by code_simp
  moreover have "isOk (contextJson sample_dump empty_context)" by code_simp
  ultimately have "isOk (bindR (scriptsFor (sample_migration v sql) Sqlite) (checksum sample_dump))"
    using assms by (auto simp: scriptsFor_def sample_migration_def checksum_def isOk_iff)
  then show ?thesis
    by (auto simp: record_matches_def sample_record_def sample_migration_def isOk_iff)
qed

lemma sample_constructed: "Catalog sample_dump sample_catalog = Inr sample_catalog"
  by code_simp

lemma sample_history:
  "history_matches sample_dump sample_catalog Sqlite [sample_record 1 ''A;'']"
  "history_matches sample_dump sample_catalog Sqlite [sample_record 1 ''A;'', sample_record 2 ''B;'']"
proof -
  have normal: "normalizeSql ''A;'' = Inr ''A;''" "normalizeSql ''B;'' = Inr ''B;''" by code_simp+
  show "history_matches sample_dump sample_catalog Sqlite [sample_record 1 ''A;'']"
    "history_matches sample_dump sample_catalog Sqlite [sample_record 1 ''A;'', sample_record 2 ''B;'']"
    using sample_record_matches [OF normal(1), of 1] sample_record_matches [OF normal(2), of 2]
    by (simp_all add: history_matches_def sample_catalog_def baselines_first_def sample_record_def)
qed

lemma matching_evaluates:
  "history_matches dump ms backend history \<Longrightarrow>
   evaluate dump ms backend history None = Inr (valid_status ms history) \<and>
   requireValid (valid_status ms history) backend = Inr ()"
  using evaluate_no_problems [of dump ms backend history "valid_status ms history"]
  by (simp add: requireValid_iff valid_status_def)

theorem makePlan_exact_witness:
  "makePlan sample_catalog Sqlite (valid_status sample_catalog [sample_record 1 ''A;'']) Up (Some 2) =
   Inr \<lparr>pl_direction = Up, pl_from = 1, pl_to = 2, pl_atomicity = WholeMigration,
        pl_migrations = [\<lparr>pm_version = 2, pm_name = ''users'', pm_sql = ''B;''\<rparr>]\<rparr>"
proof -
  note valid = matching_evaluates [OF sample_history(1)]
  show ?thesis
    by (subst makePlan_exact [OF sample_constructed valid [THEN conjunct1] valid [THEN conjunct2]])
      (rule exI [of _ 2],
       simp add: version_at_def plan_bounds_def plan_slice_def plan_step_def scriptsFor_def sample_catalog_def
         sample_migration_def current_version_def sample_record_def)
qed

text \<open>
  Going down retraces going up: if a plan leads up from one valid history to the version of
  another one, every plan back down from there runs the same migrations in the opposite order.
\<close>

theorem down_retraces_up:
  assumes "Catalog dump migrations = Inr ms"
    and "history_matches dump ms backend history" "history_matches dump ms backend history'"
    and "makePlan ms backend (valid_status ms history) Up (Some (current_version history')) = Inr p"
    and "makePlan ms backend (valid_status ms history') Down (Some (current_version history)) = Inr q"
  shows "map pm_version (pl_migrations q) = rev (map pm_version (pl_migrations p)) \<and>
    pl_from q = pl_to p \<and> pl_to q = pl_from p"
proof -
  have ms: "ascending ms" using Catalog_facts(1) [OF assms(1)] by (rule catalog_ascending)
  let ?n = "length history" and ?n' = "length history'"
  have n: "?n \<le> length ms" "?n' \<le> length ms" using assms(2,3) by (auto simp: history_matches_def)
  have inj: "version_at ms j = version_at ms k \<Longrightarrow> j \<le> length ms \<Longrightarrow> k \<le> length ms \<Longrightarrow> j = k" for j k
    using version_at_inj [OF ms] by (metis order.antisym order.refl)
  obtain k where k: "current_version history' = version_at ms k" "plan_bounds Up history ms k"
    "mapR (plan_step backend Up) (drop ?n (take k ms)) = Inr (pl_migrations p)"
    "pl_from p = current_version history" "pl_to p = current_version history'"
    using assms(4) makePlan_spec [OF ms matching_evaluates [OF assms(2), THEN conjunct1] assms(2)]
    by (auto simp: plan_slice_def)
  obtain k' where k': "current_version history = version_at ms k'" "plan_bounds Down history' ms k'"
    "mapR (plan_step backend Down) (rev (drop k' (take ?n' ms))) = Inr (pl_migrations q)"
    "pl_from q = current_version history'" "pl_to q = current_version history"
    using assms(5) makePlan_spec [OF ms matching_evaluates [OF assms(3), THEN conjunct1] assms(3)]
    by (auto simp: plan_slice_def)
  have "k = ?n'" "k' = ?n"
    using k(1,2) k'(1,2) n current_version_at(1) [OF assms(2)] current_version_at(1) [OF assms(3)]
    by (auto simp: plan_bounds_def intro!: inj)
  with k(3-) k'(3-) plan_steps_versions show ?thesis by (metis rev_map)
qed

lemma sample_plans:
  "makePlan sample_catalog Sqlite (valid_status sample_catalog [sample_record 1 ''A;'']) Up (Some 2) =
   Inr \<lparr>pl_direction = Up, pl_from = 1, pl_to = 2, pl_atomicity = WholeMigration,
        pl_migrations = [\<lparr>pm_version = 2, pm_name = ''users'', pm_sql = ''B;''\<rparr>]\<rparr>"
  "makePlan sample_catalog Sqlite (valid_status sample_catalog [sample_record 1 ''A;'', sample_record 2 ''B;'']) Down (Some 1) =
   Inr \<lparr>pl_direction = Down, pl_from = 2, pl_to = 1, pl_atomicity = WholeMigration,
        pl_migrations = [\<lparr>pm_version = 2, pm_name = ''users'', pm_sql = ''DROP TABLE users;''\<rparr>]\<rparr>"
  by (simp_all add: makePlan_def valid_status_def requireValid_def plan_target_def invalid_target_def find_version_def
      selected_def plan_step_def scriptsFor_def sample_catalog_def sample_migration_def current_version_def
      baseline_version_def sample_record_def)

theorem down_retraces_up_witness:
  "\<exists>p q. makePlan sample_catalog Sqlite (valid_status sample_catalog [sample_record 1 ''A;'']) Up (Some 2) = Inr p \<and>
     makePlan sample_catalog Sqlite
       (valid_status sample_catalog [sample_record 1 ''A;'', sample_record 2 ''B;'']) Down (Some 1) = Inr q \<and>
     map pm_version (pl_migrations q) = rev (map pm_version (pl_migrations p)) \<and>
     pl_from q = pl_to p \<and> pl_to q = pl_from p"
proof -
  have current: "current_version [sample_record 1 ''A;''] = 1"
    "current_version [sample_record 1 ''A;'', sample_record 2 ''B;''] = 2"
    by (simp_all add: current_version_def sample_record_def)
  from down_retraces_up [OF sample_constructed sample_history, unfolded current, OF sample_plans] sample_plans
  show ?thesis by blast
qed

end
