(* ===== verification/Orm_Effects.thy ===== *)
theory Orm_Effects
  imports Orm_Foundation
begin

text \<open>
  Actions on a state that may throw, for the code that talks to a database session: the result of
  an action and the state it leaves, also when it throws. \<open>catchA\<close> is a handler, \<open>finallyA\<close> the
  destructor of a scoped object, which runs however the scope is left; a destructor that throws
  ends the program, and nothing runs after that.
\<close>

type_synonym ('s, 'a) act = "'s \<Rightarrow> (exn, 'a) result \<times> 's"

definition retA :: "'a \<Rightarrow> ('s, 'a) act" where
  "retA x s = (Inr x, s)"

definition throwA :: "exn \<Rightarrow> ('s, 'a) act" where
  "throwA e s = (Inl e, s)"

definition bindA :: "('s, 'a) act \<Rightarrow> ('a \<Rightarrow> ('s, 'b) act) \<Rightarrow> ('s, 'b) act" where
  "bindA m f s = (case m s of (Inl e, s') \<Rightarrow> (Inl e, s') | (Inr x, s') \<Rightarrow> f x s')"

definition thenA :: "('s, 'a) act \<Rightarrow> ('s, 'b) act \<Rightarrow> ('s, 'b) act" where
  "thenA m n = bindA m (\<lambda>_. n)"

definition liftR :: "(exn, 'a) result \<Rightarrow> ('s, 'a) act" where
  "liftR r s = (r, s)"

definition getA :: "('s \<Rightarrow> 'a) \<Rightarrow> ('s, 'a) act" where
  "getA f s = (Inr (f s), s)"

definition modifyA :: "('s \<Rightarrow> 's) \<Rightarrow> ('s, unit) act" where
  "modifyA f s = (Inr (), f s)"

definition throwIfA :: "bool \<Rightarrow> exn \<Rightarrow> ('s, unit) act" where
  "throwIfA b e = (if b then throwA e else retA ())"

definition catchA :: "('s, 'a) act \<Rightarrow> (exn \<Rightarrow> ('s, 'a) act) \<Rightarrow> ('s, 'a) act" where
  "catchA m h s =
     (case m s of
        (Inr x, s') \<Rightarrow> (Inr x, s')
      | (Inl e, s') \<Rightarrow> if e = Terminate then (Inl e, s') else h e s')"

definition finallyA :: "('s, 'a) act \<Rightarrow> ('s, unit) act \<Rightarrow> ('s, 'a) act" where
  "finallyA m d s =
     (case m s of (r, s') \<Rightarrow>
        if r = Inl Terminate then (r, s')
        else (case d s' of (Inl _, s'') \<Rightarrow> (Inl Terminate, s'') | (Inr _, s'') \<Rightarrow> (r, s'')))"

fun forA :: "('x \<Rightarrow> ('s, unit) act) \<Rightarrow> 'x list \<Rightarrow> ('s, unit) act" where
  "forA f [] = retA ()"
| "forA f (x # xs) = thenA (f x) (forA f xs)"

fun foldA :: "('x \<Rightarrow> 'y \<Rightarrow> ('s, 'y) act) \<Rightarrow> 'x list \<Rightarrow> 'y \<Rightarrow> ('s, 'y) act" where
  "foldA f [] y = retA y"
| "foldA f (x # xs) y = bindA (f x y) (foldA f xs)"

section \<open>Running actions\<close>

named_theorems act_simps \<open>equations that run actions\<close>

lemma retA_run [simp, act_simps]: "retA x s = (Inr x, s)"
  by (simp add: retA_def)

lemma throwA_run [simp, act_simps]: "throwA e s = (Inl e, s)"
  by (simp add: throwA_def)

lemma liftR_run [simp, act_simps]: "liftR r s = (r, s)"
  by (simp add: liftR_def)

lemma getA_run [simp, act_simps]: "getA f s = (Inr (f s), s)"
  by (simp add: getA_def)

lemma modifyA_run [simp, act_simps]: "modifyA f s = (Inr (), f s)"
  by (simp add: modifyA_def)

lemma throwIfA_run [simp, act_simps]: "throwIfA b e s = (if b then Inl e else Inr (), s)"
  by (simp add: throwIfA_def)

lemma bindA_Inr:
  "bindA m f s = (Inr y, s'') \<longleftrightarrow> (\<exists>x s'. m s = (Inr x, s') \<and> f x s' = (Inr y, s''))"
  by (auto simp: bindA_def split: prod.splits sum.splits)

lemma bindA_Inl:
  "bindA m f s = (Inl e, s'') \<longleftrightarrow>
   m s = (Inl e, s'') \<or> (\<exists>x s'. m s = (Inr x, s') \<and> f x s' = (Inl e, s''))"
  by (auto simp: bindA_def split: prod.splits sum.splits)

lemma thenA_Inr: "thenA m n s = (Inr y, s'') \<longleftrightarrow> (\<exists>x s'. m s = (Inr x, s') \<and> n s' = (Inr y, s''))"
  by (simp add: thenA_def bindA_Inr)

lemma thenA_Inl:
  "thenA m n s = (Inl e, s'') \<longleftrightarrow> m s = (Inl e, s'') \<or> (\<exists>x s'. m s = (Inr x, s') \<and> n s' = (Inl e, s''))"
  by (simp add: thenA_def bindA_Inl)

lemma catchA_Inr:
  "catchA m h s = (Inr y, s'') \<longleftrightarrow>
   m s = (Inr y, s'') \<or> (\<exists>e s'. e \<noteq> Terminate \<and> m s = (Inl e, s') \<and> h e s' = (Inr y, s''))"
  by (auto simp: catchA_def split: prod.splits sum.splits if_splits)

lemma catchA_Inl:
  "catchA m h s = (Inl e, s'') \<longleftrightarrow>
   (e = Terminate \<and> m s = (Inl e, s'')) \<or> (\<exists>e' s'. e' \<noteq> Terminate \<and> m s = (Inl e', s') \<and> h e' s' = (Inl e, s''))"
  by (auto simp: catchA_def split: prod.splits sum.splits if_splits)

lemma finallyA_Inr:
  "finallyA m d s = (Inr y, s'') \<longleftrightarrow> (\<exists>s'. m s = (Inr y, s') \<and> d s' = (Inr (), s''))"
  by (auto simp: finallyA_def split: prod.splits sum.splits if_splits)

lemma finallyA_Inl:
  "finallyA m d s = (Inl e, s'') \<longleftrightarrow>
   (e = Terminate \<and> m s = (Inl e, s'')) \<or>
   (e = Terminate \<and> (\<exists>r s' e'. r \<noteq> Inl Terminate \<and> m s = (r, s') \<and> d s' = (Inl e', s''))) \<or>
   (e \<noteq> Terminate \<and> (\<exists>s'. m s = (Inl e, s') \<and> d s' = (Inr (), s'')))"
  by (auto simp: finallyA_def split: prod.splits sum.splits if_splits)

lemmas act_results = bindA_Inr bindA_Inl thenA_Inr thenA_Inl catchA_Inr catchA_Inl finallyA_Inr finallyA_Inl

section \<open>What an action keeps\<close>

text \<open>
  \<open>keeps P m\<close>: the action leads from states with \<open>P\<close> to states with \<open>P\<close>, whether it throws or not;
  only the end of the program is exempt.
\<close>

definition keeps :: "('s \<Rightarrow> bool) \<Rightarrow> ('s, 'a) act \<Rightarrow> bool" where
  "keeps P m \<longleftrightarrow> (\<forall>s. P s \<longrightarrow> fst (m s) \<noteq> Inl Terminate \<longrightarrow> P (snd (m s)))"

named_theorems keeps_intros \<open>introduction rules for the predicate keeps\<close>

lemma keepsD: "keeps P m \<Longrightarrow> P s \<Longrightarrow> m s = (r, s') \<Longrightarrow> r \<noteq> Inl Terminate \<Longrightarrow> P s'"
  by (force simp: keeps_def)

lemma keepsI: "(\<And>s r s'. P s \<Longrightarrow> m s = (r, s') \<Longrightarrow> r \<noteq> Inl Terminate \<Longrightarrow> P s') \<Longrightarrow> keeps P m"
  by (metis keeps_def prod.collapse)

lemma keeps_retA [keeps_intros]: "keeps P (retA x)"
  by (simp add: keeps_def)

lemma keeps_throwA [keeps_intros]: "keeps P (throwA e)"
  by (simp add: keeps_def)

lemma keeps_liftR [keeps_intros]: "keeps P (liftR r)"
  by (simp add: keeps_def)

lemma keeps_getA [keeps_intros]: "keeps P (getA f)"
  by (simp add: keeps_def)

lemma keeps_throwIfA [keeps_intros]: "keeps P (throwIfA b e)"
  by (simp add: keeps_def)

lemma keeps_modifyA [keeps_intros]: "(\<And>s. P s \<Longrightarrow> P (f s)) \<Longrightarrow> keeps P (modifyA f)"
  by (simp add: keeps_def)

lemma keeps_bindA [keeps_intros]: "keeps P m \<Longrightarrow> (\<And>x. keeps P (f x)) \<Longrightarrow> keeps P (bindA m f)"
  by (rule keepsI) (auto simp: bindA_def dest: keepsD split: prod.splits sum.splits)

lemma keeps_thenA [keeps_intros]: "keeps P m \<Longrightarrow> keeps P n \<Longrightarrow> keeps P (thenA m n)"
  by (simp add: thenA_def keeps_bindA)

lemma keeps_catchA [keeps_intros]: "keeps P m \<Longrightarrow> (\<And>e. keeps P (h e)) \<Longrightarrow> keeps P (catchA m h)"
  by (rule keepsI) (auto simp: catchA_def dest: keepsD split: prod.splits sum.splits if_splits)

lemma keeps_if [keeps_intros]: "(b \<Longrightarrow> keeps P m) \<Longrightarrow> (\<not> b \<Longrightarrow> keeps P n) \<Longrightarrow> keeps P (if b then m else n)"
  by simp

lemma keeps_forA [keeps_intros]: "(\<And>x. keeps P (f x)) \<Longrightarrow> keeps P (forA f xs)"
  by (induction xs) (auto intro: keeps_intros)

lemma keeps_foldA [keeps_intros]: "(\<And>x y. keeps P (f x y)) \<Longrightarrow> keeps P (foldA f xs y)"
  by (induction xs arbitrary: y) (auto intro: keeps_intros)

lemma keeps_finallyA [keeps_intros]: "keeps P m \<Longrightarrow> keeps P d \<Longrightarrow> keeps P (finallyA m d)"
  by (rule keepsI) (force simp: finallyA_def dest: keepsD split: prod.splits sum.splits if_splits)

section \<open>Triples\<close>

text \<open>
  \<open>hoare P m Q E\<close>: from a state with \<open>P\<close>, the action returns a value in a state with \<open>Q\<close>, or throws in
  a state with \<open>E\<close>, or the program ends.
\<close>

definition hoare ::
  "('s \<Rightarrow> bool) \<Rightarrow> ('s, 'a) act \<Rightarrow> ('a \<Rightarrow> 's \<Rightarrow> bool) \<Rightarrow> (exn \<Rightarrow> 's \<Rightarrow> bool) \<Rightarrow> bool" where
  "hoare P m Q E \<longleftrightarrow>
     (\<forall>s. P s \<longrightarrow> (case m s of (Inr x, s') \<Rightarrow> Q x s' | (Inl e, s') \<Rightarrow> e = Terminate \<or> E e s'))"

lemma hoare_Inr: "hoare P m Q E \<Longrightarrow> P s \<Longrightarrow> m s = (Inr x, s') \<Longrightarrow> Q x s'"
  by (fastforce simp: hoare_def)

lemma hoare_Inl: "hoare P m Q E \<Longrightarrow> P s \<Longrightarrow> m s = (Inl e, s') \<Longrightarrow> e \<noteq> Terminate \<Longrightarrow> E e s'"
  by (fastforce simp: hoare_def)

lemma hoareI:
  assumes "\<And>s x s'. P s \<Longrightarrow> m s = (Inr x, s') \<Longrightarrow> Q x s'"
    and "\<And>s e s'. P s \<Longrightarrow> m s = (Inl e, s') \<Longrightarrow> e \<noteq> Terminate \<Longrightarrow> E e s'"
  shows "hoare P m Q E"
  using assms by (force simp: hoare_def split: prod.splits sum.splits)

lemma hoare_bindA: "hoare P m R E \<Longrightarrow> (\<And>x. hoare (R x) (f x) Q E) \<Longrightarrow> hoare P (bindA m f) Q E"
  by (rule hoareI) (auto simp: bindA_Inr bindA_Inl dest: hoare_Inr hoare_Inl)

lemma hoare_thenA: "hoare P m (\<lambda>_. R) E \<Longrightarrow> hoare R n Q E \<Longrightarrow> hoare P (thenA m n) Q E"
  by (simp add: thenA_def hoare_bindA)

lemma hoare_finallyA:
  "hoare P m R D \<Longrightarrow> (\<And>x. hoare (R x) d (\<lambda>_. Q x) (\<lambda>_ _. True)) \<Longrightarrow> (\<And>e. hoare (D e) d (\<lambda>_. E e) (\<lambda>_ _. True)) \<Longrightarrow>
   hoare P (finallyA m d) Q E"
  by (rule hoareI)
    (auto simp: finallyA_Inr finallyA_Inl, metis hoare_Inr, metis hoare_Inl hoare_Inr)

lemma hoare_catchA:
  "hoare P m Q D \<Longrightarrow> (\<And>e. hoare (D e) (h e) Q E) \<Longrightarrow> hoare P (catchA m h) Q E"
  by (rule hoareI) (auto simp: catchA_Inr catchA_Inl dest: hoare_Inr hoare_Inl)

lemma hoare_weaken:
  "hoare P m Q E \<Longrightarrow> (\<And>s. P' s \<Longrightarrow> P s) \<Longrightarrow> (\<And>x s. Q x s \<Longrightarrow> Q' x s) \<Longrightarrow> (\<And>e s. E e s \<Longrightarrow> E' e s) \<Longrightarrow> hoare P' m Q' E'"
  by (fastforce simp: hoare_def split: prod.splits sum.splits)

lemma keeps_hoare: "keeps P m \<longleftrightarrow> hoare P m (\<lambda>_. P) (\<lambda>_. P)"
proof
  assume "keeps P m"
  then show "hoare P m (\<lambda>_. P) (\<lambda>_. P)" by (auto intro!: hoareI dest: keepsD)
next
  assume h: "hoare P m (\<lambda>_. P) (\<lambda>_. P)"
  show "keeps P m"
  proof (rule keepsI)
    show "P s'" if "P s" "m s = (r, s')" "r \<noteq> Inl Terminate" for s r s'
      using h that by (cases r) (auto dest: hoare_Inr hoare_Inl)
  qed
qed

lemma keeps_conj: "keeps P m \<Longrightarrow> keeps Q m \<Longrightarrow> keeps (\<lambda>s. P s \<and> Q s) m"
  by (auto simp: keeps_def)

lemma keeps_then_hoare: "keeps P m \<Longrightarrow> hoare P n Q (\<lambda>_. P) \<Longrightarrow> hoare P (thenA m n) Q (\<lambda>_. P)"
  unfolding keeps_hoare by (rule hoare_thenA)

lemma keeps_bind_hoare: "keeps P m \<Longrightarrow> (\<And>x. hoare P (f x) Q (\<lambda>_. P)) \<Longrightarrow> hoare P (bindA m f) Q (\<lambda>_. P)"
  unfolding keeps_hoare by (rule hoare_bindA)

lemma hoare_assume: "(A \<Longrightarrow> hoare P m Q E) \<Longrightarrow> hoare (\<lambda>s. P s \<and> A) m Q E"
  by (auto simp: hoare_def)

lemma hoare_getA: "(\<And>s. P s \<Longrightarrow> Q (f s) s) \<Longrightarrow> hoare P (getA f) Q E"
  by (rule hoareI) auto

lemma hoare_throwA: "(\<And>s. P s \<Longrightarrow> E e s) \<Longrightarrow> hoare P (throwA e) Q E"
  by (rule hoareI) auto

lemma keeps_disj: "keeps P m \<Longrightarrow> keeps Q m \<Longrightarrow> keeps (\<lambda>d. P d \<or> Q d) m"
  by (auto simp: keeps_def)

lemma bindA_liftR: "bindA (liftR (Inr x)) f = f x"
  by (simp add: bindA_def fun_eq_iff)

section \<open>Progress\<close>

text \<open>\<open>returns P m Q\<close>: from a state with \<open>P\<close> the action returns a value, in a state with \<open>Q\<close>.\<close>

definition returns :: "('s \<Rightarrow> bool) \<Rightarrow> ('s, 'a) act \<Rightarrow> ('a \<Rightarrow> 's \<Rightarrow> bool) \<Rightarrow> bool" where
  "returns P m Q \<longleftrightarrow> (\<forall>s. P s \<longrightarrow> (\<exists>x s'. m s = (Inr x, s') \<and> Q x s'))"

lemma returnsE: "returns P m Q \<Longrightarrow> P s \<Longrightarrow> (\<And>x s'. m s = (Inr x, s') \<Longrightarrow> Q x s' \<Longrightarrow> R) \<Longrightarrow> R"
  by (auto simp: returns_def)

lemma returns_retA: "(\<And>s. P s \<Longrightarrow> Q x s) \<Longrightarrow> returns P (retA x) Q"
  by (simp add: returns_def)

lemma returns_liftR: "r = Inr x \<Longrightarrow> (\<And>s. P s \<Longrightarrow> Q x s) \<Longrightarrow> returns P (liftR r) Q"
  by (simp add: returns_def)

lemma returns_getA: "(\<And>s. P s \<Longrightarrow> Q (f s) s) \<Longrightarrow> returns P (getA f) Q"
  by (simp add: returns_def)

lemma returns_modifyA: "(\<And>s. P s \<Longrightarrow> Q () (f s)) \<Longrightarrow> returns P (modifyA f) Q"
  by (simp add: returns_def)

lemma returns_throwIfA: "(\<And>s. P s \<Longrightarrow> \<not> b \<and> Q () s) \<Longrightarrow> returns P (throwIfA b e) Q"
  by (auto simp: returns_def)

lemma returns_bindA: "returns P m R \<Longrightarrow> (\<And>x. returns (R x) (f x) Q) \<Longrightarrow> returns P (bindA m f) Q"
  by (force simp: returns_def bindA_Inr)

lemma returns_thenA: "returns P m (\<lambda>_. R) \<Longrightarrow> returns R n Q \<Longrightarrow> returns P (thenA m n) Q"
  by (simp add: thenA_def returns_bindA)

lemma returns_catchA: "returns P m Q \<Longrightarrow> returns P (catchA m h) Q"
  by (force simp: returns_def catchA_Inr)

lemma returns_finallyA: "returns P m R \<Longrightarrow> (\<And>x. returns (R x) d (\<lambda>_. Q x)) \<Longrightarrow> returns P (finallyA m d) Q"
  by (force simp: returns_def finallyA_Inr)

lemma returns_weaken: "returns P m Q \<Longrightarrow> (\<And>s. P' s \<Longrightarrow> P s) \<Longrightarrow> (\<And>x s. Q x s \<Longrightarrow> Q' x s) \<Longrightarrow> returns P' m Q'"
  by (force simp: returns_def)

end
