(* ===== verification/Orm_Calendar.thy ===== *)
theory Orm_Calendar
  imports Orm_Foundation
begin

text \<open>
  The proleptic Gregorian calendar of \<^verbatim>\<open>std::chrono\<close> as the value types of
  \<^verbatim>\<open>modules/orm/foundation/values.cppm\<close> use it: \<^verbatim>\<open>year_month_day\<close>, its \<^verbatim>\<open>ok()\<close>,
  and the conversions to and from days since 1970-01-01.
\<close>

section \<open>Dates\<close>

record date =
  dt_year :: int
  dt_month :: nat
  dt_day :: nat

definition leap_year :: "int \<Rightarrow> bool" where
  "leap_year y \<longleftrightarrow> y mod 4 = 0 \<and> (y mod 100 \<noteq> 0 \<or> y mod 400 = 0)"

definition month_starts :: "nat list" where
  "month_starts = [0, 31, 59, 90, 120, 151, 181, 212, 243, 273, 304, 334, 365]"

text \<open>Days of the year before month \<open>m\<close>; month 13 stands for the end of the year.\<close>

definition days_before_month :: "int \<Rightarrow> nat \<Rightarrow> nat" where
  "days_before_month y m = month_starts ! (m - 1) + (if 2 < m \<and> leap_year y then 1 else 0)"

definition days_in_month :: "int \<Rightarrow> nat \<Rightarrow> nat" where
  "days_in_month y m = days_before_month y (m + 1) - days_before_month y m"

definition date_ok :: "date \<Rightarrow> bool" where
  "date_ok d \<longleftrightarrow> -32767 \<le> dt_year d \<and> dt_year d \<le> 32767 \<and> 1 \<le> dt_month d \<and> dt_month d \<le> 12
     \<and> 1 \<le> dt_day d \<and> dt_day d \<le> days_in_month (dt_year d) (dt_month d)"

section \<open>Days since the epoch\<close>

text \<open>Days before the year that follows \<open>q\<close> whole years, counted from 0001-01-01.\<close>

definition days_before_years :: "int \<Rightarrow> int" where
  "days_before_years q = 365 * q + q div 4 - q div 100 + q div 400"

text \<open>719162 is the number of days from 0001-01-01 to 1970-01-01.\<close>

definition days_from_civil :: "date \<Rightarrow> int" where
  "days_from_civil d =
     days_before_years (dt_year d - 1) + int (days_before_month (dt_year d) (dt_month d))
     + int (dt_day d) - 1 - 719162"

definition years_before_day :: "int \<Rightarrow> int" where
  "years_before_day k =
     (let q = (400 * k) div 146097
      in if k < days_before_years q then q - 1
         else if k < days_before_years (q + 1) then q else q + 1)"

definition month_of_day :: "int \<Rightarrow> nat \<Rightarrow> nat" where
  "month_of_day y doy = length (filter (\<lambda>m. days_before_month y m \<le> doy) [1..<13])"

definition civil_from_days :: "int \<Rightarrow> date" where
  "civil_from_days n =
     (let k = n + 719162; q = years_before_day k; y = q + 1;
          doy = nat (k - days_before_years q); m = month_of_day y doy
      in \<lparr>dt_year = y, dt_month = m, dt_day = doy - days_before_month y m + 1\<rparr>)"

section \<open>The conversions are inverse\<close>

lemma div_bounds: "0 < n \<Longrightarrow> n * (q div n) \<le> q" "0 < n \<Longrightarrow> q \<le> n * (q div n) + n - 1"
  for q n :: int
proof -
  assume "0 < n"
  then have "0 \<le> q mod n" "q mod n < n" by auto
  then show "n * (q div n) \<le> q" "q \<le> n * (q div n) + n - 1"
    using mult_div_mod_eq [of n q] by linarith+
qed

lemma year_days_bounds:
  fixes q a b c :: int
  assumes "4 * a \<le> q" "q \<le> 4 * a + 4 - 1" "100 * b \<le> q" "q \<le> 100 * b + 100 - 1"
    "400 * c \<le> q" "q \<le> 400 * c + 400 - 1"
  shows "400 * (365 * q + a - b + c) \<le> 146097 * q + 396"
    "146097 * q - 699 \<le> 400 * (365 * q + a - b + c)"
proof -
  have "400 * (365 * q + a - b + c) = 146000 * q + 400 * a - 400 * b + 400 * c" by simp
  then show "400 * (365 * q + a - b + c) \<le> 146097 * q + 396"
    "146097 * q - 699 \<le> 400 * (365 * q + a - b + c)" using assms by linarith+
qed

lemma days_before_years_upper: "400 * days_before_years q \<le> 146097 * q + 396"
  unfolding days_before_years_def by (rule year_days_bounds; rule div_bounds; simp)

lemma days_before_years_lower: "146097 * q - 699 \<le> 400 * days_before_years q"
  unfolding days_before_years_def by (rule year_days_bounds; rule div_bounds; simp)

lemma div_succ: "(q + 1) div n = q div n + (if (q + 1) mod n = 0 then 1 else 0)"
  if "0 < n" for q n :: int
proof (cases "q mod n + 1 = n")
  case True
  have "q + 1 = n * (q div n + 1) + 0"
    using True mult_div_mod_eq [of n q] unfolding distrib_left by linarith
  with that show ?thesis by simp
next
  case False
  have r: "0 \<le> q mod n" "q mod n < n" using that by auto
  have eq: "q + 1 = n * (q div n) + (q mod n + 1)" using mult_div_mod_eq [of n q] by simp
  have "(q + 1) div n = q div n" "(q + 1) mod n = q mod n + 1"
    using int_div_pos_eq [OF eq] int_mod_pos_eq [OF eq] r False by linarith+
  with r show ?thesis by simp
qed

lemma year_days_step:
  fixes q a b c :: int
  assumes "a' = a + (if P then 1 else 0)" "b' = b + (if Q then 1 else 0)"
    "c' = c + (if R then 1 else 0)" "R \<Longrightarrow> Q" "Q \<Longrightarrow> P"
  shows "365 * (q + 1) + a' - b' + c' =
    365 * q + a - b + c + (if P \<and> (\<not> Q \<or> R) then 366 else 365)"
  using assms by auto

lemma days_before_years_step:
  "days_before_years (q + 1) = days_before_years q + (if leap_year (q + 1) then 366 else 365)"
  unfolding days_before_years_def leap_year_def
proof (rule year_days_step)
  show "(q + 1) mod 400 = 0 \<Longrightarrow> (q + 1) mod 100 = 0"
    using mod_mod_cancel [of 100 400 "q + 1"] by simp
  show "(q + 1) mod 100 = 0 \<Longrightarrow> (q + 1) mod 4 = 0"
    using mod_mod_cancel [of 4 100 "q + 1"] by simp
qed (rule div_succ, simp)+

lemma days_before_years_mono: "q \<le> r \<Longrightarrow> days_before_years q \<le> days_before_years r"
proof (induction r rule: int_ge_induct)
  case (step i)
  then show ?case using days_before_years_step [of i] by (simp split: if_splits)
qed simp

lemma years_before_day_spec:
  "days_before_years (years_before_day k) \<le> k \<and> k < days_before_years (years_before_day k + 1)"
proof -
  define q where "q = (400 * k) div 146097"
  have low: "146097 * q \<le> 400 * k" unfolding q_def by (rule div_bounds) simp
  have "400 * k \<le> 146097 * q + 146097 - 1" unfolding q_def by (rule div_bounds) simp
  then have high: "400 * k < 146097 * (q + 1)" by simp
  have "days_before_years (q - 1) \<le> k"
    using days_before_years_upper [of "q - 1"] low unfolding right_diff_distrib by linarith
  moreover have "k < days_before_years (q + 2)"
    using days_before_years_lower [of "q + 2"] high unfolding distrib_left by linarith
  ultimately show ?thesis
    by (auto simp: years_before_day_def q_def [symmetric] Let_def add.commute)
qed

lemma years_before_day_unique:
  assumes "days_before_years q \<le> k" "k < days_before_years (q + 1)"
  shows "years_before_day k = q"
proof -
  let ?r = "years_before_day k"
  have r: "days_before_years ?r \<le> k" "k < days_before_years (?r + 1)"
    using years_before_day_spec [of k] by auto
  have "\<not> ?r + 1 \<le> q" using r(2) assms(1) days_before_years_mono [of "?r + 1" q] by linarith
  moreover have "\<not> q + 1 \<le> ?r" using r(1) assms(2) days_before_years_mono [of "q + 1" ?r] by linarith
  ultimately show ?thesis by linarith
qed

lemma days_before_month_mono:
  assumes "1 \<le> i" "i \<le> j" "j \<le> 13"
  shows "days_before_month y i \<le> days_before_month y j"
proof -
  have "sorted month_starts" by (simp add: month_starts_def)
  moreover have "length month_starts = 13" by (simp add: month_starts_def)
  ultimately have "month_starts ! (i - 1) \<le> month_starts ! (j - 1)"
    using assms by (intro sorted_nth_mono) auto
  with assms show ?thesis by (auto simp: days_before_month_def)
qed

lemma month_of_day_eq:
  assumes m: "1 \<le> m" "m \<le> 12" and doy: "days_before_month y m \<le> doy"
    "doy < days_before_month y (m + 1)"
  shows "month_of_day y doy = m"
proof -
  have "days_before_month y i \<le> doy \<longleftrightarrow> i \<le> m" if "1 \<le> i" "i < 13" for i
  proof (cases "i \<le> m")
    case True
    then show ?thesis using that m doy days_before_month_mono [of i m y] by simp
  next
    case False
    then show ?thesis using that m doy days_before_month_mono [of "m + 1" i y] by simp
  qed
  then have "filter (\<lambda>i. days_before_month y i \<le> doy) [1..<13] = filter (\<lambda>i. i < Suc m) [1..<13]"
    by (intro filter_cong) auto
  moreover have "filter (\<lambda>i. i < Suc m) [1..<13] = [1..<Suc m]"
  proof -
    have split: "[1..<13] = [1..<Suc m] @ [Suc m..<13]"
      using m upt_add_eq_append [of 1 "Suc m" "12 - m"] by simp
    show ?thesis unfolding split filter_append by (simp add: filter_id_conv del: upt_Suc)
  qed
  ultimately show ?thesis using m by (simp only: month_of_day_def length_upt diff_Suc_1)
qed

lemma month_of_day_spec:
  assumes "doy < days_before_month y 13"
  shows "1 \<le> month_of_day y doy \<and> month_of_day y doy \<le> 12 \<and>
    days_before_month y (month_of_day y doy) \<le> doy \<and>
    doy < days_before_month y (month_of_day y doy + 1)"
proof -
  have "\<exists>m \<ge> 1. m \<le> 12 \<and> days_before_month y m \<le> doy \<and> doy < days_before_month y (m + 1)"
  proof (rule ccontr)
    assume none: "\<not> ?thesis"
    have "m \<le> 12 \<longrightarrow> days_before_month y (m + 1) \<le> doy" for m
    proof (induction m)
      case 0
      show ?case by (simp add: days_before_month_def month_starts_def)
    next
      case (Suc m)
      with none show ?case by (metis Suc_eq_plus1 Suc_leD le_add2 linorder_not_le)
    qed
    from this [of 12] assms show False by simp
  qed
  then obtain m where "1 \<le> m" "m \<le> 12" "days_before_month y m \<le> doy"
    "doy < days_before_month y (m + 1)" by blast
  with month_of_day_eq [OF this] show ?thesis by simp
qed

lemma days_before_month_le:
  "1 \<le> m \<Longrightarrow> m \<le> 12 \<Longrightarrow> days_before_month y m \<le> days_before_month y (m + 1)"
  by (rule days_before_month_mono) auto

lemma days_before_month_13: "days_before_month y 13 = (if leap_year y then 366 else 365)"
  by (simp add: days_before_month_def month_starts_def)

lemma days_before_month_mono13:
  "1 \<le> m \<Longrightarrow> m \<le> 12 \<Longrightarrow> days_before_month y (m + 1) \<le> days_before_month y 13"
  by (rule days_before_month_mono) auto

text \<open>Every date the calendar accepts is recovered from its day number.\<close>

lemma civil_from_days_from_civil:
  assumes "date_ok d"
  shows "civil_from_days (days_from_civil d) = d"
proof -
  obtain y m dd where d: "d = \<lparr>dt_year = y, dt_month = m, dt_day = dd\<rparr>" by (cases d) auto
  from assms have m: "1 \<le> m" "m \<le> 12" and dd: "1 \<le> dd" "dd \<le> days_in_month y m"
    by (auto simp: date_ok_def d)
  define doy where "doy = days_before_month y m + dd - 1"
  have doy: "days_before_month y m \<le> doy" "doy < days_before_month y (m + 1)"
    using dd days_before_month_le [OF m, of y] by (auto simp: doy_def days_in_month_def)
  have k: "days_from_civil d + 719162 = days_before_years (y - 1) + int doy"
    using dd by (simp add: days_from_civil_def d doy_def of_nat_diff)
  have "int doy < days_before_years (y - 1 + 1) - days_before_years (y - 1)"
    using doy(2) days_before_month_mono13 [OF m, of y]
    unfolding days_before_years_step days_before_month_13 by (auto split: if_splits)
  then have "years_before_day (days_from_civil d + 719162) = y - 1"
    unfolding k by (intro years_before_day_unique) auto
  moreover have "month_of_day y doy = m" using m doy by (rule month_of_day_eq)
  moreover have "nat (days_from_civil d + 719162 - days_before_years (y - 1)) = doy"
    unfolding k by simp
  ultimately show ?thesis
    using dd by (simp add: civil_from_days_def Let_def) (simp add: doy_def d)
qed

text \<open>Conversely a day number gives a date with that number, with a real month and day.\<close>

lemma civil_from_days_parts:
  fixes n :: int
  defines "d \<equiv> civil_from_days n"
  shows "1 \<le> dt_month d" "dt_month d \<le> 12" "1 \<le> dt_day d"
    "dt_day d \<le> days_in_month (dt_year d) (dt_month d)" "days_from_civil d = n"
proof -
  define k where "k = n + 719162"
  define q where "q = years_before_day k"
  define doy where "doy = nat (k - days_before_years q)"
  have k: "days_before_years q \<le> k" "k < days_before_years (q + 1)"
    using years_before_day_spec [of k] by (auto simp: q_def)
  then have "doy < days_before_month (q + 1) 13"
    unfolding days_before_years_step days_before_month_13 doy_def by (auto split: if_splits)
  note m = month_of_day_spec [OF this]
  have d: "d = \<lparr>dt_year = q + 1, dt_month = month_of_day (q + 1) doy,
      dt_day = doy - days_before_month (q + 1) (month_of_day (q + 1) doy) + 1\<rparr>"
    by (simp add: d_def civil_from_days_def Let_def k_def q_def doy_def)
  show "1 \<le> dt_month d" "dt_month d \<le> 12" "1 \<le> dt_day d" using m by (simp_all add: d)
  show "dt_day d \<le> days_in_month (dt_year d) (dt_month d)"
    using m by (simp add: d days_in_month_def Suc_le_eq diff_less_mono)
  have "int doy = k - days_before_years q" using k by (simp add: doy_def)
  then show "days_from_civil d = n"
    using m by (simp add: days_from_civil_def d of_nat_diff k_def)
qed

lemma days_from_civil_year_bounds:
  assumes "1 \<le> dt_month d" "dt_month d \<le> 12" "1 \<le> dt_day d"
    "dt_day d \<le> days_in_month (dt_year d) (dt_month d)"
  shows "days_before_years (dt_year d - 1) \<le> days_from_civil d + 719162"
    "days_from_civil d + 719162 < days_before_years (dt_year d)"
proof -
  have "int (days_before_month (dt_year d) (dt_month d)) + int (dt_day d) - 1 <
      int (days_before_month (dt_year d) 13)"
    using assms days_before_month_le [OF assms(1,2), of "dt_year d"]
      days_before_month_mono13 [OF assms(1,2), of "dt_year d"]
    by (auto simp: days_in_month_def)
  then show "days_from_civil d + 719162 < days_before_years (dt_year d)"
    using days_before_years_step [of "dt_year d - 1"]
    by (auto simp: days_from_civil_def days_before_month_13 split: if_splits)
  show "days_before_years (dt_year d - 1) \<le> days_from_civil d + 719162"
    using assms by (simp add: days_from_civil_def)
qed

end
