(* ===== verification/Orm_Value_Codec.thy ===== *)
theory Orm_Value_Codec
  imports Orm_Uuid Orm_Calendar
begin

text \<open>
  \<^verbatim>\<open>src/foundation/ValueCodec.cpp\<close>: validation, text format and parsing of dates, times of
  day, local date-times and UTC timestamps, and the ranges each native backend accepts.
  Durations and time points are counts of microseconds as \<open>int\<close>; every value the code computes
  after validation lies within years 1 to 9999, far inside the 64-bit representation of
  \<^verbatim>\<open>std::chrono::microseconds\<close>.
\<close>

type_synonym time_of_day = int
type_synonym local_date_time = int
type_synonym utc_timestamp = int

abbreviation us_second :: int where "us_second \<equiv> 1000000"
abbreviation us_minute :: int where "us_minute \<equiv> 60000000"
abbreviation us_hour :: int where "us_hour \<equiv> 3600000000"
abbreviation us_day :: int where "us_day \<equiv> 86400000000"

definition invalidValue :: exn where
  "invalidValue = InvalidArgument ''Invalid date, time or UUID value''"

section \<open>Digits\<close>

text \<open>\<^verbatim>\<open>number\<close> accumulates in \<^verbatim>\<open>unsigned int\<close>, so the wrap-around at 32 bits is written out.\<close>

fun number_from :: "nat \<Rightarrow> string \<Rightarrow> (exn, nat) result" where
  "number_from r [] = Inr r"
| "number_from r (c # cs) =
     (if \<not> is_digit c then Inl invalidValue
      else number_from ((r * 10 + (code c - code (CHR ''0''))) mod 2 ^ 32) cs)"

definition number :: "string \<Rightarrow> (exn, nat) result" where
  "number digits = number_from 0 digits"

definition requireNative :: "backend_type \<Rightarrow> (exn, unit) result" where
  "requireNative backend =
     throwIf (backend \<noteq> Postgres \<and> backend \<noteq> Mysql \<and> backend \<noteq> Mariadb) invalidValue"

definition firstDay :: date where
  "firstDay = \<lparr>dt_year = 1, dt_month = 1, dt_day = 1\<rparr>"

definition afterLastDay :: date where
  "afterLastDay = \<lparr>dt_year = 10000, dt_month = 1, dt_day = 1\<rparr>"

text \<open>The microseconds at the start of a day.\<close>

definition start_of :: "date \<Rightarrow> int" where
  "start_of d = days_from_civil d * us_day"

section \<open>Validity\<close>

definition valid_Date :: "date \<Rightarrow> bool" where
  "valid_Date d \<longleftrightarrow> date_ok d \<and> 1 \<le> dt_year d \<and> dt_year d \<le> 9999"

definition valid_TimeOfDay :: "time_of_day \<Rightarrow> bool" where
  "valid_TimeOfDay t \<longleftrightarrow> 0 \<le> t \<and> t < 24 * us_hour"

definition valid_LocalDateTime :: "local_date_time \<Rightarrow> bool" where
  "valid_LocalDateTime v \<longleftrightarrow> start_of firstDay \<le> v \<and> v < start_of afterLastDay"

definition valid_UtcTimestamp :: "utc_timestamp \<Rightarrow> bool" where
  "valid_UtcTimestamp v \<longleftrightarrow> start_of firstDay \<le> v \<and> v < start_of afterLastDay"

definition validate_Date :: "date \<Rightarrow> (exn, unit) result" where
  "validate_Date d = throwIf (\<not> valid_Date d) invalidValue"

definition validate_LocalDateTime :: "local_date_time \<Rightarrow> (exn, unit) result" where
  "validate_LocalDateTime v = throwIf (\<not> valid_LocalDateTime v) invalidValue"

definition validate_UtcTimestamp :: "utc_timestamp \<Rightarrow> (exn, unit) result" where
  "validate_UtcTimestamp v = throwIf (\<not> valid_UtcTimestamp v) invalidValue"

text \<open>The constructor of \<^verbatim>\<open>TimeOfDay\<close> keeps the invariant \<open>valid_TimeOfDay\<close>.\<close>

definition mk_TimeOfDay :: "int \<Rightarrow> (exn, time_of_day) result" where
  "mk_TimeOfDay us =
     bindR (throwIf (us < 0 \<or> us \<ge> 24 * us_hour)
              (InvalidArgument ''Time of day must be between midnight and the end of the day''))
       (\<lambda>_. Inr us)"

section \<open>Formatting\<close>

definition format_Date :: "date \<Rightarrow> (exn, string) result" where
  "format_Date d =
     bindR (validate_Date d)
       (\<lambda>_. Inr (zpad 4 (nat (dt_year d)) @ ''-'' @ zpad 2 (dt_month d) @ ''-'' @ zpad 2 (dt_day d)))"

definition format_TimeOfDay :: "time_of_day \<Rightarrow> string" where
  "format_TimeOfDay t =
     zpad 2 (nat (t div us_hour)) @ '':'' @ zpad 2 (nat (t div us_minute mod 60)) @ '':''
     @ zpad 2 (nat (t div us_second mod 60)) @ ''.'' @ zpad 6 (nat (t mod us_second))"

definition format_LocalDateTime :: "local_date_time \<Rightarrow> (exn, string) result" where
  "format_LocalDateTime v =
     bindR (validate_LocalDateTime v)
       (\<lambda>_. let day = v div us_day
            in bindR (format_Date (civil_from_days day))
                 (\<lambda>date. bindR (mk_TimeOfDay (v - day * us_day))
                 (\<lambda>time. Inr (date @ '' '' @ format_TimeOfDay time))))"

definition format_UtcTimestamp :: "utc_timestamp \<Rightarrow> bool \<Rightarrow> (exn, string) result" where
  "format_UtcTimestamp v includeOffset =
     bindR (validate_UtcTimestamp v)
       (\<lambda>_. bindR (format_LocalDateTime v)
              (\<lambda>text. Inr (text @ (if includeOffset then ''+00:00'' else ''''))))"

section \<open>Parsing\<close>

definition parseDate :: "string \<Rightarrow> (exn, date) result" where
  "parseDate text =
     bindR (throwIf (length text \<noteq> 10 \<or> text ! 4 \<noteq> CHR ''-'' \<or> text ! 7 \<noteq> CHR ''-'') invalidValue)
       (\<lambda>_. bindR (number (substr text 0 4))
       (\<lambda>y. bindR (number (substr text 5 2))
       (\<lambda>m. bindR (number (substr text 8 2))
       (\<lambda>d. let result = \<lparr>dt_year = int y, dt_month = m, dt_day = d\<rparr>
            in bindR (validate_Date result) (\<lambda>_. Inr result)))))"

text \<open>The loop that scales a short fraction to microseconds, from \<open>index\<close> up to 6.\<close>

definition scale_fraction :: "nat \<Rightarrow> nat \<Rightarrow> nat" where
  "scale_fraction index fraction = ((\<lambda>f. (f * 10) mod 2 ^ 32) ^^ (6 - index)) fraction"

definition parse_fraction :: "string \<Rightarrow> (exn, nat) result" where
  "parse_fraction text =
     (if length text \<noteq> 8 then
        bindR (throwIf (length text = 9 \<or> text ! 8 \<noteq> CHR ''.'') invalidValue)
          (\<lambda>_. let digits = length text - 9
               in bindR (number (substr text 9 digits))
                    (\<lambda>fraction. Inr (scale_fraction digits fraction)))
      else Inr 0)"

definition parseTimeOfDay :: "string \<Rightarrow> (exn, time_of_day) result" where
  "parseTimeOfDay text =
     bindR (throwIf (length text < 8 \<or> length text > 15 \<or> text ! 2 \<noteq> CHR '':'' \<or> text ! 5 \<noteq> CHR '':'')
              invalidValue)
       (\<lambda>_. bindR (number (substr text 0 2))
       (\<lambda>hour. bindR (number (substr text 3 2))
       (\<lambda>minute. bindR (number (substr text 6 2))
       (\<lambda>second. bindR (throwIf (hour \<ge> 24 \<or> minute \<ge> 60 \<or> second \<ge> 60) invalidValue)
       (\<lambda>_. bindR (parse_fraction text)
       (\<lambda>fraction. mk_TimeOfDay (int hour * us_hour + int minute * us_minute
                                 + int second * us_second + int fraction)))))))"

definition parseLocalDateTime :: "string \<Rightarrow> (exn, local_date_time) result" where
  "parseLocalDateTime text =
     bindR (throwIf (length text < 19 \<or> (text ! 10 \<noteq> CHR '' '' \<and> text ! 10 \<noteq> CHR ''T'')) invalidValue)
       (\<lambda>_. bindR (parseDate (substr text 0 10))
       (\<lambda>date. bindR (parseTimeOfDay (drop 11 text))
       (\<lambda>time. Inr (start_of date + time))))"

text \<open>The offset suffix of a timestamp: what is added to the local reading.\<close>

definition parse_offset :: "string \<Rightarrow> (exn, int) result" where
  "parse_offset suffix =
     (if suffix = ''Z'' then Inr 0
      else bindR (throwIf ((length suffix \<noteq> 3 \<and> length suffix \<noteq> 6)
                           \<or> (suffix ! 0 \<noteq> CHR ''+'' \<and> suffix ! 0 \<noteq> CHR ''-'')
                           \<or> (length suffix = 6 \<and> suffix ! 3 \<noteq> CHR '':'')) invalidValue)
       (\<lambda>_. bindR (number (substr suffix 1 2))
       (\<lambda>hour. bindR (if length suffix = 6 then number (substr suffix 4 2) else Inr 0)
       (\<lambda>minute. bindR (throwIf (hour > 23 \<or> minute > 59) invalidValue)
       (\<lambda>_. let offset = int hour * us_hour + int minute * us_minute
            in Inr (if suffix ! 0 = CHR ''+'' then - offset else offset))))))"

definition parseUtcTimestamp :: "string \<Rightarrow> (exn, utc_timestamp) result" where
  "parseUtcTimestamp text =
     bindR (throwIf (length text < 19) invalidValue)
       (\<lambda>_. let zone = find_first_of text ''Z+-'' 19
            in bindR (parseLocalDateTime (case zone of None \<Rightarrow> text | Some z \<Rightarrow> take z text))
       (\<lambda>local. bindR (case zone of None \<Rightarrow> Inr local
                       | Some z \<Rightarrow> bindR (parse_offset (drop z text)) (\<lambda>shift. Inr (local + shift)))
       (\<lambda>result. bindR (validate_UtcTimestamp result) (\<lambda>_. Inr result))))"

section \<open>Native ranges\<close>

definition validateNative_Date :: "date \<Rightarrow> backend_type \<Rightarrow> (exn, unit) result" where
  "validateNative_Date d backend =
     bindR (requireNative backend)
       (\<lambda>_. bindR (validate_Date d)
       (\<lambda>_. throwIf (backend \<noteq> Postgres \<and> dt_year d < 1000) invalidValue))"

definition validateNative_TimeOfDay :: "time_of_day \<Rightarrow> backend_type \<Rightarrow> (exn, unit) result" where
  "validateNative_TimeOfDay t backend = requireNative backend"

definition validateNative_LocalDateTime :: "local_date_time \<Rightarrow> backend_type \<Rightarrow> (exn, unit) result" where
  "validateNative_LocalDateTime v backend =
     bindR (requireNative backend)
       (\<lambda>_. bindR (validate_LocalDateTime v)
       (\<lambda>_. bindR (validateNative_Date (civil_from_days (v div us_day)) backend)
       (\<lambda>_. throwIf (backend = Mysql \<and> v > start_of afterLastDay - us_second + 499999) invalidValue)))"

definition maximumTimestamp :: "backend_type \<Rightarrow> int" where
  "maximumTimestamp backend =
     (if backend = Mysql then
        start_of \<lparr>dt_year = 2038, dt_month = 1, dt_day = 19\<rparr> + 3 * us_hour + 14 * us_minute
        + 7 * us_second + 499999
      else
        start_of \<lparr>dt_year = 2106, dt_month = 2, dt_day = 7\<rparr> + 6 * us_hour + 28 * us_minute
        + 15 * us_second + 999999)"

definition validateNative_UtcTimestamp :: "utc_timestamp \<Rightarrow> backend_type \<Rightarrow> (exn, unit) result" where
  "validateNative_UtcTimestamp v backend =
     bindR (requireNative backend)
       (\<lambda>_. bindR (validate_UtcTimestamp v)
       (\<lambda>_. throwIf (backend \<noteq> Postgres \<and>
                     (v < start_of \<lparr>dt_year = 1970, dt_month = 1, dt_day = 1\<rparr> + us_second
                      \<or> v > maximumTimestamp backend)) invalidValue))"

unbundle bit_operations_syntax

definition validateNativeUuid :: "uuid \<Rightarrow> backend_type \<Rightarrow> (exn, unit) result" where
  "validateNativeUuid u backend =
     bindR (throwIf (backend \<noteq> Postgres \<and> backend \<noteq> Mariadb) invalidValue)
       (\<lambda>_. throwIf (backend = Mariadb \<and> drop_bit 4 (ucast (u ! 6) :: u32) \<ge> 8
                     \<and> (ucast (u ! 8) :: u32) AND 0x80 = 0) invalidValue)"

section \<open>Digits read back\<close>

lemma number_from_append:
  "number_from r (xs @ ys) = bindR (number_from r xs) (\<lambda>r'. number_from r' ys)"
  by (induction xs arbitrary: r) auto

lemma number_from_digs:
  "n < 10 ^ w \<Longrightarrow> r * 10 ^ w + n < 2 ^ 32 \<Longrightarrow> number_from r (digs w n) = Inr (r * 10 ^ w + n)"
proof (induction w arbitrary: n)
  case (Suc w)
  have lt: "n div 10 < 10 ^ w" using Suc.prems(1) by (simp add: less_mult_imp_div_less mult.commute)
  have eq: "(r * 10 ^ w + n div 10) * 10 + n mod 10 = r * 10 ^ Suc w + n" by simp
  have "r * 10 ^ w + n div 10 \<le> (r * 10 ^ w + n div 10) * 10 + n mod 10" by simp
  then have "r * 10 ^ w + n div 10 < 2 ^ 32" using Suc.prems(2) unfolding eq by simp
  with Suc.IH [OF lt] have "number_from r (digs w (n div 10)) = Inr (r * 10 ^ w + n div 10)" .
  with Suc.prems(2) eq show ?case by (simp add: number_from_append)
qed simp

lemma number_digs [text_simps]: "n < 10 ^ w \<Longrightarrow> w \<le> 9 \<Longrightarrow> number (digs w n) = Inr n"
proof -
  assume n: "n < 10 ^ w" and w: "w \<le> 9"
  have "(10 :: nat) ^ w \<le> 10 ^ 9" using w by (intro power_increasing) auto
  with n have "n < 2 ^ 32" by simp
  with number_from_digs [OF n, of 0] show ?thesis by (simp add: number_def)
qed

lemma zpad_2 [text_simps]: "n < 100 \<Longrightarrow> zpad 2 n = digs 2 n"
  and zpad_4 [text_simps]: "n < 10000 \<Longrightarrow> zpad 4 n = digs 4 n"
  and zpad_6 [text_simps]: "n < 1000000 \<Longrightarrow> zpad 6 n = digs 6 n"
  by (auto intro!: zpad_digs)

section \<open>Valid values\<close>

lemma valid_Date_parts:
  assumes "valid_Date d"
  shows "nat (dt_year d) < 10000" "dt_month d < 100" "dt_day d < 100"
proof -
  from assms have ok: "date_ok d" "1 \<le> dt_year d" "dt_year d \<le> 9999"
    by (auto simp: valid_Date_def)
  then show "nat (dt_year d) < 10000" "dt_month d < 100" by (auto simp: date_ok_def)
  have "month_starts ! (dt_month d) \<le> month_starts ! (dt_month d - 1) + 31"
  proof -
    have "\<forall>m < 13. month_starts ! m \<le> month_starts ! (m - 1) + 31" by code_simp
    with ok show ?thesis by (auto simp: date_ok_def)
  qed
  then have "days_in_month (dt_year d) (dt_month d) \<le> 32"
    by (auto simp: days_in_month_def days_before_month_def)
  with ok show "dt_day d < 100" by (simp add: date_ok_def)
qed

lemma start_of_first: "start_of firstDay = - 719162 * us_day"
  by code_simp

lemma start_of_after: "start_of afterLastDay = 2932897 * us_day"
  by code_simp

text \<open>The day of a time point in range is a valid date.\<close>

lemma valid_day:
  assumes "start_of firstDay \<le> v" "v < start_of afterLastDay"
  shows "valid_Date (civil_from_days (v div us_day))"
proof -
  define n where "n = v div us_day"
  define d where "d = civil_from_days n"
  have n: "-719162 \<le> n" "n < 2932897"
    using assms unfolding start_of_first start_of_after n_def by linarith+
  note parts = civil_from_days_parts [of n, folded d_def]
  note year = days_from_civil_year_bounds [OF parts(1-4), unfolded parts(5)]
  have "1 \<le> dt_year d"
  proof (rule ccontr)
    assume "\<not> 1 \<le> dt_year d"
    then have "days_before_years (dt_year d) \<le> days_before_years 0"
      by (intro days_before_years_mono) simp
    with year(2) n show False by (simp add: days_before_years_def)
  qed
  moreover have "dt_year d \<le> 9999"
  proof (rule ccontr)
    assume "\<not> dt_year d \<le> 9999"
    then have "days_before_years 9999 \<le> days_before_years (dt_year d - 1)"
      by (intro days_before_years_mono) simp
    moreover have "days_before_years 9999 = 3652059" by code_simp
    ultimately show False using year(1) n by simp
  qed
  ultimately show ?thesis
    using parts by (simp add: valid_Date_def date_ok_def n_def d_def)
qed

lemma day_remainder: "mk_TimeOfDay (v - v div us_day * us_day) = Inr (v mod us_day)"
  using pos_mod_bound [of us_day v] pos_mod_sign [of us_day v]
  by (simp add: mk_TimeOfDay_def minus_div_mult_eq_mod not_less not_le)

lemma valid_TimeOfDay_mod [simp]: "valid_TimeOfDay (v mod us_day)"
  using pos_mod_bound [of us_day v] pos_mod_sign [of us_day v]
  by (simp add: valid_TimeOfDay_def)

section \<open>Round trips\<close>

lemma format_Date_layout:
  "valid_Date d \<Longrightarrow> format_Date d =
     Inr (digs 4 (nat (dt_year d)) @ CHR ''-'' # digs 2 (dt_month d) @ CHR ''-''
          # digs 2 (dt_day d))"
  using valid_Date_parts [of d] by (simp add: format_Date_def validate_Date_def text_simps)

lemma parseDate_layout:
  assumes "valid_Date d"
  shows "parseDate (digs 4 (nat (dt_year d)) @ CHR ''-'' # digs 2 (dt_month d) @ CHR ''-''
           # digs 2 (dt_day d)) = Inr d"
proof -
  have "0 \<le> dt_year d" using assms by (simp add: valid_Date_def)
  moreover have "number (digs 4 (nat (dt_year d))) = Inr (nat (dt_year d))"
    "number (digs 2 (dt_month d)) = Inr (dt_month d)" "number (digs 2 (dt_day d)) = Inr (dt_day d)"
    using valid_Date_parts [OF assms] by (simp_all add: text_simps)
  ultimately show ?thesis
    using assms
    by (cases d)
      (simp add: parseDate_def substr_def nth_append validate_Date_def Let_def del: digs.simps)
qed

interpretation date_codec: text_codec valid_Date format_Date parseDate
  by unfold_locales (auto simp: format_Date_layout parseDate_layout)

definition hms :: "time_of_day \<Rightarrow> nat \<times> nat \<times> nat \<times> nat" where
  "hms t = (nat (t div us_hour), nat (t div us_minute mod 60), nat (t div us_second mod 60),
            nat (t mod us_second))"

lemma hms_bounds:
  assumes "valid_TimeOfDay t" "hms t = (h, m, s, f)"
  shows "h < 24" "m < 60" "s < 60" "f < 1000000"
    "int h * us_hour + int m * us_minute + int s * us_second + int f = t"
proof -
  have t: "0 \<le> t" "t < 24 * us_hour" using assms(1) by (auto simp: valid_TimeOfDay_def)
  have parts: "h = nat (t div us_hour)" "m = nat (t div us_minute mod 60)"
    "s = nat (t div us_second mod 60)" "f = nat (t mod us_second)"
    using assms(2) by (auto simp: hms_def)
  show "h < 24" "m < 60" "s < 60" "f < 1000000" using t by (auto simp: parts)
  define S where "S = t div us_second"
  define M where "M = S div 60"
  have quotients: "t div us_minute = M" "t div us_hour = M div 60"
    by (simp_all add: S_def M_def zdiv_zmult2_eq [symmetric])
  have "int h = M div 60" "int m = M mod 60" "int s = S mod 60" "int f = t mod us_second"
    using t unfolding parts quotients S_def [symmetric]
    by (auto simp: S_def M_def pos_imp_zdiv_nonneg_iff)
  moreover have "t = us_second * S + t mod us_second" "S = 60 * M + S mod 60"
    "M = 60 * (M div 60) + M mod 60" by (simp_all add: S_def M_def)
  ultimately show "int h * us_hour + int m * us_minute + int s * us_second + int f = t"
    by linarith
qed

lemma format_TimeOfDay_layout:
  assumes "valid_TimeOfDay t" "hms t = (h, m, s, f)"
  shows "format_TimeOfDay t =
    digs 2 h @ CHR '':'' # digs 2 m @ CHR '':'' # digs 2 s @ CHR ''.'' # digs 6 f"
proof -
  have "format_TimeOfDay t = zpad 2 h @ CHR '':'' # zpad 2 m @ CHR '':'' # zpad 2 s @ CHR ''.'' # zpad 6 f"
    using assms(2) by (auto simp: format_TimeOfDay_def hms_def)
  then show ?thesis using hms_bounds [OF assms] by (simp add: text_simps del: digs.simps)
qed

lemma length_format_TimeOfDay [codec_simps]:
  "valid_TimeOfDay t \<Longrightarrow> length (format_TimeOfDay t) = 15"
  by (cases "hms t") (simp add: format_TimeOfDay_layout del: digs.simps)

lemma parseTimeOfDay_format:
  assumes "valid_TimeOfDay t"
  shows "parseTimeOfDay (format_TimeOfDay t) = Inr t"
proof -
  obtain h m s f where hms: "hms t = (h, m, s, f)" by (cases "hms t")
  note b = hms_bounds [OF assms hms]
  have n: "number (digs 2 h) = Inr h" "number (digs 2 m) = Inr m" "number (digs 2 s) = Inr s"
    "number (digs 6 f) = Inr f" using b by (simp_all add: text_simps del: digs.simps)
  have "mk_TimeOfDay (int h * us_hour + int m * us_minute + int s * us_second + int f) = Inr t"
    unfolding b(5) using assms by (auto simp: mk_TimeOfDay_def valid_TimeOfDay_def)
  with n b(1-3) show ?thesis
    unfolding format_TimeOfDay_layout [OF assms hms]
    by (simp add: parseTimeOfDay_def parse_fraction_def scale_fraction_def substr_def nth_append
        numeral_eq_Suc [of "num.Bit0 num.One"] Let_def del: digs.simps)
qed

interpretation time_codec:
  text_codec valid_TimeOfDay "\<lambda>t. Inr (format_TimeOfDay t)" parseTimeOfDay
  by unfold_locales (auto simp: parseTimeOfDay_format)

lemma length_format_Date [codec_simps]: "valid_Date d \<Longrightarrow> format_Date d = Inr t \<Longrightarrow> length t = 10"
  by (auto simp: format_Date_layout simp del: digs.simps)

text \<open>The two halves of a formatted date-time.\<close>

lemma format_LocalDateTime_layout:
  assumes "valid_LocalDateTime v"
  obtains date where "format_Date (civil_from_days (v div us_day)) = Inr date" "length date = 10"
    "format_LocalDateTime v = Inr (date @ CHR '' '' # format_TimeOfDay (v mod us_day))"
proof -
  have valid: "valid_Date (civil_from_days (v div us_day))"
    using assms by (auto simp: valid_LocalDateTime_def intro: valid_day)
  then obtain date where date: "format_Date (civil_from_days (v div us_day)) = Inr date"
    using date_codec.format_ok by blast
  with assms have "format_LocalDateTime v = Inr (date @ CHR '' '' # format_TimeOfDay (v mod us_day))"
    by (simp add: format_LocalDateTime_def validate_LocalDateTime_def day_remainder Let_def)
  with that date length_format_Date [OF valid date] show ?thesis by blast
qed

lemma format_LocalDateTime_text:
  assumes "valid_LocalDateTime v" "format_LocalDateTime v = Inr t"
  obtains date where "format_Date (civil_from_days (v div us_day)) = Inr date" "length date = 10"
    "t = date @ CHR '' '' # format_TimeOfDay (v mod us_day)"
proof (rule format_LocalDateTime_layout [OF assms(1)])
  fix date
  assume parts: "format_Date (civil_from_days (v div us_day)) = Inr date" "length date = 10"
  assume "format_LocalDateTime v = Inr (date @ CHR '' '' # format_TimeOfDay (v mod us_day))"
  with assms(2) have "t = date @ CHR '' '' # format_TimeOfDay (v mod us_day)" by simp
  with parts show thesis by (rule that)
qed

lemma parseLocalDateTime_format:
  assumes "valid_LocalDateTime v" "format_LocalDateTime v = Inr t"
  shows "parseLocalDateTime t = Inr v" "length t = 26"
proof -
  obtain date where date: "format_Date (civil_from_days (v div us_day)) = Inr date"
    "length date = 10" and t: "t = date @ CHR '' '' # format_TimeOfDay (v mod us_day)"
    by (rule format_LocalDateTime_text [OF assms])
  have valid: "valid_Date (civil_from_days (v div us_day))"
    using assms(1) by (auto simp: valid_LocalDateTime_def intro: valid_day)
  have parsed: "parseDate date = Inr (civil_from_days (v div us_day))"
    by (rule date_codec.parse_format [OF valid date(1)])
  have start: "start_of (civil_from_days (v div us_day)) = v div us_day * us_day"
    unfolding start_of_def by (simp add: civil_from_days_parts(5))
  have len: "length (format_TimeOfDay (v mod us_day)) = 15"
    by (rule length_format_TimeOfDay) simp
  have halves: "substr t 0 10 = date" "drop 11 t = format_TimeOfDay (v mod us_day)"
    "t ! 10 = CHR '' ''" "length t = 26"
    using date(2) len by (simp_all add: t substr_def nth_append)
  then show "length t = 26" by simp
  show "parseLocalDateTime t = Inr v"
    unfolding parseLocalDateTime_def halves parsed
    by (simp add: parseTimeOfDay_format start div_mult_mod_eq)
qed

lemma format_LocalDateTime_ok:
  assumes "valid_LocalDateTime v"
  shows "\<exists>t. format_LocalDateTime v = Inr t"
  by (rule format_LocalDateTime_layout [OF assms]) (rule exI)

interpretation local_codec: text_codec valid_LocalDateTime format_LocalDateTime parseLocalDateTime
  by unfold_locales (rule format_LocalDateTime_ok, assumption, rule parseLocalDateTime_format)

section \<open>Zone suffixes\<close>

text \<open>The part of a formatted time point after its seconds has no zone character.\<close>

lemma no_zone_in_text:
  assumes "valid_LocalDateTime v" "format_LocalDateTime v = Inr t"
  shows "\<forall>c \<in> set (drop 19 t). c \<notin> set ''Z+-''"
proof -
  obtain date where t: "t = date @ CHR '' '' # format_TimeOfDay (v mod us_day)" "length date = 10"
    using format_LocalDateTime_text [OF assms] by metis
  obtain h m s f where hms: "hms (v mod us_day) = (h, m, s, f)" by (cases "hms (v mod us_day)")
  have "drop 19 t = CHR ''.'' # digs 6 f"
    unfolding t(1) format_TimeOfDay_layout [OF valid_TimeOfDay_mod hms]
    using t(2) by (simp del: digs.simps)
  moreover have "\<not> is_digit (CHR ''Z'')" "\<not> is_digit (CHR ''+'')" "\<not> is_digit (CHR ''-'')"
    by code_simp+
  ultimately show ?thesis using digs_digit [of _ 6 f] by (auto simp del: digs.simps)
qed

definition zone_text :: "bool \<Rightarrow> nat \<Rightarrow> nat \<Rightarrow> string" where
  "zone_text east h m = (if east then CHR ''+'' else CHR ''-'') # digs 2 h @ CHR '':'' # digs 2 m"

lemma parse_offset_zone_text:
  assumes "h \<le> 23" "m \<le> 59"
  shows "parse_offset (zone_text east h m) =
    Inr (if east then - (int h * us_hour + int m * us_minute)
         else int h * us_hour + int m * us_minute)"
proof -
  have n: "number (digs 2 h) = Inr h" "number (digs 2 m) = Inr m"
    using assms by (simp_all add: text_simps del: digs.simps)
  have len: "length (zone_text east h m) = 6" by (simp add: zone_text_def del: digs.simps)
  then have "zone_text east h m \<noteq> ''Z''" by auto
  moreover have "substr (zone_text east h m) 1 2 = digs 2 h"
    "substr (zone_text east h m) 4 2 = digs 2 m" "zone_text east h m ! 3 = CHR '':''"
    "zone_text east h m ! 0 = (if east then CHR ''+'' else CHR ''-'')"
    by (simp_all add: zone_text_def substr_def nth_append nth_Cons' del: digs.simps)
  ultimately show ?thesis
    using assms by (simp add: parse_offset_def len n Let_def)
qed

lemma parseUtc_without_zone:
  assumes "valid_LocalDateTime v" "format_LocalDateTime v = Inr t"
  shows "parseUtcTimestamp t = Inr v"
proof -
  have "find_first_of t ''Z+-'' 19 = None"
    using no_zone_in_text [OF assms] by (simp add: find_first_of_def)
  then show ?thesis
    using parseLocalDateTime_format [OF assms] assms(1)
    by (simp add: parseUtcTimestamp_def validate_UtcTimestamp_def valid_UtcTimestamp_def
        valid_LocalDateTime_def)
qed

lemma parseUtc_with_zone:
  assumes "valid_LocalDateTime v" "format_LocalDateTime v = Inr t"
    and zone: "zone \<noteq> []" "hd zone \<in> set ''Z+-''"
  shows "parseUtcTimestamp (t @ zone) =
    bindR (parse_offset zone) (\<lambda>shift.
      bindR (validate_UtcTimestamp (v + shift)) (\<lambda>_. Inr (v + shift)))"
proof -
  have len: "length t = 26" by (rule parseLocalDateTime_format [OF assms(1,2)])
  have "find_char (\<lambda>c. c \<in> set ''Z+-'') (drop 19 t @ zone) = Some 7"
    using no_zone_in_text [OF assms(1,2)] zone len
    by (cases zone) (simp_all add: find_char_append)
  then have "find_first_of (t @ zone) ''Z+-'' 19 = Some 26"
    using len by (simp add: find_first_of_def)
  then show ?thesis
    using parseLocalDateTime_format [OF assms(1,2)]
    by (cases "parse_offset zone") (simp_all add: parseUtcTimestamp_def)
qed

section \<open>What the parsers accept\<close>

lemma parseDate_valid: "parseDate t = Inr d \<Longrightarrow> valid_Date d"
  by (auto simp: parseDate_def validate_Date_def Let_def)

lemma parseTimeOfDay_valid: "parseTimeOfDay t = Inr v \<Longrightarrow> valid_TimeOfDay v"
  by (auto simp: parseTimeOfDay_def mk_TimeOfDay_def valid_TimeOfDay_def)

lemma start_of_bounds:
  assumes "valid_Date d"
  shows "start_of firstDay \<le> start_of d" "start_of d + us_day \<le> start_of afterLastDay"
proof -
  have year: "1 \<le> dt_year d" "dt_year d \<le> 9999" "date_ok d"
    using assms by (auto simp: valid_Date_def)
  then have parts: "1 \<le> dt_month d" "dt_month d \<le> 12" "1 \<le> dt_day d"
    "dt_day d \<le> days_in_month (dt_year d) (dt_month d)" by (auto simp: date_ok_def)
  note b = days_from_civil_year_bounds [OF parts]
  have "days_before_years 0 \<le> days_before_years (dt_year d - 1)"
    "days_before_years (dt_year d) \<le> days_before_years 9999"
    using year by (auto intro: days_before_years_mono)
  moreover have "days_before_years 9999 = 3652059" "days_before_years 0 = 0" by code_simp+
  ultimately have "-719162 \<le> days_from_civil d" "days_from_civil d < 2932897"
    using b by linarith+
  then show "start_of firstDay \<le> start_of d" "start_of d + us_day \<le> start_of afterLastDay"
    unfolding start_of_first start_of_after by (simp_all add: start_of_def)
qed

lemma parseLocalDateTime_valid:
  assumes "parseLocalDateTime t = Inr v"
  shows "valid_LocalDateTime v"
proof -
  from assms obtain d u where d: "parseDate (substr t 0 10) = Inr d"
    and u: "parseTimeOfDay (drop 11 t) = Inr u" and v: "v = start_of d + u"
    by (auto simp: parseLocalDateTime_def)
  from parseTimeOfDay_valid [OF u] have "0 \<le> u" "u < us_day"
    by (auto simp: valid_TimeOfDay_def)
  with start_of_bounds [OF parseDate_valid [OF d]] show ?thesis
    unfolding valid_LocalDateTime_def v by linarith
qed

lemma parseUtcTimestamp_valid: "parseUtcTimestamp t = Inr v \<Longrightarrow> valid_UtcTimestamp v"
  by (auto simp: parseUtcTimestamp_def validate_UtcTimestamp_def Let_def)

section \<open>Properties\<close>

text \<open>
  C40. Dates, times of day and local date-times survive formatting and parsing: every valid date
  of years 1 to 9999, every microsecond of a day and every local time point of those years is
  formatted without error and read back as itself.
\<close>

theorem temporal_round_trip:
  "(valid_Date d \<longrightarrow> bindR (format_Date d) parseDate = Inr d) \<and>
   (valid_TimeOfDay t \<longrightarrow> parseTimeOfDay (format_TimeOfDay t) = Inr t) \<and>
   (valid_LocalDateTime v \<longrightarrow> bindR (format_LocalDateTime v) parseLocalDateTime = Inr v)"
  by (blast intro: date_codec.round_trip parseTimeOfDay_format local_codec.round_trip)

theorem temporal_round_trip_witness:
  "valid_Date \<lparr>dt_year = 2024, dt_month = 2, dt_day = 29\<rparr> \<and>
   bindR (format_Date \<lparr>dt_year = 2024, dt_month = 2, dt_day = 29\<rparr>) parseDate
     = Inr \<lparr>dt_year = 2024, dt_month = 2, dt_day = 29\<rparr> \<and>
   parseTimeOfDay (format_TimeOfDay 86399999999) = Inr 86399999999 \<and>
   bindR (format_LocalDateTime (- 1)) parseLocalDateTime = Inr (- 1)"
proof -
  have "valid_Date \<lparr>dt_year = 2024, dt_month = 2, dt_day = 29\<rparr>" by code_simp
  moreover have "valid_TimeOfDay 86399999999" by (simp add: valid_TimeOfDay_def)
  moreover have "valid_LocalDateTime (- 1)"
    by (simp add: valid_LocalDateTime_def start_of_first start_of_after)
  ultimately show ?thesis using temporal_round_trip by blast
qed

text \<open>
  A UTC timestamp of years 1 to 9999 is read back as itself whether its text carries the
  offset or not, and a local reading followed by an explicit offset \<^verbatim>\<open>+hh:mm\<close> or \<^verbatim>\<open>-hh:mm\<close>
  denotes the instant that is that much earlier (east) or later (west); an instant outside the
  supported years is rejected.
\<close>

theorem utc_timestamp_text:
  assumes "valid_UtcTimestamp v" "h \<le> 23" "m \<le> 59"
  shows "bindR (format_UtcTimestamp v includeOffset) parseUtcTimestamp = Inr v \<and>
    bindR (format_UtcTimestamp v False) (\<lambda>t. parseUtcTimestamp (t @ zone_text east h m)) =
      (let shift = int h * us_hour + int m * us_minute;
           instant = (if east then v - shift else v + shift)
       in if valid_UtcTimestamp instant then Inr instant else Inl invalidValue)"
proof -
  have valid: "valid_LocalDateTime v"
    using assms by (simp add: valid_UtcTimestamp_def valid_LocalDateTime_def)
  obtain t where t: "format_LocalDateTime v = Inr t" using format_LocalDateTime_ok [OF valid] ..
  have format: "format_UtcTimestamp v b = Inr (t @ (if b then ''+00:00'' else ''''))" for b
    using assms t by (simp add: format_UtcTimestamp_def validate_UtcTimestamp_def)
  have zone: "parseUtcTimestamp (t @ zone_text east h m) =
    bindR (parse_offset (zone_text east h m)) (\<lambda>shift.
      bindR (validate_UtcTimestamp (v + shift)) (\<lambda>_. Inr (v + shift)))" for east h m
    by (rule parseUtc_with_zone [OF valid t]) (auto simp: zone_text_def)
  have "''+00:00'' = zone_text True 0 0" by code_simp
  with assms have "bindR (format_UtcTimestamp v includeOffset) parseUtcTimestamp = Inr v"
    using zone [of True 0 0] parseUtc_without_zone [OF valid t]
    by (simp add: format parse_offset_zone_text validate_UtcTimestamp_def)
  moreover have "bindR (format_UtcTimestamp v False) (\<lambda>t. parseUtcTimestamp (t @ zone_text east h m)) =
      (let shift = int h * us_hour + int m * us_minute;
           instant = (if east then v - shift else v + shift)
       in if valid_UtcTimestamp instant then Inr instant else Inl invalidValue)"
    using zone [of east h m] parse_offset_zone_text [OF assms(2,3), of east]
    by (cases east) (simp_all add: format validate_UtcTimestamp_def Let_def throwIf_def algebra_simps)
  ultimately show ?thesis ..
qed

theorem utc_timestamp_text_witness:
  "bindR (format_UtcTimestamp 0 True) parseUtcTimestamp = Inr 0 \<and>
   bindR (format_UtcTimestamp 0 False) (\<lambda>t. parseUtcTimestamp (t @ zone_text True 2 30))
     = Inr (- (150 * us_minute))"
proof -
  have "valid_UtcTimestamp 0" "valid_UtcTimestamp (- 9000000000)"
    by (simp_all add: valid_UtcTimestamp_def start_of_first start_of_after)
  with utc_timestamp_text [of 0 2 30 True True]
  show ?thesis by (simp add: Let_def)
qed

text \<open>
  No parser lets an out-of-range value through: whatever text is accepted, the result is a
  valid date, time of day, local date-time or UTC timestamp.
\<close>

theorem parsers_respect_ranges:
  "(parseDate s = Inr d \<longrightarrow> valid_Date d) \<and>
   (parseTimeOfDay s = Inr t \<longrightarrow> valid_TimeOfDay t) \<and>
   (parseLocalDateTime s = Inr v \<longrightarrow> valid_LocalDateTime v) \<and>
   (parseUtcTimestamp s = Inr v \<longrightarrow> valid_UtcTimestamp v)"
  by (blast dest: parseDate_valid parseTimeOfDay_valid parseLocalDateTime_valid
      parseUtcTimestamp_valid)

theorem parsers_respect_ranges_witness:
  "parseTimeOfDay ''23:59:59.5'' = Inr 86399500000 \<and> valid_TimeOfDay 86399500000"
proof -
  have "scale_fraction 1 5 = 500000" by (simp add: scale_fraction_def funpow_numeral)
  then have "parseTimeOfDay ''23:59:59.5'' = Inr 86399500000"
    by (simp add: parseTimeOfDay_def number_def substr_def parse_fraction_def
        mk_TimeOfDay_def between_def throwIf_def)
  moreover from this have "valid_TimeOfDay 86399500000"
    by (rule parsers_respect_ranges [THEN conjunct2, THEN conjunct1, rule_format])
  ultimately show ?thesis ..
qed

text \<open>
  The native ranges: SQLite has none; PostgreSQL accepts every portable timestamp; MySQL and
  MariaDB accept a UTC timestamp exactly from one second past the epoch to their 32-bit limit,
  and a date exactly from the year 1000.
\<close>

theorem native_ranges:
  "validateNative_UtcTimestamp v Sqlite \<noteq> Inr () \<and>
   (validateNative_UtcTimestamp v Postgres = Inr () \<longleftrightarrow> valid_UtcTimestamp v) \<and>
   (validateNative_UtcTimestamp v Mysql = Inr () \<longleftrightarrow> 1000000 \<le> v \<and> v \<le> 2147483647499999) \<and>
   (validateNative_UtcTimestamp v Mariadb = Inr () \<longleftrightarrow> 1000000 \<le> v \<and> v \<le> 4294967295999999) \<and>
   (validateNative_Date d backend = Inr () \<longleftrightarrow>
      backend \<in> {Postgres, Mysql, Mariadb} \<and> valid_Date d \<and> (backend = Postgres \<or> 1000 \<le> dt_year d))"
proof -
  have days: "start_of \<lparr>dt_year = 1970, dt_month = 1, dt_day = 1\<rparr> = 0"
    "maximumTimestamp Mysql = 2147483647499999" "maximumTimestamp Mariadb = 4294967295999999"
    by code_simp+
  note defs = validateNative_UtcTimestamp_def requireNative_def validate_UtcTimestamp_def throwIf_def
    days [unfolded One_nat_def]
  have "validateNative_UtcTimestamp v Sqlite \<noteq> Inr ()" by (simp add: defs)
  moreover have "validateNative_UtcTimestamp v Postgres = Inr () \<longleftrightarrow> valid_UtcTimestamp v"
    by (simp add: defs)
  moreover have "validateNative_UtcTimestamp v Mysql = Inr () \<longleftrightarrow>
      1000000 \<le> v \<and> v \<le> 2147483647499999"
    by (auto simp: defs valid_UtcTimestamp_def start_of_first start_of_after)
  moreover have "validateNative_UtcTimestamp v Mariadb = Inr () \<longleftrightarrow>
      1000000 \<le> v \<and> v \<le> 4294967295999999"
    by (auto simp: defs valid_UtcTimestamp_def start_of_first start_of_after)
  moreover have "validateNative_Date d backend = Inr () \<longleftrightarrow>
      backend \<in> {Postgres, Mysql, Mariadb} \<and> valid_Date d \<and> (backend = Postgres \<or> 1000 \<le> dt_year d)"
    by (cases backend)
      (auto simp: validateNative_Date_def requireNative_def validate_Date_def throwIf_def)
  ultimately show ?thesis by blast
qed

end
