(* ===== verification/Orm_Value_Limits.thy ===== *)
theory Orm_Value_Limits
  imports Orm_Value_Codec
begin

text \<open>
  Values exchanged with a backend: the storage alternatives of \<^verbatim>\<open>QueryValue\<close> and its range checks
  (\<^verbatim>\<open>modules/orm/query/value.cppm\<close>, \<^verbatim>\<open>src/query/QueryValue.cpp\<close>), the backend's value limits
  (\<^verbatim>\<open>src/database/ValueLimits.cpp\<close>) and the checked conversion of a stored double. A double is its
  64 bits in the IEEE binary64 format.
\<close>

section \<open>Doubles\<close>

definition double_exponent :: "64 word \<Rightarrow> nat" where
  "double_exponent w = unat (take_bit 11 (drop_bit 52 w))"

definition double_fraction :: "64 word \<Rightarrow> nat" where
  "double_fraction w = unat (take_bit 52 w)"

definition isfinite :: "64 word \<Rightarrow> bool" where
  "isfinite w \<longleftrightarrow> double_exponent w \<noteq> 2047"

text \<open>
  Whether a double is a value of binary32: zero; a normal number with exponent at most 127 and at
  most 23 fraction bits; or a subnormal of binary32, whose lowest bit weighs \<open>2 ^ -149\<close>. A binary64
  number with biased exponent \<open>x\<close> is in the normal range of binary32 for \<open>897 \<le> x \<le> 1150\<close>; below, for
  \<open>874 \<le> x\<close>, it must be a multiple of \<open>2 ^ -149\<close>.
\<close>

definition float_exact :: "64 word \<Rightarrow> bool" where
  "float_exact w \<longleftrightarrow>
     (let x = double_exponent w; f = double_fraction w
      in if x = 0 then f = 0
         else if 897 \<le> x then x \<le> 1150 \<and> f mod 2 ^ 29 = 0
         else 874 \<le> x \<and> f mod 2 ^ (29 + (897 - x)) = 0)"

section \<open>Query values\<close>

datatype query_storage =
    VInt int | VLongLong int | VUnsignedLongLong nat | VDouble "64 word" | VString string | VDate date
  | VTimeOfDay time_of_day | VLocalDateTime local_date_time | VUtcTimestamp utc_timestamp | VUuid uuid

definition isCompatibleStorage :: "column_type \<Rightarrow> query_storage \<Rightarrow> bool" where
  "isCompatibleStorage logicalType stored =
     (case logicalType of
        BoolT \<Rightarrow> (case stored of VInt n \<Rightarrow> n = 0 \<or> n = 1 | _ \<Rightarrow> False)
      | CharT \<Rightarrow> (case stored of VInt n \<Rightarrow> - 128 \<le> n \<and> n \<le> 255 | _ \<Rightarrow> False)
      | UnsignedCharT \<Rightarrow> (case stored of VInt n \<Rightarrow> 0 \<le> n \<and> n \<le> 255 | _ \<Rightarrow> False)
      | ShortT \<Rightarrow> (case stored of VInt n \<Rightarrow> - 32768 \<le> n \<and> n \<le> 32767 | _ \<Rightarrow> False)
      | UnsignedShortT \<Rightarrow> (case stored of VInt n \<Rightarrow> 0 \<le> n \<and> n \<le> 65535 | _ \<Rightarrow> False)
      | IntT \<Rightarrow> (case stored of VInt n \<Rightarrow> True | _ \<Rightarrow> False)
      | UnsignedIntT \<Rightarrow> (case stored of VUnsignedLongLong n \<Rightarrow> n \<le> 4294967295 | _ \<Rightarrow> False)
      | LongLongT \<Rightarrow> (case stored of VLongLong n \<Rightarrow> True | _ \<Rightarrow> False)
      | UnsignedLongLongT \<Rightarrow> (case stored of VUnsignedLongLong n \<Rightarrow> True | _ \<Rightarrow> False)
      | FloatT \<Rightarrow> (case stored of VDouble w \<Rightarrow> isfinite w \<and> float_exact w | _ \<Rightarrow> False)
      | DoubleT \<Rightarrow> (case stored of VDouble w \<Rightarrow> isfinite w | _ \<Rightarrow> False)
      | StringT \<Rightarrow> (case stored of VString s \<Rightarrow> True | _ \<Rightarrow> False)
      | DateT \<Rightarrow> (case stored of VDate d \<Rightarrow> valid_Date d | _ \<Rightarrow> False)
      | TimeOfDayT \<Rightarrow> (case stored of VTimeOfDay t \<Rightarrow> valid_TimeOfDay t | _ \<Rightarrow> False)
      | LocalDateTimeT \<Rightarrow> (case stored of VLocalDateTime t \<Rightarrow> valid_LocalDateTime t | _ \<Rightarrow> False)
      | UtcTimestampT \<Rightarrow> (case stored of VUtcTimestamp t \<Rightarrow> valid_UtcTimestamp t | _ \<Rightarrow> False)
      | UuidT \<Rightarrow> (case stored of VUuid u \<Rightarrow> True | _ \<Rightarrow> False))"

record query_value =
  qv_logicalType :: column_type
  qv_value :: query_storage

definition fromStorage :: "column_type \<Rightarrow> query_storage \<Rightarrow> (exn, query_value) result" where
  "fromStorage logicalType stored =
     bindR (throwIf (\<not> isCompatibleStorage logicalType stored)
              (InvalidArgument ''Query value storage does not match its logical column type''))
       (\<lambda>_. Inr \<lparr>qv_logicalType = logicalType, qv_value = stored\<rparr>)"

section \<open>Limits\<close>

record value_limits =
  vl_maxUnsignedLongLong :: "nat option"
  vl_minDate :: "date option"
  vl_maxDate :: "date option"
  vl_minLocalDateTime :: "local_date_time option"
  vl_maxLocalDateTime :: "local_date_time option"
  vl_minUtcTimestamp :: "utc_timestamp option"
  vl_maxUtcTimestamp :: "utc_timestamp option"

record runtime_limits =
  rl_maxBindParameters :: "nat option"
  rl_maxIndexBytes :: "nat option"
  rl_minUtcTimestamp :: "utc_timestamp option"
  rl_maxUtcTimestamp :: "utc_timestamp option"

definition date_le :: "date \<Rightarrow> date \<Rightarrow> bool" where
  "date_le a b \<longleftrightarrow>
     dt_year a < dt_year b \<or>
     (dt_year a = dt_year b \<and> (dt_month a < dt_month b \<or> (dt_month a = dt_month b \<and> dt_day a \<le> dt_day b)))"

definition within :: "('a \<Rightarrow> 'a \<Rightarrow> bool) \<Rightarrow> 'a \<Rightarrow> 'a option \<Rightarrow> 'a option \<Rightarrow> bool" where
  "within le x minimum maximum \<longleftrightarrow>
     (case minimum of None \<Rightarrow> True | Some m \<Rightarrow> le m x) \<and> (case maximum of None \<Rightarrow> True | Some m \<Rightarrow> le x m)"

text \<open>A bound value without a value is an SQL null.\<close>

definition isWithinValueLimits ::
  "column_type \<Rightarrow> query_storage option \<Rightarrow> value_limits \<Rightarrow> runtime_limits \<Rightarrow> bool" where
  "isWithinValueLimits logicalType bound limits runtime \<longleftrightarrow>
     (case bound of
        None \<Rightarrow> True
      | Some stored \<Rightarrow> isCompatibleStorage logicalType stored \<and>
         (case stored of
            VDate d \<Rightarrow> within date_le d (vl_minDate limits) (vl_maxDate limits)
          | VLocalDateTime t \<Rightarrow> within (\<le>) t (vl_minLocalDateTime limits) (vl_maxLocalDateTime limits)
          | VUtcTimestamp t \<Rightarrow> within (\<le>) t (vl_minUtcTimestamp limits) (vl_maxUtcTimestamp limits) \<and>
              within (\<le>) t (rl_minUtcTimestamp runtime) (rl_maxUtcTimestamp runtime)
          | VUnsignedLongLong n \<Rightarrow> (case vl_maxUnsignedLongLong limits of None \<Rightarrow> True | Some m \<Rightarrow> n \<le> m)
          | _ \<Rightarrow> True))"

end
