(* ===== verification/Orm_Migration_State.thy ===== *)
theory Orm_Migration_State
  imports Orm_Migration_Plan Orm_Effects Orm_Value_Limits
begin

text \<open>
  The part of \<^verbatim>\<open>src/migrations/MigrationState.cpp\<close> that acts on a database: \<^verbatim>\<open>ready\<close>, the scoped
  objects \<^verbatim>\<open>Transaction\<close>, \<^verbatim>\<open>MigrationLock\<close> and \<^verbatim>\<open>HistoryWrite\<close>, and the operations of
  \<^verbatim>\<open>MigrationState\<close>; with \<^verbatim>\<open>Database::disconnect\<close>, which the scoped objects call.

  The database session, the engine behind it and the backend runtime hooks are parameters: a record
  of actions on an arbitrary session state. The SQL statements the code sends are the arguments of
  \<open>so_select\<close> and \<open>so_run\<close>.
\<close>

section \<open>The session\<close>

datatype sql_value = IntValue int | TextValue string

record ('d, 'r) session_ops =
  so_is_connected :: "'d \<Rightarrow> bool"
  so_close :: "('d, unit) act"
  so_tx_rollback :: "('d, unit) act"
  so_validate_session :: "('d, unit) act"
  so_migration_table :: "('d, string) act"
  so_begin :: "('d, unit) act"
  so_begin_migration :: "string \<Rightarrow> ('d, unit) act"
  so_end_migration :: "string \<Rightarrow> ('d, unit) act"
  so_commit :: "version \<Rightarrow> ('d, unit) act"
  so_rollback :: "('d, unit) act"
  so_execute :: "string \<Rightarrow> version \<Rightarrow> ('d, unit) act"
  so_history_exists :: "string \<Rightarrow> ('d, bool) act"
  so_create_history :: "string \<Rightarrow> ('d, unit) act"
  so_journal_table :: "string \<Rightarrow> ('d, string) act"
  so_select :: "string \<Rightarrow> (string \<times> sql_value) list \<Rightarrow> ('d, 'r list) act"
  so_run :: "string \<Rightarrow> (string \<times> sql_value) list \<Rightarrow> ('d, unit) act"
  so_row :: "'r row_access"
  so_translate :: "exn \<Rightarrow> database_error_code \<Rightarrow> string \<Rightarrow> exn"
  so_limits :: "('d, runtime_limits) act"
  so_value_limits :: value_limits
  so_supported :: bool
  so_atomicity :: atomicity

text \<open>
  The members of \<^verbatim>\<open>Database\<close> the migrations use: \<open>db_backend\<close> is the connected backend (the pointer
  and the type change together), \<open>db_transaction\<close> whether an ORM transaction is open. The last
  fields are the scoped objects that are alive: a transaction (\<^verbatim>\<open>finished_\<close>, \<^verbatim>\<open>previouslyActive_\<close>), a
  lock (\<^verbatim>\<open>finished_\<close>) and the runner's \<^verbatim>\<open>SqliteRebuildSession\<close>.
\<close>

record rebuild_session =
  rb_previousActive :: bool
  rb_previousForeignKeys :: int
  rb_enabled :: bool
  rb_sequences :: "(string \<times> int) list"

record 'd database =
  db_backend :: "backend_type option"
  db_transaction :: bool
  db_transactionFailed :: bool
  db_migrationActive :: bool
  db_session :: 'd
  db_scope :: "(bool \<times> bool) option"
  db_lock :: "bool option"
  db_rebuild :: "rebuild_session option"

type_synonym ('d, 'a) dbact = "('d database, 'a) act"

definition sessionA :: "('d, 'a) act \<Rightarrow> ('d, 'a) dbact" where
  "sessionA m db = (case m (db_session db) of (r, d) \<Rightarrow> (r, db\<lparr>db_session := d\<rparr>))"

definition is_soci :: "exn \<Rightarrow> bool" where
  "is_soci e = (case e of SociError _ \<Rightarrow> True | _ \<Rightarrow> False)"

definition backendType :: "'d database \<Rightarrow> backend_type" where
  "backendType db = (case db_backend db of None \<Rightarrow> Empty | Some b \<Rightarrow> b)"

definition isConnected :: "('d, 'r) session_ops \<Rightarrow> 'd database \<Rightarrow> bool" where
  "isConnected ops db \<longleftrightarrow> db_backend db \<noteq> None \<and> so_is_connected ops (db_session db)"

definition getBackend :: "('d, 'r) session_ops \<Rightarrow> ('d, unit) dbact" where
  "getBackend ops = bindA (getA (isConnected ops)) (\<lambda>connected.
     throwIfA (\<not> connected)
       (DatabaseError DbNotConnected Empty ''database operation'' ''No database session is connected'' None))"

definition disconnect_rollback :: "('d, 'r) session_ops \<Rightarrow> ('d, exn option) dbact" where
  "disconnect_rollback ops =
     bindA (catchA (thenA (sessionA (so_tx_rollback ops)) (retA None))
              (\<lambda>e. if is_soci e then retA (Some (so_translate ops e DbTransaction ''rollback during disconnect''))
                   else throwA e)) (\<lambda>failure.
     thenA (modifyA (\<lambda>db. db\<lparr>db_transaction := False, db_transactionFailed := False\<rparr>)) (retA failure))"

definition disconnect_close ::
  "('d, 'r) session_ops \<Rightarrow> backend_type \<Rightarrow> exn option \<Rightarrow> ('d, exn option) dbact" where
  "disconnect_close ops backend failure =
     catchA (thenA (sessionA (so_close ops)) (retA failure))
       (\<lambda>e. retA (if failure = None
                  then Some (if is_soci e then so_translate ops e DbConnection ''disconnect''
                             else DatabaseError DbConnection backend ''disconnect'' ''Backend session cleanup failed'' None)
                  else failure))"

definition disconnect :: "('d, 'r) session_ops \<Rightarrow> ('d, unit) dbact" where
  "disconnect ops =
     bindA (getA db_backend) (\<lambda>connected. case connected of
       None \<Rightarrow> retA ()
     | Some backend \<Rightarrow>
         bindA (getA db_transaction) (\<lambda>open_tx.
         bindA (if open_tx then disconnect_rollback ops else retA None) (\<lambda>failure.
         bindA (disconnect_close ops backend failure) (\<lambda>failure.
         thenA (modifyA (\<lambda>db. db\<lparr>db_backend := None, db_transactionFailed := False, db_migrationActive := False\<rparr>))
               (case failure of Some e \<Rightarrow> throwA e | None \<Rightarrow> retA ())))))"

section \<open>Errors\<close>

definition nativeCode :: "exn \<Rightarrow> string option" where
  "nativeCode e = (case e of DatabaseError _ _ _ _ n \<Rightarrow> n | MigrationError _ _ _ _ n \<Rightarrow> n | _ \<Rightarrow> None)"

definition databaseFailure :: "('d, 'r) session_ops \<Rightarrow> exn \<Rightarrow> backend_type \<Rightarrow> version \<Rightarrow> exn" where
  "databaseFailure ops e backend version =
     MigrationError Execution ''Migration SQL or history operation failed'' version backend
       (nativeCode (so_translate ops e DbStatement ''migrations''))"

text \<open>The handlers at the end of \<^verbatim>\<open>status\<close>, \<^verbatim>\<open>apply\<close> and \<^verbatim>\<open>baseline\<close>.\<close>

definition soci_handler ::
  "('d, 'r) session_ops \<Rightarrow> backend_type \<Rightarrow> version \<Rightarrow> exn \<Rightarrow> ('d, 'a) dbact" where
  "soci_handler ops backend version e =
     throwA (if is_soci e then databaseFailure ops e backend version else e)"

definition migration_handler ::
  "('d, 'r) session_ops \<Rightarrow> backend_type \<Rightarrow> version \<Rightarrow> exn \<Rightarrow> ('d, 'a) dbact" where
  "migration_handler ops backend version e =
     (case e of
        MigrationError err message _ _ native \<Rightarrow> throwA (MigrationError err message version backend native)
      | _ \<Rightarrow> soci_handler ops backend version e)"

definition status_handler :: "('d, 'r) session_ops \<Rightarrow> backend_type \<Rightarrow> exn \<Rightarrow> ('d, 'a) dbact" where
  "status_handler ops backend e =
     (case e of
        MigrationError err message version _ native \<Rightarrow> throwA (MigrationError err message version backend native)
      | _ \<Rightarrow> soci_handler ops backend 0 e)"

section \<open>Scoped objects\<close>

text \<open>\<^verbatim>\<open>Transaction\<close>: constructor, \<^verbatim>\<open>commit\<close>, destructor.\<close>

definition transaction_begin :: "('d, 'r) session_ops \<Rightarrow> string \<Rightarrow> bool \<Rightarrow> ('d, unit) dbact" where
  "transaction_begin ops table writing =
     bindA (getA db_migrationActive) (\<lambda>previous.
     thenA (if writing then thenA (getBackend ops) (sessionA (so_begin_migration ops table)) else sessionA (so_begin ops))
           (modifyA (\<lambda>db. db\<lparr>db_migrationActive := True, db_scope := Some (False, previous)\<rparr>)))"

definition finish_transaction :: "('d, unit) dbact" where
  "finish_transaction = modifyA (\<lambda>db. db\<lparr>db_scope := map_option (\<lambda>(_, previous). (True, previous)) (db_scope db)\<rparr>)"

definition transaction_commit :: "('d, 'r) session_ops \<Rightarrow> version \<Rightarrow> ('d, unit) dbact" where
  "transaction_commit ops version =
     bindA (getA backendType) (\<lambda>backend.
     catchA (thenA (sessionA (so_commit ops version)) finish_transaction)
       (\<lambda>_. thenA (disconnect ops) (thenA finish_transaction
              (throwA (MigrationError CommitUncertain
                 ''Migration commit outcome is uncertain; reconnect and inspect history'' version backend None)))))"

definition transaction_end :: "('d, 'r) session_ops \<Rightarrow> ('d, unit) dbact" where
  "transaction_end ops =
     bindA (getA db_scope) (\<lambda>scope. case scope of
       None \<Rightarrow> retA ()
     | Some (finished, previous) \<Rightarrow>
         thenA (if finished then retA () else catchA (sessionA (so_rollback ops)) (\<lambda>_. disconnect ops))
               (modifyA (\<lambda>db. db\<lparr>db_migrationActive := previous, db_scope := None\<rparr>)))"

text \<open>\<^verbatim>\<open>MigrationLock\<close>: constructor, \<^verbatim>\<open>finish\<close>, destructor.\<close>

definition lock_begin :: "('d, 'r) session_ops \<Rightarrow> string \<Rightarrow> ('d, unit) dbact" where
  "lock_begin ops table =
     thenA (getBackend ops) (thenA (sessionA (so_begin_migration ops table))
       (modifyA (\<lambda>db. db\<lparr>db_migrationActive := True, db_lock := Some False\<rparr>)))"

definition lock_finish :: "('d, 'r) session_ops \<Rightarrow> string \<Rightarrow> ('d, unit) dbact" where
  "lock_finish ops table =
     thenA (getBackend ops) (thenA (sessionA (so_end_migration ops table))
       (modifyA (\<lambda>db. db\<lparr>db_lock := Some True, db_migrationActive := False\<rparr>)))"

definition lock_end :: "('d, 'r) session_ops \<Rightarrow> string \<Rightarrow> ('d, unit) dbact" where
  "lock_end ops table =
     bindA (getA db_lock) (\<lambda>lock. case lock of
       None \<Rightarrow> retA ()
     | Some finished \<Rightarrow>
         thenA (catchA (bindA (getA (isConnected ops)) (\<lambda>connected.
                    if \<not> connected then disconnect ops
                    else if \<not> finished then thenA (getBackend ops) (sessionA (so_end_migration ops table))
                    else retA ()))
                  (\<lambda>_. catchA (disconnect ops) (\<lambda>_. retA ())))
               (modifyA (\<lambda>db. db\<lparr>db_migrationActive := False, db_lock := None\<rparr>)))"

text \<open>\<^verbatim>\<open>HistoryWrite\<close>: the transaction is destroyed before the lock.\<close>

definition nonTransactional :: "('d, 'r) session_ops \<Rightarrow> bool" where
  "nonTransactional ops \<longleftrightarrow> so_atomicity ops = NonTransactional"

definition write_begin :: "('d, 'r) session_ops \<Rightarrow> string \<Rightarrow> ('d, unit) dbact" where
  "write_begin ops table =
     thenA (getBackend ops) (if nonTransactional ops then lock_begin ops table else transaction_begin ops table True)"

definition beginHistory :: "('d, 'r) session_ops \<Rightarrow> string \<Rightarrow> ('d, unit) dbact" where
  "beginHistory ops table =
     bindA (getA db_scope) (\<lambda>scope. if scope = None then transaction_begin ops table False else retA ())"

definition write_commit :: "('d, 'r) session_ops \<Rightarrow> string \<Rightarrow> version \<Rightarrow> ('d, unit) dbact" where
  "write_commit ops table version =
     thenA (transaction_commit ops version)
       (bindA (getA db_lock) (\<lambda>lock. if lock \<noteq> None then lock_finish ops table else retA ()))"

definition write_end :: "('d, 'r) session_ops \<Rightarrow> string \<Rightarrow> ('d, unit) dbact" where
  "write_end ops table = thenA (transaction_end ops) (lock_end ops table)"

definition with_transaction :: "('d, 'r) session_ops \<Rightarrow> string \<Rightarrow> ('d, 'a) dbact \<Rightarrow> ('d, 'a) dbact" where
  "with_transaction ops table body =
     thenA (transaction_begin ops table False) (finallyA body (transaction_end ops))"

definition with_write :: "('d, 'r) session_ops \<Rightarrow> string \<Rightarrow> ('d, 'a) dbact \<Rightarrow> ('d, 'a) dbact" where
  "with_write ops table body = thenA (write_begin ops table) (finallyA body (write_end ops table))"

section \<open>Reading the history\<close>

definition history_query :: "string \<Rightarrow> string" where
  "history_query table =
     ''SELECT version,name,backend,checksum,applied_at,baseline FROM '' @ table @ '' ORDER BY version''"

definition readHistory :: "('d, 'r) session_ops \<Rightarrow> string \<Rightarrow> ('d, applied_migration list) dbact" where
  "readHistory ops table =
     bindA (sessionA (so_history_exists ops table)) (\<lambda>present.
       if \<not> present then retA []
       else bindA (sessionA (so_select ops (history_query table) []))
              (\<lambda>rows. liftR (history_rows (so_row ops) rows)))"

definition marker_query :: "string \<Rightarrow> string" where
  "marker_query journal = ''SELECT slot,version,name,backend,direction,checksum FROM '' @ journal"

definition readIncomplete :: "('d, 'r) session_ops \<Rightarrow> string \<Rightarrow> ('d, incomplete_migration option) dbact" where
  "readIncomplete ops table =
     bindA (sessionA (so_journal_table ops table)) (\<lambda>journal.
     bindA (if journal = [] then retA False else sessionA (so_history_exists ops journal)) (\<lambda>present.
       if \<not> present then retA None
       else bindA (sessionA (so_select ops (marker_query journal) []))
              (\<lambda>rows. liftR (marker_rows (so_row ops) rows))))"

section \<open>Writing the history\<close>

definition recordIncomplete ::
  "dumper \<Rightarrow> ('d, 'r) session_ops \<Rightarrow> string \<Rightarrow> migration \<Rightarrow> backend_type \<Rightarrow> direction \<Rightarrow> ('d, unit) dbact" where
  "recordIncomplete dump ops journal migration backend direction =
     bindA (liftR (bindR (scriptsFor migration backend) (checksum dump))) (\<lambda>digest.
     sessionA (so_run ops
       (''INSERT INTO '' @ journal @ '' (slot,version,name,backend,direction,checksum) VALUES ''
          @ ''(1,:version,:name,:backend,:direction,:checksum)'')
       [(''version'', IntValue (mg_version migration)), (''name'', TextValue (mg_name migration)),
        (''backend'', IntValue (int (backend_number backend))),
        (''direction'', IntValue (if direction = Up then 0 else 1)), (''checksum'', TextValue digest)]))"

definition recordHistory ::
  "dumper \<Rightarrow> ('d, 'r) session_ops \<Rightarrow> string \<Rightarrow> migration \<Rightarrow> backend_type \<Rightarrow> bool \<Rightarrow> ('d, unit) dbact" where
  "recordHistory dump ops table migration backend baseline =
     bindA (liftR (bindR (scriptsFor migration backend) (checksum dump))) (\<lambda>digest.
     sessionA (so_run ops
       (''INSERT INTO '' @ table
          @ '' (version,name,backend,checksum,baseline) VALUES (:version,:name,:backend,:checksum,:baseline)'')
       [(''version'', IntValue (mg_version migration)), (''name'', TextValue (mg_name migration)),
        (''backend'', IntValue (int (backend_number backend))), (''checksum'', TextValue digest),
        (''baseline'', IntValue (if baseline then 1 else 0))]))"

section \<open>The migration state\<close>

text \<open>The members of \<^verbatim>\<open>MigrationState\<close> that are not references to its environment.\<close>

record migration_state =
  ms_catalog :: "migration list"
  ms_backend :: backend_type
  ms_table :: string

definition ready :: "('d, 'r) session_ops \<Rightarrow> ('d, backend_type) dbact" where
  "ready ops =
     bindA (getA backendType) (\<lambda>backend.
     bindA (getA (isConnected ops)) (\<lambda>connected.
     thenA (throwIfA (\<not> connected)
              (MigrationError NotConnected ''Migrations require a connected database'' 0 backend None))
     (bindA (getA (\<lambda>db. db_transaction db \<or> db_migrationActive db)) (\<lambda>busy.
     thenA (throwIfA busy
              (MigrationError ActiveTransaction ''Migrations require an idle database session'' 0 backend None))
     (thenA (throwIfA (\<not> so_supported ops)
               (MigrationError UnsupportedBackend ''Backend does not support migrations'' 0 backend None))
     (thenA (liftR (backendName backend))
     (thenA (catchA (sessionA (so_validate_session ops)) (soci_handler ops backend 0))
     (retA backend))))))))"

definition new_state :: "('d, 'r) session_ops \<Rightarrow> migration list \<Rightarrow> ('d, migration_state) dbact" where
  "new_state ops catalog =
     bindA (ready ops) (\<lambda>backend.
     thenA (liftR (validateCatalog catalog backend))
     (bindA (catchA (sessionA (so_migration_table ops)) (soci_handler ops backend 0)) (\<lambda>table.
       retA \<lparr>ms_catalog = catalog, ms_backend = backend, ms_table = table\<rparr>)))"

definition inspect :: "dumper \<Rightarrow> ('d, 'r) session_ops \<Rightarrow> migration_state \<Rightarrow> ('d, status) dbact" where
  "inspect dump ops st =
     bindA (readHistory ops (ms_table st)) (\<lambda>history.
     bindA (readIncomplete ops (ms_table st)) (\<lambda>incomplete.
       liftR (evaluate dump (ms_catalog st) (ms_backend st) history incomplete)))"

definition state_status :: "dumper \<Rightarrow> ('d, 'r) session_ops \<Rightarrow> migration_state \<Rightarrow> ('d, status) dbact" where
  "state_status dump ops st =
     catchA (with_transaction ops (ms_table st)
               (bindA (inspect dump ops st) (\<lambda>result. thenA (transaction_commit ops 0) (retA result))))
       (status_handler ops (ms_backend st))"

definition state_plan ::
  "('d, 'r) session_ops \<Rightarrow> migration_state \<Rightarrow> status \<Rightarrow> direction \<Rightarrow> version option \<Rightarrow> ('d, plan) dbact" where
  "state_plan ops st initial direction target =
     bindA (liftR (makePlan (ms_catalog st) (ms_backend st) initial direction target)) (\<lambda>result.
     thenA (getBackend ops) (retA (result\<lparr>pl_atomicity := so_atomicity ops\<rparr>)))"

definition state_validate :: "dumper \<Rightarrow> ('d, 'r) session_ops \<Rightarrow> migration_state \<Rightarrow> ('d, unit) dbact" where
  "state_validate dump ops st =
     bindA (state_status dump ops st) (\<lambda>status. liftR (requireValid status (ms_backend st)))"

definition requireHistory ::
  "('d, 'r) session_ops \<Rightarrow> migration_state \<Rightarrow> applied_migration list \<Rightarrow> version \<Rightarrow> ('d, unit) dbact" where
  "requireHistory ops st expected version =
     bindA (readHistory ops (ms_table st)) (\<lambda>history.
       throwIfA (history \<noteq> expected)
         (MigrationError HistoryChanged ''Migration history changed; inspect and retry'' version (ms_backend st) None))"

definition requireMarker ::
  "('d, 'r) session_ops \<Rightarrow> migration_state \<Rightarrow> incomplete_migration \<Rightarrow> string \<Rightarrow> ('d, unit) dbact" where
  "requireMarker ops st expected message =
     bindA (readIncomplete ops (ms_table st)) (\<lambda>marker.
       throwIfA (marker \<noteq> Some expected)
         (MigrationError InvalidHistory message (im_version expected) (ms_backend st) None))"

definition changeHistory ::
  "dumper \<Rightarrow> ('d, 'r) session_ops \<Rightarrow> migration_state \<Rightarrow> migration \<Rightarrow> direction \<Rightarrow> ('d, unit) dbact" where
  "changeHistory dump ops st migration direction =
     (if direction = Up then recordHistory dump ops (ms_table st) migration (ms_backend st) False
      else sessionA (so_run ops (''DELETE FROM '' @ ms_table st @ '' WHERE version=:version'')
             [(''version'', IntValue (mg_version migration))]))"

definition clearMarker :: "('d, 'r) session_ops \<Rightarrow> migration_state \<Rightarrow> version \<Rightarrow> ('d, unit) dbact" where
  "clearMarker ops st version =
     bindA (sessionA (so_journal_table ops (ms_table st))) (\<lambda>journal.
     thenA (sessionA (so_run ops (''DELETE FROM '' @ journal @ '' WHERE slot=1'') []))
     (bindA (readIncomplete ops (ms_table st)) (\<lambda>marker.
       throwIfA (marker \<noteq> None)
         (MigrationError InvalidHistory ''Incomplete marker was not removed'' version (ms_backend st) None))))"

section \<open>Applying one migration\<close>

definition marker_of :: "dumper \<Rightarrow> migration_state \<Rightarrow> migration \<Rightarrow> direction \<Rightarrow> sql_migration \<Rightarrow> (exn, incomplete_migration) result" where
  "marker_of dump st migration direction scripts =
     bindR (checksum dump scripts) (\<lambda>digest.
       Inr \<lparr>im_version = mg_version migration, im_name = mg_name migration, im_backend = ms_backend st,
            im_direction = direction, im_checksum = digest\<rparr>)"

text \<open>The transaction that records the marker before a script of a nontransactional backend.\<close>

definition write_marker ::
  "dumper \<Rightarrow> ('d, 'r) session_ops \<Rightarrow> migration_state \<Rightarrow> migration \<Rightarrow> direction \<Rightarrow> applied_migration list
   \<Rightarrow> sql_migration \<Rightarrow> string \<Rightarrow> ('d, unit) dbact" where
  "write_marker dump ops st migration direction expected scripts journal =
     with_transaction ops (ms_table st)
       (thenA (requireHistory ops st expected (mg_version migration))
       (thenA (recordIncomplete dump ops journal migration (ms_backend st) direction)
       (bindA (liftR (marker_of dump st migration direction scripts)) (\<lambda>marker.
        thenA (requireMarker ops st marker ''Incomplete marker was not recorded'')
              (transaction_commit ops (mg_version migration))))))"

definition prepare_marker ::
  "dumper \<Rightarrow> ('d, 'r) session_ops \<Rightarrow> migration_state \<Rightarrow> migration \<Rightarrow> direction \<Rightarrow> applied_migration list
   \<Rightarrow> sql_migration \<Rightarrow> string \<Rightarrow> ('d, unit) dbact \<Rightarrow> ('d, unit) dbact" where
  "prepare_marker dump ops st migration direction expected scripts sql preflight =
     bindA (inspect dump ops st) (\<lambda>status.
     thenA (liftR (requireValid status (ms_backend st)))
     (thenA preflight
     (thenA (sessionA (so_create_history ops (ms_table st)))
     (bindA (sessionA (so_journal_table ops (ms_table st))) (\<lambda>journal.
      thenA (throwIfA (journal = [])
               (MigrationError UnsupportedBackend ''Nontransactional migrations require a durable journal''
                  (mg_version migration) (ms_backend st) None))
     (thenA (write_marker dump ops st migration direction expected scripts journal)
            (sessionA (so_execute ops sql (mg_version migration)))))))))"

definition history_extended ::
  "direction \<Rightarrow> applied_migration list \<Rightarrow> applied_migration list \<Rightarrow> bool" where
  "history_extended direction expected actual \<longleftrightarrow>
     (let wantedSize = (if direction = Up then int (length expected) + 1 else int (length expected) - 1);
          preservedSize = (if direction = Up then length expected else nat wantedSize)
      in int (length actual) = wantedSize \<and> take preservedSize expected = take preservedSize actual)"

definition apply_body ::
  "dumper \<Rightarrow> ('d, 'r) session_ops \<Rightarrow> migration_state \<Rightarrow> migration \<Rightarrow> direction \<Rightarrow> applied_migration list
   \<Rightarrow> sql_migration \<Rightarrow> string \<Rightarrow> ('d, unit) dbact \<Rightarrow> ('d, unit) dbact \<Rightarrow> ('d, applied_migration list) dbact" where
  "apply_body dump ops st migration direction expected scripts sql preflight validateResult =
     (let version = mg_version migration
      in thenA (if nonTransactional ops
                then prepare_marker dump ops st migration direction expected scripts sql preflight else retA ())
         (thenA (beginHistory ops (ms_table st))
         (thenA (requireHistory ops st expected version)
         (thenA (if nonTransactional ops
                 then bindA (liftR (marker_of dump st migration direction scripts))
                        (\<lambda>marker. requireMarker ops st marker ''Migration script modified its incomplete marker'')
                 else thenA preflight
                        (thenA (sessionA (so_create_history ops (ms_table st)))
                               (sessionA (so_execute ops sql version))))
         (thenA validateResult
         (thenA (changeHistory dump ops st migration direction)
         (bindA (readHistory ops (ms_table st)) (\<lambda>actual.
          thenA (throwIfA (\<not> history_extended direction expected actual)
                   (MigrationError InvalidHistory ''Migration script modified its history'' version (ms_backend st) None))
         (bindA (liftR (evaluate dump (ms_catalog st) (ms_backend st) actual None)) (\<lambda>status.
          thenA (liftR (requireValid status (ms_backend st)))
         (thenA (if nonTransactional ops then clearMarker ops st version else retA ())
         (thenA (write_commit ops (ms_table st) version)
                (retA actual)))))))))))))"

definition state_apply ::
  "dumper \<Rightarrow> ('d, 'r) session_ops \<Rightarrow> migration_state \<Rightarrow> migration \<Rightarrow> direction \<Rightarrow> applied_migration list
   \<Rightarrow> ('d, unit) dbact \<Rightarrow> ('d, unit) dbact \<Rightarrow> ('d, applied_migration list) dbact" where
  "state_apply dump ops st migration direction expected preflight validateResult =
     catchA
       (bindA (liftR (scriptsFor migration (ms_backend st))) (\<lambda>scripts.
        let sql = (if direction = Up then sm_up scripts else the (sm_down scripts))
        in with_write ops (ms_table st)
             (apply_body dump ops st migration direction expected scripts sql preflight validateResult)))
       (migration_handler ops (ms_backend st) (mg_version migration))"

section \<open>Baseline and resolution\<close>

definition baseline_body ::
  "dumper \<Rightarrow> ('d, 'r) session_ops \<Rightarrow> migration_state \<Rightarrow> status \<Rightarrow> plan \<Rightarrow> version \<Rightarrow> ('d, unit) dbact" where
  "baseline_body dump ops st initial baselinePlan target =
     thenA (if nonTransactional ops
            then bindA (inspect dump ops st) (\<lambda>status.
                 thenA (liftR (requireValid status (ms_backend st)))
                       (sessionA (so_create_history ops (ms_table st))))
            else retA ())
     (thenA (beginHistory ops (ms_table st))
     (thenA (requireHistory ops st (st_applied initial) target)
     (thenA (if nonTransactional ops then retA () else sessionA (so_create_history ops (ms_table st)))
     (thenA (forA (\<lambda>migration. recordHistory dump ops (ms_table st) migration (ms_backend st) True)
               (takeWhile (\<lambda>migration. mg_version migration \<le> target) (ms_catalog st)))
     (bindA (readHistory ops (ms_table st)) (\<lambda>history.
      bindA (liftR (evaluate dump (ms_catalog st) (ms_backend st) history None)) (\<lambda>recorded.
      thenA (liftR (requireValid recorded (ms_backend st)))
     (thenA (throwIfA (length (st_applied recorded) \<noteq> length (pl_migrations baselinePlan)
                       \<or> st_currentVersion recorded \<noteq> target \<or> st_baselineVersion recorded \<noteq> target)
               (MigrationError InvalidHistory ''Baseline history was not recorded as expected'' target
                  (ms_backend st) None))
            (write_commit ops (ms_table st) target)))))))))"

definition state_baseline :: "dumper \<Rightarrow> ('d, 'r) session_ops \<Rightarrow> migration_state \<Rightarrow> version \<Rightarrow> ('d, unit) dbact" where
  "state_baseline dump ops st target =
     bindA (state_status dump ops st) (\<lambda>initial.
     thenA (liftR (requireValid initial (ms_backend st)))
     (thenA (throwIfA (st_applied initial \<noteq> [] \<or> target \<le> 0)
               (MigrationError InvalidTarget ''Baseline requires empty history and a positive target'' target
                  (ms_backend st) None))
     (bindA (state_plan ops st initial Up (Some target)) (\<lambda>baselinePlan.
      catchA (with_write ops (ms_table st) (baseline_body dump ops st initial baselinePlan target))
        (migration_handler ops (ms_backend st) target)))))"

definition resolve_body ::
  "dumper \<Rightarrow> ('d, 'r) session_ops \<Rightarrow> migration_state \<Rightarrow> status \<Rightarrow> incomplete_migration \<Rightarrow> version \<Rightarrow> resolution
   \<Rightarrow> ('d, unit) dbact" where
  "resolve_body dump ops st initial marker version resolution =
     thenA (beginHistory ops (ms_table st))
     (thenA (requireHistory ops st (st_applied initial) version)
     (bindA (readIncomplete ops (ms_table st)) (\<lambda>found.
      thenA (throwIfA (found \<noteq> Some marker)
               (MigrationError HistoryChanged ''Migration state changed; inspect and retry'' version (ms_backend st) None))
     (thenA (if resolution = Completed
             then changeHistory dump ops st (the (find_version (ms_catalog st) version)) (im_direction marker)
             else retA ())
     (bindA (readHistory ops (ms_table st)) (\<lambda>history.
      bindA (liftR (evaluate dump (ms_catalog st) (ms_backend st) history None)) (\<lambda>actual.
      thenA (liftR (requireValid actual (ms_backend st)))
     (thenA (throwIfA (int (length (st_applied actual)) \<noteq>
                         int (length (st_applied initial))
                         + (if resolution = Completed \<and> im_direction marker = Up then 1 else 0)
                         - (if resolution = Completed \<and> im_direction marker = Down then 1 else 0))
               (MigrationError InvalidHistory ''Resolution history was not recorded'' version (ms_backend st) None))
     (thenA (clearMarker ops st version)
            (write_commit ops (ms_table st) version))))))))))"

definition state_resolve ::
  "dumper \<Rightarrow> ('d, 'r) session_ops \<Rightarrow> migration_state \<Rightarrow> version \<Rightarrow> string \<Rightarrow> resolution \<Rightarrow> ('d, unit) dbact" where
  "state_resolve dump ops st version expectedChecksum resolution =
     bindA (state_status dump ops st) (\<lambda>initial.
     thenA (case st_problems initial of
              problem # _ \<Rightarrow> throwA (MigrationError (dg_code problem) (dg_message problem) (dg_version problem)
                                      (ms_backend st) None)
            | [] \<Rightarrow> retA ())
     (thenA (getBackend ops)
     (let refused = MigrationError InvalidResolution ''Resolution must match the incomplete migration and checksum''
                      version (ms_backend st) None
      in case st_incomplete initial of
           None \<Rightarrow> throwA refused
         | Some marker \<Rightarrow>
             thenA (throwIfA (so_atomicity ops \<noteq> NonTransactional \<or> im_version marker \<noteq> version
                              \<or> im_checksum marker \<noteq> expectedChecksum) refused)
               (catchA (with_write ops (ms_table st)
                          (resolve_body dump ops st initial marker version resolution))
                  (soci_handler ops (ms_backend st) version)))))"

end
