(* ===== verification/Orm_Preflight.thy ===== *)
theory Orm_Preflight
  imports Orm_Migration_State
begin

text \<open>
  The schema checks of \<^verbatim>\<open>src/migrations/Runner.cpp\<close>: the comparison of \<^verbatim>\<open>CREATE TABLE\<close> texts and native
  types, \<^verbatim>\<open>contextPreflight\<close> (the source tables of a migration still have the shape of its snapshot,
  with nothing unmodelled in the way) and \<^verbatim>\<open>validateTargetValues\<close> (the migrated rows fit the target
  model). Rows come from the session; the statements are the ones the source sends.
\<close>

definition schemaFailure :: "string \<Rightarrow> exn" where
  "schemaFailure message = MigrationError InvalidSchema message 0 Empty None"

definition failIf :: "bool \<Rightarrow> string \<Rightarrow> ('d, unit) dbact" where
  "failIf b message = throwIfA b (schemaFailure message)"

section \<open>Texts of definitions\<close>

definition isspace :: "char \<Rightarrow> bool" where
  "isspace c \<longleftrightarrow> c = CHR '' '' \<or> (9 \<le> code c \<and> code c \<le> 13)"

definition opens_quote :: "char \<Rightarrow> bool" where
  "opens_quote c \<longleftrightarrow> c = squote \<or> c = dquote \<or> c = backtick \<or> c = CHR ''[''"

definition closing :: "char \<Rightarrow> char" where
  "closing c = (if c = CHR ''['' then CHR '']'' else c)"

definition table_options :: "string \<Rightarrow> string" where
  "table_options rest = map type_upper (filter (\<lambda>c. \<not> isspace c \<and> c \<noteq> CHR '';'') rest)"

text \<open>
  The loop of \<^verbatim>\<open>sqliteDefinitions\<close>: the current definition, the depth of parentheses and the quote
  that is open; \<open>started\<close> is a positive depth or a text past its first parenthesis.
\<close>

function sqlite_scan :: "string list \<Rightarrow> string \<Rightarrow> int \<Rightarrow> char option \<Rightarrow> bool \<Rightarrow> string \<Rightarrow> string list" where
  "sqlite_scan definitions current depth q started [] = definitions"
| "sqlite_scan definitions current depth (Some q) started (c # cs) =
     (let current = (if started then current @ [c] else current)
      in if c \<noteq> q then sqlite_scan definitions current depth (Some q) started cs
         else if cs \<noteq> [] \<and> hd cs = q
         then sqlite_scan definitions (if started then current @ [q] else current) depth (Some q) started (tl cs)
         else sqlite_scan definitions current depth None started cs)"
| "sqlite_scan definitions current depth None started (c # cs) =
     (if \<not> started \<and> opens_quote c then sqlite_scan definitions current depth (Some (closing c)) started cs
      else if c = CHR ''('' \<and> \<not> started then sqlite_scan definitions current 1 None True cs
      else if \<not> started then sqlite_scan definitions current depth None started cs
      else
        let depth = (if c = CHR ''('' then depth + 1 else if c = CHR '')'' then depth - 1 else depth);
            q = (if opens_quote c then Some (closing c) else None)
        in if c = CHR '')'' \<and> depth = 0 then definitions @ [current, table_options cs]
           else if c = CHR '','' \<and> depth = 1 then sqlite_scan (definitions @ [current]) [] depth q started cs
           else if \<not> isspace c
           then sqlite_scan definitions (current @ [if q \<noteq> None then c else type_upper c]) depth q started cs
           else sqlite_scan definitions current depth q started cs)"
  by pat_completeness auto

termination sqlite_scan
  by (relation "measure (\<lambda>(definitions, current, depth, q, started, sql). length sql)") auto

definition sqliteDefinitions :: "string \<Rightarrow> string list" where
  "sqliteDefinitions sql = sort (sqlite_scan [] [] 0 None False sql)"

definition nativeType :: "string \<Rightarrow> string" where
  "nativeType type =
     (let type = map type_upper type;
          type = (case find_first_of type ''('' 0 of
                    None \<Rightarrow> type
                  | Some a \<Rightarrow> (case find_first_of type '')'' a of
                      None \<Rightarrow> type
                    | Some b \<Rightarrow> take a type @ drop (b + 1) type))
      in if type = ''CHARACTER VARYING'' then ''VARCHAR''
         else if type = ''INTEGER'' then ''INT''
         else if type = ''DOUBLE PRECISION'' then ''DOUBLE''
         else type)"

section \<open>Queries\<close>

text \<open>
  \<^verbatim>\<open>session << sql, into(x)\<close> reads the first row; without one the variable keeps its value.
\<close>

definition rowsA ::
  "('d, 'r) session_ops \<Rightarrow> string \<Rightarrow> (string \<times> sql_value) list \<Rightarrow> ('d, 'r list) dbact" where
  "rowsA ops sql ps = sessionA (so_select ops sql ps)"

definition fetchA ::
  "('d, 'r) session_ops \<Rightarrow> string \<Rightarrow> (string \<times> sql_value) list \<Rightarrow> 'a \<Rightarrow> ('r \<Rightarrow> (exn, 'a) result) \<Rightarrow> ('d, 'a) dbact" where
  "fetchA ops sql ps initial read =
     bindA (rowsA ops sql ps) (\<lambda>rows. case rows of [] \<Rightarrow> retA initial | row # _ \<Rightarrow> liftR (read row))"

definition countA :: "('d, 'r) session_ops \<Rightarrow> string \<Rightarrow> (string \<times> sql_value) list \<Rightarrow> ('d, int) dbact" where
  "countA ops sql ps = fetchA ops sql ps 0 (\<lambda>row. get_int (so_row ops) row 0)"

definition textsA ::
  "('d, 'r) session_ops \<Rightarrow> string \<Rightarrow> (string \<times> sql_value) list \<Rightarrow> ('d, string list) dbact" where
  "textsA ops sql ps =
     bindA (rowsA ops sql ps) (\<lambda>rows. liftR (mapR (\<lambda>row. get_string (so_row ops) row 0) rows))"

text \<open>A loop over rows that reads a name from each and checks it; the names it has seen.\<close>

definition eachA :: "('d, 'r) session_ops \<Rightarrow> 'r list \<Rightarrow> (string \<Rightarrow> ('d, unit) dbact) \<Rightarrow> ('d, string list) dbact" where
  "eachA ops rows check =
     foldA (\<lambda>row seen. bindA (liftR (get_string (so_row ops) row 0))
        (\<lambda>name. thenA (check name) (retA (seen @ [name])))) rows []"

definition schema_function :: "backend_type \<Rightarrow> string" where
  "schema_function backend = (if backend = Postgres then ''current_schema()'' else ''DATABASE()'')"

definition named :: "string \<Rightarrow> (string \<times> sql_value) list" where
  "named name = [(''name'', TextValue name)]"

text \<open>Lookups by name, \<^verbatim>\<open>std::ranges::find\<close> with a projection.\<close>

definition find_table :: "physical_table list \<Rightarrow> string \<Rightarrow> physical_table option" where
  "find_table tables name = find (\<lambda>t. tb_name t = name) tables"

definition find_index :: "physical_index list \<Rightarrow> string \<Rightarrow> physical_index option" where
  "find_index indexes name = find (\<lambda>i. ix_name i = name) indexes"

definition find_column :: "physical_column list \<Rightarrow> string \<Rightarrow> physical_column option" where
  "find_column columns name = find (\<lambda>c. pc_name c = name) columns"

section \<open>SQLite sources\<close>

definition sqlite_index_part :: "('d, 'r) session_ops \<Rightarrow> 'r \<Rightarrow> (exn, string) result" where
  "sqlite_index_part ops part =
     (let failure = schemaFailure ''Expression index differs from its snapshot''
      in bindR (throwIf (is_null (so_row ops) part 0) failure) (\<lambda>_.
         bindR (get_string (so_row ops) part 1) (\<lambda>descending.
         bindR (throwIf (descending \<noteq> ''0'') failure) (\<lambda>_.
         bindR (get_string (so_row ops) part 2) (\<lambda>collation.
         bindR (throwIf (collation \<noteq> ''BINARY'') failure) (\<lambda>_.
           get_string (so_row ops) part 0))))))"

definition sqlite_index ::
  "('d, 'r) session_ops \<Rightarrow> physical_table \<Rightarrow> string \<Rightarrow> string \<Rightarrow> ('d, unit) dbact" where
  "sqlite_index ops source name indexName =
     (case find_index (tb_indexes source) indexName of
        None \<Rightarrow> throwA (schemaFailure (''Unmanaged index blocks this migration: '' @ indexName))
      | Some modeled \<Rightarrow>
          bindA (fetchA ops ''SELECT \"unique\",partial FROM pragma_index_list(:table) WHERE name=:name''
                   [(''table'', TextValue name), (''name'', TextValue indexName)] (0, 0)
                   (\<lambda>row. bindR (get_int (so_row ops) row 0) (\<lambda>u. bindR (get_int (so_row ops) row 1) (\<lambda>p. Inr (u, p)))))
            (\<lambda>(unique, partial).
          bindA (rowsA ops (''SELECT name,CAST(\"desc\" AS TEXT),coll FROM pragma_index_xinfo(:index) WHERE ''
                              @ ''key=1 ORDER BY seqno'') [(''index'', TextValue indexName)]) (\<lambda>parts.
          bindA (liftR (mapR (sqlite_index_part ops) parts)) (\<lambda>columns.
            failIf (partial \<noteq> 0 \<or> (unique \<noteq> 0) \<noteq> ix_unique modeled \<or> columns \<noteq> ix_columns modeled)
              (''Source index differs from its snapshot: '' @ indexName)))))"

definition missing_index :: "physical_table \<Rightarrow> string list \<Rightarrow> ('d, unit) dbact" where
  "missing_index source seenIndexes =
     forA (\<lambda>index. failIf (ix_name index \<notin> set seenIndexes) (''Source index is missing: '' @ ix_name index))
       (tb_indexes source)"

definition sqlite_source :: "('d, 'r) session_ops \<Rightarrow> physical_table \<Rightarrow> string \<Rightarrow> ('d, unit) dbact" where
  "sqlite_source ops source name =
     bindA (fetchA ops ''SELECT sql FROM main.sqlite_master WHERE type='table' AND name=:name'' (named name) None
              (\<lambda>row. if is_null (so_row ops) row 0 then Inr None
                     else bindR (get_string (so_row ops) row 0) (\<lambda>ddl. Inr (Some ddl)))) (\<lambda>ddl.
     bindA (case ddl of
              None \<Rightarrow> retA True
            | Some text \<Rightarrow> bindA (liftR (renderCreateTable Sqlite source True False))
                (\<lambda>expected. retA (sqliteDefinitions text \<noteq> sqliteDefinitions expected))) (\<lambda>differs.
     thenA (failIf differs (''Source table differs from its snapshot: '' @ name))
     (bindA (rowsA ops (''SELECT name FROM main.sqlite_master WHERE type='index' AND tbl_name=:name ''
                        @ ''AND sql IS NOT NULL'') (named name)) (\<lambda>rows.
      bindA (eachA ops rows (sqlite_index ops source name)) (missing_index source)))))"

section \<open>Sources on the other backends\<close>

definition expected_collation :: "backend_type \<Rightarrow> string" where
  "expected_collation backend = (if backend = Mysql then ''utf8mb4_0900_bin'' else ''utf8mb4_nopad_bin'')"

definition check_table_options :: "('d, 'r) session_ops \<Rightarrow> backend_type \<Rightarrow> string \<Rightarrow> ('d, unit) dbact" where
  "check_table_options ops backend name =
     bindA (fetchA ops (''SELECT engine,table_collation,create_options FROM information_schema.tables ''
                          @ ''WHERE table_schema=DATABASE() AND table_name=:name'') (named name) ([], [], [])
              (\<lambda>row. bindR (get_string (so_row ops) row 0) (\<lambda>engine.
                      bindR (get_string (so_row ops) row 1) (\<lambda>collation.
                      bindR (get_string (so_row ops) row 2) (\<lambda>options. Inr (engine, collation, options))))))
       (\<lambda>(engine, collation, options).
         failIf (engine \<noteq> ''InnoDB'' \<or> collation \<noteq> expected_collation backend \<or> options \<noteq> [])
           (''Source table options differ from its snapshot: '' @ name))"

definition columns_query :: "backend_type \<Rightarrow> string" where
  "columns_query backend =
     ''SELECT column_name,column_default,''
     @ (if backend = Postgres
        then ''data_type,is_nullable,CAST(character_maximum_length AS BIGINT),is_identity,''
             @ ''identity_generation,collation_name,is_generated,'' @ ''CAST(datetime_precision AS BIGINT)''
        else ''column_type,is_nullable,CAST(character_maximum_length AS SIGNED),extra,''
             @ [squote, squote] @ '' AS identity_generation,collation_name,''
             @ ''CASE WHEN generation_expression IS NULL OR generation_expression='' @ [squote, squote, CHR '' '']
             @ ''THEN 'NEVER' ELSE 'ALWAYS' END,CAST(datetime_precision AS SIGNED)'')
     @ '' FROM information_schema.columns WHERE '' @ ''table_schema='' @ schema_function backend
     @ '' AND table_name=:name''"

text \<open>A substring test, \<^verbatim>\<open>identity.find(..) != npos\<close>.\<close>

definition mentions :: "string \<Rightarrow> string \<Rightarrow> bool" where
  "mentions haystack needle \<longleftrightarrow> find_from haystack needle 0 \<noteq> None"

text \<open>The default of a column does not come from the snapshot.\<close>

definition unmanaged_default ::
  "('d, 'r) session_ops \<Rightarrow> backend_type \<Rightarrow> physical_column \<Rightarrow> 'r \<Rightarrow> (exn, bool) result" where
  "unmanaged_default ops backend expected row =
     (if is_null (so_row ops) row 1 then Inr False
      else bindR (if backend = Mariadb \<and> pc_nullable expected then get_string (so_row ops) row 1 else Inr [])
             (\<lambda>text. Inr (\<not> pc_autoIncrement expected
                          \<and> \<not> (backend = Mariadb \<and> pc_nullable expected \<and> text = ''NULL''))))"

definition precise_temporal :: "physical_column \<Rightarrow> bool" where
  "precise_temporal column \<longleftrightarrow>
     pc_logicalType column = TimeOfDayT \<or> pc_logicalType column = LocalDateTimeT \<or> pc_logicalType column = UtcTimestampT"

definition orR :: "(exn, bool) result \<Rightarrow> (exn, bool) result \<Rightarrow> (exn, bool) result" where
  "orR a b = bindR a (\<lambda>x. if x then Inr True else b)"

text \<open>The disjunction that refuses a column, evaluated from left to right.\<close>

definition column_differs ::
  "('d, 'r) session_ops \<Rightarrow> backend_type \<Rightarrow> physical_column \<Rightarrow> string \<Rightarrow> 'r \<Rightarrow> (exn, bool) result" where
  "column_differs ops backend expected identity row =
     (let acc = so_row ops; postgres = (backend = Postgres);
          actualIdentity = (if postgres then identity = ''YES'' else mentions identity ''auto_increment'')
      in orR (bindR (get_string acc row 2) (\<lambda>type. Inr (nativeType type \<noteq> nativeType (pc_sqlType expected))))
        (orR (if \<not> precise_temporal expected then Inr False
              else if is_null acc row 9 then Inr True
              else bindR (get_long acc row 9) (\<lambda>precision. Inr (precision \<noteq> 6)))
        (orR (bindR (get_string acc row 3) (\<lambda>nullable. Inr ((nullable = ''YES'') \<noteq> pc_nullable expected)))
        (orR (Inr (actualIdentity \<noteq> pc_autoIncrement expected))
        (orR (bindR (get_string acc row 8) (\<lambda>generated. Inr (generated \<noteq> ''NEVER'')))
        (orR (if postgres \<and> actualIdentity
              then bindR (get_string acc row 6) (\<lambda>generation. Inr (generation \<noteq> ''BY DEFAULT'')) else Inr False)
        (orR (Inr (\<not> postgres \<and> identity \<noteq> (if pc_autoIncrement expected then ''auto_increment'' else [])))
        (orR (Inr (postgres \<and> \<not> is_null acc row 7))
        (orR (if \<not> postgres \<and> \<not> is_null acc row 7
              then bindR (get_string acc row 7) (\<lambda>collation. Inr (collation \<noteq> expected_collation backend)) else Inr False)
             (case pc_maxStringLength expected of
                None \<Rightarrow> Inr False
              | Some limit \<Rightarrow> if is_null acc row 4 then Inr True
                  else bindR (get_long acc row 4) (\<lambda>n. Inr (n mod 2 ^ 64 \<noteq> int limit))))))))))))"

definition check_column ::
  "('d, 'r) session_ops \<Rightarrow> backend_type \<Rightarrow> physical_table \<Rightarrow> string \<Rightarrow> 'r \<Rightarrow> (exn, string) result" where
  "check_column ops backend source name row =
     bindR (get_string (so_row ops) row 0) (\<lambda>columnName.
     let unmanaged = schemaFailure (''Unmanaged column or default blocks this migration: '' @ name @ ''.'' @ columnName)
     in case find_column (tb_columns source) columnName of
          None \<Rightarrow> Inl unmanaged
        | Some expected \<Rightarrow>
            bindR (unmanaged_default ops backend expected row) (\<lambda>blocked.
            bindR (throwIf blocked unmanaged) (\<lambda>_.
            bindR (get_string (so_row ops) row 5) (\<lambda>identity.
            bindR (column_differs ops backend expected identity row) (\<lambda>differs.
            bindR (throwIf differs
                     (schemaFailure (''Source column differs from its snapshot: '' @ name @ ''.'' @ columnName)))
              (\<lambda>_. Inr columnName))))))"

definition check_columns ::
  "('d, 'r) session_ops \<Rightarrow> backend_type \<Rightarrow> physical_table \<Rightarrow> string \<Rightarrow> ('d, unit) dbact" where
  "check_columns ops backend source name =
     bindA (rowsA ops (columns_query backend) (named name)) (\<lambda>rows.
     bindA (liftR (mapR (check_column ops backend source name) rows)) (\<lambda>seen.
       failIf (card (set seen) \<noteq> length (tb_columns source))
         (''Source table columns differ from its snapshot: '' @ name)))"

definition check_triggers :: "('d, 'r) session_ops \<Rightarrow> backend_type \<Rightarrow> string \<Rightarrow> ('d, unit) dbact" where
  "check_triggers ops backend name =
     bindA (countA ops (''SELECT COUNT(*) FROM information_schema.triggers WHERE event_object_schema=''
                          @ schema_function backend @ '' AND event_object_table=:name'') (named name)) (\<lambda>triggers.
       failIf (triggers \<noteq> 0) (''Unmanaged trigger blocks this migration: '' @ name))"

definition constraint_query :: "backend_type \<Rightarrow> string" where
  "constraint_query backend =
     (if backend = Postgres
      then ''SELECT conname,CASE contype WHEN 'p' THEN 'PRIMARY KEY' WHEN 'f' THEN 'FOREIGN KEY' ''
           @ ''WHEN 'n' THEN 'NOT NULL' ELSE 'OTHER' END, ''
           @ ''CASE WHEN condeferrable OR condeferred OR NOT convalidated ''
           @ ''THEN 'unsupported' ELSE 'standard' END FROM pg_constraint ''
           @ ''WHERE conrelid=to_regclass(quote_ident(current_schema())||'.'||quote_ident(:name))''
      else ''SELECT constraint_name,constraint_type,'standard' FROM information_schema.table_constraints ''
           @ ''WHERE table_schema=DATABASE() AND table_name=:name'')"

definition managed_constraint :: "backend_type \<Rightarrow> physical_table \<Rightarrow> string \<Rightarrow> string \<Rightarrow> bool" where
  "managed_constraint backend source constraint type \<longleftrightarrow>
     (type = ''PRIMARY KEY'' \<and>
        (constraint = tb_primaryKeyName source \<or> (backend \<noteq> Postgres \<and> constraint = ''PRIMARY'')))
     \<or> (type = ''FOREIGN KEY'' \<and> constraint \<in> set (map fk_name (tb_foreignKeys source)))
     \<or> (backend = Postgres \<and> type = ''NOT NULL'')
     \<or> (backend \<noteq> Postgres \<and> type = ''UNIQUE'' \<and>
         (case find_index (tb_indexes source) constraint of None \<Rightarrow> False | Some modeled \<Rightarrow> ix_unique modeled))"

definition check_constraint ::
  "('d, 'r) session_ops \<Rightarrow> backend_type \<Rightarrow> physical_table \<Rightarrow> string \<Rightarrow> 'r \<Rightarrow> (exn, unit) result" where
  "check_constraint ops backend source name row =
     bindR (get_string (so_row ops) row 0) (\<lambda>constraint.
     bindR (get_string (so_row ops) row 1) (\<lambda>type.
     bindR (get_string (so_row ops) row 2) (\<lambda>options.
     bindR (throwIf (options \<noteq> ''standard'')
              (schemaFailure (''Source constraint options differ from its snapshot: '' @ name @ ''.'' @ constraint))) (\<lambda>_.
       throwIf (\<not> managed_constraint backend source constraint type)
         (schemaFailure (''Unmanaged constraint blocks this migration: '' @ name @ ''.'' @ constraint))))))"

definition check_constraints ::
  "('d, 'r) session_ops \<Rightarrow> backend_type \<Rightarrow> physical_table \<Rightarrow> string \<Rightarrow> ('d, unit) dbact" where
  "check_constraints ops backend source name =
     bindA (rowsA ops (constraint_query backend) (named name))
       (\<lambda>rows. liftR (forR (check_constraint ops backend source name) rows))"

definition check_primary_key ::
  "('d, 'r) session_ops \<Rightarrow> backend_type \<Rightarrow> physical_table \<Rightarrow> string \<Rightarrow> ('d, unit) dbact" where
  "check_primary_key ops backend source name =
     (if tb_primaryKey source = [] then retA ()
      else bindA (textsA ops (''SELECT column_name FROM information_schema.key_column_usage WHERE ''
                                @ ''table_schema='' @ schema_function backend
                                @ '' AND table_name=:table AND constraint_name=:key ORDER BY ordinal_position'')
                    [(''table'', TextValue name),
                     (''key'', TextValue (if backend = Postgres then tb_primaryKeyName source else ''PRIMARY''))]) (\<lambda>actual.
             failIf (actual \<noteq> tb_primaryKey source) (''Source primary key differs from its snapshot: '' @ name)))"

section \<open>Foreign keys and indexes\<close>

definition foreign_key_query :: "backend_type \<Rightarrow> string" where
  "foreign_key_query backend =
     (if backend = Postgres
      then ''SELECT k.column_name,c.table_name,c.column_name,c.table_schema FROM ''
           @ ''information_schema.key_column_usage k ''
           @ ''JOIN information_schema.referential_constraints r ON ''
           @ ''r.constraint_schema=k.constraint_schema ''
           @ ''AND r.constraint_name=k.constraint_name JOIN information_schema.key_column_usage c ''
           @ ''ON c.constraint_schema=r.unique_constraint_schema AND ''
           @ ''c.constraint_name=r.unique_constraint_name ''
           @ ''AND c.ordinal_position=k.position_in_unique_constraint ''
           @ ''WHERE k.table_schema=current_schema() AND k.table_name=:table AND ''
           @ ''k.constraint_name=:key '' @ ''ORDER BY k.ordinal_position''
      else ''SELECT '' @ ''column_name,referenced_table_name,referenced_column_name,referenced_table_schema ''
           @ ''FROM '' @ ''information_schema.key_column_usage WHERE table_schema=DATABASE() AND ''
           @ ''table_name=:table '' @ ''AND constraint_name=:key ORDER BY ordinal_position'')"

text \<open>One column pair of a foreign key; \<open>index\<close> counts the pairs that matched.\<close>

definition check_key_part ::
  "('d, 'r) session_ops \<Rightarrow> string \<Rightarrow> physical_foreign_key \<Rightarrow> 'r \<Rightarrow> nat \<Rightarrow> (exn, nat) result" where
  "check_key_part ops currentSchema key part index =
     (let acc = so_row ops; failure = schemaFailure (''Source foreign key differs from its snapshot: '' @ fk_name key)
      in bindR (throwIf (index \<ge> length (fk_columns key)) failure) (\<lambda>_.
         bindR (orR (bindR (get_string acc part 0) (\<lambda>column. Inr (column \<noteq> fk_columns key ! index)))
               (orR (bindR (get_string acc part 1) (\<lambda>target. Inr (target \<noteq> fk_targetTable key)))
               (orR (bindR (get_string acc part 2) (\<lambda>target. Inr (target \<noteq> fk_targetColumns key ! index)))
                    (bindR (get_string acc part 3) (\<lambda>schema. Inr (schema \<noteq> currentSchema)))))) (\<lambda>differs.
         bindR (throwIf differs failure) (\<lambda>_. Inr (index + 1)))))"

definition rule_name :: "backend_type \<Rightarrow> string \<Rightarrow> string" where
  "rule_name backend value = (if backend \<noteq> Postgres \<and> value = ''NO ACTION'' then ''RESTRICT'' else value)"

definition check_foreign_key ::
  "('d, 'r) session_ops \<Rightarrow> backend_type \<Rightarrow> string \<Rightarrow> string \<Rightarrow> physical_foreign_key \<Rightarrow> ('d, unit) dbact" where
  "check_foreign_key ops backend currentSchema name key =
     bindA (rowsA ops (foreign_key_query backend) [(''table'', TextValue name), (''key'', TextValue (fk_name key))]) (\<lambda>parts.
     bindA (liftR (foldR (check_key_part ops currentSchema key) parts 0)) (\<lambda>index.
     thenA (failIf (index \<noteq> length (fk_columns key)) (''Source foreign key is missing: '' @ fk_name key))
     (bindA (fetchA ops (''SELECT delete_rule,update_rule FROM information_schema.referential_constraints WHERE ''
                           @ ''constraint_schema='' @ schema_function backend @ '' AND constraint_name=:key'')
               [(''key'', TextValue (fk_name key))] ([], [])
               (\<lambda>row. bindR (get_string (so_row ops) row 0) (\<lambda>d. bindR (get_string (so_row ops) row 1) (\<lambda>u. Inr (d, u)))))
        (\<lambda>(deleteRule, updateRule).
          failIf (rule_name backend deleteRule \<noteq> rule_name backend (fk_onDelete key)
                  \<or> rule_name backend updateRule \<noteq> rule_name backend (fk_onUpdate key))
            (''Source foreign key actions differ from its snapshot: '' @ fk_name key)))))"

definition index_query :: "backend_type \<Rightarrow> string" where
  "index_query backend =
     (if backend = Postgres
      then ''SELECT indexname FROM pg_indexes WHERE schemaname=current_schema() AND tablename=:name''
      else ''SELECT DISTINCT index_name FROM information_schema.statistics WHERE table_schema=DATABASE() ''
           @ ''AND table_name=:name'')"

definition index_definition_query :: "backend_type \<Rightarrow> string" where
  "index_definition_query backend =
     (if backend = Postgres
      then ''SELECT a.attname,CASE WHEN ix.indisunique THEN 'yes' ELSE 'no' END, ''
           @ ''CASE WHEN ix.indpred IS NULL THEN 'full' ELSE 'partial' END, ''
           @ ''CASE WHEN am.amname='btree' AND ix.indisvalid AND ix.indisready AND ix.indislive ''
           @ ''AND ix.indnkeyatts=ix.indnatts AND NOT ix.indnullsnotdistinct ''
           @ ''AND pg_index_column_has_property(i.oid,k.ord::int,'asc') IS TRUE ''
           @ ''AND pg_index_column_has_property(i.oid,k.ord::int,'nulls_last') IS TRUE ''
           @ ''AND opc.opcdefault AND opn.nspname='pg_catalog' ''
           @ ''AND ix.indcollation[(k.ord-1)::int]=a.attcollation ''
           @ ''THEN 'standard' ELSE 'unsupported' END FROM pg_index ix ''
           @ ''JOIN pg_class t ON t.oid=ix.indrelid JOIN pg_namespace n ON n.oid=t.relnamespace ''
           @ ''JOIN pg_class i ON i.oid=ix.indexrelid CROSS JOIN LATERAL unnest(ix.indkey) WITH ''
           @ ''ORDINALITY '' @ ''AS k(attnum,ord) LEFT JOIN pg_attribute a ON a.attrelid=t.oid AND a.attnum=k.attnum ''
           @ ''JOIN pg_am am ON am.oid=i.relam ''
           @ ''LEFT JOIN pg_opclass opc ON opc.oid=ix.indclass[(k.ord-1)::int] ''
           @ ''LEFT JOIN pg_namespace opn ON opn.oid=opc.opcnamespace ''
           @ ''WHERE n.nspname=current_schema() AND t.relname=:table AND i.relname=:index ORDER BY '' @ ''k.ord''
      else ''SELECT column_name,CASE WHEN non_unique=0 THEN 'yes' ELSE 'no' END, ''
           @ ''CASE WHEN sub_part IS NULL THEN 'full' ELSE 'partial' END, ''
           @ ''CASE WHEN collation='A' AND index_type='BTREE' AND ''
           @ (if backend = Mysql then ''is_visible='YES' '' else ''ignored='NO' '')
           @ ''THEN 'standard' ELSE 'unsupported' END FROM '' @ ''information_schema.statistics ''
           @ ''WHERE table_schema=DATABASE() AND table_name=:table AND index_name=:index ORDER BY '' @ ''seq_in_index'')"

definition check_index_part ::
  "('d, 'r) session_ops \<Rightarrow> string \<Rightarrow> string \<Rightarrow> bool \<Rightarrow> 'r \<Rightarrow> (exn, string) result" where
  "check_index_part ops name index unique part =
     (let acc = so_row ops
      in bindR (if is_null acc part 0 then Inr True
                else orR (bindR (get_string acc part 1) (\<lambda>flag. Inr ((flag = ''yes'') \<noteq> unique)))
                    (orR (bindR (get_string acc part 2) (\<lambda>cover. Inr (cover \<noteq> ''full'')))
                         (bindR (get_string acc part 3) (\<lambda>kind. Inr (kind \<noteq> ''standard''))))) (\<lambda>differs.
         bindR (throwIf differs (schemaFailure (''Source index differs from its snapshot: '' @ name @ ''.'' @ index)))
           (\<lambda>_. get_string acc part 0)))"

text \<open>What an index of the database should be: the primary key, an index of the snapshot, or neither.\<close>

definition expected_index_shape :: "backend_type \<Rightarrow> physical_table \<Rightarrow> string \<Rightarrow> (string list \<times> bool) option" where
  "expected_index_shape backend source index =
     (if index = tb_primaryKeyName source \<or> (backend \<noteq> Postgres \<and> index = ''PRIMARY'')
         \<or> find_index (tb_indexes source) index \<noteq> None
      then if index = tb_primaryKeyName source \<or> index = ''PRIMARY'' then Some (tb_primaryKey source, True)
           else (case find_index (tb_indexes source) index of
                   Some modeled \<Rightarrow> Some (ix_columns modeled, ix_unique modeled)
                 | None \<Rightarrow> None)
      else None)"

definition check_index ::
  "('d, 'r) session_ops \<Rightarrow> backend_type \<Rightarrow> physical_table \<Rightarrow> string \<Rightarrow> string \<Rightarrow> ('d, unit) dbact" where
  "check_index ops backend source name index =
     (case expected_index_shape backend source index of
        None \<Rightarrow> throwA (schemaFailure (''Unmanaged index blocks this migration: '' @ name @ ''.'' @ index))
      | Some (expectedColumns, unique) \<Rightarrow>
          bindA (rowsA ops (index_definition_query backend)
                   [(''table'', TextValue name), (''index'', TextValue index)]) (\<lambda>parts.
          bindA (liftR (mapR (check_index_part ops name index unique) parts)) (\<lambda>actual.
            failIf (actual \<noteq> expectedColumns)
              (''Source index columns differ from its snapshot: '' @ name @ ''.'' @ index))))"

definition check_indexes ::
  "('d, 'r) session_ops \<Rightarrow> backend_type \<Rightarrow> physical_table \<Rightarrow> string \<Rightarrow> ('d, unit) dbact" where
  "check_indexes ops backend source name =
     bindA (rowsA ops (index_query backend) (named name)) (\<lambda>rows.
     bindA (eachA ops rows (check_index ops backend source name)) (missing_index source))"

definition check_views :: "('d, 'r) session_ops \<Rightarrow> backend_type \<Rightarrow> string \<Rightarrow> ('d, unit) dbact" where
  "check_views ops backend name =
     bindA (if backend = Postgres
            then countA ops (''SELECT COUNT(*) FROM information_schema.view_table_usage WHERE table_schema=''
                               @ schema_function backend @ '' AND table_name=:name'') (named name)
            else countA ops ''SELECT COUNT(*) FROM information_schema.views WHERE table_schema=DATABASE()'' []) (\<lambda>views.
       failIf (views \<noteq> 0) (''Unmanaged view blocks this migration: '' @ name))"

definition native_source ::
  "('d, 'r) session_ops \<Rightarrow> backend_type \<Rightarrow> string \<Rightarrow> physical_table \<Rightarrow> string \<Rightarrow> ('d, unit) dbact" where
  "native_source ops backend currentSchema source name =
     thenA (if backend = Postgres then retA () else check_table_options ops backend name)
     (thenA (check_columns ops backend source name)
     (thenA (check_triggers ops backend name)
     (thenA (check_constraints ops backend source name)
     (thenA (check_primary_key ops backend source name)
     (thenA (forA (check_foreign_key ops backend currentSchema name) (tb_foreignKeys source))
     (thenA (check_indexes ops backend source name)
            (check_views ops backend name)))))))"

section \<open>The preflight of a migration\<close>

definition inbound_query :: "backend_type \<Rightarrow> string" where
  "inbound_query backend =
     (if backend = Postgres
      then ''SELECT n.nspname,t.relname,c.conname FROM pg_constraint c ''
           @ ''JOIN pg_class t ON t.oid=c.conrelid JOIN pg_namespace n ON n.oid=t.relnamespace ''
           @ ''WHERE c.contype='f' AND ''
           @ ''c.confrelid=to_regclass(quote_ident(current_schema())||'.'||quote_ident(:name))''
      else ''SELECT DISTINCT table_schema,table_name,constraint_name FROM information_schema.key_column_usage ''
           @ ''WHERE referenced_table_schema=DATABASE() AND referenced_table_name=:name'')"

definition check_inbound ::
  "('d, 'r) session_ops \<Rightarrow> string \<Rightarrow> physical_schema \<Rightarrow> string list \<Rightarrow> string \<Rightarrow> 'r \<Rightarrow> (exn, unit) result" where
  "check_inbound ops currentSchema source tables name key =
     bindR (get_string (so_row ops) key 1) (\<lambda>ownerName.
     bindR (get_string (so_row ops) key 2) (\<lambda>constraintName.
     bindR (get_string (so_row ops) key 0) (\<lambda>schema.
       throwIf (schema \<noteq> currentSchema
                \<or> (case find_table (sc_tables source) ownerName of
                     None \<Rightarrow> True
                   | Some owner \<Rightarrow> ownerName \<notin> set tables
                       \<or> \<not> (\<exists>k \<in> set (tb_foreignKeys owner). fk_name k = constraintName \<and> fk_targetTable k = name)))
         (schemaFailure (''Unmanaged incoming foreign key blocks this migration: '' @ ownerName @ ''.''
            @ constraintName)))))"

definition sqlite_rebuild_owner ::
  "('d, 'r) session_ops \<Rightarrow> physical_schema \<Rightarrow> string list \<Rightarrow> string \<Rightarrow> ('d, unit) dbact" where
  "sqlite_rebuild_owner ops source tables ownerName =
     (if find_table (sc_tables source) ownerName \<noteq> None then retA ()
      else bindA (rowsA ops ''SELECT \"table\" FROM pragma_foreign_key_list(:name)'' (named ownerName)) (\<lambda>keys.
           thenA (eachA ops keys (\<lambda>target. failIf (target \<in> set tables)
                    (''Unmanaged inbound foreign key blocks this rebuild: '' @ ownerName)))
                 (retA ())))"

definition sqlite_rebuild_preflight ::
  "('d, 'r) session_ops \<Rightarrow> physical_schema \<Rightarrow> execution_context \<Rightarrow> ('d, unit) dbact" where
  "sqlite_rebuild_preflight ops source context =
     bindA (countA ops ''SELECT COUNT(*) FROM main.sqlite_master WHERE type IN ('trigger','view')'' []) (\<lambda>objects.
     thenA (failIf (objects \<noteq> 0) ''SQLite rebuild requires explicit handling of unmanaged triggers and views'')
     (bindA (rowsA ops (''SELECT name FROM main.sqlite_master WHERE type='table' AND name NOT LIKE 'sqlite_%''
                          @ [squote]) []) (\<lambda>owners.
      thenA (eachA ops owners (sqlite_rebuild_owner ops source (ec_tables context)))
        (forA (\<lambda>mapping.
           bindA (countA ops ''SELECT COUNT(*) FROM main.sqlite_master WHERE name=:name'' (named (rt_staging mapping)))
             (\<lambda>collision. failIf (collision \<noteq> 0) (''SQLite rebuild staging name already exists: '' @ rt_staging mapping)))
           (ec_rebuildTables context)))))"

definition current_schema ::
  "('d, 'r) session_ops \<Rightarrow> backend_type \<Rightarrow> ('d, string) dbact" where
  "current_schema ops backend =
     (if backend = Sqlite then retA []
      else bindA (fetchA ops (if backend = Postgres then ''SELECT current_schema()'' else ''SELECT DATABASE()'') []
                    [] (\<lambda>row. get_string (so_row ops) row 0)) (\<lambda>currentSchema.
           bindA (countA ops (''SELECT COUNT(*) FROM information_schema.tables WHERE table_schema=''
                                @ schema_function backend @ '' AND LEFT(table_name,6)='__orm_'' @ [squote]) []) (\<lambda>reserved.
           thenA (failIf (reserved \<noteq> 0) ''Reserved migration staging objects already exist in the database'')
                 (retA currentSchema))))"

text \<open>The catalog has checked that every table of the footprint is in the source snapshot.\<close>

definition contextPreflight ::
  "('d, 'r) session_ops \<Rightarrow> backend_type \<Rightarrow> execution_context \<Rightarrow> ('d, unit) dbact" where
  "contextPreflight ops backend context =
     (case ec_source context of
        None \<Rightarrow> retA ()
      | Some source \<Rightarrow>
          bindA (current_schema ops backend) (\<lambda>currentSchema.
          thenA (forA (\<lambda>name.
                   let table = the (find_table (sc_tables source) name)
                   in if backend = Sqlite then sqlite_source ops table name
                      else native_source ops backend currentSchema table name) (ec_tables context))
          (thenA (if backend \<noteq> Sqlite \<and> ec_tables context \<noteq> []
                  then forA (\<lambda>name. bindA (rowsA ops (inbound_query backend) (named name)) (\<lambda>inbound.
                         liftR (forR (check_inbound ops currentSchema source (ec_tables context) name) inbound)))
                       (ec_tables context)
                  else retA ())
                 (if backend = Sqlite \<and> ec_mode context = SqliteRebuildMode
                  then sqlite_rebuild_preflight ops source context else retA ()))))"

section \<open>The values of the target\<close>

text \<open>
  The range of an integral column as the texts that the query compares with. \<^verbatim>\<open>char\<close> is signed, as on
  the platforms the project builds for.
\<close>

definition integral_range :: "backend_type \<Rightarrow> column_type \<Rightarrow> (string \<times> string) option" where
  "integral_range backend type =
     (case type of
        BoolT \<Rightarrow> Some (''0'', ''1'')
      | CharT \<Rightarrow> Some (''-128'', ''127'')
      | UnsignedCharT \<Rightarrow> Some (''0'', ''255'')
      | ShortT \<Rightarrow> Some (''-32768'', ''32767'')
      | UnsignedShortT \<Rightarrow> Some (''0'', ''65535'')
      | IntT \<Rightarrow> Some (''-2147483648'', ''2147483647'')
      | UnsignedIntT \<Rightarrow> Some (''0'', ''4294967295'')
      | LongLongT \<Rightarrow> Some (''-9223372036854775808'', ''9223372036854775807'')
      | UnsignedLongLongT \<Rightarrow>
          Some (''0'', if backend = Mysql \<or> backend = Mariadb then ''18446744073709551615'' else ''9223372036854775807'')
      | _ \<Rightarrow> None)"

definition parse_stored :: "backend_type \<Rightarrow> column_type \<Rightarrow> string \<Rightarrow> (exn, query_storage) result" where
  "parse_stored backend type text =
     (case type of
        DateT \<Rightarrow> bindR (parseDate text) (\<lambda>d. Inr (VDate d))
      | TimeOfDayT \<Rightarrow> bindR (parseTimeOfDay text) (\<lambda>t. Inr (VTimeOfDay t))
      | LocalDateTimeT \<Rightarrow> bindR (parseLocalDateTime text) (\<lambda>t. Inr (VLocalDateTime t))
      | UtcTimestampT \<Rightarrow>
          bindR (parseUtcTimestamp (if backend = Postgres then text else text @ ''+00:00'')) (\<lambda>t. Inr (VUtcTimestamp t))
      | _ \<Rightarrow> bindR (Uuid_parse text) (\<lambda>u. Inr (VUuid u)))"

definition validate_native :: "backend_type \<Rightarrow> query_storage \<Rightarrow> (exn, unit) result" where
  "validate_native backend stored =
     (case stored of
        VDate d \<Rightarrow> validateNative_Date d backend
      | VTimeOfDay t \<Rightarrow> validateNative_TimeOfDay t backend
      | VLocalDateTime t \<Rightarrow> validateNative_LocalDateTime t backend
      | VUtcTimestamp t \<Rightarrow> validateNative_UtcTimestamp t backend
      | VUuid u \<Rightarrow> validateNativeUuid u backend
      | _ \<Rightarrow> Inr ())"

definition check_stored ::
  "('d, 'r) session_ops \<Rightarrow> backend_type \<Rightarrow> runtime_limits \<Rightarrow> column_type \<Rightarrow> 'r \<Rightarrow> (exn, unit) result" where
  "check_stored ops backend limits type row =
     bindR (get_string (so_row ops) row 0) (\<lambda>text.
     bindR (parse_stored backend type text) (\<lambda>stored.
     bindR (throwIf (\<not> isWithinValueLimits type (Some stored) (so_value_limits ops) limits)
              (InvalidArgument ''Migrated value exceeds the backend domain''))
       (\<lambda>_. validate_native backend stored)))"

definition is_invalid_argument :: "exn \<Rightarrow> bool" where
  "is_invalid_argument e = (case e of InvalidArgument _ \<Rightarrow> True | _ \<Rightarrow> False)"

definition outside :: "string \<Rightarrow> physical_table \<Rightarrow> physical_column \<Rightarrow> exn" where
  "outside kind table column =
     schemaFailure (''Migrated '' @ kind @ '' are outside the target model domain: '' @ tb_name table @ ''.''
       @ pc_name column)"

definition stored_query :: "string \<Rightarrow> string \<Rightarrow> string" where
  "stored_query name table = ''SELECT '' @ name @ '' FROM '' @ table @ '' WHERE '' @ name @ '' IS NOT NULL''"

definition check_textual ::
  "('d, 'r) session_ops \<Rightarrow> backend_type \<Rightarrow> runtime_limits \<Rightarrow> physical_table \<Rightarrow> physical_column \<Rightarrow> string
   \<Rightarrow> ('d, unit) dbact" where
  "check_textual ops backend limits table column name =
     bindA (liftR (quoteIdentifier backend (tb_name table))) (\<lambda>tableName.
     bindA (rowsA ops (stored_query name tableName) []) (\<lambda>rows.
     catchA (liftR (forR (check_stored ops backend limits (pc_logicalType column)) rows))
       (\<lambda>e. throwA (if is_invalid_argument e then outside ''values'' table column else e))))"

definition check_floating ::
  "('d, 'r) session_ops \<Rightarrow> backend_type \<Rightarrow> physical_table \<Rightarrow> physical_column \<Rightarrow> string \<Rightarrow> ('d, unit) dbact" where
  "check_floating ops backend table column name =
     bindA (liftR (quoteIdentifier backend (tb_name table))) (\<lambda>tableName.
     thenA (if backend = Sqlite
            then bindA (fetchA ops (''SELECT COUNT(*) FROM '' @ tableName @ '' WHERE '' @ name @ '' IS NOT NULL AND typeof(''
                                      @ name @ '') NOT IN ('integer','real')'') [] 0 (\<lambda>row. get_long (so_row ops) row 0))
                   (\<lambda>invalid. failIf (invalid \<noteq> 0) ''Migrated floating values have incompatible storage'')
            else retA ())
     (bindA (rowsA ops (stored_query name tableName) []) (\<lambda>rows.
        liftR (forR (\<lambda>row. bindR (get_double (so_row ops) row 0) (\<lambda>w.
          throwIf (\<not> isfinite w \<or> (pc_logicalType column = FloatT \<and> \<not> float_exact w))
            (outside ''floating values'' table column))) rows))))"

definition check_integral ::
  "('d, 'r) session_ops \<Rightarrow> backend_type \<Rightarrow> physical_table \<Rightarrow> physical_column \<Rightarrow> string \<Rightarrow> string \<Rightarrow> string
   \<Rightarrow> ('d, unit) dbact" where
  "check_integral ops backend table column name minimum maximum =
     (let predicate = name @ '' < '' @ minimum @ '' OR '' @ name @ '' > '' @ maximum
                      @ (if backend = Sqlite then '' OR typeof('' @ name @ '') <> 'integer'' @ [squote] else [])
      in bindA (liftR (quoteIdentifier backend (tb_name table))) (\<lambda>tableName.
         bindA (fetchA ops (''SELECT COUNT(*) FROM '' @ tableName @ '' WHERE '' @ name @ '' IS NOT NULL AND ('' @ predicate
                              @ '')'') [] 0 (\<lambda>row. get_long (so_row ops) row 0)) (\<lambda>invalid.
           throwIfA (invalid \<noteq> 0) (outside ''values'' table column))))"

definition check_target_column ::
  "('d, 'r) session_ops \<Rightarrow> backend_type \<Rightarrow> runtime_limits \<Rightarrow> physical_table \<Rightarrow> physical_column \<Rightarrow> ('d, unit) dbact" where
  "check_target_column ops backend limits table column =
     bindA (liftR (quoteIdentifier backend (pc_name column))) (\<lambda>name.
       case pc_logicalType column of
         StringT \<Rightarrow> retA ()
       | FloatT \<Rightarrow> check_floating ops backend table column name
       | DoubleT \<Rightarrow> check_floating ops backend table column name
       | type \<Rightarrow>
           (case integral_range backend type of
              Some (minimum, maximum) \<Rightarrow>
                if type = BoolT \<and> backend = Postgres then retA ()
                else check_integral ops backend table column name minimum maximum
            | None \<Rightarrow> check_textual ops backend limits table column name))"

definition validateTargetValues ::
  "('d, 'r) session_ops \<Rightarrow> backend_type \<Rightarrow> execution_context \<Rightarrow> ('d, unit) dbact" where
  "validateTargetValues ops backend context =
     (case ec_target context of
        None \<Rightarrow> retA ()
      | Some target \<Rightarrow>
          thenA (getBackend ops)
          (bindA (sessionA (so_limits ops)) (\<lambda>limits.
             forA (\<lambda>table. forA (check_target_column ops backend limits table) (tb_columns table)) (sc_tables target))))"

end
