(* ===== verification/Orm_Migration_Protocol.thy ===== *)
theory Orm_Migration_Protocol
  imports Orm_Migration_State
begin

text \<open>
  Properties of the operations of \<open>Orm_Migration_State\<close>, for every session and engine: what a
  successful migration returns, the scoped objects a call leaves behind, the durable contents after
  a failure, and the marker of a nontransactional backend.
\<close>

section \<open>Success\<close>

lemma handlers_throw [simp]:
  "soci_handler ops backend version e db \<noteq> (Inr x, db')"
  "migration_handler ops backend version e db \<noteq> (Inr x, db')"
  "status_handler ops backend e db \<noteq> (Inr x, db')"
  by (auto simp: soci_handler_def migration_handler_def status_handler_def split: exn.splits)

lemma history_extended_Up: "history_extended Up expected actual \<Longrightarrow> \<exists>r. actual = expected @ [r]"
  by (cases actual rule: rev_cases) (auto simp: history_extended_def Let_def)

lemma history_extended_Down:
  assumes "history_extended Down expected actual"
  shows "expected \<noteq> [] \<and> actual = butlast expected"
proof -
  from assms have "int (length actual) = int (length expected) - 1" by (simp add: history_extended_def Let_def)
  with assms show ?thesis by (cases expected) (auto simp: history_extended_def Let_def butlast_conv_take)
qed

lemma apply_body_result:
  assumes "apply_body dump ops st m dir expected scripts sql preflight validateResult db = (Inr actual, db')"
  shows "history_extended dir expected actual \<and> history_matches dump (ms_catalog st) (ms_backend st) actual"
proof -
  from assms obtain status where "history_extended dir expected actual"
    "evaluate dump (ms_catalog st) (ms_backend st) actual None = Inr status" "requireValid status (ms_backend st) = Inr ()"
    by (auto simp: apply_body_def Let_def act_results split: if_splits)
  with evaluate_no_problems [of dump "ms_catalog st" "ms_backend st" actual status] show ?thesis
    by (simp add: requireValid_iff)
qed

lemma state_apply_result:
  assumes "state_apply dump ops st m dir expected preflight validateResult db = (Inr actual, db')"
  shows "history_extended dir expected actual \<and> history_matches dump (ms_catalog st) (ms_backend st) actual"
  using assms apply_body_result
  by (fastforce simp: state_apply_def with_write_def Let_def act_results)


section \<open>The scoped objects\<close>

text \<open>
  No transaction object is alive and the lock object is \<open>l\<close>; a transaction object is alive that
  will restore the flag \<open>a\<close>.
\<close>

definition held :: "bool \<Rightarrow> bool option \<Rightarrow> 'd database \<Rightarrow> bool" where
  "held a l db \<longleftrightarrow> db_migrationActive db = a \<and> db_scope db = None \<and> db_lock db = l"

definition inside :: "bool \<Rightarrow> bool option \<Rightarrow> 'd database \<Rightarrow> bool" where
  "inside a l db \<longleftrightarrow> (\<exists>finished. db_scope db = Some (finished, a)) \<and> db_lock db = l"

definition locked :: "'d database \<Rightarrow> bool" where
  "locked db \<longleftrightarrow> db_lock db \<noteq> None"

lemma keeps_sessionA [keeps_intros]: "(\<And>db d. P db \<Longrightarrow> P (db\<lparr>db_session := d\<rparr>)) \<Longrightarrow> keeps P (sessionA m)"
  by (rule keepsI) (auto simp: sessionA_def split: prod.splits)

lemma keeps_handlers [keeps_intros]:
  "keeps P (soci_handler ops backend version e)" "keeps P (migration_handler ops backend version e)"
  "keeps P (status_handler ops backend e)"
  by (auto simp: soci_handler_def migration_handler_def status_handler_def keeps_throwA split: exn.splits)

lemma keeps_option [keeps_intros]:
  "keeps P m \<Longrightarrow> (\<And>x. keeps P (f x)) \<Longrightarrow> keeps P (case o' of None \<Rightarrow> m | Some x \<Rightarrow> f x)"
  by (cases o') auto

lemma keeps_list [keeps_intros]:
  "keeps P m \<Longrightarrow> (\<And>x ys. keeps P (f x ys)) \<Longrightarrow> keeps P (case xs of [] \<Rightarrow> m | x # ys \<Rightarrow> f x ys)"
  by (cases xs) auto

lemma keeps_prod [keeps_intros]: "(\<And>x y. keeps P (f x y)) \<Longrightarrow> keeps P (case p of (x, y) \<Rightarrow> f x y)"
  by (cases p) auto

lemmas disconnect_defs = disconnect_def disconnect_rollback_def disconnect_close_def

lemma keeps_getBackend [keeps_intros]: "keeps P (getBackend ops)"
  unfolding getBackend_def by (intro keeps_intros)

text \<open>What does not depend on the connection survives a disconnect.\<close>

lemma keeps_disconnect [keeps_intros]:
  assumes "\<And>db d. P db \<Longrightarrow> P (db\<lparr>db_session := d\<rparr>)"
    and "\<And>db. P db \<Longrightarrow> P (db\<lparr>db_transaction := False, db_transactionFailed := False\<rparr>)"
    and "\<And>db. P db \<Longrightarrow> P (db\<lparr>db_backend := None, db_transactionFailed := False, db_migrationActive := False\<rparr>)"
  shows "keeps P (disconnect ops)"
  unfolding disconnect_defs by (intro keeps_intros assms)

lemma keeps_reads [keeps_intros]:
  assumes "\<And>db d. P db \<Longrightarrow> P (db\<lparr>db_session := d\<rparr>)"
  shows "keeps P (readHistory ops table)" "keeps P (readIncomplete ops table)"
    "keeps P (inspect dump ops st)" "keeps P (requireHistory ops st expected version)"
    "keeps P (requireMarker ops st marker message)" "keeps P (changeHistory dump ops st m dir)"
    "keeps P (clearMarker ops st version)" "keeps P (recordIncomplete dump ops journal m backend dir)"
    "keeps P (recordHistory dump ops table m backend b)"
  unfolding readHistory_def readIncomplete_def inspect_def requireHistory_def requireMarker_def changeHistory_def
    clearMarker_def recordIncomplete_def recordHistory_def
  by (intro keeps_intros assms; assumption?)+


lemma hoare_transaction_begin:
  "hoare (held a l) (transaction_begin ops table writing) (\<lambda>_. inside a l) (\<lambda>_. held a l)"
  by (rule hoareI)
    (auto simp: transaction_begin_def act_results sessionA_def getBackend_def held_def inside_def split: prod.splits if_splits)

lemma hoare_transaction_end: "hoare (inside a l) (transaction_end ops) (\<lambda>_. held a l) (\<lambda>_ _. True)"
proof (rule hoareI)
  fix db x db'
  assume db: "inside a l db" and run: "transaction_end ops db = (Inr x, db')"
  then obtain finished db1 where
    first: "(if finished then retA () else catchA (sessionA (so_rollback ops)) (\<lambda>_. disconnect ops)) db = (Inr (), db1)"
    and db': "db' = db1\<lparr>db_migrationActive := a, db_scope := None\<rparr>"
    by (auto simp: transaction_end_def inside_def act_results)
  have "keeps (\<lambda>db. db_lock db = l)
    (if finished then retA () else catchA (sessionA (so_rollback ops)) (\<lambda>_. disconnect ops))"
    by (intro keeps_intros) auto
  from keepsD [OF this _ first] db have "db_lock db1 = l" by (simp add: inside_def)
  with db' show "held a l db'" by (simp add: held_def)
qed simp

lemma keeps_with_transaction:
  assumes "keeps (inside a l) body"
  shows "keeps (held a l) (with_transaction ops table body)"
  unfolding keeps_hoare with_transaction_def
  by (rule hoare_thenA [OF hoare_transaction_begin],
      rule hoare_finallyA [OF assms [unfolded keeps_hoare]]) (rule hoare_transaction_end)+

lemma keeps_commit [keeps_intros]:
  "keeps (inside a l) (transaction_commit ops version)" "keeps locked (transaction_commit ops version)"
  unfolding transaction_commit_def finish_transaction_def
  by (intro keeps_intros; auto simp: inside_def locked_def)+

lemma inside_session [simp]: "inside a l (db\<lparr>db_session := d\<rparr>) = inside a l db"
  by (simp add: inside_def)

lemma locked_session [simp]: "locked (db\<lparr>db_session := d\<rparr>) = locked db"
  by (simp add: locked_def)

lemma keeps_status: "keeps (held a l) (state_status dump ops st)"
  unfolding state_status_def by (intro keeps_intros keeps_with_transaction) auto

text \<open>A write: whole migrations run inside one transaction, others under a lock.\<close>

definition afterwards :: "('d, 'r) session_ops \<Rightarrow> bool \<Rightarrow> 'd database \<Rightarrow> bool" where
  "afterwards ops a db \<longleftrightarrow> held a None db \<or> (nonTransactional ops \<and> held False None db)"

lemma hoare_with_write:
  assumes whole: "\<not> nonTransactional ops \<Longrightarrow> keeps (inside a None) body"
    and non: "nonTransactional ops \<Longrightarrow> keeps locked body"
  shows "hoare (held a None) (with_write ops table body) (\<lambda>_. afterwards ops a) (\<lambda>_. afterwards ops a)"
proof (cases "nonTransactional ops")
  case True
  have start: "hoare (held a None) (write_begin ops table) (\<lambda>_. locked) (\<lambda>_. afterwards ops a)"
    using True by (intro hoareI)
      (auto simp: afterwards_def write_begin_def lock_begin_def act_results sessionA_def getBackend_def held_def locked_def split: prod.splits)
  have lock_end: "hoare (\<lambda>db. locked db \<and> db_scope db = None) (lock_end ops table) (\<lambda>_. held False None) (\<lambda>_ _. True)"
  proof (rule hoareI)
    fix db x db'
    assume db: "locked db \<and> db_scope db = None" and run: "lock_end ops table db = (Inr x, db')"
    have kept: "keeps (\<lambda>db. db_scope db = None) (catchA (bindA (getA (isConnected ops)) (\<lambda>connected.
                    if \<not> connected then disconnect ops
                    else if \<not> finished then thenA (getBackend ops) (sessionA (so_end_migration ops table))
                    else retA ()))
                  (\<lambda>_. catchA (disconnect ops) (\<lambda>_. retA ())))" for finished
      by (intro keeps_intros) auto
    from run db keepsD [OF kept] show "held False None db'"
      by (fastforce simp: lock_end_def locked_def held_def thenA_Inr bindA_Inr [of "getA db_lock"])
  qed simp
  have tx_end: "hoare locked (transaction_end ops) (\<lambda>_ db. locked db \<and> db_scope db = None) (\<lambda>_ _. True)"
  proof (rule hoareI)
    fix db x db'
    assume db: "locked db" and run: "transaction_end ops db = (Inr x, db')"
    have "keeps locked (transaction_end ops)"
      unfolding transaction_end_def by (intro keeps_intros; auto simp: locked_def)
    from keepsD [OF this db run] run show "locked db' \<and> db_scope db' = None"
      by (auto simp: transaction_end_def act_results split: option.splits)
  qed simp
  from True non show ?thesis
    unfolding keeps_hoare with_write_def write_end_def
    by (intro hoare_thenA [OF start] hoare_finallyA [where R = "\<lambda>_. locked" and D = "\<lambda>_. locked"]
        hoare_thenA [OF tx_end] hoare_weaken [OF lock_end]) (auto simp: afterwards_def)
next
  case False
  have start: "hoare (held a None) (write_begin ops table) (\<lambda>_. inside a None) (\<lambda>_. held a None)"
    unfolding write_begin_def using False
    by (auto intro!: hoare_thenA [OF keeps_getBackend [unfolded keeps_hoare]] hoare_transaction_begin)
  have lock_end: "hoare (held a None) (lock_end ops table) (\<lambda>_. held a None) (\<lambda>_ _. True)"
    by (rule hoareI) (auto simp: lock_end_def act_results held_def)
  have "keeps (held a None) (with_write ops table body)"
    unfolding keeps_hoare with_write_def write_end_def
    by (rule hoare_thenA [OF start], rule hoare_finallyA [OF whole [OF False, unfolded keeps_hoare]])
      (rule hoare_thenA [OF hoare_transaction_end lock_end])+
  then show ?thesis unfolding keeps_hoare by (rule hoare_weaken) (auto simp: afterwards_def)
qed

lemma keeps_with_write:
  assumes "\<not> nonTransactional ops \<Longrightarrow> keeps (inside a None) body"
    and "nonTransactional ops \<Longrightarrow> \<not> a \<and> keeps locked body"
  shows "keeps (held a None) (with_write ops table body)"
proof -
  have "hoare (held a None) (with_write ops table body) (\<lambda>_. afterwards ops a) (\<lambda>_. afterwards ops a)"
    using assms by (intro hoare_with_write) auto
  then show ?thesis
    unfolding keeps_hoare by (rule hoare_weaken) (use assms(2) in \<open>auto simp: afterwards_def\<close>)
qed

definition unheld :: "'d database \<Rightarrow> bool" where
  "unheld db \<longleftrightarrow> db_scope db = None \<and> db_lock db = None"

lemma unheld_iff: "unheld db \<longleftrightarrow> held (db_migrationActive db) None db"
  by (simp add: unheld_def held_def)

lemma unheld_with_write:
  assumes "\<And>a. \<not> nonTransactional ops \<Longrightarrow> keeps (inside a None) body"
    and "nonTransactional ops \<Longrightarrow> keeps locked body"
  shows "keeps unheld (with_write ops table body)"
proof (rule keepsI)
  fix db r db' assume db: "unheld db" "with_write ops table body db = (r, db')" "r \<noteq> Inl Terminate"
  let ?a = "db_migrationActive db"
  have h: "hoare (held ?a None) (with_write ops table body) (\<lambda>_. afterwards ops ?a) (\<lambda>_. afterwards ops ?a)"
    using assms by (intro hoare_with_write) auto
  have "afterwards ops ?a db'"
    using db hoare_Inr [OF h] hoare_Inl [OF h] by (cases r) (auto simp: unheld_iff)
  then show "unheld db'" by (auto simp: afterwards_def held_def unheld_def)
qed

text \<open>The bodies of the writes keep the scope they run in.\<close>

lemma keeps_beginHistory [keeps_intros]:
  "keeps (inside a None) (beginHistory ops table)" "keeps locked (beginHistory ops table)"
proof -
  show "keeps (inside a None) (beginHistory ops table)"
    by (rule keepsI) (auto simp: beginHistory_def bindA_def inside_def)
  show "keeps locked (beginHistory ops table)"
    unfolding beginHistory_def transaction_begin_def by (intro keeps_intros; auto simp: locked_def)
qed

lemma keeps_write_commit [keeps_intros]:
  "keeps (inside a None) (write_commit ops table version)" "keeps locked (write_commit ops table version)"
proof -
  have "hoare (inside a None) (bindA (getA db_lock) (\<lambda>lock. if lock \<noteq> None then lock_finish ops table else retA ()))
     (\<lambda>_. inside a None) (\<lambda>_. inside a None)"
    by (rule hoareI) (auto simp: act_results inside_def)
  then show "keeps (inside a None) (write_commit ops table version)"
    unfolding write_commit_def keeps_hoare
    by (rule hoare_thenA [OF keeps_commit(1) [unfolded keeps_hoare]])
  show "keeps locked (write_commit ops table version)"
    unfolding write_commit_def lock_finish_def by (intro keeps_intros; auto simp: locked_def)
qed

definition scoped :: "('d, 'a) dbact \<Rightarrow> bool" where
  "scoped m \<longleftrightarrow> (\<forall>a. keeps (inside a None) m) \<and> keeps locked m"

lemma scoped_keeps: "scoped m \<Longrightarrow> keeps (inside a None) m" "scoped m \<Longrightarrow> keeps locked m"
  by (simp_all add: scoped_def)

lemma keeps_locked_with_transaction [keeps_intros]:
  "keeps locked body \<Longrightarrow> keeps locked (with_transaction ops table body)"
  unfolding with_transaction_def transaction_begin_def transaction_end_def
  by (intro keeps_intros; (assumption | simp add: locked_def))

lemmas body_defs = apply_body_def prepare_marker_def write_marker_def Let_def

lemma keeps_apply_body:
  assumes "scoped preflight" "scoped validateResult"
  shows "nonTransactional ops \<Longrightarrow>
      keeps locked (apply_body dump ops st m dir expected scripts sql preflight validateResult)"
    "\<not> nonTransactional ops \<Longrightarrow>
      keeps (inside a None) (apply_body dump ops st m dir expected scripts sql preflight validateResult)"
  unfolding body_defs
  by (simp_all, intro keeps_intros scoped_keeps assms; simp)+

lemma keeps_state_apply:
  assumes "scoped preflight" "scoped validateResult" "nonTransactional ops \<Longrightarrow> \<not> a"
  shows "keeps (held a None) (state_apply dump ops st m dir expected preflight validateResult)"
  unfolding state_apply_def Let_def
  by (intro keeps_intros keeps_with_write keeps_apply_body conjI assms)

lemma unheld_state_apply:
  assumes "scoped preflight" "scoped validateResult"
  shows "keeps unheld (state_apply dump ops st m dir expected preflight validateResult)"
  unfolding state_apply_def Let_def
  by (intro keeps_intros unheld_with_write keeps_apply_body assms)

lemma keeps_state_baseline: "(nonTransactional ops \<Longrightarrow> \<not> a) \<Longrightarrow> keeps (held a None) (state_baseline dump ops st target)"
  unfolding state_baseline_def baseline_body_def state_plan_def
  by (intro keeps_intros keeps_with_write keeps_status conjI; simp)

lemma keeps_state_resolve:
  "(nonTransactional ops \<Longrightarrow> \<not> a) \<Longrightarrow> keeps (held a None) (state_resolve dump ops st version digest resolution)"
  unfolding state_resolve_def resolve_body_def Let_def
  by (intro keeps_intros keeps_with_write keeps_status conjI; simp)

section \<open>Atomicity\<close>

text \<open>
  A condition on the session that every operation of it but \<^verbatim>\<open>commit\<close> and the execution of scripts
  keeps.
\<close>

definition quiet :: "('d, 'r) session_ops \<Rightarrow> ('d \<Rightarrow> bool) \<Rightarrow> bool" where
  "quiet ops P \<longleftrightarrow>
     keeps P (so_close ops) \<and> keeps P (so_rollback ops) \<and> keeps P (so_begin ops) \<and>
     (\<forall>t. keeps P (so_begin_migration ops t)) \<and> (\<forall>t. keeps P (so_end_migration ops t)) \<and>
     (\<forall>t. keeps P (so_history_exists ops t)) \<and> (\<forall>t. keeps P (so_create_history ops t)) \<and>
     (\<forall>t. keeps P (so_journal_table ops t)) \<and> (\<forall>sql ps. keeps P (so_select ops sql ps)) \<and>
     (\<forall>sql ps. keeps P (so_run ops sql ps))"

text \<open>
  What a transactional engine promises of the contents that survive a crash: nothing but a commit
  changes them.
\<close>

definition transactional :: "('d, 'r) session_ops \<Rightarrow> ('d \<Rightarrow> 'x) \<Rightarrow> bool" where
  "transactional ops durable \<longleftrightarrow>
     (\<forall>x. quiet ops (\<lambda>d. durable d = x) \<and> (\<forall>sql v. keeps (\<lambda>d. durable d = x) (so_execute ops sql v)))"

text \<open>Closing a session does not fail.\<close>

definition closes :: "('d, 'r) session_ops \<Rightarrow> bool" where
  "closes ops \<longleftrightarrow> (\<forall>d. fst (so_close ops d) = Inr ())"

definition uncertain :: "exn \<Rightarrow> bool" where
  "uncertain e = (case e of MigrationError CommitUncertain _ _ _ _ \<Rightarrow> True | _ \<Rightarrow> False)"

text \<open>A condition on the session together with one on the members of the database.\<close>

definition on :: "('d \<Rightarrow> bool) \<Rightarrow> ('d database \<Rightarrow> bool) \<Rightarrow> 'd database \<Rightarrow> bool" where
  "on P R db \<longleftrightarrow> P (db_session db) \<and> R db"

definition local :: "('d database \<Rightarrow> bool) \<Rightarrow> bool" where
  "local R \<longleftrightarrow> (\<forall>db d. R (db\<lparr>db_session := d\<rparr>) = R db)"

lemma on_sessionA:
  assumes "keeps P m" "local R"
  shows "keeps (on P R) (sessionA m)"
proof (rule keepsI)
  fix db r db' assume db: "on P R db" "sessionA m db = (r, db')" "r \<noteq> Inl Terminate"
  then obtain d where d: "m (db_session db) = (r, d)" "db' = db\<lparr>db_session := d\<rparr>"
    by (auto simp: sessionA_def split: prod.splits)
  with keepsD [OF assms(1) _ d(1) db(3)] db(1) assms(2) show "on P R db'" by (simp add: on_def local_def)
qed

lemma on_ops:
  assumes "quiet ops P" "local R"
  shows "keeps (on P R) (sessionA (so_close ops))" "keeps (on P R) (sessionA (so_rollback ops))"
    "keeps (on P R) (sessionA (so_begin ops))" "keeps (on P R) (sessionA (so_begin_migration ops t))"
    "keeps (on P R) (sessionA (so_end_migration ops t))" "keeps (on P R) (sessionA (so_history_exists ops t))"
    "keeps (on P R) (sessionA (so_create_history ops t))" "keeps (on P R) (sessionA (so_journal_table ops t))"
    "keeps (on P R) (sessionA (so_select ops sql ps))" "keeps (on P R) (sessionA (so_run ops sql ps))"
  using assms by (simp_all add: quiet_def on_sessionA)

lemma on_reads:
  assumes "quiet ops P" "local R"
  shows "keeps (on P R) (readHistory ops table)" "keeps (on P R) (readIncomplete ops table)"
    "keeps (on P R) (inspect dump ops st)" "keeps (on P R) (requireHistory ops st expected version)"
    "keeps (on P R) (requireMarker ops st marker message)" "keeps (on P R) (changeHistory dump ops st m dir)"
    "keeps (on P R) (clearMarker ops st version)" "keeps (on P R) (recordIncomplete dump ops journal m backend dir)"
    "keeps (on P R) (recordHistory dump ops table m backend b)"
  unfolding readHistory_def readIncomplete_def inspect_def requireHistory_def requireMarker_def changeHistory_def
    clearMarker_def recordIncomplete_def recordHistory_def
  by (intro keeps_intros on_ops [OF assms])+

text \<open>The durable contents are \<open>x\<close>, no application transaction is open and no lock is held.\<close>

abbreviation steady :: "('d \<Rightarrow> 'x) \<Rightarrow> 'x \<Rightarrow> 'd database \<Rightarrow> bool" where
  "steady durable x \<equiv> on (\<lambda>d. durable d = x) (\<lambda>db. \<not> db_transaction db \<and> db_lock db = None)"

lemmas steady_def = on_def

lemma steady_local: "local (\<lambda>db. \<not> db_transaction db \<and> db_lock db = None)"
  by (simp add: local_def)

lemma steady_ops:
  assumes "transactional ops durable"
  shows "keeps (steady durable x) (sessionA (so_close ops))" "keeps (steady durable x) (sessionA (so_rollback ops))"
    "keeps (steady durable x) (sessionA (so_begin ops))" "keeps (steady durable x) (sessionA (so_begin_migration ops t))"
    "keeps (steady durable x) (sessionA (so_execute ops sql v))"
    "keeps (steady durable x) (sessionA (so_create_history ops t))"
  using assms by (simp_all add: transactional_def quiet_def on_sessionA steady_local)

lemma transactional_quiet: "transactional ops durable \<Longrightarrow> quiet ops (\<lambda>d. durable d = x)"
  by (simp add: transactional_def)

lemma disconnect_runs:
  assumes "closes ops" "\<not> db_transaction db"
  shows "disconnect ops db = (Inr (), if db_backend db = None then db else
      db\<lparr>db_session := snd (so_close ops (db_session db)), db_backend := None, db_transactionFailed := False,
         db_migrationActive := False\<rparr>)"
proof -
  have close: "sessionA (so_close ops) db = (Inr (), db\<lparr>db_session := snd (so_close ops (db_session db))\<rparr>)" for db
    using assms(1) by (auto simp: closes_def sessionA_def split: prod.splits) (metis fst_conv snd_conv)+
  then show ?thesis
    using assms(2) by (auto simp: disconnect_defs bindA_def thenA_def catchA_def split: option.splits)
qed

text \<open>Disconnecting keeps what the session's close keeps.\<close>

lemma disconnect_on:
  assumes "closes ops" "quiet ops P" "\<And>db d b. R db \<Longrightarrow> R (db\<lparr>db_session := d, db_backend := None,
      db_transactionFailed := False, db_migrationActive := b\<rparr>)" "\<And>db. R db \<Longrightarrow> \<not> db_transaction db"
  shows "keeps (on P R) (disconnect ops)"
proof (rule keepsI)
  fix db r db' assume db: "on P R db" "disconnect ops db = (r, db')"
  have "P (snd (so_close ops (db_session db)))"
    using assms(1,2) db(1) by (auto simp: quiet_def keeps_def closes_def on_def)
  with db assms(3,4) disconnect_runs [OF assms(1), of db] show "on P R db'"
    by (auto simp: on_def split: if_splits)
qed


lemma disconnect_steady:
  assumes "transactional ops durable" "closes ops"
  shows "hoare (\<lambda>db. \<not> db_transaction db) (disconnect ops) (\<lambda>_ _. True) (\<lambda>_ _. False)"
    and "keeps (steady durable x) (disconnect ops)"
proof -
  show "hoare (\<lambda>db. \<not> db_transaction db) (disconnect ops) (\<lambda>_ _. True) (\<lambda>_ _. False)"
    using disconnect_runs [OF assms(2)] by (intro hoareI) auto
  show "keeps (steady durable x) (disconnect ops)"
    by (rule disconnect_on [OF assms(2) transactional_quiet [OF assms(1)]]) auto
qed

lemma commit_steady:
  assumes "transactional ops durable" "closes ops"
  shows "hoare (steady durable x) (transaction_commit ops version) (\<lambda>_ db. db_lock db = None) (\<lambda>e _. uncertain e)"
proof -
  have commit: "hoare (steady durable x) (thenA (sessionA (so_commit ops version)) finish_transaction)
      (\<lambda>_ db. db_lock db = None) (\<lambda>_ db. \<not> db_transaction db)"
    by (rule hoareI) (auto simp: act_results finish_transaction_def sessionA_def steady_def split: prod.splits)
  have handler: "hoare (\<lambda>db. \<not> db_transaction db) (thenA (disconnect ops) (thenA finish_transaction
      (throwA (MigrationError CommitUncertain m v b None)))) Q (\<lambda>e _. uncertain e)" for m v b and Q :: "unit \<Rightarrow> 'a database \<Rightarrow> bool"
    by (rule hoare_thenA [OF hoare_weaken [OF disconnect_steady(1) [OF assms]]])
      (auto simp: finish_transaction_def act_results uncertain_def intro!: hoareI)
  show ?thesis
    unfolding transaction_commit_def
    by (rule hoare_bindA [where R = "\<lambda>_. steady durable x"], rule hoare_getA, assumption)
      (rule hoare_catchA [OF commit handler])
qed

lemma uncertain_handler [simp]: "uncertain e \<Longrightarrow> migration_handler ops b v e db = (Inl e', db') \<Longrightarrow> uncertain e'"
  by (auto simp: migration_handler_def uncertain_def split: exn.splits)

text \<open>A failed write of a whole migration leaves the durable contents alone, or its commit failed.\<close>

definition unchanged :: "('d \<Rightarrow> 'x) \<Rightarrow> 'x \<Rightarrow> exn \<Rightarrow> 'd database \<Rightarrow> bool" where
  "unchanged durable x e db \<longleftrightarrow> steady durable x db \<or> uncertain e"

lemma steady_unchanged:
  "keeps (steady durable x) m \<Longrightarrow> hoare (steady durable x) m (\<lambda>_. steady durable x) (unchanged durable x)"
  unfolding keeps_hoare by (erule hoare_weaken) (auto simp: unchanged_def)

lemma write_commit_steady:
  assumes "transactional ops durable" "closes ops"
  shows "hoare (steady durable x) (write_commit ops table version) (\<lambda>_ _. True) (unchanged durable x)"
  unfolding write_commit_def
proof (rule hoare_thenA [where R = "\<lambda>db. db_lock db = None"])
  show "hoare (steady durable x) (transaction_commit ops version) (\<lambda>_ db. db_lock db = None) (unchanged durable x)"
    by (rule hoare_weaken [OF commit_steady [OF assms]]) (auto simp: unchanged_def)
qed (rule hoareI; auto simp: act_results)

lemmas steady_thenA = hoare_thenA [OF steady_unchanged]
lemmas steady_bindA = hoare_bindA [OF steady_unchanged]

definition opened :: "('d \<Rightarrow> 'x) \<Rightarrow> 'x \<Rightarrow> 'd database \<Rightarrow> bool" where
  "opened durable x db \<longleftrightarrow> steady durable x db \<and> db_scope db \<noteq> None"

lemma apply_body_steady:
  assumes "transactional ops durable" "closes ops" "\<not> nonTransactional ops"
    and "keeps (steady durable x) preflight" "keeps (steady durable x) validateResult"
  shows "hoare (opened durable x) (apply_body dump ops st m dir expected scripts sql preflight validateResult)
    (\<lambda>_ _. True) (unchanged durable x)"
proof -
  have skip: "hoare (opened durable x) (retA ()) (\<lambda>_. opened durable x) (unchanged durable x)"
    by (rule hoareI) auto
  have scope: "hoare (opened durable x) (beginHistory ops (ms_table st)) (\<lambda>_. steady durable x) (unchanged durable x)"
    by (rule hoareI) (auto simp: act_results beginHistory_def opened_def)
  have final: "hoare (\<lambda>db. True) (retA actual) (\<lambda>_ _. True) (unchanged durable x)" for actual
    by (rule hoareI) auto
  show ?thesis
    unfolding apply_body_def Let_def if_not_P [OF assms(3)]
    by (intro hoare_thenA [OF skip] hoare_thenA [OF scope] hoare_thenA [OF write_commit_steady [OF assms(1,2)] final]
        steady_thenA steady_bindA keeps_intros on_reads [OF transactional_quiet [OF assms(1)] steady_local] steady_ops [OF assms(1)] assms(4,5))
qed

lemma state_apply_steady:
  assumes "transactional ops durable" "closes ops" "\<not> nonTransactional ops"
    and "keeps (steady durable x) preflight" "keeps (steady durable x) validateResult"
  shows "hoare (steady durable x) (state_apply dump ops st m dir expected preflight validateResult)
    (\<lambda>_ _. True) (unchanged durable x)"
proof -
  have open_scope: "hoare (steady durable x) (modifyA (\<lambda>db. db\<lparr>db_migrationActive := True, db_scope := Some s\<rparr>))
      (\<lambda>_. opened durable x) (unchanged durable x)" for s
    by (rule hoareI) (auto simp: opened_def steady_def)
  have start: "hoare (steady durable x) (write_begin ops table) (\<lambda>_. opened durable x) (unchanged durable x)" for table
    unfolding write_begin_def transaction_begin_def if_not_P [OF assms(3)] if_True
    by (intro steady_thenA steady_bindA keeps_intros steady_ops [OF assms(1)] open_scope)
  have tx_end: "keeps (steady durable x) (transaction_end ops)"
    unfolding transaction_end_def
    by (intro keeps_intros steady_ops [OF assms(1)] disconnect_steady [OF assms(1,2)]) (simp add: steady_def)
  have stop: "hoare (unchanged durable x e) (write_end ops table) (\<lambda>_. unchanged durable x e) (\<lambda>_ _. True)" for e table
  proof (rule hoareI)
    fix db u db' assume db: "unchanged durable x e db" and run: "write_end ops table db = (Inr u, db')"
    show "unchanged durable x e db'"
    proof (cases "uncertain e")
      case False
      with db have "steady durable x db" by (simp add: unchanged_def)
      moreover from run obtain db1 where db1: "transaction_end ops db = (Inr (), db1)" "lock_end ops table db1 = (Inr (), db')"
        by (auto simp: write_end_def act_results)
      ultimately have "steady durable x db1" using keepsD [OF tx_end] by blast
      with db1(2) have "steady durable x db'" by (auto simp: lock_end_def act_results steady_def)
      then show ?thesis by (simp add: unchanged_def)
    qed (simp add: unchanged_def)
  qed simp
  have handled: "hoare (unchanged durable x e) (migration_handler ops b v e) (\<lambda>_ _. True) (unchanged durable x)" for b v e
    by (rule hoareI) (auto simp: unchanged_def migration_handler_def soci_handler_def uncertain_def split: exn.splits)
  show ?thesis
    unfolding state_apply_def with_write_def Let_def
    by (rule hoare_catchA [OF _ handled], intro steady_bindA keeps_intros hoare_thenA [OF start],
        rule hoare_finallyA [OF apply_body_steady [OF assms] _ stop]) (simp add: hoare_def split: prod.splits sum.splits)
qed

section \<open>The marker of a nontransactional backend\<close>

text \<open>
  What the journal of a nontransactional engine promises. \<open>dm\<close> is the marker that survives a crash,
  \<open>vis\<close> the marker the session sees, \<open>begun\<close> whether a script was started. Only a commit changes the
  durable marker, to the one the session sees; only the execution of a script starts a script; and
  reading the journal returns the marker the session sees.
\<close>

definition journaled ::
  "('d, 'r) session_ops \<Rightarrow> string \<Rightarrow> ('d \<Rightarrow> incomplete_migration option) \<Rightarrow> ('d \<Rightarrow> incomplete_migration option)
   \<Rightarrow> ('d \<Rightarrow> bool) \<Rightarrow> bool" where
  "journaled ops table dm vis begun \<longleftrightarrow>
     (\<forall>x. quiet ops (\<lambda>d. dm d = x) \<and> (\<forall>sql v. keeps (\<lambda>d. dm d = x) (so_execute ops sql v))) \<and>
     quiet ops (\<lambda>d. \<not> begun d) \<and> (\<forall>v. keeps (\<lambda>d. \<not> begun d) (so_commit ops v)) \<and>
     (\<forall>v d d'. so_commit ops v d = (Inr (), d') \<longrightarrow> dm d' = vis d) \<and>
     (\<forall>db db' marker. readIncomplete ops table db = (Inr marker, db') \<longrightarrow> vis (db_session db') = marker)"

text \<open>After a commit the session is still connected, and releasing the lock does not fail.\<close>

definition releases :: "('d, 'r) session_ops \<Rightarrow> bool" where
  "releases ops \<longleftrightarrow>
     (\<forall>t d. fst (so_end_migration ops t d) = Inr ()) \<and>
     (\<forall>v d d'. so_commit ops v d = (Inr (), d') \<longrightarrow> so_is_connected ops d')"

definition ready_db :: "'d database \<Rightarrow> bool" where
  "ready_db db \<longleftrightarrow> \<not> db_transaction db \<and> db_backend db \<noteq> None"

text \<open>Before the script is started, and afterwards with the marker in place.\<close>

abbreviation unstarted :: "('d \<Rightarrow> bool) \<Rightarrow> 'd database \<Rightarrow> bool" where
  "unstarted begun \<equiv> on (\<lambda>d. \<not> begun d) ready_db"

abbreviation marked :: "('d \<Rightarrow> incomplete_migration option) \<Rightarrow> incomplete_migration \<Rightarrow> 'd database \<Rightarrow> bool" where
  "marked dm mk \<equiv> on (\<lambda>d. dm d = Some mk) ready_db"

text \<open>What an error may leave behind: a started script has its marker, or a commit failed.\<close>

definition traced ::
  "('d \<Rightarrow> incomplete_migration option) \<Rightarrow> ('d \<Rightarrow> bool) \<Rightarrow> incomplete_migration \<Rightarrow> 'd \<Rightarrow> bool" where
  "traced dm begun mk d \<longleftrightarrow> \<not> begun d \<or> dm d = Some mk"

abbreviation recorded ::
  "('d \<Rightarrow> incomplete_migration option) \<Rightarrow> ('d \<Rightarrow> bool) \<Rightarrow> incomplete_migration \<Rightarrow> 'd database \<Rightarrow> bool" where
  "recorded dm begun mk \<equiv> on (traced dm begun mk) (\<lambda>db. \<not> db_transaction db)"

definition accounted ::
  "('d \<Rightarrow> incomplete_migration option) \<Rightarrow> ('d \<Rightarrow> bool) \<Rightarrow> incomplete_migration \<Rightarrow> exn \<Rightarrow> 'd database \<Rightarrow> bool" where
  "accounted dm begun mk e db \<longleftrightarrow> recorded dm begun mk db \<or> uncertain e"

lemma ready_local: "local ready_db"
  by (simp add: local_def ready_db_def)

lemma started_accounted:
  "keeps (unstarted begun) m \<Longrightarrow> hoare (unstarted begun) m (\<lambda>_. unstarted begun) (accounted dm begun mk)"
  "keeps (marked dm mk) m \<Longrightarrow> hoare (marked dm mk) m (\<lambda>_. marked dm mk) (accounted dm begun mk)"
  unfolding keeps_hoare by (erule hoare_weaken; auto simp: accounted_def on_def traced_def ready_db_def)+

lemmas unstarted_thenA = hoare_thenA [OF started_accounted(1)]
lemmas unstarted_bindA = hoare_bindA [OF started_accounted(1)]
lemmas marked_thenA = hoare_thenA [OF started_accounted(2)]
lemmas marked_bindA = hoare_bindA [OF started_accounted(2)]

lemma journaled_quiet:
  assumes "journaled ops table dm vis begun"
  shows "quiet ops (\<lambda>d. dm d = x)" "quiet ops (\<lambda>d. \<not> begun d)" "quiet ops (traced dm begun mk)"
proof -
  have *: "quiet ops (\<lambda>d. dm d = x)" "quiet ops (\<lambda>d. \<not> begun d)" for x using assms by (simp_all add: journaled_def)
  show "quiet ops (\<lambda>d. dm d = x)" "quiet ops (\<lambda>d. \<not> begun d)" by (rule *)+
  show "quiet ops (traced dm begun mk)"
    using *(1) [of "Some mk"] *(2) unfolding quiet_def traced_def by (intro conjI allI keeps_disj) simp_all
qed

lemma commit_returns:
  assumes "closes ops" "\<not> db_transaction db"
  shows "transaction_commit ops v db = (Inl e, db') \<Longrightarrow> e \<noteq> Terminate \<Longrightarrow> uncertain e"
    and "transaction_commit ops v db = (Inr u, db') \<Longrightarrow> so_commit ops v (db_session db) = (Inr (), db_session db') \<and>
      db' = db\<lparr>db_session := db_session db', db_scope := map_option (\<lambda>(_, previous). (True, previous)) (db_scope db)\<rparr>"
proof -
  obtain r d where commit: "so_commit ops v (db_session db) = (r, d)" by fastforce
  have run: "transaction_commit ops v db = (case r of
      Inr _ \<Rightarrow> (Inr (), db\<lparr>db_session := d, db_scope := map_option (\<lambda>(_, previous). (True, previous)) (db_scope db)\<rparr>)
    | Inl e \<Rightarrow> if e = Terminate then (Inl e, db\<lparr>db_session := d\<rparr>)
        else (Inl (MigrationError CommitUncertain ''Migration commit outcome is uncertain; reconnect and inspect history''
          v (backendType db) None), snd (thenA (disconnect ops) finish_transaction (db\<lparr>db_session := d\<rparr>))))"
    using disconnect_runs [OF assms(1), of "db\<lparr>db_session := d\<rparr>"] assms(2)
    by (auto simp: transaction_commit_def bindA_def thenA_def catchA_def sessionA_def commit finish_transaction_def
        split: sum.splits prod.splits)
  show "uncertain e" if "transaction_commit ops v db = (Inl e, db')" "e \<noteq> Terminate"
    using that run by (auto simp: uncertain_def split: sum.splits if_splits)
  show "so_commit ops v (db_session db) = (Inr (), db_session db') \<and>
      db' = db\<lparr>db_session := db_session db', db_scope := map_option (\<lambda>(_, previous). (True, previous)) (db_scope db)\<rparr>"
    if "transaction_commit ops v db = (Inr u, db')"
    using that run commit by (auto split: sum.splits if_splits)
qed


lemma commit_hoare:
  assumes "closes ops" "\<And>db. P db \<Longrightarrow> \<not> db_transaction db"
    and "\<And>db d v. P db \<Longrightarrow> so_commit ops v (db_session db) = (Inr (), d) \<Longrightarrow>
      Q (db\<lparr>db_session := d, db_scope := map_option (\<lambda>(_, previous). (True, previous)) (db_scope db)\<rparr>)"
  shows "hoare P (transaction_commit ops version) (\<lambda>_. Q) (accounted dm begun mk)"
proof (rule hoareI)
  fix db u db' assume db: "P db" "transaction_commit ops version db = (Inr u, db')"
  note result = commit_returns(2) [OF assms(1) assms(2) [OF db(1)] db(2)]
  from assms(3) [OF db(1) result [THEN conjunct1]] result [THEN conjunct2] show "Q db'" by simp
next
  fix db e db' assume "P db" "transaction_commit ops version db = (Inl e, db')" "e \<noteq> Terminate"
  with commit_returns(1) [OF assms(1) assms(2)] show "accounted dm begun mk e db'" by (auto simp: accounted_def)
qed

lemma recorded_ends:
  assumes "closes ops" "journaled ops table' dm vis begun"
  shows "keeps (recorded dm begun mk) (transaction_end ops)" "keeps (recorded dm begun mk) (lock_end ops table)"
proof -
  have disc: "keeps (recorded dm begun mk) (disconnect ops)"
    by (rule disconnect_on [OF assms(1) journaled_quiet(3) [OF assms(2)]]) auto
  have loc: "local (\<lambda>db. \<not> db_transaction db)" by (simp add: local_def)
  note on' = on_ops [OF journaled_quiet(3) [OF assms(2)] loc]
  show "keeps (recorded dm begun mk) (transaction_end ops)"
    unfolding transaction_end_def by (intro keeps_intros disc on') (simp add: on_def)
  show "keeps (recorded dm begun mk) (lock_end ops table)"
    unfolding lock_end_def by (intro keeps_intros disc on') (simp add: on_def)
qed

lemma accounted_stop:
  "keeps (recorded dm begun mk) m \<Longrightarrow> hoare (accounted dm begun mk e) m (\<lambda>_. accounted dm begun mk e) (\<lambda>_ _. True)"
proof (rule hoareI)
  fix db u db' assume m: "keeps (recorded dm begun mk) m" "accounted dm begun mk e db" "m db = (Inr u, db')"
  show "accounted dm begun mk e db'"
    using m(2) keepsD [OF m(1) _ m(3)] by (auto simp: accounted_def)
qed simp

lemma requireMarker_seen:
  assumes "journaled ops (ms_table st) dm vis begun"
  shows "hoare (unstarted begun) (requireMarker ops st mk message)
    (\<lambda>_ db. unstarted begun db \<and> vis (db_session db) = Some mk) (accounted dm begun mk)"
proof -
  note keep = on_reads(5) [OF journaled_quiet(2) [OF assms] ready_local]
  show ?thesis
  proof (rule hoareI)
    fix db u db' assume db: "unstarted begun db" "requireMarker ops st mk message db = (Inr u, db')"
    then have "readIncomplete ops (ms_table st) db = (Inr (Some mk), db')"
      by (auto simp: requireMarker_def act_results split: if_splits)
    with assms keepsD [OF keep db] show "unstarted begun db' \<and> vis (db_session db') = Some mk"
      by (auto simp: journaled_def)
  next
    fix db e db' assume "unstarted begun db" "requireMarker ops st mk message db = (Inl e, db')" "e \<noteq> Terminate"
    from hoare_Inl [OF started_accounted(1) [OF keep] this] show "accounted dm begun mk e db'" .
  qed
qed

lemma write_marker_hoare:
  assumes laws: "closes ops" "journaled ops (ms_table st) dm vis begun"
    and mk: "marker_of dump st m dir scripts = Inr mk"
  shows "hoare (unstarted begun) (write_marker dump ops st m dir expected scripts journal)
    (\<lambda>_. marked dm mk) (accounted dm begun mk)"
proof -
  let ?done = "\<lambda>db. marked dm mk db \<and> (\<forall>f p. db_scope db = Some (f, p) \<longrightarrow> f)"
  note on' = on_ops [OF journaled_quiet(2) [OF laws(2)] ready_local] on_reads [OF journaled_quiet(2) [OF laws(2)] ready_local]
  have commit: "hoare (\<lambda>db. unstarted begun db \<and> vis (db_session db) = Some mk) (transaction_commit ops (mg_version m)) (\<lambda>_. ?done) (accounted dm begun mk)"
    by (rule commit_hoare [OF laws(1)]) (use laws(2) in \<open>auto simp: on_def ready_db_def journaled_def\<close>)
  note seen = requireMarker_seen [OF laws(2)]
  have body: "hoare (unstarted begun) (thenA (requireHistory ops st expected (mg_version m))
       (thenA (recordIncomplete dump ops journal m (ms_backend st) dir)
       (bindA (liftR (marker_of dump st m dir scripts)) (\<lambda>marker.
        thenA (requireMarker ops st marker ''Incomplete marker was not recorded'')
              (transaction_commit ops (mg_version m)))))) (\<lambda>_. ?done) (accounted dm begun mk)"
    unfolding mk bindA_liftR by (intro unstarted_thenA on' hoare_thenA [OF seen commit])
  have start: "keeps (unstarted begun) (transaction_begin ops (ms_table st) False)"
    unfolding transaction_begin_def if_False by (intro keeps_intros on') (simp add: on_def ready_db_def)
  have stop: "hoare ?done (transaction_end ops) (\<lambda>_. marked dm mk) (\<lambda>_ _. True)"
  proof (rule hoareI)
    fix db u db' assume db: "?done db" "transaction_end ops db = (Inr u, db')"
    then have "db' = db \<or> (\<exists>p. db' = db\<lparr>db_migrationActive := p, db_scope := None\<rparr>)"
      by (cases "db_scope db") (auto simp: transaction_end_def bindA_def thenA_def)
    with db(1) show "marked dm mk db'" by (auto simp: on_def ready_db_def)
  qed simp
  show ?thesis
    unfolding write_marker_def with_transaction_def
    by (rule unstarted_thenA [OF start], rule hoare_finallyA [OF body stop])
      (rule accounted_stop [OF recorded_ends(1) [OF laws]])
qed


lemma prepare_marker_hoare:
  assumes laws: "closes ops" "journaled ops (ms_table st) dm vis begun"
    and mk: "marker_of dump st m dir scripts = Inr mk" and preflight: "keeps (unstarted begun) preflight"
  shows "hoare (unstarted begun) (prepare_marker dump ops st m dir expected scripts sql preflight)
    (\<lambda>_. marked dm mk) (accounted dm begun mk)"
proof -
  note on' = on_ops [OF journaled_quiet(2) [OF laws(2)] ready_local] on_reads [OF journaled_quiet(2) [OF laws(2)] ready_local]
  have run: "keeps (marked dm mk) (sessionA (so_execute ops sql (mg_version m)))"
    using laws(2) by (intro on_sessionA ready_local) (simp add: journaled_def)
  show ?thesis
    unfolding prepare_marker_def
    by (intro unstarted_thenA unstarted_bindA on' keeps_intros preflight
        hoare_thenA [OF write_marker_hoare [OF laws mk] started_accounted(2) [OF run]])
qed

lemma write_commit_marked:
  assumes "closes ops" "releases ops"
  shows "hoare (marked dm mk) (write_commit ops table version) (\<lambda>_ _. True) (accounted dm begun mk)"
proof -
  have "hoare (marked dm mk) (transaction_commit ops version) (\<lambda>_. isConnected ops) (accounted dm begun mk)"
    by (rule commit_hoare [OF assms(1)]) (use assms(2) in \<open>auto simp: on_def ready_db_def releases_def isConnected_def\<close>)
  moreover have "hoare (isConnected ops) (bindA (getA db_lock) (\<lambda>lock. if lock \<noteq> None then lock_finish ops table else retA ()))
      (\<lambda>_ _. True) (accounted dm begun mk)"
    by (rule hoareI) (use assms(2) in \<open>auto simp: act_results lock_finish_def getBackend_def sessionA_def releases_def
        split: if_splits prod.splits dest: arg_cong [where f = fst]\<close>)
  ultimately show ?thesis unfolding write_commit_def by (rule hoare_thenA)
qed

lemma apply_body_marked:
  assumes laws: "closes ops" "releases ops" "journaled ops (ms_table st) dm vis begun" "nonTransactional ops"
    and mk: "marker_of dump st m dir scripts = Inr mk"
    and params: "keeps (unstarted begun) preflight" "keeps (marked dm mk) validateResult"
  shows "hoare (unstarted begun) (apply_body dump ops st m dir expected scripts sql preflight validateResult)
    (\<lambda>_ _. True) (accounted dm begun mk)"
proof -
  note on' = on_ops [OF journaled_quiet(1) [OF laws(3)] ready_local] on_reads [OF journaled_quiet(1) [OF laws(3)] ready_local]
  have scope: "keeps (marked dm mk) (beginHistory ops (ms_table st))"
    unfolding beginHistory_def transaction_begin_def if_False
    by (intro keeps_intros on') (simp add: on_def ready_db_def)
  have final: "hoare (\<lambda>db. True) (retA actual) (\<lambda>_ _. True) (accounted dm begun mk)" for actual
    by (rule hoareI) auto
  show ?thesis
    unfolding apply_body_def Let_def if_P [OF laws(4)] mk bindA_liftR
    by (intro hoare_thenA [OF prepare_marker_hoare [OF laws(1,3) mk params(1)]]
        hoare_thenA [OF write_commit_marked [OF laws(1,2)] final] marked_thenA marked_bindA scope keeps_intros on' params(2))
qed

lemma state_apply_marked:
  assumes laws: "closes ops" "releases ops" "journaled ops (ms_table st) dm vis begun" "nonTransactional ops"
    and mk: "scriptsFor m (ms_backend st) = Inr scripts" "marker_of dump st m dir scripts = Inr mk"
    and params: "keeps (unstarted begun) preflight" "keeps (marked dm mk) validateResult"
  shows "hoare (unstarted begun) (state_apply dump ops st m dir expected preflight validateResult)
    (\<lambda>_ _. True) (accounted dm begun mk)"
proof -
  note on' = on_ops [OF journaled_quiet(2) [OF laws(3)] ready_local]
  have start: "keeps (unstarted begun) (write_begin ops table)" for table
    unfolding write_begin_def if_P [OF laws(4)] lock_begin_def
    by (intro keeps_intros on') (simp add: on_def ready_db_def)
  have stop: "keeps (recorded dm begun mk) (write_end ops table)" for table
    unfolding write_end_def by (intro keeps_intros recorded_ends [OF laws(1,3)])
  have handled: "hoare (accounted dm begun mk e) (migration_handler ops b v e) (\<lambda>_ _. True) (accounted dm begun mk)" for b v e
    by (rule hoareI) (auto simp: accounted_def migration_handler_def soci_handler_def uncertain_def split: exn.splits)
  show ?thesis
    unfolding state_apply_def with_write_def Let_def mk(1) bindA_liftR
    by (rule hoare_catchA [OF _ handled], intro unstarted_thenA [OF start],
        rule hoare_finallyA [OF apply_body_marked [OF laws mk(2) params] _ accounted_stop [OF stop]])
      (simp add: hoare_def split: prod.splits sum.splits)
qed

end
