(* ===== verification/Orm_Runner.thy ===== *)
theory Orm_Runner
  imports Orm_Preflight Orm_Migration_Protocol
begin

text \<open>
  \<^verbatim>\<open>SqliteRebuildSession\<close> and the public operations of \<^verbatim>\<open>Runner\<close> (\<^verbatim>\<open>src/migrations/Runner.cpp\<close>), and what
  they guarantee for every session and engine.
\<close>

section \<open>Rebuilding SQLite tables\<close>

definition rebuildA :: "(rebuild_session \<Rightarrow> rebuild_session) \<Rightarrow> ('d, unit) dbact" where
  "rebuildA f = modifyA (\<lambda>db. db\<lparr>db_rebuild := map_option f (db_rebuild db)\<rparr>)"

definition rebuild_of :: "'d database \<Rightarrow> rebuild_session" where
  "rebuild_of db =
     (case db_rebuild db of
        Some r \<Rightarrow> r
      | None \<Rightarrow> \<lparr>rb_previousActive = False, rb_previousForeignKeys = 0, rb_enabled = False, rb_sequences = []\<rparr>)"

definition foreign_keys_setting :: "('d, 'r) session_ops \<Rightarrow> ('d, int) dbact" where
  "foreign_keys_setting ops = countA ops ''PRAGMA foreign_keys'' []"

definition restoreSqliteForeignKeys :: "('d, 'r) session_ops \<Rightarrow> int \<Rightarrow> ('d, unit) dbact" where
  "restoreSqliteForeignKeys ops previousValue =
     thenA (sessionA (so_run ops (if previousValue \<noteq> 0 then ''PRAGMA foreign_keys=ON'' else ''PRAGMA foreign_keys=OFF'') []))
     (bindA (foreign_keys_setting ops) (\<lambda>actual.
        failIf (actual \<noteq> previousValue) ''SQLite foreign_keys restoration failed''))"

definition set_active :: "bool \<Rightarrow> ('d, unit) dbact" where
  "set_active a = modifyA (\<lambda>db. db\<lparr>db_migrationActive := a\<rparr>)"

definition rebuild_restore :: "('d, 'r) session_ops \<Rightarrow> execution_context \<Rightarrow> ('d, unit) dbact" where
  "rebuild_restore ops context =
     bindA (getA rebuild_of) (\<lambda>r.
       if \<not> rb_enabled r
       then if ec_mode context = SqliteRebuildMode then set_active (rb_previousActive r) else retA ()
       else thenA (rebuildA (\<lambda>r. r\<lparr>rb_enabled := False\<rparr>))
            (bindA (getA (isConnected ops)) (\<lambda>connected.
             thenA (if connected then restoreSqliteForeignKeys ops (rb_previousForeignKeys r) else retA ())
                   (set_active (rb_previousActive r)))))"

text \<open>An exception that would leave a \<^verbatim>\<open>noexcept\<close> function ends the program.\<close>

definition noexceptA :: "('d, unit) dbact \<Rightarrow> ('d, unit) dbact" where
  "noexceptA m = catchA m (\<lambda>_. throwA Terminate)"

definition restoreNoThrow :: "('d, 'r) session_ops \<Rightarrow> execution_context \<Rightarrow> ('d, unit) dbact" where
  "restoreNoThrow ops context =
     noexceptA (bindA (getA rebuild_of) (\<lambda>r.
       catchA (rebuild_restore ops context)
         (\<lambda>_. thenA (disconnect ops) (set_active (rb_previousActive r)))))"

definition disable_foreign_keys :: "('d, 'r) session_ops \<Rightarrow> ('d, unit) dbact" where
  "disable_foreign_keys ops =
     bindA (foreign_keys_setting ops) (\<lambda>previous.
     thenA (rebuildA (\<lambda>r. r\<lparr>rb_previousForeignKeys := previous, rb_enabled := True\<rparr>))
     (thenA (sessionA (so_run ops ''PRAGMA foreign_keys=OFF'' []))
     (bindA (foreign_keys_setting ops) (\<lambda>actual.
        failIf (actual \<noteq> 0) ''Cannot disable SQLite foreign keys before the rebuild transaction''))))"

definition drop_rebuild :: "('d, unit) dbact" where
  "drop_rebuild = modifyA (\<lambda>db. db\<lparr>db_rebuild := None\<rparr>)"

definition rebuild_begin :: "('d, 'r) session_ops \<Rightarrow> execution_context \<Rightarrow> ('d, unit) dbact" where
  "rebuild_begin ops context =
     bindA (getA db_migrationActive) (\<lambda>previousActive.
     thenA (modifyA (\<lambda>db. db\<lparr>db_rebuild := Some \<lparr>rb_previousActive = previousActive, rb_previousForeignKeys = 0,
                               rb_enabled = False, rb_sequences = []\<rparr>\<rparr>))
     (if ec_mode context \<noteq> SqliteRebuildMode then retA ()
      else thenA (set_active True)
           (catchA (disable_foreign_keys ops)
              (\<lambda>e. thenA (restoreNoThrow ops context)
                   (thenA (set_active previousActive) (thenA drop_rebuild (throwA e)))))))"

definition rebuild_end :: "('d, 'r) session_ops \<Rightarrow> execution_context \<Rightarrow> ('d, unit) dbact" where
  "rebuild_end ops context = thenA (restoreNoThrow ops context) drop_rebuild"

definition identity_kept :: "rebuild_table \<Rightarrow> bool" where
  "identity_kept table \<longleftrightarrow> rt_sourceIdentity table \<noteq> None \<and> rt_targetIdentity table \<noteq> None"

definition capture_sequence :: "('d, 'r) session_ops \<Rightarrow> rebuild_table \<Rightarrow> ('d, unit) dbact" where
  "capture_sequence ops table =
     (if identity_kept table
      then bindA (fetchA ops ''SELECT COALESCE(MAX(seq),0) FROM main.sqlite_sequence WHERE name=:name''
                    (named (rt_source table)) 0 (\<lambda>row. get_long (so_row ops) row 0)) (\<lambda>sequence.
             rebuildA (\<lambda>r. r\<lparr>rb_sequences := (rt_target table, sequence) # rb_sequences r\<rparr>))
      else retA ())"

definition captureSequences :: "('d, 'r) session_ops \<Rightarrow> execution_context \<Rightarrow> ('d, unit) dbact" where
  "captureSequences ops context =
     bindA (getA rebuild_of) (\<lambda>r.
       if \<not> rb_enabled r then retA ()
       else bindA (countA ops (''SELECT COUNT(*) FROM main.sqlite_master WHERE name='sqlite_sequence'' @ [squote]) []) (\<lambda>present.
              if present = 0 then retA () else forA (capture_sequence ops) (ec_rebuildTables context)))"

definition captured :: "rebuild_session \<Rightarrow> string \<Rightarrow> int" where
  "captured r table = (case map_of (rb_sequences r) table of None \<Rightarrow> 0 | Some n \<Rightarrow> n)"

definition restore_sequence :: "('d, 'r) session_ops \<Rightarrow> rebuild_table \<Rightarrow> ('d, unit) dbact" where
  "restore_sequence ops table =
     (case (rt_sourceIdentity table, rt_targetIdentity table) of
        (Some _, Some identity) \<Rightarrow>
          bindA (liftR (quoteIdentifier Sqlite identity)) (\<lambda>column.
          bindA (liftR (quoteIdentifier Sqlite (rt_target table))) (\<lambda>tableName.
          bindA (fetchA ops (''SELECT COALESCE(MAX('' @ column @ ''),0) FROM '' @ tableName) [] 0
                   (\<lambda>row. get_long (so_row ops) row 0)) (\<lambda>maximum.
          bindA (fetchA ops ''SELECT COUNT(*),COALESCE(MAX(seq),0) FROM main.sqlite_sequence WHERE name=:name''
                   (named (rt_target table)) (0, 0)
                   (\<lambda>row. bindR (get_int (so_row ops) row 0) (\<lambda>n. bindR (get_long (so_row ops) row 1) (\<lambda>s. Inr (n, s)))))
            (\<lambda>(rows, sequence).
          bindA (getA rebuild_of) (\<lambda>r.
          let preserved = max (max maximum sequence) (captured r (rt_target table))
          in sessionA (so_run ops
               (if rows = 0 then ''INSERT INTO main.sqlite_sequence(name,seq) VALUES(:name,:seq)''
                else ''UPDATE main.sqlite_sequence SET seq=:seq WHERE name=:name'')
               (if rows = 0 then [(''name'', TextValue (rt_target table)), (''seq'', IntValue preserved)]
                else [(''seq'', IntValue preserved), (''name'', TextValue (rt_target table))])))))))
      | _ \<Rightarrow> retA ())"

definition validateAndRestoreSequences :: "('d, 'r) session_ops \<Rightarrow> execution_context \<Rightarrow> ('d, unit) dbact" where
  "validateAndRestoreSequences ops context =
     bindA (getA rebuild_of) (\<lambda>r.
       if \<not> rb_enabled r then retA ()
       else thenA (forA (restore_sequence ops) (ec_rebuildTables context))
            (bindA (rowsA ops ''PRAGMA main.foreign_key_check'' []) (\<lambda>violations.
               failIf (violations \<noteq> []) ''SQLite rebuild failed foreign_key_check'')))"

definition restoreAfterCommit :: "('d, 'r) session_ops \<Rightarrow> execution_context \<Rightarrow> version \<Rightarrow> ('d, unit) dbact" where
  "restoreAfterCommit ops context version =
     catchA (rebuild_restore ops context)
       (\<lambda>_. thenA (disconnect ops) (throwA (MigrationError SessionRestoration
          ''Migration committed, but session restoration failed; reconnect and inspect history'' version Sqlite None)))"

section \<open>The runner\<close>

definition Runner_status :: "dumper \<Rightarrow> ('d, 'r) session_ops \<Rightarrow> migration list \<Rightarrow> ('d, status) dbact" where
  "Runner_status dump ops catalog = bindA (new_state ops catalog) (state_status dump ops)"

definition Runner_validate :: "dumper \<Rightarrow> ('d, 'r) session_ops \<Rightarrow> migration list \<Rightarrow> ('d, unit) dbact" where
  "Runner_validate dump ops catalog = bindA (new_state ops catalog) (state_validate dump ops)"

definition Runner_preview ::
  "dumper \<Rightarrow> ('d, 'r) session_ops \<Rightarrow> migration list \<Rightarrow> direction \<Rightarrow> version option \<Rightarrow> ('d, plan) dbact" where
  "Runner_preview dump ops catalog direction target =
     bindA (new_state ops catalog) (\<lambda>st. bindA (state_status dump ops st) (\<lambda>status. state_plan ops st status direction target))"

definition with_rebuild :: "('d, 'r) session_ops \<Rightarrow> execution_context \<Rightarrow> ('d, 'a) dbact \<Rightarrow> ('d, 'a) dbact" where
  "with_rebuild ops context body = thenA (rebuild_begin ops context) (finallyA body (rebuild_end ops context))"

definition execute_step ::
  "dumper \<Rightarrow> ('d, 'r) session_ops \<Rightarrow> migration_state \<Rightarrow> backend_type \<Rightarrow> direction \<Rightarrow> planned_migration
   \<Rightarrow> applied_migration list \<Rightarrow> ('d, applied_migration list) dbact" where
  "execute_step dump ops st backend direction step expected =
     catchA
       (let migration = the (find_version (ms_catalog st) (pm_version step))
        in case map_of (mg_scripts migration) backend of
             None \<Rightarrow> throwA (LogicError ''map::at'')
           | Some scripts \<Rightarrow>
               let context = (if direction = Up then sm_upContext scripts else sm_downContext scripts)
               in with_rebuild ops context
                    (bindA (state_apply dump ops st migration direction expected
                              (thenA (contextPreflight ops backend context) (captureSequences ops context))
                              (thenA (validateAndRestoreSequences ops context) (validateTargetValues ops backend context)))
                       (\<lambda>actual. thenA (restoreAfterCommit ops context (pm_version step)) (retA actual))))
       (migration_handler ops backend (pm_version step))"

definition execute_steps ::
  "dumper \<Rightarrow> ('d, 'r) session_ops \<Rightarrow> migration_state \<Rightarrow> backend_type \<Rightarrow> direction \<Rightarrow> planned_migration list
   \<Rightarrow> applied_migration list \<Rightarrow> ('d, applied_migration list) dbact" where
  "execute_steps dump ops st backend direction steps expected =
     foldA (execute_step dump ops st backend direction) steps expected"

definition Runner_execute ::
  "dumper \<Rightarrow> ('d, 'r) session_ops \<Rightarrow> migration list \<Rightarrow> direction \<Rightarrow> version option \<Rightarrow> ('d, unit) dbact" where
  "Runner_execute dump ops catalog direction target =
     bindA (new_state ops catalog) (\<lambda>st.
     bindA (state_status dump ops st) (\<lambda>initial.
     bindA (state_plan ops st initial direction target) (\<lambda>plan.
     bindA (getA backendType) (\<lambda>backend.
     thenA (getBackend ops)
     (thenA (execute_steps dump ops st backend direction (pl_migrations plan) (st_applied initial))
            (retA ()))))))"

definition Runner_up :: "dumper \<Rightarrow> ('d, 'r) session_ops \<Rightarrow> migration list \<Rightarrow> version option \<Rightarrow> ('d, unit) dbact" where
  "Runner_up dump ops catalog target = Runner_execute dump ops catalog Up target"

definition Runner_down :: "dumper \<Rightarrow> ('d, 'r) session_ops \<Rightarrow> migration list \<Rightarrow> version \<Rightarrow> ('d, unit) dbact" where
  "Runner_down dump ops catalog target = Runner_execute dump ops catalog Down (Some target)"

definition Runner_baseline :: "dumper \<Rightarrow> ('d, 'r) session_ops \<Rightarrow> migration list \<Rightarrow> version \<Rightarrow> ('d, unit) dbact" where
  "Runner_baseline dump ops catalog target =
     bindA (new_state ops catalog) (\<lambda>st. state_baseline dump ops st target)"

definition Runner_resolve ::
  "dumper \<Rightarrow> ('d, 'r) session_ops \<Rightarrow> migration list \<Rightarrow> version \<Rightarrow> string \<Rightarrow> resolution \<Rightarrow> ('d, unit) dbact" where
  "Runner_resolve dump ops catalog version expectedChecksum resolution =
     bindA (new_state ops catalog) (\<lambda>st. state_resolve dump ops st version expectedChecksum resolution)"

section \<open>Reaching the target\<close>

lemma with_rebuild_Inr: "with_rebuild ops context body db = (Inr x, db') \<Longrightarrow> \<exists>db1 db2. body db1 = (Inr x, db2)"
  by (auto simp: with_rebuild_def act_results)

lemma execute_step_result:
  assumes "execute_step dump ops st backend dir step expected db = (Inr actual, db')"
  shows "history_extended dir expected actual \<and> history_matches dump (ms_catalog st) (ms_backend st) actual"
  using assms
  by (auto simp: execute_step_def Let_def act_results split: option.splits
      dest!: with_rebuild_Inr state_apply_result)

lemma execute_steps_result:
  assumes "foldA (execute_step dump ops st backend dir) steps expected db = (Inr final, db')"
    and "history_matches dump (ms_catalog st) (ms_backend st) expected"
  shows "history_matches dump (ms_catalog st) (ms_backend st) final \<and>
    int (length final) = (case dir of Up \<Rightarrow> int (length expected) + int (length steps)
                                    | Down \<Rightarrow> int (length expected) - int (length steps))"
  using assms
proof (induction steps arbitrary: expected db)
  case (Cons step steps)
  then obtain actual db1 where step: "execute_step dump ops st backend dir step expected db = (Inr actual, db1)"
    and rest: "foldA (execute_step dump ops st backend dir) steps actual db1 = (Inr final, db')"
    by (auto simp: act_results)
  from execute_step_result [OF step] have "history_matches dump (ms_catalog st) (ms_backend st) actual"
    and len: "int (length actual) = (if dir = Up then int (length expected) + 1 else int (length expected) - 1)"
    by (auto simp: history_extended_def Let_def split: if_splits)
  with Cons.IH [OF rest] show ?case by (cases dir) auto
qed (cases dir; auto)

lemma state_status_result:
  "state_status dump ops st db = (Inr status, db') \<Longrightarrow>
   \<exists>incomplete. evaluate dump (ms_catalog st) (ms_backend st) (st_applied status) incomplete = Inr status"
  using evaluate_fields by (fastforce simp: state_status_def with_transaction_def inspect_def act_results)

lemma new_state_result: "new_state ops catalog db = (Inr st, db') \<Longrightarrow> ms_catalog st = catalog"
  by (auto simp: new_state_def act_results)

lemma makePlan_requested: "makePlan ms backend st dir requested = makePlan ms backend st dir (Some (plan_target ms dir requested))"
  by (simp add: makePlan_def plan_target_def)

lemma execute_plan_result:
  assumes "ascending (ms_catalog st)" "evaluate dump (ms_catalog st) (ms_backend st) (st_applied initial) incomplete = Inr initial"
    and "makePlan (ms_catalog st) (ms_backend st) initial dir target = Inr p"
    and "foldA (execute_step dump ops st backend dir) (pl_migrations p) (st_applied initial) db = (Inr final, db')"
  shows "history_matches dump (ms_catalog st) (ms_backend st) final \<and> current_version final = pl_to p"
proof -
  let ?ms = "ms_catalog st" and ?h = "st_applied initial"
  have valid: "st_problems initial = []" "st_incomplete initial = None"
    using assms(3) by (auto simp: makePlan_def requireValid_iff)
  with evaluate_fields [OF assms(2)] assms(2) have init: "evaluate dump ?ms (ms_backend st) ?h None = Inr initial" by simp
  with valid evaluate_no_problems [of dump ?ms "ms_backend st" ?h initial]
  have h: "history_matches dump ?ms (ms_backend st) ?h" by simp
  from execute_steps_result [OF assms(4) h] have final: "history_matches dump ?ms (ms_backend st) final"
    and len: "int (length final) = (case dir of Up \<Rightarrow> int (length ?h) + int (length (pl_migrations p))
                                    | Down \<Rightarrow> int (length ?h) - int (length (pl_migrations p)))" by auto
  from assms(3) makePlan_requested makePlan_spec [OF assms(1) init h, of dir "plan_target ?ms dir target" p]
  obtain k where k: "pl_to p = version_at ?ms k" "plan_bounds dir ?h ?ms k"
    "mapR (plan_step (ms_backend st) dir) (plan_slice dir ?ms (length ?h) k) = Inr (pl_migrations p)" by auto
  have "length ?h \<le> length ?ms" using h by (simp add: history_matches_def)
  with mapR_length [OF k(3)] k(2) len have "length final = k"
    by (cases dir) (auto simp: plan_slice_def plan_bounds_def)
  with current_version_at(1) [OF final] k(1) final show ?thesis by simp
qed

section \<open>The idle database\<close>

text \<open>No migration is active and no scoped object is alive.\<close>

definition idle :: "'d database \<Rightarrow> bool" where
  "idle db \<longleftrightarrow> \<not> db_migrationActive db \<and> db_scope db = None \<and> db_lock db = None \<and> db_rebuild db = None"

text \<open>The queries of the preflight keep everything but the session.\<close>

lemmas query_defs = failIf_def rowsA_def fetchA_def countA_def textsA_def eachA_def

lemma keeps_queries [keeps_intros]:
  assumes "\<And>db d. P db \<Longrightarrow> P (db\<lparr>db_session := d\<rparr>)"
  shows "keeps P (failIf b message)" "keeps P (rowsA ops sql ps)" "keeps P (fetchA ops sql ps x read)"
    "keeps P (countA ops sql ps)" "keeps P (textsA ops sql ps)"
    "(\<And>name. keeps P (check name)) \<Longrightarrow> keeps P (eachA ops rows check)"
  unfolding query_defs by (intro keeps_intros assms; assumption?)+

lemma keeps_missing [keeps_intros]: "keeps P (missing_index source seen)"
  unfolding missing_index_def failIf_def by (intro keeps_intros)

lemma keeps_preflight [keeps_intros]:
  assumes "\<And>db d. P db \<Longrightarrow> P (db\<lparr>db_session := d\<rparr>)"
  shows "keeps P (contextPreflight ops backend context)"
proof -
  have sqlite: "keeps P (sqlite_source ops source name)" for source name
    unfolding sqlite_source_def sqlite_index_def by (intro keeps_intros assms; assumption?)
  have native: "keeps P (native_source ops backend schema source name)" for schema source name
    unfolding native_source_def check_table_options_def check_columns_def check_triggers_def check_constraints_def
      check_primary_key_def check_foreign_key_def check_indexes_def check_index_def check_views_def
    by (intro keeps_intros assms; assumption?)
  show ?thesis
    unfolding contextPreflight_def current_schema_def sqlite_rebuild_preflight_def sqlite_rebuild_owner_def Let_def
    by (intro keeps_intros sqlite native assms; assumption?)
qed

lemma keeps_target [keeps_intros]:
  assumes "\<And>db d. P db \<Longrightarrow> P (db\<lparr>db_session := d\<rparr>)"
  shows "keeps P (validateTargetValues ops backend context)"
proof -
  have "keeps P (check_target_column ops backend limits table column)" for limits table column
    unfolding check_target_column_def check_textual_def check_floating_def check_integral_def Let_def
    by (cases "pc_logicalType column"; simp; intro keeps_intros assms; assumption?)
  then show ?thesis
    unfolding validateTargetValues_def by (intro keeps_intros assms; assumption?)
qed


text \<open>A rebuild session is alive that will leave the database inactive.\<close>

definition rebuilding :: "'d database \<Rightarrow> bool" where
  "rebuilding db \<longleftrightarrow> (\<exists>r. db_rebuild db = Some r \<and> \<not> rb_previousActive r)"

definition calm :: "execution_context \<Rightarrow> 'd database \<Rightarrow> bool" where
  "calm context db \<longleftrightarrow> rebuilding db \<and> unheld db \<and> (ec_mode context \<noteq> SqliteRebuildMode \<longrightarrow> \<not> db_migrationActive db)"

lemma keeps_sequences:
  assumes "\<And>db d. P db \<Longrightarrow> P (db\<lparr>db_session := d\<rparr>)"
    and "\<And>db f. P db \<Longrightarrow> (\<And>r. rb_previousActive (f r) = rb_previousActive r) \<Longrightarrow> P (db\<lparr>db_rebuild := map_option f (db_rebuild db)\<rparr>)"
  shows "keeps P (captureSequences ops context)" "keeps P (validateAndRestoreSequences ops context)"
  unfolding captureSequences_def capture_sequence_def rebuildA_def validateAndRestoreSequences_def restore_sequence_def Let_def
  by (intro keeps_intros assms; simp)+

lemma step_actions:
  assumes "\<And>db d. P db \<Longrightarrow> P (db\<lparr>db_session := d\<rparr>)"
    and "\<And>db f. P db \<Longrightarrow> (\<And>r. rb_previousActive (f r) = rb_previousActive r) \<Longrightarrow> P (db\<lparr>db_rebuild := map_option f (db_rebuild db)\<rparr>)"
  shows "keeps P (thenA (contextPreflight ops backend context) (captureSequences ops context))"
    "keeps P (thenA (validateAndRestoreSequences ops context) (validateTargetValues ops backend context))"
  by (intro keeps_intros keeps_sequences assms; assumption)+

lemma scoped_actions:
  "scoped (thenA (contextPreflight ops backend context) (captureSequences ops context))"
  "scoped (thenA (validateAndRestoreSequences ops context) (validateTargetValues ops backend context))"
  unfolding scoped_def by (intro conjI allI step_actions; simp add: inside_def locked_def)+

text \<open>What depends on the rebuild session only survives a migration.\<close>

lemma keeps_rebuilding_apply:
  assumes "keeps rebuilding preflight" "keeps rebuilding validateResult"
  shows "keeps rebuilding (state_apply dump ops st m dir expected preflight validateResult)"
proof -
  have "keeps rebuilding (transaction_begin ops table w)" "keeps rebuilding (transaction_end ops)"
    "keeps rebuilding (transaction_commit ops v)" "keeps rebuilding (lock_begin ops table)"
    "keeps rebuilding (lock_end ops table)" "keeps rebuilding (lock_finish ops table)" for table w v
    unfolding transaction_begin_def transaction_end_def transaction_commit_def finish_transaction_def lock_begin_def
      lock_end_def lock_finish_def
    by (intro keeps_intros; simp add: rebuilding_def)+
  note scopes = this
  show ?thesis
    unfolding state_apply_def with_write_def write_begin_def write_end_def body_defs with_transaction_def
      beginHistory_def write_commit_def
    by (intro keeps_intros scopes assms; simp add: rebuilding_def)
qed

lemma calm_cases:
  "calm context = (if ec_mode context = SqliteRebuildMode then (\<lambda>db. rebuilding db \<and> unheld db)
     else (\<lambda>db. rebuilding db \<and> held False None db))"
  by (auto simp: calm_def held_def unheld_def fun_eq_iff)

lemma keeps_calm_apply:
  "keeps (calm context) (state_apply dump ops st m dir expected
     (thenA (contextPreflight ops backend context) (captureSequences ops context))
     (thenA (validateAndRestoreSequences ops context) (validateTargetValues ops backend context)))"
proof -
  let ?m = "state_apply dump ops st m dir expected
     (thenA (contextPreflight ops backend context) (captureSequences ops context))
     (thenA (validateAndRestoreSequences ops context) (validateTargetValues ops backend context))"
  have r: "keeps rebuilding ?m"
    by (intro keeps_rebuilding_apply step_actions) (auto simp: rebuilding_def)
  have "keeps (\<lambda>db. rebuilding db \<and> unheld db) ?m"
    by (intro keeps_conj r unheld_state_apply scoped_actions)
  moreover have "keeps (\<lambda>db. rebuilding db \<and> held False None db) ?m"
    by (intro keeps_conj r keeps_state_apply scoped_actions) simp
  ultimately show ?thesis unfolding calm_cases by simp
qed


definition quiesced :: "'d database \<Rightarrow> bool" where
  "quiesced db \<longleftrightarrow> rebuilding db \<and> unheld db \<and> \<not> db_migrationActive db"

lemma calm_session [simp]: "calm context (db\<lparr>db_session := d\<rparr>) = calm context db"
  by (simp add: calm_def rebuilding_def unheld_def)

lemma keeps_calm_parts [keeps_intros]:
  "keeps (calm context) (disconnect ops)"
  "keeps (calm context) (restoreSqliteForeignKeys ops n)"
  "keeps (calm context) (rebuildA (\<lambda>r. r\<lparr>rb_enabled := False\<rparr>))"
  unfolding restoreSqliteForeignKeys_def foreign_keys_setting_def rebuildA_def
  by (intro keeps_intros; auto simp: calm_def rebuilding_def unheld_def)+

lemma hoare_set_active: "hoare (calm context) (set_active False) (\<lambda>_. quiesced) (\<lambda>_. calm context)"
  by (rule hoareI) (auto simp: set_active_def calm_def quiesced_def rebuilding_def unheld_def)

lemma rebuild_restore_hoare:
  "hoare (calm context) (rebuild_restore ops context) (\<lambda>_. quiesced) (\<lambda>_. calm context)"
proof -
  have rest: "hoare (calm context) (if \<not> rb_enabled r
       then if ec_mode context = SqliteRebuildMode then set_active (rb_previousActive r) else retA ()
       else thenA (rebuildA (\<lambda>r. r\<lparr>rb_enabled := False\<rparr>))
            (bindA (getA (isConnected ops)) (\<lambda>connected.
             thenA (if connected then restoreSqliteForeignKeys ops (rb_previousForeignKeys r) else retA ())
                   (set_active (rb_previousActive r))))) (\<lambda>_. quiesced) (\<lambda>_. calm context)"
    if "\<not> rb_previousActive r" for r
  proof -
    have skip: "hoare (calm context) (retA ()) (\<lambda>_. quiesced) (\<lambda>_. calm context)" if "ec_mode context \<noteq> SqliteRebuildMode"
      by (rule hoareI) (use that in \<open>auto simp: calm_def quiesced_def\<close>)
    have "hoare (calm context) (thenA (rebuildA (\<lambda>r. r\<lparr>rb_enabled := False\<rparr>))
            (bindA (getA (isConnected ops)) (\<lambda>connected.
             thenA (if connected then restoreSqliteForeignKeys ops (rb_previousForeignKeys r) else retA ())
                   (set_active False)))) (\<lambda>_. quiesced) (\<lambda>_. calm context)"
      by (intro keeps_then_hoare keeps_bind_hoare hoare_set_active keeps_intros)
    with that show ?thesis by (auto intro: hoare_set_active skip)
  qed
  show ?thesis
    unfolding rebuild_restore_def
  proof (rule hoare_bindA [where R = "\<lambda>r db. calm context db \<and> \<not> rb_previousActive r"])
    show "hoare (calm context) (getA rebuild_of) (\<lambda>r db. calm context db \<and> \<not> rb_previousActive r) (\<lambda>_. calm context)"
      by (rule hoareI) (auto simp: calm_def rebuilding_def rebuild_of_def)
  qed (rule hoare_assume, erule rest)
qed

lemma keeps_restoreAfterCommit: "keeps (calm context) (restoreAfterCommit ops context version)"
proof -
  have "keeps (calm context) (rebuild_restore ops context)"
    unfolding keeps_hoare by (rule hoare_weaken [OF rebuild_restore_hoare]) (auto simp: quiesced_def calm_def)
  then show ?thesis unfolding restoreAfterCommit_def by (intro keeps_intros)
qed

lemma restoreNoThrow_hoare: "hoare (calm context) (restoreNoThrow ops context) (\<lambda>_. quiesced) (\<lambda>_ _. False)"
proof -
  have handler: "hoare (calm context) (thenA (disconnect ops) (set_active False)) (\<lambda>_. quiesced) (\<lambda>_. calm context)"
    by (intro keeps_then_hoare hoare_set_active keeps_intros)
  have inner: "hoare (calm context) (catchA (rebuild_restore ops context)
      (\<lambda>_. thenA (disconnect ops) (set_active (rb_previousActive r)))) (\<lambda>_. quiesced) (\<lambda>_. calm context)"
    if "\<not> rb_previousActive r" for r
    using that by (simp add: hoare_catchA [OF rebuild_restore_hoare handler])
  have "hoare (calm context) (bindA (getA rebuild_of) (\<lambda>r. catchA (rebuild_restore ops context)
      (\<lambda>_. thenA (disconnect ops) (set_active (rb_previousActive r))))) (\<lambda>_. quiesced) (\<lambda>_. calm context)"
  proof (rule hoare_bindA [where R = "\<lambda>r db. calm context db \<and> \<not> rb_previousActive r"])
    show "hoare (calm context) (getA rebuild_of) (\<lambda>r db. calm context db \<and> \<not> rb_previousActive r) (\<lambda>_. calm context)"
      by (rule hoareI) (auto simp: calm_def rebuilding_def rebuild_of_def)
  qed (rule hoare_assume, erule inner)
  then show ?thesis unfolding restoreNoThrow_def noexceptA_def
    by (rule hoare_catchA) (simp add: hoare_def)
qed

lemma rebuild_end_hoare: "hoare (calm context) (rebuild_end ops context) (\<lambda>_. idle) (\<lambda>_ _. True)"
proof -
  have drop: "hoare quiesced drop_rebuild (\<lambda>_. idle) (\<lambda>_ _. True)"
    by (rule hoareI) (auto simp: drop_rebuild_def quiesced_def unheld_def idle_def)
  show ?thesis unfolding rebuild_end_def
    by (rule hoare_thenA [OF hoare_weaken [OF restoreNoThrow_hoare] drop]) auto
qed

lemma rebuild_begin_hoare: "hoare idle (rebuild_begin ops context) (\<lambda>_. calm context) (\<lambda>_. idle)"
proof -
  have disable: "keeps (calm context) (disable_foreign_keys ops)"
    unfolding disable_foreign_keys_def foreign_keys_setting_def rebuildA_def
    by (intro keeps_intros; auto simp: calm_def rebuilding_def unheld_def)
  have undo: "hoare quiesced (thenA (set_active False) (thenA drop_rebuild (throwA e))) Q (\<lambda>_. idle)"
    for e and Q :: "unit \<Rightarrow> 'a database \<Rightarrow> bool"
    by (rule hoareI) (auto simp: act_results set_active_def drop_rebuild_def quiesced_def unheld_def idle_def)
  have undo_all: "hoare (calm context) (thenA (restoreNoThrow ops context)
      (thenA (set_active False) (thenA drop_rebuild (throwA e)))) Q (\<lambda>_. idle)"
    for e and Q :: "unit \<Rightarrow> 'a database \<Rightarrow> bool"
    by (rule hoare_thenA [OF hoare_weaken [OF restoreNoThrow_hoare] undo]) auto
  have rebuild: "hoare (calm context) (catchA (disable_foreign_keys ops) (\<lambda>e. thenA (restoreNoThrow ops context)
      (thenA (set_active False) (thenA drop_rebuild (throwA e))))) (\<lambda>_. calm context) (\<lambda>_. idle)"
    by (rule hoare_catchA [OF disable [unfolded keeps_hoare] undo_all])
  have start: "hoare idle (modifyA (\<lambda>db. db\<lparr>db_rebuild := Some \<lparr>rb_previousActive = False, rb_previousForeignKeys = 0,
      rb_enabled = False, rb_sequences = []\<rparr>\<rparr>)) (\<lambda>_. quiesced) (\<lambda>_. idle)"
    by (rule hoareI) (auto simp: idle_def quiesced_def rebuilding_def unheld_def)
  have active: "hoare quiesced (set_active True) (\<lambda>_. calm context) (\<lambda>_. idle)"
    if "ec_mode context = SqliteRebuildMode"
    by (rule hoareI) (use that in \<open>auto simp: set_active_def calm_def quiesced_def rebuilding_def unheld_def\<close>)
  have rest: "hoare quiesced (if ec_mode context \<noteq> SqliteRebuildMode then retA ()
      else thenA (set_active True) (catchA (disable_foreign_keys ops) (\<lambda>e. thenA (restoreNoThrow ops context)
      (thenA (set_active False) (thenA drop_rebuild (throwA e)))))) (\<lambda>_. calm context) (\<lambda>_. idle)"
    using hoare_thenA [OF active rebuild] by (auto simp: hoare_def calm_def quiesced_def)
  show ?thesis
    unfolding rebuild_begin_def
  proof (rule hoare_bindA [where R = "\<lambda>a db. idle db \<and> a = False"])
    show "hoare idle (getA db_migrationActive) (\<lambda>a db. idle db \<and> a = False) (\<lambda>_. idle)"
      by (rule hoareI) (auto simp: idle_def)
  qed (rule hoare_assume, hypsubst, rule hoare_thenA [OF start rest])
qed

text \<open>Every public operation of the runner leaves an idle database idle, whatever happens.\<close>

lemma idle_held: "idle = (\<lambda>db. db_rebuild db = None \<and> held False None db)"
  by (auto simp: idle_def held_def fun_eq_iff)

lemma idle_execute_step: "keeps idle (execute_step dump ops st backend dir step expected)"
proof -
  have body: "keeps (calm c) (bindA (state_apply dump ops st m dir expected
       (thenA (contextPreflight ops backend c) (captureSequences ops c))
       (thenA (validateAndRestoreSequences ops c) (validateTargetValues ops backend c)))
     (\<lambda>actual. thenA (restoreAfterCommit ops c v) (retA actual)))" for c m v
    by (intro keeps_intros keeps_calm_apply keeps_restoreAfterCommit)
  have "keeps idle (with_rebuild ops c (bindA (state_apply dump ops st m dir expected
       (thenA (contextPreflight ops backend c) (captureSequences ops c))
       (thenA (validateAndRestoreSequences ops c) (validateTargetValues ops backend c)))
     (\<lambda>actual. thenA (restoreAfterCommit ops c v) (retA actual))))" for c m v
    unfolding keeps_hoare with_rebuild_def
    by (rule hoare_thenA [OF rebuild_begin_hoare], rule hoare_finallyA [OF body [unfolded keeps_hoare]])
      (rule rebuild_end_hoare)+
  then show ?thesis unfolding execute_step_def Let_def by (intro keeps_intros)
qed

lemma rebuild_free_state:
  "keeps (\<lambda>db. db_rebuild db = None) (state_status dump ops st)"
  "keeps (\<lambda>db. db_rebuild db = None) (state_baseline dump ops st target)"
  "keeps (\<lambda>db. db_rebuild db = None) (state_resolve dump ops st version digest resolution)"
  unfolding state_status_def state_baseline_def state_resolve_def state_plan_def baseline_body_def resolve_body_def Let_def
    with_transaction_def with_write_def write_begin_def write_end_def beginHistory_def write_commit_def
    transaction_begin_def transaction_end_def transaction_commit_def finish_transaction_def lock_begin_def
    lock_end_def lock_finish_def
  by (intro keeps_intros; simp)+

lemma idle_state:
  "keeps idle (state_status dump ops st)"
  "keeps idle (state_baseline dump ops st target)"
  "keeps idle (state_resolve dump ops st version digest resolution)"
  unfolding idle_held
  by (intro keeps_conj rebuild_free_state keeps_status keeps_state_baseline keeps_state_resolve; simp)+

lemma idle_new_state: "keeps idle (new_state ops catalog)"
  unfolding new_state_def ready_def by (intro keeps_intros) (simp_all add: idle_def)

end
