(* ===== verification/Orm_Migration_Progress.thy ===== *)
theory Orm_Migration_Progress
  imports Orm_Runner
begin

text \<open>
  Progress of the runner: on a session that works, every pending migration is applied. An engine
  that keeps its tables in memory shows that the conditions can be met, and is the engine of the
  witnesses.
\<close>

section \<open>Engines on which migrations go through\<close>

text \<open>
  A session that works: it stays connected, nothing it is asked to do fails, what it reads is the
  history it holds, and inserting the record of a later migration for \<open>backend\<close> appends that record. The engine
  is transactional and has no journal.
\<close>

definition record_of :: "migration \<Rightarrow> backend_type \<Rightarrow> string \<Rightarrow> bool \<Rightarrow> string \<Rightarrow> applied_migration" where
  "record_of m backend digest baseline at = \<lparr>am_version = mg_version m, am_name = mg_name m, am_backend = backend,
     am_checksum = digest, am_appliedAt = at, am_baseline = baseline\<rparr>"

definition insert_sql :: "string \<Rightarrow> string" where
  "insert_sql table = ''INSERT INTO '' @ table
     @ '' (version,name,backend,checksum,baseline) VALUES (:version,:name,:backend,:checksum,:baseline)''"

definition insert_values :: "migration \<Rightarrow> backend_type \<Rightarrow> string \<Rightarrow> bool \<Rightarrow> (string \<times> sql_value) list" where
  "insert_values m backend digest baseline =
     [(''version'', IntValue (mg_version m)), (''name'', TextValue (mg_name m)),
      (''backend'', IntValue (int (backend_number backend))), (''checksum'', TextValue digest),
      (''baseline'', IntValue (if baseline then 1 else 0))]"

definition holds :: "('d, 'a) act \<Rightarrow> ('d \<Rightarrow> 'h) \<Rightarrow> bool" where
  "holds m hist \<longleftrightarrow> (\<forall>h. returns (\<lambda>d. hist d = h) m (\<lambda>_ d. hist d = h))"

definition healthy ::
  "('d, 'r) session_ops \<Rightarrow> string \<Rightarrow> ('d \<Rightarrow> applied_migration list) \<Rightarrow> backend_type \<Rightarrow> bool" where
  "healthy ops table hist backend \<longleftrightarrow>
     (\<forall>d. so_is_connected ops d) \<and> so_supported ops \<and> so_atomicity ops = WholeMigration \<and>
     holds (so_validate_session ops) hist \<and> holds (so_begin ops) hist \<and> (\<forall>t. holds (so_begin_migration ops t) hist) \<and>
     (\<forall>v. holds (so_commit ops v) hist) \<and> (\<forall>sql v. holds (so_execute ops sql v) hist) \<and>
     (\<forall>t. holds (so_create_history ops t) hist) \<and>
     (\<forall>h. returns (\<lambda>d. hist d = h) (so_migration_table ops) (\<lambda>t d. t = table \<and> hist d = h)) \<and>
     (\<forall>h. returns (\<lambda>d. hist d = h) (so_journal_table ops table) (\<lambda>t d. t = [] \<and> hist d = h)) \<and>
     (\<forall>h. returns (\<lambda>d. hist d = h) (so_history_exists ops table) (\<lambda>b d. b \<and> hist d = h)) \<and>
     (\<forall>h. returns (\<lambda>d. hist d = h) (so_select ops (history_query table) [])
        (\<lambda>rows d. history_rows (so_row ops) rows = Inr h \<and> hist d = h)) \<and>
     (\<forall>h m digest. current_version h < mg_version m \<longrightarrow>
        returns (\<lambda>d. hist d = h) (so_run ops (insert_sql table) (insert_values m backend digest False))
          (\<lambda>_ d. \<exists>at. hist d = h @ [record_of m backend digest False at]))"

text \<open>
  The database is connected to \<open>backend\<close> without a transaction of the application or a lock; its
  session holds \<open>h\<close>, the open scope is \<open>s\<close>, the activity flag \<open>a\<close> and the rebuild session \<open>rb\<close>.
\<close>

definition at ::
  "('d \<Rightarrow> applied_migration list) \<Rightarrow> backend_type \<Rightarrow> applied_migration list \<Rightarrow> (bool \<times> bool) option \<Rightarrow> bool
   \<Rightarrow> rebuild_session option \<Rightarrow> 'd database \<Rightarrow> bool" where
  "at hist backend h s a rb db \<longleftrightarrow> hist (db_session db) = h \<and> db_backend db = Some backend \<and> \<not> db_transaction db
     \<and> db_lock db = None \<and> db_scope db = s \<and> db_migrationActive db = a \<and> db_rebuild db = rb"

lemma returns_bind_eq: "returns P m (\<lambda>x s. x = v \<and> R s) \<Longrightarrow> returns R (f v) Q \<Longrightarrow> returns P (bindA m f) Q"
  by (force simp: returns_def bindA_Inr)

lemma at_sessionA:
  assumes "returns (\<lambda>d. hist d = h) m (\<lambda>x d. Q x \<and> hist d = h)"
  shows "returns (at hist backend h s a rb) (sessionA m) (\<lambda>x db. Q x \<and> at hist backend h s a rb db)"
  unfolding returns_def
proof (intro allI impI)
  fix db assume db: "at hist backend h s a rb db"
  then obtain x d where "m (db_session db) = (Inr x, d)" "Q x \<and> hist d = h"
    using returnsE [OF assms] by (metis at_def)
  with db show "\<exists>x db'. sessionA m db = (Inr x, db') \<and> Q x \<and> at hist backend h s a rb db'"
    by (auto simp: sessionA_def at_def)
qed

lemma at_holds: "holds m hist \<Longrightarrow> returns (at hist backend h s a rb) (sessionA m) (\<lambda>_. at hist backend h s a rb)"
  using at_sessionA [where Q = "\<lambda>_. True"] by (fastforce simp: holds_def)

lemma at_readHistory:
  assumes "healthy ops table hist owner"
  shows "returns (at hist backend h s a rb) (readHistory ops table) (\<lambda>x db. x = h \<and> at hist backend h s a rb db)"
proof -
  have exists: "returns (at hist backend h s a rb) (sessionA (so_history_exists ops table))
      (\<lambda>b db. b = True \<and> at hist backend h s a rb db)"
    using assms by (intro at_sessionA) (simp add: healthy_def)
  have select: "returns (at hist backend h s a rb) (sessionA (so_select ops (history_query table) []))
      (\<lambda>rows db. history_rows (so_row ops) rows = Inr h \<and> at hist backend h s a rb db)"
    using assms by (intro at_sessionA) (simp add: healthy_def)
  show ?thesis
    unfolding readHistory_def
    by (rule returns_bind_eq [OF exists]) (simp, rule returns_bindA [OF select], simp add: returns_def)
qed

lemma at_readIncomplete:
  assumes "healthy ops table hist owner"
  shows "returns (at hist backend h s a rb) (readIncomplete ops table) (\<lambda>x db. x = None \<and> at hist backend h s a rb db)"
proof -
  have journal: "returns (at hist backend h s a rb) (sessionA (so_journal_table ops table))
      (\<lambda>t db. t = [] \<and> at hist backend h s a rb db)"
    using assms by (intro at_sessionA) (simp add: healthy_def)
  show ?thesis
    unfolding readIncomplete_def
    by (rule returns_bind_eq [OF journal]) (auto simp: returns_def bindA_Inr)
qed

lemma at_getBackend:
  assumes "healthy ops table hist owner"
  shows "returns (at hist backend h s a rb) (getBackend ops) (\<lambda>_. at hist backend h s a rb)"
  using assms by (auto simp: returns_def getBackend_def bindA_Inr isConnected_def healthy_def at_def)

lemma at_requireHistory:
  assumes "healthy ops (ms_table st) hist (ms_backend st)"
  shows "returns (at hist backend h s a rb) (requireHistory ops st h version) (\<lambda>_. at hist backend h s a rb)"
  unfolding requireHistory_def by (rule returns_bind_eq [OF at_readHistory [OF assms]]) (simp add: returns_def)

lemma at_transaction:
  assumes "healthy ops table hist owner"
  shows "returns (at hist backend h None a rb) (transaction_begin ops t w) (\<lambda>_. at hist backend h (Some (False, a)) True rb)"
    and "returns (at hist backend h (Some (f, p)) a rb) (transaction_commit ops v) (\<lambda>_. at hist backend h (Some (True, p)) a rb)"
    and "returns (at hist backend h (Some (True, p)) a rb) (transaction_end ops) (\<lambda>_. at hist backend h None p rb)"
proof -
  have start: "returns (at hist backend h None a rb) (if w then thenA (getBackend ops) (sessionA (so_begin_migration ops t)) else sessionA (so_begin ops))
      (\<lambda>_. at hist backend h None a rb)"
    using assms by (auto intro!: returns_thenA at_getBackend at_holds simp: healthy_def)
  show "returns (at hist backend h None a rb) (transaction_begin ops t w) (\<lambda>_. at hist backend h (Some (False, a)) True rb)"
    unfolding transaction_begin_def
    by (rule returns_bind_eq [where v = a and R = "at hist backend h None a rb"], rule returns_getA, simp add: at_def,
        rule returns_thenA [OF start], rule returns_modifyA) (simp add: at_def)
  have commit: "returns (at hist backend h (Some (f, p)) a rb) (sessionA (so_commit ops v)) (\<lambda>_. at hist backend h (Some (f, p)) a rb)"
    using assms by (auto intro!: at_holds simp: healthy_def)
  show "returns (at hist backend h (Some (f, p)) a rb) (transaction_commit ops v) (\<lambda>_. at hist backend h (Some (True, p)) a rb)"
    unfolding transaction_commit_def finish_transaction_def
    by (rule returns_bind_eq [where v = backend and R = "at hist backend h (Some (f, p)) a rb"], rule returns_getA,
        simp add: at_def backendType_def, rule returns_catchA, rule returns_thenA [OF commit], rule returns_modifyA)
      (simp add: at_def)
  show "returns (at hist backend h (Some (True, p)) a rb) (transaction_end ops) (\<lambda>_. at hist backend h None p rb)"
    by (auto simp: returns_def transaction_end_def bindA_Inr thenA_Inr at_def)
qed


lemma returns_exists: "(\<And>t. returns (P t) m Q) \<Longrightarrow> returns (\<lambda>s. \<exists>t. P t s) m Q"
  by (auto simp: returns_def)

lemma baselines_snoc: "baselines_first h \<Longrightarrow> \<not> am_baseline r \<Longrightarrow> baselines_first (h @ [r])"
proof -
  assume h: "baselines_first h" "\<not> am_baseline r"
  then have "dropWhile am_baseline (h @ [r]) = dropWhile am_baseline h @ [r]"
    by (induction h) (auto simp: baselines_first_def)
  with h show ?thesis by (simp add: baselines_first_def)
qed

lemma history_matches_snoc:
  assumes "history_matches dump ms backend h" "length h < length ms"
    and "record_matches dump backend r (ms ! length h)" "\<not> am_baseline r"
  shows "history_matches dump ms backend (h @ [r])"
  using assms by (auto simp: history_matches_def baselines_snoc take_Suc_conv_app_nth list_all2_appendI)

lemma state_status_returns:
  assumes "healthy ops (ms_table st) hist (ms_backend st)" "history_matches dump (ms_catalog st) (ms_backend st) h"
  shows "returns (at hist backend h None a rb) (state_status dump ops st)
    (\<lambda>x db. x = valid_status (ms_catalog st) h \<and> at hist backend h None a rb db)"
proof -
  let ?open = "at hist backend h (Some (False, a)) True rb" and ?done = "at hist backend h (Some (True, a)) True rb"
  have inspect: "returns ?open (inspect dump ops st) (\<lambda>x db. x = valid_status (ms_catalog st) h \<and> ?open db)"
    unfolding inspect_def
    by (rule returns_bind_eq [OF at_readHistory [OF assms(1)]], rule returns_bind_eq [OF at_readIncomplete [OF assms(1)]])
      (simp add: returns_def matching_evaluates [OF assms(2)])
  have body: "returns ?open (bindA (inspect dump ops st) (\<lambda>result. thenA (transaction_commit ops 0) (retA result)))
      (\<lambda>x db. x = valid_status (ms_catalog st) h \<and> ?done db)"
    by (rule returns_bind_eq [OF inspect], rule returns_thenA [OF at_transaction(2) [OF assms(1)]]) (simp add: returns_def)
  have stop: "returns (\<lambda>db. x = valid_status (ms_catalog st) h \<and> ?done db) (transaction_end ops)
      (\<lambda>_ db. x = valid_status (ms_catalog st) h \<and> at hist backend h None a rb db)" for x
    using at_transaction(3) [OF assms(1)] by (fastforce simp: returns_def)
  show ?thesis
    unfolding state_status_def with_transaction_def
    by (rule returns_catchA, rule returns_thenA [OF at_transaction(1) [OF assms(1)]],
        rule returns_finallyA [OF body stop])
qed

text \<open>Applying the next migration of the catalog.\<close>

lemma changeHistory_returns:
  assumes "healthy ops (ms_table st) hist (ms_backend st)" "current_version h < mg_version m"
    and "scriptsFor m (ms_backend st) = Inr scripts" "checksum dump scripts = Inr digest"
  shows "returns (at hist backend h s a rb) (changeHistory dump ops st m Up)
    (\<lambda>_ db. \<exists>t. at hist backend (h @ [record_of m (ms_backend st) digest False t]) s a rb db)"
proof -
  have run: "returns (\<lambda>d. hist d = h) (so_run ops (insert_sql (ms_table st)) (insert_values m (ms_backend st) digest False))
      (\<lambda>_ d. \<exists>t. hist d = h @ [record_of m (ms_backend st) digest False t])"
    using assms(1,2) by (simp add: healthy_def)
  have "returns (at hist backend h s a rb) (sessionA (so_run ops (insert_sql (ms_table st)) (insert_values m (ms_backend st) digest False)))
      (\<lambda>_ db. \<exists>t. at hist backend (h @ [record_of m (ms_backend st) digest False t]) s a rb db)"
    unfolding returns_def
  proof (intro allI impI)
    fix db assume db: "at hist backend h s a rb db"
    then obtain x d t where "so_run ops (insert_sql (ms_table st)) (insert_values m (ms_backend st) digest False) (db_session db) = (Inr x, d)"
      "hist d = h @ [record_of m (ms_backend st) digest False t]"
      using returnsE [OF run] by (metis at_def)
    with db show "\<exists>x db'. sessionA (so_run ops (insert_sql (ms_table st)) (insert_values m (ms_backend st) digest False)) db = (Inr x, db') \<and>
        (\<exists>t. at hist backend (h @ [record_of m (ms_backend st) digest False t]) s a rb db')"
      by (auto simp: sessionA_def at_def)
  qed
  then show ?thesis
    by (simp add: changeHistory_def recordHistory_def assms(3,4) bindA_liftR insert_sql_def insert_values_def)
qed

text \<open>The end of \<^verbatim>\<open>apply\<close>: reading the history back and committing it.\<close>

lemma apply_tail_returns:
  assumes "healthy ops (ms_table st) hist (ms_backend st)" "history_matches dump (ms_catalog st) (ms_backend st) (h @ [r])"
  shows "returns (at hist backend (h @ [r]) (Some (False, a)) True rb)
    (bindA (readHistory ops (ms_table st)) (\<lambda>actual.
     thenA (throwIfA (\<not> history_extended Up h actual) e)
       (bindA (liftR (evaluate dump (ms_catalog st) (ms_backend st) actual None)) (\<lambda>status.
        thenA (liftR (requireValid status (ms_backend st)))
       (thenA (retA ()) (thenA (write_commit ops (ms_table st) v) (retA actual)))))))
    (\<lambda>x db. x = h @ [r] \<and> at hist backend (h @ [r]) (Some (True, a)) True rb db)"
proof -
  let ?h = "h @ [r]"
  let ?open = "at hist backend ?h (Some (False, a)) True rb" and ?done = "at hist backend ?h (Some (True, a)) True rb"
  have extended: "history_extended Up h ?h" by (simp add: history_extended_def)
  have commit: "returns ?open (write_commit ops (ms_table st) v) (\<lambda>_. ?done)"
    unfolding write_commit_def
    by (rule returns_thenA [OF at_transaction(2) [OF assms(1)]]) (auto simp: returns_def bindA_Inr at_def)
  note valid = matching_evaluates [OF assms(2)]
  show ?thesis
    by (rule returns_bind_eq [OF at_readHistory [OF assms(1)]])
      (simp add: extended valid bindA_liftR, intro returns_thenA [where R = ?open] returns_thenA [OF commit];
        simp add: returns_def valid)
qed

lemma at_scope: "returns (at hist backend h (Some s) a rb) (beginHistory ops table) (\<lambda>_. at hist backend h (Some s) a rb)"
  by (auto simp: returns_def beginHistory_def bindA_Inr at_def)

lemma state_apply_returns:
  assumes laws: "healthy ops (ms_table st) hist (ms_backend st)" "ascending (ms_catalog st)"
    and h: "history_matches dump (ms_catalog st) (ms_backend st) h" "length h < length (ms_catalog st)"
    and m: "m = ms_catalog st ! length h" "scriptsFor m (ms_backend st) = Inr scripts" "checksum dump scripts = Inr digest"
    and pre: "\<And>h s a. returns (at hist backend h s a rb) preflight (\<lambda>_. at hist backend h s a rb)"
    and val: "\<And>h s a. returns (at hist backend h s a rb) validateResult (\<lambda>_. at hist backend h s a rb)"
  shows "returns (at hist backend h None a rb) (state_apply dump ops st m Up h preflight validateResult)
    (\<lambda>x db. history_matches dump (ms_catalog st) (ms_backend st) x \<and> length x = Suc (length h) \<and> at hist backend x None a rb db)"
proof -
  have whole: "\<not> nonTransactional ops" using laws(1) by (simp add: nonTransactional_def healthy_def)
  define rec where "rec t = record_of m (ms_backend st) digest False t" for t
  have next_version: "current_version h < mg_version m"
    using current_version_at(1) [OF h(1)] version_at_le [OF laws(2) h(2), of "length h"] h(2) m(1) by auto
  have matches: "history_matches dump (ms_catalog st) (ms_backend st) (h @ [rec t])" for t
    using h m by (intro history_matches_snoc) (auto simp: rec_def record_of_def record_matches_def)
  have begin_write: "returns (at hist backend h None a rb) (write_begin ops (ms_table st)) (\<lambda>_. at hist backend h (Some (False, a)) True rb)"
    unfolding write_begin_def using whole
    by (simp add: returns_thenA [OF at_getBackend [OF laws(1)] at_transaction(1) [OF laws(1)]])
  have end_write: "returns (at hist backend x (Some (True, a)) True rb) (write_end ops (ms_table st)) (\<lambda>_. at hist backend x None a rb)" for x
    unfolding write_end_def
    by (rule returns_thenA [OF at_transaction(3) [OF laws(1)]]) (auto simp: returns_def lock_end_def bindA_Inr at_def)
  have created: "returns (at hist backend h s b rb) (sessionA (so_create_history ops t)) (\<lambda>_. at hist backend h s b rb)"
    and executed: "returns (at hist backend h s b rb) (sessionA (so_execute ops sql v)) (\<lambda>_. at hist backend h s b rb)" for s b t sql v
    using laws(1) by (auto intro!: at_holds simp: healthy_def)
  let ?open = "at hist backend h (Some (False, a)) True rb"
  have body: "returns ?open (apply_body dump ops st m Up h scripts sql preflight validateResult)
      (\<lambda>x db. history_matches dump (ms_catalog st) (ms_backend st) x \<and> length x = Suc (length h) \<and>
         at hist backend x (Some (True, a)) True rb db)" for sql
    unfolding apply_body_def Let_def if_not_P [OF whole]
    by (rule returns_thenA [where R = ?open], simp add: returns_retA,
        rule returns_thenA [OF at_scope], rule returns_thenA [OF at_requireHistory [OF laws(1)]],
        rule returns_thenA [OF returns_thenA [OF pre returns_thenA [OF created executed]]],
        rule returns_thenA [OF val], rule returns_thenA [OF changeHistory_returns [OF laws(1) next_version m(2,3)]],
        rule returns_exists, rule returns_weaken [OF apply_tail_returns [OF laws(1) matches [unfolded rec_def]]])
      (auto simp: matches [unfolded rec_def])
  have stop: "returns (\<lambda>db. history_matches dump (ms_catalog st) (ms_backend st) x \<and> length x = Suc (length h) \<and>
         at hist backend x (Some (True, a)) True rb db) (write_end ops (ms_table st))
      (\<lambda>_ db. history_matches dump (ms_catalog st) (ms_backend st) x \<and> length x = Suc (length h) \<and> at hist backend x None a rb db)" for x
    using end_write by (fastforce simp: returns_def)
  show ?thesis
    unfolding state_apply_def m(2) bindA_liftR Let_def with_write_def
    by (rule returns_catchA, rule returns_thenA [OF begin_write], rule returns_finallyA [OF body stop])
qed


section \<open>Running a whole plan\<close>

text \<open>A migration whose up script needs no schema checks, as one written by hand has.\<close>

definition checkless :: "execution_context \<Rightarrow> bool" where
  "checkless context \<longleftrightarrow> ec_mode context = NormalMode \<and> ec_source context = None \<and> ec_target context = None"

definition runnable :: "dumper \<Rightarrow> backend_type \<Rightarrow> migration \<Rightarrow> bool" where
  "runnable dump backend m \<longleftrightarrow>
     (case map_of (mg_scripts m) backend of
        None \<Rightarrow> False
      | Some scripts \<Rightarrow> isOk (checksum dump scripts) \<and> checkless (sm_upContext scripts))"

abbreviation no_rebuild :: "bool \<Rightarrow> rebuild_session" where
  "no_rebuild a \<equiv> \<lparr>rb_previousActive = a, rb_previousForeignKeys = 0, rb_enabled = False, rb_sequences = []\<rparr>"

lemma checkless_actions:
  assumes "checkless context"
  shows "returns (at hist backend h s a (Some (no_rebuild b))) (thenA (contextPreflight ops backend' context) (captureSequences ops context))
      (\<lambda>_. at hist backend h s a (Some (no_rebuild b)))"
    "returns (at hist backend h s a (Some (no_rebuild b)))
       (thenA (validateAndRestoreSequences ops context) (validateTargetValues ops backend' context))
      (\<lambda>_. at hist backend h s a (Some (no_rebuild b)))"
  using assms
  by (auto simp: returns_def checkless_def contextPreflight_def captureSequences_def validateAndRestoreSequences_def
      validateTargetValues_def thenA_Inr bindA_Inr rebuild_of_def at_def)

lemma checkless_rebuild:
  assumes "checkless context"
  shows "returns (at hist backend h s a None) (rebuild_begin ops context) (\<lambda>_. at hist backend h s a (Some (no_rebuild a)))"
    "returns (at hist backend h s a (Some (no_rebuild b))) (restoreAfterCommit ops context v) (\<lambda>_. at hist backend h s a (Some (no_rebuild b)))"
    "returns (at hist backend h s a (Some (no_rebuild b))) (rebuild_end ops context) (\<lambda>_. at hist backend h s a None)"
  using assms
  by (auto simp: returns_def checkless_def rebuild_begin_def restoreAfterCommit_def rebuild_end_def restoreNoThrow_def
      noexceptA_def rebuild_restore_def drop_rebuild_def catchA_def thenA_def bindA_def rebuild_of_def at_def)

lemma find_version_nth: "ascending ms \<Longrightarrow> i < length ms \<Longrightarrow> find_version ms (mg_version (ms ! i)) = Some (ms ! i)"
  by (auto simp: find_version_def find_Some_iff intro!: exI [of _ i])
    (metis ascending_less order_less_irrefl order_less_trans)

lemma execute_step_returns:
  assumes laws: "healthy ops (ms_table st) hist (ms_backend st)" "ascending (ms_catalog st)"
    and h: "history_matches dump (ms_catalog st) (ms_backend st) h" "length h < length (ms_catalog st)"
    and step: "pm_version step = mg_version (ms_catalog st ! length h)"
    and run: "runnable dump (ms_backend st) (ms_catalog st ! length h)"
  shows "returns (at hist backend h None a None) (execute_step dump ops st (ms_backend st) Up step h)
    (\<lambda>x db. history_matches dump (ms_catalog st) (ms_backend st) x \<and> length x = Suc (length h) \<and> at hist backend x None a None db)"
proof -
  let ?m = "ms_catalog st ! length h"
  from run obtain scripts digest where scripts: "map_of (mg_scripts ?m) (ms_backend st) = Some scripts"
    "checksum dump scripts = Inr digest" "checkless (sm_upContext scripts)"
    by (auto simp: runnable_def isOk_iff split: option.splits)
  then have scriptsFor: "scriptsFor ?m (ms_backend st) = Inr scripts" by (simp add: scriptsFor_def)
  let ?Q = "\<lambda>rb x db. history_matches dump (ms_catalog st) (ms_backend st) x \<and> length x = Suc (length h) \<and> at hist backend x None a rb db"
  note applied = state_apply_returns [OF laws h refl scriptsFor scripts(2) checkless_actions [OF scripts(3)]]
  have after: "returns (?Q (Some (no_rebuild a)) x) (thenA (restoreAfterCommit ops (sm_upContext scripts) v) (retA x)) (?Q (Some (no_rebuild a)))" for x v
    by (rule returns_thenA [where R = "?Q (Some (no_rebuild a)) x"])
      (use checkless_rebuild(2) [OF scripts(3)] in \<open>fastforce simp: returns_def\<close>)+
  have stop: "returns (?Q (Some (no_rebuild a)) x) (rebuild_end ops (sm_upContext scripts)) (\<lambda>_. ?Q None x)" for x
    using checkless_rebuild(3) [OF scripts(3)] by (fastforce simp: returns_def)
  show ?thesis
    unfolding execute_step_def step Let_def find_version_nth [OF laws(2) h(2)] option.sel scripts(1) option.case if_P [OF refl]
      with_rebuild_def
    by (rule returns_catchA, rule returns_thenA [OF checkless_rebuild(1) [OF scripts(3)]],
        rule returns_finallyA [OF returns_bindA [OF applied after] stop])
qed

lemma execute_steps_return:
  assumes laws: "healthy ops (ms_table st) hist (ms_backend st)" "ascending (ms_catalog st)"
    and run: "\<forall>m \<in> set (ms_catalog st). runnable dump (ms_backend st) m"
  shows "history_matches dump (ms_catalog st) (ms_backend st) h \<Longrightarrow>
    map pm_version steps = map mg_version (drop (length h) (ms_catalog st)) \<Longrightarrow>
    returns (at hist backend h None a None) (foldA (execute_step dump ops st (ms_backend st) Up) steps h)
      (\<lambda>x db. history_matches dump (ms_catalog st) (ms_backend st) x \<and> length x = length (ms_catalog st) \<and> at hist backend x None a None db)"
proof (induction steps arbitrary: h)
  case Nil
  then show ?case by (auto simp: returns_def history_matches_def)
next
  case (Cons step steps)
  then have n: "length h < length (ms_catalog st)" by (cases "length h < length (ms_catalog st)") auto
  then have drop: "drop (length h) (ms_catalog st) = ms_catalog st ! length h # drop (Suc (length h)) (ms_catalog st)"
    by (simp add: Cons_nth_drop_Suc)
  have "pm_version step = mg_version (ms_catalog st ! length h)" using Cons.prems(2) drop by simp
  note step = execute_step_returns [OF laws Cons.prems(1) n this bspec [OF run nth_mem [OF n]]]
  have tail: "map pm_version steps = map mg_version (drop (Suc (length h)) (ms_catalog st))" using Cons.prems(2) drop by simp
  have "returns (\<lambda>db. history_matches dump (ms_catalog st) (ms_backend st) x \<and> length x = Suc (length h) \<and> at hist backend x None a None db)
      (foldA (execute_step dump ops st (ms_backend st) Up) steps x)
      (\<lambda>x db. history_matches dump (ms_catalog st) (ms_backend st) x \<and> length x = length (ms_catalog st) \<and> at hist backend x None a None db)" for x
    using Cons.IH [of x] tail by (auto simp: returns_def)
  then show ?case unfolding foldA.simps by (rule returns_bindA [OF step])
qed

lemma new_state_returns:
  assumes "healthy ops table hist backend" "backendName backend = Inr name" "validateCatalog catalog backend = Inr ()"
  shows "returns (at hist backend h None False None) (new_state ops catalog)
    (\<lambda>st db. st = \<lparr>ms_catalog = catalog, ms_backend = backend, ms_table = table\<rparr> \<and> at hist backend h None False None db)"
proof -
  let ?P = "at hist backend h None False None"
  have validate: "returns ?P (sessionA (so_validate_session ops)) (\<lambda>_. ?P)"
    using assms(1) by (intro at_holds) (simp add: healthy_def)
  have table: "returns ?P (sessionA (so_migration_table ops)) (\<lambda>t db. t = table \<and> ?P db)"
    using assms(1) by (intro at_sessionA) (simp add: healthy_def)
  have "returns ?P (ready ops) (\<lambda>x db. x = backend \<and> ?P db)"
    unfolding ready_def returns_def
  proof (intro allI impI)
    fix db assume db: "?P db"
    then obtain u db' where run: "sessionA (so_validate_session ops) db = (Inr u, db')" "?P db'" using returnsE [OF validate] by metis
    have "backendType db = backend" "isConnected ops db" "\<not> db_transaction db" "\<not> db_migrationActive db" "so_supported ops"
      using db assms(1) by (auto simp: at_def backendType_def isConnected_def healthy_def)
    with run assms(2) show "\<exists>x db'. bindA (getA backendType) (\<lambda>backend. bindA (getA (isConnected ops)) (\<lambda>connected.
     thenA (throwIfA (\<not> connected)
              (MigrationError NotConnected ''Migrations require a connected database'' 0 backend None))
     (bindA (getA (\<lambda>db. db_transaction db \<or> db_migrationActive db)) (\<lambda>busy.
     thenA (throwIfA busy
              (MigrationError ActiveTransaction ''Migrations require an idle database session'' 0 backend None))
     (thenA (throwIfA (\<not> so_supported ops)
               (MigrationError UnsupportedBackend ''Backend does not support migrations'' 0 backend None))
     (thenA (liftR (backendName backend))
     (thenA (catchA (sessionA (so_validate_session ops)) (soci_handler ops backend 0))
     (retA backend)))))))) db = (Inr x, db') \<and> x = backend \<and> ?P db'"
      by (simp add: bindA_def thenA_def catchA_def)
  qed
  from this show ?thesis
    unfolding new_state_def
    by (rule returns_bind_eq)
      (simp add: assms(3), rule returns_thenA [where R = ?P], simp add: returns_def,
       rule returns_bind_eq [OF returns_catchA [OF table]], simp add: returns_def)
qed

lemma plan_up_all:
  assumes "ascending ms" "history_matches dump ms backend h" "\<forall>m \<in> set ms. runnable dump backend m"
  shows "\<exists>p. makePlan ms backend (valid_status ms h) Up None = Inr p \<and> map pm_version (pl_migrations p) = map mg_version (drop (length h) ms)"
proof -
  have n: "length h \<le> length ms" using assms(2) by (simp add: history_matches_def)
  have "isOk (mapR (plan_step backend Up) (drop (length h) ms))"
    using assms(3) by (auto simp: mapR_isOk plan_step_def scriptsFor_def runnable_def dest: in_set_dropD split: option.splits)
  then obtain steps where steps: "mapR (plan_step backend Up) (drop (length h) ms) = Inr steps" by (auto simp: isOk_iff)
  have target: "plan_target ms Up None = version_at ms (length ms)"
    by (auto simp: plan_target_def version_at_def last_conv_nth)
  have "makePlan ms backend (valid_status ms h) Up None = Inr \<lparr>pl_direction = Up, pl_from = current_version h,
      pl_to = version_at ms (length ms), pl_atomicity = WholeMigration, pl_migrations = steps\<rparr>"
    unfolding makePlan_requested [of _ _ _ _ None] target
    by (subst makePlan_spec [OF assms(1) matching_evaluates [OF assms(2), THEN conjunct1] assms(2)])
      (rule exI [of _ "length ms"], simp add: steps plan_bounds_def plan_slice_def n)
  with plan_steps_versions [OF steps] show ?thesis by simp
qed

lemma Runner_up_returns:
  assumes "healthy ops table hist backend" "ascending catalog" "backendName backend = Inr name"
    and "validateCatalog catalog backend = Inr ()" "\<forall>m \<in> set catalog. runnable dump backend m"
    and "history_matches dump catalog backend h"
  shows "returns (at hist backend h None False None) (Runner_up dump ops catalog None)
    (\<lambda>_ db. \<exists>x. history_matches dump catalog backend x \<and> length x = length catalog \<and> at hist backend x None False None db)"
proof -
  let ?P = "at hist backend h None False None"
  let ?st = "\<lparr>ms_catalog = catalog, ms_backend = backend, ms_table = table\<rparr>"
  from plan_up_all [OF assms(2,6,5)] obtain p where p: "makePlan catalog backend (valid_status catalog h) Up None = Inr p"
    "map pm_version (pl_migrations p) = map mg_version (drop (length h) catalog)" by blast
  have healthy: "healthy ops (ms_table ?st) hist (ms_backend ?st)" using assms(1) by simp
  have status: "returns ?P (state_status dump ops ?st) (\<lambda>x db. x = valid_status catalog h \<and> ?P db)"
    using state_status_returns [OF healthy, of dump h] assms(6) by simp
  let ?p = "p\<lparr>pl_atomicity := so_atomicity ops\<rparr>"
  have plan: "returns ?P (state_plan ops ?st (valid_status catalog h) Up None) (\<lambda>x db. x = ?p \<and> ?P db)"
    unfolding state_plan_def by (simp add: p bindA_liftR, rule returns_thenA [OF at_getBackend [OF assms(1)]], simp add: returns_def)
  have steps: "returns ?P (execute_steps dump ops ?st backend Up (pl_migrations ?p) h)
      (\<lambda>x db. history_matches dump catalog backend x \<and> length x = length catalog \<and> at hist backend x None False None db)"
    using execute_steps_return [OF healthy, of dump h "pl_migrations p" backend False] assms(2,5,6) p(2) by (simp add: execute_steps_def)
  have backend: "returns ?P (getA backendType) (\<lambda>x db. x = backend \<and> ?P db)"
    by (simp add: returns_def at_def backendType_def)
  have applied: "st_applied (valid_status catalog h) = h" by (simp add: valid_status_def)
  have finish: "returns ?P (thenA (execute_steps dump ops ?st backend Up (pl_migrations ?p) (st_applied (valid_status catalog h))) (retA ()))
      (\<lambda>_ db. \<exists>x. history_matches dump catalog backend x \<and> length x = length catalog \<and> at hist backend x None False None db)"
    unfolding thenA_def applied by (rule returns_bindA [OF steps]) (auto simp: returns_def)
  show ?thesis
    unfolding Runner_up_def Runner_execute_def
    by (rule returns_bind_eq [OF new_state_returns [OF assms(1,3,4)]], rule returns_bind_eq [OF status],
        rule returns_bind_eq [OF plan], rule returns_bind_eq [OF backend], rule returns_thenA [OF at_getBackend [OF assms(1)] finish])
qed


section \<open>An engine in memory\<close>

text \<open>
  The history and the journal as lists, each with the contents of the last commit; a script only
  leaves a note that it was started, and fails if \<open>fails\<close> says so.
\<close>

record memory =
  mem_history :: "applied_migration list"
  mem_saved :: "applied_migration list"
  mem_journal :: "incomplete_migration list"
  mem_marker :: "incomplete_migration list"
  mem_started :: bool

type_synonym memory_row = "applied_migration + incomplete_migration"

definition memory_access :: "memory_row row_access" where
  "memory_access = \<lparr>
     get_int = (\<lambda>row i. case row of
         Inl r \<Rightarrow> Inr (if i = 5 then (if am_baseline r then 1 else 0) else int (backend_number (am_backend r)))
       | Inr m \<Rightarrow> Inr (if i = 0 then 1 else if i = 3 then int (backend_number (im_backend m))
                      else if im_direction m = Up then 0 else 1)),
     get_long = (\<lambda>row i. Inr (case row of Inl r \<Rightarrow> am_version r | Inr m \<Rightarrow> im_version m)),
     get_string = (\<lambda>row i. Inr (case row of
         Inl r \<Rightarrow> if i = 1 then am_name r else if i = 3 then am_checksum r else am_appliedAt r
       | Inr m \<Rightarrow> if i = 2 then im_name m else im_checksum m)),
     is_date = (\<lambda>row i. False), is_null = (\<lambda>row i. False), get_time = (\<lambda>row i. Inl BadCast),
     get_double = (\<lambda>row i. Inl BadCast)\<rparr>"

definition int_of :: "(string \<times> sql_value) list \<Rightarrow> string \<Rightarrow> int" where
  "int_of ps key = (case map_of ps key of Some (IntValue n) \<Rightarrow> n | _ \<Rightarrow> 0)"

definition text_of :: "(string \<times> sql_value) list \<Rightarrow> string \<Rightarrow> string" where
  "text_of ps key = (case map_of ps key of Some (TextValue s) \<Rightarrow> s | _ \<Rightarrow> [])"

definition backend_in :: "(string \<times> sql_value) list \<Rightarrow> backend_type" where
  "backend_in ps = (case backend_of_number (int_of ps ''backend'') of Some b \<Rightarrow> b | None \<Rightarrow> Sqlite)"

definition memory_run :: "string \<Rightarrow> (string \<times> sql_value) list \<Rightarrow> (memory, unit) act" where
  "memory_run sql ps =
     (if starts_with sql ''INSERT INTO h'' then modifyA (\<lambda>d. d\<lparr>mem_history := mem_history d @
          [\<lparr>am_version = int_of ps ''version'', am_name = text_of ps ''name'', am_backend = backend_in ps,
            am_checksum = text_of ps ''checksum'', am_appliedAt = ''now'', am_baseline = int_of ps ''baseline'' \<noteq> 0\<rparr>]\<rparr>)
      else if starts_with sql ''INSERT INTO j'' then modifyA (\<lambda>d. d\<lparr>mem_journal := mem_journal d @
          [\<lparr>im_version = int_of ps ''version'', im_name = text_of ps ''name'', im_backend = backend_in ps,
            im_direction = (if int_of ps ''direction'' = 0 then Up else Down), im_checksum = text_of ps ''checksum''\<rparr>]\<rparr>)
      else if starts_with sql ''DELETE FROM h'' then modifyA (\<lambda>d. d\<lparr>mem_history :=
          filter (\<lambda>r. am_version r \<noteq> int_of ps ''version'') (mem_history d)\<rparr>)
      else if starts_with sql ''DELETE FROM j'' then modifyA (\<lambda>d. d\<lparr>mem_journal := []\<rparr>)
      else retA ())"

definition memory_select :: "string \<Rightarrow> (string \<times> sql_value) list \<Rightarrow> (memory, memory_row list) act" where
  "memory_select sql ps =
     getA (\<lambda>d. if sql = history_query ''h''
                then map Inl (filter (\<lambda>r. am_backend r \<in> set generationBackends) (mem_history d))
                else if sql = marker_query ''j'' then map Inr (mem_journal d) else [])"

definition memory_ops :: "atomicity \<Rightarrow> (string \<Rightarrow> bool) \<Rightarrow> (memory, memory_row) session_ops" where
  "memory_ops kind fails = \<lparr>
     so_is_connected = (\<lambda>d. True), so_close = retA (), so_tx_rollback = retA (), so_validate_session = retA (),
     so_migration_table = retA ''h'', so_begin = retA (), so_begin_migration = (\<lambda>t. retA ()),
     so_end_migration = (\<lambda>t. retA ()),
     so_commit = (\<lambda>v. modifyA (\<lambda>d. d\<lparr>mem_saved := mem_history d, mem_marker := mem_journal d\<rparr>)),
     so_rollback = modifyA (\<lambda>d. d\<lparr>mem_history := mem_saved d, mem_journal := mem_marker d\<rparr>),
     so_execute = (\<lambda>sql v. thenA (modifyA (\<lambda>d. d\<lparr>mem_started := True\<rparr>)) (throwIfA (fails sql) (SociError None))),
     so_history_exists = (\<lambda>t. retA True), so_create_history = (\<lambda>t. retA ()),
     so_journal_table = (\<lambda>t. retA (if kind = NonTransactional then ''j'' else [])),
     so_select = memory_select, so_run = memory_run, so_row = memory_access,
     so_translate = (\<lambda>e error_code operation. DatabaseError error_code Empty operation [] None),
     so_limits = retA \<lparr>rl_maxBindParameters = None, rl_maxIndexBytes = None, rl_minUtcTimestamp = None, rl_maxUtcTimestamp = None\<rparr>,
     so_value_limits = \<lparr>vl_maxUnsignedLongLong = None, vl_minDate = None, vl_maxDate = None, vl_minLocalDateTime = None,
       vl_maxLocalDateTime = None, vl_minUtcTimestamp = None, vl_maxUtcTimestamp = None\<rparr>,
     so_supported = True, so_atomicity = kind\<rparr>"

definition memory_history :: "memory \<Rightarrow> applied_migration list" where
  "memory_history d = filter (\<lambda>r. am_backend r \<in> set generationBackends) (mem_history d)"

lemma memory_reads_history:
  "\<forall>r \<in> set rs. am_backend r \<in> set generationBackends \<Longrightarrow> history_rows memory_access (map Inl rs) = Inr rs"
proof -
  assume rs: "\<forall>r \<in> set rs. am_backend r \<in> set generationBackends"
  then have "mapR (history_row memory_access) (map Inl rs) = Inr rs"
    by (induction rs) (auto simp: history_row_def memory_access_def backend_of_number_def generationBackends_def)
  then show ?thesis by (simp add: history_rows_def bad_cast_as_def)
qed

lemma memory_healthy: "(\<And>sql. \<not> fails sql) \<Longrightarrow> healthy (memory_ops WholeMigration fails) ''h'' memory_history Sqlite"
proof -
  assume fails: "\<And>sql. \<not> fails sql"
  have steady: "holds (retA x) memory_history" for x by (simp add: holds_def returns_def)
  have select: "returns (\<lambda>d. memory_history d = h) (memory_select (history_query ''h'') [])
      (\<lambda>rows d. history_rows memory_access rows = Inr h \<and> memory_history d = h)" for h
  proof -
    have "history_rows memory_access (map Inl (memory_history d)) = Inr (memory_history d)" for d
      by (rule memory_reads_history) (auto simp: memory_history_def)
    then show ?thesis by (auto simp: returns_def memory_select_def memory_history_def)
  qed
  have insert: "returns (\<lambda>d. memory_history d = h) (memory_run (insert_sql ''h'') (insert_values m Sqlite digest False))
      (\<lambda>_ d. \<exists>t. memory_history d = h @ [record_of m Sqlite digest False t])" for h m digest
    by (auto simp: returns_def memory_run_def insert_sql_def insert_values_def starts_with_def memory_history_def
        record_of_def int_of_def text_of_def backend_in_def backend_of_number_def generationBackends_def)
  show ?thesis
    unfolding healthy_def memory_ops_def
    using steady select insert fails
    by (auto simp: holds_def returns_def thenA_Inr memory_history_def)
qed

end
