(* ===== verification/Orm_Migration_Correctness.thy ===== *)
theory Orm_Migration_Correctness
  imports Orm_Migration_Progress
begin

text \<open>
  The properties of the migration runner as a whole: it terminates at the requested version, an
  applied migration is one step of an abstract machine on the catalog, every call leaves the database
  idle, a failed migration changes nothing durable on a transactional engine, and on a
  nontransactional one the marker is durable before the script runs. The engine in memory of
  \<open>Orm_Migration_Progress\<close> is shown to keep the promises the last two ask of an engine.
\<close>

section \<open>The promises of the engine in memory\<close>

text \<open>What the engine in memory promises as a transactional and as a journaled engine.\<close>

definition memory_durable :: "memory \<Rightarrow> applied_migration list \<times> incomplete_migration list" where
  "memory_durable d = (mem_saved d, mem_marker d)"

definition marker_in :: "incomplete_migration list \<Rightarrow> incomplete_migration option" where
  "marker_in rows = (case marker_rows memory_access (map Inr rows) of Inr marker \<Rightarrow> marker | Inl _ \<Rightarrow> None)"

lemma memory_keeps: "keeps P (memory_select sql ps)"
  by (simp add: keeps_def memory_select_def)

lemma memory_run_keeps:
  "keeps (\<lambda>d. memory_durable d = x) (memory_run sql ps)" "keeps (\<lambda>d. \<not> mem_started d) (memory_run sql ps)"
  "keeps (\<lambda>d. marker_in (mem_marker d) = y) (memory_run sql ps)"
  by (auto simp: keeps_def memory_run_def memory_durable_def)

lemma memory_quiet:
  "quiet (memory_ops kind fails) (\<lambda>d. memory_durable d = x)"
  "quiet (memory_ops kind fails) (\<lambda>d. \<not> mem_started d)"
  "quiet (memory_ops kind fails) (\<lambda>d. marker_in (mem_marker d) = y)"
  unfolding quiet_def memory_ops_def
  by (simp_all add: keeps_retA memory_keeps memory_run_keeps) (simp_all add: keeps_def memory_durable_def)

lemma memory_transactional: "transactional (memory_ops kind fails) memory_durable"
  unfolding transactional_def by (simp add: memory_quiet) (simp add: memory_ops_def keeps_def memory_durable_def thenA_def bindA_def)

lemma memory_closes: "closes (memory_ops kind fails)" "releases (memory_ops kind fails)"
  by (simp_all add: closes_def releases_def memory_ops_def)

lemma memory_journaled:
  "journaled (memory_ops NonTransactional fails) ''h'' (\<lambda>d. marker_in (mem_marker d)) (\<lambda>d. marker_in (mem_journal d)) mem_started"
proof -
  let ?ops = "memory_ops NonTransactional fails"
  have "keeps (\<lambda>d. marker_in (mem_marker d) = x) (so_execute ?ops sql v)" for x sql v
    by (simp add: memory_ops_def keeps_def thenA_def bindA_def)
  moreover have "keeps (\<lambda>d. \<not> mem_started d) (so_commit ?ops v)" for v by (simp add: memory_ops_def keeps_def)
  moreover have "so_commit ?ops v d = (Inr (), d') \<Longrightarrow> marker_in (mem_marker d') = marker_in (mem_journal d)" for v d d'
    by (auto simp: memory_ops_def)
  moreover have "readIncomplete ?ops ''h'' db = (Inr marker, db') \<Longrightarrow> marker_in (mem_journal (db_session db')) = marker" for db db' marker
    by (auto simp: readIncomplete_def bindA_def sessionA_def memory_ops_def memory_select_def marker_in_def marker_query_def history_query_def)
  ultimately show ?thesis unfolding journaled_def by (simp add: memory_quiet)
qed

definition memory_database :: "backend_type \<Rightarrow> memory database" where
  "memory_database backend = \<lparr>db_backend = Some backend, db_transaction = False, db_transactionFailed = False,
     db_migrationActive = False,
     db_session = \<lparr>mem_history = [], mem_saved = [], mem_journal = [], mem_marker = [], mem_started = False\<rparr>,
     db_scope = None, db_lock = None, db_rebuild = None\<rparr>"

definition sample_state :: migration_state where
  "sample_state = \<lparr>ms_catalog = sample_catalog, ms_backend = Sqlite, ms_table = ''h''\<rparr>"

lemma sample_state_backend: "ms_backend sample_state = Sqlite" "ms_catalog sample_state = sample_catalog" "ms_table sample_state = ''h''"
  by (simp_all add: sample_state_def)

lemma sample_runnable: "\<forall>m \<in> set sample_catalog. runnable sample_dump Sqlite m"
proof -
  have "normalizeSql ''A;'' = Inr ''A;''" "normalizeSql ''B;'' = Inr ''B;''"
    "normalizeSql ''DROP TABLE users;'' = Inr ''DROP TABLE users;''" by code_simp+
  moreover have "isOk (contextJson sample_dump empty_context)" by code_simp
  ultimately show ?thesis
    by (auto simp: runnable_def sample_catalog_def sample_migration_def isOk_iff checksum_def)
      (simp_all add: checkless_def empty_context_def)
qed

lemma sample_validates: "validateCatalog sample_catalog Sqlite = Inr ()"
  by code_simp

lemma sample_ascending: "ascending sample_catalog"
  by (simp add: ascending_def sample_catalog_def sample_migration_def)

lemma sample_at: "at memory_history Sqlite [] None False None (memory_database Sqlite)"
  by (simp add: at_def memory_database_def memory_history_def)

lemma sample_empty: "history_matches sample_dump sample_catalog Sqlite []"
  by (simp add: history_matches_def baselines_first_def)

lemma sample_backend: "backendName Sqlite = Inr ''sqlite''"
  by code_simp

lemmas sample_up = Runner_up_returns [OF memory_healthy sample_ascending sample_backend sample_validates sample_runnable sample_empty]


section \<open>Progress\<close>




section \<open>Refinement of the catalog machine\<close>

text \<open>
  The abstract machine: its state is the number of migrations of the catalog that are applied, and it
  moves by one migration at a time, never past an end of the catalog.
\<close>

inductive catalog_step :: "migration list \<Rightarrow> direction \<Rightarrow> nat \<Rightarrow> nat \<Rightarrow> bool" for ms where
  up: "n < length ms \<Longrightarrow> catalog_step ms Up n (Suc n)"
| down: "n < length ms \<Longrightarrow> catalog_step ms Down (Suc n) n"

inductive_simps catalog_step_iff: "catalog_step ms dir n k"

lemma extended_step:
  assumes "history_extended dir h h'" "history_matches dump ms backend h" "history_matches dump ms backend h'"
  shows "catalog_step ms dir (length h) (length h')"
proof (cases dir)
  case Up
  with assms history_extended_Up obtain r where "h' = h @ [r]" by blast
  with assms(3) Up show ?thesis by (simp add: catalog_step_iff history_matches_def)
next
  case Down
  with assms history_extended_Down have "h \<noteq> []" "h' = butlast h" by auto
  with assms(2) Down show ?thesis by (cases "length h") (auto simp: catalog_step_iff history_matches_def)
qed

lemma fold_steps:
  assumes "foldA (execute_step dump ops st backend dir) steps h db = (Inr final, db')"
    and "history_matches dump (ms_catalog st) (ms_backend st) h"
  shows "(catalog_step (ms_catalog st) dir ^^ length steps) (length h) (length final)"
  using assms
proof (induction steps arbitrary: h db)
  case (Cons step steps)
  then obtain actual db1 where step: "execute_step dump ops st backend dir step h db = (Inr actual, db1)"
    and rest: "foldA (execute_step dump ops st backend dir) steps actual db1 = (Inr final, db')"
    by (auto simp: act_results)
  note result = execute_step_result [OF step]
  from extended_step [OF _ Cons.prems(2)] result Cons.IH [OF rest] show ?case
    by (auto simp: relpowp_Suc_left simp del: relpowp.simps intro!: relcomppI)
qed auto

text \<open>
  C3. \<^verbatim>\<open>MigrationState::apply\<close> refines the catalog machine: from a history that matches the catalog, a call that
  succeeds is one step of the machine on the number of applied migrations, and the history it
  returns matches the catalog again, its current version being the version at the new position.\<close>

theorem apply_refines_catalog_step:
  assumes "history_matches dump (ms_catalog st) (ms_backend st) expected"
    and "state_apply dump ops st m dir expected preflight validateResult db = (Inr actual, db')"
  shows "catalog_step (ms_catalog st) dir (length expected) (length actual) \<and>
    history_matches dump (ms_catalog st) (ms_backend st) actual \<and>
    current_version actual = version_at (ms_catalog st) (length actual)"
  using state_apply_result [OF assms(2)] extended_step [OF _ assms(1)] current_version_at(1) by blast

lemma sample_applied:
  "\<exists>actual db'. state_apply sample_dump (memory_ops WholeMigration (\<lambda>_. False)) sample_state (sample_migration 1 ''A;'') Up []
     (retA ()) (retA ()) (memory_database Sqlite) = (Inr actual, db')"
proof -
  let ?m = "sample_migration 1 ''A;''"
  have "runnable sample_dump Sqlite ?m" using sample_runnable by (simp add: sample_catalog_def)
  then obtain scripts digest where scripts: "scriptsFor ?m Sqlite = Inr scripts" "checksum sample_dump scripts = Inr digest"
    by (auto simp: runnable_def scriptsFor_def isOk_iff split: option.splits)
  have "returns (at memory_history Sqlite [] None False None)
     (state_apply sample_dump (memory_ops WholeMigration (\<lambda>_. False)) sample_state ?m Up [] (retA ()) (retA ()))
     (\<lambda>x db. history_matches sample_dump (ms_catalog sample_state) (ms_backend sample_state) x \<and> length x = Suc (length ([] :: applied_migration list)) \<and>
        at memory_history Sqlite x None False None db)"
    by (rule state_apply_returns [OF _ _ _ _ _ _ scripts(2)])
      (simp_all add: sample_state_backend memory_healthy sample_ascending sample_empty scripts(1) returns_def,
       simp_all add: sample_catalog_def)
  from returnsE [OF this sample_at] show ?thesis by blast
qed

theorem apply_refines_catalog_step_witness:
  "\<exists>actual db'. state_apply sample_dump (memory_ops WholeMigration (\<lambda>_. False)) sample_state (sample_migration 1 ''A;'') Up []
     (retA ()) (retA ()) (memory_database Sqlite) = (Inr actual, db') \<and>
     catalog_step sample_catalog Up 0 (length actual) \<and> current_version actual = version_at sample_catalog (length actual)"
proof -
  from sample_applied obtain actual db' where run: "state_apply sample_dump (memory_ops WholeMigration (\<lambda>_. False)) sample_state
     (sample_migration 1 ''A;'') Up [] (retA ()) (retA ()) (memory_database Sqlite) = (Inr actual, db')" by blast
  with apply_refines_catalog_step [OF _ run] sample_empty show ?thesis by (auto simp: sample_state_def)
qed


lemma new_state_backend: "new_state ops catalog db = (Inr st, db') \<Longrightarrow> ms_backend st = backendType db"
  by (auto simp: new_state_def ready_def act_results)

lemma Runner_execute_stages:
  assumes "Runner_execute dump ops catalog dir target db = (Inr (), db')"
  shows "\<exists>st initial p final db1 db2. ms_catalog st = catalog \<and> ms_backend st = backendType db \<and>
    (\<exists>incomplete. evaluate dump catalog (ms_backend st) (st_applied initial) incomplete = Inr initial) \<and>
    makePlan catalog (ms_backend st) initial dir target = Inr p \<and>
    foldA (execute_step dump ops st (backendType db1) dir) (pl_migrations p) (st_applied initial) db1 = (Inr final, db2)"
proof -
  from assms obtain st initial plan final db1 db2 db3 db4 db5 where
    st: "new_state ops catalog db = (Inr st, db3)" and status: "state_status dump ops st db3 = (Inr initial, db4)"
    and plan: "state_plan ops st initial dir target db4 = (Inr plan, db5)"
    and backend: "getBackend ops db5 = (Inr (), db1)"
    and steps: "foldA (execute_step dump ops st (backendType db5) dir) (pl_migrations plan) (st_applied initial) db1 = (Inr final, db2)"
    by (auto simp: Runner_execute_def act_results execute_steps_def)
  have "db1 = db5" using backend by (auto simp: getBackend_def act_results)
  from plan obtain p where "makePlan (ms_catalog st) (ms_backend st) initial dir target = Inr p" "pl_migrations plan = pl_migrations p"
    by (auto simp: state_plan_def act_results)
  with steps state_status_result [OF status] new_state_result [OF st] new_state_backend [OF st] \<open>db1 = db5\<close>
  show ?thesis by (intro exI [of _ st] exI [of _ initial] exI [of _ p] exI [of _ final] exI [of _ db5] exI [of _ db2]) simp
qed




section \<open>Scoped objects\<close>

text \<open>
  C6. Whatever the engine answers and however a call ends short of terminating the process, every operation of the runner leaves an idle
  database idle: no transaction or lock object of a migration stays behind, the foreign-key session
  is closed and the activity flag is as before.\<close>

theorem Runner_keeps_idle:
  "keeps idle (Runner_status dump ops catalog) \<and> keeps idle (Runner_validate dump ops catalog) \<and>
   keeps idle (Runner_preview dump ops catalog dir target) \<and> keeps idle (Runner_up dump ops catalog target) \<and>
   keeps idle (Runner_down dump ops catalog version) \<and> keeps idle (Runner_baseline dump ops catalog version) \<and>
   keeps idle (Runner_resolve dump ops catalog version digest resolution)"
  unfolding Runner_status_def Runner_validate_def Runner_preview_def Runner_up_def Runner_down_def Runner_execute_def
    Runner_baseline_def Runner_resolve_def state_validate_def state_plan_def execute_steps_def getBackend_def
  by (intro conjI keeps_intros idle_new_state idle_state idle_execute_step)



section \<open>Durable contents\<close>

text \<open>
  The checks of a migration step only read and run statements of the session, so they keep what those keep.
\<close>

declare keeps_queries [keeps_intros del] keeps_preflight [keeps_intros del] keeps_target [keeps_intros del]

lemma on_queries:
  assumes "quiet ops P" "local R"
  shows "keeps (on P R) (failIf b message)" "keeps (on P R) (rowsA ops sql ps)" "keeps (on P R) (fetchA ops sql ps x read)"
    "keeps (on P R) (countA ops sql ps)" "keeps (on P R) (textsA ops sql ps)"
    "(\<And>name. keeps (on P R) (check name)) \<Longrightarrow> keeps (on P R) (eachA ops rows check)"
  unfolding query_defs by (intro keeps_intros on_ops [OF assms]; assumption?)+

lemma on_preflight:
  assumes "quiet ops P" "local R"
  shows "keeps (on P R) (contextPreflight ops backend context)"
proof -
  note rules = on_queries [OF assms] on_ops [OF assms]
  have sqlite: "keeps (on P R) (sqlite_source ops source name)" for source name
    unfolding sqlite_source_def sqlite_index_def by (intro keeps_intros rules; assumption?)
  have native: "keeps (on P R) (native_source ops backend schema source name)" for schema source name
    unfolding native_source_def check_table_options_def check_columns_def check_triggers_def check_constraints_def
      check_primary_key_def check_foreign_key_def check_indexes_def check_index_def check_views_def
    by (intro keeps_intros rules; assumption?)
  show ?thesis
    unfolding contextPreflight_def current_schema_def sqlite_rebuild_preflight_def sqlite_rebuild_owner_def Let_def
    by (intro keeps_intros sqlite native rules; assumption?)
qed

lemma on_target:
  assumes "quiet ops P" "local R" "keeps P (so_limits ops)"
  shows "keeps (on P R) (validateTargetValues ops backend context)"
proof -
  note rules = on_queries [OF assms(1,2)] on_ops [OF assms(1,2)] on_sessionA [OF assms(3,2)]
  have "keeps (on P R) (check_target_column ops backend limits table column)" for limits table column
    unfolding check_target_column_def check_textual_def check_floating_def check_integral_def Let_def
    by (cases "pc_logicalType column"; simp; intro keeps_intros rules; assumption?)
  then show ?thesis
    unfolding validateTargetValues_def by (intro keeps_intros rules; assumption?)
qed

lemma on_sequences:
  assumes "quiet ops P" "local R" "\<And>db x. R (db\<lparr>db_rebuild := x\<rparr>) = R db"
  shows "keeps (on P R) (captureSequences ops context)" "keeps (on P R) (validateAndRestoreSequences ops context)"
proof -
  note rules = on_queries [OF assms(1,2)] on_ops [OF assms(1,2)] 
  show "keeps (on P R) (captureSequences ops context)" "keeps (on P R) (validateAndRestoreSequences ops context)"
  unfolding captureSequences_def capture_sequence_def rebuildA_def validateAndRestoreSequences_def restore_sequence_def Let_def
  by (intro keeps_intros rules; simp add: on_def assms)+
qed


text \<open>The call of \<^verbatim>\<open>apply\<close> in \<^verbatim>\<open>Runner::execute\<close>, with its two actions.\<close>

definition checked_apply ::
  "dumper \<Rightarrow> ('d, 'r) session_ops \<Rightarrow> migration_state \<Rightarrow> backend_type \<Rightarrow> execution_context \<Rightarrow> migration \<Rightarrow> direction
   \<Rightarrow> applied_migration list \<Rightarrow> ('d, applied_migration list) dbact" where
  "checked_apply dump ops st backend c m dir expected = state_apply dump ops st m dir expected
     (thenA (contextPreflight ops backend c) (captureSequences ops c))
     (thenA (validateAndRestoreSequences ops c) (validateTargetValues ops backend c))"


lemmas sample_run = sample_migration_def scriptsFor_def sample_state_backend with_write_def write_begin_def nonTransactional_def
  memory_ops_def transaction_begin_def getBackend_def memory_database_def isConnected_def apply_body_def beginHistory_def
  requireHistory_def readHistory_def history_rows_def memory_select_def contextPreflight_def captureSequences_def
  empty_context_def write_end_def transaction_end_def lock_end_def history_query_def bad_cast_as_def rebuild_of_def
  migration_handler_def soci_handler_def databaseFailure_def is_soci_def bindA_def thenA_def catchA_def finallyA_def sessionA_def

lemma sample_script_fails:
  "\<exists>message n cause db'. checked_apply sample_dump (memory_ops WholeMigration (\<lambda>_. True)) sample_state Sqlite empty_context
     (sample_migration 1 ''A;'') Up [] (memory_database Sqlite) = (Inl (MigrationError Execution message n Sqlite cause), db') \<and>
     mem_started (db_session db')"
  unfolding checked_apply_def state_apply_def by (simp add: sample_run)



text \<open>The same migration written for MySQL.\<close>

definition sample_scripts :: sql_migration where
  "sample_scripts = \<lparr>sm_up = ''A;'', sm_down = Some ''DROP TABLE users;'', sm_upContext = empty_context,
     sm_downContext = empty_context, sm_beforeHash = [], sm_afterHash = []\<rparr>"

definition mysql_migration :: migration where
  "mysql_migration = \<lparr>mg_version = 1, mg_name = ''users'', mg_scripts = [(Mysql, sample_scripts)],
     mg_before = no_snapshot, mg_after = no_snapshot\<rparr>"

definition mysql_state :: migration_state where
  "mysql_state = \<lparr>ms_catalog = [mysql_migration], ms_backend = Mysql, ms_table = ''h''\<rparr>"

lemma sample_digest: "\<exists>digest. checksum sample_dump sample_scripts = Inr digest"
  using sample_runnable
  by (auto simp: sample_catalog_def sample_migration_def runnable_def sample_scripts_def isOk_iff)

lemma sample_script_fails_marked:
  "\<exists>message n cause db'. checked_apply sample_dump (memory_ops NonTransactional (\<lambda>_. True)) mysql_state Mysql empty_context
     mysql_migration Up [] (memory_database Mysql) = (Inl (MigrationError Execution message n Mysql cause), db') \<and>
     mem_started (db_session db')"
proof -
  from sample_digest obtain digest where digest: "checksum sample_dump sample_scripts = Inr digest" by blast
  have "history_matches sample_dump [mysql_migration] Mysql []" by (simp add: history_matches_def baselines_first_def)
  note valid = matching_evaluates [OF this]
  show ?thesis
    unfolding checked_apply_def state_apply_def
    by (simp add: sample_run mysql_state_def mysql_migration_def prepare_marker_def digest inspect_def valid [unfolded mysql_migration_def]
        readIncomplete_def write_marker_def with_transaction_def marker_of_def requireMarker_def recordIncomplete_def
        marker_query_def lock_begin_def marker_rows_def marker_row_def transaction_commit_def finish_transaction_def
        memory_run_def memory_access_def starts_with_def lock_finish_def int_of_def text_of_def backend_in_def
        backend_of_number_def generationBackends_def)
qed


end
