(* ===== verification/Orm_Diff.thy ===== *)
theory Orm_Diff
  imports Orm_Preflight
begin

text \<open>
  \<^verbatim>\<open>src/migrations/SchemaDiff.cpp\<close>: the comparison of two snapshots under the decisions of the developer
  (renames, approvals of data loss, transformations), its changes and diagnostics. The lists \<^verbatim>\<open>matched\<close>,
  \<^verbatim>\<open>sources\<close> and \<^verbatim>\<open>targets\<close> stand for the \<^verbatim>\<open>std::set\<close>s of those names. The changes are sorted stably; the
  order that \<^verbatim>\<open>std::ranges::sort\<close> gives to equal ids is not specified.
\<close>

section \<open>Decisions, changes and diagnostics\<close>

record table_rename =
  tr_from :: string
  tr_to :: string

record column_rename =
  cr_table :: string
  cr_from :: string
  cr_to :: string

datatype generation_literal =
    NullLiteral | BoolLiteral bool | IntLiteral int | UnsignedLiteral nat | DoubleLiteral "64 word"
  | StringLiteral string | DateLiteral date | TimeLiteral time_of_day | LocalLiteral local_date_time
  | UtcLiteral utc_timestamp | UuidLiteral uuid

record column_transformation =
  ct_table :: string
  ct_column :: string
  ct_constant :: "generation_literal option"
  ct_sourceColumn :: "string option"
  ct_expressions :: "(backend_type, string) omap"

record generation_decisions =
  gd_tableRenames :: "table_rename list"
  gd_columnRenames :: "column_rename list"
  gd_allowDataLossUp :: "string list"
  gd_allowDataLossDown :: "string list"
  gd_backfills :: "column_transformation list"
  gd_conversions :: "column_transformation list"
  gd_downBackfills :: "column_transformation list"
  gd_downConversions :: "column_transformation list"

datatype change_kind =
    CreateTable | DropTable | RenameTable | AddColumn | DropColumn | RenameColumn | AlterColumn | AlterPrimaryKey
  | AddForeignKey | DropForeignKey | AddIndex | DropIndex

record schema_change =
  ch_kind :: change_kind
  ch_backend :: backend_type
  ch_id :: string
  ch_table :: string
  ch_column :: string
  ch_otherName :: string
  ch_description :: string
  ch_dataLoss :: bool
  ch_unresolved :: bool

record schema_diff =
  df_before :: schema_snapshot
  df_after :: schema_snapshot
  df_changes :: "schema_change list"
  df_diagnostics :: "generation_diagnostic list"

section \<open>Renames and transformations\<close>

definition find_key :: "physical_foreign_key list \<Rightarrow> string \<Rightarrow> physical_foreign_key option" where
  "find_key keys name = find (\<lambda>k. fk_name k = name) keys"

definition renamedTable :: "string \<Rightarrow> generation_decisions \<Rightarrow> string" where
  "renamedTable source decisions =
     (case find (\<lambda>r. tr_from r = source) (gd_tableRenames decisions) of Some r \<Rightarrow> tr_to r | None \<Rightarrow> source)"

definition renamedColumn :: "string \<Rightarrow> string \<Rightarrow> generation_decisions \<Rightarrow> string" where
  "renamedColumn table source decisions =
     (case find (\<lambda>r. cr_table r = table \<and> cr_from r = source) (gd_columnRenames decisions) of
        Some r \<Rightarrow> cr_to r | None \<Rightarrow> source)"

definition transformation ::
  "column_transformation list \<Rightarrow> string \<Rightarrow> string \<Rightarrow> backend_type \<Rightarrow> bool \<Rightarrow> bool" where
  "transformation values table column backend requiresExpression =
     list_ex (\<lambda>v. ct_table v = table \<and> ct_column v = column \<and>
       (map_of (ct_expressions v) backend \<noteq> None \<or>
        (\<not> requiresExpression \<and> (ct_constant v \<noteq> None \<or> ct_sourceColumn v \<noteq> None)))) values"

section \<open>Changes of type\<close>

definition integerRange :: "string \<Rightarrow> nat \<times> bool" where
  "integerRange type =
     (let unsignedType = ends_with type '' UNSIGNED'';
          name = (if unsignedType then take (length type - 9) type else type)
      in if name = ''TINYINT'' then (8, unsignedType)
         else if name = ''SMALLINT'' then (16, unsignedType)
         else if name = ''INT'' \<or> name = ''INTEGER'' then (32, unsignedType)
         else if name = ''BIGINT'' then (64, unsignedType)
         else (0, False))"

definition logicalRange :: "backend_type \<Rightarrow> column_type \<Rightarrow> nat \<times> bool" where
  "logicalRange backend type =
     (case type of
        BoolT \<Rightarrow> (1, True)
      | CharT \<Rightarrow> (8, False)
      | UnsignedCharT \<Rightarrow> (8, True)
      | ShortT \<Rightarrow> (16, False)
      | UnsignedShortT \<Rightarrow> (16, True)
      | IntT \<Rightarrow> (32, False)
      | UnsignedIntT \<Rightarrow> (32, True)
      | LongLongT \<Rightarrow> (64, False)
      | UnsignedLongLongT \<Rightarrow> (if backend = Sqlite \<or> backend = Postgres then 63 else 64, True)
      | _ \<Rightarrow> (0, False))"

definition canonicalNative :: "backend_type \<Rightarrow> physical_column \<Rightarrow> bool" where
  "canonicalNative backend column =
     (if backend = Sqlite then pc_sqlType column = ''TEXT''
      else pc_sqlType column =
        (case pc_maxStringLength column of
           Some n \<Rightarrow> ''VARCHAR('' @ dec n @ '')''
         | None \<Rightarrow> if backend = Postgres then ''TEXT'' else ''LONGTEXT''))"

text \<open>An integer range of some width and signedness fits into another.\<close>

definition range_fits :: "nat \<times> bool \<Rightarrow> nat \<times> bool \<Rightarrow> bool" where
  "range_fits = (\<lambda>(oldWidth, oldUnsigned) (newWidth, newUnsigned).
     (oldUnsigned = newUnsigned \<and> newWidth \<ge> oldWidth) \<or> (oldUnsigned \<and> \<not> newUnsigned \<and> newWidth > oldWidth))"

definition sqlite_integer :: "string \<Rightarrow> bool" where
  "sqlite_integer type \<longleftrightarrow>
     type = ''TINYINT'' \<or> type = ''SMALLINT'' \<or> type = ''INTEGER'' \<or> type = ''BIGINT'' \<or> type = ''UNSIGNED BIG INT''"

definition safeTypeChange :: "backend_type \<Rightarrow> physical_column \<Rightarrow> physical_column \<Rightarrow> bool" where
  "safeTypeChange backend source target =
     (if pc_logicalType source = StringT \<and> pc_logicalType target = StringT
      then (case pc_maxStringLength target of
              None \<Rightarrow> True
            | Some m \<Rightarrow> (case pc_maxStringLength source of None \<Rightarrow> False | Some n \<Rightarrow> m \<ge> n)) \<and>
           (pc_sqlType source = pc_sqlType target \<or> (canonicalNative backend source \<and> canonicalNative backend target))
      else
        let old = logicalRange backend (pc_logicalType source); new = logicalRange backend (pc_logicalType target)
        in if (if fst old \<noteq> 0 \<or> fst new \<noteq> 0
               then fst old = 0 \<or> fst new = 0 \<or> \<not> range_fits old new
               else pc_logicalType source \<noteq> pc_logicalType target \<and>
                    \<not> (pc_logicalType source = FloatT \<and> pc_logicalType target = DoubleT))
           then False
           else if pc_sqlType source = pc_sqlType target then True
           else if backend = Sqlite then sqlite_integer (pc_sqlType source) \<and> sqlite_integer (pc_sqlType target)
           else let s = integerRange (pc_sqlType source); t = integerRange (pc_sqlType target)
                in fst s \<noteq> 0 \<and> fst t \<noteq> 0 \<and> range_fits s t)"

definition physicalColumnEqual :: "physical_column \<Rightarrow> physical_column \<Rightarrow> bool" where
  "physicalColumnEqual left right \<longleftrightarrow>
     pc_logicalType left = pc_logicalType right \<and> pc_sqlType left = pc_sqlType right \<and>
     pc_nullable left = pc_nullable right \<and> pc_maxStringLength left = pc_maxStringLength right \<and>
     pc_autoIncrement left = pc_autoIncrement right"

section \<open>Recording changes\<close>

definition approved :: "string list \<Rightarrow> string \<Rightarrow> bool" where
  "approved approvals ident \<longleftrightarrow> ident \<in> set approvals"

definition encode_component :: "string \<Rightarrow> string" where
  "encode_component value =
     concat (map (\<lambda>c. if c = CHR ''%'' then ''%25'' else if c = CHR ''/'' then ''%2F'' else [c]) value)"

definition changeId :: "backend_type \<Rightarrow> string \<Rightarrow> string \<Rightarrow> string \<Rightarrow> (exn, string) result" where
  "changeId backend kind table object =
     bindR (backendName backend) (\<lambda>name.
       Inr (name @ ''/'' @ kind @ ''/'' @ encode_component table
            @ (if object = [] then [] else ''/'' @ encode_component object)))"

definition addChange ::
  "schema_diff \<Rightarrow> backend_type \<Rightarrow> change_kind \<Rightarrow> string \<Rightarrow> string \<Rightarrow> string \<Rightarrow> string \<Rightarrow> bool \<Rightarrow> bool
   \<Rightarrow> generation_decisions \<Rightarrow> (exn, schema_diff) result" where
  "addChange diff backend kind label table object other dataLoss needsInput decisions =
     bindR (changeId backend label table object) (\<lambda>ident.
       Inr (diff\<lparr>df_changes := df_changes diff @
         [\<lparr>ch_kind = kind, ch_backend = backend, ch_id = ident, ch_table = table, ch_column = object,
           ch_otherName = other, ch_description = ident, ch_dataLoss = dataLoss,
           ch_unresolved = (needsInput \<or> (dataLoss \<and> \<not> approved (gd_allowDataLossUp decisions) ident))\<rparr>]\<rparr>))"

definition problem :: "schema_diff \<Rightarrow> string \<Rightarrow> string \<Rightarrow> string \<Rightarrow> backend_type \<Rightarrow> schema_diff" where
  "problem diff errorCode message path backend =
     diff\<lparr>df_diagnostics := df_diagnostics diff @
       [\<lparr>diag_code = errorCode, diag_message = message, diag_path = path, diag_backend = backend, diag_error = True\<rparr>]\<rparr>"

section \<open>Validating the renames\<close>

text \<open>
  An entry of the renames: the conditions in the order of the \<^verbatim>\<open>||\<close>, so that a name enters the set of
  sources only if the entry changes a name, and the set of targets only if its source was new.
\<close>

definition rename_seen ::
  "bool \<Rightarrow> string \<Rightarrow> string \<Rightarrow> string list \<times> string list \<Rightarrow> bool \<times> (string list \<times> string list)" where
  "rename_seen same source target = (\<lambda>(sources, targets).
     if same then (True, sources, targets)
     else if source \<in> set sources then (True, sources, targets)
     else if target \<in> set targets then (True, source # sources, targets)
     else (False, source # sources, target # targets))"

definition validate_table_rename ::
  "physical_schema \<Rightarrow> physical_schema \<Rightarrow> generation_decisions \<Rightarrow> table_rename
   \<Rightarrow> (string list \<times> string list) \<times> schema_diff \<Rightarrow> (string list \<times> string list) \<times> schema_diff" where
  "validate_table_rename before after decisions r = (\<lambda>(seen, diff).
     let (repeated, seen') = rename_seen (tr_from r = tr_to r) (tr_from r) (tr_to r) seen;
         diff1 = (if repeated \<or> find_table (sc_tables before) (tr_from r) = None
                     \<or> find_table (sc_tables after) (tr_to r) = None
                  then problem diff ''invalid-rename''
                         ''Table renames must identify distinct existing source and target tables'' (tr_from r) (sc_backend before)
                  else diff);
         diff2 = (if find_table (sc_tables before) (tr_to r) \<noteq> None
                     \<and> \<not> list_ex (\<lambda>item. tr_from item = tr_to r) (gd_tableRenames decisions)
                  then problem diff1 ''rename-collision''
                         ''Table rename target is occupied by another source table'' (tr_to r) (sc_backend before)
                  else diff1)
     in (seen', diff2))"

definition source_table_name :: "generation_decisions \<Rightarrow> string \<Rightarrow> string" where
  "source_table_name decisions table =
     (case find (\<lambda>t. tr_to t = table) (gd_tableRenames decisions) of Some t \<Rightarrow> tr_from t | None \<Rightarrow> table)"

definition validate_column_rename ::
  "physical_schema \<Rightarrow> physical_schema \<Rightarrow> generation_decisions \<Rightarrow> column_rename
   \<Rightarrow> (string list \<times> string list) \<times> schema_diff \<Rightarrow> (string list \<times> string list) \<times> schema_diff" where
  "validate_column_rename before after decisions r = (\<lambda>(seen, diff).
     let source = find_table (sc_tables before) (source_table_name decisions (cr_table r));
         target = find_table (sc_tables after) (cr_table r);
         (repeated, seen') = rename_seen (cr_from r = cr_to r) (cr_table r @ ''/'' @ cr_from r) (cr_table r @ ''/'' @ cr_to r) seen;
         diff1 = (if repeated
                     \<or> (case source of None \<Rightarrow> True | Some s \<Rightarrow>
                         (case target of None \<Rightarrow> True | Some t \<Rightarrow>
                            find_column (tb_columns s) (cr_from r) = None \<or> find_column (tb_columns t) (cr_to r) = None))
                  then problem diff ''invalid-rename''
                         ''Column renames use the target table and existing source and target columns''
                         (cr_table r @ ''/'' @ cr_from r) (sc_backend before)
                  else diff);
         diff2 = (if (case source of None \<Rightarrow> False | Some s \<Rightarrow> find_column (tb_columns s) (cr_to r) \<noteq> None)
                     \<and> \<not> list_ex (\<lambda>item. cr_table item = cr_table r \<and> cr_from item = cr_to r) (gd_columnRenames decisions)
                  then problem diff1 ''rename-collision''
                         ''Column rename target is occupied by another source column''
                         (cr_table r @ ''/'' @ cr_to r) (sc_backend before)
                  else diff1)
     in (seen', diff2))"

definition validateRenames ::
  "schema_diff \<Rightarrow> physical_schema \<Rightarrow> physical_schema \<Rightarrow> generation_decisions \<Rightarrow> schema_diff" where
  "validateRenames diff before after decisions =
     (let diff1 = snd (fold (validate_table_rename before after decisions) (gd_tableRenames decisions) (([], []), diff))
      in snd (fold (validate_column_rename before after decisions) (gd_columnRenames decisions) (([], []), diff1)))"

section \<open>Comparing two tables\<close>

definition timezone_conversion :: "column_type \<Rightarrow> column_type \<Rightarrow> bool" where
  "timezone_conversion old new \<longleftrightarrow>
     (old = LocalDateTimeT \<and> new = UtcTimestampT) \<or> (old = UtcTimestampT \<and> new = LocalDateTimeT)"

definition alter_column ::
  "backend_type \<Rightarrow> physical_table \<Rightarrow> generation_decisions \<Rightarrow> physical_column \<Rightarrow> physical_column \<Rightarrow> schema_diff
   \<Rightarrow> (exn, schema_diff) result" where
  "alter_column backend target decisions column targetColumn diff =
     (let name = pc_name targetColumn;
          conversion = (\<not> safeTypeChange backend column targetColumn);
          identity = (pc_autoIncrement column \<noteq> pc_autoIncrement targetColumn);
          required = (pc_nullable column \<and> \<not> pc_nullable targetColumn);
          missingConversion = (conversion \<and>
            \<not> transformation (gd_conversions decisions) (tb_name target) name backend
                (timezone_conversion (pc_logicalType column) (pc_logicalType targetColumn)));
          missingBackfill = (required \<and>
            \<not> transformation (gd_backfills decisions) (tb_name target) name backend False \<and>
            \<not> transformation (gd_conversions decisions) (tb_name target) name backend False)
      in addChange diff backend AlterColumn ''alter-column'' (tb_name target) name []
           (conversion \<or> identity) (missingConversion \<or> missingBackfill) decisions)"

definition compare_column ::
  "backend_type \<Rightarrow> physical_table \<Rightarrow> generation_decisions \<Rightarrow> physical_column \<Rightarrow> string list \<times> schema_diff
   \<Rightarrow> (exn, string list \<times> schema_diff) result" where
  "compare_column backend target decisions column = (\<lambda>(matched, diff).
     let targetName = renamedColumn (tb_name target) (pc_name column) decisions
     in case find_column (tb_columns target) targetName of
          None \<Rightarrow>
            bindR (addChange diff backend DropColumn ''drop-column'' (tb_name target) (pc_name column) [] True False decisions)
              (\<lambda>diff. Inr (matched, diff))
        | Some targetColumn \<Rightarrow>
            bindR (if pc_name column \<noteq> targetName
                   then addChange diff backend RenameColumn ''rename-column'' (tb_name target) (pc_name column) targetName
                          False False decisions
                   else Inr diff) (\<lambda>diff.
            bindR (if \<not> physicalColumnEqual column targetColumn
                   then alter_column backend target decisions column targetColumn diff
                   else Inr diff) (\<lambda>diff.
              Inr (targetName # matched, diff))))"

definition add_column ::
  "backend_type \<Rightarrow> physical_table \<Rightarrow> generation_decisions \<Rightarrow> string list \<Rightarrow> physical_column \<Rightarrow> schema_diff
   \<Rightarrow> (exn, schema_diff) result" where
  "add_column backend target decisions matched column diff =
     (if pc_name column \<in> set matched then Inr diff
      else addChange diff backend AddColumn ''add-column'' (tb_name target) (pc_name column) [] False
             (\<not> pc_nullable column \<and> \<not> pc_autoIncrement column \<and>
              \<not> transformation (gd_backfills decisions) (tb_name target) (pc_name column) backend False) decisions)"

definition renamed_columns :: "string \<Rightarrow> generation_decisions \<Rightarrow> string list \<Rightarrow> string list" where
  "renamed_columns table decisions = map (\<lambda>column. renamedColumn table column decisions)"

definition mapped_key :: "string \<Rightarrow> generation_decisions \<Rightarrow> physical_foreign_key \<Rightarrow> physical_foreign_key" where
  "mapped_key table decisions key =
     (let targetTable = renamedTable (fk_targetTable key) decisions
      in key\<lparr>fk_columns := renamed_columns table decisions (fk_columns key), fk_targetTable := targetTable,
             fk_targetColumns := renamed_columns targetTable decisions (fk_targetColumns key)\<rparr>)"

definition mapped_index :: "string \<Rightarrow> generation_decisions \<Rightarrow> physical_index \<Rightarrow> physical_index" where
  "mapped_index table decisions index = index\<lparr>ix_columns := renamed_columns table decisions (ix_columns index)\<rparr>"

text \<open>A change of a named object that neither loses data nor needs input.\<close>

definition object_change ::
  "backend_type \<Rightarrow> physical_table \<Rightarrow> generation_decisions \<Rightarrow> change_kind \<Rightarrow> string \<Rightarrow> bool \<Rightarrow> string \<Rightarrow> schema_diff
   \<Rightarrow> (exn, schema_diff) result" where
  "object_change backend target decisions kind label differs name diff =
     (if differs then addChange diff backend kind label (tb_name target) name [] False False decisions else Inr diff)"

definition compare_primary_key ::
  "backend_type \<Rightarrow> physical_table \<Rightarrow> physical_table \<Rightarrow> generation_decisions \<Rightarrow> schema_diff \<Rightarrow> (exn, schema_diff) result" where
  "compare_primary_key backend source target decisions diff =
     (let mapped = renamed_columns (tb_name target) decisions (tb_primaryKey source)
      in if mapped \<noteq> tb_primaryKey target \<or> tb_primaryKeyName source \<noteq> tb_primaryKeyName target
         then addChange diff backend AlterPrimaryKey ''alter-primary-key'' (tb_name target) [] []
                (mapped \<noteq> tb_primaryKey target) False decisions
         else Inr diff)"

definition drop_key ::
  "backend_type \<Rightarrow> physical_table \<Rightarrow> generation_decisions \<Rightarrow> physical_foreign_key \<Rightarrow> schema_diff \<Rightarrow> (exn, schema_diff) result" where
  "drop_key backend target decisions key =
     object_change backend target decisions DropForeignKey ''drop-foreign-key''
       (mapped_key (tb_name target) decisions key \<notin> set (tb_foreignKeys target)) (fk_name key)"

definition add_key ::
  "backend_type \<Rightarrow> physical_table \<Rightarrow> physical_table \<Rightarrow> generation_decisions \<Rightarrow> physical_foreign_key \<Rightarrow> schema_diff
   \<Rightarrow> (exn, schema_diff) result" where
  "add_key backend source target decisions key =
     object_change backend target decisions AddForeignKey ''add-foreign-key''
       (case find_key (tb_foreignKeys source) (fk_name key) of
          None \<Rightarrow> True | Some old \<Rightarrow> mapped_key (tb_name target) decisions old \<noteq> key) (fk_name key)"

definition drop_index ::
  "backend_type \<Rightarrow> physical_table \<Rightarrow> generation_decisions \<Rightarrow> physical_index \<Rightarrow> schema_diff \<Rightarrow> (exn, schema_diff) result" where
  "drop_index backend target decisions index =
     object_change backend target decisions DropIndex ''drop-index''
       (find_index (tb_indexes target) (ix_name index) \<noteq> Some (mapped_index (tb_name target) decisions index)) (ix_name index)"

definition add_index ::
  "backend_type \<Rightarrow> physical_table \<Rightarrow> physical_table \<Rightarrow> generation_decisions \<Rightarrow> physical_index \<Rightarrow> schema_diff
   \<Rightarrow> (exn, schema_diff) result" where
  "add_index backend source target decisions index =
     object_change backend target decisions AddIndex ''add-index''
       (map_option (mapped_index (tb_name target) decisions) (find_index (tb_indexes source) (ix_name index)) \<noteq> Some index)
       (ix_name index)"

definition compareTables ::
  "physical_schema \<Rightarrow> physical_table \<Rightarrow> physical_table \<Rightarrow> generation_decisions \<Rightarrow> schema_diff \<Rightarrow> (exn, schema_diff) result" where
  "compareTables before source target decisions diff =
     (let backend = sc_backend before
      in bindR (if tb_name source \<noteq> tb_name target
                then addChange diff backend RenameTable ''rename-table'' (tb_name source) [] (tb_name target) False False decisions
                else Inr diff) (\<lambda>diff.
         bindR (foldR (compare_column backend target decisions) (tb_columns source) ([], diff)) (\<lambda>(matched, diff).
         bindR (foldR (add_column backend target decisions matched) (tb_columns target) diff) (\<lambda>diff.
         bindR (compare_primary_key backend source target decisions diff) (\<lambda>diff.
         bindR (foldR (drop_key backend target decisions) (tb_foreignKeys source) diff) (\<lambda>diff.
         bindR (foldR (add_key backend source target decisions) (tb_foreignKeys target) diff) (\<lambda>diff.
         bindR (foldR (drop_index backend target decisions) (tb_indexes source) diff) (\<lambda>diff.
           foldR (add_index backend source target decisions) (tb_indexes target) diff))))))))"

section \<open>Comparing two snapshots\<close>

definition compare_table ::
  "backend_type \<Rightarrow> physical_schema \<Rightarrow> physical_schema \<Rightarrow> generation_decisions \<Rightarrow> physical_table
   \<Rightarrow> string list \<times> schema_diff \<Rightarrow> (exn, string list \<times> schema_diff) result" where
  "compare_table backend source target decisions table = (\<lambda>(matched, diff).
     let targetName = renamedTable (tb_name table) decisions
     in case find_table (sc_tables target) targetName of
          None \<Rightarrow> bindR (addChange diff backend DropTable ''drop-table'' (tb_name table) [] [] True False decisions)
                    (\<lambda>diff. Inr (matched, diff))
        | Some next_table \<Rightarrow>
            if targetName \<in> set matched
            then Inr (matched, problem diff ''rename-collision'' ''Two source tables map to the same target'' targetName backend)
            else bindR (compareTables source table next_table decisions diff) (\<lambda>diff. Inr (targetName # matched, diff)))"

definition create_table_change ::
  "backend_type \<Rightarrow> generation_decisions \<Rightarrow> string list \<Rightarrow> physical_table \<Rightarrow> schema_diff \<Rightarrow> (exn, schema_diff) result" where
  "create_table_change backend decisions matched table diff =
     (if tb_name table \<in> set matched then Inr diff
      else addChange diff backend CreateTable ''create-table'' (tb_name table) [] [] False False decisions)"

definition compare_schema ::
  "(backend_type, physical_schema) omap \<Rightarrow> generation_decisions \<Rightarrow> backend_type \<times> physical_schema \<Rightarrow> schema_diff
   \<Rightarrow> (exn, schema_diff) result" where
  "compare_schema after decisions = (\<lambda>(backend, source) diff.
     case map_of after backend of
       None \<Rightarrow> Inr (problem diff ''backend-profile'' ''Backend profiles cannot change within a migration'' [] backend)
     | Some target \<Rightarrow>
         if sc_profile source \<noteq> sc_profile target
         then Inr (problem diff ''backend-profile'' ''Backend profiles cannot change within a migration'' [] backend)
         else bindR (foldR (compare_table backend source target decisions) (sc_tables source)
                       ([], validateRenames diff source target decisions)) (\<lambda>(matched, diff).
              foldR (create_table_change backend decisions matched) (sc_tables target) diff))"

definition check_approval :: "schema_change list \<Rightarrow> string \<Rightarrow> schema_diff \<Rightarrow> schema_diff" where
  "check_approval changes approval diff =
     (if list_ex (\<lambda>change. ch_id change = approval \<and> ch_dataLoss change) changes then diff
      else problem diff ''unknown-approval'' ''Data-loss approval does not identify a risky change'' approval Empty)"

definition compare :: "schema_snapshot \<Rightarrow> schema_snapshot \<Rightarrow> generation_decisions \<Rightarrow> (exn, schema_diff) result" where
  "compare before after decisions =
     (let result = \<lparr>df_before = canonicalize before, df_after = canonicalize after, df_changes = [], df_diagnostics = []\<rparr>
      in bindR (validateSnapshot (df_before result)) (\<lambda>_.
         bindR (validateSnapshot (df_after result)) (\<lambda>_.
         let sized = (if length (ss_backends (df_before result)) \<noteq> length (ss_backends (df_after result))
                      then problem result ''backend-profile'' ''Snapshots must contain the same backend profiles'' [] Empty
                      else result)
         in bindR (foldR (compare_schema (ss_backends (df_after result)) decisions) (ss_backends (df_before result)) sized) (\<lambda>diff.
            let checked = fold (check_approval (df_changes diff)) (gd_allowDataLossUp decisions) diff
            in Inr (checked\<lparr>df_changes := sort_key ch_id (df_changes checked)\<rparr>)))))"

end
