(* ===== verification/Orm_Diff_Correctness.thy ===== *)
theory Orm_Diff_Correctness
  imports Orm_Diff
begin

text \<open>
  Properties of the comparison of snapshots: it notices every difference and invents none, ids
  identify changes and data loss needs an approval, and changes of type it takes for safe keep every
  value.
\<close>

section \<open>Changes and differences\<close>

text \<open>
  The number of changes and diagnostics only grows; a step that adds none is silent, and a fold of
  steps is silent only if each of them is.
\<close>

definition diff_size :: "schema_diff \<Rightarrow> nat" where
  "diff_size d = length (df_changes d) + length (df_diagnostics d)"

lemma foldR_silent:
  assumes "\<And>x s s'. x \<in> set xs \<Longrightarrow> f x s = Inr s' \<Longrightarrow> sz s \<le> (sz s' :: nat) \<and> (sz s' = sz s \<longrightarrow> ok x \<and> s' = upd x s)"
    and "foldR f xs s = Inr s'"
  shows "sz s \<le> sz s' \<and> (sz s' = sz s \<longrightarrow> (\<forall>x \<in> set xs. ok x) \<and> s' = fold upd xs s)"
  using assms
proof (induction xs arbitrary: s)
  case (Cons x xs)
  then obtain t where t: "f x s = Inr t" "foldR f xs t = Inr s'" by auto
  with Cons.prems(1) [of x s t] Cons.IH [of t] Cons.prems(1) show ?case by force
qed simp

lemma fold_skip [simp]: "fold (\<lambda>_ s. s) xs d = d"
  by (induction xs) auto

lemma addChange_grows: "addChange diff b k l t x y loss input ds = Inr d \<Longrightarrow> diff_size d = Suc (diff_size diff)"
  by (auto simp: addChange_def diff_size_def)

lemma problem_grows: "diff_size (problem d c m p b) = Suc (diff_size d)"
  by (simp add: problem_def diff_size_def)

definition no_decisions :: generation_decisions where
  "no_decisions = \<lparr>gd_tableRenames = [], gd_columnRenames = [], gd_allowDataLossUp = [], gd_allowDataLossDown = [],
     gd_backfills = [], gd_conversions = [], gd_downBackfills = [], gd_downConversions = []\<rparr>"

lemma no_renames [simp]:
  "renamedTable t no_decisions = t" "renamedColumn t c no_decisions = c" "renamed_columns t no_decisions cs = cs"
  "mapped_key t no_decisions k = k" "mapped_index t no_decisions i = i" "validateRenames d s s2 no_decisions = d"
  by (simp_all add: renamedTable_def renamedColumn_def renamed_columns_def mapped_key_def mapped_index_def
      validateRenames_def no_decisions_def)

lemma no_approvals: "gd_allowDataLossUp no_decisions = []"
  by (simp add: no_decisions_def)

lemma physicalColumnEqual_name: "physicalColumnEqual c c' \<Longrightarrow> pc_name c = pc_name c' \<Longrightarrow> c = c'"
  by (simp add: physicalColumnEqual_def)

lemma physicalColumnEqual_refl [simp]: "physicalColumnEqual c c"
  by (simp add: physicalColumnEqual_def)

lemma find_equal_column:
  "find (\<lambda>c'. pc_name c' = pc_name c) cs = Some c' \<Longrightarrow> physicalColumnEqual c c' \<Longrightarrow> c \<in> set cs"
  using physicalColumnEqual_name [of c c'] by (auto dest!: find_SomeD)

text \<open>The loops over columns, keys and indexes without decisions.\<close>

lemma columns_silent:
  assumes "foldR (compare_column b t no_decisions) cs (m, d) = Inr (m', d')"
  shows "diff_size d \<le> diff_size d' \<and>
    (diff_size d' = diff_size d \<longrightarrow> set cs \<subseteq> set (tb_columns t) \<and> set m' = pc_name ` set cs \<union> set m \<and> d' = d)"
proof -
  have step: "diff_size (snd s) \<le> diff_size (snd s') \<and>
      (diff_size (snd s') = diff_size (snd s) \<longrightarrow> c \<in> set (tb_columns t) \<and> s' = (pc_name c # fst s, snd s))"
    if "compare_column b t no_decisions c s = Inr s'" for c s s'
    using that
    by (auto simp: compare_column_def find_column_def Let_def alter_column_def split: prod.splits option.splits if_splits
        dest!: addChange_grows dest: find_equal_column)
  have upd: "fold (\<lambda>c s. (pc_name c # fst s, snd s)) cs (m, d) = (rev (map pc_name cs) @ m, d)" for m
    by (induction cs arbitrary: m) auto
  from foldR_silent [where sz = "\<lambda>s. diff_size (snd s)" and ok = "\<lambda>c. c \<in> set (tb_columns t)", OF step assms]
  show ?thesis by (auto simp: upd)
qed

lemma object_silent:
  assumes "foldR (\<lambda>x. object_change b t no_decisions k l (differs x) (name x)) xs d = Inr d'"
  shows "diff_size d \<le> diff_size d' \<and> (diff_size d' = diff_size d \<longrightarrow> (\<forall>x \<in> set xs. \<not> differs x) \<and> d' = d)"
proof -
  have "diff_size s \<le> diff_size s' \<and> (diff_size s' = diff_size s \<longrightarrow> \<not> differs x \<and> s' = s)"
    if "object_change b t no_decisions k l (differs x) (name x) s = Inr s'" for x s s'
    using that by (auto simp: object_change_def dest!: addChange_grows split: if_splits)
  from foldR_silent [where ok = "\<lambda>x. \<not> differs x" and upd = "\<lambda>_ s. s" and sz = diff_size, OF this assms]
  show ?thesis by auto
qed

lemma add_columns_silent:
  assumes "foldR (add_column b t no_decisions m) cs d = Inr d'"
  shows "diff_size d \<le> diff_size d' \<and> (diff_size d' = diff_size d \<longrightarrow> pc_name ` set cs \<subseteq> set m \<and> d' = d)"
proof -
  have "diff_size s \<le> diff_size s' \<and> (diff_size s' = diff_size s \<longrightarrow> pc_name c \<in> set m \<and> s' = s)"
    if "add_column b t no_decisions m c s = Inr s'" for c s s'
    using that by (auto simp: add_column_def dest!: addChange_grows split: if_splits)
  from foldR_silent [where ok = "\<lambda>c. pc_name c \<in> set m" and upd = "\<lambda>_ s. s" and sz = diff_size, OF this assms]
  show ?thesis by auto
qed

text \<open>Two tables of one name with the same columns, keys and indexes, in any order.\<close>

definition table_same :: "physical_table \<Rightarrow> physical_table \<Rightarrow> bool" where
  "table_same s t \<longleftrightarrow> tb_name s = tb_name t \<and> set (tb_columns s) = set (tb_columns t) \<and>
     tb_primaryKey s = tb_primaryKey t \<and> tb_primaryKeyName s = tb_primaryKeyName t \<and>
     set (tb_foreignKeys s) = set (tb_foreignKeys t) \<and> set (tb_indexes s) = set (tb_indexes t)"

lemma find_by_name_mem:
  "(case find_key ks n of None \<Rightarrow> True | Some old \<Rightarrow> old \<noteq> k) = (find_key ks n \<noteq> Some k)"
  by (auto split: option.splits)

lemma find_mem:
  "find_key ks n = Some k \<Longrightarrow> k \<in> set ks" "find_index xs n = Some x \<Longrightarrow> x \<in> set xs" "find_table ts n = Some t \<Longrightarrow> t \<in> set ts \<and> tb_name t = n"
  by (auto simp: find_key_def find_index_def find_table_def dest: find_SomeD)

lemma key_loops:
  "drop_key b t no_decisions = (\<lambda>k. object_change b t no_decisions DropForeignKey ''drop-foreign-key'' (k \<notin> set (tb_foreignKeys t)) (fk_name k))"
  "add_key b s t no_decisions = (\<lambda>k. object_change b t no_decisions AddForeignKey ''add-foreign-key''
     (find_key (tb_foreignKeys s) (fk_name k) \<noteq> Some k) (fk_name k))"
  "drop_index b t no_decisions = (\<lambda>i. object_change b t no_decisions DropIndex ''drop-index''
     (find_index (tb_indexes t) (ix_name i) \<noteq> Some i) (ix_name i))"
  "add_index b s t no_decisions = (\<lambda>i. object_change b t no_decisions AddIndex ''add-index''
     (find_index (tb_indexes s) (ix_name i) \<noteq> Some i) (ix_name i))"
  by (rule ext, simp add: drop_key_def add_key_def drop_index_def add_index_def find_by_name_mem option.map_ident cong: option.case_cong)+

lemma compareTables_silent:
  assumes "compareTables before s t no_decisions d = Inr d'" "tb_name s = tb_name t" "distinct (map pc_name (tb_columns t))"
  shows "diff_size d \<le> diff_size d' \<and> (diff_size d' = diff_size d \<longrightarrow> table_same s t \<and> d' = d)"
proof -
  let ?b = "sc_backend before"
  from assms(1,2) obtain m d1 d2 d3 d4 d5 d6 where
    columns: "foldR (compare_column ?b t no_decisions) (tb_columns s) ([], d) = Inr (m, d1)"
    and added: "foldR (add_column ?b t no_decisions m) (tb_columns t) d1 = Inr d2"
    and primary: "compare_primary_key ?b s t no_decisions d2 = Inr d3"
    and keys: "foldR (drop_key ?b t no_decisions) (tb_foreignKeys s) d3 = Inr d4"
      "foldR (add_key ?b s t no_decisions) (tb_foreignKeys t) d4 = Inr d5"
    and indexes: "foldR (drop_index ?b t no_decisions) (tb_indexes s) d5 = Inr d6"
      "foldR (add_index ?b s t no_decisions) (tb_indexes t) d6 = Inr d'"
    by (auto simp: compareTables_def Let_def split: prod.splits)
  have pk: "diff_size d2 \<le> diff_size d3 \<and> (diff_size d3 = diff_size d2 \<longrightarrow>
      tb_primaryKey s = tb_primaryKey t \<and> tb_primaryKeyName s = tb_primaryKeyName t \<and> d3 = d2)"
    using primary by (auto simp: compare_primary_key_def Let_def dest!: addChange_grows split: if_splits)
  note c = columns_silent [OF columns] and a = add_columns_silent [OF added]
    and k = object_silent [OF keys(1) [unfolded key_loops]] object_silent [OF keys(2) [unfolded key_loops]]
    and i = object_silent [OF indexes(1) [unfolded key_loops]] object_silent [OF indexes(2) [unfolded key_loops]]
  note mono = conjunct1 [OF c] conjunct1 [OF a] conjunct1 [OF pk] conjunct1 [OF k(1)] conjunct1 [OF k(2)]
    conjunct1 [OF i(1)] conjunct1 [OF i(2)]
  have "diff_size d \<le> diff_size d'" using mono by linarith
  moreover have "table_same s t \<and> d' = d" if eq: "diff_size d' = diff_size d"
  proof -
    have sizes: "diff_size d1 = diff_size d" "diff_size d2 = diff_size d1" "diff_size d3 = diff_size d2"
      "diff_size d4 = diff_size d3" "diff_size d5 = diff_size d4" "diff_size d6 = diff_size d5" "diff_size d' = diff_size d6"
      using eq mono by linarith+
    note c' = mp [OF conjunct2 [OF c] sizes(1)] and a' = mp [OF conjunct2 [OF a] sizes(2)] and pk' = mp [OF conjunct2 [OF pk] sizes(3)]
      and k' = mp [OF conjunct2 [OF k(1)] sizes(4)] mp [OF conjunct2 [OF k(2)] sizes(5)]
      and i' = mp [OF conjunct2 [OF i(1)] sizes(6)] mp [OF conjunct2 [OF i(2)] sizes(7)]
    have sub: "set (tb_columns s) \<subseteq> set (tb_columns t)" using c' by blast
    have names: "pc_name ` set (tb_columns t) \<subseteq> pc_name ` set (tb_columns s)" using a' c' by simp
    have "set (tb_columns t) \<subseteq> set (tb_columns s)"
    proof
      fix x assume x: "x \<in> set (tb_columns t)"
      with names obtain y where y: "y \<in> set (tb_columns s)" "pc_name x = pc_name y" by auto
      with sub x assms(3) have "x = y" by (auto simp: distinct_map inj_on_def)
      with y show "x \<in> set (tb_columns s)" by simp
    qed
    moreover have "set (tb_foreignKeys s) = set (tb_foreignKeys t)" using k' find_mem(1) by blast
    moreover have "set (tb_indexes s) = set (tb_indexes t)" using i' find_mem(2) by blast
    moreover have "d' = d" using c' a' pk' k' i' by simp
    ultimately show ?thesis using sub pk' assms(2) by (auto simp: table_same_def)
  qed
  ultimately show ?thesis by blast
qed

text \<open>Tables that differ in nothing have equal canonical forms.\<close>

lemma sort_key_same_set:
  "set xs = set ys \<Longrightarrow> distinct (map f xs) \<Longrightarrow> distinct (map f ys) \<Longrightarrow> sort_key f xs = sort_key f ys"
  by (intro sort_key_unique) (auto simp: set_eq_iff_mset_eq_distinct [symmetric] distinct_map)

lemma table_same_canonical:
  assumes "table_same s t" "table_wf b sc s" "table_wf b sc' t"
  shows "canonical_table s = canonical_table t"
proof -
  have names: "distinct (map fk_name (tb_foreignKeys u))" "distinct (map ix_name (tb_indexes u))"
    if "distinct (constraint_names u)" for u using that by (auto simp: constraint_names_def)
  have "tb_options s = tb_options t" using assms(2,3) by (simp add: table_wf_def)
  with assms(1) sort_key_same_set [of "tb_columns s" "tb_columns t" pc_name] sort_key_same_set [of "tb_foreignKeys s" "tb_foreignKeys t" fk_name]
    sort_key_same_set [of "tb_indexes s" "tb_indexes t" ix_name] names [of s] names [of t] assms(2,3)
  show ?thesis by (cases s; cases t) (simp add: canonical_table_def table_same_def table_wf_def)
qed

lemma tables_silent:
  assumes "foldR (compare_table b src tgt no_decisions) ts (m, d) = Inr (m', d')"
    and "\<forall>t \<in> set (sc_tables tgt). distinct (map pc_name (tb_columns t))"
  shows "diff_size d \<le> diff_size d' \<and> (diff_size d' = diff_size d \<longrightarrow>
    (\<forall>s \<in> set ts. \<exists>t \<in> set (sc_tables tgt). table_same s t) \<and> set m' = tb_name ` set ts \<union> set m \<and> d' = d)"
proof -
  have step: "diff_size (snd x) \<le> diff_size (snd x') \<and>
      (diff_size (snd x') = diff_size (snd x) \<longrightarrow> (\<exists>t \<in> set (sc_tables tgt). table_same s t) \<and> x' = (tb_name s # fst x, snd x))"
    if "compare_table b src tgt no_decisions s x = Inr x'" for s x x'
  proof (cases "find_table (sc_tables tgt) (tb_name s)")
    case None
    with that show ?thesis by (auto simp: compare_table_def split: prod.splits dest!: addChange_grows)
  next
    case (Some t)
    with find_mem(3) have t: "t \<in> set (sc_tables tgt)" "tb_name s = tb_name t" by fastforce+
    show ?thesis
    proof (cases "tb_name s \<in> set (fst x)")
      case True
      with that Some show ?thesis by (auto simp: compare_table_def problem_grows split: prod.splits)
    next
      case False
      with that Some obtain d2 where "compareTables src s t no_decisions (snd x) = Inr d2" "x' = (tb_name s # fst x, d2)"
        by (auto simp: compare_table_def split: prod.splits)
      with compareTables_silent [OF this(1) t(2)] assms(2) t show ?thesis by auto
    qed
  qed
  have upd: "fold (\<lambda>t s. (tb_name t # fst s, snd s)) ts (m, d) = (rev (map tb_name ts) @ m, d)" for m
    by (induction ts arbitrary: m) auto
  from foldR_silent [where sz = "\<lambda>s. diff_size (snd s)" and ok = "\<lambda>s. \<exists>t \<in> set (sc_tables tgt). table_same s t", OF step assms(1)]
  show ?thesis by (auto simp: upd)
qed

lemma created_silent:
  assumes "foldR (create_table_change b no_decisions m) ts d = Inr d'"
  shows "diff_size d \<le> diff_size d' \<and> (diff_size d' = diff_size d \<longrightarrow> tb_name ` set ts \<subseteq> set m \<and> d' = d)"
proof -
  have "diff_size s \<le> diff_size s' \<and> (diff_size s' = diff_size s \<longrightarrow> tb_name t \<in> set m \<and> s' = s)"
    if "create_table_change b no_decisions m t s = Inr s'" for t s s'
    using that by (auto simp: create_table_change_def dest!: addChange_grows split: if_splits)
  from foldR_silent [where ok = "\<lambda>t. tb_name t \<in> set m" and upd = "\<lambda>_ s. s" and sz = diff_size, OF this assms]
  show ?thesis by auto
qed

lemma sort_key_map: "(\<And>x. f (g x) = f x) \<Longrightarrow> sort_key f (map g xs) = map g (sort_key f xs)"
proof -
  assume f: "\<And>x. f (g x) = f x"
  have "insort_key f (g x) (map g ys) = map g (insort_key f x ys)" for x ys by (induction ys) (auto simp: f)
  then show ?thesis by (induction xs) auto
qed

lemma schemas_same_canonical:
  assumes "schema_wf b src" "schema_wf b tgt"
    and "\<forall>s \<in> set (sc_tables src). \<exists>t \<in> set (sc_tables tgt). table_same s t"
    and "tb_name ` set (sc_tables tgt) \<subseteq> tb_name ` set (sc_tables src)"
  shows "canonical_schema src = canonical_schema tgt"
proof -
  have equal: "canonical_table s = canonical_table t"
    if "s \<in> set (sc_tables src)" "t \<in> set (sc_tables tgt)" "table_same s t" for s t
    using that assms(1,2) by (intro table_same_canonical [of s t b src tgt]) (auto simp: schema_wf_def)
  have unique: "t = t'" if "t \<in> set (sc_tables tgt)" "t' \<in> set (sc_tables tgt)" "tb_name t = tb_name t'" for t t'
    using that assms(2) by (auto simp: schema_wf_def distinct_map inj_on_def)
  have "canonical_table ` set (sc_tables src) = canonical_table ` set (sc_tables tgt)"
  proof (intro equalityI subsetI; elim imageE)
    fix x s assume "x = canonical_table s" "s \<in> set (sc_tables src)"
    with assms(3) equal show "x \<in> canonical_table ` set (sc_tables tgt)" by blast
  next
    fix x t assume t: "x = canonical_table t" "t \<in> set (sc_tables tgt)"
    with assms(4) obtain s where s: "s \<in> set (sc_tables src)" "tb_name s = tb_name t" by force
    with assms(3) obtain t' where t': "t' \<in> set (sc_tables tgt)" "table_same s t'" by blast
    with s t unique have "t' = t" by (simp add: table_same_def)
    with t t' equal [OF s(1) t'] s show "x \<in> canonical_table ` set (sc_tables src)" by (metis imageI)
  qed
  moreover have names: "distinct (map tb_name (map canonical_table (sc_tables u)))" if "schema_wf b u" for u
    using that by (simp add: schema_wf_def comp_def)
  ultimately have "sort_key tb_name (map canonical_table (sc_tables src)) = sort_key tb_name (map canonical_table (sc_tables tgt))"
    using names [OF assms(1)] names [OF assms(2)] by (intro sort_key_same_set) simp_all
  then have "map canonical_table (sort_key tb_name (sc_tables src)) = map canonical_table (sort_key tb_name (sc_tables tgt))"
    by (simp add: sort_key_map)
  with assms(1,2) show ?thesis by (cases src; cases tgt) (simp add: canonical_schema_def schema_wf_def)
qed

lemma schema_silent:
  assumes "compare_schema after no_decisions (b, src) d = Inr d'" "schema_wf b src"
    and "\<And>tgt. map_of after b = Some tgt \<Longrightarrow> schema_wf b tgt"
  shows "diff_size d \<le> diff_size d' \<and> (diff_size d' = diff_size d \<longrightarrow>
    map_option canonical_schema (map_of after b) = Some (canonical_schema src) \<and> d' = d)"
proof (cases "map_of after b")
  case None
  with assms(1) show ?thesis by (auto simp: compare_schema_def problem_grows)
next
  case (Some tgt)
  note wf = assms(2) assms(3) [OF Some]
  then have profile: "sc_profile src = sc_profile tgt" by (auto simp: schema_wf_def)
  with assms(1) Some obtain m d1 where tables: "foldR (compare_table b src tgt no_decisions) (sc_tables src) ([], d) = Inr (m, d1)"
    and created: "foldR (create_table_change b no_decisions m) (sc_tables tgt) d1 = Inr d'"
    by (auto simp: compare_schema_def split: prod.splits)
  have "\<forall>t \<in> set (sc_tables tgt). distinct (map pc_name (tb_columns t))" using wf by (simp add: schema_wf_def table_wf_def)
  note t = tables_silent [OF tables this] and c = created_silent [OF created]
  have le: "diff_size d \<le> diff_size d'" using conjunct1 [OF t] conjunct1 [OF c] by linarith
  have "canonical_schema src = canonical_schema tgt \<and> d' = d" if "diff_size d' = diff_size d"
  proof -
    have "diff_size d1 = diff_size d" "diff_size d' = diff_size d1" using that conjunct1 [OF t] conjunct1 [OF c] by linarith+
    with mp [OF conjunct2 [OF t]] mp [OF conjunct2 [OF c]] schemas_same_canonical [OF wf] show ?thesis by auto
  qed
  with le Some show ?thesis by auto
qed

text \<open>Conversely, comparing a snapshot with itself adds nothing.\<close>

lemma foldR_skip: "(\<And>x. x \<in> set xs \<Longrightarrow> f x d = Inr d) \<Longrightarrow> foldR f xs d = Inr d"
  by (induction xs) auto

lemma find_own:
  "distinct (map pc_name cs) \<Longrightarrow> c \<in> set cs \<Longrightarrow> find_column cs (pc_name c) = Some c"
  "distinct (map fk_name ks) \<Longrightarrow> k \<in> set ks \<Longrightarrow> find_key ks (fk_name k) = Some k"
  "distinct (map ix_name xs) \<Longrightarrow> x \<in> set xs \<Longrightarrow> find_index xs (ix_name x) = Some x"
  "distinct (map tb_name ts) \<Longrightarrow> t \<in> set ts \<Longrightarrow> find_table ts (tb_name t) = Some t"
  by (auto simp: find_column_def find_key_def find_index_def find_table_def find_by_key)

lemma compare_columns_same:
  assumes "distinct (map pc_name (tb_columns t))"
  shows "set cs \<subseteq> set (tb_columns t) \<Longrightarrow>
    foldR (compare_column b t no_decisions) cs (m, d) = Inr (rev (map pc_name cs) @ m, d)"
  by (induction cs arbitrary: m) (auto simp: compare_column_def find_own(1) [OF assms])

lemma compareTables_same:
  assumes "table_wf b sc t"
  shows "compareTables src t t no_decisions d = Inr d"
proof -
  have names: "distinct (map pc_name (tb_columns t))" "distinct (map fk_name (tb_foreignKeys t))" "distinct (map ix_name (tb_indexes t))"
    using assms by (auto simp: table_wf_def constraint_names_def)
  have "foldR (add_column (sc_backend src) t no_decisions (rev (map pc_name (tb_columns t)))) (tb_columns t) d = Inr d"
    by (rule foldR_skip) (simp add: add_column_def)
  moreover have "foldR (drop_key (sc_backend src) t no_decisions) (tb_foreignKeys t) d = Inr d"
    "foldR (add_key (sc_backend src) t t no_decisions) (tb_foreignKeys t) d = Inr d"
    "foldR (drop_index (sc_backend src) t no_decisions) (tb_indexes t) d = Inr d"
    "foldR (add_index (sc_backend src) t t no_decisions) (tb_indexes t) d = Inr d"
    by (rule foldR_skip, simp add: key_loops object_change_def find_own names)+
  ultimately show ?thesis
    by (simp add: compareTables_def compare_columns_same [OF names(1)] compare_primary_key_def)
qed

lemma compare_tables_same:
  assumes "schema_wf b sc"
  shows "set ts \<subseteq> set (sc_tables sc) \<Longrightarrow> distinct (map tb_name ts) \<Longrightarrow> tb_name ` set ts \<inter> set m = {} \<Longrightarrow>
    foldR (compare_table b sc sc no_decisions) ts (m, d) = Inr (rev (map tb_name ts) @ m, d)"
proof (induction ts arbitrary: m)
  case (Cons t ts)
  have "distinct (map tb_name (sc_tables sc))" "table_wf b sc t" using assms Cons.prems by (auto simp: schema_wf_def)
  with Cons.prems have "compare_table b sc sc no_decisions t (m, d) = Inr (tb_name t # m, d)"
    by (auto simp: compare_table_def find_own compareTables_same)
  with Cons show ?case by auto
qed simp

lemma compare_schema_same:
  assumes "schema_wf b sc" "map_of after b = Some sc"
  shows "compare_schema after no_decisions (b, sc) d = Inr d"
proof -
  have "distinct (map tb_name (sc_tables sc))" using assms(1) by (simp add: schema_wf_def)
  moreover have "foldR (create_table_change b no_decisions (rev (map tb_name (sc_tables sc)))) (sc_tables sc) d = Inr d"
    by (rule foldR_skip) (simp add: create_table_change_def)
  ultimately show ?thesis using assms by (simp add: compare_schema_def compare_tables_same [OF assms(1)])
qed

lemma compare_backends:
  assumes "foldR (compare_schema after no_decisions) before d = Inr d'" "omap_ok before" "omap_ok after"
    and wf: "\<forall>(b, sc) \<in> set before. schema_wf b sc \<and> canonical_schema sc = sc"
      "\<forall>(b, sc) \<in> set after. schema_wf b sc \<and> canonical_schema sc = sc"
  shows "diff_size d \<le> diff_size d' \<and> (length before = length after \<longrightarrow> (diff_size d' = diff_size d \<longleftrightarrow> before = after))"
proof -
  have distinct: "distinct (map fst before)" "distinct (map fst after)" using assms(2,3) by (auto intro: omap_ok_distinct)
  have step: "diff_size s \<le> diff_size s' \<and> (diff_size s' = diff_size s \<longrightarrow> x \<in> set after \<and> s' = s)"
    if "x \<in> set before" "compare_schema after no_decisions x s = Inr s'" for x s s'
  proof -
    obtain b sc where x: "x = (b, sc)" by (cases x)
    have "schema_wf b sc" "canonical_schema sc = sc" using that(1) wf(1) x by auto
    moreover have "schema_wf b tgt \<and> canonical_schema tgt = tgt" if "map_of after b = Some tgt" for tgt
      using wf(2) map_of_SomeD [OF that] by auto
    ultimately show ?thesis
      using schema_silent [of after b sc s s'] that(2) x by (auto simp: map_option_case split: option.splits dest: map_of_SomeD)
  qed
  note silent = foldR_silent [where sz = diff_size and ok = "\<lambda>x. x \<in> set after" and upd = "\<lambda>_ s. s", OF step assms(1)]
  have "before = after" if "diff_size d' = diff_size d" "length before = length after"
  proof (rule omap_ext [OF assms(2,3)])
    have "set before \<subseteq> set after" using silent that(1) by auto
    moreover have "card (set before) = card (set after)"
      using distinct that(2) by (metis distinct_card distinct_zipI1 zip_map_fst_snd)
    ultimately show "set before = set after" by (simp add: card_subset_eq)
  qed
  moreover have "d' = d" if "before = after"
  proof -
    have "compare_schema after no_decisions x d = Inr d" if "x \<in> set before" for x
    proof -
      obtain b sc where "x = (b, sc)" by (cases x)
      with that \<open>before = after\<close> wf(2) distinct(2) show ?thesis by (auto intro!: compare_schema_same)
    qed
    with assms(1) show ?thesis by (simp add: foldR_skip)
  qed
  ultimately show ?thesis using silent by auto
qed

text \<open>
  C35. The comparison of two snapshots is complete: without any decisions it reports neither a change nor a
  problem exactly when the two snapshots have the same canonical form. Every difference of tables,
  columns, keys and indexes, on any backend, is therefore noticed, and the order in which they
  are declared makes no difference.\<close>

theorem compare_complete:
  assumes "omap_ok (ss_backends before)" "omap_ok (ss_backends after)" "compare before after no_decisions = Inr d"
  shows "df_changes d = [] \<and> df_diagnostics d = [] \<longleftrightarrow> canonicalize before = canonicalize after"
proof -
  let ?b = "ss_backends (canonicalize before)" and ?a = "ss_backends (canonicalize after)"
  define start where "start = \<lparr>df_before = canonicalize before, df_after = canonicalize after, df_changes = [], df_diagnostics = []\<rparr>"
  have fields: "df_before start = canonicalize before" "df_after start = canonicalize after" by (simp_all add: start_def)
  from assms(3) have wf: "snapshot_wf (canonicalize before)" "snapshot_wf (canonicalize after)"
    by (auto simp: compare_def Let_def validateSnapshot_wf)
  from assms(3) obtain d1 where fold: "foldR (compare_schema ?a no_decisions) ?b
       (if length ?b \<noteq> length ?a then problem start ''backend-profile'' ''Snapshots must contain the same backend profiles'' [] Empty
        else start) = Inr d1"
    and d: "df_changes d = sort_key ch_id (df_changes d1)" "df_diagnostics d = df_diagnostics d1"
    by (auto simp: compare_def Let_def start_def [symmetric] no_approvals fields)
  have empty: "df_changes d = [] \<and> df_diagnostics d = [] \<longleftrightarrow> diff_size d1 = 0"
    using d by (auto simp: diff_size_def length_0_conv [symmetric] simp del: length_0_conv)
  have schemas: "\<forall>(b, sc) \<in> set (ss_backends (canonicalize s)). schema_wf b sc \<and> canonical_schema sc = sc"
    if "snapshot_wf (canonicalize s)" for s
    using that by (auto simp: snapshot_wf_def canonicalize_def)
  note backends = compare_backends [OF fold omap_ok_canonicalize [OF assms(1)] omap_ok_canonicalize [OF assms(2)]
      schemas [OF wf(1)] schemas [OF wf(2)]]
  have start: "diff_size start = 0" by (simp add: start_def diff_size_def)
  have "canonicalize before = canonicalize after \<longleftrightarrow> ?b = ?a"
    using wf by (cases "canonicalize before"; cases "canonicalize after") (auto simp: snapshot_wf_def)
  with empty backends start show ?thesis by (cases "length ?b = length ?a") (auto simp: problem_grows)
qed


definition empty_mysql :: schema_snapshot where
  "empty_mysql = \<lparr>ss_formatVersion = 1, ss_backends =
     [(Mysql, \<lparr>sc_backend = Mysql, sc_profile = ''orm-cxx-ddl-v1:mysql'', sc_tables = []\<rparr>)]\<rparr>"

theorem compare_complete_witness:
  "\<exists>d. compare empty_mysql sample_snapshot no_decisions = Inr d \<and> \<not> (df_changes d = [] \<and> df_diagnostics d = [])"
proof -
  have ok: "omap_ok (ss_backends empty_mysql)" "omap_ok (ss_backends sample_snapshot)"
    by (simp_all add: omap_ok_def empty_mysql_def sample_snapshot_def)
  have "isOk (compare empty_mysql sample_snapshot no_decisions)" by code_simp
  then obtain d where d: "compare empty_mysql sample_snapshot no_decisions = Inr d" by (auto simp: isOk_iff)
  have "canonicalize empty_mysql \<noteq> canonicalize sample_snapshot" by code_simp
  with compare_complete [OF ok d] d show ?thesis by blast
qed

section \<open>What identifies a change\<close>

definition change_label :: "change_kind \<Rightarrow> string" where
  "change_label kind =
     (case kind of
        CreateTable \<Rightarrow> ''create-table'' | DropTable \<Rightarrow> ''drop-table'' | RenameTable \<Rightarrow> ''rename-table''
      | AddColumn \<Rightarrow> ''add-column'' | DropColumn \<Rightarrow> ''drop-column'' | RenameColumn \<Rightarrow> ''rename-column''
      | AlterColumn \<Rightarrow> ''alter-column'' | AlterPrimaryKey \<Rightarrow> ''alter-primary-key''
      | AddForeignKey \<Rightarrow> ''add-foreign-key'' | DropForeignKey \<Rightarrow> ''drop-foreign-key''
      | AddIndex \<Rightarrow> ''add-index'' | DropIndex \<Rightarrow> ''drop-index'')"

lemma encode_component_inj: "encode_component xs = encode_component ys \<Longrightarrow> xs = ys"
proof (induction xs arbitrary: ys)
  case Nil
  then show ?case by (cases ys) (auto simp: encode_component_def split: if_splits)
next
  case (Cons x xs)
  then obtain y zs where ys: "ys = y # zs" by (cases ys) (auto simp: encode_component_def split: if_splits)
  with Cons.prems have "x = y \<and> encode_component xs = encode_component zs"
    by (auto simp: encode_component_def split: if_splits)
  with Cons.IH ys show ?case by auto
qed

lemma encode_component_slash: "CHR ''/'' \<notin> set (encode_component xs)"
  by (auto simp: encode_component_def)

lemma split_at_slash:
  assumes "CHR ''/'' \<notin> set a" "CHR ''/'' \<notin> set a'" "r = [] \<or> hd r = CHR ''/''" "r' = [] \<or> hd r' = CHR ''/''" "a @ r = a' @ r'"
  shows "a = a' \<and> r = r'"
proof -
  have part: "takeWhile (\<lambda>c. c \<noteq> CHR ''/'') (x @ y) = x" if "CHR ''/'' \<notin> set x" "y = [] \<or> hd y = CHR ''/''" for x y
    using that by (cases y) (auto simp: takeWhile_append)
  from part [OF assms(1,3)] part [OF assms(2,4)] assms(5) have "a = a'" by simp
  with assms(5) show ?thesis by simp
qed

lemma changeId_inj:
  assumes "changeId b k t x = Inr i" "changeId b' k' t' x' = Inr i" "CHR ''/'' \<notin> set k" "CHR ''/'' \<notin> set k'"
  shows "b = b' \<and> k = k' \<and> t = t' \<and> x = x'"
proof -
  let ?rest = "\<lambda>x. if x = [] then [] else CHR ''/'' # encode_component x"
  from assms(1,2) obtain n n' where names: "backendName b = Inr n" "backendName b' = Inr n'"
    and i: "n @ CHR ''/'' # k @ CHR ''/'' # encode_component t @ ?rest x = n' @ CHR ''/'' # k' @ CHR ''/'' # encode_component t' @ ?rest x'"
    by (auto simp: changeId_def cong: if_cong)
  have slash: "CHR ''/'' \<notin> set n" "CHR ''/'' \<notin> set n'" using names by (auto simp: backendName_def split: if_splits)
  from split_at_slash [OF slash _ _ i] have n: "n = n'" and i: "k @ CHR ''/'' # encode_component t @ ?rest x = k' @ CHR ''/'' # encode_component t' @ ?rest x'"
    by auto
  from split_at_slash [OF assms(3,4) _ _ i] have "k = k'" and i: "encode_component t @ ?rest x = encode_component t' @ ?rest x'"
    by auto
  have "encode_component t = encode_component t' \<and> ?rest x = ?rest x'"
    by (rule split_at_slash [OF encode_component_slash encode_component_slash _ _ i]) auto
  then have "t = t'" and "?rest x = ?rest x'" by (auto dest: encode_component_inj)
  moreover from this(2) have "x = x'" by (auto dest: encode_component_inj split: if_splits)
  moreover have "b = b'" using n names by (auto simp: backendName_def split: if_splits)
  ultimately show ?thesis using \<open>k = k'\<close> by simp
qed

lemma change_label_inj: "change_label k = change_label k' \<Longrightarrow> k = k'"
  by (cases k; cases k'; simp add: change_label_def)

lemma change_label_slash: "CHR ''/'' \<notin> set (change_label k)"
  by (cases k; simp add: change_label_def)

text \<open>
  Every recorded change carries the id of its backend, kind, table and object, and one that loses
  data is resolved only by an approval of that id.
\<close>

definition well_recorded :: "generation_decisions \<Rightarrow> schema_change \<Rightarrow> bool" where
  "well_recorded decisions c \<longleftrightarrow>
     changeId (ch_backend c) (change_label (ch_kind c)) (ch_table c) (ch_column c) = Inr (ch_id c) \<and>
     (ch_dataLoss c \<and> \<not> ch_unresolved c \<longrightarrow> ch_id c \<in> set (gd_allowDataLossUp decisions))"

abbreviation all_recorded :: "generation_decisions \<Rightarrow> schema_diff \<Rightarrow> bool" where
  "all_recorded decisions d \<equiv> list_all (well_recorded decisions) (df_changes d)"

lemma addChange_recorded:
  assumes "addChange diff b k l t x y loss input ds = Inr d" "all_recorded ds diff" "l = change_label k"
  shows "all_recorded ds d"
  using assms by (auto simp: addChange_def well_recorded_def approved_def)

lemma problem_recorded [simp]: "df_changes (problem d c m p b) = df_changes d"
  by (simp add: problem_def)

lemma validateRenames_recorded [simp]: "df_changes (validateRenames d s t ds) = df_changes d"
proof -
  have fold_keeps: "df_changes (snd (fold f xs a)) = df_changes (snd a)"
    if "\<And>x a. df_changes (snd (f x a)) = df_changes (snd a)"
    for f :: "'x \<Rightarrow> 'y \<times> schema_diff \<Rightarrow> 'y \<times> schema_diff" and xs a
    using that by (induction xs arbitrary: a) auto
  have "df_changes (snd (validate_table_rename s t ds r a)) = df_changes (snd a)"
    "df_changes (snd (validate_column_rename s t ds r' a)) = df_changes (snd a)" for r r' a
    by (simp_all add: validate_table_rename_def validate_column_rename_def Let_def split: prod.split)
  then show ?thesis by (simp add: validateRenames_def fold_keeps)
qed

lemma object_recorded:
  "object_change b t ds k l differs n d = Inr d' \<Longrightarrow> all_recorded ds d \<Longrightarrow> l = change_label k \<Longrightarrow> all_recorded ds d'"
  by (auto simp: object_change_def split: if_splits intro: addChange_recorded)

lemmas labels = change_label_def change_kind.simps

lemma compareTables_recorded:
  assumes "compareTables src s t ds d = Inr d'" "all_recorded ds d"
  shows "all_recorded ds d'"
proof -
  let ?b = "sc_backend src"
  have column: "all_recorded ds (snd x')" if "compare_column ?b t ds c x = Inr x'" "all_recorded ds (snd x)" for c x x'
    using that
    by (auto simp: compare_column_def alter_column_def Let_def split: prod.splits option.splits if_splits
        elim!: addChange_recorded simp: labels)
  have added: "all_recorded ds x'" if "add_column ?b t ds m c x = Inr x'" "all_recorded ds x" for m c x x'
    using that by (auto simp: add_column_def split: if_splits elim!: addChange_recorded simp: labels)
  have objects: "drop_key ?b t ds k x = Inr x' \<Longrightarrow> all_recorded ds x \<Longrightarrow> all_recorded ds x'"
    "add_key ?b s t ds k x = Inr x' \<Longrightarrow> all_recorded ds x \<Longrightarrow> all_recorded ds x'"
    "drop_index ?b t ds i x = Inr x' \<Longrightarrow> all_recorded ds x \<Longrightarrow> all_recorded ds x'"
    "add_index ?b s t ds i x = Inr x' \<Longrightarrow> all_recorded ds x \<Longrightarrow> all_recorded ds x'" for k i x x'
    unfolding drop_key_def add_key_def drop_index_def add_index_def
    by (erule object_recorded, assumption, simp add: labels)+
  have primary: "all_recorded ds x'" if "compare_primary_key ?b s t ds x = Inr x'" "all_recorded ds x" for x x'
    using that by (auto simp: compare_primary_key_def Let_def split: if_splits elim!: addChange_recorded simp: labels)
  from assms(1) obtain d0 m d1 d2 d3 d4 d5 d6 where
    renamed: "(if tb_name s \<noteq> tb_name t
        then addChange d ?b RenameTable ''rename-table'' (tb_name s) [] (tb_name t) False False ds else Inr d) = Inr d0"
    and steps: "foldR (compare_column ?b t ds) (tb_columns s) ([], d0) = Inr (m, d1)"
      "foldR (add_column ?b t ds m) (tb_columns t) d1 = Inr d2" "compare_primary_key ?b s t ds d2 = Inr d3"
      "foldR (drop_key ?b t ds) (tb_foreignKeys s) d3 = Inr d4" "foldR (add_key ?b s t ds) (tb_foreignKeys t) d4 = Inr d5"
      "foldR (drop_index ?b t ds) (tb_indexes s) d5 = Inr d6" "foldR (add_index ?b s t ds) (tb_indexes t) d6 = Inr d'"
    by (auto simp: compareTables_def Let_def split: prod.splits)
  have d0: "all_recorded ds d0" using renamed assms(2) by (auto split: if_splits elim!: addChange_recorded simp: labels)
  have "all_recorded ds (snd (m, d1))"
    by (rule foldR_invariant [OF steps(1), where P = "\<lambda>x. all_recorded ds (snd x)"]) (use d0 column in auto)
  then have "all_recorded ds d2"
    by (intro foldR_invariant [OF steps(2), where P = "all_recorded ds"]) (use added in auto)
  note d3 = primary [OF steps(3) this]
  have d4: "all_recorded ds d4" by (rule foldR_invariant [OF steps(4), where P = "all_recorded ds"]) (use d3 objects in auto)
  have d5: "all_recorded ds d5" by (rule foldR_invariant [OF steps(5), where P = "all_recorded ds"]) (use d4 objects in auto)
  have d6: "all_recorded ds d6" by (rule foldR_invariant [OF steps(6), where P = "all_recorded ds"]) (use d5 objects in auto)
  show ?thesis by (rule foldR_invariant [OF steps(7), where P = "all_recorded ds"]) (use d6 objects in auto)
qed

lemma compare_schema_recorded:
  assumes "compare_schema after ds (b, src) d = Inr d'" "all_recorded ds d"
  shows "all_recorded ds d'"
proof (cases "map_of after b")
  case (Some tgt)
  have table: "all_recorded ds (snd x')" if "compare_table b src tgt ds t x = Inr x'" "all_recorded ds (snd x)" for t x x'
    using that
    by (auto simp: compare_table_def Let_def split: prod.splits option.splits if_splits
        elim!: addChange_recorded compareTables_recorded simp: labels)
  have create: "all_recorded ds x'" if "create_table_change b ds m t x = Inr x'" "all_recorded ds x" for m t x x'
    using that by (auto simp: create_table_change_def split: if_splits elim!: addChange_recorded simp: labels)
  show ?thesis
  proof (cases "sc_profile src = sc_profile tgt")
    case True
    with Some assms(1) obtain m d1 where
      tables: "foldR (compare_table b src tgt ds) (sc_tables src) ([], validateRenames d src tgt ds) = Inr (m, d1)"
      and created: "foldR (create_table_change b ds m) (sc_tables tgt) d1 = Inr d'"
      by (auto simp: compare_schema_def split: prod.splits)
    have "all_recorded ds (snd (m, d1))"
      by (rule foldR_invariant [OF tables, where P = "\<lambda>x. all_recorded ds (snd x)"]) (use assms(2) table in auto)
    then show ?thesis by (intro foldR_invariant [OF created, where P = "all_recorded ds"]) (use create in auto)
  qed (use assms Some in \<open>auto simp: compare_schema_def\<close>)
qed (use assms in \<open>auto simp: compare_schema_def\<close>)

text \<open>
  C36. Data is lost only with consent. Every change \<^verbatim>\<open>compare\<close> reports that would lose data is left
  unresolved unless the developer listed its id among the approvals, and the id an approval names
  belongs to that change alone: two changes with one id agree in backend, kind, table and object,
  whatever characters the names contain.\<close>

theorem compare_loses_no_data_unasked:
  assumes "compare before after decisions = Inr d" "c \<in> set (df_changes d)" "c' \<in> set (df_changes d)"
  shows "(ch_dataLoss c \<longrightarrow> ch_unresolved c \<or> ch_id c \<in> set (gd_allowDataLossUp decisions)) \<and>
    (ch_id c = ch_id c' \<longrightarrow>
       ch_backend c = ch_backend c' \<and> ch_kind c = ch_kind c' \<and> ch_table c = ch_table c' \<and> ch_column c = ch_column c')"
proof -
  have "all_recorded decisions d"
  proof -
    from assms(1) obtain start d1 where fold: "foldR (compare_schema (ss_backends (canonicalize after)) decisions)
         (ss_backends (canonicalize before)) start = Inr d1" "df_changes start = []"
      and d: "df_changes d = sort_key ch_id (df_changes (fold (check_approval (df_changes d1)) (gd_allowDataLossUp decisions) d1))"
      by (auto simp: compare_def Let_def split: if_splits)
    have "df_changes (fold (check_approval cs) as x) = df_changes x" for cs as x
      by (induction as arbitrary: x) (auto simp: check_approval_def)
    moreover have "all_recorded decisions d1"
      by (rule foldR_invariant [OF fold(1), where P = "all_recorded decisions"])
        (use fold(2) compare_schema_recorded in \<open>auto simp: split_paired_all\<close>)
    ultimately show ?thesis using d by (simp add: list_all_iff)
  qed
  with assms(2,3) have "well_recorded decisions c" "well_recorded decisions c'" by (auto simp: list_all_iff)
  moreover from this have "ch_backend c = ch_backend c' \<and> ch_kind c = ch_kind c' \<and> ch_table c = ch_table c' \<and> ch_column c = ch_column c'"
    if "ch_id c = ch_id c'"
    using changeId_inj [OF _ _ change_label_slash change_label_slash, of "ch_backend c" "ch_kind c" "ch_table c" "ch_column c" "ch_id c"
        "ch_backend c'" "ch_kind c'" "ch_table c'" "ch_column c'"] change_label_inj that
    by (auto simp: well_recorded_def)
  ultimately show ?thesis by (auto simp: well_recorded_def)
qed


theorem compare_loses_no_data_unasked_witness:
  "\<exists>d c. compare sample_snapshot empty_mysql no_decisions = Inr d \<and> c \<in> set (df_changes d) \<and> ch_dataLoss c \<and> ch_unresolved c"
proof -
  have "list_ex ch_dataLoss (df_changes (projr (compare sample_snapshot empty_mysql no_decisions)))" by code_simp
  moreover have "isOk (compare sample_snapshot empty_mysql no_decisions)" by code_simp
  ultimately obtain d c where d: "compare sample_snapshot empty_mysql no_decisions = Inr d" "c \<in> set (df_changes d)" "ch_dataLoss c"
    by (auto simp: isOk_iff list_ex_iff)
  with compare_loses_no_data_unasked [OF d(1,2,2)] show ?thesis by (auto simp: no_approvals)
qed

section \<open>Changes of type that keep every value\<close>

text \<open>The range the runner checks migrated values of a column against, as numbers.\<close>

definition int_text :: "string \<Rightarrow> int" where
  "int_text s = (case s of c # r \<Rightarrow> if c = CHR ''-'' then - int (dec_val r) else int (dec_val s) | [] \<Rightarrow> 0)"

definition integral_bounds :: "backend_type \<Rightarrow> column_type \<Rightarrow> (int \<times> int) option" where
  "integral_bounds backend type = map_option (\<lambda>(lo, hi). (int_text lo, int_text hi)) (integral_range backend type)"

lemma integral_bounds_of [simp]:
  "integral_bounds b BoolT = Some (0, 1)" "integral_bounds b CharT = Some (-128, 127)"
  "integral_bounds b UnsignedCharT = Some (0, 255)" "integral_bounds b ShortT = Some (-32768, 32767)"
  "integral_bounds b UnsignedShortT = Some (0, 65535)" "integral_bounds b IntT = Some (-2147483648, 2147483647)"
  "integral_bounds b UnsignedIntT = Some (0, 4294967295)"
  "integral_bounds b LongLongT = Some (-9223372036854775808, 9223372036854775807)"
  "integral_bounds b UnsignedLongLongT =
     Some (0, if b = Mysql \<or> b = Mariadb then 18446744073709551615 else 9223372036854775807)"
  by (simp_all add: integral_bounds_def integral_range_def int_text_def dec_val_def digit_val_def)

definition bounds_within :: "(int \<times> int) option \<Rightarrow> (int \<times> int) option \<Rightarrow> bool" where
  "bounds_within old new =
     (case (old, new) of
        (Some (lo, hi), Some (lo', hi')) \<Rightarrow> lo' \<le> lo \<and> hi \<le> hi'
      | (None, None) \<Rightarrow> True
      | _ \<Rightarrow> False)"

lemma no_integral_bounds:
  "fst (logicalRange b type) = 0 \<longleftrightarrow> integral_bounds b type = None"
  by (cases type) (simp_all add: logicalRange_def integral_bounds_def integral_range_def)

lemma range_fits_bounds:
  assumes "range_fits (logicalRange b old) (logicalRange b new)" "fst (logicalRange b old) \<noteq> 0" "fst (logicalRange b new) \<noteq> 0"
  shows "bounds_within (integral_bounds b old) (integral_bounds b new)"
  using assms
  by (cases old; cases new) (simp_all add: logicalRange_def range_fits_def bounds_within_def split: if_split_asm, auto)

text \<open>
  A change of type that \<^verbatim>\<open>compare\<close> takes for safe keeps every value: the range the runner will check the
  migrated values against contains the old range, a limit on the length of texts is not lowered, and
  any other type stays as it is, except that a float may become a double.\<close>

theorem safeTypeChange_widens:
  assumes "safeTypeChange backend source target"
  shows "bounds_within (integral_bounds backend (pc_logicalType source)) (integral_bounds backend (pc_logicalType target)) \<and>
    (pc_logicalType source = StringT \<longrightarrow> pc_logicalType target = StringT \<and>
       (\<forall>m. pc_maxStringLength target = Some m \<longrightarrow> (\<exists>n. pc_maxStringLength source = Some n \<and> n \<le> m))) \<and>
    (integral_bounds backend (pc_logicalType source) = None \<longrightarrow>
       pc_logicalType target = pc_logicalType source \<or> (pc_logicalType source = FloatT \<and> pc_logicalType target = DoubleT))"
proof (cases "pc_logicalType source = StringT \<and> pc_logicalType target = StringT")
  case True
  with assms show ?thesis
    by (auto simp: safeTypeChange_def bounds_within_def integral_bounds_def integral_range_def split: option.splits)
next
  case False
  let ?old = "logicalRange backend (pc_logicalType source)" and ?new = "logicalRange backend (pc_logicalType target)"
  from False assms have range: "\<not> (if fst ?old \<noteq> 0 \<or> fst ?new \<noteq> 0 then fst ?old = 0 \<or> fst ?new = 0 \<or> \<not> range_fits ?old ?new
      else pc_logicalType source \<noteq> pc_logicalType target \<and> \<not> (pc_logicalType source = FloatT \<and> pc_logicalType target = DoubleT))"
    by (simp add: safeTypeChange_def Let_def split: if_split_asm)
  show ?thesis
  proof (cases "fst ?old = 0 \<and> fst ?new = 0")
    case True
    with range False show ?thesis by (auto simp: no_integral_bounds bounds_within_def)
  next
    case nonzero: False
    with range have fits: "range_fits ?old ?new" "fst ?old \<noteq> 0" "fst ?new \<noteq> 0" by (auto split: if_splits)
    have "pc_logicalType source \<noteq> StringT" using fits(2) by (auto simp: logicalRange_def)
    moreover have "integral_bounds backend (pc_logicalType source) \<noteq> None" using fits(2) by (simp add: no_integral_bounds)
    ultimately show ?thesis using range_fits_bounds [OF fits] by auto
  qed
qed

theorem safeTypeChange_widens_witness:
  "\<exists>source target. pc_logicalType source = UnsignedLongLongT \<and> pc_logicalType target = LongLongT \<and>
     safeTypeChange Sqlite source target \<and> bounds_within (integral_bounds Sqlite UnsignedLongLongT) (integral_bounds Sqlite LongLongT)"
proof -
  let ?s = "\<lparr>pc_name = ''n'', pc_logicalType = UnsignedLongLongT, pc_sqlType = ''UNSIGNED BIG INT'', pc_nullable = False,
      pc_maxStringLength = None, pc_autoIncrement = False\<rparr>" and
    ?t = "\<lparr>pc_name = ''n'', pc_logicalType = LongLongT, pc_sqlType = ''BIGINT'', pc_nullable = False,
      pc_maxStringLength = None, pc_autoIncrement = False\<rparr>"
  have "safeTypeChange Sqlite ?s ?t" by code_simp
  with safeTypeChange_widens [OF this] show ?thesis by (intro exI [of _ ?s] exI [of _ ?t]) simp
qed

end
