(* ===== verification/Orm_Results.thy ===== *)
theory Orm_Results
  imports Orm_Prelude
begin

text \<open>
  Two relations on results, used to compare two implementations of the same function: one succeeds whenever
  the other does, with the same value (\<open>below\<close>); and both never succeed with different values (\<open>agree\<close>). Each
  is preserved by the combinators of the result monad, so a comparison of two programs of the same shape
  reduces to a comparison of the calls they make.
\<close>

named_theorems below_intros \<open>combinators preserve that one result is below another\<close>
named_theorems agree_intros \<open>combinators preserve agreement\<close>

definition below :: "('e, 'a) result \<Rightarrow> ('f, 'a) result \<Rightarrow> bool" where
  "below r r' \<longleftrightarrow> (\<forall>a. r = Inr a \<longrightarrow> r' = Inr a)"

definition agree :: "('e, 'a) result \<Rightarrow> ('f, 'a) result \<Rightarrow> bool" where
  "agree r r' \<longleftrightarrow> (\<forall>a b. r = Inr a \<longrightarrow> r' = Inr b \<longrightarrow> a = b)"

lemma belowD: "below r r' \<Longrightarrow> r = Inr a \<Longrightarrow> r' = Inr a"
  by (simp add: below_def)

lemma below_refl [below_intros]: "below r r"
  by (simp add: below_def)

lemma below_Inr [below_intros]: "below (Inr a) (Inr a)"
  by (simp add: below_def)

lemma below_Inl [below_intros]: "below (Inl e) r"
  by (simp add: below_def)

lemma below_trans: "below r r' \<Longrightarrow> below r' r'' \<Longrightarrow> below r r''"
  by (simp add: below_def)

lemma below_throwIf [below_intros]: "below (throwIf b e) (throwIf b e')"
  by (simp add: below_def)

lemma below_bindR [below_intros]:
  "below m m' \<Longrightarrow> (\<And>x. m = Inr x \<Longrightarrow> below (f x) (f' x)) \<Longrightarrow> below (bindR m f) (bindR m' f')"
  by (auto simp: below_def)

lemma below_if [below_intros]:
  "(b \<Longrightarrow> below r s) \<Longrightarrow> (\<not> b \<Longrightarrow> below r' s') \<Longrightarrow> below (if b then r else r') (if b then s else s')"
  by simp

lemma below_option [below_intros]:
  "(x = None \<Longrightarrow> below r s) \<Longrightarrow> (\<And>y. x = Some y \<Longrightarrow> below (f y) (g y)) \<Longrightarrow>
   below (case x of None \<Rightarrow> r | Some y \<Rightarrow> f y) (case x of None \<Rightarrow> s | Some y \<Rightarrow> g y)"
  by (cases x) auto

lemma below_prod [below_intros]:
  "(\<And>a b. x = (a, b) \<Longrightarrow> below (f a b) (g a b)) \<Longrightarrow> below (case x of (a, b) \<Rightarrow> f a b) (case x of (a, b) \<Rightarrow> g a b)"
  by (cases x) auto

lemma below_mapR [below_intros]:
  "(\<And>x. x \<in> set xs \<Longrightarrow> below (f x) (g x)) \<Longrightarrow> below (mapR f xs) (mapR g xs)"
  by (induction xs) (auto simp: below_def)

lemma below_foldR [below_intros]:
  "(\<And>x s. x \<in> set xs \<Longrightarrow> below (f x s) (g x s)) \<Longrightarrow> below (foldR f xs s) (foldR g xs s)"
  by (induction xs arbitrary: s) (auto simp: below_def)

lemma agreeD: "agree r r' \<Longrightarrow> r = Inr a \<Longrightarrow> r' = Inr b \<Longrightarrow> a = b"
  by (simp add: agree_def)

lemma agree_refl [agree_intros]: "agree r r"
  by (simp add: agree_def)

lemma agree_Inr [agree_intros]: "agree (Inr a) (Inr a)"
  by (simp add: agree_def)

lemma agree_throwIf [agree_intros]: "agree (throwIf b e) (throwIf b' e')"
  by (simp add: agree_def)

lemma agree_bindR [agree_intros]:
  "agree m m' \<Longrightarrow> (\<And>x. m = Inr x \<Longrightarrow> m' = Inr x \<Longrightarrow> agree (f x) (f' x)) \<Longrightarrow> agree (bindR m f) (bindR m' f')"
  by (fastforce simp: agree_def)

lemma agree_if [agree_intros]:
  "(b \<Longrightarrow> agree r s) \<Longrightarrow> (\<not> b \<Longrightarrow> agree r' s') \<Longrightarrow> agree (if b then r else r') (if b then s else s')"
  by simp

lemma agree_mapR [agree_intros]:
  "(\<And>x. x \<in> set xs \<Longrightarrow> agree (f x) (g x)) \<Longrightarrow> agree (mapR f xs) (mapR g xs)"
proof (induction xs)
  case (Cons x xs)
  then show ?case unfolding mapR.simps by (intro agree_bindR) (auto intro: agree_Inr)
qed (simp add: agree_def)

lemma agree_foldR [agree_intros]:
  "(\<And>x s. x \<in> set xs \<Longrightarrow> agree (f x s) (g x s)) \<Longrightarrow> agree (foldR f xs s) (foldR g xs s)"
proof (induction xs arbitrary: s)
  case (Cons x xs)
  show ?case unfolding foldR.simps
    by (rule agree_bindR) (use Cons in auto)
qed (simp add: agree_def)

end
