(* ===== verification/Orm_Dialect.thy ===== *)
theory Orm_Dialect
  imports Orm_Snapshot Orm_Results
begin

text \<open>
  The interface \<^verbatim>\<open>SqlDialect\<close> of \<^verbatim>\<open>modules/orm/sql/contracts.cppm\<close> as a record of its virtual functions, the
  shared rendering of \<^verbatim>\<open>modules/orm/sql/program.cppm\<close> and \<^verbatim>\<open>emitter.cppm\<close>, the type translators and the
  four dialects (\<^verbatim>\<open>src/database/*/*Dialect.cpp\<close>, \<^verbatim>\<open>*TypeTranslator.cpp\<close>). The locale \<open>dialect\<close>
  states what the generators of statements rely on; each of the four is an instance.
\<close>

section \<open>The interface\<close>

datatype sql_flavor = NoFlavor | SqliteFlavor | PostgresFlavor | MysqlFlavor

record pagination_spec =
  pg_limit :: "nat option"
  pg_offset :: "nat option"
  pg_hasOrderBy :: bool

record insert_if_absent =
  ii_tableName :: string
  ii_columns :: "string list"
  ii_valueExpressions :: "string list"
  ii_conflictColumns :: "string list"

record sql_dialect =
  sd_quoteIdentifier :: "string \<Rightarrow> (exn, string) result"
  sd_bindMarker :: "string \<Rightarrow> (exn, string) result"
  sd_toSqlType :: "column_type \<Rightarrow> nat option \<Rightarrow> (exn, string) result"
  sd_renderStringLengthConstraint :: "string \<Rightarrow> nat option \<Rightarrow> (exn, string) result"
  sd_renderCreateTablePrefix :: "string \<Rightarrow> bool \<Rightarrow> (exn, string) result"
  sd_renderCreateTableSuffix :: string
  sd_renderDefaultInsert :: "string \<Rightarrow> (exn, string) result"
  sd_renderDropTable :: "string \<Rightarrow> bool \<Rightarrow> (exn, string) result"
  sd_renderAutoIncrementPrimaryKey :: "string \<Rightarrow> (exn, string) result"
  sd_renderPagination :: "pagination_spec \<Rightarrow> string"
  sd_renderInsertIfAbsent :: "insert_if_absent \<Rightarrow> (exn, string) result"
  sd_renderAggregateResult :: "string \<Rightarrow> bool \<Rightarrow> string"

section \<open>Shared rendering\<close>

definition isPortableBindName :: "string \<Rightarrow> bool" where
  "isPortableBindName name \<longleftrightarrow>
     name \<noteq> [] \<and> list_all (\<lambda>c. is_lower c \<or> is_upper c \<or> is_digit c \<or> c = CHR ''_'') name"

definition flavor_quote :: "sql_flavor \<Rightarrow> char" where
  "flavor_quote flavor = (if flavor = MysqlFlavor then backtick else dquote)"

definition utf8_leads :: "string \<Rightarrow> nat" where
  "utf8_leads name = length (filter (\<lambda>c. and (code c) 192 \<noteq> 128) name)"

definition quoteStandardIdentifier :: "string \<Rightarrow> sql_flavor \<Rightarrow> (exn, string) result" where
  "quoteStandardIdentifier name flavor =
     bindR (throwIf (name = []) (InvalidArgument ''SQL identifier cannot be empty'')) (\<lambda>_.
     bindR (throwIf (char_of (0::nat) \<in> set name)
              (InvalidArgument ''SQL identifiers must not contain an embedded NUL byte'')) (\<lambda>_.
     bindR (throwIf (flavor = PostgresFlavor \<and> length name > 63)
              (InvalidArgument ''PostgreSQL identifiers must not exceed 63 bytes'')) (\<lambda>_.
     bindR (throwIf (flavor = MysqlFlavor \<and> utf8_leads name > 64)
              (InvalidArgument ''MySQL-family identifiers must not exceed 64 characters'')) (\<lambda>_.
       Inr (flavor_quote flavor # double_delimiter (flavor_quote flavor) name @ [flavor_quote flavor])))))"

definition static_bindMarker :: "string \<Rightarrow> (exn, string) result" where
  "static_bindMarker name =
     bindR (throwIf (\<not> isPortableBindName name) (InvalidArgument ''Invalid SQL bind parameter name''))
       (\<lambda>_. Inr ('':'' @ name))"

definition static_aggregate :: "sql_flavor \<Rightarrow> string \<Rightarrow> bool \<Rightarrow> string" where
  "static_aggregate flavor value exact =
     (if flavor = PostgresFlavor \<and> exact then ''CAST('' @ value @ '' AS TEXT)''
      else if flavor = MysqlFlavor \<and> exact then ''CAST('' @ value @ '' AS CHAR)''
      else value)"

text \<open>\<^verbatim>\<open>StaticSqlPolicy::pagination\<close> with literal bounds, which is how the dialects call it.\<close>

definition static_pagination :: "sql_flavor \<Rightarrow> pagination_spec \<Rightarrow> string" where
  "static_pagination flavor spec =
     (case pg_limit spec of
        Some n \<Rightarrow> '' LIMIT '' @ dec n
      | None \<Rightarrow>
          if pg_offset spec \<noteq> None \<and> flavor = SqliteFlavor then '' LIMIT -1''
          else if pg_offset spec \<noteq> None \<and> flavor = MysqlFlavor then '' LIMIT 18446744073709551615''
          else [])
     @ (case pg_offset spec of Some n \<Rightarrow> '' OFFSET '' @ dec n | None \<Rightarrow> [])"

text \<open>The function \<^verbatim>\<open>join\<close> of the dialects: no separator while the result is empty.\<close>

definition join_values :: "string list \<Rightarrow> string \<Rightarrow> string" where
  "join_values texts separator = foldl (\<lambda>result text. (if result \<noteq> [] then result @ separator else result) @ text) [] texts"

definition create_prefix :: "sql_flavor \<Rightarrow> string \<Rightarrow> bool \<Rightarrow> (exn, string) result" where
  "create_prefix flavor tableName ifNotExists =
     bindR (quoteStandardIdentifier tableName flavor) (\<lambda>table.
       Inr (''CREATE TABLE '' @ (if ifNotExists then ''IF NOT EXISTS '' else []) @ table @ '' (''))"

definition drop_table :: "sql_flavor \<Rightarrow> string \<Rightarrow> bool \<Rightarrow> (exn, string) result" where
  "drop_table flavor tableName ifExists =
     bindR (quoteStandardIdentifier tableName flavor) (\<lambda>table.
       Inr (''DROP TABLE '' @ (if ifExists then ''IF EXISTS '' else []) @ table @ '';''))"

definition auto_increment :: "sql_flavor \<Rightarrow> string \<Rightarrow> string \<Rightarrow> (exn, string) result" where
  "auto_increment flavor suffix columnName =
     bindR (quoteStandardIdentifier columnName flavor) (\<lambda>column. Inr (column @ suffix))"

definition insert_on_conflict :: "sql_flavor \<Rightarrow> insert_if_absent \<Rightarrow> (exn, string) result" where
  "insert_on_conflict flavor spec =
     bindR (throwIf (ii_columns spec = []) (InvalidArgument ''Insert-if-absent requires at least one column'')) (\<lambda>_.
     bindR (throwIf (length (ii_columns spec) \<noteq> length (ii_valueExpressions spec))
              (InvalidArgument ''Insert-if-absent column and value counts must match'')) (\<lambda>_.
     bindR (throwIf (ii_conflictColumns spec = []) (InvalidArgument ''Insert-if-absent requires conflict columns'')) (\<lambda>_.
     bindR (mapR (\<lambda>column. quoteStandardIdentifier column flavor) (ii_columns spec)) (\<lambda>columns.
     bindR (mapR (\<lambda>column. quoteStandardIdentifier column flavor) (ii_conflictColumns spec)) (\<lambda>conflict.
     bindR (quoteStandardIdentifier (ii_tableName spec) flavor) (\<lambda>table.
       Inr (''INSERT INTO '' @ table @ '' ('' @ join_values columns '', '' @ '') VALUES (''
            @ join_values (ii_valueExpressions spec) '', '' @ '') ON CONFLICT ('' @ join_values conflict '', ''
            @ '') DO NOTHING;'')))))))"

text \<open>\<^verbatim>\<open>mysql_family::sqlType\<close> and \<^verbatim>\<open>mysql_family::renderInsert\<close>.\<close>

definition family_sqlType :: "column_type \<Rightarrow> nat option \<Rightarrow> (exn, string) result" where
  "family_sqlType type maxStringLength =
     (case type of
        BoolT \<Rightarrow> Inr ''TINYINT''
      | CharT \<Rightarrow> Inr ''SMALLINT''
      | UnsignedCharT \<Rightarrow> Inr ''TINYINT UNSIGNED''
      | ShortT \<Rightarrow> Inr ''SMALLINT''
      | UnsignedShortT \<Rightarrow> Inr ''SMALLINT UNSIGNED''
      | IntT \<Rightarrow> Inr ''INT''
      | UnsignedIntT \<Rightarrow> Inr ''INT UNSIGNED''
      | LongLongT \<Rightarrow> Inr ''BIGINT''
      | UnsignedLongLongT \<Rightarrow> Inr ''BIGINT UNSIGNED''
      | FloatT \<Rightarrow> Inr ''DOUBLE''
      | DoubleT \<Rightarrow> Inr ''DOUBLE''
      | StringT \<Rightarrow>
          (case maxStringLength of
             Some n \<Rightarrow> if n = 0 \<or> n > 16383
                       then Inl (InvalidArgument ''MySQL-family VARCHAR length must be between 1 and 16383 characters'')
                       else Inr (''VARCHAR('' @ dec n @ '')'')
           | None \<Rightarrow> Inr ''LONGTEXT'')
      | DateT \<Rightarrow> Inr ''DATE''
      | TimeOfDayT \<Rightarrow> Inr ''TIME(6)''
      | LocalDateTimeT \<Rightarrow> Inr ''DATETIME(6)''
      | UtcTimestampT \<Rightarrow> Inr ''TIMESTAMP(6)''
      | UuidT \<Rightarrow> Inl (RuntimeError ''Unsupported MySQL-family column type''))"

definition family_insert :: "insert_if_absent \<Rightarrow> (exn, string) result" where
  "family_insert spec =
     bindR (throwIf (ii_columns spec = [] \<or> length (ii_columns spec) \<noteq> length (ii_valueExpressions spec)
                     \<or> ii_conflictColumns spec = [])
              (InvalidArgument ''Insert-if-absent requires matching columns, values and a conflict key'')) (\<lambda>_.
     bindR (mapR (\<lambda>column. quoteStandardIdentifier column MysqlFlavor) (ii_columns spec)) (\<lambda>columns.
     bindR (throwIf (\<not> list_all (\<lambda>column. column \<in> set (ii_columns spec)) (ii_conflictColumns spec))
              (InvalidArgument ''Conflict columns must belong to the inserted columns'')) (\<lambda>_.
     bindR (quoteStandardIdentifier (ii_tableName spec) MysqlFlavor) (\<lambda>table.
       Inr (''INSERT INTO '' @ table @ '' ('' @ joinWith '', '' columns @ '') VALUES (''
            @ joinWith '', '' (ii_valueExpressions spec) @ '');'')))))"

section \<open>SQLite\<close>

definition sqlite_toSqlType :: "column_type \<Rightarrow> nat option \<Rightarrow> (exn, string) result" where
  "sqlite_toSqlType type maxStringLength =
     (case type of
        BoolT \<Rightarrow> Inr ''BOOLEAN''
      | CharT \<Rightarrow> Inr ''TINYINT''
      | UnsignedCharT \<Rightarrow> Inr ''TINYINT''
      | ShortT \<Rightarrow> Inr ''SMALLINT''
      | UnsignedShortT \<Rightarrow> Inr ''SMALLINT''
      | IntT \<Rightarrow> Inr ''INTEGER''
      | LongLongT \<Rightarrow> Inr ''BIGINT''
      | UnsignedIntT \<Rightarrow> Inr ''UNSIGNED BIG INT''
      | UnsignedLongLongT \<Rightarrow> Inr ''UNSIGNED BIG INT''
      | FloatT \<Rightarrow> Inr ''REAL''
      | DoubleT \<Rightarrow> Inr ''REAL''
      | StringT \<Rightarrow> Inr ''TEXT''
      | _ \<Rightarrow> Inl (RuntimeError (''Unsupported type by sqlite '' @ column_type_toString type)))"

definition sqlite_bindMarker :: "string \<Rightarrow> (exn, string) result" where
  "sqlite_bindMarker name =
     bindR (throwIf (\<not> isPortableBindName name)
              (InvalidArgument (''SQLite bind parameter names may contain only ASCII letters, digits, and '' @ [squote] @ ''_'' @ [squote])))
       (\<lambda>_. Inr ('':'' @ name))"

definition sqlite_length_constraint :: "string \<Rightarrow> nat option \<Rightarrow> (exn, string) result" where
  "sqlite_length_constraint columnName maxStringLength =
     (case maxStringLength of
        None \<Rightarrow> Inr []
      | Some n \<Rightarrow>
          bindR (quoteStandardIdentifier columnName SqliteFlavor) (\<lambda>column.
            Inr ('' CHECK (length(replace('' @ column @ '', char(0), char(1))) <= '' @ dec n @ '')'')))"

definition sqlite_dialect :: sql_dialect where
  "sqlite_dialect = \<lparr>
     sd_quoteIdentifier = (\<lambda>name. quoteStandardIdentifier name SqliteFlavor),
     sd_bindMarker = sqlite_bindMarker,
     sd_toSqlType = sqlite_toSqlType,
     sd_renderStringLengthConstraint = sqlite_length_constraint,
     sd_renderCreateTablePrefix = create_prefix SqliteFlavor,
     sd_renderCreateTableSuffix = newline # '');'',
     sd_renderDefaultInsert = (\<lambda>name. bindR (quoteStandardIdentifier name SqliteFlavor)
       (\<lambda>table. Inr (''INSERT INTO '' @ table @ '' DEFAULT VALUES;''))),
     sd_renderDropTable = drop_table SqliteFlavor,
     sd_renderAutoIncrementPrimaryKey = auto_increment SqliteFlavor '' INTEGER PRIMARY KEY AUTOINCREMENT'',
     sd_renderPagination = static_pagination SqliteFlavor,
     sd_renderInsertIfAbsent = insert_on_conflict SqliteFlavor,
     sd_renderAggregateResult = (\<lambda>value exact. value)\<rparr>"

section \<open>PostgreSQL\<close>

definition postgres_toSqlType :: "column_type \<Rightarrow> nat option \<Rightarrow> (exn, string) result" where
  "postgres_toSqlType type maxStringLength =
     Inr (case type of
        BoolT \<Rightarrow> ''BOOLEAN''
      | CharT \<Rightarrow> ''SMALLINT''
      | UnsignedCharT \<Rightarrow> ''SMALLINT''
      | ShortT \<Rightarrow> ''SMALLINT''
      | UnsignedShortT \<Rightarrow> ''INTEGER''
      | IntT \<Rightarrow> ''INTEGER''
      | UnsignedIntT \<Rightarrow> ''BIGINT''
      | LongLongT \<Rightarrow> ''BIGINT''
      | UnsignedLongLongT \<Rightarrow> ''BIGINT''
      | FloatT \<Rightarrow> ''DOUBLE PRECISION''
      | DoubleT \<Rightarrow> ''DOUBLE PRECISION''
      | StringT \<Rightarrow> (case maxStringLength of Some n \<Rightarrow> ''VARCHAR('' @ dec n @ '')'' | None \<Rightarrow> ''TEXT'')
      | DateT \<Rightarrow> ''DATE''
      | TimeOfDayT \<Rightarrow> ''TIME(6) WITHOUT TIME ZONE''
      | LocalDateTimeT \<Rightarrow> ''TIMESTAMP(6) WITHOUT TIME ZONE''
      | UtcTimestampT \<Rightarrow> ''TIMESTAMP(6) WITH TIME ZONE''
      | UuidT \<Rightarrow> ''UUID'')"

definition postgres_bindMarker :: "string \<Rightarrow> (exn, string) result" where
  "postgres_bindMarker name =
     bindR (throwIf (\<not> isPortableBindName name)
              (InvalidArgument (''PostgreSQL bind parameter names may contain only ASCII letters, digits, and '' @ [squote] @ ''_'' @ [squote])))
       (\<lambda>_. Inr ('':'' @ name))"

definition postgres_dialect :: sql_dialect where
  "postgres_dialect = \<lparr>
     sd_quoteIdentifier = (\<lambda>name. quoteStandardIdentifier name PostgresFlavor),
     sd_bindMarker = postgres_bindMarker,
     sd_toSqlType = postgres_toSqlType,
     sd_renderStringLengthConstraint = (\<lambda>_ _. Inr []),
     sd_renderCreateTablePrefix = create_prefix PostgresFlavor,
     sd_renderCreateTableSuffix = newline # '');'',
     sd_renderDefaultInsert = (\<lambda>name. bindR (quoteStandardIdentifier name PostgresFlavor)
       (\<lambda>table. Inr (''INSERT INTO '' @ table @ '' DEFAULT VALUES;''))),
     sd_renderDropTable = drop_table PostgresFlavor,
     sd_renderAutoIncrementPrimaryKey =
       auto_increment PostgresFlavor '' INTEGER GENERATED BY DEFAULT AS IDENTITY PRIMARY KEY'',
     sd_renderPagination = static_pagination PostgresFlavor,
     sd_renderInsertIfAbsent = insert_on_conflict PostgresFlavor,
     sd_renderAggregateResult = static_aggregate PostgresFlavor\<rparr>"

section \<open>MySQL and MariaDB\<close>

definition mysql_default_insert :: "string \<Rightarrow> (exn, string) result" where
  "mysql_default_insert name =
     bindR (quoteStandardIdentifier name MysqlFlavor) (\<lambda>table. Inr (''INSERT INTO '' @ table @ '' () VALUES ();''))"

definition mysql_dialect :: sql_dialect where
  "mysql_dialect = \<lparr>
     sd_quoteIdentifier = (\<lambda>name. quoteStandardIdentifier name MysqlFlavor),
     sd_bindMarker = static_bindMarker,
     sd_toSqlType = family_sqlType,
     sd_renderStringLengthConstraint = (\<lambda>_ _. Inr []),
     sd_renderCreateTablePrefix = create_prefix MysqlFlavor,
     sd_renderCreateTableSuffix = newline # '') ENGINE=InnoDB DEFAULT CHARACTER SET utf8mb4 COLLATE utf8mb4_0900_bin;'',
     sd_renderDefaultInsert = mysql_default_insert,
     sd_renderDropTable = drop_table MysqlFlavor,
     sd_renderAutoIncrementPrimaryKey = auto_increment MysqlFlavor '' INT NOT NULL AUTO_INCREMENT PRIMARY KEY'',
     sd_renderPagination = static_pagination MysqlFlavor,
     sd_renderInsertIfAbsent = family_insert,
     sd_renderAggregateResult = static_aggregate MysqlFlavor\<rparr>"

definition mariadb_toSqlType :: "column_type \<Rightarrow> nat option \<Rightarrow> (exn, string) result" where
  "mariadb_toSqlType type maxStringLength =
     (if type = UuidT then Inr ''UUID'' else family_sqlType type maxStringLength)"

definition mariadb_dialect :: sql_dialect where
  "mariadb_dialect = mysql_dialect\<lparr>
     sd_toSqlType := mariadb_toSqlType,
     sd_renderCreateTableSuffix :=
       newline # '') ENGINE=InnoDB DEFAULT CHARACTER SET utf8mb4 COLLATE utf8mb4_nopad_bin;''\<rparr>"

section \<open>The dialect of a backend\<close>

text \<open>Each provider's \<^verbatim>\<open>dialect()\<close> (\<^verbatim>\<open>SqliteBackend\<close>, \<^verbatim>\<open>PostgresqlBackend\<close>, \<^verbatim>\<open>MysqlBackend\<close>, \<^verbatim>\<open>MariadbBackend\<close>)
  and its \<^verbatim>\<open>compiledSqlFlavor()\<close>; the other backend types have no provider.\<close>

fun backend_dialect :: "backend_type \<Rightarrow> sql_dialect option" where
  "backend_dialect Sqlite = Some sqlite_dialect"
| "backend_dialect Postgres = Some postgres_dialect"
| "backend_dialect Mysql = Some mysql_dialect"
| "backend_dialect Mariadb = Some mariadb_dialect"
| "backend_dialect _ = None"

fun backend_flavor :: "backend_type \<Rightarrow> sql_flavor" where
  "backend_flavor Sqlite = SqliteFlavor"
| "backend_flavor Postgres = PostgresFlavor"
| "backend_flavor Mysql = MysqlFlavor"
| "backend_flavor Mariadb = MysqlFlavor"
| "backend_flavor _ = NoFlavor"

section \<open>The contract\<close>

text \<open>
  What every generator of statements relies on, whatever the dialect: a quoted identifier is the name between
  delimiters with inner delimiters doubled, a marker is the colon and a portable name, the wrapping of an
  aggregate does not look into the expression, and a query without bounds gets no pagination clause.
\<close>

locale dialect_contract =
  fixes dialect :: sql_dialect and delimiter :: char
  assumes quoted: "sd_quoteIdentifier dialect name = Inr quoted_name \<Longrightarrow>
      name \<noteq> [] \<and> quoted_name = delimiter # double_delimiter delimiter name @ [delimiter]"
    and marker: "sd_bindMarker dialect name = Inr mark \<longleftrightarrow> isPortableBindName name \<and> mark = CHR '':'' # name"
    and aggregate: "\<exists>before after. \<forall>value. sd_renderAggregateResult dialect value exact = before @ value @ after"
    and no_page: "sd_renderPagination dialect \<lparr>pg_limit = None, pg_offset = None, pg_hasOrderBy = ordered\<rparr> = []"
begin

lemma quoted_scans_back:
  assumes "sd_quoteIdentifier dialect name = Inr quoted_name" "rest = [] \<or> hd rest \<noteq> delimiter"
  shows "\<exists>body. quoted_name = delimiter # body \<and> scan_quoted delimiter (body @ rest) = Some (name, rest)"
  using quoted [OF assms(1)] scan_double_delimiter [OF assms(2), of name] by auto

lemma quote_inj:
  assumes "sd_quoteIdentifier dialect a = Inr quoted_name" "sd_quoteIdentifier dialect b = Inr quoted_name"
  shows "a = b"
  using quoted_scans_back [OF assms(1), of "[]"] quoted_scans_back [OF assms(2), of "[]"] by auto

lemma marker_portable [simp]: "isPortableBindName name \<Longrightarrow> sd_bindMarker dialect name = Inr (CHR '':'' # name)"
  by (simp add: marker)

lemma marker_inj:
  "sd_bindMarker dialect a = Inr m \<Longrightarrow> sd_bindMarker dialect b = Inr m \<Longrightarrow> a = b"
  by (auto simp: marker)

end

lemma quoteStandardIdentifier_shape:
  "quoteStandardIdentifier name flavor = Inr q \<Longrightarrow>
     name \<noteq> [] \<and> q = flavor_quote flavor # double_delimiter (flavor_quote flavor) name @ [flavor_quote flavor]"
  by (auto simp: quoteStandardIdentifier_def)

lemma static_aggregate_wraps: "\<exists>before after. \<forall>value. static_aggregate flavor value exact = before @ value @ after"
proof (cases "exact \<and> flavor \<in> {PostgresFlavor, MysqlFlavor}")
  case False
  then show ?thesis by (intro exI [of _ "[]"]) (auto simp: static_aggregate_def)
next
  case True
  then have "\<forall>value. static_aggregate flavor value exact =
      ''CAST('' @ value @ (if flavor = PostgresFlavor then '' AS TEXT)'' else '' AS CHAR)'')"
    by (auto simp: static_aggregate_def)
  then show ?thesis by blast
qed

lemmas dialect_defs = sqlite_dialect_def postgres_dialect_def mysql_dialect_def mariadb_dialect_def

interpretation sqlite: dialect_contract sqlite_dialect dquote
proof unfold_locales
  show "\<exists>before after. \<forall>value. sd_renderAggregateResult sqlite_dialect value exact = before @ value @ after" for exact
    by (intro exI [of _ "[]"]) (simp add: sqlite_dialect_def)
qed (auto simp: sqlite_dialect_def static_pagination_def sqlite_bindMarker_def flavor_quote_def dest: quoteStandardIdentifier_shape)

interpretation postgres: dialect_contract postgres_dialect dquote
  by unfold_locales (auto simp: postgres_dialect_def static_pagination_def postgres_bindMarker_def flavor_quote_def static_aggregate_wraps
    dest: quoteStandardIdentifier_shape)

interpretation mysql: dialect_contract mysql_dialect backtick
  by unfold_locales (auto simp: mysql_dialect_def static_pagination_def static_bindMarker_def flavor_quote_def static_aggregate_wraps
    dest: quoteStandardIdentifier_shape)

interpretation mariadb: dialect_contract mariadb_dialect backtick
  by unfold_locales (auto simp: mariadb_dialect_def mysql_dialect_def static_pagination_def static_bindMarker_def flavor_quote_def
    static_aggregate_wraps dest: quoteStandardIdentifier_shape)

text \<open>Whatever backend a dialect comes from, it satisfies the contract.\<close>

lemma backend_dialect_contract:
  "backend_dialect backend = Some dialect \<Longrightarrow> dialect_contract dialect (delimiter_of backend)"
  by (cases backend) (auto simp: delimiter_of_def family_def sqlite.dialect_contract_axioms postgres.dialect_contract_axioms
    mysql.dialect_contract_axioms mariadb.dialect_contract_axioms)

section \<open>Agreement with the schema of migrations\<close>

text \<open>A type the migration generator records is the type the dialect declares.\<close>

lemma toSqlType_sqlType:
  assumes "sqlType backend type len = Inr name" "backend_dialect backend = Some dialect"
  shows "sd_toSqlType dialect type len = Inr name"
  using assms
  by (cases backend; cases type)
    (auto simp: sqlType_def dialect_defs family_def length_ok_def varchar_def sqlite_toSqlType_def postgres_toSqlType_def
      family_sqlType_def mariadb_toSqlType_def split: option.splits if_splits)

lemma quoteIdentifier_agree:
  assumes "quoteIdentifier backend name = Inr a" "backend_dialect backend = Some dialect"
    "sd_quoteIdentifier dialect name = Inr b"
  shows "b = a"
  using assms(1) dialect_contract.quoted [OF backend_dialect_contract [OF assms(2)] assms(3)]
  by (simp add: quoteIdentifier_def)

end
