(* ===== verification/Orm_Sql_Emitter.thy ===== *)
theory Orm_Sql_Emitter
  imports Orm_Dialect
begin

text \<open>
  The flat SQL programs of \<^verbatim>\<open>modules/orm/sql/program.cppm\<close> and the emitter of \<^verbatim>\<open>modules/orm/sql/emitter.cppm\<close> that
  turns one into the text of a statement. Both the runtime query builder and the compiled queries produce such
  programs. A position in the vector of nodes is a \<open>nat\<close>, and \<^verbatim>\<open>noSqlNode\<close> is \<open>None\<close>; the templates over a policy
  take it as a record of its functions.

  The recursion of \<^verbatim>\<open>emitSqlPredicate\<close> follows positions stored in the program, so it takes fuel: a program with a
  cycle would make the C++ function recurse forever, which is \<open>Endless\<close>. An access outside a vector, which C++
  leaves undefined, is \<open>OutOfBounds\<close>, and \<^verbatim>\<open>std::bad_optional_access\<close> is \<open>NoValue\<close>.
\<close>

section \<open>Programs\<close>

datatype sql_operation = SelectOp | UpdateOp | RemoveOp

datatype sql_node_kind =
  ComparisonNode | NullNode | ListNode | BetweenNode | AndNode | OrNode | NotNode | CollectionNode | RawNode | InvalidNode

datatype aggregate_function = CountF | CountAllF | SumF | AvgF | MinF | MaxF

datatype order_direction = Asc | Desc

record sql_source =
  src_path :: "string list"
  src_isAggregate :: bool
  src_function :: aggregate_function

record sql_node =
  nd_kind :: sql_node_kind
  nd_source :: sql_source
  nd_operation :: nat
  nd_left :: "nat option"
  nd_right :: "nat option"
  nd_firstParameter :: nat
  nd_parameterCount :: nat
  nd_relation :: string
  nd_rawSql :: string

record sql_order =
  or_source :: sql_source
  or_direction :: order_direction
  or_isRaw :: bool
  or_rawSql :: string

record sql_projection =
  pr_source :: sql_source
  pr_alias :: string

record sql_assignment =
  as_source :: sql_source
  as_parameter :: nat

record sql_binding =
  bd_logicalType :: column_type
  bd_index :: nat
  bd_rawName :: string

record sql_query =
  q_operation :: sql_operation
  q_nodes :: "sql_node list"
  q_predicate :: "nat option"
  q_having :: "nat option"
  q_orders :: "sql_order list"
  q_groups :: "sql_source list"
  q_projections :: "sql_projection list"
  q_assignments :: "sql_assignment list"
  q_bindings :: "sql_binding list"
  q_isDistinct :: bool
  q_shouldJoin :: bool
  q_hasLimit :: bool
  q_hasOffset :: bool
  q_boundPagination :: bool
  q_limitParameter :: nat
  q_offsetParameter :: nat
  q_literalLimit :: nat
  q_literalOffset :: nat

definition empty_source :: sql_source where
  "empty_source = \<lparr>src_path = [], src_isAggregate = False, src_function = CountF\<rparr>"

definition empty_node :: "sql_node_kind \<Rightarrow> sql_node" where
  "empty_node kind = \<lparr>nd_kind = kind, nd_source = empty_source, nd_operation = 0, nd_left = None, nd_right = None,
     nd_firstParameter = 0, nd_parameterCount = 0, nd_relation = [], nd_rawSql = []\<rparr>"

definition empty_query :: sql_query where
  "empty_query = \<lparr>q_operation = SelectOp, q_nodes = [], q_predicate = None, q_having = None, q_orders = [], q_groups = [],
     q_projections = [], q_assignments = [], q_bindings = [], q_isDistinct = False, q_shouldJoin = True, q_hasLimit = False,
     q_hasOffset = False, q_boundPagination = False, q_limitParameter = 0, q_offsetParameter = 0, q_literalLimit = 0,
     q_literalOffset = 0\<rparr>"

datatype stop = Raised exn | NoValue | OutOfBounds | Endless

fun raised :: "(exn, 'a) result \<Rightarrow> (stop, 'a) result" where
  "raised (Inl e) = Inl (Raised e)"
| "raised (Inr x) = Inr x"

definition parameterName :: "sql_binding \<Rightarrow> string" where
  "parameterName descriptor =
     (if bd_rawName descriptor = [] then ''orm_p'' @ dec (bd_index descriptor) else bd_rawName descriptor)"

definition binding_name :: "sql_query \<Rightarrow> nat \<Rightarrow> (stop, string) result" where
  "binding_name query i =
     (if i < length (q_bindings query) then Inr (parameterName (q_bindings query ! i)) else Inl OutOfBounds)"

section \<open>Policies\<close>

record policy =
  po_quoteIdentifier :: "string \<Rightarrow> (exn, string) result"
  po_bindMarker :: "string \<Rightarrow> (exn, string) result"
  po_renderAggregateResult :: "string \<Rightarrow> bool \<Rightarrow> string"
  po_pagination :: "sql_query \<Rightarrow> (stop, string) result"

definition page_bound :: "sql_query \<Rightarrow> nat \<Rightarrow> nat \<Rightarrow> (stop, string) result" where
  "page_bound query parameter literal =
     (if q_boundPagination query then bindR (binding_name query parameter) (\<lambda>name. raised (static_bindMarker name))
      else Inr (dec literal))"

definition flavor_pagination :: "sql_flavor \<Rightarrow> sql_query \<Rightarrow> (stop, string) result" where
  "flavor_pagination flavor query =
     bindR (if q_hasLimit query
            then bindR (page_bound query (q_limitParameter query) (q_literalLimit query)) (\<lambda>n. Inr ('' LIMIT '' @ n))
            else if flavor = SqliteFlavor \<and> q_hasOffset query then Inr '' LIMIT -1''
            else if flavor = MysqlFlavor \<and> q_hasOffset query then Inr '' LIMIT 18446744073709551615''
            else Inr [])
       (\<lambda>limit. if q_hasOffset query
                then bindR (page_bound query (q_offsetParameter query) (q_literalOffset query))
                       (\<lambda>n. Inr (limit @ '' OFFSET '' @ n))
                else Inr limit)"

definition static_policy :: "sql_flavor \<Rightarrow> policy" where
  "static_policy flavor = \<lparr>
     po_quoteIdentifier = (\<lambda>name. quoteStandardIdentifier name flavor),
     po_bindMarker = static_bindMarker,
     po_renderAggregateResult = static_aggregate flavor,
     po_pagination = flavor_pagination flavor\<rparr>"

definition dialect_pagination :: "sql_dialect \<Rightarrow> sql_query \<Rightarrow> (stop, string) result" where
  "dialect_pagination dialect query =
     bindR (throwIf (q_boundPagination query) (Raised (LogicError ''A runtime dialect requires literal pagination'')))
       (\<lambda>_. Inr (sd_renderPagination dialect
          \<lparr>pg_limit = (if q_hasLimit query then Some (q_literalLimit query) else None),
           pg_offset = (if q_hasOffset query then Some (q_literalOffset query) else None),
           pg_hasOrderBy = q_orders query \<noteq> []\<rparr>))"

definition runtime_policy :: "sql_dialect \<Rightarrow> policy" where
  "runtime_policy dialect = \<lparr>
     po_quoteIdentifier = sd_quoteIdentifier dialect,
     po_bindMarker = sd_bindMarker dialect,
     po_renderAggregateResult = sd_renderAggregateResult dialect,
     po_pagination = dialect_pagination dialect\<rparr>"

section \<open>Columns\<close>

definition sqlPath :: "sql_source \<Rightarrow> string" where
  "sqlPath source = joinWith ''.'' (src_path source)"

text \<open>The loop of \<^verbatim>\<open>parseSqlSource\<close> over the segments between dots: it stops at the first empty or third segment.\<close>

fun split_path :: "string \<Rightarrow> string list" where
  "split_path [] = [[]]"
| "split_path (c # cs) =
     (if c = CHR ''.'' then [] # split_path cs
      else case split_path cs of [] \<Rightarrow> [[c]] | part # parts \<Rightarrow> (c # part) # parts)"

fun take_segments :: "string \<Rightarrow> string list \<Rightarrow> string list \<Rightarrow> (exn, string list) result" where
  "take_segments path [] parts = Inr parts"
| "take_segments path (part # rest) parts =
     (if part = [] then Inl (InvalidArgument (''Column path contains an empty segment: '' @ path))
      else if length parts = 2 then Inl (InvalidArgument (''Only one level of related model paths is supported: '' @ path))
      else take_segments path rest (parts @ [part]))"

definition parseSqlSource :: "string \<Rightarrow> (exn, sql_source) result" where
  "parseSqlSource path =
     bindR (take_segments path (split_path path) []) (\<lambda>parts. Inr (empty_source\<lparr>src_path := parts\<rparr>))"

definition requireSqlColumn :: "model_data \<Rightarrow> string \<Rightarrow> (exn, column_view) result" where
  "requireSqlColumn model name =
     (case findColumn model name of
        Some column \<Rightarrow> Inr column
      | None \<Rightarrow> Inl (InvalidArgument (''Unknown column path segment: '' @ name)))"

definition requireSqlTarget :: "schema_view \<Rightarrow> column_view \<Rightarrow> (exn, model_data) result" where
  "requireSqlTarget schema column =
     bindR (throwIf (cv_kind column \<noteq> ToOneField)
              (InvalidArgument (''Column is not a related model: '' @ cv_fieldName column)))
       (\<lambda>_. case resolveTarget_column schema column of
          Some target \<Rightarrow> Inr target
        | None \<Rightarrow> Inl (LogicError ''To-one relation target is not available in the schema''))"

definition sqlPrimaryKey :: "model_data \<Rightarrow> (exn, column_view list) result" where
  "sqlPrimaryKey model =
     bindR (throwIf (\<exists>column \<in> set (md_columns model). cv_isPrimaryKey column \<and> cv_kind column = ToOneField)
              (InvalidArgument ''Relations with model-valued primary-key fields are not supported''))
       (\<lambda>_. bindR (throwIf (filter cv_isPrimaryKey (md_columns model) = [])
                     (InvalidArgument ''Collection relation endpoint must define a primary key''))
       (\<lambda>_. Inr (filter cv_isPrimaryKey (md_columns model))))"

record column_info =
  ci_column :: column_view
  ci_relation :: "column_view option"
  ci_logicalType :: column_type
  ci_isNotNull :: bool

definition type_value :: "column_view \<Rightarrow> (stop, column_type) result" where
  "type_value column = (case cv_type column of Some type \<Rightarrow> Inr type | None \<Rightarrow> Inl NoValue)"

definition resolveSqlColumn :: "schema_view \<Rightarrow> sql_source \<Rightarrow> model_data \<Rightarrow> bool \<Rightarrow> (stop, column_info) result" where
  "resolveSqlColumn schema source model write =
     (case src_path source of
        [name] \<Rightarrow>
          bindR (raised (requireSqlColumn model name)) (\<lambda>column.
          bindR (throwIf (cv_kind column = ToOneField)
                   (Raised (InvalidArgument ((if write then ''Use a related primary-key field path in write queries: ''
                      else ''Use a related field path instead of the related model itself: '') @ sqlPath source)))) (\<lambda>_.
          bindR (type_value column) (\<lambda>type.
            Inr \<lparr>ci_column = column, ci_relation = None, ci_logicalType = type, ci_isNotNull = cv_isNotNull column\<rparr>)))
      | [first, second] \<Rightarrow>
          bindR (raised (requireSqlColumn model first)) (\<lambda>relation.
          bindR (raised (requireSqlTarget schema relation)) (\<lambda>target.
          bindR (raised (requireSqlColumn target second)) (\<lambda>column.
          bindR (throwIf (write \<and> \<not> cv_isPrimaryKey column)
                   (Raised (InvalidArgument (''Only related primary-key fields can be used in write queries: '' @ sqlPath source)))) (\<lambda>_.
          bindR (type_value column) (\<lambda>type.
            Inr \<lparr>ci_column = column, ci_relation = Some relation, ci_logicalType = type,
                 ci_isNotNull = cv_isNotNull relation\<rparr>)))))
      | _ \<Rightarrow> Inl (Raised (InvalidArgument (''Only one level of related model paths is supported: '' @ sqlPath source))))"

record sql_scope =
  sp_model :: model_data
  sp_shouldJoin :: bool
  sp_write :: bool
  sp_allowCollections :: bool
  sp_tableAlias :: string
  sp_relationAliases :: "(string \<times> string) list"

definition scope_root :: "sql_scope \<Rightarrow> string" where
  "scope_root scope = (if sp_tableAlias scope = [] then md_tableName (sp_model scope) else sp_tableAlias scope)"

definition relation_alias :: "sql_scope \<Rightarrow> string \<Rightarrow> string" where
  "relation_alias scope name = (case map_of (sp_relationAliases scope) name of Some alias \<Rightarrow> alias | None \<Rightarrow> name)"

definition sqlQualified :: "policy \<Rightarrow> string \<Rightarrow> string \<Rightarrow> (exn, string) result" where
  "sqlQualified policy qualifier name =
     bindR (po_quoteIdentifier policy qualifier) (\<lambda>q. bindR (po_quoteIdentifier policy name) (\<lambda>n. Inr (q @ ''.'' @ n)))"

definition emitSqlColumn ::
  "policy \<Rightarrow> schema_view \<Rightarrow> sql_source \<Rightarrow> sql_scope \<Rightarrow> bool \<Rightarrow> (stop, string) result" where
  "emitSqlColumn policy schema source scope qualify =
     bindR (resolveSqlColumn schema source (sp_model scope) (sp_write scope)) (\<lambda>info.
       let root = scope_root scope; column = cv_name (ci_column info)
       in case ci_relation info of
            None \<Rightarrow> raised (if qualify then sqlQualified policy root column else po_quoteIdentifier policy column)
          | Some relation \<Rightarrow>
              if sp_write scope \<or> \<not> sp_shouldJoin scope then
                bindR (throwIf (\<not> cv_isPrimaryKey (ci_column info))
                         (Raised (InvalidArgument (''Cannot filter by non-id related field when joining is disabled: ''
                            @ sqlPath source)))) (\<lambda>_.
                  let name = cv_name relation @ ''_'' @ column
                  in raised (if qualify then sqlQualified policy root name else po_quoteIdentifier policy name))
              else raised (sqlQualified policy (relation_alias scope (cv_name relation)) column))"

definition sqlComparison :: "nat \<Rightarrow> (exn, string) result" where
  "sqlComparison operation =
     (let names = [''='', ''!='', ''>'', ''>='', ''<'', ''<='', ''LIKE'', ''NOT LIKE'']
      in if operation < length names then Inr (names ! operation)
         else Inl (InvalidArgument ''Unsupported comparison operator''))"

fun sqlAggregateName :: "aggregate_function \<Rightarrow> string" where
  "sqlAggregateName CountF = ''COUNT''"
| "sqlAggregateName CountAllF = ''COUNT''"
| "sqlAggregateName SumF = ''SUM''"
| "sqlAggregateName AvgF = ''AVG''"
| "sqlAggregateName MinF = ''MIN''"
| "sqlAggregateName MaxF = ''MAX''"

definition emitSqlSource ::
  "policy \<Rightarrow> schema_view \<Rightarrow> sql_source \<Rightarrow> sql_scope \<Rightarrow> bool \<Rightarrow> (stop, string) result" where
  "emitSqlSource policy schema source scope projection =
     (if \<not> src_isAggregate source then emitSqlColumn policy schema source scope True
      else
        bindR (if src_function source = CountAllF then Inr ''*'' else emitSqlColumn policy schema source scope True) (\<lambda>column.
          let result = sqlAggregateName (src_function source) @ ''('' @ column @ '')''
          in Inr (if projection
                  then po_renderAggregateResult policy result (src_function source = SumF \<or> src_function source = AvgF)
                  else result)))"

section \<open>Joins\<close>

text \<open>
  \<^verbatim>\<open>uniqueSqlAlias\<close> counts up until the candidate is not taken. The loop ends because the candidates are different
  and only finitely many names are taken.
\<close>

lemma candidates_decrease:
  assumes "inj (f :: nat \<Rightarrow> 'a)" "f k \<in> set names"
  shows "card {j. Suc k \<le> j \<and> f j \<in> set names} < card {j. k \<le> j \<and> f j \<in> set names}"
proof (rule psubset_card_mono)
  have "finite (f -` set names)" by (rule finite_vimageI) (use assms(1) in auto)
  then show "finite {j. k \<le> j \<and> f j \<in> set names}" by (rule rev_finite_subset) auto
  show "{j. Suc k \<le> j \<and> f j \<in> set names} \<subset> {j. k \<le> j \<and> f j \<in> set names}"
    using assms(2) by (auto simp: psubset_eq set_eq_iff intro!: exI [of _ k])
qed

abbreviation alias_candidate :: "string \<Rightarrow> nat \<Rightarrow> string" where
  "alias_candidate base suffix \<equiv> base @ ''_'' @ dec suffix"

lemma inj_alias_candidate: "inj (alias_candidate base)"
  by (rule injI) simp

function next_alias :: "string \<Rightarrow> string list \<Rightarrow> nat \<Rightarrow> string" where
  "next_alias base names suffix =
     (if alias_candidate base suffix \<in> set names then next_alias base names (Suc suffix) else alias_candidate base suffix)"
  by pat_completeness auto

termination next_alias
proof (relation "measure (\<lambda>(base, names, suffix). card {j. suffix \<le> j \<and> alias_candidate base j \<in> set names})")
  fix base :: string and names suffix
  assume "alias_candidate base suffix \<in> set names"
  then show "((base, names, Suc suffix), base, names, suffix)
      \<in> measure (\<lambda>(base, names, suffix). card {j. suffix \<le> j \<and> alias_candidate base j \<in> set names})"
    using candidates_decrease [OF inj_alias_candidate] by simp
qed simp

declare next_alias.simps [simp del]

definition uniqueSqlAlias :: "string \<Rightarrow> string list \<Rightarrow> string" where
  "uniqueSqlAlias base names = (if base \<in> set names then next_alias base names 1 else base)"

definition join_condition ::
  "policy \<Rightarrow> sql_scope \<Rightarrow> column_view \<Rightarrow> string \<Rightarrow> model_data \<Rightarrow> (exn, string) result" where
  "join_condition policy scope relation alias target =
     bindR (mapR (\<lambda>column.
         bindR (sqlQualified policy alias (cv_name column)) (\<lambda>left.
         bindR (sqlQualified policy (scope_root scope) (cv_name relation @ ''_'' @ cv_name column)) (\<lambda>right.
           Inr (left @ '' = '' @ right))))
         (filter cv_isPrimaryKey (md_columns target)))
       (\<lambda>conditions. Inr (joinWith '' AND '' conditions))"

definition emit_join :: "policy \<Rightarrow> schema_view \<Rightarrow> sql_scope \<Rightarrow> column_view \<Rightarrow> (exn, string) result" where
  "emit_join policy schema scope relation =
     (if cv_kind relation \<noteq> ToOneField then Inr []
      else
        bindR (requireSqlTarget schema relation) (\<lambda>target.
        let alias = relation_alias scope (cv_name relation)
        in bindR (po_quoteIdentifier policy (md_tableName target)) (\<lambda>table.
           bindR (po_quoteIdentifier policy alias) (\<lambda>quoted.
           bindR (join_condition policy scope relation alias target) (\<lambda>condition.
             Inr ('' LEFT JOIN '' @ table @ '' AS '' @ quoted @ '' ON '' @ condition
                  @ (if sp_allowCollections scope then '' '' else [])))))))"

definition emitSqlJoins :: "policy \<Rightarrow> schema_view \<Rightarrow> sql_scope \<Rightarrow> (exn, string) result" where
  "emitSqlJoins policy schema scope =
     bindR (mapR (emit_join policy schema scope) (md_columns (sp_model scope)))
       (\<lambda>joins. Inr (if sp_allowCollections scope \<and> concat joins \<noteq> [] then butlast (concat joins) else concat joins))"

section \<open>Predicates\<close>

text \<open>The scope inside a collection: aliases that do not collide with the outer table, the target and the junction.\<close>

definition nested_alias :: "column_view \<Rightarrow> (string \<times> string) list \<times> string list \<times> string list \<Rightarrow>
    (string \<times> string) list \<times> string list \<times> string list" where
  "nested_alias column = (\<lambda>(aliases, assigned, reserved).
     let alias = (if cv_name column \<in> set assigned then uniqueSqlAlias (cv_name column) reserved else cv_name column)
     in (aliases @ [(cv_name column, alias)], assigned @ [alias], reserved @ [alias]))"

definition to_one_columns :: "model_data \<Rightarrow> column_view list" where
  "to_one_columns model = filter (\<lambda>column. cv_kind column = ToOneField) (md_columns model)"

record nested_names =
  nn_target :: string
  nn_junction :: string
  nn_relations :: "(string \<times> string) list"

definition nested_names_of :: "string \<Rightarrow> model_data \<Rightarrow> nested_names" where
  "nested_names_of outer target =
     (let reserved = outer # map cv_name (to_one_columns target);
          targetAlias = uniqueSqlAlias ''orm_relation_target'' reserved;
          reserved = reserved @ [targetAlias];
          junctionAlias = uniqueSqlAlias ''orm_relation_junction'' reserved;
          reserved = reserved @ [junctionAlias]
      in \<lparr>nn_target = targetAlias, nn_junction = junctionAlias,
          nn_relations = fst (fold nested_alias (to_one_columns target) ([], [outer, targetAlias, junctionAlias], reserved))\<rparr>)"

definition key_equations :: "policy \<Rightarrow> ((string \<times> string) \<times> string \<times> string) list \<Rightarrow> (exn, string) result" where
  "key_equations policy pairs =
     bindR (mapR (\<lambda>((lq, l), rq, r). bindR (sqlQualified policy lq l) (\<lambda>left.
                    bindR (sqlQualified policy rq r) (\<lambda>right. Inr (left @ '' = '' @ right)))) pairs)
       (\<lambda>equations. Inr (joinWith '' AND '' equations))"

definition one_to_many_source ::
  "policy \<Rightarrow> schema_view \<Rightarrow> sql_scope \<Rightarrow> sql_scope \<Rightarrow> string \<Rightarrow> relation_view \<Rightarrow> model_data \<Rightarrow> column_view list \<Rightarrow>
   nested_names \<Rightarrow> (exn, string \<times> string) result" where
  "one_to_many_source policy schema scope nested outer relation target ownerKeys names =
     (case findRelation target (rv_mappedBy relation) of
        None \<Rightarrow> Inl (InvalidArgument (''Invalid OneToMany mappedBy relation: '' @ rv_fieldName relation))
      | Some mapped \<Rightarrow>
          bindR (throwIf (rv_kind mapped \<noteq> ToOne)
                   (InvalidArgument (''Invalid OneToMany mappedBy relation: '' @ rv_fieldName relation))) (\<lambda>_.
          bindR (key_equations policy (map (\<lambda>key. ((nn_target names, rv_columnName mapped @ ''_'' @ cv_name key), outer, cv_name key))
                   ownerKeys)) (\<lambda>predicate.
          bindR (po_quoteIdentifier policy (md_tableName target)) (\<lambda>table.
          bindR (po_quoteIdentifier policy (nn_target names)) (\<lambda>alias.
          bindR (emitSqlJoins policy schema nested) (\<lambda>joins.
            Inr (table @ '' AS '' @ alias @ joins, predicate)))))))"

definition many_to_many_source ::
  "policy \<Rightarrow> schema_view \<Rightarrow> sql_scope \<Rightarrow> sql_scope \<Rightarrow> string \<Rightarrow> relation_view \<Rightarrow> model_data \<Rightarrow> column_view list \<Rightarrow>
   column_view list \<Rightarrow> nested_names \<Rightarrow> (exn, string \<times> string) result" where
  "many_to_many_source policy schema scope nested outer relation target ownerKeys targetKeys names =
     (let junction = resolveJunction schema relation
      in bindR (throwIf (\<not> isConfigured junction)
                  (InvalidArgument (''ManyToMany relation has no junction mapping: '' @ rv_fieldName relation))) (\<lambda>_.
         bindR (throwIf (length (jv_ownerColumns junction) \<noteq> length ownerKeys \<or> length (jv_targetColumns junction) \<noteq> length targetKeys)
                  (InvalidArgument (''Junction columns do not match relation endpoint keys: '' @ jv_tableName junction))) (\<lambda>_.
         bindR (key_equations policy (map (\<lambda>(column, key). ((nn_junction names, column), outer, cv_name key))
                  (zip (jv_ownerColumns junction) ownerKeys))) (\<lambda>predicate.
         bindR (key_equations policy (map (\<lambda>(column, key). ((nn_target names, cv_name key), nn_junction names, column))
                  (zip (jv_targetColumns junction) targetKeys))) (\<lambda>targetJoin.
         bindR (po_quoteIdentifier policy (jv_tableName junction)) (\<lambda>junctionTable.
         bindR (po_quoteIdentifier policy (nn_junction names)) (\<lambda>junctionAlias.
         bindR (po_quoteIdentifier policy (md_tableName target)) (\<lambda>table.
         bindR (po_quoteIdentifier policy (nn_target names)) (\<lambda>alias.
         bindR (emitSqlJoins policy schema nested) (\<lambda>joins.
           Inr (junctionTable @ '' AS '' @ junctionAlias @ '' JOIN '' @ table @ '' AS '' @ alias @ '' ON '' @ targetJoin @ joins,
                predicate)))))))))))"

definition emitSqlCollection ::
  "policy \<Rightarrow> schema_view \<Rightarrow> (nat \<Rightarrow> sql_scope \<Rightarrow> (stop, string) result) \<Rightarrow> sql_node \<Rightarrow> sql_scope \<Rightarrow> (stop, string) result" where
  "emitSqlCollection policy schema emit node scope =
     bindR (throwIf (\<not> sp_allowCollections scope)
              (Raised (InvalidArgument ''Nested collection predicates are not supported''))) (\<lambda>_.
     case findRelation (sp_model scope) (nd_relation node) of
       None \<Rightarrow> Inl (Raised (InvalidArgument (''Unknown collection relation: '' @ nd_relation node)))
     | Some relation \<Rightarrow>
         bindR (throwIf (rv_kind relation = ToOne)
                  (Raised (InvalidArgument (''Unknown collection relation: '' @ nd_relation node)))) (\<lambda>_.
         bindR (throwIf (nd_operation node \<noteq> 1 \<and> nd_left node = None)
                  (Raised (InvalidArgument ''Collection any/none requires an element predicate''))) (\<lambda>_.
         bindR (raised (sqlPrimaryKey (sp_model scope))) (\<lambda>ownerKeys.
         case resolveTarget_relation schema relation of
           None \<Rightarrow> Inl (Raised (LogicError ''Collection relation target is not available in the schema''))
         | Some target \<Rightarrow>
             bindR (raised (sqlPrimaryKey target)) (\<lambda>targetKeys.
             let outer = scope_root scope;
                 names = nested_names_of outer target;
                 nested = \<lparr>sp_model = target, sp_shouldJoin = True, sp_write = False, sp_allowCollections = False,
                           sp_tableAlias = nn_target names, sp_relationAliases = nn_relations names\<rparr>
             in bindR (raised (if rv_kind relation = OneToMany
                               then one_to_many_source policy schema scope nested outer relation target ownerKeys names
                               else many_to_many_source policy schema scope nested outer relation target ownerKeys targetKeys names))
                  (\<lambda>(from, keys).
                bindR (case nd_left node of
                         None \<Rightarrow> Inr keys
                       | Some left \<Rightarrow> bindR (emit left nested) (\<lambda>element. Inr (keys @ '' AND '' @ element)))
                  (\<lambda>predicate.
                let exists = ''EXISTS (SELECT 1 FROM '' @ from @ '' WHERE '' @ predicate @ '')''
                in Inr (if nd_operation node = 2 then ''NOT ('' @ exists @ '')'' else exists))))))))"

definition node_marker :: "policy \<Rightarrow> sql_query \<Rightarrow> sql_node \<Rightarrow> nat \<Rightarrow> (stop, string) result" where
  "node_marker policy query node offset =
     bindR (binding_name query (nd_firstParameter node + offset)) (\<lambda>name. raised (po_bindMarker policy name))"

definition emit_operand ::
  "(nat \<Rightarrow> sql_scope \<Rightarrow> (stop, string) result) \<Rightarrow> nat option \<Rightarrow> sql_scope \<Rightarrow> (stop, string) result" where
  "emit_operand emit index scope = (case index of None \<Rightarrow> Inl OutOfBounds | Some i \<Rightarrow> emit i scope)"

definition emit_list :: "policy \<Rightarrow> schema_view \<Rightarrow> sql_query \<Rightarrow> sql_node \<Rightarrow> sql_scope \<Rightarrow> (stop, string) result" where
  "emit_list policy schema query node scope =
     (if nd_parameterCount node = 0 then Inr (if nd_operation node = 0 then ''(1 = 0)'' else ''(1 = 1)'')
      else
        bindR (emitSqlColumn policy schema (nd_source node) scope True) (\<lambda>column.
        bindR (mapR (node_marker policy query node) [0..<nd_parameterCount node]) (\<lambda>marks.
          Inr (column @ (if nd_operation node = 0 then '' IN ('' else '' NOT IN ('') @ joinWith '', '' marks @ '')''))))"

definition emit_node ::
  "policy \<Rightarrow> schema_view \<Rightarrow> sql_query \<Rightarrow> (nat \<Rightarrow> sql_scope \<Rightarrow> (stop, string) result) \<Rightarrow> sql_node \<Rightarrow> sql_scope \<Rightarrow>
   (stop, string) result" where
  "emit_node policy schema query emit node scope =
     (case nd_kind node of
        ComparisonNode \<Rightarrow>
          bindR (throwIf (src_isAggregate (nd_source node) \<and> nd_operation node \<ge> 6)
                   (Raised (InvalidArgument ''Unsupported aggregate comparison operator''))) (\<lambda>_.
          bindR (emitSqlSource policy schema (nd_source node) scope False) (\<lambda>column.
          bindR (raised (sqlComparison (nd_operation node))) (\<lambda>comparison.
          bindR (node_marker policy query node 0) (\<lambda>mark.
            Inr (column @ '' '' @ comparison @ '' '' @ mark)))))
      | NullNode \<Rightarrow>
          bindR (emitSqlColumn policy schema (nd_source node) scope True) (\<lambda>column.
            Inr (column @ (if nd_operation node = 0 then '' IS NULL'' else '' IS NOT NULL'')))
      | ListNode \<Rightarrow> emit_list policy schema query node scope
      | BetweenNode \<Rightarrow>
          bindR (emitSqlColumn policy schema (nd_source node) scope True) (\<lambda>column.
          bindR (node_marker policy query node 0) (\<lambda>lower.
          bindR (node_marker policy query node 1) (\<lambda>upper.
            Inr (column @ (if nd_operation node = 0 then '' BETWEEN '' else '' NOT BETWEEN '') @ lower @ '' AND '' @ upper))))
      | AndNode \<Rightarrow>
          bindR (emit_operand emit (nd_left node) scope) (\<lambda>left.
          bindR (emit_operand emit (nd_right node) scope) (\<lambda>right. Inr (''('' @ left @ '' AND '' @ right @ '')'')))
      | OrNode \<Rightarrow>
          bindR (emit_operand emit (nd_left node) scope) (\<lambda>left.
          bindR (emit_operand emit (nd_right node) scope) (\<lambda>right. Inr (''('' @ left @ '' OR '' @ right @ '')'')))
      | NotNode \<Rightarrow> bindR (emit_operand emit (nd_left node) scope) (\<lambda>inner. Inr (''(NOT ('' @ inner @ ''))''))
      | RawNode \<Rightarrow> Inr (nd_rawSql node)
      | CollectionNode \<Rightarrow> emitSqlCollection policy schema emit node scope
      | InvalidNode \<Rightarrow> Inl (Raised (LogicError ''Unknown SQL predicate node'')))"

fun emitSqlPredicate ::
  "policy \<Rightarrow> schema_view \<Rightarrow> sql_query \<Rightarrow> nat \<Rightarrow> nat \<Rightarrow> sql_scope \<Rightarrow> (stop, string) result" where
  "emitSqlPredicate policy schema query 0 index scope = Inl Endless"
| "emitSqlPredicate policy schema query (Suc fuel) index scope =
     (if index < length (q_nodes query)
      then emit_node policy schema query (emitSqlPredicate policy schema query fuel) (q_nodes query ! index) scope
      else Inl OutOfBounds)"

section \<open>Statements\<close>

definition field_text :: "policy \<Rightarrow> string \<Rightarrow> string \<Rightarrow> string \<Rightarrow> (exn, string) result" where
  "field_text policy qualifier name alias =
     bindR (sqlQualified policy qualifier name) (\<lambda>field. bindR (po_quoteIdentifier policy alias) (\<lambda>a. Inr (field @ '' AS '' @ a)))"

definition full_fields_of :: "policy \<Rightarrow> schema_view \<Rightarrow> sql_scope \<Rightarrow> column_view \<Rightarrow> (exn, string list) result" where
  "full_fields_of policy schema scope column =
     (let table = md_tableName (sp_model scope)
      in if cv_kind column = ScalarField
         then bindR (field_text policy table (cv_name column) (table @ ''_'' @ cv_name column)) (\<lambda>field. Inr [field])
         else bindR (requireSqlTarget schema column) (\<lambda>target.
                mapR (\<lambda>child.
                    if sp_shouldJoin scope then field_text policy (cv_name column) (cv_name child) (cv_name column @ ''_'' @ cv_name child)
                    else field_text policy table (cv_name column @ ''_'' @ cv_name child)
                           (table @ ''_'' @ cv_name column @ ''_'' @ cv_name child))
                  (filter (\<lambda>child. sp_shouldJoin scope \<or> cv_isPrimaryKey child) (md_columns target))))"

definition emitSqlFullFields :: "policy \<Rightarrow> schema_view \<Rightarrow> sql_scope \<Rightarrow> (exn, string) result" where
  "emitSqlFullFields policy schema scope =
     bindR (mapR (full_fields_of policy schema scope) (md_columns (sp_model scope)))
       (\<lambda>fields. Inr (join_values (concat fields) '', ''))"

definition emit_select_list :: "policy \<Rightarrow> schema_view \<Rightarrow> sql_query \<Rightarrow> sql_scope \<Rightarrow> (stop, string) result" where
  "emit_select_list policy schema query scope =
     (if q_projections query = [] then raised (emitSqlFullFields policy schema scope)
      else bindR (mapR (\<lambda>projection.
               bindR (emitSqlSource policy schema (pr_source projection) scope True) (\<lambda>source.
               bindR (raised (po_quoteIdentifier policy (pr_alias projection))) (\<lambda>alias. Inr (source @ '' AS '' @ alias))))
             (q_projections query))
             (\<lambda>projections. Inr (joinWith '', '' projections)))"

definition emit_assignment :: "policy \<Rightarrow> schema_view \<Rightarrow> sql_query \<Rightarrow> sql_scope \<Rightarrow> sql_assignment \<Rightarrow> (stop, string) result" where
  "emit_assignment policy schema query scope assignment =
     bindR (emitSqlColumn policy schema (as_source assignment) scope False) (\<lambda>column.
     bindR (binding_name query (as_parameter assignment)) (\<lambda>name.
     bindR (raised (po_bindMarker policy name)) (\<lambda>mark. Inr (column @ '' = '' @ mark))))"

definition emit_head :: "policy \<Rightarrow> schema_view \<Rightarrow> sql_query \<Rightarrow> sql_scope \<Rightarrow> model_data \<Rightarrow> (stop, string) result" where
  "emit_head policy schema query scope model =
     (case q_operation query of
        SelectOp \<Rightarrow>
          bindR (emit_select_list policy schema query scope) (\<lambda>fields.
          bindR (raised (po_quoteIdentifier policy (md_tableName model))) (\<lambda>table.
          bindR (if q_shouldJoin query then raised (emitSqlJoins policy schema scope) else Inr []) (\<lambda>joins.
            Inr ((if q_isDistinct query then ''SELECT DISTINCT '' else ''SELECT '') @ fields @ '' FROM '' @ table @ joins))))
      | UpdateOp \<Rightarrow>
          bindR (throwIf (q_assignments query = []) (Raised (InvalidArgument ''UPDATE requires at least one assignment''))) (\<lambda>_.
          bindR (throwIf (q_predicate query = None) (Raised (InvalidArgument ''UPDATE requires a WHERE predicate''))) (\<lambda>_.
          bindR (raised (po_quoteIdentifier policy (md_tableName model))) (\<lambda>table.
          bindR (mapR (emit_assignment policy schema query scope) (q_assignments query)) (\<lambda>assignments.
            Inr (''UPDATE '' @ table @ '' SET '' @ joinWith '', '' assignments)))))
      | RemoveOp \<Rightarrow>
          bindR (raised (po_quoteIdentifier policy (md_tableName model))) (\<lambda>table. Inr (''DELETE FROM '' @ table)))"

definition emit_clause ::
  "policy \<Rightarrow> schema_view \<Rightarrow> sql_query \<Rightarrow> sql_scope \<Rightarrow> string \<Rightarrow> nat option \<Rightarrow> (stop, string) result" where
  "emit_clause policy schema query scope keyword index =
     (case index of
        None \<Rightarrow> Inr []
      | Some i \<Rightarrow> bindR (emitSqlPredicate policy schema query (length (q_nodes query)) i scope) (\<lambda>predicate. Inr (keyword @ predicate)))"

definition emit_groups :: "policy \<Rightarrow> schema_view \<Rightarrow> sql_query \<Rightarrow> sql_scope \<Rightarrow> (stop, string) result" where
  "emit_groups policy schema query scope =
     (if q_groups query = [] then Inr []
      else bindR (mapR (\<lambda>source. emitSqlColumn policy schema source scope True) (q_groups query))
             (\<lambda>groups. Inr ('' GROUP BY '' @ joinWith '', '' groups)))"

definition emit_order :: "policy \<Rightarrow> schema_view \<Rightarrow> sql_scope \<Rightarrow> sql_order \<Rightarrow> (stop, string) result" where
  "emit_order policy schema scope order =
     (if or_isRaw order then Inr (or_rawSql order)
      else bindR (emitSqlColumn policy schema (or_source order) scope True)
             (\<lambda>column. Inr (column @ (if or_direction order = Asc then '' ASC'' else '' DESC''))))"

definition emit_orders :: "policy \<Rightarrow> schema_view \<Rightarrow> sql_query \<Rightarrow> sql_scope \<Rightarrow> (stop, string) result" where
  "emit_orders policy schema query scope =
     (if q_orders query = [] then Inr []
      else bindR (mapR (emit_order policy schema scope) (q_orders query))
             (\<lambda>orders. Inr ('' ORDER BY '' @ joinWith '', '' orders)))"

definition query_scope :: "sql_query \<Rightarrow> model_data \<Rightarrow> sql_scope" where
  "query_scope query model = \<lparr>sp_model = model, sp_shouldJoin = q_shouldJoin query, sp_write = (q_operation query \<noteq> SelectOp),
     sp_allowCollections = True, sp_tableAlias = [], sp_relationAliases = []\<rparr>"

definition emitSql :: "policy \<Rightarrow> schema_view \<Rightarrow> sql_query \<Rightarrow> model_data \<Rightarrow> (stop, string) result" where
  "emitSql policy schema query model =
     (let scope = query_scope query model
      in bindR (emit_head policy schema query scope model) (\<lambda>head.
         bindR (emit_clause policy schema query scope '' WHERE '' (q_predicate query)) (\<lambda>filter.
         bindR (emit_groups policy schema query scope) (\<lambda>groups.
         bindR (emit_clause policy schema query scope '' HAVING '' (q_having query)) (\<lambda>having.
         bindR (emit_orders policy schema query scope) (\<lambda>orders.
         bindR (po_pagination policy query) (\<lambda>page.
           Inr (head @ filter @ groups @ having @ orders @ page @ '';''))))))))"

end
