(* ===== verification/Orm_Commands.thy ===== *)
theory Orm_Commands
  imports Orm_Dialect
begin

text \<open>
  Statements that depend on a model only: the dialect-driven half of \<^verbatim>\<open>src/migrations/SchemaSnapshot.cpp\<close> and the
  table and insert commands of \<^verbatim>\<open>src/database/DefaultCommandGenerator.cpp\<close>. The main result compares the table a
  program creates through \<^verbatim>\<open>Database::createTable\<close> with the table the migration generator writes.
\<close>

section \<open>Tables through a dialect\<close>

definition inno_suffix :: "sql_dialect \<Rightarrow> bool" where
  "inno_suffix dialect \<longleftrightarrow> find_from (sd_renderCreateTableSuffix dialect) ''ENGINE=InnoDB'' 0 \<noteq> None"

definition dialect_physicalTable ::
  "schema_view \<Rightarrow> model_data option \<Rightarrow> sql_dialect \<Rightarrow> (exn, physical_table) result" where
  "dialect_physicalTable schema model dialect =
     bindR (expandTable schema model (sd_toSqlType dialect) (inno_suffix dialect))
       (\<lambda>table. Inr (if inno_suffix dialect then foreignKeyIndexes table else table))"

definition dialect_physicalJunctions ::
  "schema_view \<Rightarrow> model_data option \<Rightarrow> sql_dialect \<Rightarrow> (exn, physical_table list) result" where
  "dialect_physicalJunctions schema model dialect =
     bindR (expandJunctions schema model (sd_toSqlType dialect) (inno_suffix dialect))
       (\<lambda>tables. Inr (if inno_suffix dialect then map foreignKeyIndexes tables else tables))"

definition dialect_auto_column ::
  "sql_dialect \<Rightarrow> physical_column \<Rightarrow> string \<Rightarrow> (exn, string) result" where
  "dialect_auto_column dialect column primaryName =
     bindR (sd_renderAutoIncrementPrimaryKey dialect (pc_name column))
       (\<lambda>result. case find_from result ''PRIMARY KEY'' 0 of
          Some position \<Rightarrow>
            if primaryName \<noteq> [] \<and> primaryName \<noteq> ''PRIMARY''
            then bindR (sd_quoteIdentifier dialect primaryName)
                   (\<lambda>name. Inr (take position result @ ''CONSTRAINT '' @ name @ '' '' @ drop position result))
            else Inr result
        | None \<Rightarrow> Inr result)"

definition dialect_column ::
  "sql_dialect \<Rightarrow> physical_column \<Rightarrow> bool \<Rightarrow> string \<Rightarrow> (exn, string) result" where
  "dialect_column dialect column primary primaryName =
     bindR (throwIf (\<not> validSqlType (pc_sqlType column))
              (invalid ''Invalid frozen SQL column type'' Empty (pc_name column)))
       (\<lambda>_. if pc_autoIncrement column then dialect_auto_column dialect column primaryName
            else
              bindR (sd_quoteIdentifier dialect (pc_name column)) (\<lambda>name.
              bindR (sd_renderStringLengthConstraint dialect (pc_name column) (pc_maxStringLength column)) (\<lambda>check.
                Inr (name @ '' '' @ pc_sqlType column
                  @ (if pc_nullable column \<and> pc_logicalType column = UtcTimestampT \<and> inno_suffix dialect then '' NULL''
                     else if pc_nullable column then [] else '' NOT NULL'')
                  @ check))))"

definition dialect_renderCreateTable ::
  "sql_dialect \<Rightarrow> physical_table \<Rightarrow> bool \<Rightarrow> bool \<Rightarrow> (exn, string) result" where
  "dialect_renderCreateTable dialect table includeForeignKeys ifNotExists =
     bindR (sd_renderCreateTablePrefix dialect (tb_name table) ifNotExists)
       (\<lambda>before. createTableSql table before (sd_renderCreateTableSuffix dialect) includeForeignKeys
          (inno_suffix dialect) (sd_quoteIdentifier dialect) (dialect_column dialect))"

section \<open>The default command generator\<close>

definition getForeignModelIdsNames :: "string \<Rightarrow> model_data \<Rightarrow> string list" where
  "getForeignModelIdsNames foreignModelFieldName target =
     map (\<lambda>column. foreignModelFieldName @ ''_'' @ cv_name column) (filter cv_isPrimaryKey (md_columns target))"

definition column_field_names :: "schema_view \<Rightarrow> column_view \<Rightarrow> (exn, string list) result" where
  "column_field_names schema column =
     (if cv_kind column = ToOneField then
        (case resolveTarget_column schema column of
           None \<Rightarrow> Inl (LogicError ''To-one relation target is not available in the schema'')
         | Some target \<Rightarrow> Inr (getForeignModelIdsNames (cv_name column) target))
      else Inr (if cv_isAutoIncrement column then [] else [cv_name column]))"

definition getFieldsNames :: "schema_view \<Rightarrow> model_data \<Rightarrow> (exn, string list) result" where
  "getFieldsNames schema model = bindR (mapR (column_field_names schema) (md_columns model)) (\<lambda>names. Inr (concat names))"

definition comma_list :: "(string \<Rightarrow> (exn, string) result) \<Rightarrow> string list \<Rightarrow> (exn, string) result" where
  "comma_list render names =
     bindR (foldR (\<lambda>name r. bindR (render name) (\<lambda>t. Inr (r @ t @ '', ''))) names []) (\<lambda>r. Inr (removeLastComma r))"

definition getInsertFields :: "sql_dialect \<Rightarrow> string list \<Rightarrow> (exn, string) result" where
  "getInsertFields dialect = comma_list (sd_quoteIdentifier dialect)"

definition getInsertValues :: "sql_dialect \<Rightarrow> string list \<Rightarrow> (exn, string) result" where
  "getInsertValues dialect = comma_list (sd_bindMarker dialect)"

definition generator_insert :: "sql_dialect \<Rightarrow> schema_view \<Rightarrow> model_data \<Rightarrow> (exn, string) result" where
  "generator_insert dialect schema model =
     bindR (getFieldsNames schema model) (\<lambda>fieldsNames.
       if fieldsNames = [] then sd_renderDefaultInsert dialect (md_tableName model)
       else
         bindR (sd_quoteIdentifier dialect (md_tableName model)) (\<lambda>table.
         bindR (getInsertFields dialect fieldsNames) (\<lambda>fields.
         bindR (getInsertValues dialect fieldsNames) (\<lambda>values.
           Inr (''INSERT INTO '' @ table @ '' ('' @ fields @ '') VALUES ('' @ values @ '');'')))))"

definition generator_createTable :: "sql_dialect \<Rightarrow> schema_view \<Rightarrow> model_data option \<Rightarrow> (exn, string) result" where
  "generator_createTable dialect schema model =
     bindR (dialect_physicalTable schema model dialect) (\<lambda>table. dialect_renderCreateTable dialect table True True)"

definition generator_dropTable :: "sql_dialect \<Rightarrow> model_data \<Rightarrow> (exn, string) result" where
  "generator_dropTable dialect model = sd_renderDropTable dialect (md_tableName model) True"

section \<open>The same physical table\<close>

lemma inno_suffix_family: "backend_dialect backend = Some dialect \<Longrightarrow> inno_suffix dialect = family backend"
proof -
  have "\<not> inno_suffix sqlite_dialect" "\<not> inno_suffix postgres_dialect" "inno_suffix mysql_dialect" "inno_suffix mariadb_dialect"
    by code_simp+
  then show "backend_dialect backend = Some dialect \<Longrightarrow> inno_suffix dialect = family backend"
    by (cases backend) (auto simp: family_def)
qed

lemma suffix_options:
  "backend_dialect backend = Some dialect \<Longrightarrow> sd_renderCreateTableSuffix dialect =
     newline # '')'' @ (if tableOptions backend = [] then [] else '' '' @ tableOptions backend) @ '';''"
  by (cases backend) (auto simp: dialect_defs tableOptions_def family_def)

lemma below_scalarColumn [below_intros]:
  assumes "\<And>type len. below (resolve type len) (resolve' type len)"
  shows "below (scalarColumn name column nullable resolve) (scalarColumn name column nullable resolve')"
  unfolding scalarColumn_def by (intro below_intros assms)

lemma below_expandTable:
  assumes "\<And>type len. below (resolve type len) (resolve' type len)"
  shows "below (expandTable schema model resolve b) (expandTable schema model resolve' b)"
  unfolding expandTable_def expand_column_def expand_target_column_def Let_def case_prod_beta
  by (intro below_intros assms)

lemma add_key_index_options [simp]:
  "add_key_index (table\<lparr>tb_options := options\<rparr>) key = (add_key_index table key)\<lparr>tb_options := options\<rparr>"
  by (simp add: add_key_index_def)

lemma foreignKeyIndexes_options:
  "foreignKeyIndexes (table\<lparr>tb_options := options\<rparr>) = (foreignKeyIndexes table)\<lparr>tb_options := options\<rparr>"
proof -
  have "foldl add_key_index (table\<lparr>tb_options := options\<rparr>) keys = (foldl add_key_index table keys)\<lparr>tb_options := options\<rparr>" for keys
    by (induction keys arbitrary: table) auto
  then show ?thesis by (simp add: foreignKeyIndexes_def)
qed

lemma physicalTable_dialect:
  assumes "physicalTable schema model backend = Inr table" "backend_dialect backend = Some dialect"
  obtains table' where "dialect_physicalTable schema model dialect = Inr table'"
    "table = table'\<lparr>tb_options := tableOptions backend\<rparr>"
proof -
  obtain t where t: "expandTable schema model (sqlType backend) (family backend) = Inr t"
    and table: "table = with_indexes backend t"
    using assms(1) by (auto simp: physicalTable_def)
  have "expandTable schema model (sd_toSqlType dialect) (family backend) = Inr t"
    by (rule belowD [OF below_expandTable t]) (auto simp: below_def toSqlType_sqlType [OF _ assms(2)])
  then show thesis
    by (intro that [of "if family backend then foreignKeyIndexes t else t"])
      (simp_all add: dialect_physicalTable_def inno_suffix_family [OF assms(2)] table with_indexes_def Let_def
        foreignKeyIndexes_options)
qed

section \<open>Columns of an expanded table carry the types of their backend\<close>

definition typed_columns :: "type_resolver \<Rightarrow> physical_table \<Rightarrow> bool" where
  "typed_columns resolve table \<longleftrightarrow>
     (\<forall>c \<in> set (tb_columns table). resolve (pc_logicalType c) (pc_maxStringLength c) = Inr (pc_sqlType c))"

lemma scalarColumn_typed:
  "scalarColumn name column nullable resolve = Inr c \<Longrightarrow> resolve (pc_logicalType c) (pc_maxStringLength c) = Inr (pc_sqlType c)"
  by (auto simp: scalarColumn_def split: option.splits)

lemma typed_columns_simps [simp]:
  "typed_columns resolve (table\<lparr>tb_columns := tb_columns table @ [c]\<rparr>) \<longleftrightarrow>
     typed_columns resolve table \<and> resolve (pc_logicalType c) (pc_maxStringLength c) = Inr (pc_sqlType c)"
  "typed_columns resolve (table\<lparr>tb_foreignKeys := keys\<rparr>) \<longleftrightarrow> typed_columns resolve table"
  "typed_columns resolve (table\<lparr>tb_options := options\<rparr>) \<longleftrightarrow> typed_columns resolve table"
  by (auto simp: typed_columns_def)

lemma expand_target_column_typed:
  assumes "foldR (expand_target_column column resolve) keys s = Inr t" "typed_columns resolve (fst s)"
  shows "typed_columns resolve (fst t)"
  by (rule foldR_invariant [where P = "\<lambda>s. typed_columns resolve (fst s)", OF assms])
    (auto simp: expand_target_column_def Let_def scalarColumn_typed)

lemma expand_column_typed:
  assumes "expand_column schema resolve column table = Inr table'" "typed_columns resolve table"
  shows "typed_columns resolve table'"
proof (cases "cv_kind column = ScalarField")
  case True
  with assms show ?thesis
    by (auto simp: expand_column_def scalarColumn_typed)
next
  case False
  with assms obtain keys key t' where "foldR (expand_target_column column resolve) keys (table, key) = Inr t'"
    "typed_columns resolve table' = typed_columns resolve (fst t')"
    by (auto simp: expand_column_def split: option.splits prod.splits)
  with assms(2) show ?thesis using expand_target_column_typed by fastforce
qed

lemma expandTable_typed:
  assumes "expandTable schema model resolve b = Inr table"
  shows "typed_columns resolve table"
proof -
  have fresh: "typed_columns resolve (empty_table name\<lparr>tb_primaryKey := key\<rparr>)"
    "typed_columns resolve (empty_table name\<lparr>tb_primaryKey := key, tb_primaryKeyName := key_name\<rparr>)" for name key key_name
    by (simp_all add: typed_columns_def empty_table_def)
  have step: "typed_columns resolve t \<Longrightarrow> foldR (expand_column schema resolve) cs t = Inr table \<Longrightarrow> typed_columns resolve table"
    for cs t
    by (rule foldR_invariant [where P = "typed_columns resolve"]) (auto intro: expand_column_typed)
  show ?thesis
    using assms unfolding expandTable_def Let_def
    by (auto split: option.splits if_splits intro: step [OF fresh(1)] step [OF fresh(2)])
qed

section \<open>The same text\<close>

lemma createTableSql_options [simp]: "createTableSql (table\<lparr>tb_options := options\<rparr>) = createTableSql table"
  by (intro ext) (simp add: createTableSql_def auto_increment_ok_def primary_definition_def)

lemma agree_quotedList [agree_intros]:
  "(\<And>name. agree (quote name) (quote' name)) \<Longrightarrow> agree (quotedList quote names) (quotedList quote' names)"
  unfolding quotedList_def by (intro agree_intros)

lemma agree_createTableSql:
  assumes quote: "\<And>name. agree (quote name) (quote' name)"
    and column: "\<And>c. c \<in> set (tb_columns table) \<Longrightarrow> auto_increment_ok table c \<Longrightarrow>
      agree (columnSql c (pc_autoIncrement c) (tb_primaryKeyName table))
            (columnSql' c (pc_autoIncrement c) (tb_primaryKeyName table))"
  shows "agree (createTableSql table before after fks ixs quote columnSql)
               (createTableSql table before after fks ixs quote' columnSql')"
  unfolding createTableSql_def primary_definition_def foreignKeySql_def index_definition_def
  by (intro agree_intros quote column) auto

text \<open>The first occurrence of a word that cannot start inside a delimited text.\<close>

lemma find_prefix_skip:
  assumes "find_prefix p (q @ [d]) = None" "d \<notin> set p"
  shows "find_prefix p ((q @ [d]) @ r) = map_option (\<lambda>k. Suc (length q) + k) (find_prefix p r)"
  using assms(1)
proof (induction q)
  case Nil
  have "\<not> starts_with (d # r) p" if "p \<noteq> []"
    using that assms(2) by (cases p) (auto simp: starts_with_def)
  with Nil show ?case by (cases "p = []") (auto simp: starts_with_def)
next
  case (Cons c q)
  have no: "\<not> starts_with (c # q @ [d]) p" and rest: "find_prefix p (q @ [d]) = None"
    using Cons.prems by (auto split: if_splits)
  have "\<not> starts_with (c # (q @ [d]) @ r) p"
  proof
    assume *: "starts_with (c # (q @ [d]) @ r) p"
    show False
    proof (cases "length p \<le> length (c # q @ [d])")
      case True
      then show False
        using * no take_append [of "length p" "c # q @ [d]" r] by (simp add: starts_with_def)
    next
      case False
      from * obtain t where "(c # q @ [d]) @ r = p @ t" by (auto simp: starts_with_iff)
      then obtain us where "p = (c # q @ [d]) @ us \<or> c # q @ [d] = p @ us"
        unfolding append_eq_append_conv2 by metis
      with False have "p = c # q @ d # us" by (auto dest: arg_cong [of _ _ length])
      then have "d \<in> set p" by simp
      with assms(2) show False by simp
    qed
  qed
  with Cons.IH [OF rest] show ?case by (auto simp: option.map_comp o_def)
qed

definition plain_key_name :: "sql_dialect \<Rightarrow> string \<Rightarrow> bool" where
  "plain_key_name dialect name \<longleftrightarrow>
     (case sd_quoteIdentifier dialect name of Inl _ \<Rightarrow> True | Inr q \<Rightarrow> find_from q ''PRIMARY KEY'' 0 = None)"

lemma find_key_clause:
  assumes "backend_dialect backend = Some dialect" "plain_key_name dialect name"
    "sd_quoteIdentifier dialect name = Inr q"
    "find_prefix ''PRIMARY KEY'' clause = Some k"
  shows "find_from (q @ clause) ''PRIMARY KEY'' 0 = Some (length q + k)"
proof -
  obtain body where q: "q = (delimiter_of backend # body) @ [delimiter_of backend]"
    using dialect_contract.quoted [OF backend_dialect_contract [OF assms(1)] assms(3)] by auto
  have "delimiter_of backend \<notin> set ''PRIMARY KEY''" by (simp add: delimiter_of_def)
  moreover have "find_prefix ''PRIMARY KEY'' q = None"
    using assms(2,3) by (simp add: plain_key_name_def find_from_def)
  ultimately show ?thesis
    using find_prefix_skip [of _ "delimiter_of backend # body" "delimiter_of backend" clause] assms(4)
    by (simp add: find_from_def q del: find_prefix.simps)
qed

fun auto_before :: "backend_type \<Rightarrow> string" where
  "auto_before Sqlite = '' INTEGER ''"
| "auto_before _ = '' INT NOT NULL AUTO_INCREMENT ''"

fun auto_after :: "backend_type \<Rightarrow> string" where
  "auto_after Sqlite = '' AUTOINCREMENT''"
| "auto_after _ = []"

definition key_constraint :: "quoter \<Rightarrow> string \<Rightarrow> (exn, string) result" where
  "key_constraint quote pk =
     (if pk \<noteq> [] \<and> pk \<noteq> ''PRIMARY'' then bindR (quote pk) (\<lambda>n. Inr (''CONSTRAINT '' @ n @ '' '')) else Inr [])"

lemma dialect_auto_text:
  assumes d: "backend_dialect backend = Some dialect" "plain_key_name dialect (pc_name c)" "backend \<noteq> Postgres"
    and b: "dialect_auto_column dialect c pk = Inr b"
  shows "\<exists>q k. sd_quoteIdentifier dialect (pc_name c) = Inr q \<and> key_constraint (sd_quoteIdentifier dialect) pk = Inr k \<and>
    b = q @ auto_before backend @ k @ ''PRIMARY KEY'' @ auto_after backend"
proof -
  have clause: "sd_renderAutoIncrementPrimaryKey dialect (pc_name c) = bindR (sd_quoteIdentifier dialect (pc_name c))
      (\<lambda>q. Inr (q @ auto_before backend @ ''PRIMARY KEY'' @ auto_after backend))"
    using d(1,3) by (cases backend) (auto simp: dialect_defs auto_increment_def)
  have at: "find_prefix ''PRIMARY KEY'' (auto_before backend @ ''PRIMARY KEY'' @ auto_after backend) =
      Some (length (auto_before backend))"
    using d(1,3) by (cases backend) (auto simp: starts_with_def)
  obtain q where q: "sd_quoteIdentifier dialect (pc_name c) = Inr q"
    using b clause by (auto simp: dialect_auto_column_def)
  show ?thesis
    using b q find_key_clause [OF d(1,2) q at]
    by (auto simp: dialect_auto_column_def clause key_constraint_def split: if_splits)
qed

lemma render_auto_text:
  assumes "backend_dialect backend = Some dialect" "backend \<noteq> Postgres"
    and c: "pc_autoIncrement c" "pc_logicalType c = IntT" "\<not> pc_nullable c"
    and type: "sqlType backend IntT (pc_maxStringLength c) = Inr (pc_sqlType c)"
    and a: "renderColumn backend c True pk = Inr a"
  shows "\<exists>q k. quoteIdentifier backend (pc_name c) = Inr q \<and> key_constraint (quoteIdentifier backend) pk = Inr k \<and>
    a = q @ auto_before backend @ k @ ''PRIMARY KEY'' @ auto_after backend"
proof -
  have none: "pc_maxStringLength c = None"
    using type by (auto simp: sqlType_def length_ok_def split: option.splits)
  have type_word: "pc_sqlType c = (if backend = Sqlite then ''INTEGER'' else ''INT'')"
    using type assms(1,2) by (cases backend) (auto simp: sqlType_def family_def)
  have fam: "family backend = (backend \<noteq> Sqlite)"
    using assms(1,2) by (cases backend) (auto simp: family_def)
  have before: "auto_before backend = '' '' @ pc_sqlType c @ (if backend = Sqlite then '' '' else '' NOT NULL AUTO_INCREMENT '')"
    "auto_after backend = (if backend = Sqlite then '' AUTOINCREMENT'' else [])"
    using assms(1,2) by (cases backend; simp add: type_word)+
  show ?thesis
    using a assms(2) c none fam
    by (auto simp: renderColumn_def primary_clause_def key_constraint_def before)
qed

lemma agree_auto_column:
  assumes "backend_dialect backend = Some dialect" "plain_key_name dialect (pc_name c)" "backend \<noteq> Postgres"
    and "pc_autoIncrement c" "pc_logicalType c = IntT" "\<not> pc_nullable c"
    and "sqlType backend IntT (pc_maxStringLength c) = Inr (pc_sqlType c)"
  shows "agree (renderColumn backend c True pk) (dialect_column dialect c True pk)"
proof -
  have name: "agree (quoteIdentifier backend n) (sd_quoteIdentifier dialect n)" for n
    using quoteIdentifier_agree [OF _ assms(1)] by (auto simp: agree_def)
  have key: "agree (key_constraint (quoteIdentifier backend) pk) (key_constraint (sd_quoteIdentifier dialect) pk)"
    unfolding key_constraint_def by (intro agree_intros name)
  have "a = b" if a: "renderColumn backend c True pk = Inr a" and b: "dialect_column dialect c True pk = Inr b" for a b
    using render_auto_text [OF assms(1,3-7) a] dialect_auto_text [OF assms(1-3), of pk b] b assms(4)
      agreeD [OF name [of "pc_name c"]] agreeD [OF key]
    by (auto simp: dialect_column_def)
  then show ?thesis by (auto simp: agree_def)
qed

lemma agree_plain_column:
  assumes d: "backend_dialect backend = Some dialect" and c: "\<not> pc_autoIncrement c"
  shows "agree (renderColumn backend c False pk) (dialect_column dialect c False pk)"
proof -
  have "a = b" if a: "renderColumn backend c False pk = Inr a" and b: "dialect_column dialect c False pk = Inr b" for a b
  proof -
    obtain q where q: "quoteIdentifier backend (pc_name c) = Inr q" "sd_quoteIdentifier dialect (pc_name c) = Inr q"
      using a b c quoteIdentifier_agree [OF _ d, of "pc_name c"] by (auto simp: renderColumn_def dialect_column_def)
    have check: "sd_renderStringLengthConstraint dialect (pc_name c) len = Inr (case len of
        Some n \<Rightarrow> if backend = Sqlite then '' CHECK (length(replace('' @ q @ '', char(0), char(1))) <= '' @ dec n @ '')'' else []
      | None \<Rightarrow> [])" for len
      using d q(2) by (cases backend) (auto simp: dialect_defs sqlite_length_constraint_def split: option.splits)
    show ?thesis
      using a b c q inno_suffix_family [OF d]
      by (auto simp: renderColumn_def primary_clause_def dialect_column_def check split: option.splits)
  qed
  then show ?thesis by (auto simp: agree_def)
qed

lemma foreignKeyIndexes_columns [simp]:
  "tb_columns (foreignKeyIndexes table) = tb_columns table"
  "tb_name (foreignKeyIndexes table) = tb_name table"
proof -
  have "tb_columns (foldl add_key_index table keys) = tb_columns table \<and> tb_name (foldl add_key_index table keys) = tb_name table" for keys
    by (induction keys arbitrary: table) (auto simp: add_key_index_def)
  then show "tb_columns (foreignKeyIndexes table) = tb_columns table" "tb_name (foreignKeyIndexes table) = tb_name table"
    by (simp_all add: foreignKeyIndexes_def)
qed

lemma physicalTable_typed: "physicalTable schema model backend = Inr table \<Longrightarrow> typed_columns (sqlType backend) table"
  by (auto simp: physicalTable_def with_indexes_def Let_def typed_columns_def
      split: if_splits dest!: expandTable_typed [unfolded typed_columns_def])

lemma agree_render:
  assumes d: "backend_dialect backend = Some dialect" and typed: "typed_columns (sqlType backend) table"
    and key: "\<forall>c \<in> set (tb_columns table). pc_autoIncrement c \<longrightarrow> backend \<noteq> Postgres \<and> plain_key_name dialect (pc_name c)"
    and options: "tb_options table = tableOptions backend"
  shows "agree (renderCreateTable backend table fks ine) (dialect_renderCreateTable dialect table fks ine)"
proof -
  have name: "agree (quoteIdentifier backend n) (sd_quoteIdentifier dialect n)" for n
    using quoteIdentifier_agree [OF _ d] by (auto simp: agree_def)
  have before: "sd_renderCreateTablePrefix dialect n ine =
      bindR (sd_quoteIdentifier dialect n) (\<lambda>q. Inr (''CREATE TABLE '' @ (if ine then ''IF NOT EXISTS '' else []) @ q @ '' (''))" for n
    using d by (cases backend) (auto simp: dialect_defs create_prefix_def)
  have column: "agree (renderColumn backend c (pc_autoIncrement c) pk) (dialect_column dialect c (pc_autoIncrement c) pk)"
    if "c \<in> set (tb_columns table)" "auto_increment_ok table c" for c pk
    using that typed key agree_plain_column [OF d, of c pk] agree_auto_column [OF d, of c pk]
    by (cases "pc_autoIncrement c") (auto simp: auto_increment_ok_def typed_columns_def)
  have body: "agree (createTableSql table start rest fks (family backend) (quoteIdentifier backend) (renderColumn backend))
      (createTableSql table start rest fks (family backend) (sd_quoteIdentifier dialect) (dialect_column dialect))" for start rest
    by (rule agree_createTableSql) (auto intro: name column)
  have "a = b" if a: "renderCreateTable backend table fks ine = Inr a" and b: "dialect_renderCreateTable dialect table fks ine = Inr b" for a b
    using a b agreeD [OF name [of "tb_name table"]]
    by (auto simp: renderCreateTable_def dialect_renderCreateTable_def Let_def options before suffix_options [OF d]
        inno_suffix_family [OF d] cong: if_cong intro: agreeD [OF body])
  then show ?thesis by (auto simp: agree_def)
qed

section \<open>Insert statements\<close>

lemma removeLastComma_list [simp]: "removeLastComma (t @ '', '') = t"
  using removeLastComma_append [of "'' ''" t] by simp

lemma comma_list_joined:
  assumes "comma_list render names = Inr t"
  shows "\<exists>parts. mapR render names = Inr parts \<and> t = joinWith '', '' parts"
proof -
  have concat: "foldR (\<lambda>name r. bindR (render name) (\<lambda>t. Inr (r @ t @ '', ''))) names r = Inr t \<Longrightarrow>
      \<exists>parts. mapR render names = Inr parts \<and> t = r @ concat (map (\<lambda>p. p @ '', '') parts)" for r t
  proof (induction names arbitrary: r)
    case (Cons name names)
    then show ?case by fastforce
  qed simp
  have joined: "parts \<noteq> [] \<Longrightarrow> concat (map (\<lambda>p. p @ '', '') parts) = joinWith '', '' parts @ '', ''" for parts :: "string list"
    by (induction parts rule: induct_list012) auto
  obtain r parts where "mapR render names = Inr parts" "r = concat (map (\<lambda>p. p @ '', '') parts)" "t = removeLastComma r"
    using assms concat [where r = "[]"] by (fastforce simp: comma_list_def)
  then show ?thesis
    by (cases "parts = []") (auto simp: joined removeLastComma_none)
qed

section \<open>Properties\<close>

text \<open>
  The table \<^verbatim>\<open>Database::createTable\<close> asks for is the table the migration generator writes: whenever both
  the dialect-driven and the snapshot-driven rendering of a model succeed, their texts are equal, down to the
  names of constraints and indexes and the table options. The two exceptions are explicit: the identity columns
  of PostgreSQL, where the snapshot adds \<^verbatim>\<open>NOT NULL\<close>, and an auto-increment column whose quoted name contains
  the words \<^verbatim>\<open>PRIMARY KEY\<close>.
\<close>

theorem createTable_agrees:
  assumes "backend_dialect backend = Some dialect" "physicalTable schema model backend = Inr table"
    "renderCreateTable backend table True True = Inr sql" "generator_createTable dialect schema model = Inr sql'"
    "\<forall>c \<in> set (tb_columns table). pc_autoIncrement c \<longrightarrow> backend \<noteq> Postgres \<and> plain_key_name dialect (pc_name c)"
  shows "sql' = sql"
proof -
  obtain table' where table': "dialect_physicalTable schema model dialect = Inr table'"
    "table = table'\<lparr>tb_options := tableOptions backend\<rparr>"
    by (rule physicalTable_dialect [OF assms(2,1)])
  have "dialect_renderCreateTable dialect table = dialect_renderCreateTable dialect table'"
    by (intro ext) (simp add: dialect_renderCreateTable_def table'(2))
  then have "dialect_renderCreateTable dialect table True True = Inr sql'"
    using assms(4) table'(1) by (simp add: generator_createTable_def)
  moreover have "agree (renderCreateTable backend table True True) (dialect_renderCreateTable dialect table True True)"
    using agree_render [OF assms(1) physicalTable_typed [OF assms(2)] assms(5)] table'(2) by simp
  ultimately show ?thesis using agreeD assms(3) by fastforce
qed

theorem createTable_agrees_witness:
  "\<exists>table sql. physicalTable sample_models (Some (hd sample_models)) Mysql = Inr table \<and>
     renderCreateTable Mysql table True True = Inr sql \<and>
     generator_createTable mysql_dialect sample_models (Some (hd sample_models)) = Inr sql"
proof -
  let ?table = "sample_table\<lparr>tb_columns := rev (tb_columns sample_table)\<rparr>"
  have table: "physicalTable sample_models (Some (hd sample_models)) Mysql = Inr ?table" by code_simp
  have "isOk (renderCreateTable Mysql ?table True True)" by code_simp
  then obtain sql where sql: "renderCreateTable Mysql ?table True True = Inr sql" by (auto simp: isOk_iff)
  have "isOk (generator_createTable mysql_dialect sample_models (Some (hd sample_models)))" by code_simp
  then obtain sql' where sql': "generator_createTable mysql_dialect sample_models (Some (hd sample_models)) = Inr sql'"
    by (auto simp: isOk_iff)
  have plain: "\<forall>c \<in> set (tb_columns ?table). pc_autoIncrement c \<longrightarrow> Mysql \<noteq> Postgres \<and> plain_key_name mysql_dialect (pc_name c)"
    by code_simp
  have "sql' = sql" by (rule createTable_agrees [OF _ table sql sql' plain]) simp
  with table sql sql' show ?thesis by blast
qed

text \<open>
  An auto-increment column whose name contains the words \<^verbatim>\<open>PRIMARY KEY\<close> breaks the statement: the name of the
  constraint is inserted at the first occurrence of these words, which is inside the quoted column name.
\<close>

theorem key_name_in_column_breaks_clause:
  "dialect_column sqlite_dialect
     \<lparr>pc_name = ''PRIMARY KEY'', pc_logicalType = IntT, pc_sqlType = ''INTEGER'', pc_nullable = False,
      pc_maxStringLength = None, pc_autoIncrement = True\<rparr> True ''pk'' =
   Inr ([dquote] @ ''CONSTRAINT '' @ [dquote] @ ''pk'' @ [dquote] @ '' PRIMARY KEY'' @ [dquote]
        @ '' INTEGER PRIMARY KEY AUTOINCREMENT'')"
  by code_simp

text \<open>
  A generated \<^verbatim>\<open>INSERT\<close> names every stored column once and binds each of them: the column list is the quoted
  field names, the value list the markers of the same names in the same order, and every name is a portable
  bind name. A model whose only column is generated by the database gets the default insert of its dialect.
\<close>

theorem insert_binds_columns:
  assumes "backend_dialect backend = Some dialect" "generator_insert dialect schema model = Inr sql"
  shows "\<exists>names. getFieldsNames schema model = Inr names \<and>
    (if names = [] then sd_renderDefaultInsert dialect (md_tableName model) = Inr sql
     else \<exists>table columns. sd_quoteIdentifier dialect (md_tableName model) = Inr table \<and>
        mapR (sd_quoteIdentifier dialect) names = Inr columns \<and> list_all isPortableBindName names \<and>
        sql = ''INSERT INTO '' @ table @ '' ('' @ joinWith '', '' columns @ '') VALUES (''
              @ joinWith '', '' (map (\<lambda>name. CHR '':'' # name) names) @ '');'')"
proof -
  have marks: "mapR (sd_bindMarker dialect) names = Inr parts \<Longrightarrow>
      parts = map (\<lambda>name. CHR '':'' # name) names \<and> list_all isPortableBindName names" for names parts
    by (induction names arbitrary: parts)
      (auto simp: dialect_contract.marker [OF backend_dialect_contract [OF assms(1)]])
  show ?thesis
    using assms(2) marks
    by (fastforce simp: generator_insert_def getInsertFields_def getInsertValues_def dest: comma_list_joined split: if_splits)
qed

theorem insert_binds_columns_witness:
  "\<exists>table columns. sd_quoteIdentifier sqlite_dialect ''users'' = Inr table \<and>
     mapR (sd_quoteIdentifier sqlite_dialect) [''email''] = Inr columns \<and>
     generator_insert sqlite_dialect sample_models (hd sample_models) =
       Inr (''INSERT INTO '' @ table @ '' ('' @ joinWith '', '' columns @ '') VALUES (:email);'')"
proof -
  have "isOk (generator_insert sqlite_dialect sample_models (hd sample_models))" by code_simp
  then obtain sql where sql: "generator_insert sqlite_dialect sample_models (hd sample_models) = Inr sql"
    by (auto simp: isOk_iff)
  have names: "getFieldsNames sample_models (hd sample_models) = Inr [''email'']" by code_simp
  have table: "md_tableName (hd sample_models) = ''users''" by code_simp
  have d: "backend_dialect Sqlite = Some sqlite_dialect" by simp
  from insert_binds_columns [OF d sql] sql show ?thesis unfolding names table by auto
qed

end
