(* ===== verification/Orm_Query.thy ===== *)
theory Orm_Query
  imports Orm_Sql_Emitter Orm_Value_Limits Orm_Commands
begin

text \<open>
  Runtime queries: the predicate trees of \<^verbatim>\<open>modules/orm/query/runtime_predicate.cppm\<close> and \<^verbatim>\<open>aggregate.cppm\<close>, the
  specifications of \<^verbatim>\<open>projection.cppm\<close>, and their translation into flat programs with bound parameters
  (\<^verbatim>\<open>src/database/defaults/SqlRenderer.cpp\<close>). The render context is a record that the translation threads through; its
  dialect is part of it, as in the source.
\<close>

section \<open>Predicates and specifications\<close>

datatype comparison_operator = Equal | NotEqual | Greater | GreaterOrEqual | Less | LessOrEqual | Like | NotLike

datatype null_operator = IsNull | IsNotNull

datatype list_operator = InList | NotInList

datatype between_operator = Between | NotBetween

datatype logical_operator = LogicalAnd | LogicalOr

datatype collection_operator = AnyElement | ExistsElement | NoElement

fun comparison_number :: "comparison_operator \<Rightarrow> nat" where
  "comparison_number Equal = 0"
| "comparison_number NotEqual = 1"
| "comparison_number Greater = 2"
| "comparison_number GreaterOrEqual = 3"
| "comparison_number Less = 4"
| "comparison_number LessOrEqual = 5"
| "comparison_number Like = 6"
| "comparison_number NotLike = 7"

definition null_number :: "null_operator \<Rightarrow> nat" where
  "null_number op = (if op = IsNull then 0 else 1)"

definition list_number :: "list_operator \<Rightarrow> nat" where
  "list_number op = (if op = InList then 0 else 1)"

definition between_number :: "between_operator \<Rightarrow> nat" where
  "between_number op = (if op = Between then 0 else 1)"

fun collection_number :: "collection_operator \<Rightarrow> nat" where
  "collection_number AnyElement = 0"
| "collection_number ExistsElement = 1"
| "collection_number NoElement = 2"

text \<open>A column is its path; the type of values is a parameter, so that trees of the same shape can be compared.\<close>

datatype 'v predicate =
    ComparisonExpression string comparison_operator 'v
  | NullExpression string null_operator
  | ListExpression string list_operator "'v list"
  | BetweenExpression string between_operator 'v 'v
  | LogicalExpression "'v predicate" logical_operator "'v predicate"
  | NotExpression "'v predicate"
  | RawExpression string "(string \<times> 'v) list"
  | CollectionExpression string collection_operator "'v predicate option"

record aggregate_expression =
  ag_function :: aggregate_function
  ag_column :: "string option"

datatype 'v aggregate_predicate =
    AggregateComparison aggregate_expression comparison_operator 'v
  | AggregateLogical "'v aggregate_predicate" logical_operator "'v aggregate_predicate"
  | AggregateNot "'v aggregate_predicate"

record order_by =
  ob_column :: string
  ob_direction :: order_direction
  ob_rawSql :: string
  ob_isRaw :: bool

datatype projection_source = ColumnSource string | AggregateSource aggregate_expression

record 'v select_spec =
  sel_offset :: "nat option"
  sel_limit :: "nat option"
  sel_predicate :: "'v predicate option"
  sel_orderBy :: "order_by list"
  sel_projections :: "(string \<times> projection_source) list"
  sel_groupBy :: "string list"
  sel_having :: "'v aggregate_predicate option"
  sel_includes :: "string list"
  sel_isDistinct :: bool
  sel_shouldJoin :: bool

record 'v update_spec =
  upd_assignments :: "(string \<times> 'v option) list"
  upd_predicate :: "'v predicate option"

record statement_parameter =
  sm_name :: string
  sm_value :: "query_value option"
  sm_nullType :: "column_type option"

record statement =
  st_sql :: string
  st_parameters :: "statement_parameter list"

record render_context =
  rc_model :: model_data
  rc_dialect :: sql_dialect
  rc_shouldJoin :: bool
  rc_writePredicate :: bool
  rc_tableAlias :: string
  rc_relationAliases :: "(string \<times> string) list"
  rc_allowCollectionPredicates :: bool
  rc_parameters :: "statement_parameter list"
  rc_parameterNames :: "string list"
  rc_nextParameterIndex :: nat

definition new_context :: "model_data \<Rightarrow> sql_dialect \<Rightarrow> bool \<Rightarrow> bool \<Rightarrow> render_context" where
  "new_context model dialect shouldJoin writePredicate =
     \<lparr>rc_model = model, rc_dialect = dialect, rc_shouldJoin = shouldJoin, rc_writePredicate = writePredicate,
      rc_tableAlias = [], rc_relationAliases = [], rc_allowCollectionPredicates = True, rc_parameters = [],
      rc_parameterNames = [], rc_nextParameterIndex = 0\<rparr>"

section \<open>Parameters\<close>

definition automatic_name :: "nat \<Rightarrow> string" where
  "automatic_name k = ''orm_p'' @ dec k"

lemma automatic_name_eq [simp]: "automatic_name j = automatic_name k \<longleftrightarrow> j = k"
  by (simp add: automatic_name_def)

lemma inj_automatic_name: "inj automatic_name"
  by (rule injI) simp

text \<open>The loop that looks for a free automatic name, from the next index on.\<close>

function free_index :: "string list \<Rightarrow> nat \<Rightarrow> nat" where
  "free_index names k = (if automatic_name k \<in> set names then free_index names (Suc k) else k)"
  by pat_completeness auto

termination free_index
proof (relation "measure (\<lambda>(names, k). card {j. k \<le> j \<and> automatic_name j \<in> set names})")
  fix names k
  assume "automatic_name k \<in> set names"
  then show "((names, Suc k), names, k) \<in> measure (\<lambda>(names, k). card {j. k \<le> j \<and> automatic_name j \<in> set names})"
    using candidates_decrease [OF inj_automatic_name] by simp
qed simp

declare free_index.simps [simp del]

definition add_parameter :: "render_context \<Rightarrow> query_value option \<Rightarrow> column_type option \<Rightarrow>
    (exn, string \<times> render_context) result" where
  "add_parameter context stored nullType =
     (let index = free_index (rc_parameterNames context) (rc_nextParameterIndex context); name = automatic_name index
      in bindR (sd_bindMarker (rc_dialect context) name) (\<lambda>mark.
           Inr (mark, context\<lparr>rc_nextParameterIndex := Suc index,
              rc_parameterNames := rc_parameterNames context @ [name],
              rc_parameters := rc_parameters context @ [\<lparr>sm_name = name, sm_value = stored, sm_nullType = nullType\<rparr>]\<rparr>)))"

definition addAutomaticParameter :: "render_context \<Rightarrow> query_value \<Rightarrow> (exn, string \<times> render_context) result" where
  "addAutomaticParameter context stored = add_parameter context (Some stored) None"

definition addNullParameter :: "render_context \<Rightarrow> column_type \<Rightarrow> (exn, string \<times> render_context) result" where
  "addNullParameter context type = add_parameter context None (Some type)"

type_synonym building = "sql_query \<times> render_context"

definition push_binding :: "column_type \<Rightarrow> sql_query \<Rightarrow> render_context \<Rightarrow> nat \<times> building" where
  "push_binding type program context =
     (length (q_bindings program),
      program\<lparr>q_bindings := q_bindings program
        @ [\<lparr>bd_logicalType = type, bd_index = rc_nextParameterIndex context - 1, bd_rawName = []\<rparr>]\<rparr>,
      context)"

definition addValue :: "query_value \<Rightarrow> building \<Rightarrow> (exn, nat \<times> building) result" where
  "addValue stored = (\<lambda>(program, context).
     bindR (addAutomaticParameter context stored) (\<lambda>(_, context). Inr (push_binding (qv_logicalType stored) program context)))"

definition addNull :: "column_type \<Rightarrow> building \<Rightarrow> (exn, nat \<times> building) result" where
  "addNull type = (\<lambda>(program, context).
     bindR (addNullParameter context type) (\<lambda>(_, context). Inr (push_binding type program context)))"

definition aggregate_source :: "aggregate_expression \<Rightarrow> (exn, sql_source) result" where
  "aggregate_source expression =
     bindR (throwIf (ag_function expression \<noteq> CountAllF \<and> ag_column expression = None)
              (InvalidArgument ''Aggregate function requires a source column'')) (\<lambda>_.
     bindR (case ag_column expression of Some path \<Rightarrow> parseSqlSource path | None \<Rightarrow> Inr empty_source) (\<lambda>source.
       Inr (source\<lparr>src_isAggregate := True, src_function := ag_function expression\<rparr>)))"

section \<open>Translation of predicates\<close>

definition push_node :: "sql_node \<Rightarrow> building \<Rightarrow> nat \<times> building" where
  "push_node node = (\<lambda>(program, context).
     (length (q_nodes program), program\<lparr>q_nodes := q_nodes program @ [node]\<rparr>, context))"

definition raw_parameter :: "string \<times> query_value \<Rightarrow> building \<Rightarrow> (exn, building) result" where
  "raw_parameter = (\<lambda>(name, stored) (program, context).
     bindR (throwIf (name = [] \<or> hd name = CHR '':'')
              (InvalidArgument (''Raw query parameter name must not be empty or include '' @ [squote] @ '':'' @ [squote]))) (\<lambda>_.
     bindR (throwIf (starts_with name ''orm_p'')
              (InvalidArgument (''Raw query parameter cannot use reserved prefix orm_p: '' @ name))) (\<lambda>_.
     bindR (sd_bindMarker (rc_dialect context) name) (\<lambda>_.
     bindR (throwIf (name \<in> set (rc_parameterNames context))
              (InvalidArgument (''Duplicate query parameter: '' @ name))) (\<lambda>_.
       Inr (program\<lparr>q_bindings := q_bindings program
              @ [\<lparr>bd_logicalType = qv_logicalType stored, bd_index = 0, bd_rawName = name\<rparr>]\<rparr>,
            context\<lparr>rc_parameterNames := rc_parameterNames context @ [name],
              rc_parameters := rc_parameters context @ [\<lparr>sm_name = name, sm_value = Some stored, sm_nullType = None\<rparr>]\<rparr>))))))"

definition add_values :: "query_value list \<Rightarrow> building \<Rightarrow> (exn, building) result" where
  "add_values = foldR (\<lambda>stored state. bindR (addValue stored state) (\<lambda>(_, state). Inr state))"

definition logical_kind :: "logical_operator \<Rightarrow> sql_node_kind" where
  "logical_kind op = (if op = LogicalAnd then AndNode else OrNode)"

fun appendPredicate :: "query_value predicate \<Rightarrow> building \<Rightarrow> (exn, nat \<times> building) result" where
  "appendPredicate (ComparisonExpression path op stored) state =
     bindR (parseSqlSource path) (\<lambda>source.
     bindR (addValue stored state) (\<lambda>(first, state).
       Inr (push_node ((empty_node ComparisonNode)\<lparr>nd_source := source, nd_operation := comparison_number op,
              nd_firstParameter := first, nd_parameterCount := 1\<rparr>) state)))"
| "appendPredicate (NullExpression path op) state =
     bindR (parseSqlSource path) (\<lambda>source.
       Inr (push_node ((empty_node NullNode)\<lparr>nd_source := source, nd_operation := null_number op\<rparr>) state))"
| "appendPredicate (ListExpression path op stored) state =
     bindR (parseSqlSource path) (\<lambda>source.
     let first = length (q_bindings (fst state))
     in bindR (add_values stored state) (\<lambda>state.
       Inr (push_node ((empty_node ListNode)\<lparr>nd_source := source, nd_operation := list_number op,
              nd_firstParameter := first, nd_parameterCount := length stored\<rparr>) state)))"
| "appendPredicate (BetweenExpression path op lower upper) state =
     bindR (parseSqlSource path) (\<lambda>source.
     bindR (addValue lower state) (\<lambda>(first, state).
     bindR (addValue upper state) (\<lambda>(_, state).
       Inr (push_node ((empty_node BetweenNode)\<lparr>nd_source := source, nd_operation := between_number op,
              nd_firstParameter := first, nd_parameterCount := 2\<rparr>) state))))"
| "appendPredicate (LogicalExpression left op right) state =
     bindR (appendPredicate left state) (\<lambda>(l, state).
     bindR (appendPredicate right state) (\<lambda>(r, state).
       Inr (push_node ((empty_node (logical_kind op))\<lparr>nd_left := Some l, nd_right := Some r\<rparr>) state)))"
| "appendPredicate (NotExpression inner) state =
     bindR (appendPredicate inner state) (\<lambda>(i, state). Inr (push_node ((empty_node NotNode)\<lparr>nd_left := Some i\<rparr>) state))"
| "appendPredicate (RawExpression sql parameters) state =
     bindR (foldR raw_parameter parameters state) (\<lambda>state.
       Inr (push_node ((empty_node RawNode)\<lparr>nd_rawSql := sql\<rparr>) state))"
| "appendPredicate (CollectionExpression relation op None) state =
     Inr (push_node ((empty_node CollectionNode)\<lparr>nd_operation := collection_number op, nd_relation := relation\<rparr>) state)"
| "appendPredicate (CollectionExpression relation op (Some element)) state =
     bindR (appendPredicate element state) (\<lambda>(i, state).
       Inr (push_node ((empty_node CollectionNode)\<lparr>nd_operation := collection_number op, nd_left := Some i,
              nd_relation := relation\<rparr>) state))"

fun appendHaving :: "query_value aggregate_predicate \<Rightarrow> building \<Rightarrow> (exn, nat \<times> building) result" where
  "appendHaving (AggregateComparison expression op stored) state =
     bindR (aggregate_source expression) (\<lambda>source.
     bindR (addValue stored state) (\<lambda>(first, state).
       Inr (push_node ((empty_node ComparisonNode)\<lparr>nd_source := source, nd_operation := comparison_number op,
              nd_firstParameter := first, nd_parameterCount := 1\<rparr>) state)))"
| "appendHaving (AggregateLogical left op right) state =
     bindR (appendHaving left state) (\<lambda>(l, state).
     bindR (appendHaving right state) (\<lambda>(r, state).
       Inr (push_node ((empty_node (logical_kind op))\<lparr>nd_left := Some l, nd_right := Some r\<rparr>) state)))"
| "appendHaving (AggregateNot inner) state =
     bindR (appendHaving inner state) (\<lambda>(i, state). Inr (push_node ((empty_node NotNode)\<lparr>nd_left := Some i\<rparr>) state))"

section \<open>Statements\<close>

definition context_scope :: "render_context \<Rightarrow> sql_scope" where
  "context_scope context = \<lparr>sp_model = rc_model context, sp_shouldJoin = rc_shouldJoin context,
     sp_write = rc_writePredicate context, sp_allowCollections = rc_allowCollectionPredicates context,
     sp_tableAlias = rc_tableAlias context, sp_relationAliases = rc_relationAliases context\<rparr>"

definition render_column :: "schema_view \<Rightarrow> string \<Rightarrow> render_context \<Rightarrow> (stop, string) result" where
  "render_column schema path context =
     bindR (raised (parseSqlSource path)) (\<lambda>source.
       emitSqlColumn (runtime_policy (rc_dialect context)) schema source (context_scope context) True)"

record write_column =
  wc_sql :: string
  wc_type :: column_type
  wc_isNotNull :: bool

definition renderWriteColumn ::
  "schema_view \<Rightarrow> string \<Rightarrow> model_data \<Rightarrow> sql_dialect \<Rightarrow> bool \<Rightarrow> (stop, write_column) result" where
  "renderWriteColumn schema path model dialect qualifyWithTable =
     bindR (raised (parseSqlSource path)) (\<lambda>source.
     bindR (resolveSqlColumn schema source model True) (\<lambda>info.
     bindR (emitSqlColumn (runtime_policy dialect) schema source
              \<lparr>sp_model = model, sp_shouldJoin = False, sp_write = True, sp_allowCollections = True, sp_tableAlias = [],
               sp_relationAliases = []\<rparr> qualifyWithTable) (\<lambda>sql.
       Inr \<lparr>wc_sql = sql, wc_type = ci_logicalType info, wc_isNotNull = ci_isNotNull info\<rparr>)))"

definition renderWhere ::
  "schema_view \<Rightarrow> query_value predicate option \<Rightarrow> render_context \<Rightarrow> (stop, string \<times> render_context) result" where
  "renderWhere schema given context =
     (case given of
        None \<Rightarrow> Inr ([], context)
      | Some predicate \<Rightarrow>
          bindR (raised (appendPredicate predicate (empty_query, context))) (\<lambda>(index, program, context).
          bindR (emitSqlPredicate (runtime_policy (rc_dialect context)) schema program (length (q_nodes program)) index
                   (context_scope context)) (\<lambda>sql. Inr ('' WHERE '' @ sql, context))))"

definition projection_of :: "string \<times> projection_source \<Rightarrow> (exn, sql_projection) result" where
  "projection_of = (\<lambda>(resultField, source).
     bindR (case source of ColumnSource path \<Rightarrow> parseSqlSource path | AggregateSource expression \<Rightarrow> aggregate_source expression)
       (\<lambda>source. Inr \<lparr>pr_source = source, pr_alias = resultField\<rparr>))"

definition order_of :: "order_by \<Rightarrow> (exn, sql_order) result" where
  "order_of order =
     bindR (if ob_isRaw order then Inr empty_source else parseSqlSource (ob_column order)) (\<lambda>source.
       Inr \<lparr>or_source = source, or_direction = ob_direction order, or_isRaw = ob_isRaw order, or_rawSql = ob_rawSql order\<rparr>)"

definition append_where :: "query_value predicate \<Rightarrow> building \<Rightarrow> (exn, building) result" where
  "append_where predicate state =
     bindR (appendPredicate predicate state) (\<lambda>(index, program, context). Inr (program\<lparr>q_predicate := Some index\<rparr>, context))"

definition append_having :: "query_value aggregate_predicate \<Rightarrow> building \<Rightarrow> (exn, building) result" where
  "append_having having state =
     bindR (appendHaving having state) (\<lambda>(index, program, context). Inr (program\<lparr>q_having := Some index\<rparr>, context))"

definition appendSelectPredicates :: "query_value select_spec \<Rightarrow> building \<Rightarrow> (exn, building) result" where
  "appendSelectPredicates spec state =
     bindR (case sel_predicate spec of None \<Rightarrow> Inr state | Some predicate \<Rightarrow> append_where predicate state)
       (\<lambda>state. case sel_having spec of None \<Rightarrow> Inr state | Some having \<Rightarrow> append_having having state)"

definition select_start ::
  "model_data \<Rightarrow> 'v select_spec \<Rightarrow> sql_dialect \<Rightarrow> sql_projection list \<Rightarrow> building" where
  "select_start model spec dialect projections =
     (empty_query\<lparr>q_isDistinct := sel_isDistinct spec, q_shouldJoin := sel_shouldJoin spec, q_projections := projections\<rparr>,
      new_context model dialect (sel_shouldJoin spec) False)"

definition select_finish :: "'v select_spec \<Rightarrow> sql_source list \<Rightarrow> sql_order list \<Rightarrow> sql_query \<Rightarrow> sql_query" where
  "select_finish spec groups orders program =
     program\<lparr>q_groups := groups, q_orders := orders, q_hasLimit := sel_limit spec \<noteq> None,
       q_hasOffset := sel_offset spec \<noteq> None, q_literalLimit := (case sel_limit spec of Some n \<Rightarrow> n | None \<Rightarrow> 0),
       q_literalOffset := (case sel_offset spec of Some n \<Rightarrow> n | None \<Rightarrow> 0)\<rparr>"

definition select_program ::
  "model_data \<Rightarrow> query_value select_spec \<Rightarrow> sql_dialect \<Rightarrow> (exn, building) result" where
  "select_program model spec dialect =
     bindR (mapR projection_of (sel_projections spec)) (\<lambda>projections.
     bindR (appendSelectPredicates spec (select_start model spec dialect projections)) (\<lambda>(program, context).
     bindR (mapR parseSqlSource (sel_groupBy spec)) (\<lambda>groups.
     bindR (mapR order_of (sel_orderBy spec)) (\<lambda>orders.
       Inr (select_finish spec groups orders program, context)))))"

definition emit_statement :: "schema_view \<Rightarrow> model_data \<Rightarrow> sql_dialect \<Rightarrow> building \<Rightarrow> (stop, statement) result" where
  "emit_statement schema model dialect = (\<lambda>(program, context).
     bindR (emitSql (runtime_policy dialect) schema program model) (\<lambda>sql.
       Inr \<lparr>st_sql = sql, st_parameters = rc_parameters context\<rparr>))"

definition renderSelectStatement ::
  "schema_view \<Rightarrow> model_data \<Rightarrow> query_value select_spec \<Rightarrow> sql_dialect \<Rightarrow> (stop, statement) result" where
  "renderSelectStatement schema model spec dialect =
     bindR (raised (select_program model spec dialect)) (emit_statement schema model dialect)"

definition append_assignment ::
  "schema_view \<Rightarrow> model_data \<Rightarrow> string \<times> query_value option \<Rightarrow> building \<Rightarrow> (stop, building) result" where
  "append_assignment schema model = (\<lambda>(path, stored) state.
     bindR (raised (parseSqlSource path)) (\<lambda>source.
     bindR (resolveSqlColumn schema source model True) (\<lambda>info.
     bindR (throwIf (stored = None \<and> ci_isNotNull info)
              (Raised (InvalidArgument (''Cannot assign NULL to NOT NULL column: '' @ path)))) (\<lambda>_.
     bindR (raised (case stored of Some v \<Rightarrow> addValue v state | None \<Rightarrow> addNull (ci_logicalType info) state)) (\<lambda>(parameter, program, context).
       Inr (program\<lparr>q_assignments := q_assignments program @ [\<lparr>as_source = source, as_parameter = parameter\<rparr>]\<rparr>, context))))))"

definition write_program :: "sql_operation \<Rightarrow> sql_query" where
  "write_program operation = empty_query\<lparr>q_operation := operation, q_shouldJoin := False\<rparr>"

definition renderUpdateStatement ::
  "schema_view \<Rightarrow> model_data \<Rightarrow> query_value update_spec \<Rightarrow> sql_dialect \<Rightarrow> (stop, statement) result" where
  "renderUpdateStatement schema model spec dialect =
     bindR (throwIf (upd_assignments spec = []) (Raised (InvalidArgument ''UPDATE requires at least one assignment''))) (\<lambda>_.
     case upd_predicate spec of
       None \<Rightarrow> Inl (Raised (InvalidArgument ''UPDATE requires a WHERE predicate''))
     | Some predicate \<Rightarrow>
         bindR (foldR (append_assignment schema model) (upd_assignments spec)
                  (write_program UpdateOp, new_context model dialect False True)) (\<lambda>state.
         bindR (raised (append_where predicate state)) (emit_statement schema model dialect)))"

definition renderRemoveStatement ::
  "schema_view \<Rightarrow> model_data \<Rightarrow> query_value predicate \<Rightarrow> sql_dialect \<Rightarrow> (stop, statement) result" where
  "renderRemoveStatement schema model predicate dialect =
     bindR (raised (append_where predicate (write_program RemoveOp, new_context model dialect False True)))
       (emit_statement schema model dialect)"

end
