(* ===== verification/Orm_Query_Correctness.thy ===== *)
theory Orm_Query_Correctness
  imports Orm_Query
begin

text \<open>
  Correctness of the query builder. The reference is \<open>tree_sql\<close>, which renders a predicate tree directly, with the
  marker of the \<open>k\<close>-th automatic parameter where the \<open>k\<close>-th value stands, and \<open>tree_parameters\<close>, the parameters the tree
  binds in order. The flat program the builder emits is proved to have exactly that text and these parameters, for
  every dialect that satisfies \<open>dialect_contract\<close>.
\<close>

section \<open>The reference\<close>

abbreviation automatic_marker :: "nat \<Rightarrow> string" where
  "automatic_marker k \<equiv> CHR '':'' # automatic_name k"

fun comparison_text :: "comparison_operator \<Rightarrow> string" where
  "comparison_text Equal = ''=''"
| "comparison_text NotEqual = ''!=''"
| "comparison_text Greater = ''>''"
| "comparison_text GreaterOrEqual = ''>=''"
| "comparison_text Less = ''<''"
| "comparison_text LessOrEqual = ''<=''"
| "comparison_text Like = ''LIKE''"
| "comparison_text NotLike = ''NOT LIKE''"

fun value_count :: "'v predicate \<Rightarrow> nat" where
  "value_count (ComparisonExpression path op v) = 1"
| "value_count (NullExpression path op) = 0"
| "value_count (ListExpression path op vs) = length vs"
| "value_count (BetweenExpression path op lower upper) = 2"
| "value_count (LogicalExpression left op right) = value_count left + value_count right"
| "value_count (NotExpression inner) = value_count inner"
| "value_count (RawExpression sql parameters) = 0"
| "value_count (CollectionExpression relation op None) = 0"
| "value_count (CollectionExpression relation op (Some element)) = value_count element"

definition collection_node :: "string \<Rightarrow> collection_operator \<Rightarrow> nat option \<Rightarrow> sql_node" where
  "collection_node relation op left =
     (empty_node CollectionNode)\<lparr>nd_operation := collection_number op, nd_left := left, nd_relation := relation\<rparr>"

fun tree_sql :: "policy \<Rightarrow> schema_view \<Rightarrow> 'v predicate \<Rightarrow> nat \<Rightarrow> sql_scope \<Rightarrow> (stop, string) result" where
  "tree_sql policy schema (ComparisonExpression path op v) k scope =
     bindR (raised (parseSqlSource path)) (\<lambda>source.
     bindR (emitSqlColumn policy schema source scope True) (\<lambda>column.
       Inr (column @ '' '' @ comparison_text op @ '' '' @ automatic_marker k)))"
| "tree_sql policy schema (NullExpression path op) k scope =
     bindR (raised (parseSqlSource path)) (\<lambda>source.
     bindR (emitSqlColumn policy schema source scope True) (\<lambda>column.
       Inr (column @ (if op = IsNull then '' IS NULL'' else '' IS NOT NULL''))))"
| "tree_sql policy schema (ListExpression path op vs) k scope =
     (if vs = [] then Inr (if op = InList then ''(1 = 0)'' else ''(1 = 1)'')
      else
        bindR (raised (parseSqlSource path)) (\<lambda>source.
        bindR (emitSqlColumn policy schema source scope True) (\<lambda>column.
          Inr (column @ (if op = InList then '' IN ('' else '' NOT IN ('')
               @ joinWith '', '' (map automatic_marker [k..<k + length vs]) @ '')''))))"
| "tree_sql policy schema (BetweenExpression path op lower upper) k scope =
     bindR (raised (parseSqlSource path)) (\<lambda>source.
     bindR (emitSqlColumn policy schema source scope True) (\<lambda>column.
       Inr (column @ (if op = Between then '' BETWEEN '' else '' NOT BETWEEN '')
            @ automatic_marker k @ '' AND '' @ automatic_marker (Suc k))))"
| "tree_sql policy schema (LogicalExpression left op right) k scope =
     bindR (tree_sql policy schema left k scope) (\<lambda>l.
     bindR (tree_sql policy schema right (k + value_count left) scope) (\<lambda>r.
       Inr (''('' @ l @ (if op = LogicalAnd then '' AND '' else '' OR '') @ r @ '')'')))"
| "tree_sql policy schema (NotExpression inner) k scope =
     bindR (tree_sql policy schema inner k scope) (\<lambda>i. Inr (''(NOT ('' @ i @ ''))''))"
| "tree_sql policy schema (RawExpression sql parameters) k scope = Inr sql"
| "tree_sql policy schema (CollectionExpression relation op None) k scope =
     emitSqlCollection policy schema (\<lambda>_ _. Inl OutOfBounds) (collection_node relation op None) scope"
| "tree_sql policy schema (CollectionExpression relation op (Some element)) k scope =
     emitSqlCollection policy schema (\<lambda>_ nested. tree_sql policy schema element k nested)
       (collection_node relation op (Some 0)) scope"

definition automatic_parameter :: "nat \<Rightarrow> query_value \<Rightarrow> statement_parameter" where
  "automatic_parameter k stored = \<lparr>sm_name = automatic_name k, sm_value = Some stored, sm_nullType = None\<rparr>"

definition automatic_parameters :: "nat \<Rightarrow> query_value list \<Rightarrow> statement_parameter list" where
  "automatic_parameters k vs = map2 automatic_parameter [k..<k + length vs] vs"

fun tree_parameters :: "query_value predicate \<Rightarrow> nat \<Rightarrow> statement_parameter list" where
  "tree_parameters (ComparisonExpression path op v) k = [automatic_parameter k v]"
| "tree_parameters (NullExpression path op) k = []"
| "tree_parameters (ListExpression path op vs) k = automatic_parameters k vs"
| "tree_parameters (BetweenExpression path op lower upper) k = [automatic_parameter k lower, automatic_parameter (Suc k) upper]"
| "tree_parameters (LogicalExpression left op right) k = tree_parameters left k @ tree_parameters right (k + value_count left)"
| "tree_parameters (NotExpression inner) k = tree_parameters inner k"
| "tree_parameters (RawExpression sql parameters) k =
     map (\<lambda>(name, stored). \<lparr>sm_name = name, sm_value = Some stored, sm_nullType = None\<rparr>) parameters"
| "tree_parameters (CollectionExpression relation op None) k = []"
| "tree_parameters (CollectionExpression relation op (Some element)) k = tree_parameters element k"

fun having_count :: "'v aggregate_predicate \<Rightarrow> nat" where
  "having_count (AggregateComparison expression op v) = 1"
| "having_count (AggregateLogical left op right) = having_count left + having_count right"
| "having_count (AggregateNot inner) = having_count inner"

fun having_sql :: "policy \<Rightarrow> schema_view \<Rightarrow> 'v aggregate_predicate \<Rightarrow> nat \<Rightarrow> sql_scope \<Rightarrow> (stop, string) result" where
  "having_sql policy schema (AggregateComparison expression op v) k scope =
     bindR (raised (aggregate_source expression)) (\<lambda>source.
     bindR (throwIf (op \<in> {Like, NotLike}) (Raised (InvalidArgument ''Unsupported aggregate comparison operator''))) (\<lambda>_.
     bindR (emitSqlSource policy schema source scope False) (\<lambda>column.
       Inr (column @ '' '' @ comparison_text op @ '' '' @ automatic_marker k))))"
| "having_sql policy schema (AggregateLogical left op right) k scope =
     bindR (having_sql policy schema left k scope) (\<lambda>l.
     bindR (having_sql policy schema right (k + having_count left) scope) (\<lambda>r.
       Inr (''('' @ l @ (if op = LogicalAnd then '' AND '' else '' OR '') @ r @ '')'')))"
| "having_sql policy schema (AggregateNot inner) k scope =
     bindR (having_sql policy schema inner k scope) (\<lambda>i. Inr (''(NOT ('' @ i @ ''))''))"

fun having_parameters :: "query_value aggregate_predicate \<Rightarrow> nat \<Rightarrow> statement_parameter list" where
  "having_parameters (AggregateComparison expression op v) k = [automatic_parameter k v]"
| "having_parameters (AggregateLogical left op right) k = having_parameters left k @ having_parameters right (k + having_count left)"
| "having_parameters (AggregateNot inner) k = having_parameters inner k"

section \<open>States of the builder\<close>

text \<open>
  The invariant of the render context: the names taken are the names of the parameters, all different, and no
  automatic name from the next index on is taken.
\<close>

definition context_ok :: "render_context \<Rightarrow> bool" where
  "context_ok context \<longleftrightarrow> rc_parameterNames context = map sm_name (rc_parameters context) \<and>
     distinct (rc_parameterNames context) \<and>
     (\<forall>j \<ge> rc_nextParameterIndex context. automatic_name j \<notin> set (rc_parameterNames context))"

definition builds :: "building \<Rightarrow> building \<Rightarrow> sql_node list \<Rightarrow> statement_parameter list \<Rightarrow> nat \<Rightarrow> bool" where
  "builds s s' nodes parameters added \<longleftrightarrow>
     (\<exists>bindings. fst s' = (fst s)\<lparr>q_nodes := q_nodes (fst s) @ nodes, q_bindings := q_bindings (fst s) @ bindings\<rparr> \<and>
        map parameterName bindings = map sm_name parameters) \<and>
     snd s' = (snd s)\<lparr>rc_parameters := rc_parameters (snd s) @ parameters,
        rc_parameterNames := rc_parameterNames (snd s) @ map sm_name parameters,
        rc_nextParameterIndex := rc_nextParameterIndex (snd s) + added\<rparr> \<and>
     context_ok (snd s')"

definition extends :: "sql_query \<Rightarrow> sql_query \<Rightarrow> bool" where
  "extends query program \<longleftrightarrow> (\<exists>nodes bindings.
     q_nodes query = q_nodes program @ nodes \<and> q_bindings query = q_bindings program @ bindings)"

lemma builds_trans [trans]:
  "builds s s' nodes parameters added \<Longrightarrow> builds s' s'' nodes' parameters' added' \<Longrightarrow>
   builds s s'' (nodes @ nodes') (parameters @ parameters') (added + added')"
  by (fastforce simp: builds_def)

lemma builds_extends: "builds s s' nodes parameters added \<Longrightarrow> extends query (fst s') \<Longrightarrow> extends query (fst s)"
  by (auto simp: builds_def extends_def)

lemma builds_context:
  assumes "builds s s' nodes parameters added"
  shows "context_ok (snd s')" "rc_dialect (snd s') = rc_dialect (snd s)"
    "rc_nextParameterIndex (snd s') = rc_nextParameterIndex (snd s) + added"
    "length (q_nodes (fst s')) = length (q_nodes (fst s)) + length nodes"
    "length (q_bindings (fst s')) = length (q_bindings (fst s)) + length parameters"
  using assms by (auto simp: builds_def dest: map_eq_imp_length_eq)

lemma extends_refl [simp]: "extends program program"
  by (simp add: extends_def)

lemma extends_node: "extends query program \<Longrightarrow> i < length (q_nodes program) \<Longrightarrow>
    i < length (q_nodes query) \<and> q_nodes query ! i = q_nodes program ! i"
  by (auto simp: extends_def nth_append)

lemma builds_marker:
  assumes "builds s s' nodes parameters added" "extends query (fst s')" "j < length parameters"
  shows "binding_name query (length (q_bindings (fst s)) + j) = Inr (sm_name (parameters ! j))"
proof -
  obtain bindings rest where q: "q_bindings query = q_bindings (fst s) @ bindings @ rest"
    "map parameterName bindings = map sm_name parameters"
    using assms(1,2) by (auto simp: builds_def extends_def)
  then have len: "length bindings = length parameters" by (auto dest: map_eq_imp_length_eq)
  have "parameterName (bindings ! j) = sm_name (parameters ! j)"
    using q(2) assms(3) len by (metis nth_map)
  with q(1) len assms(3) show ?thesis by (simp add: binding_name_def nth_append)
qed

lemma free_index_next: "context_ok context \<Longrightarrow>
    free_index (rc_parameterNames context) (rc_nextParameterIndex context) = rc_nextParameterIndex context"
  by (subst free_index.simps) (auto simp: context_ok_def)

lemma push_node_builds:
  "context_ok (snd s) \<Longrightarrow> push_node node s = (i, s') \<Longrightarrow>
   builds s s' [node] [] 0 \<and> i = length (q_nodes (fst s)) \<and> q_nodes (fst s') ! i = node"
  by (cases s) (auto simp: push_node_def builds_def)

lemma add_parameter_builds:
  assumes "add_parameter context stored nullType = Inr (mark, context')" "context_ok context"
    and parameter: "parameter = \<lparr>sm_name = automatic_name (rc_nextParameterIndex context), sm_value = stored, sm_nullType = nullType\<rparr>"
    and result: "push_binding type program context' = (first, s')"
  shows "builds (program, context) s' [] [parameter] 1 \<and> first = length (q_bindings program)"
proof -
  have new: "context' = context\<lparr>rc_nextParameterIndex := Suc (rc_nextParameterIndex context),
      rc_parameterNames := rc_parameterNames context @ [sm_name parameter], rc_parameters := rc_parameters context @ [parameter]\<rparr>"
    using assms(1) free_index_next [OF assms(2)] by (auto simp: add_parameter_def Let_def parameter)
  have "context_ok context'"
    using assms(2) by (auto simp: new context_ok_def parameter image_iff)
  then show ?thesis
    using result by (auto simp: new push_binding_def builds_def parameterName_def parameter automatic_name_def)
qed

lemma addValue_builds:
  "addValue v s = Inr (first, s') \<Longrightarrow> context_ok (snd s) \<Longrightarrow>
   builds s s' [] [automatic_parameter (rc_nextParameterIndex (snd s)) v] 1 \<and> first = length (q_bindings (fst s))"
  by (cases s) (auto simp: addValue_def addAutomaticParameter_def automatic_parameter_def dest!: add_parameter_builds)

lemma add_values_builds:
  "add_values vs s = Inr s' \<Longrightarrow> context_ok (snd s) \<Longrightarrow>
   builds s s' [] (automatic_parameters (rc_nextParameterIndex (snd s)) vs) (length vs)"
proof (induction vs arbitrary: s)
  case Nil
  then show ?case by (auto simp: add_values_def builds_def automatic_parameters_def)
next
  case (Cons v vs)
  then obtain first t where t: "addValue v s = Inr (first, t)" "add_values vs t = Inr s'"
    by (auto simp: add_values_def)
  note one = addValue_builds [OF t(1) Cons.prems(2), THEN conjunct1]
  have "builds t s' [] (automatic_parameters (rc_nextParameterIndex (snd t)) vs) (length vs)"
    using Cons.IH [OF t(2)] builds_context(1) [OF one] by blast
  with builds_trans [OF one this] builds_context(3) [OF one] show ?case
    by (simp add: automatic_parameters_def upt_conv_Cons del: upt_Suc)
qed

lemma automatic_prefix: "starts_with (automatic_name k) ''orm_p''"
  by (simp add: automatic_name_def starts_with_def)

lemma raw_parameter_builds:
  assumes "raw_parameter (name, stored) s = Inr s'" "context_ok (snd s)"
  shows "builds s s' [] [\<lparr>sm_name = name, sm_value = Some stored, sm_nullType = None\<rparr>] 0"
proof (cases s)
  case (Pair program now)
  have "automatic_name j \<noteq> name" for j
    using assms(1) automatic_prefix [of j] by (auto simp: raw_parameter_def Pair)
  with assms Pair show ?thesis
    by (auto simp: raw_parameter_def builds_def parameterName_def context_ok_def)
qed

lemma raw_parameters_builds:
  "foldR raw_parameter parameters s = Inr s' \<Longrightarrow> context_ok (snd s) \<Longrightarrow>
   builds s s' [] (map (\<lambda>(name, stored). \<lparr>sm_name = name, sm_value = Some stored, sm_nullType = None\<rparr>) parameters) 0"
proof (induction parameters arbitrary: s)
  case Nil
  then show ?case by (auto simp: builds_def)
next
  case (Cons p parameters)
  obtain name stored where p: "p = (name, stored)" by (cases p)
  from Cons.prems(1) obtain t where t: "raw_parameter (name, stored) s = Inr t" "foldR raw_parameter parameters t = Inr s'"
    by (auto simp: p)
  note one = raw_parameter_builds [OF t(1) Cons.prems(2)]
  from builds_trans [OF one Cons.IH [OF t(2) builds_context(1) [OF one]]] show ?case by (simp add: p)
qed

section \<open>The built program has the text of the tree\<close>

lemma automatic_portable [simp]: "isPortableBindName (automatic_name k)"
proof -
  have "list_all (\<lambda>c. is_lower c \<or> is_upper c \<or> is_digit c \<or> c = CHR ''_'') (dec k)"
    using dec_digit by (auto simp: list_all_iff)
  moreover have "list_all (\<lambda>c. is_lower c \<or> is_upper c \<or> is_digit c \<or> c = CHR ''_'') ''orm_p''"
    by code_simp
  ultimately show ?thesis by (simp add: isPortableBindName_def automatic_name_def)
qed

lemma collection_node_kind [simp]: "nd_kind (collection_node relation op left) = CollectionNode"
  by (simp add: collection_node_def empty_node_def)

lemma emitSqlCollection_element:
  "emit l = emit' l' \<Longrightarrow>
   emitSqlCollection policy schema emit (collection_node relation op (Some l)) scope =
   emitSqlCollection policy schema emit' (collection_node relation op (Some l')) scope"
  by (simp add: emitSqlCollection_def collection_node_def empty_node_def Let_def cong: option.case_cong)

lemma emitSqlCollection_alone:
  "emitSqlCollection policy schema emit (collection_node relation op None) scope =
   emitSqlCollection policy schema emit' (collection_node relation op None) scope"
  by (simp add: emitSqlCollection_def collection_node_def empty_node_def Let_def cong: option.case_cong)

lemma sqlComparison_number [simp]: "sqlComparison (comparison_number op) = Inr (comparison_text op)"
  by (cases op) (simp_all add: sqlComparison_def Let_def)

definition built :: "building \<Rightarrow> building \<Rightarrow> nat \<Rightarrow> statement_parameter list \<Rightarrow> nat \<Rightarrow> bool" where
  "built s s' i parameters added \<longleftrightarrow> (\<exists>nodes. builds s s' nodes parameters added) \<and> Suc i = length (q_nodes (fst s'))"

lemma builds_refl: "context_ok (snd s) \<Longrightarrow> builds s s [] [] 0"
  by (auto simp: builds_def)

lemma push_built: "builds s t nodes parameters added \<Longrightarrow> push_node node t = (i, s') \<Longrightarrow> built s s' i parameters added"
  using push_node_builds [of t node i s'] builds_trans [of s t nodes parameters added s' "[node]" "[]" 0]
  by (auto simp: built_def builds_context)

lemma built_ok: "built s s' i parameters added \<Longrightarrow> context_ok (snd s')"
  "built s s' i parameters added \<Longrightarrow> rc_nextParameterIndex (snd s') = rc_nextParameterIndex (snd s) + added"
  by (auto simp: built_def builds_context)

lemma built_then:
  "built s t i parameters added \<Longrightarrow> built t s' j parameters' added' \<Longrightarrow> \<exists>nodes. builds s s' nodes (parameters @ parameters') (added + added')"
  by (auto simp: built_def intro: builds_trans)

lemma builds_one: "built s t i parameters added \<Longrightarrow> \<exists>nodes. builds s t nodes parameters added"
  by (auto simp: built_def)

lemma appendPredicate_builds:
  "appendPredicate p s = Inr (i, s') \<Longrightarrow> context_ok (snd s) \<Longrightarrow>
   built s s' i (tree_parameters p (rc_nextParameterIndex (snd s))) (value_count p)"
proof (induction p s arbitrary: i s' rule: appendPredicate.induct)
  case (1 path op stored s)
  then show ?case by (auto dest!: addValue_builds intro: push_built)
next
  case (2 path op s)
  then show ?case by (auto intro: push_built builds_refl)
next
  case (3 path op stored s)
  then show ?case by (auto simp: Let_def dest!: add_values_builds intro: push_built)
next
  case (4 path op lower upper s)
  then obtain first t second u node where t: "addValue lower s = Inr (first, t)" "addValue upper t = Inr (second, u)"
    and push: "push_node node u = (i, s')" by auto
  note one = addValue_builds [OF t(1) "4.prems"(2), THEN conjunct1]
  note two = addValue_builds [OF t(2) builds_context(1) [OF one], THEN conjunct1]
  from push_built [OF builds_trans [OF one two] push] show ?case
    by (simp add: builds_context(3) [OF one] numeral_2_eq_2)
next
  case (5 left op right s)
  then obtain l t r u node where t: "appendPredicate left s = Inr (l, t)" "appendPredicate right t = Inr (r, u)"
    and push: "push_node node u = (i, s')" by auto
  note one = "5.IH"(1) [OF t(1) "5.prems"(2)]
  have "built t u r (tree_parameters right (rc_nextParameterIndex (snd t))) (value_count right)"
    using "5.IH"(2) t built_ok(1) [OF one] by fastforce
  from built_then [OF one this] push show ?case
    by (auto simp: built_ok(2) [OF one] intro: push_built)
next
  case (6 inner s)
  then show ?case by (fastforce dest: builds_one intro: push_built)
next
  case (7 sql parameters s)
  then show ?case by (auto dest!: raw_parameters_builds intro: push_built)
next
  case (8 relation op s)
  then show ?case by (auto intro: push_built builds_refl)
next
  case (9 relation op element s)
  then show ?case by (fastforce dest: builds_one intro: push_built)
qed

lemma appendHaving_builds:
  "appendHaving p s = Inr (i, s') \<Longrightarrow> context_ok (snd s) \<Longrightarrow>
   built s s' i (having_parameters p (rc_nextParameterIndex (snd s))) (having_count p)"
proof (induction p s arbitrary: i s' rule: appendHaving.induct)
  case (1 expression op stored s)
  then show ?case by (auto dest!: addValue_builds intro: push_built)
next
  case (2 left op right s)
  then obtain l t r u node where t: "appendHaving left s = Inr (l, t)" "appendHaving right t = Inr (r, u)"
    and push: "push_node node u = (i, s')" by auto
  note one = "2.IH"(1) [OF t(1) "2.prems"(2)]
  have "built t u r (having_parameters right (rc_nextParameterIndex (snd t))) (having_count right)"
    using "2.IH"(2) t built_ok(1) [OF one] by fastforce
  from built_then [OF one this] push show ?case
    by (auto simp: built_ok(2) [OF one] intro: push_built)
next
  case (3 inner s)
  then show ?case by (fastforce dest: builds_one intro: push_built)
qed

lemma emit_pushed:
  assumes "push_node node t = (i, s')" "extends query (fst s')" "i < fuel"
  shows "emitSqlPredicate policy schema query fuel i scope =
    emit_node policy schema query (emitSqlPredicate policy schema query (fuel - 1)) node scope"
proof -
  have "i < length (q_nodes (fst s'))" "q_nodes (fst s') ! i = node"
    using assms(1) by (cases t; auto simp: push_node_def)+
  then have "i < length (q_nodes query)" "q_nodes query ! i = node"
    using extends_node [OF assms(2)] by auto
  with assms(3) show ?thesis by (cases fuel) auto
qed

lemma built_extends: "built s s' i parameters added \<Longrightarrow> extends query (fst s') \<Longrightarrow> extends query (fst s)"
  by (auto simp: built_def intro: builds_extends)

lemma push_extends: "push_node node t = (i, s') \<Longrightarrow> extends query (fst s') \<Longrightarrow> extends query (fst t)"
  by (cases t) (auto simp: push_node_def extends_def)

lemma push_position: "push_node node t = (i, s') \<Longrightarrow> i = length (q_nodes (fst t))"
  by (cases t) (auto simp: push_node_def)

lemma parseSqlSource_plain: "parseSqlSource path = Inr source \<Longrightarrow> \<not> src_isAggregate source"
  by (auto simp: parseSqlSource_def empty_source_def)

context dialect_contract
begin

abbreviation own_policy :: policy where
  "own_policy \<equiv> runtime_policy dialect"

lemma own_marker [simp]: "po_bindMarker own_policy (automatic_name k) = Inr (automatic_marker k)"
  by (simp add: runtime_policy_def)

lemma own_node_marker:
  assumes "builds s t nodes parameters added" "extends query (fst t)" "nd_firstParameter node = length (q_bindings (fst s))"
    "j < length parameters" "sm_name (parameters ! j) = automatic_name k"
  shows "node_marker own_policy query node j = Inr (automatic_marker k)"
  using builds_marker [OF assms(1,2,4)] assms(3,5) by (simp add: node_marker_def)

lemma comparison_emits:
  assumes p: "appendPredicate (ComparisonExpression path op stored) s = Inr (i, s')"
    and s: "context_ok (snd s)" "extends query (fst s')" "i < fuel"
  shows "emitSqlPredicate own_policy schema query fuel i scope =
    tree_sql own_policy schema (ComparisonExpression path op stored) (rc_nextParameterIndex (snd s)) scope"
proof -
  obtain source first t node where source: "parseSqlSource path = Inr source" and t: "addValue stored s = Inr (first, t)"
    and node: "node = (empty_node ComparisonNode)\<lparr>nd_source := source, nd_operation := comparison_number op,
              nd_firstParameter := first, nd_parameterCount := 1\<rparr>"
    and push: "push_node node t = (i, s')" using p by auto
  note one = addValue_builds [OF t s(1)]
  have "node_marker own_policy query node 0 = Inr (automatic_marker (rc_nextParameterIndex (snd s)))"
    by (rule own_node_marker [OF one [THEN conjunct1] push_extends [OF push s(2)]])
      (simp_all add: one node automatic_parameter_def)
  moreover have "nd_kind node = ComparisonNode" "nd_source node = source" "nd_operation node = comparison_number op"
    by (simp_all add: node empty_node_def)
  ultimately show ?thesis
    by (simp add: emit_pushed [OF push s(2,3)] emit_node_def emitSqlSource_def source parseSqlSource_plain [OF source])
qed

lemma list_emits:
  assumes p: "appendPredicate (ListExpression path op stored) s = Inr (i, s')"
    and s: "context_ok (snd s)" "extends query (fst s')" "i < fuel"
  shows "emitSqlPredicate own_policy schema query fuel i scope =
    tree_sql own_policy schema (ListExpression path op stored) (rc_nextParameterIndex (snd s)) scope"
proof -
  let ?k = "rc_nextParameterIndex (snd s)"
  obtain source t node where source: "parseSqlSource path = Inr source" and t: "add_values stored s = Inr t"
    and node: "node = (empty_node ListNode)\<lparr>nd_source := source, nd_operation := list_number op,
              nd_firstParameter := length (q_bindings (fst s)), nd_parameterCount := length stored\<rparr>"
    and push: "push_node node t = (i, s')" using p by (auto simp: Let_def)
  note one = add_values_builds [OF t s(1)]
  have "node_marker own_policy query node j = Inr (automatic_marker (?k + j))" if "j < length stored" for j
    by (rule own_node_marker [OF one push_extends [OF push s(2)]])
      (use that in \<open>simp_all add: node automatic_parameters_def automatic_parameter_def\<close>)
  then have "mapR (node_marker own_policy query node) [0..<length stored] = Inr (map (\<lambda>j. automatic_marker (?k + j)) [0..<length stored])"
    by (intro mapR_Inr_map) simp
  moreover have "map automatic_marker [?k..<?k + length stored] = map (\<lambda>j. automatic_marker (?k + j)) [0..<length stored]"
    by (simp add: map_add_upt [symmetric, of ?k] add.commute o_def)
  moreover have "nd_kind node = ListNode" "nd_source node = source" "nd_operation node = list_number op"
    "nd_parameterCount node = length stored"
    by (simp_all add: node empty_node_def)
  ultimately show ?thesis
    by (simp add: emit_pushed [OF push s(2,3)] emit_node_def source emit_list_def list_number_def)
qed

lemma between_emits:
  assumes p: "appendPredicate (BetweenExpression path op lower upper) s = Inr (i, s')"
    and s: "context_ok (snd s)" "extends query (fst s')" "i < fuel"
  shows "emitSqlPredicate own_policy schema query fuel i scope =
    tree_sql own_policy schema (BetweenExpression path op lower upper) (rc_nextParameterIndex (snd s)) scope"
proof -
  let ?k = "rc_nextParameterIndex (snd s)"
  obtain source first t second u node where source: "parseSqlSource path = Inr source"
    and t: "addValue lower s = Inr (first, t)" "addValue upper t = Inr (second, u)"
    and node: "node = (empty_node BetweenNode)\<lparr>nd_source := source, nd_operation := between_number op,
              nd_firstParameter := first, nd_parameterCount := 2\<rparr>"
    and push: "push_node node u = (i, s')" using p by auto
  note one = addValue_builds [OF t(1) s(1)]
  note two = addValue_builds [OF t(2) builds_context(1) [OF one [THEN conjunct1]]]
  note both = builds_trans [OF one [THEN conjunct1] two [THEN conjunct1]]
  have "node_marker own_policy query node 0 = Inr (automatic_marker ?k)"
    "node_marker own_policy query node 1 = Inr (automatic_marker (Suc ?k))"
    by (rule own_node_marker [OF both push_extends [OF push s(2)]];
        simp add: one node automatic_parameter_def builds_context(3) [OF one [THEN conjunct1]])+
  moreover have "nd_kind node = BetweenNode" "nd_source node = source" "nd_operation node = between_number op"
    by (simp_all add: node empty_node_def)
  ultimately show ?thesis
    by (simp add: emit_pushed [OF push s(2,3)] emit_node_def source between_number_def)
qed

lemma operand_emits:
  assumes "push_node node u = (i, s')" "extends query (fst s')" "i < fuel"
  shows "emitSqlPredicate own_policy schema query fuel i scope =
      emit_node own_policy schema query (emitSqlPredicate own_policy schema query (fuel - 1)) node scope"
    "extends query (fst u)" "built s u j parameters added \<Longrightarrow> j < fuel - 1"
  using emit_pushed [OF assms] push_extends [OF assms(1,2)] push_position [OF assms(1)] assms(3)
  by (auto simp: built_def)

lemma built_before: "built s t l parameters added \<Longrightarrow> built t u r parameters' added' \<Longrightarrow> l \<le> r"
  by (auto simp: built_def builds_context)

lemma appendPredicate_emits:
  assumes "appendPredicate p s = Inr (i, s')" "context_ok (snd s)" "extends query (fst s')" "i < fuel"
  shows "emitSqlPredicate own_policy schema query fuel i scope =
    tree_sql own_policy schema p (rc_nextParameterIndex (snd s)) scope"
  using assms
proof (induction p s arbitrary: i s' fuel scope rule: appendPredicate.induct)
  case (2 path op s)
  then obtain source where source: "parseSqlSource path = Inr source"
    and push: "push_node ((empty_node NullNode)\<lparr>nd_source := source, nd_operation := null_number op\<rparr>) s = (i, s')" by auto
  show ?case
    by (simp add: emit_pushed [OF push "2.prems"(3,4)] emit_node_def empty_node_def source null_number_def)
next
  case (5 left op right s)
  then obtain l t r u where t: "appendPredicate left s = Inr (l, t)" "appendPredicate right t = Inr (r, u)"
    and push: "push_node ((empty_node (logical_kind op))\<lparr>nd_left := Some l, nd_right := Some r\<rparr>) u = (i, s')" by auto
  note one = appendPredicate_builds [OF t(1) "5.prems"(2)]
  note two = appendPredicate_builds [OF t(2) built_ok(1) [OF one]]
  note root = operand_emits [OF push "5.prems"(3,4)]
  have "emitSqlPredicate own_policy schema query (fuel - 1) l scope = tree_sql own_policy schema left (rc_nextParameterIndex (snd s)) scope"
    by (rule "5.IH"(1) [OF t(1) "5.prems"(2) built_extends [OF two root(2)] le_less_trans [OF built_before [OF one two] root(3) [OF two]]])
  moreover have "emitSqlPredicate own_policy schema query (fuel - 1) r scope =
      tree_sql own_policy schema right (rc_nextParameterIndex (snd s) + value_count left) scope"
    using "5.IH"(2) [OF t(1) refl t(2) built_ok(1) [OF one] root(2) root(3) [OF two]] built_ok(2) [OF one] by simp
  ultimately show ?case
    by (simp add: root(1) emit_node_def empty_node_def logical_kind_def emit_operand_def)
next
  case (6 inner s)
  then obtain j t where t: "appendPredicate inner s = Inr (j, t)"
    and push: "push_node ((empty_node NotNode)\<lparr>nd_left := Some j\<rparr>) t = (i, s')" by auto
  note root = operand_emits [OF push "6.prems"(3,4)]
  have "emitSqlPredicate own_policy schema query (fuel - 1) j scope = tree_sql own_policy schema inner (rc_nextParameterIndex (snd s)) scope"
    by (rule "6.IH" [OF t "6.prems"(2) root(2) root(3) [OF appendPredicate_builds [OF t "6.prems"(2)]]])
  then show ?case by (simp add: root(1) emit_node_def empty_node_def emit_operand_def)
next
  case (7 sql parameters s)
  then obtain t where push: "push_node ((empty_node RawNode)\<lparr>nd_rawSql := sql\<rparr>) t = (i, s')" by auto
  show ?case by (simp add: emit_pushed [OF push "7.prems"(3,4)] emit_node_def empty_node_def)
next
  case (8 relation op s)
  then have push: "push_node (collection_node relation op None) s = (i, s')" by (simp add: collection_node_def empty_node_def)
  show ?case
    by (simp add: emit_pushed [OF push "8.prems"(3,4)] emit_node_def) (rule emitSqlCollection_alone)
next
  case (9 relation op element s)
  then obtain j t where t: "appendPredicate element s = Inr (j, t)"
    and push: "push_node (collection_node relation op (Some j)) t = (i, s')" by (auto simp: collection_node_def empty_node_def)
  note root = operand_emits [OF push "9.prems"(3,4)]
  have "emitSqlPredicate own_policy schema query (fuel - 1) j = tree_sql own_policy schema element (rc_nextParameterIndex (snd s))"
    by (intro ext) (rule "9.IH" [OF t "9.prems"(2) root(2) root(3) [OF appendPredicate_builds [OF t "9.prems"(2)]]])
  then show ?case
    by (simp add: root(1) emit_node_def) (rule emitSqlCollection_element, simp)
qed (blast intro: comparison_emits list_emits between_emits)+

lemma aggregate_comparison_emits:
  assumes p: "appendHaving (AggregateComparison expression op stored) s = Inr (i, s')"
    and s: "context_ok (snd s)" "extends query (fst s')" "i < fuel"
  shows "emitSqlPredicate own_policy schema query fuel i scope =
    having_sql own_policy schema (AggregateComparison expression op stored) (rc_nextParameterIndex (snd s)) scope"
proof -
  obtain source first t node where source: "aggregate_source expression = Inr source" and t: "addValue stored s = Inr (first, t)"
    and node: "node = (empty_node ComparisonNode)\<lparr>nd_source := source, nd_operation := comparison_number op,
              nd_firstParameter := first, nd_parameterCount := 1\<rparr>"
    and push: "push_node node t = (i, s')" using p by auto
  note one = addValue_builds [OF t s(1)]
  have "node_marker own_policy query node 0 = Inr (automatic_marker (rc_nextParameterIndex (snd s)))"
    by (rule own_node_marker [OF one [THEN conjunct1] push_extends [OF push s(2)]])
      (simp_all add: one node automatic_parameter_def)
  moreover have "nd_kind node = ComparisonNode" "nd_source node = source" "nd_operation node = comparison_number op"
    by (simp_all add: node empty_node_def)
  moreover have "src_isAggregate source" using source by (auto simp: aggregate_source_def)
  moreover have "6 \<le> comparison_number op \<longleftrightarrow> op \<in> {Like, NotLike}" by (cases op) auto
  ultimately show ?thesis
    by (simp add: emit_pushed [OF push s(2,3)] emit_node_def source)
qed

lemma appendHaving_emits:
  assumes "appendHaving p s = Inr (i, s')" "context_ok (snd s)" "extends query (fst s')" "i < fuel"
  shows "emitSqlPredicate own_policy schema query fuel i scope =
    having_sql own_policy schema p (rc_nextParameterIndex (snd s)) scope"
  using assms
proof (induction p s arbitrary: i s' fuel scope rule: appendHaving.induct)
  case (1 expression op stored s)
  then show ?case by (rule aggregate_comparison_emits)
next
  case (2 left op right s)
  then obtain l t r u where t: "appendHaving left s = Inr (l, t)" "appendHaving right t = Inr (r, u)"
    and push: "push_node ((empty_node (logical_kind op))\<lparr>nd_left := Some l, nd_right := Some r\<rparr>) u = (i, s')" by auto
  note one = appendHaving_builds [OF t(1) "2.prems"(2)]
  note two = appendHaving_builds [OF t(2) built_ok(1) [OF one]]
  note root = operand_emits [OF push "2.prems"(3,4)]
  have "emitSqlPredicate own_policy schema query (fuel - 1) l scope = having_sql own_policy schema left (rc_nextParameterIndex (snd s)) scope"
    by (rule "2.IH"(1) [OF t(1) "2.prems"(2) built_extends [OF two root(2)] le_less_trans [OF built_before [OF one two] root(3) [OF two]]])
  moreover have "emitSqlPredicate own_policy schema query (fuel - 1) r scope =
      having_sql own_policy schema right (rc_nextParameterIndex (snd s) + having_count left) scope"
    using "2.IH"(2) [OF t(1) refl t(2) built_ok(1) [OF one] root(2) root(3) [OF two]] built_ok(2) [OF one] by simp
  ultimately show ?case
    by (simp add: root(1) emit_node_def empty_node_def logical_kind_def emit_operand_def)
next
  case (3 inner s)
  then obtain j t where t: "appendHaving inner s = Inr (j, t)"
    and push: "push_node ((empty_node NotNode)\<lparr>nd_left := Some j\<rparr>) t = (i, s')" by auto
  note root = operand_emits [OF push "3.prems"(3,4)]
  have "emitSqlPredicate own_policy schema query (fuel - 1) j scope = having_sql own_policy schema inner (rc_nextParameterIndex (snd s)) scope"
    by (rule "3.IH" [OF t "3.prems"(2) root(2) root(3) [OF appendHaving_builds [OF t "3.prems"(2)]]])
  then show ?case by (simp add: root(1) emit_node_def empty_node_def emit_operand_def)
qed

end

end
