(* ===== verification/Orm_Statements.thy ===== *)
theory Orm_Statements
  imports Orm_Query_Correctness
begin

text \<open>
  Whole statements. Each \<^verbatim>\<open>SELECT\<close>, \<^verbatim>\<open>UPDATE\<close> and \<^verbatim>\<open>DELETE\<close> the builder renders is the direct rendering of its
  specification, binds exactly the values of the specification in order, has the same text whatever the values are, and
  is emitted without an access outside the program.
\<close>

section \<open>Reference rendering of a selection\<close>

fun clause_of :: "string \<Rightarrow> (stop, string) result option \<Rightarrow> (stop, string) result" where
  "clause_of keyword None = Inr []"
| "clause_of keyword (Some r) = bindR r (\<lambda>t. Inr (keyword @ t))"

definition filter_count :: "'v predicate option \<Rightarrow> nat" where
  "filter_count given = (case given of None \<Rightarrow> 0 | Some p \<Rightarrow> value_count p)"

definition select_base ::
  "'v select_spec \<Rightarrow> sql_projection list \<Rightarrow> sql_source list \<Rightarrow> sql_order list \<Rightarrow> sql_query" where
  "select_base spec projections groups orders =
     select_finish spec groups orders (empty_query\<lparr>q_isDistinct := sel_isDistinct spec, q_shouldJoin := sel_shouldJoin spec,
       q_projections := projections\<rparr>)"

definition select_text :: "policy \<Rightarrow> schema_view \<Rightarrow> model_data \<Rightarrow> 'v select_spec \<Rightarrow> (stop, string) result" where
  "select_text policy schema model spec =
     bindR (raised (mapR projection_of (sel_projections spec))) (\<lambda>projections.
     bindR (raised (mapR parseSqlSource (sel_groupBy spec))) (\<lambda>groups.
     bindR (raised (mapR order_of (sel_orderBy spec))) (\<lambda>orders.
     let query = select_base spec projections groups orders; scope = query_scope query model
     in bindR (emit_head policy schema query scope model) (\<lambda>head.
        bindR (clause_of '' WHERE '' (map_option (\<lambda>p. tree_sql policy schema p 0 scope) (sel_predicate spec))) (\<lambda>filter.
        bindR (emit_groups policy schema query scope) (\<lambda>groups.
        bindR (clause_of '' HAVING '' (map_option (\<lambda>p. having_sql policy schema p (filter_count (sel_predicate spec)) scope)
                 (sel_having spec))) (\<lambda>having.
        bindR (emit_orders policy schema query scope) (\<lambda>orders.
        bindR (po_pagination policy query) (\<lambda>page.
          Inr (head @ filter @ groups @ having @ orders @ page @ '';''))))))))))"

definition select_parameters :: "query_value select_spec \<Rightarrow> statement_parameter list" where
  "select_parameters spec =
     (case sel_predicate spec of None \<Rightarrow> [] | Some p \<Rightarrow> tree_parameters p 0)
     @ (case sel_having spec of None \<Rightarrow> [] | Some p \<Rightarrow> having_parameters p (filter_count (sel_predicate spec)))"

section \<open>Reference rendering of writes\<close>

definition assignment_text ::
  "policy \<Rightarrow> schema_view \<Rightarrow> sql_scope \<Rightarrow> nat \<times> string \<times> 'v option \<Rightarrow> (stop, string) result" where
  "assignment_text policy schema scope = (\<lambda>(j, path, stored).
     bindR (raised (parseSqlSource path)) (\<lambda>source.
     bindR (emitSqlColumn policy schema source scope False) (\<lambda>column. Inr (column @ '' = '' @ automatic_marker j))))"

definition update_text ::
  "policy \<Rightarrow> schema_view \<Rightarrow> model_data \<Rightarrow> (string \<times> 'v option) list \<Rightarrow> 'v predicate \<Rightarrow> (stop, string) result" where
  "update_text policy schema model assignments predicate =
     (let scope = query_scope (write_program UpdateOp) model
      in bindR (raised (po_quoteIdentifier policy (md_tableName model))) (\<lambda>table.
         bindR (mapR (assignment_text policy schema scope) (enumerate 0 assignments)) (\<lambda>texts.
         bindR (tree_sql policy schema predicate (length assignments) scope) (\<lambda>filter.
           Inr (''UPDATE '' @ table @ '' SET '' @ joinWith '', '' texts @ '' WHERE '' @ filter @ '';'')))))"

definition assignment_parameter ::
  "schema_view \<Rightarrow> model_data \<Rightarrow> nat \<times> string \<times> query_value option \<Rightarrow> statement_parameter" where
  "assignment_parameter schema model = (\<lambda>(j, path, stored).
     \<lparr>sm_name = automatic_name j, sm_value = stored,
      sm_nullType = (case stored of
         Some _ \<Rightarrow> None
       | None \<Rightarrow> (case bindR (raised (parseSqlSource path)) (\<lambda>source. resolveSqlColumn schema source model True) of
           Inr info \<Rightarrow> Some (ci_logicalType info) | Inl _ \<Rightarrow> None))\<rparr>)"

section \<open>Built programs\<close>

lemma built_frame: "built s s' i parameters added \<Longrightarrow> \<exists>nodes bindings. fst s' = (fst s)\<lparr>q_nodes := nodes, q_bindings := bindings\<rparr>"
  by (auto simp: built_def builds_def)

lemma built_parameters: "built s s' i parameters added \<Longrightarrow> rc_parameters (snd s') = rc_parameters (snd s) @ parameters"
  by (auto simp: built_def builds_def)

lemma built_position: "built s s' i parameters added \<Longrightarrow> extends query (fst s') \<Longrightarrow> i < length (q_nodes query)"
  by (auto simp: built_def extends_def)

lemma extends_predicate [simp]:
  "extends query (program\<lparr>q_predicate := x\<rparr>) = extends query program"
  "extends query (program\<lparr>q_having := x\<rparr>) = extends query program"
  by (simp_all add: extends_def)

lemma append_where_result:
  assumes "append_where p s = Inr s'" "context_ok (snd s)"
  shows "rc_parameters (snd s') = rc_parameters (snd s) @ tree_parameters p (rc_nextParameterIndex (snd s))"
    "context_ok (snd s')" "rc_nextParameterIndex (snd s') = rc_nextParameterIndex (snd s) + value_count p"
    "\<exists>nodes bindings i. fst s' = (fst s)\<lparr>q_nodes := nodes, q_bindings := bindings, q_predicate := Some i\<rparr>"
    "extends query (fst s') \<Longrightarrow> extends query (fst s)"
proof -
  obtain i program now where run: "appendPredicate p s = Inr (i, program, now)" and s': "s' = (program\<lparr>q_predicate := Some i\<rparr>, now)"
    using assms(1) by (auto simp: append_where_def)
  note b = appendPredicate_builds [OF run assms(2)]
  show "rc_parameters (snd s') = rc_parameters (snd s) @ tree_parameters p (rc_nextParameterIndex (snd s))"
    "context_ok (snd s')" "rc_nextParameterIndex (snd s') = rc_nextParameterIndex (snd s) + value_count p"
    using built_parameters [OF b] built_ok [OF b] by (simp_all add: s')
  show "\<exists>nodes bindings i. fst s' = (fst s)\<lparr>q_nodes := nodes, q_bindings := bindings, q_predicate := Some i\<rparr>"
    using built_frame [OF b] by (auto simp: s')
  show "extends query (fst s') \<Longrightarrow> extends query (fst s)"
    using built_extends [OF b] by (simp add: s')
qed

lemma append_having_result:
  assumes "append_having p s = Inr s'" "context_ok (snd s)"
  shows "rc_parameters (snd s') = rc_parameters (snd s) @ having_parameters p (rc_nextParameterIndex (snd s))"
    "context_ok (snd s')"
    "\<exists>nodes bindings i. fst s' = (fst s)\<lparr>q_nodes := nodes, q_bindings := bindings, q_having := Some i\<rparr>"
    "extends query (fst s') \<Longrightarrow> extends query (fst s)"
proof -
  obtain i program now where run: "appendHaving p s = Inr (i, program, now)" and s': "s' = (program\<lparr>q_having := Some i\<rparr>, now)"
    using assms(1) by (auto simp: append_having_def)
  note b = appendHaving_builds [OF run assms(2)]
  show "rc_parameters (snd s') = rc_parameters (snd s) @ having_parameters p (rc_nextParameterIndex (snd s))"
    "context_ok (snd s')"
    using built_parameters [OF b] built_ok [OF b] by (simp_all add: s')
  show "\<exists>nodes bindings i. fst s' = (fst s)\<lparr>q_nodes := nodes, q_bindings := bindings, q_having := Some i\<rparr>"
    using built_frame [OF b] by (auto simp: s')
  show "extends query (fst s') \<Longrightarrow> extends query (fst s)"
    using built_extends [OF b] by (simp add: s')
qed

lemma frame_simps:
  fixes query :: sql_query and nodes bindings chosen having
  assumes "q_operation query = SelectOp"
  defines "query' \<equiv> query\<lparr>q_nodes := nodes, q_bindings := bindings, q_predicate := chosen, q_having := having\<rparr>"
  shows "emit_head policy schema query' scope model = emit_head policy schema query scope model"
    "emit_groups policy schema query' scope = emit_groups policy schema query scope"
    "emit_orders policy schema query' scope = emit_orders policy schema query scope"
    "po_pagination (runtime_policy dialect) query' = po_pagination (runtime_policy dialect) query"
    "query_scope query' model = query_scope query model"
  using assms(1)
  by (simp_all add: query'_def emit_head_def emit_select_list_def emit_groups_def emit_orders_def runtime_policy_def
      dialect_pagination_def query_scope_def)

lemma select_base_operation [simp]: "q_operation (select_base spec projections groups orders) = SelectOp"
  by (simp add: select_base_def select_finish_def empty_query_def)

lemma new_context_ok [simp]: "context_ok (new_context model dialect join write)" "rc_nextParameterIndex (new_context model dialect join write) = 0"
  "rc_parameters (new_context model dialect join write) = []"
  by (simp_all add: new_context_def context_ok_def)

section \<open>Assignments\<close>

lemma mapR_run: "mapR f xs = mapR (\<lambda>r. r) (map f xs)"
  by (induction xs) auto

lemma raised_Inr [simp]: "raised r = Inr x \<longleftrightarrow> r = Inr x"
  by (cases r) auto

lemma addNull_builds:
  "addNull type s = Inr (first, s') \<Longrightarrow> context_ok (snd s) \<Longrightarrow>
   builds s s' [] [\<lparr>sm_name = automatic_name (rc_nextParameterIndex (snd s)), sm_value = None, sm_nullType = Some type\<rparr>] 1 \<and>
   first = length (q_bindings (fst s))"
  by (cases s) (auto simp: addNull_def addNullParameter_def dest!: add_parameter_builds)

lemma append_assignment_builds:
  assumes "append_assignment schema model (path, stored) s = Inr s'" "context_ok (snd s)"
  obtains source t where "parseSqlSource path = Inr source"
    "builds s t [] [assignment_parameter schema model (rc_nextParameterIndex (snd s), path, stored)] 1"
    "s' = ((fst t)\<lparr>q_assignments := q_assignments (fst t) @ [\<lparr>as_source = source, as_parameter = length (q_bindings (fst s))\<rparr>]\<rparr>, snd t)"
proof -
  obtain source info first t where source: "parseSqlSource path = Inr source" and info: "resolveSqlColumn schema source model True = Inr info"
    and t: "(case stored of Some v \<Rightarrow> addValue v s | None \<Rightarrow> addNull (ci_logicalType info) s) = Inr (first, t)"
    and s': "s' = ((fst t)\<lparr>q_assignments := q_assignments (fst t) @ [\<lparr>as_source = source, as_parameter = first\<rparr>]\<rparr>, snd t)"
    using assms(1) by (auto simp: append_assignment_def)
  have "builds s t [] [assignment_parameter schema model (rc_nextParameterIndex (snd s), path, stored)] 1 \<and> first = length (q_bindings (fst s))"
    using t addValue_builds [OF _ assms(2)] addNull_builds [OF _ assms(2)] source info
    by (cases stored) (auto simp: assignment_parameter_def automatic_parameter_def)
  with source s' show thesis by (auto intro: that)
qed

lemma assignments_built:
  fixes schema model dialect
  defines "start \<equiv> (write_program UpdateOp, new_context model dialect False True)"
  assumes "foldR (append_assignment schema model) xs start = Inr s"
  shows "\<exists>sources bindings. mapR (\<lambda>x. parseSqlSource (fst x)) xs = Inr sources \<and>
    fst s = (write_program UpdateOp)\<lparr>q_bindings := bindings,
      q_assignments := map2 (\<lambda>source j. \<lparr>as_source = source, as_parameter = j\<rparr>) sources [0..<length xs]\<rparr> \<and>
    map parameterName bindings = map automatic_name [0..<length xs] \<and> context_ok (snd s) \<and>
    rc_nextParameterIndex (snd s) = length xs \<and> rc_parameters (snd s) = map (assignment_parameter schema model) (enumerate 0 xs)"
  using assms(2)
proof (induction xs arbitrary: s rule: rev_induct)
  case Nil
  then show ?case by (auto simp: start_def write_program_def empty_query_def)
next
  case (snoc x xs)
  obtain path stored where x: "x = (path, stored)" by (cases x)
  from snoc.prems obtain t where t: "foldR (append_assignment schema model) xs start = Inr t"
    and run: "append_assignment schema model (path, stored) t = Inr s"
    by (auto simp: foldR_append x)
  from snoc.IH [OF t] obtain sources bindings where IH: "mapR (\<lambda>x. parseSqlSource (fst x)) xs = Inr sources"
    "fst t = (write_program UpdateOp)\<lparr>q_bindings := bindings,
      q_assignments := map2 (\<lambda>source j. \<lparr>as_source = source, as_parameter = j\<rparr>) sources [0..<length xs]\<rparr>"
    "map parameterName bindings = map automatic_name [0..<length xs]" "context_ok (snd t)"
    "rc_nextParameterIndex (snd t) = length xs" "rc_parameters (snd t) = map (assignment_parameter schema model) (enumerate 0 xs)"
    by blast
  obtain source u where u: "parseSqlSource path = Inr source"
    "builds t u [] [assignment_parameter schema model (rc_nextParameterIndex (snd t), path, stored)] 1"
    "s = ((fst u)\<lparr>q_assignments := q_assignments (fst u) @ [\<lparr>as_source = source, as_parameter = length (q_bindings (fst t))\<rparr>]\<rparr>, snd u)"
    by (rule append_assignment_builds [OF run IH(4)])
  have len: "length sources = length xs" "length bindings = length xs"
    using mapR_length [OF IH(1)] map_eq_imp_length_eq [OF IH(3)] by simp_all
  have "mapR (\<lambda>x. parseSqlSource (fst x)) (xs @ [x]) = Inr (sources @ [source])"
    using IH(1) u(1) by (simp add: mapR_Inr_iff x list_all2_appendI)
  with IH u(2,3) len show ?case
    by (auto simp: builds_def x enumerate_append_eq assignment_parameter_def)
qed

context dialect_contract
begin

lemma where_clause:
  assumes "append_where p s = Inr s'" "context_ok (snd s)" "extends query (fst s')" "q_predicate query = q_predicate (fst s')"
  shows "emit_clause own_policy schema query scope keyword (q_predicate query) =
      clause_of keyword (Some (tree_sql own_policy schema p (rc_nextParameterIndex (snd s)) scope))"
proof -
  obtain i program now where run: "appendPredicate p s = Inr (i, program, now)" and s': "s' = (program\<lparr>q_predicate := Some i\<rparr>, now)"
    using assms(1) by (auto simp: append_where_def)
  have query: "extends query (fst (program, now))" using assms(3) by (simp add: s')
  show ?thesis
    using appendPredicate_emits [OF run assms(2) query built_position [OF appendPredicate_builds [OF run assms(2)] query]]
    by (simp add: assms(4) s' emit_clause_def)
qed

lemma having_clause:
  assumes "append_having p s = Inr s'" "context_ok (snd s)" "extends query (fst s')" "q_having query = q_having (fst s')"
  shows "emit_clause own_policy schema query scope keyword (q_having query) =
      clause_of keyword (Some (having_sql own_policy schema p (rc_nextParameterIndex (snd s)) scope))"
proof -
  obtain i program now where run: "appendHaving p s = Inr (i, program, now)" and s': "s' = (program\<lparr>q_having := Some i\<rparr>, now)"
    using assms(1) by (auto simp: append_having_def)
  have query: "extends query (fst (program, now))" using assms(3) by (simp add: s')
  show ?thesis
    using appendHaving_emits [OF run assms(2) query built_position [OF appendHaving_builds [OF run assms(2)] query]]
    by (simp add: assms(4) s' emit_clause_def)
qed

text \<open>An absent filter leaves the state as it is; a present one appends its clause.\<close>

lemma optional_where:
  assumes "(case given of None \<Rightarrow> Inr s | Some p \<Rightarrow> append_where p s) = Inr t" "context_ok (snd s)"
    "rc_nextParameterIndex (snd s) = 0" "q_predicate (fst s) = None"
  shows "context_ok (snd t) \<and> rc_nextParameterIndex (snd t) = filter_count given \<and>
      rc_parameters (snd t) = rc_parameters (snd s) @ (case given of None \<Rightarrow> [] | Some p \<Rightarrow> tree_parameters p 0) \<and>
      (\<exists>nodes bindings i. fst t = (fst s)\<lparr>q_nodes := nodes, q_bindings := bindings, q_predicate := i\<rparr>)"
    and "extends query (fst t) \<Longrightarrow> q_predicate query = q_predicate (fst t) \<Longrightarrow>
      emit_clause own_policy schema query scope keyword (q_predicate query) =
      clause_of keyword (map_option (\<lambda>p. tree_sql own_policy schema p 0 scope) given)"
proof -
  show "context_ok (snd t) \<and> rc_nextParameterIndex (snd t) = filter_count given \<and>
      rc_parameters (snd t) = rc_parameters (snd s) @ (case given of None \<Rightarrow> [] | Some p \<Rightarrow> tree_parameters p 0) \<and>
      (\<exists>nodes bindings i. fst t = (fst s)\<lparr>q_nodes := nodes, q_bindings := bindings, q_predicate := i\<rparr>)"
  proof (cases given)
    case None
    with assms have "t = s" by simp
    moreover have "\<exists>nodes bindings i. fst s = (fst s)\<lparr>q_nodes := nodes, q_bindings := bindings, q_predicate := i\<rparr>"
      by (intro exI [of _ "q_nodes (fst s)"] exI [of _ "q_bindings (fst s)"] exI [of _ "q_predicate (fst s)"]) simp
    ultimately show ?thesis using None assms by (simp add: filter_count_def)
  next
    case (Some p)
    then have run: "append_where p s = Inr t" using assms(1) by simp
    from append_where_result [OF run assms(2)] Some assms(3) show ?thesis by (auto simp: filter_count_def)
  qed
  show "extends query (fst t) \<Longrightarrow> q_predicate query = q_predicate (fst t) \<Longrightarrow>
      emit_clause own_policy schema query scope keyword (q_predicate query) =
      clause_of keyword (map_option (\<lambda>p. tree_sql own_policy schema p 0 scope) given)"
    using assms where_clause [of _ s t query schema scope keyword] by (cases given) (auto simp: emit_clause_def)
qed

lemma optional_having:
  assumes "(case given of None \<Rightarrow> Inr s | Some p \<Rightarrow> append_having p s) = Inr t" "context_ok (snd s)" "q_having (fst s) = None"
  shows "context_ok (snd t) \<and>
      rc_parameters (snd t) = rc_parameters (snd s)
        @ (case given of None \<Rightarrow> [] | Some p \<Rightarrow> having_parameters p (rc_nextParameterIndex (snd s))) \<and>
      (\<exists>nodes bindings i. fst t = (fst s)\<lparr>q_nodes := nodes, q_bindings := bindings, q_having := i\<rparr>)"
    and "extends query (fst t) \<Longrightarrow> extends query (fst s)"
    and "extends query (fst t) \<Longrightarrow> q_having query = q_having (fst t) \<Longrightarrow>
      emit_clause own_policy schema query scope keyword (q_having query) =
      clause_of keyword (map_option (\<lambda>p. having_sql own_policy schema p (rc_nextParameterIndex (snd s)) scope) given)"
proof -
  show "context_ok (snd t) \<and>
      rc_parameters (snd t) = rc_parameters (snd s)
        @ (case given of None \<Rightarrow> [] | Some p \<Rightarrow> having_parameters p (rc_nextParameterIndex (snd s))) \<and>
      (\<exists>nodes bindings i. fst t = (fst s)\<lparr>q_nodes := nodes, q_bindings := bindings, q_having := i\<rparr>)"
  proof (cases given)
    case None
    with assms have "t = s" by simp
    moreover have "\<exists>nodes bindings i. fst s = (fst s)\<lparr>q_nodes := nodes, q_bindings := bindings, q_having := i\<rparr>"
      by (intro exI [of _ "q_nodes (fst s)"] exI [of _ "q_bindings (fst s)"] exI [of _ "q_having (fst s)"]) simp
    ultimately show ?thesis using None assms by simp
  next
    case (Some p)
    then have run: "append_having p s = Inr t" using assms(1) by simp
    from append_having_result [OF run assms(2)] Some show ?thesis by auto
  qed
  show "extends query (fst t) \<Longrightarrow> extends query (fst s)"
    using assms append_having_result(4) [OF _ assms(2)] by (cases given) auto
  show "extends query (fst t) \<Longrightarrow> q_having query = q_having (fst t) \<Longrightarrow>
      emit_clause own_policy schema query scope keyword (q_having query) =
      clause_of keyword (map_option (\<lambda>p. having_sql own_policy schema p (rc_nextParameterIndex (snd s)) scope) given)"
    using assms having_clause [of _ s t query schema scope keyword] by (cases given) (auto simp: emit_clause_def)
qed

lemma select_rendered:
  assumes "select_program model spec dialect = Inr (program, now)"
  shows "emitSql own_policy schema program model = select_text own_policy schema model spec"
    "rc_parameters now = select_parameters spec" "context_ok now"
proof -
  obtain projections t u groups orders where
    sources: "mapR projection_of (sel_projections spec) = Inr projections" "mapR parseSqlSource (sel_groupBy spec) = Inr groups"
      "mapR order_of (sel_orderBy spec) = Inr orders"
    and t: "(case sel_predicate spec of None \<Rightarrow> Inr (select_start model spec dialect projections)
        | Some p \<Rightarrow> append_where p (select_start model spec dialect projections)) = Inr t"
    and u: "(case sel_having spec of None \<Rightarrow> Inr t | Some p \<Rightarrow> append_having p t) = Inr (u, now)"
    and program: "program = select_finish spec groups orders u"
    using assms by (auto simp: select_program_def appendSelectPredicates_def)
  have start: "context_ok (snd (select_start model spec dialect projections))"
    "rc_nextParameterIndex (snd (select_start model spec dialect projections)) = 0"
    "q_predicate (fst (select_start model spec dialect projections)) = None"
    by (simp_all add: select_start_def empty_query_def)
  note one = optional_where [OF t start]
  then have t_facts: "context_ok (snd t)" "q_having (fst t) = None" "rc_nextParameterIndex (snd t) = filter_count (sel_predicate spec)"
    by (auto simp: select_start_def empty_query_def)
  note two = optional_having [OF u t_facts(1,2)]
  obtain nodes' bindings' chosen where
    fst_t: "fst t = (fst (select_start model spec dialect projections))\<lparr>q_nodes := nodes', q_bindings := bindings', q_predicate := chosen\<rparr>"
    using one(1) by blast
  obtain nodes bindings having where u_eq: "u = (fst t)\<lparr>q_nodes := nodes, q_bindings := bindings, q_having := having\<rparr>"
    using two(1) by auto
  have whole: "program = (select_base spec projections groups orders)
      \<lparr>q_nodes := nodes, q_bindings := bindings, q_predicate := chosen, q_having := having\<rparr>"
    and same: "q_predicate program = q_predicate (fst t)"
    by (simp_all add: program u_eq fst_t select_start_def select_base_def select_finish_def empty_query_def)
  have query: "extends program (fst (u, now))" "q_having program = q_having (fst (u, now))"
    by (simp_all add: program select_finish_def extends_def)
  show "rc_parameters now = select_parameters spec" "context_ok now"
    using one(1) two(1) t_facts(3) by (simp_all add: select_start_def select_parameters_def cong: option.case_cong)
  have "emitSql own_policy schema program model = select_text own_policy schema model spec"
    unfolding emitSql_def Let_def one(2) [OF two(2) [OF query(1)] same] two(3) [OF query] select_text_def sources t_facts(3)
    by (simp add: whole frame_simps)
  then show "emitSql own_policy schema program model = select_text own_policy schema model spec" .
qed

lemma select_statement:
  "renderSelectStatement schema model spec dialect =
     bindR (raised (select_program model spec dialect)) (\<lambda>_.
     bindR (select_text own_policy schema model spec) (\<lambda>sql. Inr \<lparr>st_sql = sql, st_parameters = select_parameters spec\<rparr>))"
proof (cases "select_program model spec dialect")
  case (Inr state)
  then obtain program now where state: "select_program model spec dialect = Inr (program, now)" by (cases state) simp
  show ?thesis
    by (simp add: renderSelectStatement_def emit_statement_def state select_rendered(1,2) [OF state])
qed (simp add: renderSelectStatement_def)

lemma select_distinct:
  "renderSelectStatement schema model spec dialect = Inr result \<Longrightarrow> distinct (map sm_name (st_parameters result))"
  by (cases "select_program model spec dialect")
    (auto simp: renderSelectStatement_def emit_statement_def context_ok_def dest!: select_rendered(3))

text \<open>A deletion is the deletion of the table with the text of its predicate, whose values are numbered from 0.\<close>

lemma remove_statement:
  "renderRemoveStatement schema model predicate dialect =
     bindR (raised (append_where predicate (write_program RemoveOp, new_context model dialect False True))) (\<lambda>_.
     bindR (raised (sd_quoteIdentifier dialect (md_tableName model))) (\<lambda>table.
     bindR (tree_sql own_policy schema predicate 0 (query_scope (write_program RemoveOp) model)) (\<lambda>filter.
       Inr \<lparr>st_sql = ''DELETE FROM '' @ table @ '' WHERE '' @ filter @ '';'', st_parameters = tree_parameters predicate 0\<rparr>)))"
proof (cases "append_where predicate (write_program RemoveOp, new_context model dialect False True)")
  case (Inr state)
  then obtain program now where state: "append_where predicate (write_program RemoveOp, new_context model dialect False True) = Inr (program, now)"
    by (cases state) simp
  note res = append_where_result [OF state]
  obtain nodes bindings i where program: "program = (write_program RemoveOp)\<lparr>q_nodes := nodes, q_bindings := bindings, q_predicate := Some i\<rparr>"
    using res(4) by auto
  have clause: "emit_clause own_policy schema program scope keyword (Some i) =
      clause_of keyword (Some (tree_sql own_policy schema predicate 0 scope))" for scope keyword
    using where_clause [OF state, of program schema scope keyword] by (simp add: program)
  have program_scope: "query_scope program model = query_scope (write_program RemoveOp) model"
    and program_head: "emit_head own_policy schema program scope model =
      bindR (raised (sd_quoteIdentifier dialect (md_tableName model))) (\<lambda>table. Inr (''DELETE FROM '' @ table))"
    and rest: "emit_groups own_policy schema program scope = Inr []" "emit_orders own_policy schema program scope = Inr []"
      "po_pagination own_policy program = Inr []" "q_having program = None" "q_predicate program = Some i"
      "emit_clause own_policy schema program scope keyword None = Inr []" for scope keyword
    by (simp_all add: program query_scope_def write_program_def empty_query_def emit_head_def runtime_policy_def
        emit_groups_def emit_orders_def dialect_pagination_def no_page emit_clause_def)
  have "emitSql own_policy schema program model =
      bindR (raised (sd_quoteIdentifier dialect (md_tableName model))) (\<lambda>table.
      bindR (tree_sql own_policy schema predicate 0 (query_scope (write_program RemoveOp) model)) (\<lambda>filter.
        Inr (''DELETE FROM '' @ table @ '' WHERE '' @ filter @ '';'')))"
    unfolding emitSql_def Let_def
    by (simp add: program_scope clause program_head rest bindR_assoc)
  then show ?thesis
    using res(1) by (simp add: renderRemoveStatement_def emit_statement_def state bindR_assoc)
qed (simp add: renderRemoveStatement_def)

lemma assignments_emit:
  assumes run: "foldR (append_assignment schema model) xs (write_program UpdateOp, new_context model dialect False True) = Inr s"
    and program: "q_assignments program = q_assignments (fst s)" "extends program (fst s)"
  shows "mapR (emit_assignment own_policy schema program scope) (q_assignments program) =
    mapR (assignment_text own_policy schema scope) (enumerate 0 xs)"
proof -
  obtain sources bindings where built: "mapR (\<lambda>x. parseSqlSource (fst x)) xs = Inr sources"
    "q_assignments (fst s) = map2 (\<lambda>source j. \<lparr>as_source = source, as_parameter = j\<rparr>) sources [0..<length xs]"
    "q_bindings (fst s) = bindings" "map parameterName bindings = map automatic_name [0..<length xs]"
    using assignments_built [OF run] by auto
  have len: "length sources = length xs" "length bindings = length xs"
    using mapR_length [OF built(1)] map_eq_imp_length_eq [OF built(4)] by simp_all
  have one: "emit_assignment own_policy schema program scope (q_assignments program ! j) =
      assignment_text own_policy schema scope (enumerate 0 xs ! j)" if "j < length xs" for j
  proof -
    have "parameterName (bindings ! j) = automatic_name j"
      using arg_cong [OF built(4), of "\<lambda>ns. ns ! j"] that len by simp
    then have "binding_name program j = Inr (automatic_name j)"
      using program(2) that len by (auto simp: binding_name_def extends_def built(3) nth_append)
    moreover have "parseSqlSource (fst (xs ! j)) = Inr (sources ! j)"
      using built(1) that by (simp add: mapR_Inr_iff list_all2_conv_all_nth)
    ultimately show ?thesis
      using that len by (cases "xs ! j") (simp add: program(1) built(2) emit_assignment_def assignment_text_def nth_enumerate_eq)
  qed
  have "map (emit_assignment own_policy schema program scope) (q_assignments program) =
      map (assignment_text own_policy schema scope) (enumerate 0 xs)"
    using one len by (intro nth_equalityI) (simp_all add: program(1) built(2))
  then show ?thesis using mapR_run by metis
qed

lemma update_statement:
  fixes schema model
  assumes "upd_assignments spec \<noteq> []" "upd_predicate spec = Some predicate"
  defines "start \<equiv> (write_program UpdateOp, new_context model dialect False True)"
  shows "renderUpdateStatement schema model spec dialect =
     bindR (foldR (append_assignment schema model) (upd_assignments spec) start) (\<lambda>s.
     bindR (raised (append_where predicate s)) (\<lambda>_.
     bindR (update_text own_policy schema model (upd_assignments spec) predicate) (\<lambda>sql.
       Inr \<lparr>st_sql = sql, st_parameters = map (assignment_parameter schema model) (enumerate 0 (upd_assignments spec))
              @ tree_parameters predicate (length (upd_assignments spec))\<rparr>)))"
proof (cases "foldR (append_assignment schema model) (upd_assignments spec) start")
  case (Inr s)
  note built = assignments_built [OF Inr [unfolded start_def]]
  then obtain sources B where len: "length sources = length (upd_assignments spec)"
    and s_eq: "fst s = (write_program UpdateOp)\<lparr>q_bindings := B, q_assignments :=
      map2 (\<lambda>source j. \<lparr>as_source = source, as_parameter = j\<rparr>) sources [0..<length (upd_assignments spec)]\<rparr>"
    using mapR_length by blast
  show ?thesis
  proof (cases "append_where predicate s")
    case state: (Inr t)
    have ok: "context_ok (snd s)" "rc_nextParameterIndex (snd s) = length (upd_assignments spec)"
      "rc_parameters (snd s) = map (assignment_parameter schema model) (enumerate 0 (upd_assignments spec))"
      using built by auto
    note res = append_where_result [OF state ok(1)]
    obtain nodes bindings i where t: "fst t = (fst s)\<lparr>q_nodes := nodes, q_bindings := bindings, q_predicate := Some i\<rparr>"
      using res(4) by auto
    have clause: "emit_clause own_policy schema (fst t) scope keyword (Some i) =
        clause_of keyword (Some (tree_sql own_policy schema predicate (length (upd_assignments spec)) scope))" for scope keyword
      using where_clause [OF state ok(1), of "fst t" schema scope keyword] by (simp add: t ok(2))
    have names: "mapR (emit_assignment own_policy schema (fst t) scope) (q_assignments (fst t)) =
        mapR (assignment_text own_policy schema scope) (enumerate 0 (upd_assignments spec))" for scope
      by (rule assignments_emit [OF Inr [unfolded start_def]]) (use res(5) [of "fst t"] in \<open>simp_all add: t\<close>)
    have frame: "query_scope (fst t) model = query_scope (write_program UpdateOp) model" "q_operation (fst t) = UpdateOp"
      "q_assignments (fst t) \<noteq> []" "q_predicate (fst t) = Some i" "q_having (fst t) = None"
      "emit_groups own_policy schema (fst t) scope = Inr []" "emit_orders own_policy schema (fst t) scope = Inr []"
      "po_pagination own_policy (fst t) = Inr []" "emit_clause own_policy schema (fst t) scope keyword None = Inr []" for scope keyword
      using assms(1) len
      by (auto simp: t s_eq query_scope_def write_program_def empty_query_def runtime_policy_def emit_groups_def emit_orders_def
          dialect_pagination_def no_page emit_clause_def)
    have "emitSql own_policy schema (fst t) model = update_text own_policy schema model (upd_assignments spec) predicate"
      by (simp add: emitSql_def update_text_def Let_def frame clause names emit_head_def bindR_assoc)
    then show ?thesis
      using assms(1,2) res(1) ok(2,3)
      by (simp add: renderUpdateStatement_def emit_statement_def Inr state start_def [symmetric] case_prod_beta)
  qed (use assms Inr in \<open>simp add: renderUpdateStatement_def\<close>)
qed (use assms in \<open>simp add: renderUpdateStatement_def\<close>)

end

end
