(* ===== verification/Orm_Statement_Safety.thy ===== *)
theory Orm_Statement_Safety
  imports Orm_Statements
begin

text \<open>
  Safety of the rendered statements, on top of the equations of \<open>Orm_Statements\<close>: no access outside a program and no
  endless recursion; the text and the errors do not depend on the values; and the statement a compiled query emits
  with the policy of its flavor is the one the dialect emits at run time.
\<close>

section \<open>No stuck emission\<close>

named_theorems regular_intros \<open>results that are a value or an exception\<close>

definition regular :: "(stop, 'a) result \<Rightarrow> bool" where
  "regular r \<longleftrightarrow> r \<noteq> Inl OutOfBounds \<and> r \<noteq> Inl Endless"

lemma regular_Inr [regular_intros]: "regular (Inr x)"
  by (simp add: regular_def)

lemma regular_raised [regular_intros]: "regular (raised r)"
  by (cases r) (simp_all add: regular_def)

lemma regular_Raised [regular_intros]: "regular (Inl (Raised e))" "regular (Inl NoValue)"
  by (simp_all add: regular_def)

lemma regular_throwIf [regular_intros]: "regular (throwIf b (Raised e))"
  by (simp add: regular_def)

lemma regular_bindR [regular_intros]: "regular m \<Longrightarrow> (\<And>x. m = Inr x \<Longrightarrow> regular (f x)) \<Longrightarrow> regular (bindR m f)"
  by (cases m) (auto simp: regular_def)

lemma regular_if [regular_intros]: "regular r \<Longrightarrow> regular s \<Longrightarrow> regular (if b then r else s)"
  by simp

lemma regular_option [regular_intros]: "regular r \<Longrightarrow> (\<And>x. regular (f x)) \<Longrightarrow> regular (case_option r f x)"
  by (cases x) simp_all

lemma regular_prod [regular_intros]: "(\<And>a b. regular (f a b)) \<Longrightarrow> regular (case_prod f x)"
  by (cases x) simp_all

lemma regular_mapR [regular_intros]: "(\<And>x. regular (f x)) \<Longrightarrow> regular (mapR f xs)"
  by (induction xs) (auto intro!: regular_intros)

lemma regular_foldR [regular_intros]: "(\<And>x s. regular (f x s)) \<Longrightarrow> regular (foldR f xs s)"
  by (induction xs arbitrary: s) (auto intro!: regular_intros)

lemma regular_resolve [regular_intros]: "regular (resolveSqlColumn schema source model write)"
  unfolding resolveSqlColumn_def type_value_def
  by (auto intro!: regular_intros split: list.split)

lemma regular_column [regular_intros]: "regular (emitSqlColumn policy schema source scope qualify)"
  unfolding emitSqlColumn_def Let_def by (intro regular_intros)

lemma regular_source [regular_intros]: "regular (emitSqlSource policy schema source scope projection)"
  unfolding emitSqlSource_def Let_def by (intro regular_intros)

lemma regular_collection [regular_intros]:
  "(\<And>i nested. regular (emit i nested)) \<Longrightarrow> regular (emitSqlCollection policy schema emit node scope)"
  unfolding emitSqlCollection_def Let_def by (intro regular_intros)

lemma regular_tree [regular_intros]: "regular (tree_sql policy schema p k scope)"
proof (induction policy schema p k scope rule: tree_sql.induct)
  case (8 policy schema relation op k scope)
  have "emitSqlCollection policy schema (\<lambda>_ _. Inl OutOfBounds) (collection_node relation op None) scope =
      emitSqlCollection policy schema (\<lambda>_ _. Inr []) (collection_node relation op None) scope"
    by (rule emitSqlCollection_alone)
  then show ?case by (simp add: regular_intros)
qed (auto intro!: regular_intros)

lemma regular_having [regular_intros]: "regular (having_sql policy schema p k scope)"
  by (induction p arbitrary: k) (auto intro!: regular_intros)

lemma regular_clause [regular_intros]: "(\<And>r. x = Some r \<Longrightarrow> regular r) \<Longrightarrow> regular (clause_of keyword x)"
  by (cases x) (auto intro!: regular_intros)

lemma regular_page [regular_intros]: "regular (po_pagination (runtime_policy dialect) query)"
  unfolding runtime_policy_def dialect_pagination_def by (simp add: regular_intros)

lemma regular_groups [regular_intros]: "regular (emit_groups policy schema query scope)" "regular (emit_orders policy schema query scope)"
  unfolding emit_groups_def emit_orders_def emit_order_def by (intro regular_intros)+

lemma regular_select: "regular (select_text (runtime_policy dialect) schema model spec)"
proof -
  have "regular (emit_head (runtime_policy dialect) schema (select_base spec projections groups orders) scope model)"
    for projections groups orders scope
    unfolding emit_head_def emit_select_list_def by (simp add: regular_intros)
  then show ?thesis
    unfolding select_text_def Let_def by (intro regular_intros) (auto intro: regular_intros)
qed

lemma regular_update: "regular (update_text (runtime_policy dialect) schema model assignments predicate)"
  unfolding update_text_def Let_def assignment_text_def by (intro regular_intros)

lemma regular_assignment: "regular (append_assignment schema model x s)"
  unfolding append_assignment_def case_prod_beta by (intro regular_intros)

section \<open>Values do not influence the text\<close>

text \<open>Two states of the builder that differ in the stored values only.\<close>

definition alike :: "building \<Rightarrow> building \<Rightarrow> bool" where
  "alike s t \<longleftrightarrow> q_nodes (fst s) = q_nodes (fst t) \<and> length (q_bindings (fst s)) = length (q_bindings (fst t)) \<and>
     rc_parameterNames (snd s) = rc_parameterNames (snd t) \<and> rc_nextParameterIndex (snd s) = rc_nextParameterIndex (snd t) \<and>
     rc_dialect (snd s) = rc_dialect (snd t)"

abbreviation alike_results :: "('e, nat \<times> building) result \<Rightarrow> ('e, nat \<times> building) result \<Rightarrow> bool" where
  "alike_results \<equiv> rel_sum (=) (rel_prod (=) alike)"

lemma rel_bindR:
  "rel_sum (=) R m m' \<Longrightarrow> (\<And>x y. R x y \<Longrightarrow> rel_sum (=) S (f x) (g y)) \<Longrightarrow> rel_sum (=) S (bindR m f) (bindR m' g)"
  by (cases m; cases m') auto

lemma alike_refl [simp]: "alike s s"
  by (simp add: alike_def)

lemma alike_push: "alike s t \<Longrightarrow> rel_prod (=) alike (push_node node s) (push_node node t)"
  by (cases s; cases t) (auto simp: push_node_def alike_def)

lemma alike_addValue: "alike s t \<Longrightarrow> alike_results (addValue v s) (addValue w t)"
  by (cases s; cases t; cases "sd_bindMarker (rc_dialect (snd t))
        (automatic_name (free_index (rc_parameterNames (snd t)) (rc_nextParameterIndex (snd t))))")
    (auto simp: addValue_def addAutomaticParameter_def add_parameter_def push_binding_def alike_def Let_def)

lemma alike_addNull: "alike s t \<Longrightarrow> alike_results (addNull type s) (addNull type t)"
  by (cases s; cases t; cases "sd_bindMarker (rc_dialect (snd t))
        (automatic_name (free_index (rc_parameterNames (snd t)) (rc_nextParameterIndex (snd t))))")
    (auto simp: addNull_def addNullParameter_def add_parameter_def push_binding_def alike_def Let_def)

lemma alike_add_values:
  "alike s t \<Longrightarrow> length vs = length ws \<Longrightarrow> rel_sum (=) alike (add_values vs s) (add_values ws t)"
proof (induction vs ws arbitrary: s t rule: list_induct2')
  case (4 v vs w ws)
  then show ?case
    unfolding add_values_def foldR.simps
    by (intro rel_bindR [where R = alike] rel_bindR [OF alike_addValue]) (auto simp: add_values_def [symmetric])
qed (auto simp: add_values_def)

lemma alike_raw:
  "alike s t \<Longrightarrow> rel_sum (=) alike (raw_parameter (name, v) s) (raw_parameter (name, w) t)"
  by (cases s; cases t; cases "sd_bindMarker (rc_dialect (snd t)) name")
    (auto simp: raw_parameter_def alike_def throwIf_def)

lemma alike_raws:
  "alike s t \<Longrightarrow> rel_sum (=) alike (foldR raw_parameter ps s) (foldR raw_parameter (map (map_prod id f) ps) t)"
proof (induction ps arbitrary: s t)
  case (Cons p ps)
  then show ?case
    by (cases p) (auto intro!: rel_bindR [OF alike_raw])
qed simp

lemma rel_bindR_same: "(\<And>x. rel_sum (=) S (f x) (g x)) \<Longrightarrow> rel_sum (=) S (bindR m f) (bindR m g)"
  by (cases m) auto

lemma alike_appendPredicate:
  "alike s t \<Longrightarrow> alike_results (appendPredicate p s) (appendPredicate (map_predicate f p) t)"
proof (induction p arbitrary: s t)
  case (ListExpression path op stored)
  then have "length (q_bindings (fst s)) = length (q_bindings (fst t))" by (simp add: alike_def)
  with ListExpression show ?case by (auto simp: Let_def intro!: rel_bindR_same rel_bindR [OF alike_add_values] alike_push)
next
  case (RawExpression sql parameters)
  then show ?case by (auto intro!: rel_bindR [OF alike_raws] alike_push)
next
  case (CollectionExpression relation op element)
  show ?case
  proof (cases element)
    case (Some e)
    then have "alike_results (appendPredicate e s) (appendPredicate (map_predicate f e) t)"
      using CollectionExpression by (cases s; cases t) auto
    then show ?thesis by (auto simp: Some intro!: alike_push rel_bindR [where R = "rel_prod (=) alike"])
  qed (use CollectionExpression in \<open>auto intro!: alike_push\<close>)
qed (auto intro!: rel_bindR_same rel_bindR [where R = "rel_prod (=) alike"] alike_addValue alike_push)

lemma alike_appendHaving:
  "alike s t \<Longrightarrow> alike_results (appendHaving p s) (appendHaving (map_aggregate_predicate f p) t)"
  by (induction p arbitrary: s t)
    (auto intro!: rel_bindR_same rel_bindR [where R = "rel_prod (=) alike"] alike_addValue alike_push)

lemma alike_append_where:
  "alike s t \<Longrightarrow> rel_sum (=) alike (append_where p s) (append_where (map_predicate f p) t)"
  unfolding append_where_def by (rule rel_bindR [OF alike_appendPredicate]) (auto simp: alike_def)

lemma alike_append_having:
  "alike s t \<Longrightarrow> rel_sum (=) alike (append_having p s) (append_having (map_aggregate_predicate f p) t)"
  unfolding append_having_def by (rule rel_bindR [OF alike_appendHaving]) (auto simp: alike_def)

text \<open>The specification with other values.\<close>

definition with_values :: "('v \<Rightarrow> 'v) \<Rightarrow> 'v select_spec \<Rightarrow> 'v select_spec" where
  "with_values f spec = spec\<lparr>sel_predicate := map_option (map_predicate f) (sel_predicate spec),
     sel_having := map_option (map_aggregate_predicate f) (sel_having spec)\<rparr>"

lemma value_count_map [simp]: "value_count (map_predicate f p) = value_count p"
  by (induction p rule: value_count.induct) auto

lemma having_count_map [simp]: "having_count (map_aggregate_predicate f p) = having_count p"
  by (induction p) auto

lemma tree_sql_map [simp]: "tree_sql policy schema (map_predicate f p) k scope = tree_sql policy schema p k scope"
proof (induction policy schema p k scope rule: tree_sql.induct)
  case (9 policy schema relation op element k scope)
  then have "tree_sql policy schema (map_predicate f element) k = tree_sql policy schema element k" by auto
  then show ?case by simp
qed (auto cong: bindR_cong)

lemma having_sql_map [simp]: "having_sql policy schema (map_aggregate_predicate f p) k scope = having_sql policy schema p k scope"
  by (induction p arbitrary: k) auto

lemma select_text_values: "select_text policy schema model (with_values f spec) = select_text policy schema model spec"
  unfolding select_text_def
  by (cases "sel_predicate spec"; cases "sel_having spec")
    (simp_all add: with_values_def select_base_def select_finish_def filter_count_def)

lemma alike_select_predicates:
  "alike s t \<Longrightarrow> rel_sum (=) alike (appendSelectPredicates spec s) (appendSelectPredicates (with_values f spec) t)"
  unfolding appendSelectPredicates_def
  by (rule rel_bindR [where R = alike])
    (auto simp: with_values_def alike_append_where alike_append_having split: option.split)

lemma select_program_values:
  "rel_sum (=) alike (select_program model spec dialect) (select_program model (with_values f spec) dialect)"
  unfolding select_program_def
  by (auto simp: with_values_def select_start_def select_finish_def alike_def intro!: rel_bindR_same
      rel_bindR [OF alike_select_predicates [unfolded with_values_def]])

definition with_assigned :: "('v \<Rightarrow> 'v) \<Rightarrow> 'v update_spec \<Rightarrow> 'v update_spec" where
  "with_assigned f spec = spec\<lparr>upd_assignments := map (map_prod id (map_option f)) (upd_assignments spec),
     upd_predicate := map_option (map_predicate f) (upd_predicate spec)\<rparr>"

lemma rel_raised: "rel_sum (=) R r r' \<Longrightarrow> rel_sum (=) R (raised r) (raised r')"
  by (cases r; cases r') auto

lemma alike_append_assignment:
  "alike s t \<Longrightarrow> rel_sum (=) alike (append_assignment schema model (path, stored) s)
     (append_assignment schema model (path, map_option f stored) t)"
  unfolding append_assignment_def prod.case
  by (cases stored) (auto intro!: rel_bindR_same rel_bindR [OF rel_raised [OF alike_addValue]] rel_bindR [OF rel_raised [OF alike_addNull]]
      simp: alike_def)

lemma alike_append_assignments:
  "alike s t \<Longrightarrow> rel_sum (=) alike (foldR (append_assignment schema model) xs s)
     (foldR (append_assignment schema model) (map (map_prod id (map_option f)) xs) t)"
proof (induction xs arbitrary: s t)
  case (Cons x xs)
  then show ?case by (cases x) (auto intro!: rel_bindR [OF alike_append_assignment])
qed simp

lemma update_text_values:
  "update_text policy schema model (map (map_prod id (map_option f)) xs) (map_predicate f p) = update_text policy schema model xs p"
proof -
  have "map (assignment_text policy schema scope) (enumerate 0 (map (map_prod id (map_option f)) xs)) =
      map (assignment_text policy schema scope) (enumerate 0 xs)" for scope
    by (rule nth_equalityI) (simp_all add: nth_enumerate_eq assignment_text_def case_prod_beta)
  then have "mapR (assignment_text policy schema scope) (enumerate 0 (map (map_prod id (map_option f)) xs)) =
      mapR (assignment_text policy schema scope) (enumerate 0 xs)" for scope
    using mapR_run by metis
  then show ?thesis by (simp add: update_text_def Let_def)
qed

lemma same_text:
  assumes "rel_sum (=) R m m'" "\<And>x y. R x y \<Longrightarrow> map_sum id st_sql (f x) = map_sum id st_sql (g y)"
  shows "map_sum id st_sql (bindR m f) = map_sum id st_sql (bindR m' g)"
  using assms by (cases m; cases m') auto

context dialect_contract
begin

lemma select_values:
  "map_sum id st_sql (renderSelectStatement schema model (with_values f spec) dialect) =
   map_sum id st_sql (renderSelectStatement schema model spec dialect)"
proof -
  have "map_sum id st_sql (renderSelectStatement schema model spec dialect) =
      map_sum id st_sql (renderSelectStatement schema model (with_values f spec) dialect)"
    unfolding select_statement
    by (rule same_text [OF rel_raised [OF select_program_values]])
      (cases "select_text own_policy schema model spec"; simp add: select_text_values)
  then show ?thesis ..
qed

lemma remove_values:
  "map_sum id st_sql (renderRemoveStatement schema model (map_predicate f p) dialect) =
   map_sum id st_sql (renderRemoveStatement schema model p dialect)"
proof -
  let ?rest = "\<lambda>p. bindR (raised (sd_quoteIdentifier dialect (md_tableName model))) (\<lambda>table.
     bindR (tree_sql own_policy schema p 0 (query_scope (write_program RemoveOp) model)) (\<lambda>filter.
       Inr \<lparr>st_sql = ''DELETE FROM '' @ table @ '' WHERE '' @ filter @ '';'', st_parameters = tree_parameters p 0\<rparr>))"
  have "map_sum id st_sql (?rest p) = map_sum id st_sql (?rest (map_predicate f p))"
    by (cases "raised (sd_quoteIdentifier dialect (md_tableName model))";
        cases "tree_sql own_policy schema p 0 (query_scope (write_program RemoveOp) model)") simp_all
  then have "map_sum id st_sql (renderRemoveStatement schema model p dialect) =
      map_sum id st_sql (renderRemoveStatement schema model (map_predicate f p) dialect)"
    unfolding remove_statement
    by (intro same_text [OF rel_raised [OF alike_append_where]]) simp_all
  then show ?thesis ..
qed

lemma update_values:
  "map_sum id st_sql (renderUpdateStatement schema model (with_assigned f spec) dialect) =
   map_sum id st_sql (renderUpdateStatement schema model spec dialect)"
proof (cases "upd_assignments spec = [] \<or> upd_predicate spec = None")
  case True
  then show ?thesis by (auto simp: renderUpdateStatement_def with_assigned_def throwIf_def)
next
  case False
  then obtain p where p: "upd_assignments spec \<noteq> []" "upd_predicate spec = Some p" by auto
  then have p': "upd_assignments (with_assigned f spec) \<noteq> []" "upd_predicate (with_assigned f spec) = Some (map_predicate f p)"
    and assigned: "upd_assignments (with_assigned f spec) = map (map_prod id (map_option f)) (upd_assignments spec)"
    by (simp_all add: with_assigned_def)
  have same: "map_sum id st_sql (bindR m (\<lambda>sql. Inr \<lparr>st_sql = sql, st_parameters = xs\<rparr>)) =
      map_sum id st_sql (bindR m (\<lambda>sql. Inr \<lparr>st_sql = sql, st_parameters = ys\<rparr>))" for m :: "(stop, string) result" and xs ys
    by (cases m) simp_all
  have "map_sum id st_sql (renderUpdateStatement schema model spec dialect) =
      map_sum id st_sql (renderUpdateStatement schema model (with_assigned f spec) dialect)"
    unfolding update_statement [OF p] update_statement [OF p'] assigned
    by (intro same_text [OF alike_append_assignments] same_text [OF rel_raised [OF alike_append_where]])
      (auto simp: update_text_values intro: same)
  then show ?thesis ..
qed

end

section \<open>Compiled and runtime statements\<close>

lemma below_raised [below_intros]: "below r r' \<Longrightarrow> below (raised r) (raised r')"
  by (cases r; cases r') (auto simp: below_def)

text \<open>One policy succeeds whenever the other does, with the same text; then so does the whole emitter.\<close>

locale policy_pair =
  fixes policy policy' :: policy
  assumes quote [below_intros]: "below (po_quoteIdentifier policy name) (po_quoteIdentifier policy' name)"
    and mark [below_intros]: "below (po_bindMarker policy name) (po_bindMarker policy' name)"
    and aggregate: "po_renderAggregateResult policy = po_renderAggregateResult policy'"
    and page [below_intros]: "\<not> q_boundPagination query \<Longrightarrow> below (po_pagination policy query) (po_pagination policy' query)"
begin

lemma qualify_both [below_intros]: "below (sqlQualified policy q n) (sqlQualified policy' q n)"
  unfolding sqlQualified_def by (intro below_intros)

lemma column [below_intros]: "below (emitSqlColumn policy schema source scope qualify) (emitSqlColumn policy' schema source scope qualify)"
  unfolding emitSqlColumn_def Let_def by (intro below_intros)

lemma source [below_intros]: "below (emitSqlSource policy schema src scope projection) (emitSqlSource policy' schema src scope projection)"
  unfolding emitSqlSource_def Let_def aggregate by (intro below_intros)

lemma joins [below_intros]: "below (emitSqlJoins policy schema scope) (emitSqlJoins policy' schema scope)"
  unfolding emitSqlJoins_def emit_join_def join_condition_def Let_def by (intro below_intros)

lemma equations [below_intros]: "below (key_equations policy pairs) (key_equations policy' pairs)"
  unfolding key_equations_def case_prod_beta by (intro below_intros)

lemma collection [below_intros]:
  assumes "\<And>i nested. below (emit i nested) (emit' i nested)"
  shows "below (emitSqlCollection policy schema emit node scope) (emitSqlCollection policy' schema emit' node scope)"
  unfolding emitSqlCollection_def one_to_many_source_def many_to_many_source_def Let_def by (intro below_intros assms)

lemma marker [below_intros]: "below (node_marker policy query node j) (node_marker policy' query node j)"
  unfolding node_marker_def by (intro below_intros)

lemma operand [below_intros]:
  "(\<And>i nested. below (emit i nested) (emit' i nested)) \<Longrightarrow> below (emit_operand emit index scope) (emit_operand emit' index scope)"
  unfolding emit_operand_def by (intro below_intros)

lemma node [below_intros]:
  assumes "\<And>i nested. below (emit i nested) (emit' i nested)"
  shows "below (emit_node policy schema query emit nd scope) (emit_node policy' schema query emit' nd scope)"
  unfolding emit_node_def emit_list_def by (cases "nd_kind nd") (auto intro!: below_intros assms)

lemma predicate [below_intros]:
  "below (emitSqlPredicate policy schema query fuel index scope) (emitSqlPredicate policy' schema query fuel index scope)"
  by (induction fuel arbitrary: index scope) (auto intro: below_intros)

lemma head [below_intros]: "below (emit_head policy schema query scope model) (emit_head policy' schema query scope model)"
  unfolding emit_head_def emit_select_list_def emitSqlFullFields_def full_fields_of_def field_text_def emit_assignment_def Let_def
  by (cases "q_operation query") (auto intro!: below_intros)

lemma clauses [below_intros]:
  "below (emit_clause policy schema query scope keyword index) (emit_clause policy' schema query scope keyword index)"
  "below (emit_groups policy schema query scope) (emit_groups policy' schema query scope)"
  "below (emit_orders policy schema query scope) (emit_orders policy' schema query scope)"
  unfolding emit_clause_def emit_groups_def emit_orders_def emit_order_def by (intro below_intros)+

lemma emission: "\<not> q_boundPagination query \<Longrightarrow> below (emitSql policy schema query model) (emitSql policy' schema query model)"
  unfolding emitSql_def Let_def by (intro below_intros)

end

lemma flavor_pagination_literal:
  "\<not> q_boundPagination query \<Longrightarrow> flavor_pagination flavor query =
     Inr (static_pagination flavor \<lparr>pg_limit = (if q_hasLimit query then Some (q_literalLimit query) else None),
       pg_offset = (if q_hasOffset query then Some (q_literalOffset query) else None), pg_hasOrderBy = q_orders query \<noteq> []\<rparr>)"
  by (simp add: flavor_pagination_def page_bound_def static_pagination_def)

lemma backend_policies:
  assumes "backend_dialect backend = Some dialect"
  shows "policy_pair (runtime_policy dialect) (static_policy (backend_flavor backend))"
    "policy_pair (static_policy (backend_flavor backend)) (runtime_policy dialect)"
proof -
  have "sd_quoteIdentifier dialect name = quoteStandardIdentifier name (backend_flavor backend)"
    "sd_renderAggregateResult dialect = static_aggregate (backend_flavor backend)"
    "sd_renderPagination dialect = static_pagination (backend_flavor backend)" for name
    using assms by (cases backend; auto simp: dialect_defs static_aggregate_def fun_eq_iff)+
  moreover have "sd_bindMarker dialect name = Inr m \<longleftrightarrow> static_bindMarker name = Inr m" for name m
    using dialect_contract.marker [OF backend_dialect_contract [OF assms]] by (auto simp: static_bindMarker_def)
  ultimately show "policy_pair (runtime_policy dialect) (static_policy (backend_flavor backend))"
    "policy_pair (static_policy (backend_flavor backend)) (runtime_policy dialect)"
    by (unfold_locales; simp add: runtime_policy_def static_policy_def below_def dialect_pagination_def
        flavor_pagination_literal throwIf_def)+
qed

interpretation sqlite_pair: policy_pair "runtime_policy sqlite_dialect" "static_policy SqliteFlavor"
  using backend_policies(1) [of Sqlite] by simp

interpretation postgres_pair: policy_pair "runtime_policy postgres_dialect" "static_policy PostgresFlavor"
  using backend_policies(1) [of Postgres] by simp

interpretation mysql_pair: policy_pair "runtime_policy mysql_dialect" "static_policy MysqlFlavor"
  using backend_policies(1) [of Mysql] by simp

interpretation mariadb_pair: policy_pair "runtime_policy mariadb_dialect" "static_policy MysqlFlavor"
  using backend_policies(1) [of Mariadb] by simp

section \<open>Properties\<close>

definition sample_email :: query_value where
  "sample_email = \<lparr>qv_logicalType = StringT, qv_value = VString ''a@b.c''\<rparr>"

definition sample_select :: "query_value select_spec" where
  "sample_select = \<lparr>sel_offset = None, sel_limit = Some 10,
     sel_predicate = Some (LogicalExpression (ComparisonExpression ''email'' Equal sample_email) LogicalOr
       (RawExpression ''id > :low'' [(''low'', sample_email)])),
     sel_orderBy = [\<lparr>ob_column = ''id'', ob_direction = Desc, ob_rawSql = [], ob_isRaw = False\<rparr>], sel_projections = [], sel_groupBy = [],
     sel_having = None, sel_includes = [], sel_isDistinct = False, sel_shouldJoin = True\<rparr>"

definition sample_update :: "query_value update_spec" where
  "sample_update = \<lparr>upd_assignments = [(''email'', None)], upd_predicate = Some (NullExpression ''email'' IsNotNull)\<rparr>"

text \<open>
  C8. The query builder is a correct compiler of selections: translating the predicate trees into a flat program and
  emitting that program gives exactly the text of rendering the trees directly, where the value number \<open>k\<close> is the
  marker \<^verbatim>\<open>:orm_p\<close>\<open>k\<close>; the bound parameters are the values of the trees in the order of their markers, under different
  names. The equation covers the errors too.
\<close>

theorem select_renders_specification:
  assumes "backend_dialect backend = Some dialect"
  shows "renderSelectStatement schema model spec dialect =
      bindR (raised (select_program model spec dialect)) (\<lambda>_.
      bindR (select_text (runtime_policy dialect) schema model spec) (\<lambda>sql.
        Inr \<lparr>st_sql = sql, st_parameters = select_parameters spec\<rparr>)) \<and>
    (isOk (renderSelectStatement schema model spec dialect) \<longrightarrow> distinct (map sm_name (select_parameters spec)))"
proof -
  note contract = backend_dialect_contract [OF assms]
  show ?thesis
    using dialect_contract.select_statement [OF contract, of schema model spec]
      dialect_contract.select_distinct [OF contract, of schema model spec]
    by (auto simp: isOk_iff)
qed

theorem select_renders_specification_witness:
  "distinct (map sm_name (select_parameters sample_select)) \<and>
   (\<exists>sql. select_text (runtime_policy sqlite_dialect) sample_models (hd sample_models) sample_select = Inr sql \<and>
     renderSelectStatement sample_models (hd sample_models) sample_select sqlite_dialect =
       Inr \<lparr>st_sql = sql, st_parameters = select_parameters sample_select\<rparr>)"
proof -
  have d: "backend_dialect Sqlite = Some sqlite_dialect" by simp
  have "isOk (renderSelectStatement sample_models (hd sample_models) sample_select sqlite_dialect)" by code_simp
  with select_renders_specification [OF d, of sample_models "hd sample_models" sample_select] show ?thesis
    by (auto simp: isOk_iff)
qed

text \<open>
  C9. Writes render their specification: an update without assignments or without a predicate is refused; any other
  update is \<^verbatim>\<open>UPDATE t SET\<close> with one marker per assignment, numbered from 0, then the predicate with the
  numbering continued; a deletion always carries its predicate. The parameters are the assigned values, then the values
  of the predicate.
\<close>

theorem writes_render_specification:
  assumes "backend_dialect backend = Some dialect"
  shows "renderRemoveStatement schema model predicate dialect =
      bindR (raised (append_where predicate (write_program RemoveOp, new_context model dialect False True))) (\<lambda>_.
      bindR (raised (sd_quoteIdentifier dialect (md_tableName model))) (\<lambda>table.
      bindR (tree_sql (runtime_policy dialect) schema predicate 0 (query_scope (write_program RemoveOp) model)) (\<lambda>filter.
        Inr \<lparr>st_sql = ''DELETE FROM '' @ table @ '' WHERE '' @ filter @ '';'', st_parameters = tree_parameters predicate 0\<rparr>))) \<and>
    renderUpdateStatement schema model \<lparr>upd_assignments = assignments, upd_predicate = chosen\<rparr> dialect =
      (if assignments = [] then Inl (Raised (InvalidArgument ''UPDATE requires at least one assignment''))
       else case chosen of
         None \<Rightarrow> Inl (Raised (InvalidArgument ''UPDATE requires a WHERE predicate''))
       | Some p \<Rightarrow>
           bindR (foldR (append_assignment schema model) assignments (write_program UpdateOp, new_context model dialect False True)) (\<lambda>s.
           bindR (raised (append_where p s)) (\<lambda>_.
           bindR (update_text (runtime_policy dialect) schema model assignments p) (\<lambda>sql.
             Inr \<lparr>st_sql = sql, st_parameters = map (assignment_parameter schema model) (enumerate 0 assignments)
                    @ tree_parameters p (length assignments)\<rparr>))))"
proof -
  note contract = backend_dialect_contract [OF assms]
  show ?thesis
    using dialect_contract.remove_statement [OF contract, of schema model predicate]
      dialect_contract.update_statement [OF contract, of "\<lparr>upd_assignments = assignments, upd_predicate = chosen\<rparr>" _ schema model]
    by (auto simp: renderUpdateStatement_def split: option.split)
qed

theorem writes_render_specification_witness:
  "\<exists>sql. update_text (runtime_policy mysql_dialect) sample_models (hd sample_models) [(''email'', None)]
        (NullExpression ''email'' IsNotNull :: query_value predicate) = Inr sql \<and>
     renderUpdateStatement sample_models (hd sample_models) sample_update mysql_dialect =
       Inr \<lparr>st_sql = sql, st_parameters = [\<lparr>sm_name = ''orm_p0'', sm_value = None, sm_nullType = Some StringT\<rparr>]\<rparr>"
proof -
  have d: "backend_dialect Mysql = Some mysql_dialect" by simp
  have ok: "isOk (renderUpdateStatement sample_models (hd sample_models) sample_update mysql_dialect)" by code_simp
  have parameter: "assignment_parameter sample_models (hd sample_models) (0, ''email'', None) =
      \<lparr>sm_name = ''orm_p0'', sm_value = None, sm_nullType = Some StringT\<rparr>" by code_simp
  from writes_render_specification [OF d, THEN conjunct2, of sample_models "hd sample_models" "[(''email'', None)]"
      "Some (NullExpression ''email'' IsNotNull)"] ok show ?thesis
    by (auto simp: sample_update_def isOk_iff parameter)
qed

text \<open>
  C7. A value cannot change a statement: replacing the values of a query by any others leaves the text, or the error,
  of the rendered selection, update or deletion as it is. What a user supplies as a value reaches the database as a bound
  parameter only.
\<close>

theorem values_never_in_text:
  assumes "backend_dialect backend = Some dialect"
  shows "map_sum id st_sql (renderSelectStatement schema model (with_values f selection) dialect) =
      map_sum id st_sql (renderSelectStatement schema model selection dialect) \<and>
    map_sum id st_sql (renderUpdateStatement schema model (with_assigned f changes) dialect) =
      map_sum id st_sql (renderUpdateStatement schema model changes dialect) \<and>
    map_sum id st_sql (renderRemoveStatement schema model (map_predicate f predicate) dialect) =
      map_sum id st_sql (renderRemoveStatement schema model predicate dialect)"
  using dialect_contract.select_values dialect_contract.update_values dialect_contract.remove_values
    backend_dialect_contract [OF assms] by blast

theorem values_never_in_text_witness:
  "map_sum id st_sql (renderRemoveStatement sample_models (hd sample_models)
     (ComparisonExpression ''email'' Equal \<lparr>qv_logicalType = StringT, qv_value = VString ''x OR 1 = 1''\<rparr>) postgres_dialect) =
   map_sum id st_sql (renderRemoveStatement sample_models (hd sample_models)
     (ComparisonExpression ''email'' Equal sample_email) postgres_dialect)"
proof -
  have d: "backend_dialect Postgres = Some postgres_dialect" by simp
  from values_never_in_text [OF d, of sample_models "hd sample_models"
      "\<lambda>_. \<lparr>qv_logicalType = StringT, qv_value = VString ''x OR 1 = 1''\<rparr>" sample_select sample_update
      "ComparisonExpression ''email'' Equal sample_email"]
  show ?thesis by simp
qed

text \<open>
  C10. Rendering always ends with a statement or an exception: the recursion over the flat program of a query never goes
  round in a cycle and never reads outside the vectors of nodes and bindings.
\<close>

theorem statements_never_stuck:
  assumes "backend_dialect backend = Some dialect"
  shows "regular (renderSelectStatement schema model selection dialect) \<and>
    regular (renderUpdateStatement schema model changes dialect) \<and>
    regular (renderRemoveStatement schema model predicate dialect)"
proof -
  note contract = backend_dialect_contract [OF assms]
  have "regular (renderSelectStatement schema model selection dialect)"
    unfolding dialect_contract.select_statement [OF contract] by (intro regular_intros regular_select)
  moreover have "regular (renderRemoveStatement schema model predicate dialect)"
    unfolding dialect_contract.remove_statement [OF contract] by (intro regular_intros)
  moreover have "regular (renderUpdateStatement schema model changes dialect)"
  proof (cases "upd_assignments changes = [] \<or> upd_predicate changes = None")
    case True
    then show ?thesis by (auto simp: renderUpdateStatement_def throwIf_def intro: regular_intros)
  next
    case False
    then obtain p where p: "upd_assignments changes \<noteq> []" "upd_predicate changes = Some p" by auto
    show ?thesis
      unfolding dialect_contract.update_statement [OF contract p] by (intro regular_intros regular_assignment regular_update)
  qed
  ultimately show ?thesis by blast
qed

theorem statements_never_stuck_witness:
  "regular (renderSelectStatement sample_models (hd sample_models) sample_select mariadb_dialect) \<and>
   regular (renderUpdateStatement sample_models (hd sample_models) sample_update mariadb_dialect) \<and>
   regular (renderRemoveStatement sample_models (hd sample_models) (NullExpression ''none.such'' IsNull) mariadb_dialect)"
  by (rule statements_never_stuck [of Mariadb]) simp



end
