(* ===== verification/Orm_Relations.thy ===== *)
theory Orm_Relations
  imports Orm_Query_Correctness Orm_Commands
begin

text \<open>
  Statements on relations: \<^verbatim>\<open>src/database/defaults/RelationStatements.cpp\<close>, the primary-key columns of
  \<^verbatim>\<open>modules/orm/database/payload.cppm\<close>, the aliases of \<^verbatim>\<open>modules/orm/internal.cppm\<close> and the batches of
  \<^verbatim>\<open>OrmContext::loadCollectionField\<close> (\<^verbatim>\<open>modules/orm/database/context.cppm\<close>). A primary key is the list of the
  values of its columns. Reading a vector or span outside its bounds is the stop \<open>OutOfBounds\<close>, a missing column type is
  \<open>NoValue\<close>.
\<close>

section \<open>Primary keys\<close>

type_synonym primary_key = "query_value list"

definition key_column :: "model_data \<Rightarrow> nat \<Rightarrow> (exn, column_view) result" where
  "key_column model columnIndex =
     (if length (md_columns model) \<le> columnIndex
      then Inl (InvalidArgument ''Primary-key descriptor points outside the model columns'')
      else if cv_kind (md_columns model ! columnIndex) \<noteq> ScalarField
      then Inl (InvalidArgument ''Relations with model-valued primary-key fields are not supported'')
      else Inr (md_columns model ! columnIndex))"

definition getPrimaryKeyColumns :: "model_data \<Rightarrow> (exn, column_view list) result" where
  "getPrimaryKeyColumns model =
     bindR (mapR (key_column model) (md_primaryKeyIndices model)) (\<lambda>columns.
     bindR (throwIf (columns = []) (InvalidArgument ''Relation endpoint must define a non-empty primary key'')) (\<lambda>_.
       Inr columns))"

definition relationOwnerAlias :: "column_view \<Rightarrow> string" where
  "relationOwnerAlias column = ''__orm_owner_'' @ cv_name column"

definition require_relation :: "model_data \<Rightarrow> string \<Rightarrow> (exn, relation_view) result" where
  "require_relation model fieldName =
     (case findRelation model fieldName of
        None \<Rightarrow> Inl (InvalidArgument (''Unknown relation field: '' @ fieldName))
      | Some relation \<Rightarrow> Inr relation)"

definition requireKeySize :: "primary_key \<Rightarrow> column_view list \<Rightarrow> string \<Rightarrow> (exn, unit) result" where
  "requireKeySize key columns endpoint =
     throwIf (length key \<noteq> length columns) (InvalidArgument (''Incomplete '' @ endpoint @ '' relation primary key''))"

definition addValueParameter :: "sql_dialect \<Rightarrow> string \<Rightarrow> query_value \<Rightarrow> statement \<Rightarrow> (exn, string \<times> statement) result" where
  "addValueParameter dialect name stored statement =
     bindR (sd_bindMarker dialect name) (\<lambda>mark.
       Inr (mark, statement\<lparr>st_parameters := st_parameters statement @
                    [\<lparr>sm_name = name, sm_value = Some stored, sm_nullType = None\<rparr>]\<rparr>))"

definition empty_statement :: statement where
  "empty_statement = \<lparr>st_sql = [], st_parameters = []\<rparr>"

section \<open>Junction tables\<close>

definition createTableStatements :: "sql_dialect \<Rightarrow> schema_view \<Rightarrow> model_data option \<Rightarrow> (exn, string list) result" where
  "createTableStatements dialect schema owner =
     bindR (dialect_physicalJunctions schema owner dialect) (\<lambda>tables.
       mapR (\<lambda>table. dialect_renderCreateTable dialect table True True) tables)"

definition owns_junction :: "relation_view \<Rightarrow> bool" where
  "owns_junction relation \<longleftrightarrow>
     rv_kind relation = ManyToMany \<and> isConfigured (rv_junction relation) \<and> jv_owningSide (rv_junction relation)"

definition dropTableStatements :: "sql_dialect \<Rightarrow> model_data \<Rightarrow> (exn, string list) result" where
  "dropTableStatements dialect owner =
     mapR (\<lambda>relation. sd_renderDropTable dialect (jv_tableName (rv_junction relation)) True)
       (filter owns_junction (rev (md_relations owner)))"

section \<open>Links\<close>

definition numbered :: "string \<Rightarrow> nat \<Rightarrow> string" where
  "numbered prefix i = prefix @ dec i"

definition linkInsertSpec ::
  "schema_view \<Rightarrow> model_data \<Rightarrow> relation_view \<Rightarrow> primary_key \<Rightarrow> primary_key \<Rightarrow> (exn, insert_if_absent) result" where
  "linkInsertSpec schema owner relation ownerKey targetKey =
     (case resolveTarget_relation schema relation of
        None \<Rightarrow> Inl (InvalidArgument ''Insert-if-absent requires a resolved many-to-many relation'')
      | Some target \<Rightarrow>
          bindR (throwIf (rv_kind relation \<noteq> ManyToMany)
                   (InvalidArgument ''Insert-if-absent requires a resolved many-to-many relation'')) (\<lambda>_.
          let junction = resolveJunction schema relation in
          bindR (throwIf (\<not> isConfigured junction) (InvalidArgument ''Many-to-many relation has no junction mapping'')) (\<lambda>_.
          bindR (getPrimaryKeyColumns owner) (\<lambda>ownerColumns.
          bindR (requireKeySize ownerKey ownerColumns ''owner'') (\<lambda>_.
          bindR (getPrimaryKeyColumns target) (\<lambda>targetColumns.
          bindR (requireKeySize targetKey targetColumns ''target'') (\<lambda>_.
          bindR (throwIf (length (jv_ownerColumns junction) \<noteq> length ownerKey \<or>
                          length (jv_targetColumns junction) \<noteq> length targetKey)
                   (InvalidArgument ''Junction column count does not match endpoint primary keys'')) (\<lambda>_.
            let columns = jv_ownerColumns junction @ jv_targetColumns junction
            in Inr \<lparr>ii_tableName = jv_tableName junction, ii_columns = columns,
                    ii_valueExpressions = map (numbered '':orm_rel_owner_'') [0..<length ownerKey]
                      @ map (numbered '':orm_rel_target_'') [0..<length targetKey],
                    ii_conflictColumns = columns\<rparr>))))))))"

text \<open>The parameters of one key, in order, and their markers.\<close>

definition add_key_values ::
  "sql_dialect \<Rightarrow> string \<Rightarrow> primary_key \<Rightarrow> string list \<times> statement \<Rightarrow> (exn, string list \<times> statement) result" where
  "add_key_values dialect prefix key =
     foldR (\<lambda>(i, stored) (placeholders, statement).
         bindR (addValueParameter dialect (numbered prefix i) stored statement) (\<lambda>(mark, statement).
           Inr (placeholders @ [mark], statement)))
       (enumerate 0 key)"

definition link_many ::
  "sql_dialect \<Rightarrow> schema_view \<Rightarrow> model_data \<Rightarrow> relation_view \<Rightarrow> primary_key \<Rightarrow> primary_key \<Rightarrow> (exn, statement) result" where
  "link_many dialect schema owner relation ownerKey targetKey =
     bindR (throwIf (\<not> isConfigured (resolveJunction schema relation))
              (InvalidArgument (''ManyToMany relation has no junction mapping: '' @ rv_fieldName relation))) (\<lambda>_.
     bindR (add_key_values dialect ''orm_rel_owner_'' ownerKey ([], empty_statement)) (\<lambda>progress.
     bindR (add_key_values dialect ''orm_rel_target_'' targetKey progress) (\<lambda>(placeholders, statement).
     bindR (linkInsertSpec schema owner relation ownerKey targetKey) (\<lambda>spec.
     bindR (sd_renderInsertIfAbsent dialect (spec\<lparr>ii_valueExpressions := placeholders\<rparr>)) (\<lambda>sql.
       Inr (statement\<lparr>st_sql := sql\<rparr>))))))"

definition mapped_column :: "relation_view \<Rightarrow> column_view \<Rightarrow> string" where
  "mapped_column mapped column = rv_columnName mapped @ ''_'' @ cv_name column"

definition target_predicates ::
  "sql_dialect \<Rightarrow> column_view list \<Rightarrow> primary_key \<Rightarrow> statement \<Rightarrow> (exn, string list \<times> statement) result" where
  "target_predicates dialect columns key statement =
     foldR (\<lambda>(i, column, stored) (predicates, statement).
         bindR (addValueParameter dialect (numbered ''orm_rel_target_'' i) stored statement) (\<lambda>(mark, statement).
         bindR (sd_quoteIdentifier dialect (cv_name column)) (\<lambda>quoted.
           Inr (predicates @ [quoted @ '' = '' @ mark], statement))))
       (enumerate 0 (zip columns key)) ([], statement)"

definition link_one ::
  "sql_dialect \<Rightarrow> relation_view \<Rightarrow> nat \<times> column_view \<times> query_value \<Rightarrow> (string list \<times> string list) \<times> statement \<Rightarrow>
     (exn, (string list \<times> string list) \<times> statement) result" where
  "link_one dialect mapped = (\<lambda>(i, column, stored) ((assignments, changed), statement).
     bindR (sd_quoteIdentifier dialect (mapped_column mapped column)) (\<lambda>quoted.
     bindR (addValueParameter dialect (numbered ''orm_rel_owner_'' i) stored statement) (\<lambda>(mark, statement).
       Inr ((assignments @ [quoted @ '' = '' @ mark],
             changed @ [''('' @ quoted @ '' IS NULL OR '' @ quoted @ '' != '' @ mark @ '')'']), statement))))"

definition update_linked :: "string \<Rightarrow> string list \<Rightarrow> string list \<Rightarrow> string \<Rightarrow> string list \<Rightarrow> string" where
  "update_linked table assignments targets separator owners =
     ''UPDATE '' @ table @ '' SET '' @ join_values assignments '', '' @ '' WHERE ('' @ join_values targets '' AND ''
       @ '') AND ('' @ join_values owners separator @ '');''"

definition link_one_to_many ::
  "sql_dialect \<Rightarrow> model_data \<Rightarrow> relation_view \<Rightarrow> column_view list \<Rightarrow> column_view list \<Rightarrow> primary_key \<Rightarrow> primary_key \<Rightarrow>
     (exn, statement) result" where
  "link_one_to_many dialect target relation ownerColumns targetColumns ownerKey targetKey =
     bindR (require_relation target (rv_mappedBy relation)) (\<lambda>mapped.
     bindR (foldR (link_one dialect mapped) (enumerate 0 (zip ownerColumns ownerKey)) (([], []), empty_statement))
       (\<lambda>((assignments, changed), statement).
     bindR (target_predicates dialect targetColumns targetKey statement) (\<lambda>(targets, statement).
     bindR (sd_quoteIdentifier dialect (md_tableName target)) (\<lambda>table.
       Inr (statement\<lparr>st_sql := update_linked table assignments targets '' OR '' changed\<rparr>)))))"

text \<open>What \<^verbatim>\<open>linkStatement\<close>, \<^verbatim>\<open>unlinkStatement\<close> and \<^verbatim>\<open>collectionSelectStatement\<close> look up first.\<close>

definition endpoints :: "schema_view \<Rightarrow> model_data \<Rightarrow> relation_view \<Rightarrow> (exn, model_data \<times> column_view list \<times> column_view list) result" where
  "endpoints schema owner relation =
     bindR (getPrimaryKeyColumns owner) (\<lambda>ownerColumns.
     case resolveTarget_relation schema relation of
       None \<Rightarrow> Inl (LogicError ''Collection relation target is not available in the schema'')
     | Some target \<Rightarrow> bindR (getPrimaryKeyColumns target) (\<lambda>targetColumns. Inr (target, ownerColumns, targetColumns)))"

definition linkStatement ::
  "sql_dialect \<Rightarrow> schema_view \<Rightarrow> model_data \<Rightarrow> relation_view \<Rightarrow> primary_key \<Rightarrow> primary_key \<Rightarrow> (exn, statement) result" where
  "linkStatement dialect schema owner relation ownerKey targetKey =
     bindR (endpoints schema owner relation) (\<lambda>(target, ownerColumns, targetColumns).
     bindR (requireKeySize ownerKey ownerColumns ''owner'') (\<lambda>_.
     bindR (requireKeySize targetKey targetColumns ''target'') (\<lambda>_.
       if rv_kind relation = ManyToMany then link_many dialect schema owner relation ownerKey targetKey
       else if rv_kind relation \<noteq> OneToMany
       then Inl (InvalidArgument (''link requires a collection relation: '' @ rv_fieldName relation))
       else link_one_to_many dialect target relation ownerColumns targetColumns ownerKey targetKey)))"

section \<open>Removing links\<close>

definition column_at :: "string list \<Rightarrow> nat \<Rightarrow> (stop, string) result" where
  "column_at columns i = (if i < length columns then Inr (columns ! i) else Inl OutOfBounds)"

definition junction_predicate ::
  "sql_dialect \<Rightarrow> string \<Rightarrow> string list \<Rightarrow> nat \<times> query_value \<Rightarrow> string list \<times> statement \<Rightarrow> (stop, string list \<times> statement) result" where
  "junction_predicate dialect prefix columns = (\<lambda>(i, stored) (predicates, statement).
     bindR (raised (addValueParameter dialect (numbered prefix i) stored statement)) (\<lambda>(mark, statement).
     bindR (column_at columns i) (\<lambda>column.
     bindR (raised (sd_quoteIdentifier dialect column)) (\<lambda>quoted.
       Inr (predicates @ [quoted @ '' = '' @ mark], statement)))))"

definition unlink_many ::
  "sql_dialect \<Rightarrow> schema_view \<Rightarrow> relation_view \<Rightarrow> primary_key \<Rightarrow> primary_key \<Rightarrow> (stop, statement) result" where
  "unlink_many dialect schema relation ownerKey targetKey =
     (let junction = resolveJunction schema relation in
      bindR (throwIf (\<not> isConfigured junction)
               (Raised (InvalidArgument (''ManyToMany relation has no junction mapping: '' @ rv_fieldName relation)))) (\<lambda>_.
      bindR (foldR (junction_predicate dialect ''orm_rel_owner_'' (jv_ownerColumns junction)) (enumerate 0 ownerKey)
               ([], empty_statement)) (\<lambda>progress.
      bindR (foldR (junction_predicate dialect ''orm_rel_target_'' (jv_targetColumns junction)) (enumerate 0 targetKey)
               progress) (\<lambda>(predicates, statement).
      bindR (raised (sd_quoteIdentifier dialect (jv_tableName junction))) (\<lambda>table.
        Inr (statement\<lparr>st_sql := ''DELETE FROM '' @ table @ '' WHERE '' @ join_values predicates '' AND '' @ '';''\<rparr>))))))"

definition unlink_one ::
  "sql_dialect \<Rightarrow> relation_view \<Rightarrow> nat \<times> column_view \<times> query_value \<Rightarrow> (string list \<times> string list) \<times> statement \<Rightarrow>
     (stop, (string list \<times> string list) \<times> statement) result" where
  "unlink_one dialect mapped = (\<lambda>(i, column, stored) ((assignments, predicates), statement).
     bindR (raised (sd_quoteIdentifier dialect (mapped_column mapped column))) (\<lambda>quoted.
     bindR (type_value column) (\<lambda>type.
     bindR (raised (sd_bindMarker dialect (numbered ''orm_rel_null_'' i))) (\<lambda>null.
     bindR (raised (addValueParameter dialect (numbered ''orm_rel_owner_'' i) stored (statement\<lparr>st_parameters :=
              st_parameters statement @ [\<lparr>sm_name = numbered ''orm_rel_null_'' i, sm_value = None, sm_nullType = Some type\<rparr>]\<rparr>)))
       (\<lambda>(mark, statement).
       Inr ((assignments @ [quoted @ '' = '' @ null], predicates @ [quoted @ '' = '' @ mark]), statement))))))"

definition unlink_one_to_many ::
  "sql_dialect \<Rightarrow> model_data \<Rightarrow> relation_view \<Rightarrow> column_view list \<Rightarrow> column_view list \<Rightarrow> primary_key \<Rightarrow> primary_key \<Rightarrow>
     (stop, statement) result" where
  "unlink_one_to_many dialect target relation ownerColumns targetColumns ownerKey targetKey =
     bindR (raised (require_relation target (rv_mappedBy relation))) (\<lambda>mapped.
     bindR (throwIf (\<not> rv_nullable mapped)
              (Raised (InvalidArgument (''Cannot unlink a non-nullable OneToMany relation: '' @ rv_fieldName relation)))) (\<lambda>_.
     bindR (foldR (unlink_one dialect mapped) (enumerate 0 (zip ownerColumns ownerKey)) (([], []), empty_statement))
       (\<lambda>((assignments, owners), statement).
     bindR (raised (target_predicates dialect targetColumns targetKey statement)) (\<lambda>(targets, statement).
     bindR (raised (sd_quoteIdentifier dialect (md_tableName target))) (\<lambda>table.
       Inr (statement\<lparr>st_sql := update_linked table assignments targets '' AND '' owners\<rparr>))))))"

definition unlinkStatement ::
  "sql_dialect \<Rightarrow> schema_view \<Rightarrow> model_data \<Rightarrow> relation_view \<Rightarrow> primary_key \<Rightarrow> primary_key \<Rightarrow> (stop, statement) result" where
  "unlinkStatement dialect schema owner relation ownerKey targetKey =
     bindR (raised (endpoints schema owner relation)) (\<lambda>(target, ownerColumns, targetColumns).
     bindR (raised (requireKeySize ownerKey ownerColumns ''owner'')) (\<lambda>_.
     bindR (raised (requireKeySize targetKey targetColumns ''target'')) (\<lambda>_.
       if rv_kind relation = ManyToMany then unlink_many dialect schema relation ownerKey targetKey
       else if rv_kind relation \<noteq> OneToMany
       then Inl (Raised (InvalidArgument (''unlink requires a collection relation: '' @ rv_fieldName relation)))
       else unlink_one_to_many dialect target relation ownerColumns targetColumns ownerKey targetKey)))"

section \<open>Loading collections\<close>

definition joinedRelationColumn :: "string \<Rightarrow> string \<Rightarrow> string" where
  "joinedRelationColumn relationName columnName = relationName @ ''_'' @ columnName"

definition unjoinedRelationColumn :: "string \<Rightarrow> string \<Rightarrow> string \<Rightarrow> string" where
  "unjoinedRelationColumn tableName relationName columnName = tableName @ ''_'' @ relationName @ ''_'' @ columnName"

definition modelColumn :: "string \<Rightarrow> string \<Rightarrow> string" where
  "modelColumn tableName columnName = tableName @ ''_'' @ columnName"

definition qualifiedIdentifier :: "sql_dialect \<Rightarrow> string \<Rightarrow> string \<Rightarrow> (exn, string) result" where
  "qualifiedIdentifier dialect qualifier name =
     bindR (sd_quoteIdentifier dialect qualifier) (\<lambda>q. bindR (sd_quoteIdentifier dialect name) (\<lambda>n. Inr (q @ ''.'' @ n)))"

definition stripTerminator :: "string \<Rightarrow> string" where
  "stripTerminator sql = rev (dropWhile (\<lambda>c. c \<in> set (''; '' @ [newline, creturn])) (rev sql))"

definition key_predicate ::
  "sql_dialect \<Rightarrow> nat \<Rightarrow> nat \<times> string \<times> query_value \<Rightarrow> string list \<times> statement \<Rightarrow> (exn, string list \<times> statement) result" where
  "key_predicate dialect keyIndex = (\<lambda>(columnIndex, expression, stored) (predicates, statement).
     bindR (addValueParameter dialect (''orm_rel_key_'' @ dec keyIndex @ ''_'' @ dec columnIndex) stored statement)
       (\<lambda>(mark, statement). Inr (predicates @ [expression @ '' = '' @ mark], statement)))"

definition owner_predicate ::
  "sql_dialect \<Rightarrow> string list \<Rightarrow> nat \<times> primary_key \<Rightarrow> string list \<times> statement \<Rightarrow> (exn, string list \<times> statement) result" where
  "owner_predicate dialect expressions = (\<lambda>(keyIndex, key) (predicates, statement).
     bindR (throwIf (length key \<noteq> length expressions) (InvalidArgument ''Incomplete owner relation primary key'')) (\<lambda>_.
     bindR (foldR (key_predicate dialect keyIndex) (enumerate 0 (zip expressions key)) ([], statement))
       (\<lambda>(columnPredicates, statement).
       Inr (predicates @ [''('' @ join_values columnPredicates '' AND '' @ '')''], statement))))"

definition renderOwnerKeyFilter ::
  "sql_dialect \<Rightarrow> string list \<Rightarrow> primary_key list \<Rightarrow> statement \<Rightarrow> (exn, string \<times> statement) result" where
  "renderOwnerKeyFilter dialect expressions keys statement =
     (if keys = [] then Inr (''0 = 1'', statement)
      else bindR (foldR (owner_predicate dialect expressions) (enumerate 0 keys) ([], statement)) (\<lambda>(predicates, statement).
        Inr (''('' @ join_values predicates '' OR '' @ '')'', statement)))"

definition target_alias :: string where
  "target_alias = ''orm_relation_target''"

definition junction_alias :: string where
  "junction_alias = ''orm_relation_junction''"

text \<open>The alias of a column of the owner's key among the columns of the target's select, for a \<^verbatim>\<open>OneToMany\<close> relation.\<close>

definition mapped_alias :: "bool \<Rightarrow> model_data \<Rightarrow> relation_view \<Rightarrow> column_view \<Rightarrow> string" where
  "mapped_alias joinedValues target mapped column =
     (if joinedValues then joinedRelationColumn (rv_columnName mapped) (cv_name column)
      else unjoinedRelationColumn (md_tableName target) (rv_columnName mapped) (cv_name column))"

definition owner_field :: "sql_dialect \<Rightarrow> string \<Rightarrow> column_view \<times> string \<Rightarrow> (exn, string \<times> string) result" where
  "owner_field dialect qualifier = (\<lambda>(column, name).
     bindR (qualifiedIdentifier dialect qualifier name) (\<lambda>expression.
     bindR (sd_quoteIdentifier dialect (relationOwnerAlias column)) (\<lambda>alias.
       Inr (expression, expression @ '' AS '' @ alias))))"

definition join_predicate :: "sql_dialect \<Rightarrow> string \<Rightarrow> column_view \<times> string \<Rightarrow> (exn, string) result" where
  "join_predicate dialect tableName = (\<lambda>(column, junctionColumn).
     bindR (qualifiedIdentifier dialect target_alias (modelColumn tableName (cv_name column))) (\<lambda>left.
     bindR (qualifiedIdentifier dialect junction_alias junctionColumn) (\<lambda>right.
       Inr (left @ '' = '' @ right))))"

definition collection_one_to_many ::
  "sql_dialect \<Rightarrow> model_data \<Rightarrow> relation_view \<Rightarrow> column_view list \<Rightarrow> string \<Rightarrow> primary_key list \<Rightarrow> bool \<Rightarrow>
     string \<Rightarrow> (exn, statement) result" where
  "collection_one_to_many dialect target relation ownerColumns targetSelectSql ownerKeys joinedValues quotedTarget =
     bindR (require_relation target (rv_mappedBy relation)) (\<lambda>mapped.
     bindR (mapR (owner_field dialect target_alias)
              (map (\<lambda>column. (column, mapped_alias joinedValues target mapped column)) ownerColumns)) (\<lambda>fields.
     bindR (renderOwnerKeyFilter dialect (map fst fields) ownerKeys empty_statement) (\<lambda>(condition, statement).
       Inr (statement\<lparr>st_sql := ''SELECT '' @ join_values (map snd fields) '', '' @ '', '' @ quotedTarget @ ''.* FROM (''
              @ targetSelectSql @ '') AS '' @ quotedTarget @ '' WHERE '' @ condition @ '';''\<rparr>))))"

definition collection_many_to_many ::
  "sql_dialect \<Rightarrow> model_data \<Rightarrow> junction_view \<Rightarrow> column_view list \<Rightarrow> column_view list \<Rightarrow> string \<Rightarrow> primary_key list \<Rightarrow>
     string \<Rightarrow> string \<Rightarrow> (exn, statement) result" where
  "collection_many_to_many dialect target junction ownerColumns targetColumns targetSelectSql ownerKeys quotedTarget quotedJunction =
     bindR (throwIf (length (jv_ownerColumns junction) \<noteq> length ownerColumns \<or>
                     length (jv_targetColumns junction) \<noteq> length targetColumns)
              (InvalidArgument (''Junction column count does not match endpoint primary keys: '' @ jv_tableName junction))) (\<lambda>_.
     bindR (mapR (owner_field dialect junction_alias) (zip ownerColumns (jv_ownerColumns junction))) (\<lambda>fields.
     bindR (mapR (join_predicate dialect (md_tableName target)) (zip targetColumns (jv_targetColumns junction))) (\<lambda>joins.
     bindR (renderOwnerKeyFilter dialect (map fst fields) ownerKeys empty_statement) (\<lambda>(condition, statement).
     bindR (sd_quoteIdentifier dialect (jv_tableName junction)) (\<lambda>table.
       Inr (statement\<lparr>st_sql := ''SELECT '' @ join_values (map snd fields) '', '' @ '', '' @ quotedTarget @ ''.* FROM ''
              @ table @ '' AS '' @ quotedJunction @ '' JOIN ('' @ targetSelectSql @ '') AS '' @ quotedTarget @ '' ON ''
              @ join_values joins '' AND '' @ '' WHERE '' @ condition @ '';''\<rparr>))))))"

definition collectionSelectStatement ::
  "sql_dialect \<Rightarrow> schema_view \<Rightarrow> model_data \<Rightarrow> relation_view \<Rightarrow> string \<Rightarrow> primary_key list \<Rightarrow> bool \<Rightarrow> (exn, statement) result" where
  "collectionSelectStatement dialect schema owner relation targetSelectSql ownerKeys joinedValues =
     bindR (endpoints schema owner relation) (\<lambda>(target, ownerColumns, targetColumns).
     bindR (sd_quoteIdentifier dialect target_alias) (\<lambda>quotedTarget.
     bindR (sd_quoteIdentifier dialect junction_alias) (\<lambda>quotedJunction.
       if rv_kind relation = OneToMany
       then collection_one_to_many dialect target relation ownerColumns (stripTerminator targetSelectSql) ownerKeys
              joinedValues quotedTarget
       else
         let junction = resolveJunction schema relation in
         bindR (throwIf (rv_kind relation \<noteq> ManyToMany \<or> \<not> isConfigured junction)
                  (InvalidArgument (''include requires a collection relation: '' @ rv_fieldName relation))) (\<lambda>_.
           collection_many_to_many dialect target junction ownerColumns targetColumns (stripTerminator targetSelectSql)
             ownerKeys quotedTarget quotedJunction))))"

text \<open>
  The batches of \<^verbatim>\<open>loadCollectionField\<close>: one statement for at most \<open>batchSize\<close> owners, from \<open>batchStart\<close> on. The keys
  of the owners are given. A batch size of zero happens only without owners, when the loop does not run.
\<close>

definition parameter_budget_fits :: "nat option \<Rightarrow> column_view list \<Rightarrow> bool" where
  "parameter_budget_fits maxBindParameters key \<longleftrightarrow> (case maxBindParameters of None \<Rightarrow> True | Some n \<Rightarrow> length key \<le> n)"

definition batch_size :: "nat option \<Rightarrow> column_view list \<Rightarrow> nat \<Rightarrow> nat" where
  "batch_size maxBindParameters key owners =
     (case maxBindParameters of None \<Rightarrow> owners | Some n \<Rightarrow> max 1 (n div length key))"

function batches :: "nat \<Rightarrow> 'a list \<Rightarrow> 'a list list" where
  "batches n xs = (if xs = [] \<or> n = 0 then [] else take n xs # batches n (drop n xs))"
  by pat_completeness auto

termination batches by (relation "measure (length \<circ> snd)") auto

declare batches.simps [simp del]

definition target_query :: "bool \<Rightarrow> query_value select_spec" where
  "target_query shouldJoin =
     \<lparr>sel_offset = None, sel_limit = None, sel_predicate = None, sel_orderBy = [], sel_projections = [], sel_groupBy = [],
      sel_having = None, sel_includes = [], sel_isDistinct = False, sel_shouldJoin = shouldJoin\<rparr>"

definition collection_statements ::
  "sql_dialect \<Rightarrow> backend_type \<Rightarrow> nat option \<Rightarrow> schema_view \<Rightarrow> model_data \<Rightarrow> model_data \<Rightarrow> relation_view \<Rightarrow> bool \<Rightarrow>
     primary_key list \<Rightarrow> (stop, statement list) result" where
  "collection_statements dialect backendType maxBindParameters schema owner target relation shouldJoin ownerKeys =
     bindR (raised (getPrimaryKeyColumns owner)) (\<lambda>key.
     bindR (throwIf (\<not> parameter_budget_fits maxBindParameters key)
              (Raised (DatabaseError DbUnsupportedFeature backendType ''include collection''
                 ''The backend bind-parameter limit is too small for the relation primary key'' None))) (\<lambda>_.
     bindR (renderSelectStatement schema target (target_query shouldJoin) dialect) (\<lambda>base.
       mapR (\<lambda>keys. raised (collectionSelectStatement dialect schema owner relation (st_sql base) keys shouldJoin))
         (batches (batch_size maxBindParameters key (length ownerKeys)) ownerKeys))))"

end
