(* ===== verification/Orm_Relation_Safety.thy ===== *)
theory Orm_Relation_Safety
  imports Orm_Relations Orm_Statements
begin

text \<open>
  What the relation statements do: linking and unlinking address the same row of the junction table with the same
  parameters, both sides of a relation address the same row, the statements that load a collection stay within the bind
  limit and ask for every owner once, and they name only columns the inner selection has.
\<close>

section \<open>Parameters of keys\<close>

definition key_parameters :: "string \<Rightarrow> primary_key \<Rightarrow> statement_parameter list" where
  "key_parameters prefix key =
     map (\<lambda>(i, stored). \<lparr>sm_name = numbered prefix i, sm_value = Some stored, sm_nullType = None\<rparr>) (enumerate 0 key)"

definition bind_text :: "statement_parameter \<Rightarrow> string" where
  "bind_text parameter = CHR '':'' # sm_name parameter"

lemma length_key_parameters [simp]: "length (key_parameters prefix key) = length key"
  by (simp add: key_parameters_def)

lemma values_key_parameters [simp]: "map sm_value (key_parameters prefix key) = map Some key"
  by (rule nth_equalityI) (simp_all add: key_parameters_def nth_enumerate_eq)

lemma portable_append [simp]: "isPortableBindName p \<Longrightarrow> isPortableBindName (p @ dec i)"
  by (auto simp: isPortableBindName_def list_all_iff)

lemma portable_prefixes [simp]:
  "isPortableBindName ''orm_rel_owner_''" "isPortableBindName ''orm_rel_target_''" "isPortableBindName ''orm_rel_null_''"
  "isPortableBindName ''orm_rel_key_''"
  by code_simp+

lemma portable_key_name [simp]: "isPortableBindName (''orm_rel_key_'' @ dec i @ ''_'' @ dec j)"
proof -
  have join: "isPortableBindName p \<Longrightarrow> isPortableBindName q \<Longrightarrow> isPortableBindName (p @ q)" for p q
    by (simp add: isPortableBindName_def)
  have "isPortableBindName ''_''" "isPortableBindName (dec k)" for k
    by (code_simp, auto simp: isPortableBindName_def list_all_iff)
  with join [of "dec i" "''_'' @ dec j"] join [of "''orm_rel_key_''" "dec i @ ''_'' @ dec j"] join [of "''_''" "dec j"]
  show ?thesis by simp
qed

lemma join_values_Cons:
  assumes "\<forall>t \<in> set (x # xs). t \<noteq> []"
  shows "join_values (x # xs) sep = x @ concat (map (\<lambda>t. sep @ t) xs)"
proof -
  have "foldl (\<lambda>result text. (if result \<noteq> [] then result @ sep else result) @ text) y ys = y @ concat (map (\<lambda>t. sep @ t) ys)"
    if "y \<noteq> []" for y ys using that by (induction ys arbitrary: y) auto
  then show ?thesis using assms by (simp add: join_values_def)
qed

lemma joinWith_concat: "joinWith sep (x # xs) = x @ concat (map (\<lambda>t. sep @ t) xs)"
  by (induction xs arbitrary: x) (auto simp: joinWith_Cons)

lemma join_values_joinWith: "\<forall>t \<in> set xs. t \<noteq> [] \<Longrightarrow> join_values xs sep = joinWith sep xs"
  by (cases xs) (auto simp: join_values_Cons joinWith_concat, simp add: join_values_def)

context dialect_contract
begin

lemma add_value:
  "isPortableBindName name \<Longrightarrow> addValueParameter dialect name stored statement =
     Inr (CHR '':'' # name, statement\<lparr>st_parameters := st_parameters statement @
       [\<lparr>sm_name = name, sm_value = Some stored, sm_nullType = None\<rparr>]\<rparr>)"
  by (simp add: addValueParameter_def)

lemma add_key_parameters:
  assumes "isPortableBindName prefix"
  shows "add_key_values dialect prefix key (placeholders, statement) =
    Inr (placeholders @ map bind_text (key_parameters prefix key),
         statement\<lparr>st_parameters := st_parameters statement @ key_parameters prefix key\<rparr>)"
proof -
  have "foldR (\<lambda>(i, stored) (placeholders, statement).
         bindR (addValueParameter dialect (numbered prefix i) stored statement) (\<lambda>(mark, statement).
           Inr (placeholders @ [mark], statement))) (enumerate n key) (placeholders, statement) =
     (let ps = map (\<lambda>(i, stored). \<lparr>sm_name = numbered prefix i, sm_value = Some stored, sm_nullType = None\<rparr>) (enumerate n key)
      in Inr (placeholders @ map bind_text ps, statement\<lparr>st_parameters := st_parameters statement @ ps\<rparr>))" for n
    using assms by (induction key arbitrary: n placeholders statement)
      (simp_all add: add_value numbered_def bind_text_def Let_def)
  then show ?thesis by (simp add: add_key_values_def key_parameters_def Let_def)
qed

lemma junction_predicates:
  assumes "isPortableBindName prefix" "mapR (sd_quoteIdentifier dialect) columns = Inr quoted" "length columns = length key"
  shows "foldR (junction_predicate dialect prefix columns) (enumerate 0 key) (predicates, statement) =
    Inr (predicates @ map2 (\<lambda>q p. q @ '' = '' @ bind_text p) quoted (key_parameters prefix key),
         statement\<lparr>st_parameters := st_parameters statement @ key_parameters prefix key\<rparr>)"
proof -
  have step: "foldR (junction_predicate dialect prefix columns) (enumerate n (drop n key)) (predicates, statement) =
     (let ps = map (\<lambda>(i, stored). \<lparr>sm_name = numbered prefix i, sm_value = Some stored, sm_nullType = None\<rparr>)
                 (enumerate n (drop n key))
      in Inr (predicates @ map2 (\<lambda>q p. q @ '' = '' @ bind_text p) (drop n quoted) ps,
              statement\<lparr>st_parameters := st_parameters statement @ ps\<rparr>))" if "n \<le> length key" for n
    using that
  proof (induction "length key - n" arbitrary: n predicates statement)
    case 0
    then show ?case by simp
  next
    case (Suc m)
    then have n: "n < length key" by simp
    have q: "length quoted = length key" "sd_quoteIdentifier dialect (columns ! n) = Inr (quoted ! n)"
      using assms(2,3) n by (auto simp: mapR_Inr_iff list_all2_conv_all_nth dest: mapR_length)
    show ?case
      using Suc(1) [of "Suc n"] Suc(2) n q assms(1,3)
      by (simp add: Cons_nth_drop_Suc [symmetric] junction_predicate_def add_value numbered_def column_at_def bind_text_def Let_def)
  qed
  from step [of 0] show ?thesis by (simp add: key_parameters_def Let_def)
qed

end

section \<open>Many-to-many links\<close>

lemma quoteStandard_nonempty: "quoteStandardIdentifier name flavor = Inr q \<Longrightarrow> q \<noteq> []"
  by (auto simp: quoteStandardIdentifier_def)

lemma quoted_plain_join:
  assumes "mapR (\<lambda>column. quoteStandardIdentifier column flavor) columns = Inr quoted"
  shows "join_values quoted sep = joinWith sep quoted"
proof (rule join_values_joinWith)
  show "\<forall>t \<in> set quoted. t \<noteq> []"
    using assms by (fastforce simp: mapR_Inr_iff list_all2_conv_all_nth in_set_conv_nth dest: quoteStandard_nonempty)
qed

text \<open>The text of a conditional insert, up to what follows the list of values.\<close>

definition insert_text :: "string \<Rightarrow> string list \<Rightarrow> string list \<Rightarrow> string" where
  "insert_text table quoted markers =
     ''INSERT INTO '' @ table @ '' ('' @ joinWith '', '' quoted @ '') VALUES ('' @ joinWith '', '' markers @ '')''"

lemma backend_insert:
  assumes "backend_dialect backend = Some dialect"
  obtains flavor where "sd_quoteIdentifier dialect = (\<lambda>name. quoteStandardIdentifier name flavor)"
    "sd_renderInsertIfAbsent dialect = insert_on_conflict flavor \<or>
     flavor = MysqlFlavor \<and> sd_renderInsertIfAbsent dialect = family_insert"
  using assms by (cases backend) (auto simp: dialect_defs)

lemma insert_if_absent_text:
  assumes "backend_dialect backend = Some dialect" "sd_renderInsertIfAbsent dialect spec = Inr sql"
    "\<forall>t \<in> set (ii_valueExpressions spec). t \<noteq> []"
  shows "\<exists>quoted table rest. mapR (sd_quoteIdentifier dialect) (ii_columns spec) = Inr quoted \<and>
    sd_quoteIdentifier dialect (ii_tableName spec) = Inr table \<and> sql = insert_text table quoted (ii_valueExpressions spec) @ rest"
proof -
  obtain flavor where q: "sd_quoteIdentifier dialect = (\<lambda>name. quoteStandardIdentifier name flavor)"
    and insert: "sd_renderInsertIfAbsent dialect = insert_on_conflict flavor \<or>
      flavor = MysqlFlavor \<and> sd_renderInsertIfAbsent dialect = family_insert"
    using backend_insert [OF assms(1)] by blast
  from insert show ?thesis
  proof
    assume "sd_renderInsertIfAbsent dialect = insert_on_conflict flavor"
    with assms(2) show ?thesis
      by (auto simp: insert_on_conflict_def q insert_text_def join_values_joinWith [OF assms(3)] quoted_plain_join)
  next
    assume "flavor = MysqlFlavor \<and> sd_renderInsertIfAbsent dialect = family_insert"
    with assms(2) show ?thesis by (auto simp: family_insert_def q insert_text_def)
  qed
qed

lemma mapR_append: "mapR f (xs @ ys) = Inr zs \<longleftrightarrow> (\<exists>us vs. mapR f xs = Inr us \<and> mapR f ys = Inr vs \<and> zs = us @ vs)"
  by (auto simp: mapR_Inr_iff list_all2_append1) (metis list_all2_lengthD)

lemma linkInsertSpec_shape:
  assumes "linkInsertSpec schema owner relation ownerKey targetKey = Inr spec"
  shows "rv_kind relation = ManyToMany" "isConfigured (resolveJunction schema relation)"
    "ii_tableName spec = jv_tableName (resolveJunction schema relation)"
    "ii_columns spec = jv_ownerColumns (resolveJunction schema relation) @ jv_targetColumns (resolveJunction schema relation)"
    "length (jv_ownerColumns (resolveJunction schema relation)) = length ownerKey"
    "length (jv_targetColumns (resolveJunction schema relation)) = length targetKey"
  using assms by (auto simp: linkInsertSpec_def Let_def split: option.splits)

lemma keys_nonempty: "getPrimaryKeyColumns model = Inr columns \<Longrightarrow> columns \<noteq> []"
  by (auto simp: getPrimaryKeyColumns_def)

lemma marker_nonempty [simp]: "bind_text p \<noteq> []"
  by (simp add: bind_text_def)

lemma markers_plain: "join_values (map2 (\<lambda>q p. q @ '' = '' @ bind_text p) qs ps) sep = joinWith sep (map2 (\<lambda>q p. q @ '' = '' @ bind_text p) qs ps)"
  by (rule join_values_joinWith) auto

lemma link_many_row:
  assumes backend: "backend_dialect backend = Some dialect"
    and link: "link_many dialect schema owner relation ownerKey targetKey = Inr link"
  shows "\<exists>quoted table rest. mapR (sd_quoteIdentifier dialect) (jv_ownerColumns (resolveJunction schema relation)
         @ jv_targetColumns (resolveJunction schema relation)) = Inr quoted \<and>
    sd_quoteIdentifier dialect (jv_tableName (resolveJunction schema relation)) = Inr table \<and>
    st_parameters link = key_parameters ''orm_rel_owner_'' ownerKey @ key_parameters ''orm_rel_target_'' targetKey \<and>
    st_sql link = insert_text table quoted (map bind_text (st_parameters link)) @ rest"
proof -
  note add = dialect_contract.add_key_parameters [OF backend_dialect_contract [OF backend]]
  define params where "params = key_parameters ''orm_rel_owner_'' ownerKey @ key_parameters ''orm_rel_target_'' targetKey"
  obtain spec sql where spec: "linkInsertSpec schema owner relation ownerKey targetKey = Inr spec"
    and sql: "sd_renderInsertIfAbsent dialect (spec\<lparr>ii_valueExpressions := map bind_text params\<rparr>) = Inr sql"
    and result: "link = \<lparr>st_sql = sql, st_parameters = params\<rparr>"
    using link by (auto simp: link_many_def add empty_statement_def params_def)
  have "\<forall>t \<in> set (ii_valueExpressions (spec\<lparr>ii_valueExpressions := map bind_text params\<rparr>)). t \<noteq> []" by auto
  from insert_if_absent_text [OF backend sql this] linkInsertSpec_shape(3,4) [OF spec] result show ?thesis
    by (simp add: params_def)
qed

lemma unlink_many_row:
  assumes backend: "backend_dialect backend = Some dialect" and configured: "isConfigured (resolveJunction schema relation)"
    and quoted: "mapR (sd_quoteIdentifier dialect) (jv_ownerColumns (resolveJunction schema relation)
         @ jv_targetColumns (resolveJunction schema relation)) = Inr quoted"
    and table: "sd_quoteIdentifier dialect (jv_tableName (resolveJunction schema relation)) = Inr table"
    and sizes: "length (jv_ownerColumns (resolveJunction schema relation)) = length ownerKey"
      "length (jv_targetColumns (resolveJunction schema relation)) = length targetKey"
    and params: "params = key_parameters ''orm_rel_owner_'' ownerKey @ key_parameters ''orm_rel_target_'' targetKey"
  shows "unlink_many dialect schema relation ownerKey targetKey =
    Inr \<lparr>st_sql = ''DELETE FROM '' @ table @ '' WHERE ''
           @ joinWith '' AND '' (map2 (\<lambda>q p. q @ '' = '' @ bind_text p) quoted params) @ '';'', st_parameters = params\<rparr>"
proof -
  note predicates = dialect_contract.junction_predicates [OF backend_dialect_contract [OF backend]]
  obtain us vs where us: "mapR (sd_quoteIdentifier dialect) (jv_ownerColumns (resolveJunction schema relation)) = Inr us"
    and vs: "mapR (sd_quoteIdentifier dialect) (jv_targetColumns (resolveJunction schema relation)) = Inr vs"
    and split: "quoted = us @ vs"
    using quoted by (auto simp: mapR_append)
  have "length us = length ownerKey" using us sizes by (auto dest: mapR_length)
  then have "map2 (\<lambda>q p. q @ '' = '' @ bind_text p) quoted params =
      map2 (\<lambda>q p. q @ '' = '' @ bind_text p) us (key_parameters ''orm_rel_owner_'' ownerKey) @
      map2 (\<lambda>q p. q @ '' = '' @ bind_text p) vs (key_parameters ''orm_rel_target_'' targetKey)"
    by (simp add: split params)
  with markers_plain [of quoted params "'' AND ''"] show ?thesis
    by (simp add: unlink_many_def Let_def configured table predicates [OF _ us sizes(1)] predicates [OF _ vs sizes(2)]
        empty_statement_def params)
qed

section \<open>Loading collections\<close>

context dialect_contract
begin

lemma key_predicates:
  assumes "length key = length expressions"
  shows "\<exists>texts ps. foldR (key_predicate dialect keyIndex) (enumerate n (zip expressions key)) (predicates, statement) =
      Inr (texts, statement\<lparr>st_parameters := st_parameters statement @ ps\<rparr>) \<and> map sm_value ps = map Some key"
  using assms
proof (induction key arbitrary: n expressions predicates statement)
  case (Cons v key)
  then obtain e es where es: "expressions = e # es" "length key = length es" by (cases expressions) auto
  let ?p = "\<lparr>sm_name = ''orm_rel_key_'' @ dec keyIndex @ ''_'' @ dec n, sm_value = Some v, sm_nullType = None\<rparr>"
  from Cons.IH [OF es(2), of "Suc n" "predicates @ [e @ '' = '' @ bind_text ?p]"
      "statement\<lparr>st_parameters := st_parameters statement @ [?p]\<rparr>"]
  obtain texts ps where rest: "foldR (key_predicate dialect keyIndex) (enumerate (Suc n) (zip es key))
        (predicates @ [e @ '' = '' @ bind_text ?p], statement\<lparr>st_parameters := st_parameters statement @ [?p]\<rparr>) =
      Inr (texts, statement\<lparr>st_parameters := (st_parameters statement @ [?p]) @ ps\<rparr>)" "map sm_value ps = map Some key"
    by auto
  have "foldR (key_predicate dialect keyIndex) (enumerate n (zip expressions (v # key))) (predicates, statement) =
      Inr (texts, statement\<lparr>st_parameters := st_parameters statement @ (?p # ps)\<rparr>)"
    using rest(1) by (simp add: es(1) key_predicate_def add_value [OF portable_key_name, simplified] bind_text_def)
  with rest(2) show ?case by (intro exI [of _ texts] exI [of _ "?p # ps"]) simp
qed auto

lemma owner_predicates:
  assumes "foldR (owner_predicate dialect expressions) (enumerate n keys) (predicates, statement) = Inr (texts, result)"
  shows "\<exists>ps. result = statement\<lparr>st_parameters := st_parameters statement @ ps\<rparr> \<and> map sm_value ps = map Some (concat keys) \<and>
    (\<forall>key \<in> set keys. length key = length expressions)"
  using assms
proof (induction keys arbitrary: n predicates statement)
  case (Cons key keys)
  then have len: "length key = length expressions" by (auto simp: owner_predicate_def)
  from key_predicates [OF len, of n 0 "[]" statement] obtain t ps where
    key: "foldR (key_predicate dialect n) (enumerate 0 (zip expressions key)) ([], statement) =
      Inr (t, statement\<lparr>st_parameters := st_parameters statement @ ps\<rparr>)" "map sm_value ps = map Some key" by blast
  from Cons.prems have "foldR (owner_predicate dialect expressions) (enumerate (Suc n) keys)
      (predicates @ [''('' @ join_values t '' AND '' @ '')''], statement\<lparr>st_parameters := st_parameters statement @ ps\<rparr>) =
      Inr (texts, result)" by (simp add: owner_predicate_def len key(1))
  from Cons.IH [OF this] obtain qs where
    "result = statement\<lparr>st_parameters := st_parameters statement @ ps @ qs\<rparr>" "map sm_value qs = map Some (concat keys)"
    "\<forall>key \<in> set keys. length key = length expressions" by auto
  with key(2) len show ?case by (intro exI [of _ "ps @ qs"]) simp
qed auto

lemma owner_filter_values:
  assumes "renderOwnerKeyFilter dialect expressions keys empty_statement = Inr (condition, result)"
  shows "map sm_value (st_parameters result) = map Some (concat keys) \<and> (\<forall>key \<in> set keys. length key = length expressions)"
proof (cases "keys = []")
  case False
  with assms obtain texts where "foldR (owner_predicate dialect expressions) (enumerate 0 keys) ([], empty_statement) = Inr (texts, result)"
    by (auto simp: renderOwnerKeyFilter_def)
  from owner_predicates [OF this] show ?thesis by (auto simp: empty_statement_def)
qed (use assms in \<open>auto simp: renderOwnerKeyFilter_def empty_statement_def\<close>)

lemma collection_select_values:
  assumes "collectionSelectStatement dialect schema owner relation sql keys joinedValues = Inr result"
  shows "map sm_value (st_parameters result) = map Some (concat keys) \<and>
    (\<forall>columns. getPrimaryKeyColumns owner = Inr columns \<longrightarrow> (\<forall>key \<in> set keys. length key = length columns))"
  using assms
  by (auto simp: collectionSelectStatement_def endpoints_def collection_one_to_many_def collection_many_to_many_def Let_def
      split: if_splits option.splits prod.splits dest!: owner_filter_values dest: mapR_length)

end

section \<open>Batches\<close>

lemma batches_Nil [simp]: "batches n [] = []"
  by (simp add: batches.simps)

lemma concat_batches: "0 < n \<Longrightarrow> concat (batches n xs) = xs"
  by (induction n xs rule: batches.induct) (subst batches.simps, auto)

lemma length_batches: "batch \<in> set (batches n xs) \<Longrightarrow> length batch \<le> n"
  by (induction n xs rule: batches.induct) (subst (asm) (2) batches.simps, auto split: if_splits)

lemma batch_size_positive: "0 < owners \<Longrightarrow> 0 < batch_size maxBindParameters key owners"
  by (auto simp: batch_size_def split: option.splits)

lemma batch_fits:
  assumes "parameter_budget_fits (Some n) key" "length batch \<le> batch_size (Some n) key owners" "key \<noteq> []"
  shows "length batch * length key \<le> n"
proof -
  have "1 \<le> n div length key" using assms(1,3) by (simp add: parameter_budget_fits_def div_greater_zero_iff Suc_leI)
  with assms(2) have "length batch \<le> n div length key" by (simp add: batch_size_def max_def split: if_splits)
  then have "length batch * length key \<le> n div length key * length key" by (rule mult_le_mono1)
  also have "\<dots> \<le> n" by (rule div_times_less_eq_dividend)
  finally show ?thesis .
qed

lemma list_all2_partner: "list_all2 P xs ys \<Longrightarrow> y \<in> set ys \<Longrightarrow> \<exists>x \<in> set xs. P x y"
  by (induction rule: list_all2_induct) auto

lemma length_concat_uniform: "\<forall>x \<in> set xs. length x = k \<Longrightarrow> length (concat xs) = length xs * k"
  by (induction xs) auto

section \<open>The columns of the inner selection\<close>

text \<open>The aliases \<^verbatim>\<open>emitSqlFullFields\<close> gives to the columns of a model, in order.\<close>

definition column_aliases :: "schema_view \<Rightarrow> bool \<Rightarrow> model_data \<Rightarrow> column_view \<Rightarrow> string list" where
  "column_aliases schema joined model column =
     (if cv_kind column = ScalarField then [modelColumn (md_tableName model) (cv_name column)]
      else case resolveTarget_column schema column of
        None \<Rightarrow> []
      | Some target \<Rightarrow>
          if joined then map (\<lambda>child. joinedRelationColumn (cv_name column) (cv_name child)) (md_columns target)
          else map (\<lambda>child. unjoinedRelationColumn (md_tableName model) (cv_name column) (cv_name child))
                 (filter cv_isPrimaryKey (md_columns target)))"

definition full_aliases :: "schema_view \<Rightarrow> bool \<Rightarrow> model_data \<Rightarrow> string list" where
  "full_aliases schema joined model = concat (map (column_aliases schema joined model) (md_columns model))"

text \<open>A list of selected fields with the given aliases.\<close>

definition selects_aliases :: "policy \<Rightarrow> string list \<Rightarrow> string list \<Rightarrow> bool" where
  "selects_aliases policy aliases texts \<longleftrightarrow>
     list_all2 (\<lambda>alias field. \<exists>expression q. po_quoteIdentifier policy alias = Inr q \<and> field = expression @ '' AS '' @ q) aliases texts"

lemma field_text_alias:
  "field_text policy qualifier name alias = Inr field \<Longrightarrow>
     \<exists>expression q. po_quoteIdentifier policy alias = Inr q \<and> field = expression @ '' AS '' @ q"
  by (auto simp: field_text_def)

lemma selects_mapR:
  assumes "\<And>x field. x \<in> set xs \<Longrightarrow> f x = Inr field \<Longrightarrow>
    \<exists>expression q. po_quoteIdentifier policy (name_of x) = Inr q \<and> field = expression @ '' AS '' @ q"
    and "mapR f xs = Inr texts"
  shows "selects_aliases policy (map name_of xs) texts"
  using assms by (induction xs arbitrary: texts) (auto simp: selects_aliases_def)

lemma full_fields_of_aliases:
  assumes "full_fields_of policy schema scope column = Inr texts"
  shows "selects_aliases policy (column_aliases schema (sp_shouldJoin scope) (sp_model scope) column) texts"
proof (cases "cv_kind column = ScalarField")
  case True
  with assms show ?thesis
    by (auto simp: full_fields_of_def Let_def column_aliases_def selects_aliases_def modelColumn_def dest!: field_text_alias)
next
  case False
  with assms obtain target where target: "requireSqlTarget schema column = Inr target"
    and texts: "mapR (\<lambda>child.
            if sp_shouldJoin scope then field_text policy (cv_name column) (cv_name child) (cv_name column @ ''_'' @ cv_name child)
            else field_text policy (md_tableName (sp_model scope)) (cv_name column @ ''_'' @ cv_name child)
                   (md_tableName (sp_model scope) @ ''_'' @ cv_name column @ ''_'' @ cv_name child))
          (filter (\<lambda>child. sp_shouldJoin scope \<or> cv_isPrimaryKey child) (md_columns target)) = Inr texts"
    by (auto simp: full_fields_of_def Let_def)
  have "resolveTarget_column schema column = Some target"
    using target by (auto simp: requireSqlTarget_def split: option.splits if_splits)
  moreover have "selects_aliases policy (map (\<lambda>child. if sp_shouldJoin scope
      then joinedRelationColumn (cv_name column) (cv_name child)
      else unjoinedRelationColumn (md_tableName (sp_model scope)) (cv_name column) (cv_name child))
      (filter (\<lambda>child. sp_shouldJoin scope \<or> cv_isPrimaryKey child) (md_columns target))) texts"
    by (rule selects_mapR [OF _ texts])
      (use field_text_alias in \<open>force simp: joinedRelationColumn_def unjoinedRelationColumn_def split: if_splits\<close>)
  ultimately show ?thesis using False by (cases "sp_shouldJoin scope") (simp_all add: column_aliases_def)
qed

lemma selects_concat:
  "list_all2 (selects_aliases policy) names texts \<Longrightarrow> selects_aliases policy (concat names) (concat texts)"
  unfolding selects_aliases_def by (induction rule: list_all2_induct) (auto intro: list_all2_appendI)

lemma emitSqlFullFields_aliases:
  assumes "emitSqlFullFields policy schema scope = Inr sql"
  obtains texts where "sql = join_values texts '', ''" "selects_aliases policy (full_aliases schema (sp_shouldJoin scope) (sp_model scope)) texts"
proof -
  from assms obtain groups where groups: "mapR (full_fields_of policy schema scope) (md_columns (sp_model scope)) = Inr groups"
    and sql: "sql = join_values (concat groups) '', ''" by (auto simp: emitSqlFullFields_def)
  from groups have "list_all2 (selects_aliases policy) (map (column_aliases schema (sp_shouldJoin scope) (sp_model scope))
      (md_columns (sp_model scope))) groups"
    by (auto simp: mapR_Inr_iff list_all2_conv_all_nth full_fields_of_aliases)
  from that [OF sql] selects_concat [OF this] show thesis by (simp add: full_aliases_def)
qed

lemma target_select_aliases:
  assumes "renderSelectStatement schema target (target_query joined) dialect = Inr base"
  shows "st_parameters base = [] \<and> (\<exists>texts rest. st_sql base = ''SELECT '' @ join_values texts '', '' @ '' FROM '' @ rest \<and>
    selects_aliases (runtime_policy dialect) (full_aliases schema joined target) texts)"
proof -
  define query where "query = empty_query\<lparr>q_shouldJoin := joined\<rparr>"
  have "renderSelectStatement schema target (target_query joined) dialect =
      bindR (emitSql (runtime_policy dialect) schema query target) (\<lambda>sql. Inr \<lparr>st_sql = sql, st_parameters = []\<rparr>)"
    by (simp add: renderSelectStatement_def select_program_def select_start_def select_finish_def target_query_def query_def
        appendSelectPredicates_def emit_statement_def new_context_def empty_query_def)
  with assms obtain sql where sql: "emitSql (runtime_policy dialect) schema query target = Inr sql"
    and base: "base = \<lparr>st_sql = sql, st_parameters = []\<rparr>" by auto
  from sql obtain head rest where head: "emit_head (runtime_policy dialect) schema query (query_scope query target) target = Inr head"
    and rest: "sql = head @ rest" by (auto simp: emitSql_def Let_def)
  from head obtain list more where list: "emitSqlFullFields (runtime_policy dialect) schema (query_scope query target) = Inr list"
    and more: "head = ''SELECT '' @ list @ '' FROM '' @ more"
    by (auto simp: emit_head_def emit_select_list_def query_def empty_query_def raised_Inr)
  from emitSqlFullFields_aliases [OF list] obtain texts where "list = join_values texts '', ''"
    "selects_aliases (runtime_policy dialect) (full_aliases schema joined target) texts"
    by (auto simp: query_scope_def query_def)
  with base rest more show ?thesis by auto
qed

lemma primary_key_alias:
  assumes "getPrimaryKeyColumns target = Inr columns" "column \<in> set columns"
  shows "modelColumn (md_tableName target) (cv_name column) \<in> set (full_aliases schema joined target)"
proof -
  from assms obtain index where "key_column target index = Inr column"
    by (auto simp: getPrimaryKeyColumns_def mapR_Inr_iff list_all2_conv_all_nth in_set_conv_nth)
  then have "column \<in> set (md_columns target) \<and> cv_kind column = ScalarField"
    by (auto simp: key_column_def split: if_splits)
  then show ?thesis by (auto simp: full_aliases_def column_aliases_def intro!: bexI [of _ column])
qed

lemma mapped_key_alias:
  assumes "relationColumn \<in> set (md_columns target)" "cv_kind relationColumn = ToOneField"
    "cv_name relationColumn = rv_columnName mapped" "resolveTarget_column schema relationColumn = Some owner"
    "column \<in> set (md_columns owner)" "cv_isPrimaryKey column"
  shows "mapped_alias joined target mapped column \<in> set (full_aliases schema joined target)"
  using assms by (auto simp: full_aliases_def column_aliases_def mapped_alias_def intro!: bexI [of _ relationColumn])

section \<open>Properties\<close>

text \<open>Posts with tags (many to many) and comments (one to many), for the witnesses.\<close>

definition key_view :: column_view where
  "key_view = \<lparr>cv_fieldIndex = 0, cv_fieldName = ''id'', cv_name = ''id'', cv_type = Some IntT, cv_kind = ScalarField,
     cv_targetModelIndex = None, cv_isPrimaryKey = True, cv_isAutoIncrement = True, cv_isNotNull = True, cv_maxStringLength = None\<rparr>"

definition post_view :: column_view where
  "post_view = \<lparr>cv_fieldIndex = 1, cv_fieldName = ''post'', cv_name = ''post'', cv_type = None, cv_kind = ToOneField,
     cv_targetModelIndex = Some 0, cv_isPrimaryKey = False, cv_isAutoIncrement = False, cv_isNotNull = False,
     cv_maxStringLength = None\<rparr>"

definition tags_relation :: relation_view where
  "tags_relation = \<lparr>rv_fieldIndex = 1, rv_fieldName = ''tags'', rv_columnName = ''tags'', rv_kind = ManyToMany, rv_mappedBy = [],
     rv_nullable = False, rv_targetModelIndex = Some 1, rv_junction = \<lparr>jv_tableName = ''post_tags'',
       jv_ownerColumns = [''post_id''], jv_targetColumns = [''tag_id''], jv_owningSide = True\<rparr>\<rparr>"

definition comments_relation :: relation_view where
  "comments_relation = \<lparr>rv_fieldIndex = 2, rv_fieldName = ''comments'', rv_columnName = ''comments'', rv_kind = OneToMany,
     rv_mappedBy = ''post'', rv_nullable = False, rv_targetModelIndex = Some 2, rv_junction = no_junction\<rparr>"

definition posts_relation :: relation_view where
  "posts_relation = \<lparr>rv_fieldIndex = 1, rv_fieldName = ''posts'', rv_columnName = ''posts'', rv_kind = ManyToMany,
     rv_mappedBy = ''tags'', rv_nullable = False, rv_targetModelIndex = Some 0, rv_junction = no_junction\<rparr>"

definition post_relation :: relation_view where
  "post_relation = \<lparr>rv_fieldIndex = 1, rv_fieldName = ''post'', rv_columnName = ''post'', rv_kind = ToOne, rv_mappedBy = [],
     rv_nullable = True, rv_targetModelIndex = Some 0, rv_junction = no_junction\<rparr>"

definition blog_posts :: model_data where
  "blog_posts = \<lparr>md_schemaIndex = 0, md_typeName = ''Post'', md_tableName = ''posts'', md_columns = [key_view],
     md_primaryKeyIndices = [0], md_relations = [tags_relation, comments_relation]\<rparr>"

definition blog_tags :: model_data where
  "blog_tags = \<lparr>md_schemaIndex = 1, md_typeName = ''Tag'', md_tableName = ''tags'', md_columns = [key_view],
     md_primaryKeyIndices = [0], md_relations = [posts_relation]\<rparr>"

definition blog_comments :: model_data where
  "blog_comments = \<lparr>md_schemaIndex = 2, md_typeName = ''Comment'', md_tableName = ''comments'', md_columns = [key_view, post_view],
     md_primaryKeyIndices = [0], md_relations = [post_relation]\<rparr>"

definition blog :: schema_view where
  "blog = [blog_posts, blog_tags, blog_comments]"

definition key_of :: "int \<Rightarrow> primary_key" where
  "key_of n = [\<lparr>qv_logicalType = IntT, qv_value = VInt n\<rparr>]"

text \<open>
  C21. Unlinking undoes linking: whenever a many-to-many link can be rendered, so can its removal, with the same parameters
  under the same names; the link inserts the values of both keys into the columns of the junction table in order, and the
  removal deletes exactly the rows whose same columns equal the same parameters.
\<close>

theorem link_unlink_same_row:
  assumes "backend_dialect backend = Some dialect" "rv_kind relation = ManyToMany"
    "linkStatement dialect schema owner relation ownerKey targetKey = Inr link"
  shows "\<exists>quoted table rest. mapR (sd_quoteIdentifier dialect) (jv_ownerColumns (resolveJunction schema relation)
         @ jv_targetColumns (resolveJunction schema relation)) = Inr quoted \<and>
    length quoted = length (st_parameters link) \<and>
    map sm_value (st_parameters link) = map Some (ownerKey @ targetKey) \<and>
    st_sql link = insert_text table quoted (map bind_text (st_parameters link)) @ rest \<and>
    unlinkStatement dialect schema owner relation ownerKey targetKey =
      Inr \<lparr>st_sql = ''DELETE FROM '' @ table @ '' WHERE ''
             @ joinWith '' AND '' (map2 (\<lambda>q p. q @ '' = '' @ bind_text p) quoted (st_parameters link)) @ '';'',
           st_parameters = st_parameters link\<rparr>"
proof -
  let ?columns = "jv_ownerColumns (resolveJunction schema relation) @ jv_targetColumns (resolveJunction schema relation)"
  from assms(2,3) obtain target ownerColumns targetColumns where
    ends: "endpoints schema owner relation = Inr (target, ownerColumns, targetColumns)"
      "length ownerKey = length ownerColumns" "length targetKey = length targetColumns"
    and many: "link_many dialect schema owner relation ownerKey targetKey = Inr link"
    by (auto simp: linkStatement_def requireKeySize_def)
  from many obtain spec where spec: "linkInsertSpec schema owner relation ownerKey targetKey = Inr spec"
    by (auto simp: link_many_def split: prod.splits)
  note shape = linkInsertSpec_shape [OF spec]
  from link_many_row [OF assms(1) many] obtain quoted table rest where
    row: "mapR (sd_quoteIdentifier dialect) ?columns = Inr quoted"
      "sd_quoteIdentifier dialect (jv_tableName (resolveJunction schema relation)) = Inr table"
      "st_parameters link = key_parameters ''orm_rel_owner_'' ownerKey @ key_parameters ''orm_rel_target_'' targetKey"
      "st_sql link = insert_text table quoted (map bind_text (st_parameters link)) @ rest" by blast
  from unlink_many_row [OF assms(1) shape(2) row(1,2) shape(5,6) row(3)] ends assms(2)
  have "unlinkStatement dialect schema owner relation ownerKey targetKey =
      Inr \<lparr>st_sql = ''DELETE FROM '' @ table @ '' WHERE ''
             @ joinWith '' AND '' (map2 (\<lambda>q p. q @ '' = '' @ bind_text p) quoted (st_parameters link)) @ '';'',
           st_parameters = st_parameters link\<rparr>"
    by (simp add: unlinkStatement_def requireKeySize_def throwIf_def)
  moreover have "length quoted = length (st_parameters link)"
    using mapR_length [OF row(1)] shape(5,6) by (simp add: row(3))
  moreover have "map sm_value (st_parameters link) = map Some (ownerKey @ targetKey)" by (simp add: row(3))
  ultimately show ?thesis using row(1,4) by blast
qed

theorem link_unlink_same_row_witness:
  "\<exists>link unlink. linkStatement postgres_dialect blog blog_posts tags_relation (key_of 7) (key_of 9) = Inr link \<and>
     unlinkStatement postgres_dialect blog blog_posts tags_relation (key_of 7) (key_of 9) = Inr unlink \<and>
     st_parameters unlink = st_parameters link \<and> map sm_value (st_parameters link) = map Some (key_of 7 @ key_of 9)"
proof -
  have "isOk (linkStatement postgres_dialect blog blog_posts tags_relation (key_of 7) (key_of 9))" by code_simp
  then obtain link where link: "linkStatement postgres_dialect blog blog_posts tags_relation (key_of 7) (key_of 9) = Inr link"
    by (auto simp: isOk_iff)
  have "backend_dialect Postgres = Some postgres_dialect" "rv_kind tags_relation = ManyToMany" by (simp_all add: tags_relation_def)
  from link_unlink_same_row [OF this link] link show ?thesis by auto
qed

text \<open>
  A relation is the same from both sides: linking through the inverse side of a many-to-many relation addresses the same
  junction table with the same value for every column as linking through the owning side.
\<close>

theorem link_sides_agree:
  assumes "rv_kind relation = ManyToMany" "isConfigured (rv_junction relation)"
    "rv_kind opposite = ManyToMany" "\<not> isConfigured (rv_junction opposite)" "rv_mappedBy opposite = rv_fieldName relation"
    "rv_fieldName relation \<noteq> []" "findRelationField owner (rv_fieldName relation) = Some relation"
    "resolveTarget_relation schema relation = Some target" "resolveTarget_relation schema opposite = Some owner"
    "linkInsertSpec schema owner relation ownerKey targetKey = Inr spec"
  shows "\<exists>spec'. linkInsertSpec schema target opposite targetKey ownerKey = Inr spec' \<and> ii_tableName spec' = ii_tableName spec \<and>
    mset (zip (ii_columns spec') (targetKey @ ownerKey)) = mset (zip (ii_columns spec) (ownerKey @ targetKey))"
proof -
  define owning where "owning = rv_junction relation"
  have own: "resolveJunction schema relation = owning" using assms(2) by (simp add: resolveJunction_def owning_def)
  have inv: "resolveJunction schema opposite = \<lparr>jv_tableName = jv_tableName owning, jv_ownerColumns = jv_targetColumns owning,
      jv_targetColumns = jv_ownerColumns owning, jv_owningSide = False\<rparr>"
    using assms by (simp add: resolveJunction_def owning_def)
  have configured: "isConfigured (resolveJunction schema opposite)" using assms(2) by (simp add: inv isConfigured_def owning_def)
  from assms(10) obtain oc tc where keys: "getPrimaryKeyColumns owner = Inr oc" "length ownerKey = length oc"
    "getPrimaryKeyColumns target = Inr tc" "length targetKey = length tc"
    "length (jv_ownerColumns owning) = length ownerKey" "length (jv_targetColumns owning) = length targetKey"
    and spec: "ii_tableName spec = jv_tableName owning" "ii_columns spec = jv_ownerColumns owning @ jv_targetColumns owning"
    by (auto simp: linkInsertSpec_def Let_def own assms(8) requireKeySize_def)
  have "linkInsertSpec schema target opposite targetKey ownerKey = Inr \<lparr>ii_tableName = jv_tableName owning,
      ii_columns = jv_targetColumns owning @ jv_ownerColumns owning,
      ii_valueExpressions = map (numbered '':orm_rel_owner_'') [0..<length targetKey]
        @ map (numbered '':orm_rel_target_'') [0..<length ownerKey],
      ii_conflictColumns = jv_targetColumns owning @ jv_ownerColumns owning\<rparr>"
    using configured by (simp add: linkInsertSpec_def Let_def assms(3,9) keys requireKeySize_def inv)
  with spec keys(5,6) show ?thesis by (simp add: add.commute)
qed

theorem link_sides_agree_witness:
  "\<exists>spec spec'. linkInsertSpec blog blog_posts tags_relation (key_of 7) (key_of 9) = Inr spec \<and>
     linkInsertSpec blog blog_tags posts_relation (key_of 9) (key_of 7) = Inr spec' \<and>
     mset (zip (ii_columns spec') (key_of 9 @ key_of 7)) = mset (zip (ii_columns spec) (key_of 7 @ key_of 9))"
proof -
  have "isOk (linkInsertSpec blog blog_posts tags_relation (key_of 7) (key_of 9))" by code_simp
  then obtain spec where spec: "linkInsertSpec blog blog_posts tags_relation (key_of 7) (key_of 9) = Inr spec"
    by (auto simp: isOk_iff)
  have "rv_kind tags_relation = ManyToMany" "isConfigured (rv_junction tags_relation)" "rv_kind posts_relation = ManyToMany"
    "\<not> isConfigured (rv_junction posts_relation)" "rv_mappedBy posts_relation = rv_fieldName tags_relation"
    "rv_fieldName tags_relation \<noteq> []" "findRelationField blog_posts (rv_fieldName tags_relation) = Some tags_relation"
    "resolveTarget_relation blog tags_relation = Some blog_tags" "resolveTarget_relation blog posts_relation = Some blog_posts"
    by (simp_all add: tags_relation_def posts_relation_def isConfigured_def no_junction_def findRelationField_def blog_posts_def
        resolveTarget_relation_def schema_at_def blog_def)
  from link_sides_agree [OF this spec] spec show ?thesis by blast
qed

text \<open>
  C22. Loading a collection stays within the backend's bind limit and asks for every owner once: no statement has more
  parameters than the limit, and the statements together bind the keys of all owners, in order, each once.
\<close>

theorem collection_within_limit:
  assumes "backend_dialect backend = Some dialect"
    "collection_statements dialect backend (Some n) schema owner target relation shouldJoin ownerKeys = Inr statements"
  shows "(\<forall>statement \<in> set statements. length (st_parameters statement) \<le> n) \<and>
    concat (map (\<lambda>statement. map sm_value (st_parameters statement)) statements) = map Some (concat ownerKeys)"
proof -
  note values_of = dialect_contract.collection_select_values [OF backend_dialect_contract [OF assms(1)]]
  from assms(2) obtain key and base :: statement where key: "getPrimaryKeyColumns owner = Inr key" "parameter_budget_fits (Some n) key"
    and all: "mapR (\<lambda>keys. raised (collectionSelectStatement dialect schema owner relation (st_sql base) keys shouldJoin))
      (batches (batch_size (Some n) key (length ownerKeys)) ownerKeys) = Inr statements"
    by (simp add: collection_statements_def) blast
  let ?batches = "batches (batch_size (Some n) key (length ownerKeys)) ownerKeys"
  have each: "list_all2 (\<lambda>keys statement. map sm_value (st_parameters statement) = map Some (concat keys) \<and>
      (\<forall>k \<in> set keys. length k = length key)) ?batches statements"
    using all unfolding mapR_Inr_iff by (rule list_all2_mono) (use values_of key(1) in auto)
  then have "concat (map (\<lambda>statement. map sm_value (st_parameters statement)) statements) = map Some (concat (concat ?batches))"
    by (induction rule: list_all2_induct) auto
  moreover have "concat ?batches = ownerKeys"
    by (cases "ownerKeys = []") (simp_all add: concat_batches batch_size_positive)
  moreover have "length (st_parameters statement) \<le> n" if "statement \<in> set statements" for statement
  proof -
    from list_all2_partner [OF each that] obtain keys where keys: "keys \<in> set ?batches" "map sm_value (st_parameters statement) = map Some (concat keys)"
      "\<forall>k \<in> set keys. length k = length key" by blast
    then have "length (st_parameters statement) = length keys * length key"
      using length_concat_uniform [OF keys(3)] by (metis length_map)
    with batch_fits [OF key(2) length_batches [OF keys(1)] keys_nonempty [OF key(1)]] show ?thesis by simp
  qed
  ultimately show ?thesis by simp
qed

theorem collection_within_limit_witness:
  "\<exists>statements. collection_statements sqlite_dialect Sqlite (Some 2) blog blog_posts blog_comments comments_relation True
       [key_of 1, key_of 2, key_of 3] = Inr statements \<and> (\<forall>statement \<in> set statements. length (st_parameters statement) \<le> 2)"
proof -
  have "isOk (collection_statements sqlite_dialect Sqlite (Some 2) blog blog_posts blog_comments comments_relation True
       [key_of 1, key_of 2, key_of 3])" by code_simp
  then obtain statements where statements: "collection_statements sqlite_dialect Sqlite (Some 2) blog blog_posts blog_comments
       comments_relation True [key_of 1, key_of 2, key_of 3] = Inr statements" by (auto simp: isOk_iff)
  have "backend_dialect Sqlite = Some sqlite_dialect" by simp
  from collection_within_limit [OF this statements] statements show ?thesis by blast
qed

text \<open>
  The statement that loads a collection names only columns of its inner selection: the selection of the target has no
  parameters and gives its columns the aliases \<open>full_aliases\<close>, and the aliases the outer statement uses, those of the target's
  key and, for a one-to-many relation, those of the mapped column, are among them.
\<close>

theorem collection_aliases_selected:
  assumes "renderSelectStatement schema target (target_query joined) dialect = Inr base"
    "getPrimaryKeyColumns target = Inr targetKey"
    "relationColumn \<in> set (md_columns target)" "cv_kind relationColumn = ToOneField"
    "cv_name relationColumn = rv_columnName mapped" "resolveTarget_column schema relationColumn = Some owner"
  shows "st_parameters base = [] \<and>
    (\<exists>texts rest. st_sql base = ''SELECT '' @ join_values texts '', '' @ '' FROM '' @ rest \<and>
       selects_aliases (runtime_policy dialect) (full_aliases schema joined target) texts) \<and>
    (\<forall>column \<in> set targetKey. modelColumn (md_tableName target) (cv_name column) \<in> set (full_aliases schema joined target)) \<and>
    (\<forall>column \<in> set (md_columns owner). cv_isPrimaryKey column \<longrightarrow>
       mapped_alias joined target mapped column \<in> set (full_aliases schema joined target))"
  using target_select_aliases [OF assms(1)] primary_key_alias [OF assms(2)] mapped_key_alias [OF assms(3-6)] by blast

theorem collection_aliases_selected_witness:
  "mapped_alias False blog_comments post_relation key_view \<in> set (full_aliases blog False blog_comments)"
proof -
  have "isOk (renderSelectStatement blog blog_comments (target_query False) mysql_dialect)" by code_simp
  then obtain base where base: "renderSelectStatement blog blog_comments (target_query False) mysql_dialect = Inr base"
    by (auto simp: isOk_iff)
  have "getPrimaryKeyColumns blog_comments = Inr [key_view]" by code_simp
  moreover have "post_view \<in> set (md_columns blog_comments)" "cv_kind post_view = ToOneField"
    "cv_name post_view = rv_columnName post_relation" "resolveTarget_column blog post_view = Some blog_posts"
    "key_view \<in> set (md_columns blog_posts)" "cv_isPrimaryKey key_view"
    by (simp_all add: blog_comments_def post_view_def post_relation_def resolveTarget_column_def schema_at_def blog_def
        blog_posts_def key_view_def)
  ultimately show ?thesis using collection_aliases_selected [OF base] by blast
qed

end
