(* ===== verification/Orm_Literals.thy ===== *)
theory Orm_Literals
  imports Orm_Diff Orm_Sql_Validation
begin

text \<open>
  The first half of \<^verbatim>\<open>src/migrations/SchemaGeneration.cpp\<close>: the literals and expressions that fill columns of a
  generated migration. A floating value is a sign, a mantissa and a binary exponent; \<^verbatim>\<open>std::to_chars\<close> with
  \<^verbatim>\<open>chars_format::general\<close> and 17 digits is the correctly rounded decimal text of \<^verbatim>\<open>printf("%.17g")\<close>, and a cast to
  \<^verbatim>\<open>float\<close> or \<^verbatim>\<open>double\<close> rounds to nearest, ties to even. \<^verbatim>\<open>char\<close> is signed.
\<close>

definition generationFailure :: "string \<Rightarrow> string \<Rightarrow> string \<Rightarrow> backend_type \<Rightarrow> exn" where
  "generationFailure errorCode message path backend =
     GenerationError message
       [\<lparr>diag_code = errorCode, diag_message = message, diag_path = path, diag_backend = backend, diag_error = True\<rparr>]"

section \<open>Bytes\<close>

definition hexadecimal :: "string \<Rightarrow> string" where
  "hexadecimal bytes = concat (map (\<lambda>c. [hex_digits ! (code c div 16), hex_digits ! (code c mod 16)]) bytes)"

definition invalid_utf8 :: exn where
  "invalid_utf8 = generationFailure ''invalid-literal'' ''String literals must contain valid UTF-8'' [] Empty"

definition utf8_width :: "nat \<Rightarrow> nat" where
  "utf8_width lead =
     (if lead < 0x80 then 1 else if 0xc2 \<le> lead \<and> lead \<le> 0xdf then 2 else if 0xe0 \<le> lead \<and> lead \<le> 0xef then 3
      else if 0xf0 \<le> lead \<and> lead \<le> 0xf4 then 4 else 0)"

definition lead_bits :: "nat \<Rightarrow> nat \<Rightarrow> nat" where
  "lead_bits width lead = lead mod (if width = 1 then 0x80 else if width = 2 then 0x20 else if width = 3 then 0x10 else 0x08)"

fun continue_codepoint :: "string \<Rightarrow> nat \<Rightarrow> (exn, nat) result" where
  "continue_codepoint [] codepoint = Inr codepoint"
| "continue_codepoint (c # cs) codepoint =
     (if code c div 0x40 \<noteq> 2 then Inl invalid_utf8 else continue_codepoint cs (codepoint * 0x40 + code c mod 0x40))"

definition codepoint_invalid :: "nat \<Rightarrow> nat \<Rightarrow> bool" where
  "codepoint_invalid width codepoint \<longleftrightarrow>
     (width = 2 \<and> codepoint < 0x80) \<or> (width = 3 \<and> codepoint < 0x800) \<or> (width = 4 \<and> codepoint < 0x10000) \<or>
     (0xd800 \<le> codepoint \<and> codepoint \<le> 0xdfff) \<or> codepoint > 0x10ffff"

function unicodeLength :: "string \<Rightarrow> (exn, nat) result" where
  "unicodeLength value =
     (if value = [] then Inr 0
      else
        let lead = code (hd value); width = utf8_width lead
        in if width = 0 \<or> width > length value then Inl invalid_utf8
           else bindR (continue_codepoint (take (width - 1) (tl value)) (lead_bits width lead)) (\<lambda>codepoint.
                if codepoint_invalid width codepoint then Inl invalid_utf8
                else bindR (unicodeLength (drop width value)) (\<lambda>n. Inr (Suc n))))"
  by pat_completeness auto

termination unicodeLength by (relation "measure length") auto

declare unicodeLength.simps [simp del]

section \<open>Numbers\<close>

definition integerLimits :: "column_type \<Rightarrow> (exn, int \<times> nat) result" where
  "integerLimits type =
     (case type of
        BoolT \<Rightarrow> Inr (0, 1)
      | CharT \<Rightarrow> Inr (-128, 127)
      | UnsignedCharT \<Rightarrow> Inr (0, 255)
      | ShortT \<Rightarrow> Inr (-32768, 32767)
      | UnsignedShortT \<Rightarrow> Inr (0, 65535)
      | IntT \<Rightarrow> Inr (-2147483648, 2147483647)
      | UnsignedIntT \<Rightarrow> Inr (0, 4294967295)
      | LongLongT \<Rightarrow> Inr (-9223372036854775808, 9223372036854775807)
      | UnsignedLongLongT \<Rightarrow> Inr (0, 18446744073709551615)
      | _ \<Rightarrow> Inl (generationFailure ''invalid-literal'' ''Literal does not match the target logical type'' [] Empty))"

text \<open>A nonnegative rational rounded to the nearest integer, ties to even.\<close>

definition round_even :: "nat \<Rightarrow> nat \<Rightarrow> nat" where
  "round_even n d =
     (let q = n div d; r = n mod d
      in if 2 * r > d \<or> (2 * r = d \<and> odd q) then q + 1 else q)"

type_synonym floating = "bool \<times> nat \<times> int"

definition double_parts :: "64 word \<Rightarrow> floating" where
  "double_parts w =
     (bit w 63,
      if double_exponent w = 0 then (double_fraction w, -1074)
      else (double_fraction w + 2 ^ 52, int (double_exponent w) - 1075))"

fun bit_length :: "nat \<Rightarrow> nat" where
  "bit_length n = (if n = 0 then 0 else Suc (bit_length (n div 2)))"

declare bit_length.simps [simp del]

text \<open>Rounding to \<open>precision\<close> bits with the smallest exponent \<open>least\<close>: (53, -1074) for double, (24, -149) for float.\<close>

definition round_floating :: "nat \<Rightarrow> int \<Rightarrow> floating \<Rightarrow> floating" where
  "round_floating precision least = (\<lambda>(negative, m, e).
     let shift = max (int (bit_length m) - int precision) (least - e)
     in if shift \<le> 0 then (negative, m, e) else (negative, round_even m (2 ^ nat shift), e + shift))"

definition to_float :: "floating \<Rightarrow> floating" where
  "to_float = round_floating 24 (-149)"

definition integer_to_double :: "int \<Rightarrow> floating" where
  "integer_to_double n = round_floating 53 (-1074) (n < 0, nat \<bar>n\<bar>, 0)"

text \<open>The decimal exponent of a positive rational.\<close>

function decade_up :: "nat \<Rightarrow> nat \<Rightarrow> nat" where
  "decade_up n d = (if d = 0 \<or> n < 10 * d then 0 else Suc (decade_up n (10 * d)))"
  by pat_completeness auto

termination decade_up by (relation "measure (\<lambda>(n, d). n - d)") auto

function decade_down :: "nat \<Rightarrow> nat \<Rightarrow> nat" where
  "decade_down n d = (if n = 0 \<or> d \<le> n then 0 else Suc (decade_down (10 * n) d))"
  by pat_completeness auto

termination decade_down by (relation "measure (\<lambda>(n, d). d - n)") auto

declare decade_up.simps [simp del] decade_down.simps [simp del]

definition decimal_exponent :: "nat \<Rightarrow> nat \<Rightarrow> int" where
  "decimal_exponent n d = (if n < d then - int (decade_down n d) else int (decade_up n d))"

text \<open>The seventeen significant digits and the exponent after rounding.\<close>

definition significant_digits :: "nat \<Rightarrow> nat \<Rightarrow> nat \<times> int" where
  "significant_digits n d =
     (let x = decimal_exponent n d; k = 16 - x;
          digits = round_even (n * 10 ^ nat k) (d * 10 ^ nat (- k))
      in if digits = 10 ^ 17 then (10 ^ 16, x + 1) else (digits, x))"

definition strip_zeros :: "string \<Rightarrow> string" where
  "strip_zeros s = rev (dropWhile (\<lambda>c. c = CHR ''0'') (rev s))"

definition with_fraction :: "string \<Rightarrow> string \<Rightarrow> string" where
  "with_fraction whole fraction = (let f = strip_zeros fraction in whole @ (if f = [] then [] else ''.'' @ f))"

definition general_text :: "nat \<Rightarrow> int \<Rightarrow> string" where
  "general_text digits x =
     (let ds = dec digits
      in if x < -4 \<or> x \<ge> 17
         then with_fraction (take 1 ds) (drop 1 ds) @ ''e'' @ (if x < 0 then ''-'' else ''+'') @ zpad 2 (nat \<bar>x\<bar>)
         else if x < 0 then with_fraction ''0'' (replicate (nat (- x) - 1) (CHR ''0'') @ ds)
         else with_fraction (take (nat x + 1) ds) (drop (nat x + 1) ds))"

definition floatingSql :: "floating \<Rightarrow> string" where
  "floatingSql = (\<lambda>(negative, m, e).
     (if negative then ''-'' else []) @
     (if m = 0 then ''0''
      else let (digits, x) = significant_digits (m * 2 ^ nat e) (2 ^ nat (- e)) in general_text digits x))"

definition exceeds_float :: "floating \<Rightarrow> bool" where
  "exceeds_float = (\<lambda>(_, m, e). m * 2 ^ nat e > (2 ^ 24 - 1) * 2 ^ 104 * 2 ^ nat (- e))"

section \<open>Literals\<close>

definition integer_limit :: "(exn, int \<times> nat) result \<Rightarrow> int \<Rightarrow> string \<Rightarrow> backend_type \<Rightarrow> (exn, unit) result" where
  "integer_limit limits item columnName backend =
     bindR limits (\<lambda>(least, greatest).
       throwIf (item < least \<or> item > int greatest)
         (generationFailure ''invalid-literal'' ''Integer literal is outside the target range'' columnName backend))"

text \<open>A native value: checked and formatted, an \<^verbatim>\<open>std::invalid_argument\<close> of either is a failure of generation.\<close>

definition nativeLiteralSql ::
  "column_type \<Rightarrow> (exn, string) result \<Rightarrow> physical_column \<Rightarrow> backend_type \<Rightarrow> (exn, string) result" where
  "nativeLiteralSql type formatted column backend =
     bindR (throwIf (pc_logicalType column \<noteq> type)
              (generationFailure ''invalid-literal'' ''Literal does not match the target logical type'' (pc_name column) backend)) (\<lambda>_.
     case formatted of
       Inl (InvalidArgument _) \<Rightarrow>
         Inl (generationFailure ''invalid-literal'' ''Literal is outside the target backend domain'' (pc_name column) backend)
     | Inl e \<Rightarrow> Inl e
     | Inr value \<Rightarrow>
         Inr (if type = UuidT then [squote] @ value @ [squote] @ (if backend = Postgres then ''::uuid'' else [])
              else if backend = Postgres then ''CAST('' @ [squote] @ value @ [squote] @ '' AS '' @ pc_sqlType column @ '')''
              else [squote] @ value @ [squote]))"

definition date_literal :: "date \<Rightarrow> physical_column \<Rightarrow> backend_type \<Rightarrow> (exn, string) result" where
  "date_literal item column backend =
     nativeLiteralSql DateT (bindR (validateNative_Date item backend) (\<lambda>_. format_Date item)) column backend"

definition time_literal :: "time_of_day \<Rightarrow> physical_column \<Rightarrow> backend_type \<Rightarrow> (exn, string) result" where
  "time_literal item column backend =
     nativeLiteralSql TimeOfDayT (bindR (validateNative_TimeOfDay item backend) (\<lambda>_. Inr (format_TimeOfDay item))) column backend"

definition local_literal :: "local_date_time \<Rightarrow> physical_column \<Rightarrow> backend_type \<Rightarrow> (exn, string) result" where
  "local_literal item column backend =
     nativeLiteralSql LocalDateTimeT (bindR (validateNative_LocalDateTime item backend) (\<lambda>_. format_LocalDateTime item)) column backend"

definition utc_literal :: "utc_timestamp \<Rightarrow> physical_column \<Rightarrow> backend_type \<Rightarrow> (exn, string) result" where
  "utc_literal item column backend =
     nativeLiteralSql UtcTimestampT
       (bindR (validateNative_UtcTimestamp item backend) (\<lambda>_. format_UtcTimestamp item (backend = Postgres))) column backend"

definition uuid_literal :: "uuid \<Rightarrow> physical_column \<Rightarrow> backend_type \<Rightarrow> (exn, string) result" where
  "uuid_literal item column backend =
     nativeLiteralSql UuidT (bindR (validateNativeUuid item backend) (\<lambda>_. Inr (Uuid_toString item))) column backend"

definition string_literal :: "string \<Rightarrow> physical_column \<Rightarrow> backend_type \<Rightarrow> (exn, string) result" where
  "string_literal item column backend =
     (let failure = (\<lambda>message. generationFailure ''invalid-literal'' message (pc_name column) backend)
      in if pc_logicalType column = UuidT
         then (case bindR (Uuid_parse item) (\<lambda>u. uuid_literal u column backend) of
                 Inl (InvalidArgument _) \<Rightarrow> Inl (failure ''UUID literal requires canonical UUID text'')
               | r \<Rightarrow> r)
         else
           bindR (throwIf (pc_logicalType column \<noteq> StringT) (failure ''String literal requires a string target'')) (\<lambda>_.
           bindR (unicodeLength item) (\<lambda>len.
           bindR (throwIf (case pc_maxStringLength column of None \<Rightarrow> False | Some n \<Rightarrow> len > n)
                    (failure ''String literal exceeds the target bound'')) (\<lambda>_.
             if backend = Sqlite then Inr (''CAST(X'' @ [squote] @ hexadecimal item @ [squote] @ '' AS TEXT)'')
             else if backend = Mysql \<or> backend = Mariadb
             then Inr (''CONVERT(X'' @ [squote] @ hexadecimal item @ [squote] @ '' USING utf8mb4)'')
             else bindR (throwIf (nul \<in> set item) (failure ''PostgreSQL text cannot contain NUL'')) (\<lambda>_.
               Inr (''convert_from(decode('' @ [squote] @ hexadecimal item @ [squote] @ '', '' @ [squote] @ ''hex'' @ [squote]
                    @ ''), '' @ [squote] @ ''UTF8'' @ [squote] @ '')''))))))"

definition double_literal :: "64 word \<Rightarrow> physical_column \<Rightarrow> backend_type \<Rightarrow> (exn, string) result" where
  "double_literal item column backend =
     bindR (throwIf ((pc_logicalType column \<noteq> FloatT \<and> pc_logicalType column \<noteq> DoubleT) \<or> \<not> isfinite item \<or>
                     (pc_logicalType column = FloatT \<and> exceeds_float (double_parts item)))
              (generationFailure ''invalid-literal'' ''Floating literal requires a finite representable floating target''
                 (pc_name column) backend)) (\<lambda>_.
       Inr (floatingSql ((if pc_logicalType column = FloatT then to_float else id) (double_parts item))))"

text \<open>
  The remaining alternatives, \<^verbatim>\<open>bool\<close>, \<^verbatim>\<open>std::int64_t\<close> and \<^verbatim>\<open>std::uint64_t\<close>; the literal is \<open>unsigned64\<close> for the last.
  A cast of an integer to \<^verbatim>\<open>float\<close> rounds once.
\<close>

definition integer_literal :: "bool \<Rightarrow> int \<Rightarrow> physical_column \<Rightarrow> backend_type \<Rightarrow> (exn, string) result" where
  "integer_literal unsigned64 item column backend =
     (if pc_logicalType column = FloatT then Inr (floatingSql (to_float (item < 0, nat \<bar>item\<bar>, 0)))
      else if pc_logicalType column = DoubleT then Inr (floatingSql (integer_to_double item))
      else
        bindR (integer_limit (integerLimits (pc_logicalType column)) item (pc_name column) backend) (\<lambda>_.
        bindR (throwIf (unsigned64 \<and> (backend = Sqlite \<or> backend = Postgres) \<and> item > 9223372036854775807)
                 (generationFailure ''invalid-literal'' ''Backend cannot represent this unsigned literal'' (pc_name column) backend)) (\<lambda>_.
          Inr (if pc_logicalType column = BoolT \<and> backend = Postgres then (if item \<noteq> 0 then ''TRUE'' else ''FALSE'')
               else (if item < 0 then ''-'' else []) @ dec (nat \<bar>item\<bar>)))))"

fun literalSql :: "generation_literal \<Rightarrow> physical_column \<Rightarrow> backend_type \<Rightarrow> (exn, string) result" where
  "literalSql NullLiteral column backend =
     bindR (throwIf (\<not> pc_nullable column)
              (generationFailure ''invalid-literal'' ''NULL cannot fill a required column'' (pc_name column) backend)) (\<lambda>_. Inr ''NULL'')"
| "literalSql (BoolLiteral b) column backend = integer_literal False (if b then 1 else 0) column backend"
| "literalSql (IntLiteral n) column backend = integer_literal False n column backend"
| "literalSql (UnsignedLiteral n) column backend = integer_literal True (int n) column backend"
| "literalSql (DoubleLiteral w) column backend = double_literal w column backend"
| "literalSql (StringLiteral s) column backend = string_literal s column backend"
| "literalSql (DateLiteral d) column backend = date_literal d column backend"
| "literalSql (TimeLiteral t) column backend = time_literal t column backend"
| "literalSql (LocalLiteral v) column backend = local_literal v column backend"
| "literalSql (UtcLiteral v) column backend = utc_literal v column backend"
| "literalSql (UuidLiteral u) column backend = uuid_literal u column backend"

section \<open>Expressions\<close>

definition unbalanced :: "backend_type \<Rightarrow> exn" where
  "unbalanced backend = generationFailure ''invalid-expression'' ''Unbalanced transformation expression'' [] backend"

definition forbidden_start :: "char \<Rightarrow> string \<Rightarrow> bool" where
  "forbidden_start c rest \<longleftrightarrow>
     c \<in> set '';#$'' \<or> c = backslash \<or> (c = CHR ''-'' \<and> rest \<noteq> [] \<and> hd rest = CHR ''-'') \<or>
     (c = CHR ''/'' \<and> rest \<noteq> [] \<and> hd rest = CHR ''*'')"

text \<open>The loop over the characters: the open quotation mark, if any, and the number of open parentheses.\<close>

fun scan_expression :: "backend_type \<Rightarrow> char option \<Rightarrow> nat \<Rightarrow> string \<Rightarrow> (exn, char option \<times> nat) result" where
  "scan_expression backend quoted depth [] = Inr (quoted, depth)"
| "scan_expression backend (Some q) depth (c # cs) =
     (if c = backslash \<and> backend \<noteq> Sqlite \<and> backend \<noteq> Postgres \<and> q \<noteq> backtick
      then (case cs of [] \<Rightarrow> Inr (Some q, depth) | _ # ds \<Rightarrow> scan_expression backend (Some q) depth ds)
      else if c = q
      then (case cs of
              [] \<Rightarrow> Inr (None, depth)
            | d # ds \<Rightarrow> if d = q then scan_expression backend (Some q) depth ds else scan_expression backend None depth (d # ds))
      else scan_expression backend (Some q) depth cs)"
| "scan_expression backend None depth (c # cs) =
     (if c = squote \<or> c = dquote \<or> c = backtick then scan_expression backend (Some c) depth cs
      else if forbidden_start c cs
      then Inl (generationFailure ''invalid-expression''
                  ''Transformation expressions cannot contain commands, comments, or dollar quoting'' [] backend)
      else if c = CHR ''('' then scan_expression backend None (Suc depth) cs
      else if c = CHR '')'' then (if depth = 0 then Inl (unbalanced backend) else scan_expression backend None (depth - 1) cs)
      else scan_expression backend None depth cs)"

definition validateExpression :: "string \<Rightarrow> backend_type \<Rightarrow> (exn, unit) result" where
  "validateExpression expression backend =
     bindR (throwIf (expression = [] \<or> nul \<in> set expression)
              (generationFailure ''invalid-expression'' ''A transformation requires one nonempty SQL expression'' [] backend)) (\<lambda>_.
     bindR (scan_expression backend None 0 expression) (\<lambda>(quoted, depth).
     bindR (throwIf (quoted \<noteq> None \<or> depth \<noteq> 0) (unbalanced backend)) (\<lambda>_.
       validateScript (''SELECT '' @ expression @ '';'') backend 0)))"

section \<open>Transformations\<close>

definition findTransformation :: "column_transformation list \<Rightarrow> string \<Rightarrow> string \<Rightarrow> column_transformation option" where
  "findTransformation values table column = find (\<lambda>v. ct_table v = table \<and> ct_column v = column) values"

definition transformationSql ::
  "column_transformation \<Rightarrow> physical_table \<Rightarrow> physical_column \<Rightarrow> backend_type \<Rightarrow> (exn, string) result" where
  "transformationSql value source target backend =
     (let failure = (\<lambda>message path. generationFailure ''invalid-transformation'' message path backend)
      in bindR (throwIf ((if ct_constant value \<noteq> None then 1 else 0) + (if ct_sourceColumn value \<noteq> None then 1 else 0)
                         + (if ct_expressions value \<noteq> [] then 1 else 0) \<noteq> (1 :: nat))
                  (failure ''Choose exactly one literal, source column, or backend expression''
                     (ct_table value @ ''/'' @ ct_column value))) (\<lambda>_.
         case ct_constant value of
           Some literal \<Rightarrow> literalSql literal target backend
         | None \<Rightarrow>
             (case ct_sourceColumn value of
                Some name \<Rightarrow>
                  (case find_column (tb_columns source) name of
                     None \<Rightarrow> Inl (failure ''Source column does not exist in the preceding snapshot'' name)
                   | Some original \<Rightarrow>
                       bindR (throwIf (pc_nullable original \<and> \<not> pc_nullable target)
                                (failure ''A nullable source cannot fill a required target without an explicit expression'' name))
                         (\<lambda>_. quoteIdentifier backend name))
              | None \<Rightarrow>
                  (case map_of (ct_expressions value) backend of
                     None \<Rightarrow> Inl (generationFailure ''missing-expression'' ''Transformation has no expression for this backend''
                                (ct_table value @ ''/'' @ ct_column value) backend)
                   | Some expression \<Rightarrow> bindR (validateExpression expression backend) (\<lambda>_. Inr expression)))))"

end
