(* ===== verification/Orm_Generate.thy ===== *)
theory Orm_Generate
  imports Orm_Literals Orm_Catalog
begin

text \<open>
  The second half of \<^verbatim>\<open>src/migrations/SchemaGeneration.cpp\<close>: the statements of a generated migration, rebuilt tables for
  SQLite and native \<^verbatim>\<open>ALTER TABLE\<close> statements for the others, the execution contexts and \<^verbatim>\<open>generate\<close>. A script is built as
  the list of its statements; \<open>script_text\<close> is the text \<^verbatim>\<open>append\<close> accumulates. A \<^verbatim>\<open>std::set\<close> of names is a list without
  repetition, sorted where its order is used. The dump of the JSON library is a parameter, as in the catalog.
\<close>

section \<open>Names under decisions\<close>

definition targetTable :: "string \<Rightarrow> generation_decisions \<Rightarrow> string" where
  "targetTable name decisions =
     (case find (\<lambda>r. tr_from r = name) (gd_tableRenames decisions) of Some r \<Rightarrow> tr_to r | None \<Rightarrow> name)"

definition targetColumn :: "string \<Rightarrow> string \<Rightarrow> generation_decisions \<Rightarrow> string" where
  "targetColumn table name decisions =
     (case find (\<lambda>r. cr_table r = table \<and> cr_from r = name) (gd_columnRenames decisions) of Some r \<Rightarrow> cr_to r | None \<Rightarrow> name)"

definition sourceTable :: "string \<Rightarrow> generation_decisions \<Rightarrow> string" where
  "sourceTable name decisions =
     (case find (\<lambda>r. tr_to r = name) (gd_tableRenames decisions) of Some r \<Rightarrow> tr_from r | None \<Rightarrow> name)"

definition sourceColumn :: "string \<Rightarrow> string \<Rightarrow> generation_decisions \<Rightarrow> string" where
  "sourceColumn table name decisions =
     (case find (\<lambda>r. cr_table r = table \<and> cr_to r = name) (gd_columnRenames decisions) of Some r \<Rightarrow> cr_from r | None \<Rightarrow> name)"

definition matchingSource :: "physical_schema \<Rightarrow> string \<Rightarrow> generation_decisions \<Rightarrow> physical_table option" where
  "matchingSource before target decisions =
     (case find_table (sc_tables before) (sourceTable target decisions) of
        Some source \<Rightarrow> if targetTable (tb_name source) decisions = target then Some source else None
      | None \<Rightarrow> None)"

definition matchingSourceColumn ::
  "physical_table \<Rightarrow> string \<Rightarrow> string \<Rightarrow> generation_decisions \<Rightarrow> physical_column option" where
  "matchingSourceColumn before table target decisions =
     (case find_column (tb_columns before) (sourceColumn table target decisions) of
        Some source \<Rightarrow> if targetColumn table (pc_name source) decisions = target then Some source else None
      | None \<Rightarrow> None)"

section \<open>Statements\<close>

definition append_text :: "string \<Rightarrow> string" where
  "append_text statement = statement @ (if ends_with statement '';'' then [] else '';'') @ [newline]"

definition script_text :: "string list \<Rightarrow> string" where
  "script_text sqls = (if sqls = [] then ''SELECT 1;'' @ [newline] else concat (map append_text sqls))"

definition identifiers :: "backend_type \<Rightarrow> string list \<Rightarrow> (exn, string) result" where
  "identifiers backend names = bindR (mapR (quoteIdentifier backend) names) (\<lambda>quoted. Inr (joinWith '', '' quoted))"

definition indexSql :: "backend_type \<Rightarrow> string \<Rightarrow> physical_index \<Rightarrow> (exn, string) result" where
  "indexSql backend table index =
     bindR (quoteIdentifier backend (ix_name index)) (\<lambda>name.
     bindR (quoteIdentifier backend table) (\<lambda>on.
     bindR (identifiers backend (ix_columns index)) (\<lambda>columns.
       Inr (''CREATE '' @ (if ix_unique index then ''UNIQUE '' else []) @ ''INDEX '' @ name @ '' ON '' @ on @ '' ('' @ columns @ '');''))))"

definition temporaryName :: "version \<Rightarrow> string \<Rightarrow> string \<Rightarrow> string \<Rightarrow> string \<Rightarrow> string" where
  "temporaryName version direction source target prefix =
     prefix @ take 16 (sha256 (dec (nat version) @ '':'' @ direction @ '':'' @ dec (length source) @ '':'' @ source @ '':''
       @ dec (length target) @ '':'' @ target))"

definition identity_of :: "physical_table \<Rightarrow> string option" where
  "identity_of table = map_option pc_name (find pc_autoIncrement (tb_columns table))"

definition schema_of :: "schema_snapshot \<Rightarrow> backend_type \<Rightarrow> (exn, physical_schema) result" where
  "schema_of snapshot backend =
     (case map_of (ss_backends snapshot) backend of None \<Rightarrow> Inl (LogicError ''map::at'') | Some schema \<Rightarrow> Inr schema)"

definition changedTables :: "schema_diff \<Rightarrow> backend_type \<Rightarrow> string list" where
  "changedTables diff backend =
     map (\<lambda>change. if ch_kind change = RenameTable then ch_otherName change else ch_table change)
       (filter (\<lambda>change. ch_backend change = backend) (df_changes diff))"

section \<open>Affected tables\<close>

definition affect_key :: "physical_table \<Rightarrow> physical_foreign_key \<Rightarrow> string list \<Rightarrow> string list" where
  "affect_key table key affected =
     (if fk_targetTable key \<in> set affected then List.insert (tb_name table) affected else affected)"

definition affect_pass :: "physical_table list \<Rightarrow> string list \<Rightarrow> string list" where
  "affect_pass tables affected = fold (\<lambda>table. fold (affect_key table) (tb_foreignKeys table)) tables affected"

text \<open>One list of names grown_by another by the given names; it is longer unless it is the same.\<close>

definition grown_by :: "string set \<Rightarrow> string list \<Rightarrow> string list \<Rightarrow> bool" where
  "grown_by names xs ys \<longleftrightarrow>
     set xs \<subseteq> set ys \<and> set ys \<subseteq> names \<union> set xs \<and> length xs \<le> length ys \<and>
     (length ys = length xs \<or> set ys = set xs \<longrightarrow> ys = xs)"

lemma grown_by_refl: "grown_by names xs xs"
  by (simp add: grown_by_def)

lemma grown_by_trans: "grown_by names xs ys \<Longrightarrow> grown_by names ys zs \<Longrightarrow> grown_by names xs zs"
  unfolding grown_by_def by auto

lemma grown_by_fold: "(\<And>x s. x \<in> set xs \<Longrightarrow> grown_by names s (f x s)) \<Longrightarrow> grown_by names s (fold f xs s)"
proof (induction xs arbitrary: s)
  case (Cons x xs)
  have "grown_by names s (f x s)" using Cons.prems by simp
  moreover have "grown_by names (f x s) (fold f xs (f x s))" using Cons by simp
  ultimately show ?case using grown_by_trans by simp
qed (simp add: grown_by_refl)

lemma grown_by_pass: "grown_by (tb_name ` set tables) affected (affect_pass tables affected)"
  unfolding affect_pass_def
proof (intro grown_by_fold)
  fix table key and s :: "string list"
  assume "table \<in> set tables"
  then show "grown_by (tb_name ` set tables) s (affect_key table key s)"
    by (auto simp: affect_key_def grown_by_def List.insert_def)
qed

function affected_loop :: "physical_table list \<Rightarrow> string list \<Rightarrow> string list" where
  "affected_loop tables affected =
     (let grown = affect_pass tables affected
      in if length grown = length affected then grown else affected_loop tables grown)"
  by pat_completeness auto

termination affected_loop
proof (relation "measure (\<lambda>(tables, affected). card (tb_name ` set tables - set affected))")
  fix tables affected grown
  assume grown: "grown = affect_pass tables affected" and more: "length grown \<noteq> length affected"
  note step = grown_by_pass [of tables affected, folded grown]
  then have "set grown \<noteq> set affected" using more by (auto simp: grown_by_def)
  with step show "((tables, grown), tables, affected) \<in> measure (\<lambda>(tables, affected). card (tb_name ` set tables - set affected))"
    by (auto simp: grown_by_def intro!: psubset_card_mono)
qed simp

declare affected_loop.simps [simp del]

definition nativeAffectedSources :: "schema_diff \<Rightarrow> generation_decisions \<Rightarrow> backend_type \<Rightarrow> (exn, string list) result" where
  "nativeAffectedSources diff decisions backend =
     bindR (schema_of (df_before diff) backend) (\<lambda>before.
     bindR (schema_of (df_after diff) backend) (\<lambda>after.
       let changed = changedTables diff backend;
           direct = remdups (map tb_name (filter (\<lambda>table.
             targetTable (tb_name table) decisions \<in> set changed \<or>
             find_table (sc_tables after) (targetTable (tb_name table) decisions) = None) (sc_tables before)))
       in Inr (affected_loop (sc_tables before) direct)))"

section \<open>Transformations\<close>

definition validate_transformation ::
  "physical_schema \<Rightarrow> physical_schema \<Rightarrow> generation_decisions \<Rightarrow> bool \<Rightarrow> column_transformation \<Rightarrow> (string \<times> string) list
   \<Rightarrow> (exn, (string \<times> string) list) result" where
  "validate_transformation before after decisions isConversion v seen =
     (let failure = (\<lambda>message. generationFailure ''invalid-transformation'' message (ct_table v @ ''/'' @ ct_column v) (sc_backend before));
          missing = Inl (failure ''Transformations must identify a unique existing table and target column'')
      in if (ct_table v, ct_column v) \<in> set seen then missing
         else case matchingSource before (ct_table v) decisions of
           None \<Rightarrow> missing
         | Some old \<Rightarrow>
             (case find_table (sc_tables after) (ct_table v) of
                None \<Rightarrow> missing
              | Some table \<Rightarrow>
                  (case find_column (tb_columns table) (ct_column v) of
                     None \<Rightarrow> missing
                   | Some column \<Rightarrow>
                       bindR (throwIf (isConversion \<and> matchingSourceColumn old (tb_name table) (pc_name column) decisions = None)
                                (failure ''Conversions require an existing source column'')) (\<lambda>_.
                       bindR (transformationSql v old column (sc_backend before)) (\<lambda>_.
                         Inr ((ct_table v, ct_column v) # seen))))))"

definition validateTransformations ::
  "physical_schema \<Rightarrow> physical_schema \<Rightarrow> generation_decisions \<Rightarrow> (exn, unit) result" where
  "validateTransformations before after decisions =
     bindR (foldR (validate_transformation before after decisions False) (gd_backfills decisions) []) (\<lambda>_.
     bindR (foldR (validate_transformation before after decisions True) (gd_conversions decisions) []) (\<lambda>_. Inr ()))"

section \<open>SQLite\<close>

definition fresh_context :: execution_context where
  "fresh_context = \<lparr>ec_mode = NormalMode, ec_tables = [], ec_rebuildTables = [], ec_source = None, ec_target = None\<rparr>"

text \<open>The value of a column of the rebuilt table, as an expression over the columns of its source.\<close>

definition copied_value ::
  "generation_decisions \<Rightarrow> physical_table \<Rightarrow> physical_table \<Rightarrow> physical_column \<Rightarrow> (exn, string) result" where
  "copied_value decisions source target column =
     (let old = matchingSourceColumn source (tb_name target) (pc_name column) decisions;
          conversion = findTransformation (gd_conversions decisions) (tb_name target) (pc_name column);
          backfill = findTransformation (gd_backfills decisions) (tb_name target) (pc_name column)
      in bindR (case conversion of
                  Some c \<Rightarrow> transformationSql c source column Sqlite
                | None \<Rightarrow> (case old of
                    Some o' \<Rightarrow> quoteIdentifier Sqlite (pc_name o')
                  | None \<Rightarrow> (case backfill of
                      Some b \<Rightarrow> transformationSql b source column Sqlite
                    | None \<Rightarrow> Inr ''NULL''))) (\<lambda>expression.
         case (old, backfill, conversion) of
           (Some o', Some b, None) \<Rightarrow>
             if pc_nullable o' \<and> \<not> pc_nullable column
             then bindR (transformationSql b source column Sqlite) (\<lambda>filled.
                    Inr (''COALESCE('' @ expression @ '', '' @ filled @ '')''))
             else Inr expression
         | _ \<Rightarrow> Inr expression))"

definition staged_rebuild :: "version \<Rightarrow> string \<Rightarrow> physical_table \<Rightarrow> physical_table \<Rightarrow> rebuild_table" where
  "staged_rebuild version direction source target =
     \<lparr>rt_source = tb_name source, rt_target = tb_name target,
      rt_staging = temporaryName version direction (tb_name source) (tb_name target) ''__orm_rebuild_'',
      rt_sourceIdentity = identity_of source, rt_targetIdentity = identity_of target\<rparr>"

definition stage_statements ::
  "version \<Rightarrow> string \<Rightarrow> generation_decisions \<Rightarrow> physical_table \<Rightarrow> physical_table \<Rightarrow> (exn, string list) result" where
  "stage_statements version direction decisions source target =
     (let stage = temporaryName version direction (tb_name source) (tb_name target) ''__orm_rebuild_''
      in bindR (renderCreateTable Sqlite (target\<lparr>tb_name := stage\<rparr>) True False) (\<lambda>create.
         bindR (mapR (copied_value decisions source target) (tb_columns target)) (\<lambda>copied.
         bindR (quoteIdentifier Sqlite stage) (\<lambda>into.
         bindR (identifiers Sqlite (map pc_name (tb_columns target))) (\<lambda>names.
         bindR (quoteIdentifier Sqlite (tb_name source)) (\<lambda>from_table.
           Inr [create, ''INSERT INTO '' @ into @ '' ('' @ names @ '') SELECT '' @ joinWith '', '' copied @ '' FROM '' @ from_table]))))))"

text \<open>The first loop: the tables that change, each with its rebuild and its copy if it has a target.\<close>

definition stage_table ::
  "version \<Rightarrow> string \<Rightarrow> physical_schema \<Rightarrow> string list \<Rightarrow> generation_decisions \<Rightarrow> physical_table
   \<Rightarrow> execution_context \<times> string list \<Rightarrow> (exn, execution_context \<times> string list) result" where
  "stage_table version direction after changed decisions source = (\<lambda>(context, sqls).
     let target = find_table (sc_tables after) (targetTable (tb_name source) decisions);
         touched = context\<lparr>ec_mode := SqliteRebuildMode, ec_tables := ec_tables context @ [tb_name source]\<rparr>
     in case target of
          None \<Rightarrow> Inr (touched, sqls)
        | Some table \<Rightarrow>
            if tb_name table \<notin> set changed then Inr (context, sqls)
            else bindR (stage_statements version direction decisions source table) (\<lambda>staged.
              Inr (touched\<lparr>ec_rebuildTables := ec_rebuildTables context @ [staged_rebuild version direction source table]\<rparr>,
                   sqls @ staged)))"

definition drop_statement :: "backend_type \<Rightarrow> string \<Rightarrow> (exn, string) result" where
  "drop_statement backend name = bindR (quoteIdentifier backend name) (\<lambda>table. Inr (''DROP TABLE '' @ table))"

definition index_statements :: "backend_type \<Rightarrow> string \<Rightarrow> physical_index list \<Rightarrow> (exn, string list) result" where
  "index_statements backend table indexes = mapR (indexSql backend table) indexes"

definition finish_rebuild :: "physical_schema \<Rightarrow> rebuild_table \<Rightarrow> (exn, string list) result" where
  "finish_rebuild after rebuilt =
     bindR (quoteIdentifier Sqlite (rt_staging rebuilt)) (\<lambda>stage.
     bindR (quoteIdentifier Sqlite (rt_target rebuilt)) (\<lambda>target.
     bindR (index_statements Sqlite (rt_target rebuilt)
              (case find_table (sc_tables after) (rt_target rebuilt) of Some t \<Rightarrow> tb_indexes t | None \<Rightarrow> [])) (\<lambda>indexes.
       Inr ((''ALTER TABLE '' @ stage @ '' RENAME TO '' @ target) # indexes))))"

definition create_statements :: "physical_schema \<Rightarrow> generation_decisions \<Rightarrow> physical_table \<Rightarrow> (exn, string list) result" where
  "create_statements before decisions table =
     (if matchingSource before (tb_name table) decisions \<noteq> None then Inr []
      else bindR (renderCreateTable Sqlite table True False) (\<lambda>create.
           bindR (index_statements Sqlite (tb_name table) (tb_indexes table)) (\<lambda>indexes. Inr (create # indexes))))"

definition concatR :: "('x \<Rightarrow> ('e, 'y list) result) \<Rightarrow> 'x list \<Rightarrow> ('e, 'y list) result" where
  "concatR f xs = bindR (mapR f xs) (\<lambda>ys. Inr (concat ys))"

definition sqlite_statements ::
  "version \<Rightarrow> string \<Rightarrow> schema_diff \<Rightarrow> generation_decisions \<Rightarrow> (exn, string list \<times> execution_context) result" where
  "sqlite_statements version direction diff decisions =
     bindR (schema_of (df_before diff) Sqlite) (\<lambda>before.
     bindR (schema_of (df_after diff) Sqlite) (\<lambda>after.
     bindR (foldR (stage_table version direction after (changedTables diff Sqlite) decisions) (sc_tables before)
              (fresh_context, [])) (\<lambda>(context, copies).
     bindR (mapR (drop_statement Sqlite) (ec_tables context)) (\<lambda>drops.
     bindR (concatR (finish_rebuild after) (ec_rebuildTables context)) (\<lambda>renames.
     bindR (concatR (create_statements before decisions) (sc_tables after)) (\<lambda>creates.
       Inr (copies @ drops @ renames @ creates, context\<lparr>ec_source := Some before, ec_target := Some after\<rparr>)))))))"

definition sqliteSql ::
  "version \<Rightarrow> string \<Rightarrow> schema_diff \<Rightarrow> generation_decisions \<Rightarrow> (exn, string \<times> execution_context) result" where
  "sqliteSql version direction diff decisions =
     bindR (sqlite_statements version direction diff decisions) (\<lambda>(sqls, context). Inr (script_text sqls, context))"

section \<open>Native statements\<close>

record native_preparation =
  np_stages :: "(string, string) omap"
  np_identityIndexes :: "string list"
  np_remove :: "string list"
  np_replacePrimary :: bool

definition alter_table :: "backend_type \<Rightarrow> string \<Rightarrow> (exn, string) result \<Rightarrow> (exn, string) result" where
  "alter_table backend name action =
     bindR (quoteIdentifier backend name) (\<lambda>table. bindR action (\<lambda>change. Inr (''ALTER TABLE '' @ table @ change)))"

definition quoted_action :: "backend_type \<Rightarrow> string \<Rightarrow> string \<Rightarrow> string \<Rightarrow> (exn, string) result" where
  "quoted_action backend before name after = bindR (quoteIdentifier backend name) (\<lambda>quoted. Inr (before @ quoted @ after))"

definition column_action :: "backend_type \<Rightarrow> string \<Rightarrow> physical_column \<Rightarrow> (exn, string) result" where
  "column_action backend before column = bindR (renderColumn backend column False []) (\<lambda>definition_text. Inr (before @ definition_text))"

definition rename_column_statement :: "backend_type \<Rightarrow> string \<Rightarrow> string \<Rightarrow> string \<Rightarrow> (exn, string) result" where
  "rename_column_statement backend table old new =
     alter_table backend table
       (bindR (quoteIdentifier backend old) (\<lambda>a. bindR (quoteIdentifier backend new) (\<lambda>b. Inr ('' RENAME COLUMN '' @ a @ '' TO '' @ b))))"

text \<open>The first loop of \<^verbatim>\<open>prepareNativeTable\<close>: an identity that goes away, or whose primary key is replaced on MySQL.\<close>

definition release_identity ::
  "generation_decisions \<Rightarrow> backend_type \<Rightarrow> physical_table \<Rightarrow> physical_table \<Rightarrow> bool \<Rightarrow> physical_column \<Rightarrow> (exn, string list) result" where
  "release_identity decisions backend oldTable table replacePrimary old =
     (let target = find_column (tb_columns table) (targetColumn (tb_name table) (pc_name old) decisions);
          name = tb_name oldTable
      in bindR (throwIf (pc_autoIncrement old \<and>
                   (case target of None \<Rightarrow> False
                    | Some t \<Rightarrow> findTransformation (gd_conversions decisions) (tb_name table) (pc_name t) \<noteq> None))
                  (generationFailure ''identity-conversion''
                     ''Identity conversions need a manual migration preserving its high-water mark''
                     (name @ ''/'' @ pc_name old) backend)) (\<lambda>_.
         if pc_autoIncrement old \<and>
            ((case target of None \<Rightarrow> True | Some t \<Rightarrow> \<not> pc_autoIncrement t) \<or> (family backend \<and> replacePrimary))
         then if family backend
              then bindR (alter_table backend name (column_action backend '' MODIFY COLUMN '' (old\<lparr>pc_autoIncrement := False\<rparr>)))
                     (\<lambda>change. Inr [change])
              else bindR (alter_table backend name (quoted_action backend '' ALTER COLUMN '' (pc_name old) '' DROP IDENTITY IF EXISTS''))
                     (\<lambda>drop_identity.
                   bindR (alter_table backend name (quoted_action backend '' ALTER COLUMN '' (pc_name old) '' DROP DEFAULT''))
                     (\<lambda>drop_default. Inr [drop_identity, drop_default]))
         else Inr []))"

definition is_staged :: "generation_decisions \<Rightarrow> physical_table \<Rightarrow> physical_table \<Rightarrow> physical_column \<Rightarrow> bool" where
  "is_staged decisions oldTable table column \<longleftrightarrow>
     (case matchingSourceColumn oldTable (tb_name table) (pc_name column) decisions of
        None \<Rightarrow> True
      | Some old \<Rightarrow>
          findTransformation (gd_conversions decisions) (tb_name table) (pc_name column) \<noteq> None \<or>
          (findTransformation (gd_backfills decisions) (tb_name table) (pc_name column) \<noteq> None \<and>
           pc_nullable old \<and> \<not> pc_nullable column))"

definition fill_statement ::
  "generation_decisions \<Rightarrow> backend_type \<Rightarrow> physical_table \<Rightarrow> physical_table \<Rightarrow> physical_column \<Rightarrow> string \<Rightarrow> (exn, string list) result" where
  "fill_statement decisions backend oldTable table column stage =
     (let old = matchingSourceColumn oldTable (tb_name table) (pc_name column) decisions;
          conversion = findTransformation (gd_conversions decisions) (tb_name table) (pc_name column);
          backfill = findTransformation (gd_backfills decisions) (tb_name table) (pc_name column)
      in case (if conversion \<noteq> None then conversion else backfill) of
           None \<Rightarrow> Inr []
         | Some fill \<Rightarrow>
             bindR (transformationSql fill oldTable column backend) (\<lambda>expression.
             bindR (case (old, backfill, conversion) of
                      (Some o', Some _, None) \<Rightarrow>
                        bindR (quoteIdentifier backend (pc_name o')) (\<lambda>quoted. Inr (''COALESCE('' @ quoted @ '', '' @ expression @ '')''))
                    | _ \<Rightarrow> Inr expression) (\<lambda>expression.
             bindR (quoteIdentifier backend (tb_name oldTable)) (\<lambda>update.
             bindR (quoteIdentifier backend stage) (\<lambda>staged.
               Inr [''UPDATE '' @ update @ '' SET '' @ staged @ '' = '' @ expression])))))"

definition stage_column ::
  "version \<Rightarrow> string \<Rightarrow> generation_decisions \<Rightarrow> backend_type \<Rightarrow> physical_table \<Rightarrow> physical_table \<Rightarrow> physical_column
   \<Rightarrow> native_preparation \<times> string list \<Rightarrow> (exn, native_preparation \<times> string list) result" where
  "stage_column version direction decisions backend oldTable table column = (\<lambda>(prepared, sqls).
     if \<not> is_staged decisions oldTable table column then Inr (prepared, sqls)
     else
       let old = matchingSourceColumn oldTable (tb_name table) (pc_name column) decisions;
           name = tb_name oldTable;
           stage = temporaryName version direction name (pc_name column) ''__orm_column_'';
           staged = column\<lparr>pc_name := stage, pc_nullable := \<not> pc_autoIncrement column,
                           pc_autoIncrement := (pc_autoIncrement column \<and> old = None)\<rparr>;
           indexed = (family backend \<and> pc_autoIncrement staged);
           index = temporaryName version direction name (pc_name column) ''__orm_identity_''
       in bindR (alter_table backend name (column_action backend '' ADD COLUMN '' staged)) (\<lambda>add.
          bindR (if indexed
                 then bindR (quoteIdentifier backend index) (\<lambda>i. bindR (quoteIdentifier backend stage) (\<lambda>s.
                        Inr ('', ADD INDEX '' @ i @ '' ('' @ s @ '')'')))
                 else Inr []) (\<lambda>add_index.
          bindR (fill_statement decisions backend oldTable table column stage) (\<lambda>fill.
            Inr (prepared\<lparr>np_stages := omap_insert (pc_name column) stage (np_stages prepared),
                   np_identityIndexes := np_identityIndexes prepared @ (if indexed then [index] else []),
                   np_remove := np_remove prepared @ (case old of Some o' \<Rightarrow> [pc_name o'] | None \<Rightarrow> []),
                   np_replacePrimary := (np_replacePrimary prepared \<or>
                     (case old of Some o' \<Rightarrow> pc_name o' \<in> set (tb_primaryKey oldTable) | None \<Rightarrow> False))\<rparr>,
                 sqls @ (add @ add_index) # fill)))))"

definition replaces_primary :: "generation_decisions \<Rightarrow> physical_table \<Rightarrow> physical_table \<Rightarrow> bool" where
  "replaces_primary decisions oldTable table \<longleftrightarrow>
     tb_primaryKeyName oldTable \<noteq> tb_primaryKeyName table \<or>
     map (\<lambda>column. targetColumn (tb_name table) column decisions) (tb_primaryKey oldTable) \<noteq> tb_primaryKey table"

definition removed_columns :: "generation_decisions \<Rightarrow> physical_table \<Rightarrow> physical_table \<Rightarrow> string list" where
  "removed_columns decisions oldTable table =
     filter (\<lambda>name. find_column (tb_columns table) (targetColumn (tb_name table) name decisions) = None)
       (map pc_name (tb_columns oldTable))"

definition prepareNativeTable ::
  "version \<Rightarrow> string \<Rightarrow> generation_decisions \<Rightarrow> backend_type \<Rightarrow> physical_table \<Rightarrow> physical_table
   \<Rightarrow> (exn, native_preparation \<times> string list) result" where
  "prepareNativeTable version direction decisions backend oldTable table =
     (let replacePrimary = replaces_primary decisions oldTable table
      in bindR (concatR (release_identity decisions backend oldTable table replacePrimary) (tb_columns oldTable)) (\<lambda>released.
         foldR (stage_column version direction decisions backend oldTable table) (tb_columns table)
           (\<lparr>np_stages = [], np_identityIndexes = [], np_remove = removed_columns decisions oldTable table,
             np_replacePrimary = replacePrimary\<rparr>, released)))"

definition drop_keys :: "backend_type \<Rightarrow> physical_table \<Rightarrow> (exn, string list) result" where
  "drop_keys backend table =
     mapR (\<lambda>key. alter_table backend (tb_name table)
             (quoted_action backend (if family backend then '' DROP FOREIGN KEY '' else '' DROP CONSTRAINT '') (fk_name key) []))
       (tb_foreignKeys table)"

definition drop_indexes :: "backend_type \<Rightarrow> physical_table \<Rightarrow> (exn, string list) result" where
  "drop_indexes backend table =
     mapR (\<lambda>index. bindR (quoteIdentifier backend (ix_name index)) (\<lambda>name.
             bindR (if family backend then quoted_action backend '' ON '' (tb_name table) [] else Inr []) (\<lambda>on.
               Inr (''DROP INDEX '' @ name @ on))))
       (tb_indexes table)"

text \<open>The second loop of \<^verbatim>\<open>nativeSql\<close>: the tables that change are prepared, by the name of their source.\<close>

definition prepare_table ::
  "version \<Rightarrow> string \<Rightarrow> generation_decisions \<Rightarrow> backend_type \<Rightarrow> physical_schema \<Rightarrow> string list \<Rightarrow> physical_table
   \<Rightarrow> (string, native_preparation) omap \<times> string list \<Rightarrow> (exn, (string, native_preparation) omap \<times> string list) result" where
  "prepare_table version direction decisions backend after changed source = (\<lambda>(preparations, sqls).
     case find_table (sc_tables after) (targetTable (tb_name source) decisions) of
       None \<Rightarrow> Inr (preparations, sqls)
     | Some target \<Rightarrow>
         if tb_name target \<notin> set changed then Inr (preparations, sqls)
         else bindR (prepareNativeTable version direction decisions backend source target) (\<lambda>(prepared, more).
                Inr (if map_of preparations (tb_name source) = None then omap_insert (tb_name source) prepared preparations
                     else preparations, sqls @ more)))"

definition rename_stage :: "version \<Rightarrow> string \<Rightarrow> table_rename \<Rightarrow> string" where
  "rename_stage version direction rename = temporaryName version direction (tr_from rename) (tr_to rename) ''__orm_rename_''"

definition rename_table_statement :: "backend_type \<Rightarrow> string \<Rightarrow> string \<Rightarrow> (exn, string) result" where
  "rename_table_statement backend old new = alter_table backend old (quoted_action backend '' RENAME TO '' new [])"

definition rename_tables :: "version \<Rightarrow> string \<Rightarrow> generation_decisions \<Rightarrow> backend_type \<Rightarrow> (exn, string list) result" where
  "rename_tables version direction decisions backend =
     bindR (mapR (\<lambda>r. rename_table_statement backend (tr_from r) (rename_stage version direction r)) (gd_tableRenames decisions)) (\<lambda>away.
     bindR (mapR (\<lambda>r. rename_table_statement backend (rename_stage version direction r) (tr_to r)) (gd_tableRenames decisions)) (\<lambda>home.
       Inr (away @ home)))"

definition renamed_in_place :: "generation_decisions \<Rightarrow> physical_table \<Rightarrow> native_preparation \<Rightarrow> physical_column \<Rightarrow> bool" where
  "renamed_in_place decisions table prepared old \<longleftrightarrow>
     (let target = targetColumn (tb_name table) (pc_name old) decisions
      in target \<noteq> pc_name old \<and> find_column (tb_columns table) target \<noteq> None \<and> map_of (np_stages prepared) target = None)"

definition rename_columns ::
  "version \<Rightarrow> string \<Rightarrow> generation_decisions \<Rightarrow> backend_type \<Rightarrow> physical_table \<Rightarrow> physical_table \<Rightarrow> native_preparation
   \<Rightarrow> (exn, string list) result" where
  "rename_columns version direction decisions backend oldTable table prepared =
     (let name = tb_name table;
          renamed = filter (renamed_in_place decisions table prepared) (tb_columns oldTable);
          stage = (\<lambda>old. temporaryName version direction name (pc_name old) ''__orm_rename_column_'')
      in bindR (mapR (\<lambda>old. rename_column_statement backend name (pc_name old) (stage old)) renamed) (\<lambda>away.
         bindR (mapR (\<lambda>old. rename_column_statement backend name (stage old) (targetColumn name (pc_name old) decisions)) renamed) (\<lambda>home.
         bindR (mapR (\<lambda>(column, stage). rename_column_statement backend name stage column) (np_stages prepared)) (\<lambda>staged.
           Inr (away @ home @ staged)))))"

definition column_altered ::
  "generation_decisions \<Rightarrow> backend_type \<Rightarrow> native_preparation \<Rightarrow> physical_column option \<Rightarrow> physical_column \<Rightarrow> bool" where
  "column_altered decisions backend prepared source column \<longleftrightarrow>
     (case source of
        None \<Rightarrow> True
      | Some old \<Rightarrow>
          map_of (np_stages prepared) (pc_name column) \<noteq> None \<or> pc_sqlType old \<noteq> pc_sqlType column \<or>
          pc_nullable old \<noteq> pc_nullable column \<or> pc_maxStringLength old \<noteq> pc_maxStringLength column \<or>
          pc_autoIncrement old \<noteq> pc_autoIncrement column \<or>
          (family backend \<and> np_replacePrimary prepared \<and> pc_autoIncrement column))"

definition alter_native_column ::
  "generation_decisions \<Rightarrow> backend_type \<Rightarrow> physical_table \<Rightarrow> physical_table \<Rightarrow> native_preparation \<Rightarrow> physical_column
   \<Rightarrow> (exn, string list) result" where
  "alter_native_column decisions backend oldTable table prepared column =
     (let name = tb_name table;
          source = matchingSourceColumn oldTable name (pc_name column) decisions;
          staged = (map_of (np_stages prepared) (pc_name column) \<noteq> None);
          action = (\<lambda>condition change. if condition
            then bindR (alter_table backend name (quoted_action backend '' ALTER COLUMN '' (pc_name column) change)) (\<lambda>sql. Inr [sql])
            else Inr [])
      in if \<not> column_altered decisions backend prepared source column then Inr []
         else if family backend
         then bindR (alter_table backend name (column_action backend '' MODIFY COLUMN ''
                (if np_replacePrimary prepared \<and> pc_autoIncrement column then column\<lparr>pc_autoIncrement := False\<rparr> else column)))
                (\<lambda>sql. Inr [sql])
         else
           bindR (action (case source of None \<Rightarrow> False | Some old \<Rightarrow> \<not> staged \<and> pc_sqlType old \<noteq> pc_sqlType column)
                    ('' TYPE '' @ pc_sqlType column)) (\<lambda>type.
           bindR (if \<not> pc_nullable column then action True '' SET NOT NULL''
                  else action (case source of None \<Rightarrow> False | Some old \<Rightarrow> \<not> pc_nullable old \<and> \<not> staged) '' DROP NOT NULL'') (\<lambda>null.
           bindR (action (pc_autoIncrement column \<and> (case source of None \<Rightarrow> False | Some old \<Rightarrow> \<not> pc_autoIncrement old))
                    '' ADD GENERATED BY DEFAULT AS IDENTITY'') (\<lambda>ident.
             Inr (type @ null @ ident)))))"

definition drop_primary :: "backend_type \<Rightarrow> physical_table \<Rightarrow> physical_table \<Rightarrow> native_preparation \<Rightarrow> (exn, string list) result" where
  "drop_primary backend oldTable table prepared =
     (if np_replacePrimary prepared \<and> tb_primaryKey oldTable \<noteq> []
      then bindR (alter_table backend (tb_name table)
             (if family backend then Inr '' DROP PRIMARY KEY'' else quoted_action backend '' DROP CONSTRAINT '' (tb_primaryKeyName oldTable) []))
             (\<lambda>sql. Inr [sql])
      else Inr [])"

definition add_primary :: "backend_type \<Rightarrow> physical_table \<Rightarrow> native_preparation \<Rightarrow> (exn, string list) result" where
  "add_primary backend table prepared =
     (if np_replacePrimary prepared \<and> tb_primaryKey table \<noteq> []
      then bindR (alter_table backend (tb_name table)
             (bindR (if family backend then Inr [] else quoted_action backend ''CONSTRAINT '' (tb_primaryKeyName table) '' '') (\<lambda>name.
              bindR (identifiers backend (tb_primaryKey table)) (\<lambda>columns.
                Inr ('' ADD '' @ name @ ''PRIMARY KEY ('' @ columns @ '')''))))) (\<lambda>primary.
           bindR (if family backend
                  then concatR (column_action backend '', MODIFY COLUMN '') (filter pc_autoIncrement (tb_columns table))
                  else Inr []) (\<lambda>modify.
             Inr [primary @ modify]))
      else Inr [])"

text \<open>The literals in the statement that sets the sequence of a new PostgreSQL identity.\<close>

definition text_column :: physical_column where
  "text_column = \<lparr>pc_name = [], pc_logicalType = StringT, pc_sqlType = [], pc_nullable = False, pc_maxStringLength = None,
     pc_autoIncrement = False\<rparr>"

definition set_sequence ::
  "generation_decisions \<Rightarrow> backend_type \<Rightarrow> physical_table \<Rightarrow> physical_table \<Rightarrow> physical_column \<Rightarrow> (exn, string list) result" where
  "set_sequence decisions backend oldTable table column =
     (if pc_autoIncrement column \<and>
         (case matchingSourceColumn oldTable (tb_name table) (pc_name column) decisions of
            None \<Rightarrow> True | Some old \<Rightarrow> \<not> pc_autoIncrement old)
      then bindR (quoteIdentifier backend (tb_name table)) (\<lambda>name.
           bindR (literalSql (StringLiteral name) text_column backend) (\<lambda>table_text.
           bindR (literalSql (StringLiteral (pc_name column)) text_column backend) (\<lambda>column_text.
           bindR (quoteIdentifier backend (pc_name column)) (\<lambda>quoted.
             Inr [''SELECT setval(pg_get_serial_sequence('' @ table_text @ '', '' @ column_text @ ''), GREATEST(COALESCE(MAX(''
                  @ quoted @ ''), 1), 1), COUNT(*) > 0) FROM '' @ name]))))
      else Inr [])"

definition change_table ::
  "version \<Rightarrow> string \<Rightarrow> generation_decisions \<Rightarrow> backend_type \<Rightarrow> physical_table \<Rightarrow> physical_table \<Rightarrow> native_preparation
   \<Rightarrow> (exn, string list) result" where
  "change_table version direction decisions backend oldTable table prepared =
     (let name = tb_name table
      in bindR (drop_primary backend oldTable table prepared) (\<lambda>primary.
         bindR (mapR (\<lambda>column. alter_table backend name (quoted_action backend '' DROP COLUMN '' column [])) (np_remove prepared)) (\<lambda>removed.
         bindR (rename_columns version direction decisions backend oldTable table prepared) (\<lambda>renamed.
         bindR (concatR (alter_native_column decisions backend oldTable table prepared) (tb_columns table)) (\<lambda>altered.
         bindR (add_primary backend table prepared) (\<lambda>new_primary.
         bindR (mapR (\<lambda>index. bindR (quoteIdentifier backend index) (\<lambda>i. bindR (quoteIdentifier backend name) (\<lambda>t.
                  Inr (''DROP INDEX '' @ i @ '' ON '' @ t)))) (np_identityIndexes prepared)) (\<lambda>indexes.
         bindR (if family backend then Inr []
                else concatR (set_sequence decisions backend oldTable table) (tb_columns table)) (\<lambda>sequences.
           Inr (primary @ removed @ renamed @ altered @ new_primary @ indexes @ sequences)))))))))"

definition native_table ::
  "version \<Rightarrow> string \<Rightarrow> generation_decisions \<Rightarrow> backend_type \<Rightarrow> physical_schema \<Rightarrow> string list \<Rightarrow> (string, native_preparation) omap
   \<Rightarrow> physical_table \<Rightarrow> (exn, string list) result" where
  "native_table version direction decisions backend after changed preparations oldTable =
     (let name = targetTable (tb_name oldTable) decisions
      in case find_table (sc_tables after) name of
           None \<Rightarrow> bindR (drop_statement backend (tb_name oldTable)) (\<lambda>sql. Inr [sql])
         | Some table \<Rightarrow>
             if name \<notin> set changed then Inr []
             else case map_of preparations (tb_name oldTable) of
               None \<Rightarrow> Inl (LogicError ''map::at'')
             | Some prepared \<Rightarrow> change_table version direction decisions backend oldTable table prepared)"

definition native_statements ::
  "version \<Rightarrow> string \<Rightarrow> schema_diff \<Rightarrow> generation_decisions \<Rightarrow> backend_type \<Rightarrow> (exn, string list) result" where
  "native_statements version direction diff decisions backend =
     bindR (schema_of (df_before diff) backend) (\<lambda>before.
     bindR (schema_of (df_after diff) backend) (\<lambda>after.
     bindR (nativeAffectedSources diff decisions backend) (\<lambda>affected.
     let changed = changedTables diff backend;
         affectedTargets = changed @ map (\<lambda>source. targetTable source decisions) affected;
         touched = filter (\<lambda>table. tb_name table \<in> set affected) (sc_tables before)
     in bindR (concatR (drop_keys backend) touched) (\<lambda>keys.
        bindR (concatR (drop_indexes backend) touched) (\<lambda>indexes.
        bindR (foldR (prepare_table version direction decisions backend after changed) (sc_tables before) ([], [])) (\<lambda>(preparations, prepared).
        bindR (rename_tables version direction decisions backend) (\<lambda>renamed.
        bindR (concatR (native_table version direction decisions backend after changed preparations) (sc_tables before)) (\<lambda>altered.
        bindR (mapR (\<lambda>table. renderCreateTable backend table False False)
                 (filter (\<lambda>table. matchingSource before (tb_name table) decisions = None) (sc_tables after))) (\<lambda>created.
        bindR (concatR (\<lambda>table. index_statements backend (tb_name table) (tb_indexes table))
                 (filter (\<lambda>table. tb_name table \<in> set affectedTargets \<and>
                    (\<not> family backend \<or> matchingSource before (tb_name table) decisions \<noteq> None)) (sc_tables after))) (\<lambda>new_indexes.
        bindR (concatR (\<lambda>table. mapR (\<lambda>key. alter_table backend (tb_name table)
                   (bindR (renderForeignKey backend key) (\<lambda>constraint. Inr ('' ADD '' @ constraint)))) (tb_foreignKeys table))
                 (filter (\<lambda>table. tb_name table \<in> set affectedTargets) (sc_tables after))) (\<lambda>new_keys.
          Inr (keys @ indexes @ prepared @ renamed @ altered @ created @ new_indexes @ new_keys))))))))))))"

definition nativeSql :: "version \<Rightarrow> string \<Rightarrow> schema_diff \<Rightarrow> generation_decisions \<Rightarrow> backend_type \<Rightarrow> (exn, string) result" where
  "nativeSql version direction diff decisions backend =
     bindR (native_statements version direction diff decisions backend) (\<lambda>sqls. Inr (script_text sqls))"

section \<open>Contexts and the way back\<close>

definition inverseDecisions :: "generation_decisions \<Rightarrow> generation_decisions" where
  "inverseDecisions decisions =
     \<lparr>gd_tableRenames = map (\<lambda>r. \<lparr>tr_from = tr_to r, tr_to = tr_from r\<rparr>) (gd_tableRenames decisions),
      gd_columnRenames = map (\<lambda>r. \<lparr>cr_table = sourceTable (cr_table r) decisions, cr_from = cr_to r, cr_to = cr_from r\<rparr>)
        (gd_columnRenames decisions),
      gd_allowDataLossUp = gd_allowDataLossDown decisions, gd_allowDataLossDown = [],
      gd_backfills = gd_downBackfills decisions, gd_conversions = gd_downConversions decisions,
      gd_downBackfills = [], gd_downConversions = []\<rparr>"

definition nativeContext :: "schema_diff \<Rightarrow> generation_decisions \<Rightarrow> backend_type \<Rightarrow> (exn, execution_context) result" where
  "nativeContext diff decisions backend =
     bindR (schema_of (df_before diff) backend) (\<lambda>before.
     bindR (schema_of (df_after diff) backend) (\<lambda>after.
     bindR (nativeAffectedSources diff decisions backend) (\<lambda>affected.
       Inr (fresh_context\<lparr>ec_source := Some before, ec_target := Some after, ec_tables := sort affected\<rparr>))))"

definition resolved :: "schema_diff \<Rightarrow> bool" where
  "resolved diff \<longleftrightarrow> \<not> list_ex diag_error (df_diagnostics diff) \<and> \<not> list_ex ch_unresolved (df_changes diff)"

definition restorable :: "generation_decisions \<Rightarrow> generation_decisions \<Rightarrow> backend_type \<Rightarrow> schema_change \<Rightarrow> bool" where
  "restorable decisions inverseOptions backend change \<longleftrightarrow>
     ch_backend change \<noteq> backend \<or>
     (ch_kind change \<noteq> DropTable \<and>
      (ch_kind change = DropColumn \<longrightarrow>
         (case findTransformation (gd_backfills inverseOptions) (sourceTable (ch_table change) decisions) (ch_column change) of
            None \<Rightarrow> False
          | Some fill \<Rightarrow> ct_constant fill \<noteq> None \<or> ct_sourceColumn fill \<noteq> None \<or> map_of (ct_expressions fill) backend \<noteq> None)))"

definition reverseReady ::
  "schema_diff \<Rightarrow> schema_diff \<Rightarrow> generation_decisions \<Rightarrow> generation_decisions \<Rightarrow> backend_type \<Rightarrow> bool" where
  "reverseReady opposite forward decisions inverseOptions backend \<longleftrightarrow>
     \<not> list_ex (\<lambda>item. diag_error item \<and> (diag_backend item = backend \<or> diag_backend item = Empty)) (df_diagnostics opposite) \<and>
     \<not> list_ex (\<lambda>item. ch_backend item = backend \<and> ch_unresolved item) (df_changes opposite) \<and>
     list_all (restorable decisions inverseOptions backend) (df_changes forward)"

section \<open>Generation\<close>

record generated_migration =
  gm_migration :: migration
  gm_diff :: schema_diff

text \<open>The script and context of one direction for one backend.\<close>

definition direction_script ::
  "version \<Rightarrow> string \<Rightarrow> schema_diff \<Rightarrow> generation_decisions \<Rightarrow> backend_type \<Rightarrow> (exn, string \<times> execution_context) result" where
  "direction_script version direction diff decisions backend =
     (if backend = Sqlite then sqliteSql version direction diff decisions
      else bindR (nativeSql version direction diff decisions backend) (\<lambda>sql.
           bindR (nativeContext diff decisions backend) (\<lambda>context. Inr (sql, context))))"

definition backend_scripts ::
  "dumper \<Rightarrow> version \<Rightarrow> schema_diff \<Rightarrow> schema_diff \<Rightarrow> generation_decisions \<Rightarrow> backend_type \<times> physical_schema
   \<Rightarrow> (exn, backend_type \<times> sql_migration) result" where
  "backend_scripts dump version diff opposite decisions = (\<lambda>(backend, before).
     let inverseOptions = inverseDecisions decisions
     in bindR (schema_of (df_after diff) backend) (\<lambda>after.
        bindR (validateTransformations before after decisions) (\<lambda>_.
        bindR (snapshotHash dump (df_before diff) backend) (\<lambda>beforeHash.
        bindR (snapshotHash dump (df_after diff) backend) (\<lambda>afterHash.
        bindR (direction_script version ''up'' diff decisions backend) (\<lambda>(up, upContext).
        bindR (if reverseReady opposite diff decisions inverseOptions backend
               then bindR (validateTransformations after before inverseOptions) (\<lambda>_.
                    bindR (direction_script version ''down'' opposite inverseOptions backend) (\<lambda>(down, downContext).
                      Inr (Some down, downContext)))
               else Inr (None, fresh_context)) (\<lambda>(down, downContext).
        bindR (validateScript up backend version) (\<lambda>_.
        bindR (case down of None \<Rightarrow> Inr () | Some script \<Rightarrow> validateScript script backend version) (\<lambda>_.
          Inr (backend, \<lparr>sm_up = up, sm_down = down, sm_upContext = upContext, sm_downContext = downContext,
                         sm_beforeHash = beforeHash, sm_afterHash = afterHash\<rparr>))))))))))"

definition unresolved_diagnostics :: "schema_diff \<Rightarrow> generation_diagnostic list" where
  "unresolved_diagnostics diff =
     df_diagnostics diff @
     map (\<lambda>change. \<lparr>diag_code = ''unresolved-change'', diag_message = ''Change requires explicit approval or transformation'',
            diag_path = ch_id change, diag_backend = ch_backend change, diag_error = True\<rparr>)
       (filter ch_unresolved (df_changes diff))"

definition generate ::
  "dumper \<Rightarrow> version \<Rightarrow> string \<Rightarrow> schema_diff \<Rightarrow> generation_decisions \<Rightarrow> (exn, generated_migration) result" where
  "generate dump version name supplied decisions =
     bindR (throwIf (version \<le> 0 \<or> \<not> safeName name)
              (generationFailure ''invalid-migration'' ''Migration needs a positive version and a portable name'' [] Empty)) (\<lambda>_.
     bindR (compare (df_before supplied) (df_after supplied) decisions) (\<lambda>diff.
     bindR (throwIf (\<not> resolved diff) (GenerationError ''Migration contains unresolved changes'' (unresolved_diagnostics diff))) (\<lambda>_.
     bindR (throwIf (df_changes diff = [])
              (generationFailure ''empty-diff'' ''There is no physical schema change to generate'' [] Empty)) (\<lambda>_.
     bindR (compare (df_after diff) (df_before diff) (inverseDecisions decisions)) (\<lambda>opposite.
     bindR (mapR (backend_scripts dump version diff opposite decisions) (ss_backends (df_before diff))) (\<lambda>scripts.
       Inr \<lparr>gm_migration = \<lparr>mg_version = version, mg_name = name, mg_scripts = scripts, mg_before = df_before diff,
              mg_after = df_after diff\<rparr>, gm_diff = diff\<rparr>))))))"

end
