(* ===== verification/Orm_Generate_Correctness.thy ===== *)
theory Orm_Generate_Correctness
  imports Orm_Generate
begin

text \<open>
  What generated migrations guarantee: the tables whose foreign keys and indexes are dropped are those that reach a changed
  table through foreign keys, SQLite copies every table before it drops any, literals decode to the given values, and the
  catalog accepts what the generator produced.
\<close>

section \<open>Affected tables\<close>

inductive affected_source :: "physical_table list \<Rightarrow> string set \<Rightarrow> string \<Rightarrow> bool" for tables direct where
  direct: "name \<in> direct \<Longrightarrow> affected_source tables direct name"
| through_key: "table \<in> set tables \<Longrightarrow> key \<in> set (tb_foreignKeys table) \<Longrightarrow>
    affected_source tables direct (fk_targetTable key) \<Longrightarrow> affected_source tables direct (tb_name table)"

lemma fold_sound: "(\<And>x s. x \<in> set xs \<Longrightarrow> P s \<Longrightarrow> P (f x s)) \<Longrightarrow> P s \<Longrightarrow> P (fold f xs s)"
  by (induction xs arbitrary: s) auto

lemma affect_pass_sound:
  assumes "\<forall>name \<in> set affected. affected_source tables direct name"
  shows "\<forall>name \<in> set (affect_pass tables affected). affected_source tables direct name"
  unfolding affect_pass_def
  by (intro fold_sound [where P = "\<lambda>s. \<forall>name \<in> set s. affected_source tables direct name"] assms)
    (auto simp: affect_key_def intro: affected_source.intros)

lemma fold_extends_set: "(\<And>x s. set s \<subseteq> set (f x s)) \<Longrightarrow> set s \<subseteq> set (fold f xs s)"
  by (induction xs arbitrary: s) (auto, blast)

lemma fold_reaches:
  assumes "x \<in> set xs" "\<And>x s. set s \<subseteq> set (f x s)" "\<And>s'. set s \<subseteq> set s' \<Longrightarrow> y \<in> set (f x s')"
  shows "y \<in> set (fold f xs s)"
proof -
  obtain before after where xs: "xs = before @ x # after" using split_list [OF assms(1)] by blast
  have "y \<in> set (f x (fold f before s))" by (rule assms(3)) (rule fold_extends_set, rule assms(2))
  with fold_extends_set [of f "f x (fold f before s)" after, OF assms(2)] show ?thesis by (auto simp: xs)
qed

lemma affect_key_extends: "set s \<subseteq> set (affect_key table key s)"
  by (auto simp: affect_key_def)

lemma affect_pass_closed:
  assumes "table \<in> set tables" "key \<in> set (tb_foreignKeys table)" "fk_targetTable key \<in> set affected"
  shows "tb_name table \<in> set (affect_pass tables affected)"
  unfolding affect_pass_def
proof (rule fold_reaches [OF assms(1)])
  show "set s \<subseteq> set (fold (affect_key t) (tb_foreignKeys t) s)" for t s
    by (rule fold_extends_set, rule affect_key_extends)
  fix s' assume s': "set affected \<subseteq> set s'"
  show "tb_name table \<in> set (fold (affect_key table) (tb_foreignKeys table) s')"
    by (rule fold_reaches [OF assms(2)]) (use affect_key_extends assms(3) s' in \<open>auto simp: affect_key_def\<close>)
qed

lemma affected_loop_sound:
  "\<forall>name \<in> set affected. affected_source tables direct name \<Longrightarrow>
   \<forall>name \<in> set (affected_loop tables affected). affected_source tables direct name"
proof (induction tables affected rule: affected_loop.induct)
  case (1 tables affected)
  note sound = affect_pass_sound [OF "1.prems"]
  show ?case
    using "1.IH" [OF refl _ sound] sound by (subst affected_loop.simps) (simp add: Let_def)
qed

lemma affected_loop_extends: "set affected \<subseteq> set (affected_loop tables affected)"
proof (induction tables affected rule: affected_loop.induct)
  case (1 tables affected)
  have "set affected \<subseteq> set (affect_pass tables affected)" using grown_by_pass by (simp add: grown_by_def)
  with "1.IH" [OF refl] show ?case by (subst affected_loop.simps) (auto simp: Let_def)
qed

lemma affected_loop_fixpoint: "affect_pass tables (affected_loop tables affected) = affected_loop tables affected"
proof (induction tables affected rule: affected_loop.induct)
  case (1 tables affected)
  show ?case
  proof (cases "length (affect_pass tables affected) = length affected")
    case True
    then have "affect_pass tables affected = affected" using grown_by_pass [of tables affected] by (simp add: grown_by_def)
    then show ?thesis by (simp add: affected_loop.simps)
  next
    case False
    with "1.IH" [OF refl] show ?thesis by (simp add: affected_loop.simps [of tables affected] Let_def)
  qed
qed

lemma affected_loop_least: "name \<in> set (affected_loop tables direct) \<longleftrightarrow> affected_source tables (set direct) name"
proof
  show "affected_source tables (set direct) name" if "name \<in> set (affected_loop tables direct)"
    using affected_loop_sound [of direct tables "set direct"] that by (auto intro: affected_source.direct)
  show "name \<in> set (affected_loop tables direct)" if "affected_source tables (set direct) name"
    using that
  proof (induction rule: affected_source.induct)
    case (direct name)
    then show ?case using affected_loop_extends by blast
  next
    case (through_key table key)
    then show ?case using affect_pass_closed [OF through_key(1,2,4)] by (simp add: affected_loop_fixpoint)
  qed
qed

section \<open>SQLite copies before it drops\<close>

text \<open>What the first loop has done: each rebuilt table is copied, each touched table is rebuilt or has no target.\<close>

definition copy_statement :: "rebuild_table \<Rightarrow> string \<Rightarrow> bool" where
  "copy_statement rebuilt sql \<longleftrightarrow> (\<exists>into source names copied.
     quoteIdentifier Sqlite (rt_staging rebuilt) = Inr into \<and> quoteIdentifier Sqlite (rt_source rebuilt) = Inr source \<and>
     sql = ''INSERT INTO '' @ into @ '' ('' @ names @ '') SELECT '' @ copied @ '' FROM '' @ source)"

definition staged_well :: "string list \<Rightarrow> execution_context \<times> string list \<Rightarrow> bool" where
  "staged_well vanished = (\<lambda>(ctx, sqls).
     (\<forall>sql \<in> set sqls. starts_with sql ''CREATE TABLE '' \<or> starts_with sql ''INSERT INTO '') \<and>
     (\<forall>rebuilt \<in> set (ec_rebuildTables ctx). rt_source rebuilt \<in> set (ec_tables ctx) \<and> (\<exists>sql \<in> set sqls. copy_statement rebuilt sql)) \<and>
     (\<forall>name \<in> set (ec_tables ctx). name \<in> set vanished \<or> name \<in> rt_source ` set (ec_rebuildTables ctx)))"

lemma renderCreateTable_start:
  assumes "renderCreateTable backend table keys False = Inr sql"
  shows "starts_with sql ''CREATE TABLE ''"
proof -
  have "\<exists>t. sql = ''CREATE TABLE '' @ t" using assms by (auto simp: renderCreateTable_def createTableSql_def Let_def)
  then show ?thesis by (simp only: starts_with_iff)
qed

lemma stage_statements_shape:
  assumes "stage_statements version direction decisions source target = Inr sqls"
  shows "(\<forall>sql \<in> set sqls. starts_with sql ''CREATE TABLE '' \<or> starts_with sql ''INSERT INTO '') \<and>
    (\<exists>sql \<in> set sqls. copy_statement (staged_rebuild version direction source target) sql)"
proof -
  from assms obtain create copied into names from_table where
    parts: "renderCreateTable Sqlite (target\<lparr>tb_name := temporaryName version direction (tb_name source) (tb_name target) ''__orm_rebuild_''\<rparr>)
        True False = Inr create"
      "quoteIdentifier Sqlite (temporaryName version direction (tb_name source) (tb_name target) ''__orm_rebuild_'') = Inr into"
      "quoteIdentifier Sqlite (tb_name source) = Inr from_table"
    and sqls: "sqls = [create, ''INSERT INTO '' @ into @ '' ('' @ names @ '') SELECT '' @ joinWith '', '' copied @ '' FROM '' @ from_table]"
    by (simp add: stage_statements_def Let_def) blast
  have insert_start: "starts_with (''INSERT INTO '' @ t) ''INSERT INTO ''" for t by (rule starts_with_append)
  have "copy_statement (staged_rebuild version direction source target)
      (''INSERT INTO '' @ into @ '' ('' @ names @ '') SELECT '' @ joinWith '', '' copied @ '' FROM '' @ from_table)"
    using parts(2,3) unfolding copy_statement_def staged_rebuild_def by auto
  with renderCreateTable_start [OF parts(1)] insert_start show ?thesis unfolding sqls by simp
qed

lemma stage_table_well:
  assumes "stage_table version direction after changed decisions source state = Inr state'" "staged_well vanished state"
    "find_table (sc_tables after) (targetTable (tb_name source) decisions) = None \<Longrightarrow> tb_name source \<in> set vanished"
  shows "staged_well vanished state'"
proof -
  obtain ctx sqls where state: "state = (ctx, sqls)" by (cases state)
  show ?thesis
  proof (cases "find_table (sc_tables after) (targetTable (tb_name source) decisions)")
    case None
    with assms show ?thesis by (auto simp: state stage_table_def staged_well_def Let_def)
  next
    case (Some table)
    show ?thesis
    proof (cases "tb_name table \<in> set changed")
      case False
      with Some assms show ?thesis by (simp add: state stage_table_def Let_def)
    next
      case True
      with Some assms(1) obtain staged where staged: "stage_statements version direction decisions source table = Inr staged"
        and state': "state' = (ctx\<lparr>ec_mode := SqliteRebuildMode, ec_tables := ec_tables ctx @ [tb_name source],
          ec_rebuildTables := ec_rebuildTables ctx @ [staged_rebuild version direction source table]\<rparr>, sqls @ staged)"
        by (auto simp: state stage_table_def Let_def)
      from stage_statements_shape [OF staged] assms(2) show ?thesis
        unfolding state state' staged_well_def by (auto simp: staged_rebuild_def)
    qed
  qed
qed

lemma finish_rebuild_renames:
  assumes "finish_rebuild after rebuilt = Inr sqls"
  shows "\<exists>stage target. quoteIdentifier Sqlite (rt_staging rebuilt) = Inr stage \<and> quoteIdentifier Sqlite (rt_target rebuilt) = Inr target \<and>
    (''ALTER TABLE '' @ stage @ '' RENAME TO '' @ target) \<in> set sqls"
  using assms by (auto simp: finish_rebuild_def)

lemma concatR_member:
  assumes "concatR f xs = Inr ys" "x \<in> set xs"
  obtains zs where "f x = Inr zs" "set zs \<subseteq> set ys"
proof -
  from assms(1) obtain zss where zss: "list_all2 (\<lambda>x zs. f x = Inr zs) xs zss" "ys = concat zss"
    by (auto simp: concatR_def mapR_Inr_iff)
  obtain i where i: "i < length xs" "x = xs ! i" using assms(2) by (auto simp: in_set_conv_nth)
  with zss(1) have "f x = Inr (zss ! i)" "zss ! i \<in> set zss" by (auto simp: list_all2_conv_all_nth)
  with zss(2) show thesis by (intro that) auto
qed

lemma sqlite_statements_order:
  assumes "sqlite_statements version direction diff decisions = Inr (sqls, ctx)"
  shows "\<exists>copies drops rest before after. sqls = copies @ drops @ rest \<and>
    map_of (ss_backends (df_before diff)) Sqlite = Some before \<and> map_of (ss_backends (df_after diff)) Sqlite = Some after \<and>
    mapR (drop_statement Sqlite) (ec_tables ctx) = Inr drops \<and>
    staged_well (map tb_name (filter (\<lambda>t. find_table (sc_tables after) (targetTable (tb_name t) decisions) = None) (sc_tables before)))
      (ctx, copies) \<and>
    (\<forall>rebuilt \<in> set (ec_rebuildTables ctx). \<exists>stage target. quoteIdentifier Sqlite (rt_staging rebuilt) = Inr stage \<and>
       quoteIdentifier Sqlite (rt_target rebuilt) = Inr target \<and> (''ALTER TABLE '' @ stage @ '' RENAME TO '' @ target) \<in> set rest)"
proof -
  from assms obtain before after state copies drops renames creates where
    schemas: "schema_of (df_before diff) Sqlite = Inr before" "schema_of (df_after diff) Sqlite = Inr after"
    and loop: "foldR (stage_table version direction after (changedTables diff Sqlite) decisions) (sc_tables before)
        (fresh_context, []) = Inr (state, copies)"
    and parts: "mapR (drop_statement Sqlite) (ec_tables state) = Inr drops"
      "concatR (finish_rebuild after) (ec_rebuildTables state) = Inr renames"
    and result: "sqls = copies @ drops @ renames @ creates" "ctx = state\<lparr>ec_source := Some before, ec_target := Some after\<rparr>"
    by (simp add: sqlite_statements_def split: prod.splits) blast
  let ?vanished = "map tb_name (filter (\<lambda>t. find_table (sc_tables after) (targetTable (tb_name t) decisions) = None) (sc_tables before))"
  have "staged_well ?vanished (state, copies)"
  proof (rule foldR_invariant [OF loop])
    show "staged_well ?vanished (fresh_context, [])" by (simp add: staged_well_def fresh_context_def)
  qed (rule stage_table_well, auto)
  then have "staged_well ?vanished (ctx, copies)" by (simp add: staged_well_def result(2))
  moreover have "\<exists>stage target. quoteIdentifier Sqlite (rt_staging rebuilt) = Inr stage \<and>
      quoteIdentifier Sqlite (rt_target rebuilt) = Inr target \<and>
      (''ALTER TABLE '' @ stage @ '' RENAME TO '' @ target) \<in> set (renames @ creates)"
    if "rebuilt \<in> set (ec_rebuildTables ctx)" for rebuilt
  proof -
    from that have "rebuilt \<in> set (ec_rebuildTables state)" by (simp add: result(2))
    from concatR_member [OF parts(2) this] obtain zs where zs: "finish_rebuild after rebuilt = Inr zs" "set zs \<subseteq> set renames"
      by blast
    from finish_rebuild_renames [OF zs(1)] zs(2) show ?thesis unfolding set_append by blast
  qed
  moreover have "map_of (ss_backends (df_before diff)) Sqlite = Some before" "map_of (ss_backends (df_after diff)) Sqlite = Some after"
    using schemas by (auto simp: schema_of_def split: option.splits)
  moreover have "mapR (drop_statement Sqlite) (ec_tables ctx) = Inr drops" using parts(1) by (simp add: result(2))
  moreover have "sqls = copies @ drops @ (renames @ creates)" by (simp add: result(1))
  ultimately show ?thesis by blast
qed

section \<open>Literals\<close>

fun unhex :: "string \<Rightarrow> string option" where
  "unhex [] = Some []"
| "unhex [c] = None"
| "unhex (h # l # cs) =
     (case (hexDigit h, hexDigit l, unhex cs) of
        (Inr a, Inr b, Some rest) \<Rightarrow> Some (char_of (16 * unat a + unat b) # rest)
      | _ \<Rightarrow> None)"

lemma unat_small: "k < 16 \<Longrightarrow> unat (of_nat k :: u32) = k"
  by (simp add: unat_of_nat take_bit_nat_eq_self)

lemma code_less: "code c < 256" for c :: char
  using nat_of_char_less_256 by simp

lemma unhex_hexadecimal [simp]: "unhex (hexadecimal s) = Some s"
proof (induction s)
  case (Cons c s)
  have "code c div 16 < 16" "code c mod 16 < 16" using code_less [of c] by (simp_all add: less_mult_imp_div_less)
  with Cons show ?case by (simp add: hexadecimal_def unat_small)
qed (simp add: hexadecimal_def)

lemma hexadecimal_digits: "set (hexadecimal s) \<subseteq> set hex_digits"
proof -
  have "hex_digits ! (code c div 16) \<in> set hex_digits" "hex_digits ! (code c mod 16) \<in> set hex_digits" for c :: char
    using code_less [of c] by (simp_all add: less_mult_imp_div_less)
  then show ?thesis by (auto simp: hexadecimal_def)
qed

lemma string_literal_quoted:
  assumes "literalSql (StringLiteral value) column backend = Inr sql" "pc_logicalType column = StringT"
  shows "\<exists>before after. sql = before @ [squote] @ hexadecimal value @ [squote] @ after"
proof -
  have "sql = ''CAST(X'' @ [squote] @ hexadecimal value @ [squote] @ '' AS TEXT)'' \<or>
      sql = ''CONVERT(X'' @ [squote] @ hexadecimal value @ [squote] @ '' USING utf8mb4)'' \<or>
      sql = ''convert_from(decode('' @ [squote] @ hexadecimal value @ [squote] @ ('', '' @ [squote] @ ''hex'' @ [squote]
        @ ''), '' @ [squote] @ ''UTF8'' @ [squote] @ '')'')"
    using assms by (auto simp: string_literal_def split: if_splits)
  then show ?thesis by blast
qed

definition integer_text :: "string \<Rightarrow> int" where
  "integer_text sql = (if sql \<noteq> [] \<and> hd sql = CHR ''-'' then - int (dec_val (tl sql)) else int (dec_val sql))"

lemma integer_text_dec: "integer_text ((if item < 0 then ''-'' else []) @ dec (nat \<bar>item\<bar>)) = item"
proof -
  have "hd (dec n) \<noteq> CHR ''-''" for n
    using dec_digit [of "hd (dec n)" n] by (auto simp: between_def)
  then show ?thesis by (auto simp: integer_text_def)
qed

lemma integer_literal_exact:
  assumes "literalSql (IntLiteral item) column backend = Inr sql" "integerLimits (pc_logicalType column) = Inr (least, greatest)"
  shows "least \<le> item \<and> item \<le> int greatest \<and>
    (integer_text sql = item \<or> sql = (if item \<noteq> 0 then ''TRUE'' else ''FALSE'') \<and> pc_logicalType column = BoolT \<and> backend = Postgres)"
proof -
  have "pc_logicalType column \<noteq> FloatT" "pc_logicalType column \<noteq> DoubleT" using assms(2) by (auto simp: integerLimits_def)
  with assms have "least \<le> item \<and> item \<le> int greatest"
    and "sql = (if pc_logicalType column = BoolT \<and> backend = Postgres then (if item \<noteq> 0 then ''TRUE'' else ''FALSE'')
               else (if item < 0 then ''-'' else []) @ dec (nat \<bar>item\<bar>))"
    by (auto simp: integer_literal_def integer_limit_def)
  then show ?thesis using integer_text_dec [of item] by (cases "pc_logicalType column = BoolT \<and> backend = Postgres") auto
qed

end
