(* ===== verification/Orm_Generate_Catalog.thy ===== *)
theory Orm_Generate_Catalog
  imports Orm_Generate_Correctness
begin

text \<open>
  The generator and the catalog agree: the catalog accepts a generated migration. A comparison keeps its two snapshots and
  only adds diagnostics; one without errors for a backend maps the tables of that backend to distinct names; so the contexts
  of the generated scripts name distinct existing tables and rebuilds, which is what the catalog checks.
\<close>

section \<open>Diagnostics only grow\<close>

definition follows :: "schema_diff \<Rightarrow> schema_diff \<Rightarrow> bool" where
  "follows d d' \<longleftrightarrow> df_before d' = df_before d \<and> df_after d' = df_after d \<and> set (df_diagnostics d) \<subseteq> set (df_diagnostics d')"

named_theorems follows_intros \<open>steps of a comparison keep its snapshots and diagnostics\<close>

lemma follows_refl [follows_intros]: "follows d d"
  by (simp add: follows_def)

lemma follows_trans: "follows d d' \<Longrightarrow> follows d' d'' \<Longrightarrow> follows d d''"
  by (auto simp: follows_def)

lemma follows_problem [follows_intros]: "follows d (problem d c m p b)"
  by (auto simp: follows_def problem_def)

lemma follows_addChange: "addChange d b k l t x y loss input ds = Inr d' \<Longrightarrow> follows d d'"
  by (auto simp: follows_def addChange_def)

lemma follows_foldR:
  assumes "foldR f xs s = Inr s'" "\<And>x s s'. f x s = Inr s' \<Longrightarrow> follows (g s) (g s')"
  shows "follows (g s) (g s')"
  using assms(1)
proof (induction xs arbitrary: s)
  case (Cons x xs)
  then obtain t where "f x s = Inr t" "foldR f xs t = Inr s'" by auto
  with Cons.IH assms(2) show ?case by (blast intro: follows_trans)
qed (simp add: follows_refl)

lemma follows_fold: "(\<And>x s. follows (g s) (g (f x s))) \<Longrightarrow> follows (g s) (g (fold f xs s))"
  by (induction xs arbitrary: s) (auto intro: follows_refl follows_trans)

lemma follows_validateRenames: "follows diff (validateRenames diff before after decisions)"
proof -
  have tables: "follows (snd s) (snd (validate_table_rename before after decisions r s))" for r s
    by (cases s) (auto simp: validate_table_rename_def Let_def split: prod.splits intro: follows_intros follows_trans)
  have columns: "follows (snd s) (snd (validate_column_rename before after decisions r s))" for r s
    by (cases s) (auto simp: validate_column_rename_def Let_def split: prod.splits intro: follows_intros follows_trans)
  define d where "d = snd (fold (validate_table_rename before after decisions) (gd_tableRenames decisions) (([], []), diff))"
  have "follows diff d" unfolding d_def using follows_fold [where g = snd and s = "(([], []), diff)", OF tables] by simp
  moreover have "follows d (validateRenames diff before after decisions)"
    using follows_fold [where g = snd and s = "(([], []), d)", OF columns] by (simp add: validateRenames_def d_def [symmetric] Let_def)
  ultimately show ?thesis by (rule follows_trans)
qed

lemma follows_object_change: "object_change b t ds k l differs n d = Inr d' \<Longrightarrow> follows d d'"
  by (auto simp: object_change_def follows_refl dest: follows_addChange split: if_splits)

lemma follows_add_column: "add_column b t ds m c d = Inr d' \<Longrightarrow> follows d d'"
  by (auto simp: add_column_def follows_refl dest: follows_addChange split: if_splits)

lemma follows_compare_column: "compare_column b t ds c s = Inr s' \<Longrightarrow> follows (snd s) (snd s')"
  by (auto simp: compare_column_def alter_column_def Let_def split: prod.splits option.splits if_splits
      dest!: follows_addChange intro: follows_refl follows_trans)

lemma follows_compareTables:
  assumes "compareTables before source target decisions diff = Inr diff'"
  shows "follows diff diff'"
proof -
  let ?b = "sc_backend before"
  from assms obtain d1 matched d2 d3 d4 d5 d6 d7 where steps:
    "(if tb_name source \<noteq> tb_name target
      then addChange diff ?b RenameTable ''rename-table'' (tb_name source) [] (tb_name target) False False decisions
      else Inr diff) = Inr d1"
    "foldR (compare_column ?b target decisions) (tb_columns source) ([], d1) = Inr (matched, d2)"
    "foldR (add_column ?b target decisions matched) (tb_columns target) d2 = Inr d3"
    "compare_primary_key ?b source target decisions d3 = Inr d4"
    "foldR (drop_key ?b target decisions) (tb_foreignKeys source) d4 = Inr d5"
    "foldR (add_key ?b source target decisions) (tb_foreignKeys target) d5 = Inr d6"
    "foldR (drop_index ?b target decisions) (tb_indexes source) d6 = Inr d7"
    "foldR (add_index ?b source target decisions) (tb_indexes target) d7 = Inr diff'"
    by (simp add: compareTables_def Let_def split: prod.splits) blast
  have "follows diff d1" using steps(1) by (auto simp: follows_refl dest: follows_addChange split: if_splits)
  moreover have "follows d1 d2" using follows_foldR [where g = snd, OF steps(2) follows_compare_column] by simp
  moreover have "follows d2 d3" by (rule follows_foldR [where g = "\<lambda>d. d", OF steps(3) follows_add_column])
  moreover have "follows d3 d4" using steps(4) by (auto simp: compare_primary_key_def Let_def follows_refl dest: follows_addChange split: if_splits)
  moreover have "follows d4 d5" by (rule follows_foldR [where g = "\<lambda>d. d", OF steps(5)]) (simp add: drop_key_def follows_object_change)
  moreover have "follows d5 d6" by (rule follows_foldR [where g = "\<lambda>d. d", OF steps(6)]) (simp add: add_key_def follows_object_change)
  moreover have "follows d6 d7" by (rule follows_foldR [where g = "\<lambda>d. d", OF steps(7)]) (simp add: drop_index_def follows_object_change)
  moreover have "follows d7 diff'" by (rule follows_foldR [where g = "\<lambda>d. d", OF steps(8)]) (simp add: add_index_def follows_object_change)
  ultimately show ?thesis by (blast intro: follows_trans)
qed

definition has_error :: "backend_type \<Rightarrow> schema_diff \<Rightarrow> bool" where
  "has_error backend diff \<longleftrightarrow>
     list_ex (\<lambda>item. diag_error item \<and> (diag_backend item = backend \<or> diag_backend item = Empty)) (df_diagnostics diff)"

lemma has_error_follows: "follows d d' \<Longrightarrow> has_error backend d \<Longrightarrow> has_error backend d'"
  by (auto simp: follows_def has_error_def list_ex_iff)

lemma has_error_problem [simp]: "has_error backend (problem d c m p backend)" "has_error backend (problem d c m p Empty)"
  by (simp_all add: has_error_def problem_def list_ex_iff)

lemma compare_table_step:
  assumes "compare_table backend source target decisions table (matched, diff) = Inr (matched', diff')"
  shows "follows diff diff' \<and> (\<not> has_error backend diff' \<longrightarrow>
    (if find_table (sc_tables target) (renamedTable (tb_name table) decisions) = None then matched' = matched
     else renamedTable (tb_name table) decisions \<notin> set matched \<and> matched' = renamedTable (tb_name table) decisions # matched))"
  using assms by (auto simp: compare_table_def Let_def split: option.splits if_splits
      dest: follows_addChange follows_compareTables intro: follows_problem)

lemma compare_tables_distinct:
  assumes "foldR (compare_table backend source target decisions) tables (matched, diff) = Inr (matched', diff')"
  shows "follows diff diff' \<and> (\<not> has_error backend diff' \<longrightarrow> distinct matched \<longrightarrow> distinct matched' \<and>
    matched' = rev (filter (\<lambda>n. find_table (sc_tables target) n \<noteq> None) (map (\<lambda>t. renamedTable (tb_name t) decisions) tables)) @ matched)"
  using assms
proof (induction tables arbitrary: matched diff)
  case (Cons table tables)
  then obtain m d where step: "compare_table backend source target decisions table (matched, diff) = Inr (m, d)"
    and rest: "foldR (compare_table backend source target decisions) tables (m, d) = Inr (matched', diff')" by auto
  note one = compare_table_step [OF step] and more = Cons.IH [OF rest]
  have "\<not> has_error backend diff' \<Longrightarrow> \<not> has_error backend d" using more has_error_follows by blast
  moreover have "follows diff diff'" using one more by (blast intro: follows_trans)
  moreover have "distinct matched' \<and> matched' = rev (filter (\<lambda>n. find_table (sc_tables target) n \<noteq> None)
      (map (\<lambda>t. renamedTable (tb_name t) decisions) (table # tables))) @ matched"
    if "\<not> has_error backend d" "\<not> has_error backend diff'" "distinct matched"
  proof -
    have "distinct m" using one that by (auto split: if_splits)
    with more that have "distinct matched'" "matched' = rev (filter (\<lambda>n. find_table (sc_tables target) n \<noteq> None)
        (map (\<lambda>t. renamedTable (tb_name t) decisions) tables)) @ m" by blast+
    with one that show ?thesis by (cases "find_table (sc_tables target) (renamedTable (tb_name table) decisions)") simp_all
  qed
  ultimately show ?case by blast
qed (simp add: follows_refl)

lemma follows_compare_schema: "compare_schema after decisions entry d = Inr d' \<Longrightarrow> follows d d'"
proof -
  assume step: "compare_schema after decisions entry d = Inr d'"
  obtain backend source where entry: "entry = (backend, source)" by (cases entry)
  show ?thesis
  proof (cases "map_of after backend")
    case (Some target)
    show ?thesis
    proof (cases "sc_profile source = sc_profile target")
      case True
      with step Some obtain matched d1 where
        loop: "foldR (compare_table backend source target decisions) (sc_tables source) ([], validateRenames d source target decisions)
          = Inr (matched, d1)"
        and create: "foldR (create_table_change backend decisions matched) (sc_tables target) d1 = Inr d'"
        by (auto simp: compare_schema_def entry)
      have "follows d d1" using compare_tables_distinct [OF loop] follows_validateRenames follows_trans by blast
      moreover have "follows d1 d'"
        by (rule follows_foldR [where g = "\<lambda>d. d", OF create])
          (auto simp: create_table_change_def follows_refl dest: follows_addChange split: if_splits)
      ultimately show ?thesis by (rule follows_trans)
    qed (use step Some in \<open>auto simp: compare_schema_def entry intro: follows_problem\<close>)
  qed (use step in \<open>auto simp: compare_schema_def entry intro: follows_problem\<close>)
qed

lemma compare_schema_maps:
  assumes "compare_schema after decisions (backend, source) d = Inr d'" "\<not> has_error backend d'"
  shows "\<exists>target. map_of after backend = Some target \<and> distinct (filter (\<lambda>n. find_table (sc_tables target) n \<noteq> None)
    (map (\<lambda>t. renamedTable (tb_name t) decisions) (sc_tables source)))"
proof -
  from assms obtain target where target: "map_of after backend = Some target" "sc_profile source = sc_profile target"
    by (auto simp: compare_schema_def split: option.splits if_splits)
  with assms(1) obtain matched d1 where
    loop: "foldR (compare_table backend source target decisions) (sc_tables source) ([], validateRenames d source target decisions)
      = Inr (matched, d1)"
    and create: "foldR (create_table_change backend decisions matched) (sc_tables target) d1 = Inr d'"
    by (auto simp: compare_schema_def)
  have "follows d1 d'"
    by (rule follows_foldR [where g = "\<lambda>d. d", OF create])
      (auto simp: create_table_change_def follows_refl dest: follows_addChange split: if_splits)
  with assms(2) have "\<not> has_error backend d1" using has_error_follows by blast
  then have "distinct matched \<and> matched = rev (filter (\<lambda>n. find_table (sc_tables target) n \<noteq> None)
      (map (\<lambda>t. renamedTable (tb_name t) decisions) (sc_tables source))) @ []"
    using compare_tables_distinct [OF loop] distinct.simps(1) by blast
  then have "distinct (rev (filter (\<lambda>n. find_table (sc_tables target) n \<noteq> None)
      (map (\<lambda>t. renamedTable (tb_name t) decisions) (sc_tables source))))" by (metis append_Nil2)
  with target(1) show ?thesis unfolding distinct_rev by blast
qed

lemma foldR_element:
  assumes "foldR f xs s = Inr t" "x \<in> set xs" "\<And>x s s'. f x s = Inr s' \<Longrightarrow> follows s s'"
  shows "\<exists>s1 s2. f x s1 = Inr s2 \<and> follows s2 t"
proof -
  obtain us vs where xs: "xs = us @ x # vs" using split_list [OF assms(2)] by blast
  with assms(1) obtain s1 s2 where step: "f x s1 = Inr s2" and rest: "foldR f vs s2 = Inr t" by (auto simp: foldR_append)
  have "follows s2 t" by (rule follows_foldR [where g = "\<lambda>d. d", OF rest]) (rule assms(3))
  with step show ?thesis by blast
qed

lemma compare_facts:
  assumes "compare before after decisions = Inr diff"
  shows "df_before diff = canonicalize before" "df_after diff = canonicalize after"
    "snapshot_wf (df_before diff)" "snapshot_wf (df_after diff)"
    "\<not> has_error backend diff \<Longrightarrow> length (ss_backends (df_before diff)) = length (ss_backends (df_after diff))"
    "\<not> has_error backend diff \<Longrightarrow> (backend, source) \<in> set (ss_backends (df_before diff)) \<Longrightarrow>
      \<exists>target. map_of (ss_backends (df_after diff)) backend = Some target \<and>
        distinct (filter (\<lambda>n. find_table (sc_tables target) n \<noteq> None) (map (\<lambda>t. targetTable (tb_name t) decisions) (sc_tables source)))"
proof -
  let ?start = "\<lparr>df_before = canonicalize before, df_after = canonicalize after, df_changes = [], df_diagnostics = []\<rparr>"
  let ?sized = "if length (ss_backends (canonicalize before)) \<noteq> length (ss_backends (canonicalize after))
      then problem ?start ''backend-profile'' ''Snapshots must contain the same backend profiles'' [] Empty else ?start"
  from assms obtain d1 where wf: "snapshot_wf (canonicalize before)" "snapshot_wf (canonicalize after)"
    and loop: "foldR (compare_schema (ss_backends (canonicalize after)) decisions) (ss_backends (canonicalize before)) ?sized = Inr d1"
    and diff: "diff = (let checked = fold (check_approval (df_changes d1)) (gd_allowDataLossUp decisions) d1
      in checked\<lparr>df_changes := sort_key ch_id (df_changes checked)\<rparr>)"
    by (auto simp: compare_def Let_def validateSnapshot_wf cong: if_cong)
  have sized: "follows ?sized d1" by (rule follows_foldR [where g = "\<lambda>d. d", OF loop follows_compare_schema])
  have approval: "follows s (check_approval changes a s)" for changes a s
    by (simp add: check_approval_def follows_refl follows_problem)
  have "follows d1 (fold (check_approval (df_changes d1)) (gd_allowDataLossUp decisions) d1)"
    by (rule follows_fold [where g = "\<lambda>d. d"]) (rule approval)
  then have last: "follows d1 diff" by (simp add: diff follows_def Let_def)
  have "df_before ?sized = canonicalize before" "df_after ?sized = canonicalize after" by (simp_all add: problem_def)
  with follows_trans [OF sized last] show ends: "df_before diff = canonicalize before" "df_after diff = canonicalize after"
    unfolding follows_def by metis+
  show "snapshot_wf (df_before diff)" "snapshot_wf (df_after diff)" using wf by (simp_all add: ends)
  assume ok: "\<not> has_error backend diff"
  then show "length (ss_backends (df_before diff)) = length (ss_backends (df_after diff))"
    using has_error_follows [OF follows_trans [OF sized last], of backend]
    by (cases "length (ss_backends (canonicalize before)) = length (ss_backends (canonicalize after))") (simp_all add: ends)
  assume "(backend, source) \<in> set (ss_backends (df_before diff))"
  then have "(backend, source) \<in> set (ss_backends (canonicalize before))" by (simp add: ends)
  then obtain s1 s2 where
    "compare_schema (ss_backends (canonicalize after)) decisions (backend, source) s1 = Inr s2" "follows s2 d1"
    using foldR_element [OF loop] follows_compare_schema by meson
  moreover then have "\<not> has_error backend s2" using ok last has_error_follows follows_trans by blast
  ultimately show "\<exists>target. map_of (ss_backends (df_after diff)) backend = Some target \<and>
        distinct (filter (\<lambda>n. find_table (sc_tables target) n \<noteq> None) (map (\<lambda>t. targetTable (tb_name t) decisions) (sc_tables source)))"
    using compare_schema_maps by (simp add: ends targetTable_def renamedTable_def [symmetric])
qed

section \<open>The contexts of generated scripts\<close>

text \<open>The table a source becomes, and whether the SQLite generator touches or rebuilds it.\<close>

definition becomes :: "physical_schema \<Rightarrow> generation_decisions \<Rightarrow> physical_table \<Rightarrow> physical_table option" where
  "becomes after decisions source = find_table (sc_tables after) (targetTable (tb_name source) decisions)"

definition is_rebuilt :: "physical_schema \<Rightarrow> string list \<Rightarrow> generation_decisions \<Rightarrow> physical_table \<Rightarrow> bool" where
  "is_rebuilt after changed decisions source \<longleftrightarrow>
     (case becomes after decisions source of None \<Rightarrow> False | Some table \<Rightarrow> tb_name table \<in> set changed)"

definition is_touched :: "physical_schema \<Rightarrow> string list \<Rightarrow> generation_decisions \<Rightarrow> physical_table \<Rightarrow> bool" where
  "is_touched after changed decisions source \<longleftrightarrow> becomes after decisions source = None \<or> is_rebuilt after changed decisions source"

lemma stage_tables_context:
  assumes "foldR (stage_table version direction after changed decisions) tables (ctx, sqls) = Inr (ctx', sqls')"
  shows "ctx' = ctx\<lparr>ec_mode := (if \<exists>t \<in> set tables. is_touched after changed decisions t then SqliteRebuildMode else ec_mode ctx),
    ec_tables := ec_tables ctx @ map tb_name (filter (is_touched after changed decisions) tables),
    ec_rebuildTables := ec_rebuildTables ctx @ map (\<lambda>t. staged_rebuild version direction t (the (becomes after decisions t)))
      (filter (is_rebuilt after changed decisions) tables)\<rparr>"
  using assms
proof (induction tables arbitrary: ctx sqls)
  case (Cons t tables)
  then obtain c q where step: "stage_table version direction after changed decisions t (ctx, sqls) = Inr (c, q)"
    and rest: "foldR (stage_table version direction after changed decisions) tables (c, q) = Inr (ctx', sqls')" by auto
  have "c = ctx\<lparr>ec_mode := (if is_touched after changed decisions t then SqliteRebuildMode else ec_mode ctx),
      ec_tables := ec_tables ctx @ (if is_touched after changed decisions t then [tb_name t] else []),
      ec_rebuildTables := ec_rebuildTables ctx @ (if is_rebuilt after changed decisions t
        then [staged_rebuild version direction t (the (becomes after decisions t))] else [])\<rparr>"
    using step by (auto simp: stage_table_def is_touched_def is_rebuilt_def becomes_def Let_def split: option.splits if_splits)
  with Cons.IH [OF rest] show ?case by (auto simp: is_touched_def)
qed simp

lemma check_touched_run:
  assumes "distinct (touched @ names)" "set names \<subseteq> tb_name ` set (optional_tables (ec_source ctx))"
  shows "foldR (check_touched ctx failure) names touched = Inr (touched @ names)"
  using assms by (induction names arbitrary: touched) (auto simp: check_touched_def)

text \<open>What the catalog asks of one rebuilt table apart from being the only one of its names.\<close>

definition rebuild_ok :: "execution_context \<Rightarrow> rebuild_table \<Rightarrow> bool" where
  "rebuild_ok ctx r \<longleftrightarrow> (\<exists>source target.
     find (\<lambda>t. tb_name t = rt_source r) (optional_tables (ec_source ctx)) = Some source \<and>
     find (\<lambda>t. tb_name t = rt_target r) (optional_tables (ec_target ctx)) = Some target \<and>
     identityMatches source (rt_sourceIdentity r) \<and> identityMatches target (rt_targetIdentity r)) \<and>
     ec_mode ctx = SqliteRebuildMode \<and> staging_name_ok (rt_staging r) \<and> rt_source r \<in> set (ec_tables ctx) \<and>
     rt_staging r \<notin> tb_name ` set (optional_tables (ec_source ctx)) \<and> rt_staging r \<notin> tb_name ` set (optional_tables (ec_target ctx))"

lemma check_rebuild_run:
  assumes "\<forall>r \<in> set rs. rebuild_ok ctx r" "distinct (sources @ map rt_source rs)" "distinct (targets @ map rt_target rs)"
    "distinct (stages @ map rt_staging rs)"
  shows "foldR (check_rebuild ctx failure) rs (sources, targets, stages) =
    Inr (sources @ map rt_source rs, targets @ map rt_target rs, stages @ map rt_staging rs)"
  using assms
proof (induction rs arbitrary: sources targets stages)
  case (Cons r rs)
  from Cons.prems(1) obtain source target where
    "find (\<lambda>t. tb_name t = rt_source r) (optional_tables (ec_source ctx)) = Some source"
    "find (\<lambda>t. tb_name t = rt_target r) (optional_tables (ec_target ctx)) = Some target"
    "identityMatches source (rt_sourceIdentity r)" "identityMatches target (rt_targetIdentity r)"
    "ec_mode ctx = SqliteRebuildMode" "staging_name_ok (rt_staging r)" "rt_source r \<in> set (ec_tables ctx)"
    "rt_staging r \<notin> tb_name ` set (optional_tables (ec_source ctx))" "rt_staging r \<notin> tb_name ` set (optional_tables (ec_target ctx))"
    by (auto simp: rebuild_ok_def)
  then have "check_rebuild ctx failure r (sources, targets, stages) =
      Inr (sources @ [rt_source r], targets @ [rt_target r], stages @ [rt_staging r])"
    using Cons.prems(2-4) by (simp add: check_rebuild_def Let_def)
  moreover have "foldR (check_rebuild ctx failure) rs (sources @ [rt_source r], targets @ [rt_target r], stages @ [rt_staging r]) =
      Inr (sources @ map rt_source (r # rs), targets @ map rt_target (r # rs), stages @ map rt_staging (r # rs))"
    using Cons.IH [of "sources @ [rt_source r]" "targets @ [rt_target r]" "stages @ [rt_staging r]"] Cons.prems by simp
  ultimately show ?case by simp
qed simp

lemma staging_name: "staging_name_ok (temporaryName version direction source target ''__orm_rebuild_'')"
proof -
  let ?h = "sha256 (dec (nat version) @ '':'' @ direction @ '':'' @ dec (length source) @ '':'' @ source @ '':''
       @ dec (length target) @ '':'' @ target)"
  have "length ?h = 64" "set ?h \<subseteq> set hex_digits" using sha256_digits by auto
  moreover from this have "set (take 16 ?h) \<subseteq> set hex_digits" by (meson set_take_subset subset_trans)
  ultimately show ?thesis unfolding temporaryName_def staging_name_ok_def by (auto simp: starts_with_def)
qed

text \<open>The staging names of a context are new and pairwise different.\<close>

definition fresh_stages :: "execution_context \<Rightarrow> bool" where
  "fresh_stages ctx \<longleftrightarrow> distinct (map rt_staging (ec_rebuildTables ctx)) \<and>
     (\<forall>r \<in> set (ec_rebuildTables ctx). rt_staging r \<notin> tb_name ` set (optional_tables (ec_source ctx)) \<and>
        rt_staging r \<notin> tb_name ` set (optional_tables (ec_target ctx)))"

lemma distinct_map_filter:
  "distinct (filter Q (map f xs)) \<Longrightarrow> (\<And>x. P x \<Longrightarrow> Q (f x)) \<Longrightarrow> distinct (map f (filter P xs))"
  by (induction xs) (auto split: if_splits)

lemma identityMatches_identity: "identityMatches table (identity_of table)"
  by (simp add: identityMatches_def identity_of_def split: option.splits)

lemma validateContext_run:
  assumes "ec_source ctx = Some b" "ec_target ctx = Some a" "ec_mode ctx = SqliteRebuildMode \<Longrightarrow> backend = Sqlite \<and> ec_tables ctx \<noteq> []"
    "distinct (ec_tables ctx)" "set (ec_tables ctx) \<subseteq> tb_name ` set (sc_tables b)"
    "\<forall>r \<in> set (ec_rebuildTables ctx). rebuild_ok ctx r" "distinct (map rt_source (ec_rebuildTables ctx))"
    "distinct (map rt_target (ec_rebuildTables ctx))" "distinct (map rt_staging (ec_rebuildTables ctx))"
  shows "validateContext ctx (Some b) (Some a) version backend = Inr ()"
  using check_touched_run [of "[]" "ec_tables ctx" ctx] check_rebuild_run [OF assms(6), of "[]" "[]" "[]"] assms
  by (simp add: validateContext_def Let_def optional_tables_def)

lemma sqlite_context_valid:
  assumes "sqlite_statements version direction diff decisions = Inr (sqls, ctx)"
    and schemas: "map_of (ss_backends (df_before diff)) Sqlite = Some b" "map_of (ss_backends (df_after diff)) Sqlite = Some a"
    and names: "distinct (map tb_name (sc_tables b))"
    and targets: "distinct (filter (\<lambda>n. find_table (sc_tables a) n \<noteq> None) (map (\<lambda>t. targetTable (tb_name t) decisions) (sc_tables b)))"
    and fresh: "fresh_stages ctx"
  shows "validateContext ctx (Some b) (Some a) version Sqlite = Inr ()"
proof -
  let ?changed = "changedTables diff Sqlite"
  let ?touched = "filter (is_touched a ?changed decisions) (sc_tables b)"
  let ?rebuilt = "filter (is_rebuilt a ?changed decisions) (sc_tables b)"
  from assms(1) schemas obtain state copies where
    loop: "foldR (stage_table version direction a ?changed decisions) (sc_tables b) (fresh_context, []) = Inr (state, copies)"
    and ctx: "ctx = state\<lparr>ec_source := Some b, ec_target := Some a\<rparr>"
    by (simp add: sqlite_statements_def schema_of_def split: prod.splits) blast
  note state = stage_tables_context [OF loop]
  have tables: "ec_tables ctx = map tb_name ?touched"
    and rebuilds: "ec_rebuildTables ctx = map (\<lambda>t. staged_rebuild version direction t (the (becomes a decisions t))) ?rebuilt"
    and mode: "ec_mode ctx = (if ?touched \<noteq> [] then SqliteRebuildMode else NormalMode)"
    and ends: "ec_source ctx = Some b" "ec_target ctx = Some a"
    by (simp_all add: ctx state fresh_context_def filter_empty_conv)
  have target_name: "becomes a decisions t \<noteq> None \<and> tb_name (the (becomes a decisions t)) = targetTable (tb_name t) decisions"
    if "is_rebuilt a ?changed decisions t" for t
    using that by (auto simp: is_rebuilt_def becomes_def find_table_def split: option.splits dest: find_SomeD)
  have "rebuild_ok ctx r" if "r \<in> set (ec_rebuildTables ctx)" for r
  proof -
    from that obtain t where t: "t \<in> set (sc_tables b)" "is_rebuilt a ?changed decisions t"
      and r: "r = staged_rebuild version direction t (the (becomes a decisions t))" by (auto simp: rebuilds)
    then obtain u where u: "becomes a decisions t = Some u" "tb_name u = targetTable (tb_name t) decisions" using target_name [OF t(2)] by auto
    have "find (\<lambda>x. tb_name x = tb_name t) (sc_tables b) = Some t" using find_by_key [OF names] t(1) by simp
    moreover have "find (\<lambda>x. tb_name x = tb_name u) (sc_tables a) = Some u" using u by (simp add: becomes_def find_table_def)
    moreover have touched: "t \<in> set ?touched" using t by (simp add: is_touched_def)
    moreover have "ec_mode ctx = SqliteRebuildMode" using touched by (simp add: mode filter_empty_conv) blast
    ultimately show ?thesis
      using fresh that staging_name
      by (auto simp: rebuild_ok_def r u staged_rebuild_def optional_tables_def ends tables identityMatches_identity fresh_stages_def)
  qed
  moreover have "distinct (map rt_source (ec_rebuildTables ctx))"
    using names by (simp add: rebuilds comp_def staged_rebuild_def distinct_map_filter distinct_map inj_on_def)
  moreover have "map rt_target (ec_rebuildTables ctx) = map (\<lambda>t. targetTable (tb_name t) decisions) ?rebuilt"
    using target_name by (simp add: rebuilds staged_rebuild_def)
  moreover have "distinct (map (\<lambda>t. targetTable (tb_name t) decisions) ?rebuilt)"
    by (rule distinct_map_filter [OF targets]) (use target_name in \<open>simp add: becomes_def\<close>)
  moreover have "distinct (ec_tables ctx)" using names by (simp add: tables distinct_map inj_on_def)
  ultimately show ?thesis
    using fresh by (intro validateContext_run ends) (auto simp: tables mode fresh_stages_def split: if_splits)
qed

lemma affected_loop_distinct: "distinct affected \<Longrightarrow> distinct (affected_loop tables affected)"
proof (induction tables affected rule: affected_loop.induct)
  case (1 tables affected)
  have "distinct (affect_pass tables affected)" unfolding affect_pass_def
    by (intro fold_sound [where P = distinct] "1.prems") (auto simp: affect_key_def)
  with "1.IH" [OF refl] show ?case by (subst affected_loop.simps) (simp add: Let_def)
qed

lemma affected_source_names:
  "affected_source tables direct name \<Longrightarrow> direct \<subseteq> tb_name ` set tables \<Longrightarrow> name \<in> tb_name ` set tables"
  by (induction rule: affected_source.induct) auto

lemma native_context_valid:
  assumes "nativeContext diff decisions backend = Inr ctx"
    and schemas: "map_of (ss_backends (df_before diff)) backend = Some b" "map_of (ss_backends (df_after diff)) backend = Some a"
  shows "validateContext ctx (Some b) (Some a) version backend = Inr ()"
proof -
  let ?direct = "remdups (map tb_name (filter (\<lambda>table.
             targetTable (tb_name table) decisions \<in> set (changedTables diff backend) \<or>
             find_table (sc_tables a) (targetTable (tb_name table) decisions) = None) (sc_tables b)))"
  have affected: "nativeAffectedSources diff decisions backend = Inr (affected_loop (sc_tables b) ?direct)"
    using schemas by (simp add: nativeAffectedSources_def schema_of_def)
  with assms have ctx: "ctx = fresh_context\<lparr>ec_source := Some b, ec_target := Some a, ec_tables := sort (affected_loop (sc_tables b) ?direct)\<rparr>"
    by (simp add: nativeContext_def schema_of_def)
  have "distinct (affected_loop (sc_tables b) ?direct)" by (rule affected_loop_distinct) simp
  moreover have "set ?direct \<subseteq> tb_name ` set (sc_tables b)" by auto
  then have "set (affected_loop (sc_tables b) ?direct) \<subseteq> tb_name ` set (sc_tables b)"
    using affected_source_names [of "sc_tables b" "set ?direct"] affected_loop_least [of _ "sc_tables b" ?direct] by blast
  ultimately show ?thesis by (intro validateContext_run) (simp_all add: ctx fresh_context_def)
qed

lemma direction_context_valid:
  assumes "direction_script version direction diff decisions backend = Inr (sql, ctx)"
    and "map_of (ss_backends (df_before diff)) backend = Some b" "map_of (ss_backends (df_after diff)) backend = Some a"
    and "distinct (map tb_name (sc_tables b))"
    and "distinct (filter (\<lambda>n. find_table (sc_tables a) n \<noteq> None) (map (\<lambda>t. targetTable (tb_name t) decisions) (sc_tables b)))"
    and "fresh_stages ctx"
  shows "validateContext ctx (Some b) (Some a) version backend = Inr ()"
  using assms native_context_valid sqlite_context_valid
  by (auto simp: direction_script_def sqliteSql_def split: if_splits)

section \<open>Normalizing a generated script\<close>

lemma drop_cr_Nil [simp]: "drop_cr s = [] \<longleftrightarrow> s = []"
  by (induction s rule: drop_cr.induct) auto

lemma script_text_last: "script_text sqls \<noteq> [] \<and> last (script_text sqls) = newline"
proof (cases sqls rule: rev_cases)
  case (snoc init sql)
  have "append_text sql = (sql @ (if ends_with sql '';'' then [] else '';'')) @ [newline]" by (simp add: append_text_def)
  then have "script_text sqls = (concat (map append_text init) @ (sql @ (if ends_with sql '';'' then [] else '';''))) @ [newline]"
    by (simp add: script_text_def snoc)
  then show ?thesis by (metis last_snoc snoc_eq_iff_butlast)
qed (simp add: script_text_def)

lemma normalize_script:
  assumes "nul \<notin> set sql" "sql \<noteq> []" "last sql = newline"
  shows "\<exists>n. normalizeSql sql = Inr n \<and> n \<noteq> []"
proof -
  define rest where "rest = (if starts_with sql byte_order_mark then drop 3 sql else sql)"
  have "nul \<notin> set rest" using assms(1) by (auto simp: rest_def dest: in_set_dropD)
  moreover have "rest \<noteq> []"
  proof
    assume "rest = []"
    then have "starts_with sql byte_order_mark" "length sql \<le> 3" using assms(2) by (auto simp: rest_def split: if_splits)
    then have "sql = byte_order_mark" by (auto simp: starts_with_iff)
    with assms(3) show False by simp
  qed
  ultimately show ?thesis by (simp add: normalizeSql_def rest_def [symmetric])
qed

lemma direction_script_last: "direction_script version direction diff decisions backend = Inr (sql, ctx) \<Longrightarrow> sql \<noteq> [] \<and> last sql = newline"
  using script_text_last by (auto simp: direction_script_def sqliteSql_def nativeSql_def split: if_splits)

section \<open>The catalog accepts generated scripts\<close>

text \<open>A script the catalog can take: no NUL byte, and staging names that are new and pairwise different.\<close>

definition script_ready :: "sql_migration \<Rightarrow> bool" where
  "script_ready scripts \<longleftrightarrow> nul \<notin> set (sm_up scripts) \<and>
     (case sm_down scripts of None \<Rightarrow> True | Some down \<Rightarrow> nul \<notin> set down) \<and>
     fresh_stages (sm_upContext scripts) \<and> fresh_stages (sm_downContext scripts)"

lemma map_of_entry: "(k, v) \<in> set m \<Longrightarrow> \<exists>w. map_of m k = Some w \<and> (k, w) \<in> set m"
  using map_of_SomeD weak_map_of_SomeI by fastforce

lemma snapshot_tables_distinct: "snapshot_wf s \<Longrightarrow> (backend, schema) \<in> set (ss_backends s) \<Longrightarrow>
    distinct (map tb_name (sc_tables schema)) \<and> backend \<in> set generationBackends"
  by (auto simp: snapshot_wf_def schema_wf_def)

lemma compared_context_valid:
  assumes diff: "compare before after decisions = Inr diff" "\<not> has_error backend diff"
    and schemas: "map_of (ss_backends (df_before diff)) backend = Some b" "map_of (ss_backends (df_after diff)) backend = Some a"
    and script: "direction_script version direction diff decisions backend = Inr (sql, ctx)" "fresh_stages ctx"
  shows "validateContext ctx (Some b) (Some a) version backend = Inr ()"
proof -
  note facts = compare_facts [OF diff(1)]
  have entry: "(backend, b) \<in> set (ss_backends (df_before diff))" using schemas(1) by (rule map_of_SomeD)
  show ?thesis
    using direction_context_valid [OF script(1) schemas] snapshot_tables_distinct [OF facts(3) entry] facts(6) [OF diff(2) entry]
      script(2) schemas(2) by auto
qed

lemma validateContext_empty: "validateContext fresh_context before after version backend = Inr ()"
  by (simp add: validateContext_def fresh_context_def)

lemma generated_script_checked:
  assumes forward: "compare before after decisions = Inr diff" "\<not> has_error backend diff"
    and backward: "compare (df_after diff) (df_before diff) (inverseDecisions decisions) = Inr opposite"
    and entry: "(backend, schema) \<in> set (ss_backends (df_before diff))"
    and scripts: "backend_scripts dump version diff opposite decisions (backend, schema) = Inr (backend, scripts)"
    and ready: "script_ready scripts"
    and m: "mg_version m = version" "mg_before m = df_before diff" "mg_after m = df_after diff"
  shows "\<exists>r. check_script dump m True (backend, scripts) = Inr r"
proof -
  note facts = compare_facts [OF forward(1)] and flip = compare_facts [OF backward]
  obtain b where b: "map_of (ss_backends (df_before diff)) backend = Some b" using map_of_entry [OF entry] by blast
  obtain a where a: "map_of (ss_backends (df_after diff)) backend = Some a" using facts(6) [OF forward(2) entry] by blast
  have flipped: "df_before opposite = df_after diff" "df_after opposite = df_before diff"
    by (simp_all add: flip(1,2)) (simp_all add: facts(1,2))
  from scripts obtain up down where
    hashes: "snapshotHash dump (df_before diff) backend = Inr (sm_beforeHash scripts)"
      "snapshotHash dump (df_after diff) backend = Inr (sm_afterHash scripts)"
    and up: "direction_script version ''up'' diff decisions backend = Inr (up, sm_upContext scripts)" "sm_up scripts = up"
    and down: "(if reverseReady opposite diff decisions (inverseDecisions decisions) backend
       then bindR (validateTransformations a schema (inverseDecisions decisions)) (\<lambda>_.
            bindR (direction_script version ''down'' opposite (inverseDecisions decisions) backend) (\<lambda>(down, downContext).
              Inr (Some down, downContext)))
       else Inr (None, fresh_context)) = Inr (down, sm_downContext scripts)" "sm_down scripts = down"
    using a by (simp add: backend_scripts_def schema_of_def Let_def split: prod.splits) (auto split: prod.splits)
  obtain n where n: "normalizeSql up = Inr n" "n \<noteq> []"
    using normalize_script direction_script_last [OF up(1)] ready up(2) by (auto simp: script_ready_def)
  have context_up: "validateContext (sm_upContext scripts) (Some b) (Some a) version backend = Inr ()"
    using compared_context_valid [OF forward b a up(1)] ready by (simp add: script_ready_def)
  have "(\<exists>nd. (case down of None \<Rightarrow> Inr None | Some d \<Rightarrow> bindR (normalizeSql d) (\<lambda>n. Inr (Some n))) = Inr nd) \<and>
    validateContext (sm_downContext scripts) (Some a) (Some b) version backend = Inr ()"
  proof (cases "reverseReady opposite diff decisions (inverseDecisions decisions) backend")
    case True
    then have "\<not> has_error backend opposite" by (simp add: reverseReady_def has_error_def)
    moreover from True down(1) obtain sql where sql: "down = Some sql"
      "direction_script version ''down'' opposite (inverseDecisions decisions) backend = Inr (sql, sm_downContext scripts)"
      by (auto split: prod.splits)
    ultimately have "validateContext (sm_downContext scripts) (Some a) (Some b) version backend = Inr ()"
      using compared_context_valid [OF backward _ _ _ sql(2), of a b] ready a b by (simp add: flipped script_ready_def)
    moreover have "\<exists>n. normalizeSql sql = Inr n"
      using normalize_script direction_script_last [OF sql(2)] ready down(2) by (auto simp: script_ready_def sql(1))
    ultimately show ?thesis by (auto simp: sql(1))
  next
    case False
    with down(1) show ?thesis by (auto simp: validateContext_empty)
  qed
  then obtain nd where nd: "(case down of None \<Rightarrow> Inr None | Some d \<Rightarrow> bindR (normalizeSql d) (\<lambda>n. Inr (Some n))) = Inr nd"
    and context_down: "validateContext (sm_downContext scripts) (Some a) (Some b) version backend = Inr ()" by blast
  have "\<exists>name. backendName backend = Inr name"
    using snapshot_tables_distinct [OF facts(3) entry] by (auto simp: backendName_def generationBackends_def)
  then show ?thesis
    using n nd hashes context_up context_down b a m up(2) down(2)
    by (auto simp: check_script_def Let_def hash_matches_def)
qed

lemma mapR_all_ok: "\<forall>x \<in> set xs. \<exists>y. f x = Inr y \<Longrightarrow> \<exists>ys. mapR f xs = Inr ys"
  by (induction xs) auto

lemma mapR_partner: "mapR f xs = Inr ys \<Longrightarrow> y \<in> set ys \<Longrightarrow> \<exists>x \<in> set xs. f x = Inr y"
  by (induction xs arbitrary: ys) auto

lemma resolved_no_error: "resolved diff \<Longrightarrow> \<not> has_error backend diff"
  by (auto simp: resolved_def has_error_def list_ex_iff)

lemma check_script_key: "check_script dump m has (backend, scripts) = Inr r \<Longrightarrow> fst r = backend"
  by (auto simp: check_script_def Let_def)

lemma mapR_keys: "mapR f xs = Inr ys \<Longrightarrow> (\<And>x y. x \<in> set xs \<Longrightarrow> f x = Inr y \<Longrightarrow> g y = h x) \<Longrightarrow> map g ys = map h xs"
  by (induction xs arbitrary: ys) auto

lemma canonicalize_keys: "map fst (ss_backends (canonicalize s)) = map fst (ss_backends s)"
  by (simp add: canonicalize_def comp_def case_prod_beta)

end
