(* ===== verification/Orm_Generate_Safety.thy ===== *)
theory Orm_Generate_Safety
  imports Orm_Generate_Catalog Orm_Diff_Correctness
begin

text \<open>
  The guarantees of generated migrations, on the definitions of \<^verbatim>\<open>Orm_Generate\<close>, each at a concrete comparison: one that
  creates a table, and one that rebuilds a table with a new column.
\<close>

section \<open>Sample comparisons\<close>

definition sample_column :: "string \<Rightarrow> bool \<Rightarrow> physical_column" where
  "sample_column name nullable = \<lparr>pc_name = name, pc_logicalType = IntT, pc_sqlType = ''INTEGER'', pc_nullable = nullable,
     pc_maxStringLength = None, pc_autoIncrement = False\<rparr>"

definition sqlite_table :: "physical_column list \<Rightarrow> physical_table" where
  "sqlite_table columns = \<lparr>tb_name = ''t'', tb_columns = columns, tb_primaryKey = [''id''], tb_primaryKeyName = ''pk'',
     tb_foreignKeys = [], tb_indexes = [], tb_options = tableOptions Sqlite\<rparr>"

definition sqlite_snapshot :: "physical_table list \<Rightarrow> schema_snapshot" where
  "sqlite_snapshot tables = \<lparr>ss_formatVersion = 1, ss_backends =
     [(Sqlite, \<lparr>sc_backend = Sqlite, sc_profile = ''orm-cxx-ddl-v1:sqlite'', sc_tables = tables\<rparr>)]\<rparr>"

definition created_table :: schema_diff where
  "created_table = \<lparr>df_before = sqlite_snapshot [], df_after = sqlite_snapshot [sqlite_table [sample_column ''id'' False]],
     df_changes = [], df_diagnostics = []\<rparr>"

definition added_column :: schema_diff where
  "added_column = \<lparr>df_before = sqlite_snapshot [sqlite_table [sample_column ''id'' False]],
     df_after = sqlite_snapshot [sqlite_table [sample_column ''id'' False, sample_column ''n'' True]],
     df_changes = [\<lparr>ch_kind = AddColumn, ch_backend = Sqlite, ch_id = ''sqlite:add-column:t:n'', ch_table = ''t'', ch_column = ''n'',
       ch_otherName = [],
       ch_description = ''add-column'', ch_dataLoss = False, ch_unresolved = False\<rparr>], df_diagnostics = []\<rparr>"

text \<open>
  Evaluation keeps digests as they are: the one staging name that a sample needs is computed here, once.
\<close>

lemma sample_staging_name: "temporaryName 1 ''up'' ''t'' ''t'' ''__orm_rebuild_'' = ''__orm_rebuild_ca1f92fb02c12ff3''"
  by code_simp

lemma temporaryName_sample [code]:
  "temporaryName version direction source target prefix =
     (if (version, direction, source, target, prefix) = (1, ''up'', ''t'', ''t'', ''__orm_rebuild_'')
      then ''__orm_rebuild_ca1f92fb02c12ff3''
      else prefix @ take 16 (sha256 (dec (nat version) @ '':'' @ direction @ '':'' @ dec (length source) @ '':'' @ source @ '':''
        @ dec (length target) @ '':'' @ target)))"
  using sample_staging_name by (simp add: temporaryName_def)

declare sha256_def [code del]

lemma created_table_generated:
  "case generate (\<lambda>_. Inr ''x'') 1 ''create'' created_table no_decisions of
     Inr g \<Rightarrow> list_all (script_ready \<circ> snd) (mg_scripts (gm_migration g)) | Inl _ \<Rightarrow> False"
  by code_simp

lemma added_column_staged:
  "case sqlite_statements 1 ''up'' added_column no_decisions of Inr (_, ctx) \<Rightarrow> ec_tables ctx = [''t''] | Inl _ \<Rightarrow> False"
  by code_simp

section \<open>Properties\<close>

text \<open>
  C23. A generated migration is one the catalog accepts: when \<^verbatim>\<open>generate\<close> succeeds, constructing a catalog of its result
  succeeds and keeps the version, the name, the two canonical snapshots and a script for each backend of the snapshots,
  provided that no script has a NUL byte and that the hashed staging names are new and pairwise different.
\<close>

theorem generated_migration_accepted:
  assumes generated: "generate dump version name supplied decisions = Inr g"
    and ready: "\<forall>(backend, scripts) \<in> set (mg_scripts (gm_migration g)). script_ready scripts"
  shows "\<exists>m. Catalog dump [gm_migration g] = Inr [m] \<and> mg_version m = version \<and> mg_name m = name \<and>
    mg_before m = canonicalize (df_before supplied) \<and> mg_after m = canonicalize (df_after supplied) \<and>
    map fst (mg_scripts m) = map fst (ss_backends (df_before supplied))"
proof -
  from generated obtain diff opposite scripts where
    name: "0 < version" "safeName name"
    and diff: "compare (df_before supplied) (df_after supplied) decisions = Inr diff" "resolved diff"
    and opposite: "compare (df_after diff) (df_before diff) (inverseDecisions decisions) = Inr opposite"
    and scripts: "mapR (backend_scripts dump version diff opposite decisions) (ss_backends (df_before diff)) = Inr scripts"
    and g: "gm_migration g = \<lparr>mg_version = version, mg_name = name, mg_scripts = scripts, mg_before = df_before diff,
              mg_after = df_after diff\<rparr>"
    by (auto simp: generate_def)
  note facts = compare_facts [OF diff(1)]
  note no_error = resolved_no_error [OF diff(2)]
  define m where "m = gm_migration g"
  have backends: "ss_backends (df_before diff) \<noteq> []" using facts(3) by (simp add: snapshot_wf_def)
  then have has: "has_snapshots m" by (simp add: has_snapshots_def m_def g)
  have stable: "canonicalize (df_before diff) = df_before diff" "canonicalize (df_after diff) = df_after diff"
    by (simp_all add: facts(1,2))
  have keys: "map fst scripts = map fst (ss_backends (df_before diff))"
    by (rule mapR_keys [OF scripts]) (auto simp: backend_scripts_def Let_def split: prod.splits)
  have "\<exists>r. check_script dump m True entry = Inr r" if "entry \<in> set scripts" for entry
  proof -
    from mapR_partner [OF scripts that] obtain backend schema where
      source: "(backend, schema) \<in> set (ss_backends (df_before diff))"
      and built: "backend_scripts dump version diff opposite decisions (backend, schema) = Inr entry" by auto
    from built obtain s where entry: "entry = (backend, s)" by (auto simp: backend_scripts_def Let_def split: prod.splits)
    have "script_ready s" using ready that unfolding g entry by auto
    moreover have "mg_version m = version" "mg_before m = df_before diff" "mg_after m = df_after diff" by (simp_all add: m_def g)
    ultimately show ?thesis
      unfolding entry by (rule generated_script_checked [OF diff(1) no_error opposite source built [unfolded entry]])
  qed
  then have "\<exists>checked. mapR (check_script dump m True) scripts = Inr checked" by (intro mapR_all_ok ballI)
  then obtain checked where checked: "mapR (check_script dump m True) scripts = Inr checked" ..
  have lengths: "length scripts = length (ss_backends (df_before diff))" "length (ss_backends (df_after diff)) = length scripts"
    using mapR_length [OF scripts] facts(5) [OF no_error] by simp_all
  have "m\<lparr>mg_before := canonicalize (mg_before m), mg_after := canonicalize (mg_after m)\<rparr> = m" by (simp add: m_def g stable)
  then have "check_migration dump m (0, None, []) = Inr (version, Some (df_after diff), [m\<lparr>mg_scripts := checked\<rparr>])"
    using name has checked backends facts(3,4) lengths
    by (auto simp: check_migration_def Let_def m_def g validateSnapshot_wf)
  moreover have "map fst checked = map fst scripts" by (rule mapR_keys [OF checked]) (auto dest: check_script_key)
  ultimately show ?thesis
    using keys facts(1) canonicalize_keys [of "df_before supplied"]
    by (auto simp: Catalog_def m_def [symmetric] facts(1,2)) (simp_all add: m_def g facts(1,2))
qed

theorem generated_migration_accepted_witness:
  "\<exists>g m. generate (\<lambda>_. Inr ''x'') 1 ''create'' created_table no_decisions = Inr g \<and>
     Catalog (\<lambda>_. Inr ''x'') [gm_migration g] = Inr [m] \<and> mg_version m = 1 \<and> map fst (mg_scripts m) = [Sqlite]"
proof -
  from created_table_generated obtain g where g: "generate (\<lambda>_. Inr ''x'') 1 ''create'' created_table no_decisions = Inr g"
    "list_all (script_ready \<circ> snd) (mg_scripts (gm_migration g))" by (auto split: sum.splits)
  have "\<forall>(backend, scripts) \<in> set (mg_scripts (gm_migration g)). script_ready scripts"
    using g(2) by (auto simp: list_all_iff)
  from generated_migration_accepted [OF g(1) this] g(1) show ?thesis
    by (auto simp: created_table_def sqlite_snapshot_def)
qed

text \<open>
  On the native backends, the tables whose foreign keys and indexes are dropped before the columns change and created
  again after are exactly the ones that reach a changed or vanished table through foreign keys: the loop of
  \<^verbatim>\<open>nativeAffectedSources\<close> computes the least set of tables that has them and is closed under references.
\<close>

theorem nativeAffectedSources_least:
  assumes "nativeAffectedSources diff decisions backend = Inr affected"
    and "map_of (ss_backends (df_before diff)) backend = Some before"
    and "map_of (ss_backends (df_after diff)) backend = Some after"
  shows "set affected = {name. affected_source (sc_tables before)
    {tb_name table | table. table \<in> set (sc_tables before) \<and> (targetTable (tb_name table) decisions \<in> set (changedTables diff backend) \<or>
       find_table (sc_tables after) (targetTable (tb_name table) decisions) = None)} name}"
proof -
  let ?direct = "remdups (map tb_name (filter (\<lambda>table. targetTable (tb_name table) decisions \<in> set (changedTables diff backend) \<or>
    find_table (sc_tables after) (targetTable (tb_name table) decisions) = None) (sc_tables before)))"
  have "affected = affected_loop (sc_tables before) ?direct"
    using assms by (simp add: nativeAffectedSources_def schema_of_def Let_def)
  then have "set affected = {name. affected_source (sc_tables before) (set ?direct) name}"
    using affected_loop_least [of _ "sc_tables before" ?direct] by auto
  also have "set ?direct = {tb_name table | table. table \<in> set (sc_tables before) \<and>
      (targetTable (tb_name table) decisions \<in> set (changedTables diff backend) \<or>
       find_table (sc_tables after) (targetTable (tb_name table) decisions) = None)}" by auto
  finally show ?thesis .
qed

theorem nativeAffectedSources_least_witness:
  "\<exists>affected before. nativeAffectedSources added_column no_decisions Sqlite = Inr affected \<and>
     map_of (ss_backends (df_before added_column)) Sqlite = Some before \<and> ''t'' \<in> set affected \<and>
     (\<exists>direct. affected_source (sc_tables before) direct ''t'')"
proof -
  have result: "nativeAffectedSources added_column no_decisions Sqlite = Inr [''t'']" by code_simp
  obtain before after where schemas: "map_of (ss_backends (df_before added_column)) Sqlite = Some before"
    "map_of (ss_backends (df_after added_column)) Sqlite = Some after" by (simp add: added_column_def sqlite_snapshot_def)
  from nativeAffectedSources_least [OF result schemas] have "\<exists>direct. affected_source (sc_tables before) direct ''t''" by auto
  with result schemas show ?thesis by auto
qed

text \<open>
  C24. A generated SQLite migration loses no row of a table that it rebuilds: the statements are first the creation of every
  staging table and the copy of its source into it, then the drops, and then each staging table takes the name of its target.
  A table is dropped only when it was copied before or has no counterpart after the migration.
\<close>

theorem sqlite_copies_before_drops:
  assumes "sqlite_statements version direction diff decisions = Inr (sqls, ctx)"
  shows "\<exists>copies drops rest before after. sqls = copies @ drops @ rest \<and>
    map_of (ss_backends (df_before diff)) Sqlite = Some before \<and> map_of (ss_backends (df_after diff)) Sqlite = Some after \<and>
    (\<forall>sql \<in> set copies. starts_with sql ''CREATE TABLE '' \<or> starts_with sql ''INSERT INTO '') \<and>
    mapR (drop_statement Sqlite) (ec_tables ctx) = Inr drops \<and>
    (\<forall>name \<in> set (ec_tables ctx).
       (\<exists>table \<in> set (sc_tables before). tb_name table = name \<and> find_table (sc_tables after) (targetTable name decisions) = None) \<or>
       (\<exists>rebuilt \<in> set (ec_rebuildTables ctx). rt_source rebuilt = name \<and> (\<exists>sql \<in> set copies. copy_statement rebuilt sql))) \<and>
    (\<forall>rebuilt \<in> set (ec_rebuildTables ctx). \<exists>stage target. quoteIdentifier Sqlite (rt_staging rebuilt) = Inr stage \<and>
       quoteIdentifier Sqlite (rt_target rebuilt) = Inr target \<and> (''ALTER TABLE '' @ stage @ '' RENAME TO '' @ target) \<in> set rest)"
proof -
  from sqlite_statements_order [OF assms] obtain copies drops rest before after where
    order: "sqls = copies @ drops @ rest" "map_of (ss_backends (df_before diff)) Sqlite = Some before"
      "map_of (ss_backends (df_after diff)) Sqlite = Some after" "mapR (drop_statement Sqlite) (ec_tables ctx) = Inr drops"
    and staged: "staged_well (map tb_name (filter (\<lambda>t. find_table (sc_tables after) (targetTable (tb_name t) decisions) = None)
      (sc_tables before))) (ctx, copies)"
    and renamed: "\<forall>rebuilt \<in> set (ec_rebuildTables ctx). \<exists>stage target. quoteIdentifier Sqlite (rt_staging rebuilt) = Inr stage \<and>
       quoteIdentifier Sqlite (rt_target rebuilt) = Inr target \<and> (''ALTER TABLE '' @ stage @ '' RENAME TO '' @ target) \<in> set rest"
    by blast
  have shape: "\<forall>sql \<in> set copies. starts_with sql ''CREATE TABLE '' \<or> starts_with sql ''INSERT INTO ''"
    using staged unfolding staged_well_def prod.case by (rule conjunct1)
  have kept: "\<forall>name \<in> set (ec_tables ctx).
       (\<exists>table \<in> set (sc_tables before). tb_name table = name \<and> find_table (sc_tables after) (targetTable name decisions) = None) \<or>
       (\<exists>rebuilt \<in> set (ec_rebuildTables ctx). rt_source rebuilt = name \<and> (\<exists>sql \<in> set copies. copy_statement rebuilt sql))"
    using staged unfolding staged_well_def prod.case by fastforce
  from order shape kept renamed show ?thesis by blast
qed

theorem sqlite_copies_before_drops_witness:
  "\<exists>sqls ctx copies drops rest. sqlite_statements 1 ''up'' added_column no_decisions = Inr (sqls, ctx) \<and>
     ec_tables ctx = [''t''] \<and> sqls = copies @ drops @ rest \<and>
     (\<exists>rebuilt \<in> set (ec_rebuildTables ctx). rt_source rebuilt = ''t'' \<and> (\<exists>sql \<in> set copies. copy_statement rebuilt sql))"
proof -
  from added_column_staged obtain sqls and ctx :: execution_context where staged: "sqlite_statements 1 ''up'' added_column no_decisions = Inr (sqls, ctx)"
    "ec_tables ctx = [''t'']" by (auto split: sum.splits)
  have kept: "find_table (sc_tables after) (targetTable ''t'' no_decisions) \<noteq> None"
    if "map_of (ss_backends (df_after added_column)) Sqlite = Some after" for after
    using that by (auto simp: added_column_def sqlite_snapshot_def sqlite_table_def find_table_def targetTable_def no_decisions_def)
  from sqlite_copies_before_drops [OF staged(1)] show ?thesis
  proof (elim exE conjE)
    fix copies drops rest before after
    assume parts: "sqls = copies @ drops @ rest" "map_of (ss_backends (df_after added_column)) Sqlite = Some after"
    assume "\<forall>name \<in> set (ec_tables ctx).
       (\<exists>table \<in> set (sc_tables before). tb_name table = name \<and> find_table (sc_tables after) (targetTable name no_decisions) = None) \<or>
       (\<exists>rebuilt \<in> set (ec_rebuildTables ctx). rt_source rebuilt = name \<and> (\<exists>sql \<in> set copies. copy_statement rebuilt sql))"
    with staged(2) kept [OF parts(2)]
    have "(\<exists>rebuilt \<in> set (ec_rebuildTables ctx). rt_source rebuilt = ''t'' \<and> (\<exists>sql \<in> set copies. copy_statement rebuilt sql))" by auto
    with staged parts(1) show ?thesis by (intro exI conjI)
  qed
qed

text \<open>
  A constant that a migration writes into a column is the given value: a string is written as the hexadecimal code of its
  bytes between quotes, which decodes to it and contains no quote whatever the string is; an integer is within the range of
  the column's type and its text denotes it (or it is a Boolean keyword of PostgreSQL).
\<close>

theorem literals_denote_values:
  assumes "literalSql (StringLiteral str) column backend = Inr sql" "pc_logicalType column = StringT"
    and "literalSql (IntLiteral item) column' backend' = Inr sql'" "integerLimits (pc_logicalType column') = Inr (least, greatest)"
  shows "(\<exists>before digits after. sql = before @ [squote] @ digits @ [squote] @ after \<and> unhex digits = Some str \<and>
      squote \<notin> set digits) \<and>
    least \<le> item \<and> item \<le> int greatest \<and>
    (integer_text sql' = item \<or>
     sql' = (if item \<noteq> 0 then ''TRUE'' else ''FALSE'') \<and> pc_logicalType column' = BoolT \<and> backend' = Postgres)"
proof -
  have "squote \<notin> set (hexadecimal str)" using hexadecimal_digits [of str] by (auto simp: hex_digits_def)
  with string_literal_quoted [OF assms(1,2)] integer_literal_exact [OF assms(3,4)] show ?thesis by (metis unhex_hexadecimal)
qed

theorem literals_denote_values_witness:
  "\<exists>column sql sql' least greatest. literalSql (StringLiteral [squote]) column Sqlite = Inr sql \<and>
     literalSql (IntLiteral (-7)) (sample_column ''n'' True) Mysql = Inr sql' \<and>
     integerLimits IntT = Inr (least, greatest) \<and> least \<le> -7 \<and> integer_text sql' = -7"
proof -
  let ?column = "(sample_column ''n'' True)\<lparr>pc_logicalType := StringT\<rparr>"
  have "isOk (unicodeLength [squote])"
    by (simp add: unicodeLength.simps utf8_width_def lead_bits_def codepoint_invalid_def Let_def)
  then have "isOk (literalSql (StringLiteral [squote]) ?column Sqlite)"
    by (auto simp: string_literal_def sample_column_def isOk_iff)
  then obtain sql where sql: "literalSql (StringLiteral [squote]) ?column Sqlite = Inr sql" by (auto simp: isOk_iff)
  have "isOk (literalSql (IntLiteral (-7)) (sample_column ''n'' True) Mysql)" "isOk (integerLimits IntT)"
    by (simp_all add: integer_literal_def integerLimits_def integer_limit_def sample_column_def)
  then obtain sql' limits where sql': "literalSql (IntLiteral (-7)) (sample_column ''n'' True) Mysql = Inr sql'"
    and limits: "integerLimits IntT = Inr limits" by (auto simp: isOk_iff)
  obtain least greatest where pair: "limits = (least, greatest)" by (cases limits)
  have "integerLimits (pc_logicalType (sample_column ''n'' True)) = Inr (least, greatest)"
    using limits by (simp add: sample_column_def pair)
  from literals_denote_values [OF sql _ sql' this] show ?thesis using sql sql' limits pair by auto
qed

end
