(* ===== verification/Orm_Session.thy ===== *)
theory Orm_Session
  imports Orm_Migration_State Orm_Query
begin

text \<open>
  The connection of \<^verbatim>\<open>src/Database.cpp\<close>: opening and closing a session, application transactions, and the operations that
  send statements, with the checks they make first. The backend behind a connection is a \<open>provider\<close>: the capabilities of
  \<^verbatim>\<open>modules/orm/sql/contracts.cppm\<close>, the dialect, and the actions of SOCI and of the backend runtime on the session, which
  are parameters.
\<close>

section \<open>Capabilities\<close>

datatype affected_rows_support = RowsUnavailable | RowsReliable

record schema_capabilities =
  sk_createTableIfNotExists :: bool
  sk_dropTableIfExists :: bool
  sk_autoIncrementPrimaryKey :: bool
  sk_compositePrimaryKeys :: bool
  sk_foreignKeys :: bool
  sk_onDeleteCascade :: bool
  sk_transactionalDdl :: bool
  sk_boundedStringKeys :: bool

record query_capabilities =
  qk_limit :: bool
  qk_offset :: bool
  qk_offsetWithoutLimit :: bool
  qk_offsetRequiresOrderBy :: bool
  qk_projections :: bool
  qk_groupBy :: bool
  qk_having :: bool
  qk_collectionPredicates :: bool
  qk_fullModelGrouping :: bool
  qk_distinctOrderByRequiresProjectedColumn :: bool
  qk_strictProjectionGrouping :: bool
  qk_maxOrderedStringLength :: "nat option"

record mutation_capabilities =
  mk_insert :: bool
  mk_update :: bool
  mk_remove :: bool
  mk_atomicInsertIfAbsent :: bool
  mk_affectedRows :: affected_rows_support

record relation_capabilities =
  rk_toOne :: bool
  rk_oneToMany :: bool
  rk_manyToMany :: bool
  rk_collectionIncludes :: bool
  rk_collectionPredicates :: bool
  rk_junctionTables :: bool
  rk_compositeEndpointKeys :: bool

record migration_capabilities =
  gk_supported :: bool
  gk_atomicity :: atomicity

record backend_capabilities =
  bc_schema :: schema_capabilities
  bc_query :: query_capabilities
  bc_mutations :: mutation_capabilities
  bc_relations :: relation_capabilities
  bc_valueLimits :: value_limits
  bc_migrations :: migration_capabilities
  bc_supportedColumnTypes :: "column_type list"
  bc_transactions :: bool

definition supportsColumnType :: "backend_capabilities \<Rightarrow> column_type \<Rightarrow> bool" where
  "supportsColumnType capabilities type \<longleftrightarrow> type \<in> set (bc_supportedColumnTypes capabilities)"

section \<open>Statements and bound values\<close>

record bound_value =
  bv_logicalType :: column_type
  bv_value :: "query_storage option"

definition getLogicalType :: "statement_parameter \<Rightarrow> (exn, column_type) result" where
  "getLogicalType parameter =
     (case sm_value parameter of
        Some v \<Rightarrow> Inr (qv_logicalType v)
      | None \<Rightarrow>
          (case sm_nullType parameter of
             Some type \<Rightarrow> Inr type
           | None \<Rightarrow> Inl (InvalidArgument ''A NULL statement parameter requires an explicit logical type'')))"

definition getBoundValue :: "statement_parameter \<Rightarrow> (exn, bound_value) result" where
  "getBoundValue parameter =
     (case sm_value parameter of
        Some v \<Rightarrow> Inr \<lparr>bv_logicalType = qv_logicalType v, bv_value = Some (qv_value v)\<rparr>
      | None \<Rightarrow> bindR (getLogicalType parameter) (\<lambda>type. Inr \<lparr>bv_logicalType = type, bv_value = None\<rparr>))"

section \<open>Providers\<close>

text \<open>
  \<open>'c\<close> is the type of connection configurations, \<open>'v\<close> that of \<^verbatim>\<open>soci::values\<close>. \<open>pv_transaction\<close> constructs the SOCI
  transaction, \<open>pv_commit\<close> commits it and, when that fails, is followed by its destruction. \<open>pv_execute\<close> prepares and
  executes a statement, with values or without, and reads the affected rows; \<open>pv_run\<close> sends a text, \<open>pv_count\<close> reads one
  number.
\<close>

record ('d, 'r, 'c, 'v) provider =
  pv_ops :: "('d, 'r) session_ops"
  pv_capabilities :: backend_capabilities
  pv_dialect :: sql_dialect
  pv_open :: "'c \<Rightarrow> ('d, unit) act"
  pv_onConnect :: "('d, unit) act"
  pv_transaction :: "('d, unit) act"
  pv_commit :: "('d, unit) act"
  pv_tableExists :: "string \<Rightarrow> ('d, bool) act"
  pv_values :: 'v
  pv_bind :: "'v \<Rightarrow> string \<Rightarrow> bound_value \<Rightarrow> (exn, 'v) result"
  pv_execute :: "string \<Rightarrow> 'v option \<Rightarrow> ('d, int) act"
  pv_run :: "string \<Rightarrow> ('d, unit) act"
  pv_count :: "string \<Rightarrow> 'v \<Rightarrow> ('d, int) act"
  pv_normalizeAffectedRows :: "int \<Rightarrow> (exn, nat) result"
  pv_insertIfAbsent :: "statement \<Rightarrow> insert_if_absent \<Rightarrow> ('d, nat) act"
  pv_invalidates :: "exn \<Rightarrow> bool"

text \<open>\<^verbatim>\<open>CommandGeneratorFactory\<close>: the registered providers by backend.\<close>

type_synonym ('d, 'r, 'c, 'v) factory = "(backend_type \<times> ('d, 'r, 'c, 'v) provider) list"

definition registerBackend ::
  "backend_type \<times> ('d, 'r, 'c, 'v) provider \<Rightarrow> ('d, 'r, 'c, 'v) factory \<Rightarrow> (exn, ('d, 'r, 'c, 'v) factory) result" where
  "registerBackend entry backends =
     bindR (throwIf (fst entry = Empty)
              (InvalidArgument ''BackendType::Empty is reserved for disconnected databases'')) (\<lambda>_.
     bindR (throwIf (map_of backends (fst entry) \<noteq> None) (InvalidArgument ''Backend is already registered'')) (\<lambda>_.
       Inr (backends @ [entry])))"

definition CommandGeneratorFactory ::
  "(backend_type \<times> ('d, 'r, 'c, 'v) provider) list \<Rightarrow> (exn, ('d, 'r, 'c, 'v) factory) result" where
  "CommandGeneratorFactory providers = foldR registerBackend providers []"

section \<open>Checks\<close>

definition databaseThrow :: "database_error_code \<Rightarrow> string \<Rightarrow> string \<Rightarrow> ('d, 'a) dbact" where
  "databaseThrow error operation message =
     bindA (getA backendType) (\<lambda>backend. throwA (DatabaseError error backend operation message None))"

definition requireCapability :: "bool \<Rightarrow> string \<Rightarrow> string \<Rightarrow> ('d, unit) dbact" where
  "requireCapability supported operation message =
     (if supported then retA () else databaseThrow DbUnsupportedFeature operation message)"

text \<open>\<^verbatim>\<open>throwTranslatedError\<close>, and the handler that calls it for driver errors.\<close>

definition throwTranslatedError ::
  "('d, 'r, 'c, 'v) provider \<Rightarrow> exn \<Rightarrow> database_error_code \<Rightarrow> string \<Rightarrow> ('d, 'a) dbact" where
  "throwTranslatedError p e fallback operation =
     bindA (getA db_backend) (\<lambda>backend.
       if backend = None
       then throwA (DatabaseError DbNotConnected Empty ''database operation''
                      ''No database backend is available to translate the driver error'' None)
       else
         bindA (getA db_transaction) (\<lambda>active.
         thenA (if active \<and> pv_invalidates p e then modifyA (\<lambda>db. db\<lparr>db_transactionFailed := True\<rparr>) else retA ())
               (throwA (so_translate (pv_ops p) e fallback operation))))"

definition driver_handler ::
  "('d, 'r, 'c, 'v) provider \<Rightarrow> database_error_code \<Rightarrow> string \<Rightarrow> exn \<Rightarrow> ('d, 'a) dbact" where
  "driver_handler p fallback operation e =
     (if is_soci e then throwTranslatedError p e fallback operation else throwA e)"

definition ensureSessionUsable :: "('d, 'r, 'c, 'v) provider \<Rightarrow> string \<Rightarrow> ('d, unit) dbact" where
  "ensureSessionUsable p operation =
     thenA (getBackend (pv_ops p)) (
     bindA (getA db_transactionFailed) (\<lambda>failed.
       if failed then databaseThrow DbTransaction operation
                        ''The failed transaction must be rolled back before another SQL operation''
       else retA ()))"

definition ensureDdlSupported :: "('d, 'r, 'c, 'v) provider \<Rightarrow> string \<Rightarrow> ('d, unit) dbact" where
  "ensureDdlSupported p operation =
     thenA (ensureSessionUsable p operation) (
     bindA (getA db_transaction) (\<lambda>active.
       if active \<and> \<not> sk_transactionalDdl (bc_schema (pv_capabilities p))
       then databaseThrow DbUnsupportedFeature operation
              ''The backend cannot execute schema operations inside an application transaction''
       else retA ()))"

definition getBackendRuntimeLimits :: "('d, 'r, 'c, 'v) provider \<Rightarrow> ('d, runtime_limits) dbact" where
  "getBackendRuntimeLimits p =
     thenA (ensureSessionUsable p ''read backend limits'') (
       catchA (thenA (getBackend (pv_ops p)) (sessionA (so_limits (pv_ops p))))
         (driver_handler p DbStatement ''read backend limits''))"

definition ensureStatementWithinBindLimit :: "('d, 'r, 'c, 'v) provider \<Rightarrow> nat \<Rightarrow> string \<Rightarrow> ('d, unit) dbact" where
  "ensureStatementWithinBindLimit p parameterCount operation =
     (if parameterCount = 0 then retA ()
      else bindA (getBackendRuntimeLimits p) (\<lambda>limits.
        case rl_maxBindParameters limits of
          None \<Rightarrow> retA ()
        | Some maximum \<Rightarrow>
            if parameterCount > maximum
            then databaseThrow DbUnsupportedFeature operation ''The statement exceeds the backend bind-parameter limit''
            else retA ()))"

definition ensureAffectedRowsAvailable :: "('d, 'r, 'c, 'v) provider \<Rightarrow> string \<Rightarrow> ('d, unit) dbact" where
  "ensureAffectedRowsAvailable p operation =
     thenA (getBackend (pv_ops p))
       (if mk_affectedRows (bc_mutations (pv_capabilities p)) \<noteq> RowsReliable
        then databaseThrow DbAffectedRowsUnavailable operation ''The backend cannot report exact affected-row counts''
        else retA ())"

definition ensureBoundValueSupported :: "('d, 'r, 'c, 'v) provider \<Rightarrow> bound_value \<Rightarrow> string \<Rightarrow> ('d, unit) dbact" where
  "ensureBoundValueSupported p bound operation =
     thenA (getBackend (pv_ops p)) (
     thenA (requireCapability (supportsColumnType (pv_capabilities p) (bv_logicalType bound)) operation
              ''A bound value type is not supported by the backend'') (
     bindA (getBackendRuntimeLimits p) (\<lambda>limits.
       if \<not> isWithinValueLimits (bv_logicalType bound) (bv_value bound) (bc_valueLimits (pv_capabilities p)) limits
       then databaseThrow DbConversion operation ''A bound value exceeds the backend value limits''
       else retA ())))"

definition ensure_parameter :: "('d, 'r, 'c, 'v) provider \<Rightarrow> string \<Rightarrow> statement_parameter \<Rightarrow> ('d, unit) dbact" where
  "ensure_parameter p operation parameter =
     bindA (liftR (getBoundValue parameter)) (\<lambda>bound. ensureBoundValueSupported p bound operation)"

text \<open>The checks that every statement with parameters passes before it is bound.\<close>

definition ensure_statement :: "('d, 'r, 'c, 'v) provider \<Rightarrow> statement \<Rightarrow> string \<Rightarrow> ('d, unit) dbact" where
  "ensure_statement p statement operation =
     thenA (ensureSessionUsable p operation) (
     thenA (ensureStatementWithinBindLimit p (length (st_parameters statement)) operation) (
     thenA (ensureAffectedRowsAvailable p operation)
       (forA (ensure_parameter p operation) (st_parameters statement))))"

section \<open>Connections\<close>

definition closeFailedSession :: "('d, 'r, 'c, 'v) provider \<Rightarrow> ('d, unit) dbact" where
  "closeFailedSession p = catchA (sessionA (so_close (pv_ops p))) (\<lambda>_. retA ())"

definition connection_failure :: "('d, 'r, 'c, 'v) provider \<Rightarrow> backend_type \<Rightarrow> exn \<Rightarrow> exn" where
  "connection_failure p requested e =
     (case e of
        DatabaseError _ _ _ _ _ \<Rightarrow> e
      | SociError _ \<Rightarrow> so_translate (pv_ops p) e DbConnection ''connect''
      | _ \<Rightarrow> DatabaseError DbConnection requested ''connect'' ''Backend session initialization failed'' None)"

definition connect :: "('d, 'r, 'c, 'v) factory \<Rightarrow> backend_type \<Rightarrow> 'c \<Rightarrow> ('d, unit) dbact" where
  "connect backends requested config =
     bindA (getA db_backend) (\<lambda>current.
       if current \<noteq> None then databaseThrow DbAlreadyConnected ''connect'' ''A database session is already connected''
       else case map_of backends requested of
         None \<Rightarrow> throwA (DatabaseError DbUnsupportedBackend requested ''connect'' ''The requested backend is not registered'' None)
       | Some p \<Rightarrow>
           thenA (catchA (thenA (sessionA (pv_open p config)) (sessionA (pv_onConnect p)))
                    (\<lambda>e. thenA (closeFailedSession p) (throwA (connection_failure p requested e))))
                 (modifyA (\<lambda>db. db\<lparr>db_backend := Some requested\<rparr>)))"

text \<open>The destructor of \<^verbatim>\<open>Database\<close>.\<close>

definition destroy_database :: "('d, 'r, 'c, 'v) provider \<Rightarrow> ('d, unit) dbact" where
  "destroy_database p = catchA (disconnect (pv_ops p)) (\<lambda>_. retA ())"

section \<open>Transactions\<close>

definition reset_transaction :: "('d, unit) dbact" where
  "reset_transaction = modifyA (\<lambda>db. db\<lparr>db_transaction := False, db_transactionFailed := False\<rparr>)"

definition beginTransaction :: "('d, 'r, 'c, 'v) provider \<Rightarrow> ('d, unit) dbact" where
  "beginTransaction p =
     thenA (getBackend (pv_ops p)) (
     thenA (requireCapability (bc_transactions (pv_capabilities p)) ''begin transaction'' ''transactions are not supported'') (
     bindA (getA (\<lambda>db. db_transaction db \<or> db_migrationActive db)) (\<lambda>active.
       if active then databaseThrow DbTransaction ''begin transaction'' ''A transaction is already active''
       else catchA (thenA (sessionA (pv_transaction p))
                      (modifyA (\<lambda>db. db\<lparr>db_transaction := True, db_transactionFailed := False\<rparr>)))
              (driver_handler p DbTransaction ''begin transaction''))))"

text \<open>The two ways to end a transaction: the driver's action, and the transaction is gone also when the driver fails.\<close>

definition end_transaction :: "('d, 'r, 'c, 'v) provider \<Rightarrow> ('d, unit) act \<Rightarrow> string \<Rightarrow> ('d, unit) dbact" where
  "end_transaction p finish operation =
     catchA (thenA (sessionA finish) reset_transaction)
       (\<lambda>e. if is_soci e then thenA reset_transaction (throwTranslatedError p e DbTransaction operation) else throwA e)"

definition commitTransaction :: "('d, 'r, 'c, 'v) provider \<Rightarrow> ('d, unit) dbact" where
  "commitTransaction p =
     thenA (getBackend (pv_ops p)) (
     bindA (getA (\<lambda>db. (db_transaction db, db_transactionFailed db))) (\<lambda>(active, failed).
       if \<not> active then databaseThrow DbTransaction ''commit transaction'' ''No transaction is active''
       else if failed then databaseThrow DbTransaction ''commit transaction''
                             ''The transaction contains a failed statement and must be rolled back''
       else end_transaction p (pv_commit p) ''commit transaction''))"

definition rollbackTransaction :: "('d, 'r, 'c, 'v) provider \<Rightarrow> ('d, unit) dbact" where
  "rollbackTransaction p =
     thenA (getBackend (pv_ops p)) (
     bindA (getA db_transaction) (\<lambda>active.
       if \<not> active then databaseThrow DbTransaction ''rollback transaction'' ''No transaction is active''
       else end_transaction p (so_tx_rollback (pv_ops p)) ''rollback transaction''))"

section \<open>Statements\<close>

fun bindStatementParameters ::
  "('d, 'r, 'c, 'v) provider \<Rightarrow> 'v \<Rightarrow> statement_parameter list \<Rightarrow> (exn, 'v) result" where
  "bindStatementParameters p values [] = Inr values"
| "bindStatementParameters p values (parameter # parameters) =
     bindR (getBoundValue parameter) (\<lambda>bound.
     bindR (pv_bind p values (sm_name parameter) bound) (\<lambda>bound_values. bindStatementParameters p bound_values parameters))"

definition mutation_handler :: "('d, 'r, 'c, 'v) provider \<Rightarrow> string \<Rightarrow> exn \<Rightarrow> ('d, 'a) dbact" where
  "mutation_handler p operation e =
     (case e of
        DatabaseError _ _ _ _ _ \<Rightarrow> throwA e
      | ConversionError _ \<Rightarrow>
          databaseThrow DbConversion operation ''A mutation value cannot be represented by the selected backend''
      | SociError _ \<Rightarrow> throwTranslatedError p e DbStatement operation
      | _ \<Rightarrow> databaseThrow DbAffectedRowsUnavailable operation ''The backend did not provide a usable affected-row count'')"

definition executeMutation :: "('d, 'r, 'c, 'v) provider \<Rightarrow> statement \<Rightarrow> string \<Rightarrow> ('d, nat) dbact" where
  "executeMutation p statement operation =
     thenA (ensure_statement p statement operation) (
       catchA
         (thenA (getBackend (pv_ops p)) (
          bindA (liftR (bindStatementParameters p (pv_values p) (st_parameters statement))) (\<lambda>values.
          bindA (sessionA (pv_execute p (st_sql statement)
                   (if st_parameters statement = [] then None else Some values))) (\<lambda>rows.
          thenA (getBackend (pv_ops p)) (liftR (pv_normalizeAffectedRows p rows))))))
         (mutation_handler p operation))"

definition executeSql :: "('d, 'r, 'c, 'v) provider \<Rightarrow> string \<Rightarrow> string \<Rightarrow> ('d, unit) dbact" where
  "executeSql p sql operation =
     thenA (ensureDdlSupported p operation) (
       catchA (sessionA (pv_run p sql)) (driver_handler p DbStatement operation))"

definition executeInsertIfAbsent ::
  "('d, 'r, 'c, 'v) provider \<Rightarrow> statement \<Rightarrow> insert_if_absent \<Rightarrow> string \<Rightarrow> ('d, nat) dbact" where
  "executeInsertIfAbsent p statement conflict operation =
     thenA (ensure_statement p statement operation) (
       catchA (thenA (getBackend (pv_ops p)) (sessionA (pv_insertIfAbsent p statement conflict)))
         (\<lambda>e. case e of
            ConversionError _ \<Rightarrow>
              databaseThrow DbConversion operation ''A relation value cannot be represented by the selected backend''
          | _ \<Rightarrow> driver_handler p DbStatement operation e))"

definition tableExists :: "('d, 'r, 'c, 'v) provider \<Rightarrow> string \<Rightarrow> ('d, bool) dbact" where
  "tableExists p name =
     thenA (ensureSessionUsable p ''inspect schema'') (
       catchA (thenA (getBackend (pv_ops p)) (sessionA (pv_tableExists p name)))
         (driver_handler p DbStatement ''inspect schema''))"

text \<open>\<^verbatim>\<open>normalizeAffectedRows\<close>: how a provider reads the driver's count.\<close>

definition normalizeAffectedRows :: "int \<Rightarrow> (exn, nat) result" where
  "normalizeAffectedRows affectedRows =
     (if affectedRows < 0 then Inl (RuntimeError ''Database backend did not report affected row count'')
      else Inr (nat affectedRows))"

end
