(* ===== verification/Orm_Support.thy ===== *)
theory Orm_Support
  imports Orm_Session Orm_Relations
begin

text \<open>
  The checks of \<^verbatim>\<open>src/Database.cpp\<close> before a model, a schema operation, a query or a relation is used: identifiers of all
  models reachable from one, column types, index budgets, query features, and the endpoints of relations. A model handle
  is an index into its schema.
\<close>

section \<open>Identifiers of reachable models\<close>

definition requireToOneTarget :: "schema_view \<Rightarrow> column_view \<Rightarrow> (exn, model_data) result" where
  "requireToOneTarget schema column =
     (case resolveTarget_column schema column of
        None \<Rightarrow> Inl (InvalidArgument ''To-one column has no target model in the schema'')
      | Some target \<Rightarrow> Inr target)"

definition requireRelationTarget :: "schema_view \<Rightarrow> relation_view \<Rightarrow> (exn, model_data) result" where
  "requireRelationTarget schema relation =
     (case resolveTarget_relation schema relation of
        None \<Rightarrow> Inl (InvalidArgument ''Collection relation has no target model in the schema'')
      | Some target \<Rightarrow> Inr target)"

definition quotable :: "sql_dialect \<Rightarrow> string list \<Rightarrow> (exn, unit) result" where
  "quotable dialect names = forR (\<lambda>name. bindR (sd_quoteIdentifier dialect name) (\<lambda>_. Inr ())) names"

definition bindable :: "sql_dialect \<Rightarrow> string \<Rightarrow> (exn, unit) result" where
  "bindable dialect name = bindR (sd_bindMarker dialect name) (\<lambda>_. Inr ())"

definition check_scalar :: "sql_dialect \<Rightarrow> model_data \<Rightarrow> column_view \<Rightarrow> (exn, unit) result" where
  "check_scalar dialect model column =
     bindR (quotable dialect [cv_name column, modelColumn (md_tableName model) (cv_name column)]) (\<lambda>_.
     bindR (if cv_isPrimaryKey column then quotable dialect [relationOwnerAlias column] else Inr ()) (\<lambda>_.
       if cv_isAutoIncrement column then Inr () else bindable dialect (cv_name column)))"

definition check_related_column :: "sql_dialect \<Rightarrow> model_data \<Rightarrow> column_view \<Rightarrow> column_view \<Rightarrow> (exn, unit) result" where
  "check_related_column dialect model column related =
     (let localColumn = joinedRelationColumn (cv_name column) (cv_name related)
      in bindR (quotable dialect [cv_name related, localColumn]) (\<lambda>_.
         if \<not> cv_isPrimaryKey related then Inr ()
         else bindR (quotable dialect [localColumn]) (\<lambda>_.
              bindR (bindable dialect localColumn) (\<lambda>_.
                quotable dialect [unjoinedRelationColumn (md_tableName model) (cv_name column) (cv_name related)]))))"

definition check_to_one :: "sql_dialect \<Rightarrow> schema_view \<Rightarrow> model_data \<Rightarrow> column_view \<Rightarrow> (exn, unit) result" where
  "check_to_one dialect schema model column =
     bindR (quotable dialect [cv_name column]) (\<lambda>_.
     bindR (requireToOneTarget schema column) (\<lambda>target.
     bindR (quotable dialect [md_tableName target]) (\<lambda>_.
       forR (check_related_column dialect model column) (md_columns target))))"

definition check_relation :: "sql_dialect \<Rightarrow> schema_view \<Rightarrow> relation_view \<Rightarrow> (exn, unit) result" where
  "check_relation dialect schema relation =
     bindR (quotable dialect [rv_columnName relation]) (\<lambda>_.
     bindR (requireRelationTarget schema relation) (\<lambda>target.
     bindR (quotable dialect [md_tableName target]) (\<lambda>_.
     bindR (forR (\<lambda>column. quotable dialect (cv_name column #
              (if cv_isPrimaryKey column then [joinedRelationColumn (rv_columnName relation) (cv_name column)] else [])))
              (md_columns target)) (\<lambda>_.
       if isConfigured (rv_junction relation)
       then quotable dialect (jv_tableName (rv_junction relation) # jv_ownerColumns (rv_junction relation)
                              @ jv_targetColumns (rv_junction relation))
       else Inr ()))))"

text \<open>
  The parts of a model in the order of the two loops; each but a scalar column leads to another model.
\<close>

datatype member = ColumnMember column_view | RelationMember relation_view

definition members :: "model_data \<Rightarrow> member list" where
  "members model = map ColumnMember (md_columns model) @ map RelationMember (md_relations model)"

fun check_member :: "sql_dialect \<Rightarrow> schema_view \<Rightarrow> model_data \<Rightarrow> member \<Rightarrow> (exn, unit) result" where
  "check_member dialect schema model (ColumnMember column) =
     (if cv_kind column = ScalarField then check_scalar dialect model column else check_to_one dialect schema model column)"
| "check_member dialect schema model (RelationMember relation) = check_relation dialect schema relation"

fun next_model :: "member \<Rightarrow> nat option" where
  "next_model (ColumnMember column) = (if cv_kind column = ScalarField then None else cv_targetModelIndex column)"
| "next_model (RelationMember relation) = rv_targetModelIndex relation"

text \<open>
  The recursion over the models, with the set of visited ones. Its depth is bounded by fuel; \<open>Endless\<close> would mean that the
  fuel ran out, which is shown not to happen.
\<close>

fun visit_models :: "nat \<Rightarrow> sql_dialect \<Rightarrow> schema_view \<Rightarrow> nat \<Rightarrow> nat list \<Rightarrow> (stop, nat list) result" where
  "visit_models 0 dialect schema model visited = Inl Endless"
| "visit_models (Suc fuel) dialect schema model visited =
     (if model \<in> set visited then Inr visited
      else case schema_at schema model of
        None \<Rightarrow> Inl OutOfBounds
      | Some descriptor \<Rightarrow>
          bindR (raised (quotable dialect [md_tableName descriptor])) (\<lambda>_.
          foldR (\<lambda>member seen.
              bindR (raised (check_member dialect schema descriptor member)) (\<lambda>_.
                case next_model member of
                  None \<Rightarrow> Inr seen
                | Some target \<Rightarrow> visit_models fuel dialect schema target seen))
            (members descriptor) (model # visited)))"

definition validateModelIdentifiers :: "sql_dialect \<Rightarrow> schema_view \<Rightarrow> nat \<Rightarrow> (stop, unit) result" where
  "validateModelIdentifiers dialect schema model =
     bindR (visit_models (Suc (length schema)) dialect schema model []) (\<lambda>_. Inr ())"

section \<open>Models\<close>

definition unsupported :: "backend_type \<Rightarrow> string \<Rightarrow> string \<Rightarrow> exn" where
  "unsupported backend operation message = DatabaseError DbUnsupportedFeature backend operation message None"

definition require_feature :: "backend_type \<Rightarrow> bool \<Rightarrow> string \<Rightarrow> string \<Rightarrow> (exn, unit) result" where
  "require_feature backend supported operation message = throwIf (\<not> supported) (unsupported backend operation message)"

definition optional_type :: "column_view \<Rightarrow> (exn, column_type) result" where
  "optional_type column = (case cv_type column of None \<Rightarrow> Inl (LogicError ''bad optional access'') | Some type \<Rightarrow> Inr type)"

definition require_type ::
  "backend_type \<Rightarrow> backend_capabilities \<Rightarrow> column_view \<Rightarrow> string \<Rightarrow> string \<Rightarrow> (exn, unit) result" where
  "require_type backend capabilities column operation message =
     bindR (optional_type column) (\<lambda>type. require_feature backend (supportsColumnType capabilities type) operation message)"

definition requireSupportedRelatedTarget ::
  "schema_view \<Rightarrow> column_view \<Rightarrow> backend_type \<Rightarrow> string \<Rightarrow> (exn, model_data) result" where
  "requireSupportedRelatedTarget schema column backend operation =
     (case resolveTarget_column schema column of
        None \<Rightarrow> Inl (unsupported backend operation ''A related model is outside the selected schema'')
      | Some target \<Rightarrow> Inr target)"

definition column_at_index :: "model_data \<Rightarrow> nat \<Rightarrow> (exn, column_view) result" where
  "column_at_index model i = (if i < length (md_columns model) then Inr (md_columns model ! i) else Inl (LogicError ''index''))"

definition column_supported ::
  "backend_type \<Rightarrow> backend_capabilities \<Rightarrow> schema_view \<Rightarrow> string \<Rightarrow> column_view \<Rightarrow> (exn, unit) result" where
  "column_supported backend capabilities schema operation column =
     bindR (if cv_isAutoIncrement column \<and> operation = ''create table''
            then require_feature backend (sk_autoIncrementPrimaryKey (bc_schema capabilities)) operation
                   ''auto-increment primary keys are not supported''
            else Inr ()) (\<lambda>_.
       if cv_kind column = ToOneField
       then bindR (require_feature backend (rk_toOne (bc_relations capabilities)) operation
                     ''to-one relations are not supported'') (\<lambda>_.
            bindR (requireSupportedRelatedTarget schema column backend operation) (\<lambda>related.
              forR (\<lambda>i. bindR (column_at_index related i) (\<lambda>key.
                   require_type backend capabilities key operation
                     ''A related primary-key column type is not supported by the backend'')) (md_primaryKeyIndices related)))
       else require_type backend capabilities column operation ''A model column type is not supported by the backend'')"

definition model_supported ::
  "backend_type \<Rightarrow> backend_capabilities \<Rightarrow> sql_dialect \<Rightarrow> schema_view \<Rightarrow> nat \<Rightarrow> string \<Rightarrow> (exn, unit) result" where
  "model_supported backend capabilities dialect schema model operation =
     (case schema_at schema model of
        None \<Rightarrow> Inl (LogicError ''model handle'')
      | Some descriptor \<Rightarrow>
          bindR (case validateModelIdentifiers dialect schema model of
                   Inr _ \<Rightarrow> Inr ()
                 | Inl (Raised (InvalidArgument _)) \<Rightarrow>
                     Inl (unsupported backend operation ''A model identifier is not supported by the selected backend'')
                 | Inl (Raised e) \<Rightarrow> Inl e
                 | Inl _ \<Rightarrow> Inl (LogicError ''stack'')) (\<lambda>_.
          bindR (if operation = ''create table'' \<and> length (md_primaryKeyIndices descriptor) > 1
                 then require_feature backend (sk_compositePrimaryKeys (bc_schema capabilities)) operation
                        ''composite primary keys are not supported'' else Inr ()) (\<lambda>_.
          bindR (if operation = ''create table'' \<and> list_ex (\<lambda>column. cv_kind column = ToOneField) (md_columns descriptor)
                 then require_feature backend (sk_foreignKeys (bc_schema capabilities)) operation
                        ''foreign keys are not supported'' else Inr ()) (\<lambda>_.
            forR (column_supported backend capabilities schema operation) (md_columns descriptor)))))"

definition ensureModelSupported ::
  "('d, 'r, 'c, 'v) provider \<Rightarrow> schema_view \<Rightarrow> nat \<Rightarrow> string \<Rightarrow> ('d, unit) dbact" where
  "ensureModelSupported p schema model operation =
     thenA (ensureSessionUsable p operation) (
     bindA (getA backendType) (\<lambda>backend.
       liftR (model_supported backend (pv_capabilities p) (pv_dialect p) schema model operation)))"

section \<open>Index budgets\<close>

definition size_max :: nat where
  "size_max = 18446744073709551615"

definition key_part :: "backend_type \<Rightarrow> string \<Rightarrow> column_view \<Rightarrow> (exn, nat) result" where
  "key_part backend operation column =
     bindR (optional_type column) (\<lambda>type.
       case type of
         StringT \<Rightarrow>
           (case cv_maxStringLength column of
              Some n \<Rightarrow> if n > size_max div 4
                        then Inl (unsupported backend operation ''Textual keys require a supported explicit string length'')
                        else Inr (n * 4)
            | None \<Rightarrow> Inl (unsupported backend operation ''Textual keys require a supported explicit string length''))
       | BoolT \<Rightarrow> Inr 1 | UnsignedCharT \<Rightarrow> Inr 1
       | CharT \<Rightarrow> Inr 2 | ShortT \<Rightarrow> Inr 2 | UnsignedShortT \<Rightarrow> Inr 2
       | IntT \<Rightarrow> Inr 4 | UnsignedIntT \<Rightarrow> Inr 4
       | DateT \<Rightarrow> Inr 3 | TimeOfDayT \<Rightarrow> Inr 6 | UtcTimestampT \<Rightarrow> Inr 7 | UuidT \<Rightarrow> Inr 16
       | _ \<Rightarrow> Inr 8)"

definition over_budget :: "backend_type \<Rightarrow> string \<Rightarrow> exn" where
  "over_budget backend operation = unsupported backend operation ''The declared key exceeds the backend index budget''"

definition add_part :: "backend_type \<Rightarrow> string \<Rightarrow> model_data \<Rightarrow> nat \<Rightarrow> nat \<Rightarrow> (exn, nat) result" where
  "add_part backend operation endpoint i bytes =
     bindR (column_at_index endpoint i) (\<lambda>column.
     bindR (key_part backend operation column) (\<lambda>part.
       if part > size_max - bytes then Inl (over_budget backend operation) else Inr (bytes + part)))"

definition keySize :: "backend_type \<Rightarrow> string \<Rightarrow> model_data \<Rightarrow> (exn, nat) result" where
  "keySize backend operation endpoint = foldR (add_part backend operation endpoint) (md_primaryKeyIndices endpoint) 0"

definition checkBudget :: "backend_type \<Rightarrow> string \<Rightarrow> runtime_limits \<Rightarrow> nat \<Rightarrow> (exn, unit) result" where
  "checkBudget backend operation limits bytes =
     (case rl_maxIndexBytes limits of
        None \<Rightarrow> Inr ()
      | Some budget \<Rightarrow> throwIf (bytes > budget) (over_budget backend operation))"

text \<open>A target that is not in the schema would be a null handle.\<close>

definition target_key :: "backend_type \<Rightarrow> string \<Rightarrow> model_data option \<Rightarrow> (exn, nat) result" where
  "target_key backend operation target =
     (case target of None \<Rightarrow> Inl (LogicError ''model handle'') | Some endpoint \<Rightarrow> keySize backend operation endpoint)"

definition junction_budget ::
  "backend_type \<Rightarrow> string \<Rightarrow> runtime_limits \<Rightarrow> schema_view \<Rightarrow> nat \<Rightarrow> relation_view \<Rightarrow> (exn, unit) result" where
  "junction_budget backend operation limits schema ownerBytes relation =
     (if rv_kind relation = ManyToMany \<and> jv_owningSide (rv_junction relation)
      then bindR (target_key backend operation (resolveTarget_relation schema relation)) (\<lambda>targetBytes.
           if targetBytes > size_max - ownerBytes
           then Inl (unsupported backend operation ''The declared junction key exceeds the backend index budget'')
           else checkBudget backend operation limits (ownerBytes + targetBytes))
      else Inr ())"

definition schema_budget ::
  "backend_type \<Rightarrow> string \<Rightarrow> runtime_limits \<Rightarrow> schema_view \<Rightarrow> model_data \<Rightarrow> bool \<Rightarrow> (exn, unit) result" where
  "schema_budget backend operation limits schema descriptor includeJunctions =
     bindR (keySize backend operation descriptor) (\<lambda>ownerBytes.
     bindR (checkBudget backend operation limits ownerBytes) (\<lambda>_.
     bindR (forR (\<lambda>column. bindR (target_key backend operation (resolveTarget_column schema column))
                              (checkBudget backend operation limits))
              (filter (\<lambda>column. cv_kind column = ToOneField) (md_columns descriptor))) (\<lambda>_.
       if includeJunctions
       then forR (junction_budget backend operation limits schema ownerBytes) (md_relations descriptor) else Inr ())))"

definition ensureSchemaSupported ::
  "('d, 'r, 'c, 'v) provider \<Rightarrow> schema_view \<Rightarrow> model_data \<Rightarrow> bool \<Rightarrow> string \<Rightarrow> ('d, unit) dbact" where
  "ensureSchemaSupported p schema descriptor includeJunctions operation =
     thenA (ensureDdlSupported p operation) (
       if \<not> sk_boundedStringKeys (bc_schema (pv_capabilities p)) then retA ()
       else bindA (getBackendRuntimeLimits p) (\<lambda>limits.
            bindA (getA backendType) (\<lambda>backend.
              liftR (schema_budget backend operation limits schema descriptor includeJunctions))))"

end
