(* ===== verification/Orm_Query_Support.thy ===== *)
theory Orm_Query_Support
  imports Orm_Support
begin

text \<open>
  The checks of \<^verbatim>\<open>src/Database.cpp\<close> before a query runs: the types of the columns it names, in the query and inside collection
  predicates, and the features of the backend it needs. A query is a flat program; the includes of a view are an argument
  of their own.
\<close>

section \<open>Collections\<close>

definition requireCollectionRelation :: "model_data \<Rightarrow> string \<Rightarrow> (exn, relation_view) result" where
  "requireCollectionRelation owner fieldName =
     (case findRelation owner fieldName of
        None \<Rightarrow> Inl (InvalidArgument (''Unknown collection relation: '' @ fieldName))
      | Some relation \<Rightarrow>
          if rv_kind relation = ToOne then Inl (InvalidArgument (''Unknown collection relation: '' @ fieldName))
          else Inr relation)"

definition requireIncludedRelationTarget ::
  "schema_view \<Rightarrow> relation_view \<Rightarrow> backend_type \<Rightarrow> (exn, model_data) result" where
  "requireIncludedRelationTarget schema relation backend =
     (case resolveTarget_relation schema relation of
        None \<Rightarrow> Inl (unsupported backend ''include collection'' ''An included relation target is outside the selected schema'')
      | Some target \<Rightarrow> Inr target)"

fun containsCollectionPredicate :: "'v predicate \<Rightarrow> bool" where
  "containsCollectionPredicate (CollectionExpression relation op element) = True"
| "containsCollectionPredicate (LogicalExpression left op right) =
     (containsCollectionPredicate left \<or> containsCollectionPredicate right)"
| "containsCollectionPredicate (NotExpression inner) = containsCollectionPredicate inner"
| "containsCollectionPredicate _ = False"

section \<open>Types\<close>

definition check_source ::
  "backend_type \<Rightarrow> backend_capabilities \<Rightarrow> schema_view \<Rightarrow> string \<Rightarrow> sql_source \<Rightarrow> model_data \<Rightarrow> (stop, unit) result" where
  "check_source backend capabilities schema operation source model =
     (if src_path source = [] then Inr ()
      else bindR (resolveSqlColumn schema source model False) (\<lambda>info.
        raised (require_feature backend
          (case cv_type (ci_column info) of None \<Rightarrow> False | Some type \<Rightarrow> supportsColumnType capabilities type) operation
          ''A query column type is not supported by the backend'')))"

definition check_collection_key ::
  "backend_type \<Rightarrow> backend_capabilities \<Rightarrow> string \<Rightarrow> model_data \<Rightarrow> nat \<Rightarrow> (stop, unit) result" where
  "check_collection_key backend capabilities operation target i =
     bindR (raised (column_at_index target i)) (\<lambda>column.
     bindR (type_value column) (\<lambda>type.
       raised (require_feature backend (supportsColumnType capabilities type) operation
         ''A collection key type is not supported by the backend'')))"

definition collection_target ::
  "backend_type \<Rightarrow> backend_capabilities \<Rightarrow> schema_view \<Rightarrow> string \<Rightarrow> model_data \<Rightarrow> string \<Rightarrow> (stop, model_data) result" where
  "collection_target backend capabilities schema operation model field =
     bindR (raised (requireCollectionRelation model field)) (\<lambda>relation.
     bindR (raised (requireRelationTarget schema relation)) (\<lambda>target.
     bindR (forR (check_collection_key backend capabilities operation target) (md_primaryKeyIndices target)) (\<lambda>_.
       Inr target)))"

text \<open>
  The recursive lambda over the nodes; an absent node and an index behind the last one end it. The depth is bounded by
  fuel: \<open>Endless\<close> would mean that the nodes form a cycle.
\<close>

fun check_node ::
  "nat \<Rightarrow> backend_type \<Rightarrow> backend_capabilities \<Rightarrow> schema_view \<Rightarrow> string \<Rightarrow> sql_node list \<Rightarrow> nat option \<Rightarrow> model_data
     \<Rightarrow> (stop, unit) result" where
  "check_node fuel backend capabilities schema operation nodes None model = Inr ()"
| "check_node 0 backend capabilities schema operation nodes (Some index) model = Inl Endless"
| "check_node (Suc fuel) backend capabilities schema operation nodes (Some index) model =
     (if length nodes \<le> index then Inr ()
      else let node = nodes ! index in
        case nd_kind node of
          CollectionNode \<Rightarrow>
            bindR (collection_target backend capabilities schema operation model (nd_relation node)) (\<lambda>target.
              check_node fuel backend capabilities schema operation nodes (nd_left node) target)
        | AndNode \<Rightarrow>
            bindR (check_node fuel backend capabilities schema operation nodes (nd_left node) model) (\<lambda>_.
              check_node fuel backend capabilities schema operation nodes (nd_right node) model)
        | OrNode \<Rightarrow>
            bindR (check_node fuel backend capabilities schema operation nodes (nd_left node) model) (\<lambda>_.
              check_node fuel backend capabilities schema operation nodes (nd_right node) model)
        | NotNode \<Rightarrow>
            bindR (check_node fuel backend capabilities schema operation nodes (nd_left node) model) (\<lambda>_.
              check_node fuel backend capabilities schema operation nodes (nd_right node) model)
        | RawNode \<Rightarrow> Inr ()
        | _ \<Rightarrow> check_source backend capabilities schema operation (nd_source node) model)"

definition check_joined ::
  "backend_type \<Rightarrow> backend_capabilities \<Rightarrow> schema_view \<Rightarrow> string \<Rightarrow> column_view \<Rightarrow> (exn, unit) result" where
  "check_joined backend capabilities schema operation column =
     (if cv_kind column = ToOneField
      then bindR (requireSupportedRelatedTarget schema column backend operation) (\<lambda>related.
        forR (\<lambda>field. case cv_type field of
                None \<Rightarrow> Inr ()
              | Some type \<Rightarrow> require_feature backend (supportsColumnType capabilities type) operation
                               ''A joined column type is not supported by the backend'') (md_columns related))
      else Inr ())"

definition ensureQueryTypesSupported ::
  "backend_type \<Rightarrow> backend_capabilities \<Rightarrow> schema_view \<Rightarrow> model_data \<Rightarrow> sql_query \<Rightarrow> string \<Rightarrow> (stop, unit) result" where
  "ensureQueryTypesSupported backend capabilities schema descriptor query operation =
     (let node = (\<lambda>index. check_node (length (q_nodes query)) backend capabilities schema operation (q_nodes query) index descriptor);
          source = (\<lambda>source. check_source backend capabilities schema operation source descriptor)
      in bindR (node (q_predicate query)) (\<lambda>_.
         bindR (node (q_having query)) (\<lambda>_.
         bindR (forR (\<lambda>projection. source (pr_source projection)) (q_projections query)) (\<lambda>_.
         bindR (forR source (q_groups query)) (\<lambda>_.
         bindR (forR (\<lambda>order. if or_isRaw order then Inr () else source (or_source order)) (q_orders query)) (\<lambda>_.
           if q_shouldJoin query \<and> q_projections query = []
           then raised (forR (check_joined backend capabilities schema operation) (md_columns descriptor)) else Inr ()))))))"

section \<open>Features\<close>

text \<open>
  \<open>columnIdentity\<close> is a pair of pointers in the source. Columns are looked up by name and the first match is taken, so two
  lookups give columns with equal contents only when they give the same column.
\<close>

definition columnIdentity ::
  "schema_view \<Rightarrow> model_data \<Rightarrow> bool \<Rightarrow> sql_source \<Rightarrow> (stop, column_view option \<times> column_view) result" where
  "columnIdentity schema descriptor shouldJoin source =
     bindR (resolveSqlColumn schema source descriptor False) (\<lambda>info.
       if \<not> shouldJoin \<and> ci_relation info \<noteq> None \<and> \<not> cv_isPrimaryKey (ci_column info)
       then Inl (Raised (InvalidArgument (''Cannot filter by non-id related field when joining is disabled: '' @ sqlPath source)))
       else Inr (ci_relation info, ci_column info))"

text \<open>\<^verbatim>\<open>std::ranges::any_of\<close> with a predicate that may throw.\<close>

fun any_of :: "('x \<Rightarrow> ('e, bool) result) \<Rightarrow> 'x list \<Rightarrow> ('e, bool) result" where
  "any_of f [] = Inr False"
| "any_of f (x # xs) = bindR (f x) (\<lambda>found. if found then Inr True else any_of f xs)"

definition check_aliases :: "backend_type \<Rightarrow> sql_dialect \<Rightarrow> sql_query \<Rightarrow> (exn, unit) result" where
  "check_aliases backend dialect query =
     (case quotable dialect (map pr_alias (q_projections query)) of
        Inl (InvalidArgument _) \<Rightarrow>
          Inl (unsupported backend ''select projection'' ''A projection alias is not supported by the selected backend'')
      | result \<Rightarrow> result)"

definition check_pagination :: "backend_type \<Rightarrow> query_capabilities \<Rightarrow> sql_query \<Rightarrow> (exn, unit) result" where
  "check_pagination backend features query =
     bindR (if q_hasLimit query then require_feature backend (qk_limit features) ''select'' ''LIMIT is not supported'' else Inr ()) (\<lambda>_.
       if \<not> q_hasOffset query then Inr ()
       else bindR (require_feature backend (qk_offset features) ''select'' ''OFFSET is not supported'') (\<lambda>_.
            bindR (if q_hasLimit query then Inr ()
                   else require_feature backend (qk_offsetWithoutLimit features) ''select'' ''OFFSET without LIMIT is not supported'') (\<lambda>_.
              throwIf (qk_offsetRequiresOrderBy features \<and> q_orders query = [])
                (unsupported backend ''select'' ''This backend requires ORDER BY when OFFSET is used''))))"

definition check_order_length ::
  "backend_type \<Rightarrow> nat \<Rightarrow> (sql_source \<Rightarrow> (stop, column_view option \<times> column_view) result) \<Rightarrow> sql_order \<Rightarrow> (stop, unit) result" where
  "check_order_length backend maximum identity order =
     (if or_isRaw order then Inr ()
      else bindR (identity (or_source order)) (\<lambda>(_, column).
        if cv_type column = Some StringT
        then raised (require_feature backend (case cv_maxStringLength column of None \<Rightarrow> False | Some n \<Rightarrow> n \<le> maximum) ''select''
               ''String ordering requires an explicit length within the backend sort limit'')
        else Inr ()))"

definition projected_as ::
  "(sql_source \<Rightarrow> (stop, column_view option \<times> column_view) result) \<Rightarrow> sql_projection list \<Rightarrow> sql_order \<Rightarrow> (stop, bool) result" where
  "projected_as identity projections order =
     (if or_isRaw order then Inr False
      else bindR (identity (or_source order)) (\<lambda>column.
        any_of (\<lambda>projection. if src_isAggregate (pr_source projection) then Inr False
                             else bindR (identity (pr_source projection)) (\<lambda>other. Inr (other = column))) projections))"

definition check_distinct_order ::
  "backend_type \<Rightarrow> (sql_source \<Rightarrow> (stop, column_view option \<times> column_view) result) \<Rightarrow> sql_projection list \<Rightarrow> sql_order
     \<Rightarrow> (stop, unit) result" where
  "check_distinct_order backend identity projections order =
     bindR (projected_as identity projections order) (\<lambda>projected.
       raised (require_feature backend projected ''select projection''
         ''DISTINCT projection queries may order only by projected columns''))"

definition isGrouped ::
  "(sql_source \<Rightarrow> (stop, column_view option \<times> column_view) result) \<Rightarrow> sql_source list \<Rightarrow> sql_source \<Rightarrow> (stop, bool) result" where
  "isGrouped identity groups source =
     bindR (identity source) (\<lambda>column. any_of (\<lambda>group. bindR (identity group) (\<lambda>other. Inr (other = column))) groups)"

definition check_grouped ::
  "backend_type \<Rightarrow> (sql_source \<Rightarrow> (stop, column_view option \<times> column_view) result) \<Rightarrow> sql_source list \<Rightarrow> string \<Rightarrow> sql_source
     \<Rightarrow> (stop, unit) result" where
  "check_grouped backend identity groups message source =
     bindR (isGrouped identity groups source) (\<lambda>grouped.
       raised (require_feature backend grouped ''select projection'' message))"

definition check_strict_grouping ::
  "backend_type \<Rightarrow> (sql_source \<Rightarrow> (stop, column_view option \<times> column_view) result) \<Rightarrow> sql_query \<Rightarrow> (stop, unit) result" where
  "check_strict_grouping backend identity query =
     bindR (forR (\<lambda>projection. if src_isAggregate (pr_source projection) then Inr ()
              else check_grouped backend identity (q_groups query)
                     ''Non-aggregate projected columns must appear in GROUP BY'' (pr_source projection)) (q_projections query)) (\<lambda>_.
       forR (\<lambda>order. if or_isRaw order then Inr ()
              else check_grouped backend identity (q_groups query)
                     ''Typed ORDER BY columns in aggregate queries must appear in GROUP BY'' (or_source order)) (q_orders query))"

definition check_collection_use :: "backend_type \<Rightarrow> backend_capabilities \<Rightarrow> bool \<Rightarrow> string \<Rightarrow> (exn, unit) result" where
  "check_collection_use backend capabilities containsCollection operation =
     (if containsCollection
      then bindR (require_feature backend (qk_collectionPredicates (bc_query capabilities)) operation
                    ''collection predicates are not supported'') (\<lambda>_.
           require_feature backend (rk_collectionPredicates (bc_relations capabilities)) operation
                    ''collection predicates are not supported'')
      else Inr ())"

definition grouping_used :: "sql_query \<Rightarrow> bool" where
  "grouping_used query \<longleftrightarrow> q_groups query \<noteq> [] \<or> q_having query \<noteq> None"

definition query_supported ::
  "backend_type \<Rightarrow> backend_capabilities \<Rightarrow> sql_dialect \<Rightarrow> schema_view \<Rightarrow> model_data \<Rightarrow> sql_query \<Rightarrow> (stop, unit) result" where
  "query_supported backend capabilities dialect schema descriptor query =
     (let features = bc_query capabilities; identity = columnIdentity schema descriptor (q_shouldJoin query);
          projections = q_projections query; orders = q_orders query
      in bindR (ensureQueryTypesSupported backend capabilities schema descriptor query ''select'') (\<lambda>_.
         bindR (raised (check_aliases backend dialect query)) (\<lambda>_.
         bindR (raised (if projections = [] \<and> grouping_used query
                then require_feature backend (qk_fullModelGrouping features) ''select''
                       ''GROUP BY and HAVING for full-model queries are not supported'' else Inr ())) (\<lambda>_.
         bindR (raised (check_pagination backend features query)) (\<lambda>_.
         bindR (raised (if projections = [] then Inr ()
                else require_feature backend (qk_projections features) ''select projection'' ''projections are not supported'')) (\<lambda>_.
         bindR (case qk_maxOrderedStringLength features of
                  None \<Rightarrow> Inr ()
                | Some maximum \<Rightarrow> forR (check_order_length backend maximum identity) orders) (\<lambda>_.
         bindR (if q_isDistinct query \<and> projections \<noteq> [] \<and> qk_distinctOrderByRequiresProjectedColumn features
                then forR (check_distinct_order backend identity projections) orders else Inr ()) (\<lambda>_.
         bindR (raised (if q_groups query = [] then Inr ()
                else require_feature backend (qk_groupBy features) ''select'' ''GROUP BY is not supported'')) (\<lambda>_.
         bindR (raised (if q_having query = None then Inr ()
                else require_feature backend (qk_having features) ''select'' ''HAVING is not supported'')) (\<lambda>_.
         bindR (if qk_strictProjectionGrouping features \<and> projections \<noteq> [] \<and>
                   (grouping_used query \<or> list_ex (\<lambda>projection. src_isAggregate (pr_source projection)) projections)
                then check_strict_grouping backend identity query else Inr ()) (\<lambda>_.
           raised (check_collection_use backend capabilities
             (list_ex (\<lambda>node. nd_kind node = CollectionNode) (q_nodes query)) ''select''))))))))))))"

section \<open>Sessions\<close>

text \<open>The checks on a connection. Undefined behaviour of the source (a null pointer, an index out of range) ends them with \<open>LogicError\<close>.\<close>

fun stop_exn :: "stop \<Rightarrow> exn" where
  "stop_exn (Raised e) = e"
| "stop_exn NoValue = LogicError ''bad optional access''"
| "stop_exn OutOfBounds = LogicError ''index''"
| "stop_exn Endless = LogicError ''stack''"

definition liftS :: "(stop, 'a) result \<Rightarrow> ('s, 'a) act" where
  "liftS r = (case r of Inl s \<Rightarrow> throwA (stop_exn s) | Inr x \<Rightarrow> retA x)"

definition model_handle :: "schema_view \<Rightarrow> nat \<Rightarrow> (exn, model_data) result" where
  "model_handle schema model =
     (case schema_at schema model of None \<Rightarrow> Inl (LogicError ''model handle'') | Some descriptor \<Rightarrow> Inr descriptor)"

definition include_supported ::
  "('d, 'r, 'c, 'v) provider \<Rightarrow> schema_view \<Rightarrow> model_data \<Rightarrow> string \<Rightarrow> ('d, unit) dbact" where
  "include_supported p schema descriptor field =
     bindA (getA backendType) (\<lambda>backend.
     bindA (liftR (requireCollectionRelation descriptor field)) (\<lambda>relation.
     thenA (liftR (requireIncludedRelationTarget schema relation backend)) (
     thenA (case rv_targetModelIndex relation of
              None \<Rightarrow> retA () | Some target \<Rightarrow> ensureModelSupported p schema target ''include collection'') (
       if rv_kind relation = OneToMany
       then requireCapability (rk_oneToMany (bc_relations (pv_capabilities p))) ''include collection''
              ''one-to-many relations are not supported''
       else if rv_kind relation = ManyToMany
       then requireCapability (rk_manyToMany (bc_relations (pv_capabilities p))) ''include collection''
              ''many-to-many relations are not supported''
       else retA ()))))"

definition ensureQuerySupported ::
  "('d, 'r, 'c, 'v) provider \<Rightarrow> schema_view \<Rightarrow> nat \<Rightarrow> sql_query \<Rightarrow> string list \<Rightarrow> ('d, unit) dbact" where
  "ensureQuerySupported p schema model query includes =
     thenA (ensureModelSupported p schema model ''select'') (
     bindA (getA backendType) (\<lambda>backend.
     bindA (liftR (model_handle schema model)) (\<lambda>descriptor.
     thenA (liftS (query_supported backend (pv_capabilities p) (pv_dialect p) schema descriptor query)) (
       if includes = [] then retA ()
       else thenA (requireCapability (rk_collectionIncludes (bc_relations (pv_capabilities p))) ''include collection''
                     ''collection includes are not supported'') (
            forA (include_supported p schema descriptor) includes)))))"

text \<open>The program of a specification, as far as the checks need it.\<close>

definition requirement_source :: "projection_source \<Rightarrow> (exn, sql_source) result" where
  "requirement_source source =
     (case source of
        ColumnSource path \<Rightarrow> parseSqlSource path
      | AggregateSource expression \<Rightarrow>
          bindR (case ag_column expression of None \<Rightarrow> Inr empty_source | Some path \<Rightarrow> parseSqlSource path) (\<lambda>result.
            Inr (result\<lparr>src_isAggregate := True, src_function := ag_function expression\<rparr>)))"

definition requirements_of :: "query_value select_spec \<Rightarrow> (exn, sql_query) result" where
  "requirements_of spec =
     bindR (mapR order_of (sel_orderBy spec)) (\<lambda>orders.
     bindR (mapR parseSqlSource (sel_groupBy spec)) (\<lambda>groups.
     bindR (mapR (\<lambda>(resultField, source). bindR (requirement_source source) (\<lambda>source.
              Inr \<lparr>pr_source = source, pr_alias = resultField\<rparr>)) (sel_projections spec)) (\<lambda>projections.
       Inr (empty_query\<lparr>q_isDistinct := sel_isDistinct spec, q_shouldJoin := sel_shouldJoin spec,
              q_hasLimit := sel_limit spec \<noteq> None, q_hasOffset := sel_offset spec \<noteq> None,
              q_orders := orders, q_groups := groups, q_projections := projections\<rparr>))))"

definition ensureSpecSupported ::
  "('d, 'r, 'c, 'v) provider \<Rightarrow> schema_view \<Rightarrow> nat \<Rightarrow> query_value select_spec \<Rightarrow> ('d, unit) dbact" where
  "ensureSpecSupported p schema model spec =
     bindA (liftR (requirements_of spec)) (\<lambda>requirements.
     bindA (liftR (model_handle schema model)) (\<lambda>descriptor.
     thenA (getBackend (pv_ops p)) (
     bindA (liftR (appendSelectPredicates spec
              (requirements, new_context descriptor (pv_dialect p) (sel_shouldJoin spec) False))) (\<lambda>(query, _).
       ensureQuerySupported p schema model query (sel_includes spec)))))"

definition ensurePredicateSupported ::
  "('d, 'r, 'c, 'v) provider \<Rightarrow> schema_view \<Rightarrow> nat \<Rightarrow> query_value predicate \<Rightarrow> string \<Rightarrow> ('d, unit) dbact" where
  "ensurePredicateSupported p schema model predicate operation =
     thenA (if containsCollectionPredicate predicate then getBackend (pv_ops p) else retA ()) (
     bindA (getA backendType) (\<lambda>backend.
     thenA (liftR (check_collection_use backend (pv_capabilities p) (containsCollectionPredicate predicate) operation)) (
     thenA (getBackend (pv_ops p)) (
     bindA (liftR (model_handle schema model)) (\<lambda>descriptor.
     bindA (liftR (append_where predicate (empty_query\<lparr>q_shouldJoin := False\<rparr>, new_context descriptor (pv_dialect p) False False)))
       (\<lambda>(query, _).
         liftS (ensureQueryTypesSupported backend (pv_capabilities p) schema descriptor query operation)))))))"

end
