(* ===== verification/Orm_Utf8.thy ===== *)
theory Orm_Utf8
  imports Orm_Literals
begin

text \<open>
  Bounded strings: \<^verbatim>\<open>validateStringLength\<close> of \<^verbatim>\<open>modules/orm/database/object_binding.cppm\<close>, which every stored string with a
  declared length passes, and \<open>unicodeLength\<close> of the migration generator. Both are compared with an encoder of Unicode
  scalar values.
\<close>

section \<open>The check\<close>

definition invalid_text :: exn where
  "invalid_text = ConversionError ''A bounded string must contain valid UTF-8''"

text \<open>The number of continuation bytes, the bits of the first byte and the least code point of this width.\<close>

definition utf8_lead :: "nat \<Rightarrow> (nat \<times> nat \<times> nat) option" where
  "utf8_lead first =
     (if first < 0x80 then Some (0, first, 0)
      else if 0xc2 \<le> first \<and> first \<le> 0xdf then Some (1, first mod 0x20, 0x80)
      else if 0xe0 \<le> first \<and> first \<le> 0xef then Some (2, first mod 0x10, 0x800)
      else if 0xf0 \<le> first \<and> first \<le> 0xf4 then Some (3, first mod 0x08, 0x10000)
      else None)"

fun continuation :: "string \<Rightarrow> nat \<Rightarrow> (exn, nat) result" where
  "continuation [] codePoint = Inr codePoint"
| "continuation (c # cs) codePoint =
     (if code c div 0x40 \<noteq> 2 then Inl invalid_text else continuation cs (codePoint * 0x40 + code c mod 0x40))"

function validate_characters :: "string \<Rightarrow> nat \<Rightarrow> nat \<Rightarrow> (exn, unit) result" where
  "validate_characters content characters limit =
     (if content = [] then Inr ()
      else case utf8_lead (code (hd content)) of
        None \<Rightarrow> Inl invalid_text
      | Some (remaining, bits, minimum) \<Rightarrow>
          bindR (throwIf (remaining > length (tl content)) invalid_text) (\<lambda>_.
          bindR (continuation (take remaining (tl content)) bits) (\<lambda>codePoint.
          bindR (throwIf (codePoint < minimum \<or> codePoint > 0x10ffff \<or> 0xd800 \<le> codePoint \<and> codePoint \<le> 0xdfff) invalid_text) (\<lambda>_.
          bindR (throwIf (Suc characters > limit) (ConversionError ''A string exceeds its declared character limit'')) (\<lambda>_.
            validate_characters (drop remaining (tl content)) (Suc characters) limit)))))"
  by pat_completeness auto

termination validate_characters by (relation "measure (length \<circ> fst)") auto

declare validate_characters.simps [simp del]

definition validateStringLength :: "string \<Rightarrow> nat option \<Rightarrow> (exn, unit) result" where
  "validateStringLength content limit = (case limit of None \<Rightarrow> Inr () | Some n \<Rightarrow> validate_characters content 0 n)"

section \<open>The encoder\<close>

definition scalar_value :: "nat \<Rightarrow> bool" where
  "scalar_value c \<longleftrightarrow> c \<le> 0x10ffff \<and> \<not> (0xd800 \<le> c \<and> c \<le> 0xdfff)"

definition utf8_encode :: "nat \<Rightarrow> string" where
  "utf8_encode c =
     (if c < 0x80 then [char_of c]
      else if c < 0x800 then [char_of (0xc0 + c div 0x40), char_of (0x80 + c mod 0x40)]
      else if c < 0x10000 then [char_of (0xe0 + c div 0x1000), char_of (0x80 + c div 0x40 mod 0x40), char_of (0x80 + c mod 0x40)]
      else [char_of (0xf0 + c div 0x40000), char_of (0x80 + c div 0x1000 mod 0x40), char_of (0x80 + c div 0x40 mod 0x40),
            char_of (0x80 + c mod 0x40)])"

definition encodes :: "nat list \<Rightarrow> string \<Rightarrow> bool" where
  "encodes points content \<longleftrightarrow> list_all scalar_value points \<and> content = concat (map utf8_encode points)"

text \<open>What both decoders do with the first character.\<close>

definition first_scalar :: "string \<Rightarrow> nat \<Rightarrow> nat \<Rightarrow> bool" where
  "first_scalar content c width \<longleftrightarrow>
     (\<exists>remaining bits minimum. utf8_lead (code (hd content)) = Some (remaining, bits, minimum) \<and> width = Suc remaining \<and>
        remaining \<le> length (tl content) \<and> continuation (take remaining (tl content)) bits = Inr c \<and> minimum \<le> c \<and> scalar_value c)"

text \<open>Digits to the base 64.\<close>

lemma sextet [simp]: "(x * 0x40 + y mod 0x40) div 0x40 = x" "(x * 0x40 + y mod 0x40) mod 0x40 = (y mod 0x40 :: nat)"
  by simp_all

lemma high_sextets: "n div 0x1000 = n div 0x40 div 0x40" "n div 0x40000 = n div 0x40 div 0x40 div (0x40 :: nat)"
  by (simp_all flip: div_mult2_eq)

lemma continuation_byte: "b div 0x40 = (2 :: nat) \<Longrightarrow> 0x80 + b mod 0x40 = b"
  using div_mult_mod_eq [of b "0x40"] by simp

lemma lead_byte: "m * 2 ^ k \<le> a \<Longrightarrow> a < Suc m * 2 ^ k \<Longrightarrow> m * 2 ^ k + a mod 2 ^ k = (a :: nat)"
  by (metis div_mult_mod_eq div_nat_eqI mult.commute)

lemma lead_bytes:
  "0xc0 \<le> a \<Longrightarrow> a < 0xe0 \<Longrightarrow> 0xc0 + a mod 0x20 = (a :: nat)"
  "0xe0 \<le> a \<Longrightarrow> a < 0xf0 \<Longrightarrow> 0xe0 + a mod 0x10 = a"
  "0xf0 \<le> a \<Longrightarrow> a < 0xf8 \<Longrightarrow> 0xf0 + a mod 0x08 = a"
  using lead_byte [of 6 5 a] lead_byte [of 14 4 a] lead_byte [of 30 3 a] by simp_all

lemma continuation_sextet: "x < (0x40 :: nat) \<Longrightarrow> (0x80 + x) div 0x40 = 2 \<and> (0x80 + x) mod 0x40 = x"
  by (intro conjI div_nat_eqI mod_nat_eqI) simp_all

lemma char_of_code [simp]: "char_of (code c) = c"
  by simp

lemma first_scalar_encoded:
  assumes "first_scalar content c width" "content \<noteq> []"
  shows "take width content = utf8_encode c \<and> width = length (utf8_encode c)"
proof -
  obtain a rest where content: "content = a # rest" using assms(2) by (cases content) auto
  obtain remaining bits minimum where lead: "utf8_lead (code a) = Some (remaining, bits, minimum)"
    and width: "width = Suc remaining" "remaining \<le> length rest"
    and bytes: "continuation (take remaining rest) bits = Inr c" and c: "minimum \<le> c" "scalar_value c"
    using assms(1) by (auto simp: first_scalar_def content)
  from lead consider
      (one) "code a < 0x80" "remaining = 0" "bits = code a" "minimum = 0"
    | (two) "0xc2 \<le> code a" "code a \<le> 0xdf" "remaining = 1" "bits = code a mod 0x20" "minimum = 0x80"
    | (three) "0xe0 \<le> code a" "code a \<le> 0xef" "remaining = 2" "bits = code a mod 0x10" "minimum = 0x800"
    | (four) "0xf0 \<le> code a" "code a \<le> 0xf4" "remaining = 3" "bits = code a mod 0x08" "minimum = 0x10000"
    by (auto simp: utf8_lead_def split: if_splits)
  then show ?thesis
  proof cases
    case one
    then have "c = code a" using bytes by simp
    then show ?thesis using one(1,2) unfolding \<open>c = code a\<close> by (simp add: content width utf8_encode_def)
  next
    case two
    obtain b rest' where rest: "rest = b # rest'" using width(2) two by (cases rest) auto
    have "code b div 0x40 = 2" and n: "c = code a mod 0x20 * 0x40 + code b mod 0x40"
      using bytes two by (auto simp: rest split: if_splits)
    then have "0xc0 + c div 0x40 = code a" "0x80 + c mod 0x40 = code b" "c < 0x800"
      using lead_bytes(1) [of "code a"] two continuation_byte [of "code b"] mod_less_divisor [of 32 "code a"] mod_less_divisor [of 64 "code b"]
      by auto
    then show ?thesis using two c by (simp add: content rest width utf8_encode_def)
  next
    case three
    obtain b d rest' where rest: "rest = b # d # rest'" using width(2) three by (cases rest; cases "tl rest") auto
    have "code b div 0x40 = 2" "code d div 0x40 = 2" and n: "c = (code a mod 0x10 * 0x40 + code b mod 0x40) * 0x40 + code d mod 0x40"
      using bytes three by (auto simp: rest numeral_2_eq_2 split: if_splits)
    define m where "m = code a mod 0x10 * 0x40 + code b mod 0x40"
    have m: "m div 0x40 = code a mod 0x10" "m mod 0x40 = code b mod 0x40" "c div 0x40 = m" "c mod 0x40 = code d mod 0x40"
      unfolding n m_def [symmetric] by (simp_all only: m_def sextet)
    have "m < 0x400" using mod_less_divisor [of 16 "code a"] mod_less_divisor [of 64 "code b"] by (simp add: m_def)
    then have "c < 0x10000" unfolding n m_def [symmetric] using mod_less_divisor [of 64 "code d"] by linarith
    then have "0xe0 + c div 0x1000 = code a" "0x80 + c div 0x40 mod 0x40 = code b" "0x80 + c mod 0x40 = code d" "c < 0x10000"
      using lead_bytes(2) [of "code a"] three continuation_byte [of "code b"] continuation_byte [of "code d"]
        \<open>code b div 0x40 = 2\<close> \<open>code d div 0x40 = 2\<close> by (simp_all add: high_sextets m)
    then show ?thesis using three c by (simp add: content rest width utf8_encode_def numeral_2_eq_2)
  next
    case four
    obtain b d e rest' where rest: "rest = b # d # e # rest'" using width(2) four by (cases rest; cases "tl rest"; cases "tl (tl rest)") auto
    have "code b div 0x40 = 2" "code d div 0x40 = 2" "code e div 0x40 = 2"
      and n: "c = ((code a mod 0x08 * 0x40 + code b mod 0x40) * 0x40 + code d mod 0x40) * 0x40 + code e mod 0x40"
      using bytes four by (auto simp: rest numeral_3_eq_3 split: if_splits)
    define l m where "l = code a mod 0x08 * 0x40 + code b mod 0x40" and "m = l * 0x40 + code d mod 0x40"
    have m: "l div 0x40 = code a mod 0x08" "l mod 0x40 = code b mod 0x40" "m div 0x40 = l" "m mod 0x40 = code d mod 0x40"
      "c div 0x40 = m" "c mod 0x40 = code e mod 0x40"
      unfolding n l_def [symmetric] m_def [symmetric] by (simp_all only: m_def l_def sextet)
    have "0xf0 + c div 0x40000 = code a" "0x80 + c div 0x1000 mod 0x40 = code b" "0x80 + c div 0x40 mod 0x40 = code d"
      "0x80 + c mod 0x40 = code e"
      using lead_bytes(3) [of "code a"] four continuation_byte [of "code b"] continuation_byte [of "code d"] continuation_byte [of "code e"]
        \<open>code b div 0x40 = 2\<close> \<open>code d div 0x40 = 2\<close> \<open>code e div 0x40 = 2\<close> by (simp_all add: high_sextets m)
    then show ?thesis using four c by (simp add: content rest width utf8_encode_def numeral_3_eq_3)
  qed
qed

lemma code_char_of: "n < 256 \<Longrightarrow> code (char_of n) = n"
  by simp

lemma encoded_first_scalar:
  assumes "scalar_value c"
  shows "first_scalar (utf8_encode c @ rest) c (length (utf8_encode c))"
proof -
  have small: "c \<le> 0x10ffff" using assms by (simp add: scalar_value_def)
  consider (one) "c < 0x80" | (two) "0x80 \<le> c" "c < 0x800" | (three) "0x800 \<le> c" "c < 0x10000" | (four) "0x10000 \<le> c" by linarith
  then show ?thesis
  proof cases
    case one
    then show ?thesis using assms by (simp add: first_scalar_def utf8_encode_def utf8_lead_def)
  next
    case two
    define x y where "x = c div 0x40" and "y = c mod 0x40"
    have c: "x * 0x40 + y = c" "y < 0x40" by (simp_all add: x_def y_def)
    have x: "2 \<le> x" "x < 0x20" using two by (auto simp: x_def less_mult_imp_div_less div_le_mono [of "0x80" c "0x40", simplified])
    have "utf8_lead (0xc0 + x) = Some (1, x, 0x80)" using x by (simp add: utf8_lead_def mod_nat_eqI)
    then show ?thesis
      using two assms x c continuation_sextet [of y]
      by (simp add: first_scalar_def utf8_encode_def code_char_of flip: x_def y_def)
  next
    case three
    define x y z where "x = c div 0x40 div 0x40" and "y = c div 0x40 mod 0x40" and "z = c mod 0x40"
    have c: "(x * 0x40 + y) * 0x40 + z = c" "y < 0x40" "z < 0x40" by (simp_all add: x_def y_def z_def)
    have x: "x < 0x10" using three(2) unfolding x_def by (simp add: div_mult2_eq [symmetric] less_mult_imp_div_less)
    have "utf8_lead (0xe0 + x) = Some (2, x, 0x800)" using x by (simp add: utf8_lead_def mod_nat_eqI)
    then show ?thesis
      using three assms x c continuation_sextet [of y] continuation_sextet [of z]
      by (simp add: first_scalar_def utf8_encode_def code_char_of high_sextets numeral_2_eq_2 flip: x_def y_def z_def)
  next
    case four
    define w x y z where "w = c div 0x40 div 0x40 div 0x40" and "x = c div 0x40 div 0x40 mod 0x40" and "y = c div 0x40 mod 0x40" and "z = c mod 0x40"
    have c: "((w * 0x40 + x) * 0x40 + y) * 0x40 + z = c" "x < 0x40" "y < 0x40" "z < 0x40" by (simp_all add: w_def x_def y_def z_def)
    have w: "w \<le> 4" using div_le_mono [OF small, of "0x40000"] unfolding w_def by (simp add: high_sextets(2) [symmetric])
    have "utf8_lead (0xf0 + w) = Some (3, w, 0x10000)" using w by (simp add: utf8_lead_def mod_nat_eqI)
    then show ?thesis
      using four assms w c continuation_sextet [of x] continuation_sextet [of y] continuation_sextet [of z]
      by (simp add: first_scalar_def utf8_encode_def code_char_of high_sextets numeral_3_eq_3 flip: w_def x_def y_def z_def)
  qed
qed

text \<open>The two decoders, one character at a time.\<close>

lemma utf8_encode_nonempty [simp]: "utf8_encode c \<noteq> []"
  by (simp add: utf8_encode_def)

lemma encodes_Nil [simp]: "encodes [] content \<longleftrightarrow> content = []"
  by (simp add: encodes_def)

lemma encodes_Cons: "encodes (c # points) content \<longleftrightarrow> scalar_value c \<and> (\<exists>rest. content = utf8_encode c @ rest \<and> encodes points rest)"
  by (auto simp: encodes_def)

lemma encodes_step:
  assumes "content \<noteq> []"
  shows "(\<exists>c width. first_scalar content c width \<and> P c (drop width content)) \<longleftrightarrow>
    (\<exists>c rest. scalar_value c \<and> content = utf8_encode c @ rest \<and> P c rest)"
proof (intro iffI; elim exE conjE)
  fix c width
  assume first: "first_scalar content c width" and rest: "P c (drop width content)"
  then have "content = utf8_encode c @ drop width content"
    using first_scalar_encoded [OF first assms] by (metis append_take_drop_id)
  moreover have "scalar_value c" using first by (auto simp: first_scalar_def)
  ultimately show "\<exists>c rest. scalar_value c \<and> content = utf8_encode c @ rest \<and> P c rest" using rest by metis
next
  fix c rest
  assume "scalar_value c" "content = utf8_encode c @ rest" "P c rest"
  then show "\<exists>c width. first_scalar content c width \<and> P c (drop width content)"
    using encoded_first_scalar [of c rest] by (intro exI [of _ c] exI [of _ "length (utf8_encode c)"]) simp
qed

lemma validate_characters_step:
  assumes "content \<noteq> []"
  shows "validate_characters content k n = Inr () \<longleftrightarrow>
    (\<exists>c width. first_scalar content c width \<and> k < n \<and> validate_characters (drop width content) (Suc k) n = Inr ())"
  using assms
  by (subst validate_characters.simps) (auto simp: first_scalar_def scalar_value_def drop_Suc not_less split: option.splits)

lemma validate_characters_iff:
  "k \<le> n \<Longrightarrow> validate_characters content k n = Inr () \<longleftrightarrow> (\<exists>points. encodes points content \<and> k + length points \<le> n)"
proof (induction "length content" arbitrary: content k rule: less_induct)
  case less
  show ?case
  proof (cases "content = []")
    case True
    then show ?thesis using less.prems by (auto simp: validate_characters.simps [of "[]"] encodes_def intro: exI [of _ "[]"])
  next
    case False
    have rest: "validate_characters rest (Suc k) n = Inr () \<longleftrightarrow> (\<exists>points. encodes points rest \<and> Suc k + length points \<le> n)"
      if "content = utf8_encode c @ rest" "k < n" for c rest
      using less.hyps [of rest "Suc k"] that by simp
    have "validate_characters content k n = Inr () \<longleftrightarrow>
        (\<exists>c rest. scalar_value c \<and> content = utf8_encode c @ rest \<and> k < n \<and> validate_characters rest (Suc k) n = Inr ())"
      using validate_characters_step [OF False, of k n]
        encodes_step [OF False, where P = "\<lambda>c rest. k < n \<and> validate_characters rest (Suc k) n = Inr ()"] by simp
    also have "\<dots> \<longleftrightarrow> (\<exists>c points. encodes (c # points) content \<and> k + length (c # points) \<le> n)"
      using rest unfolding encodes_Cons by (auto, metis add_Suc_right)
    also have "\<dots> \<longleftrightarrow> (\<exists>points. encodes points content \<and> k + length points \<le> n)"
      using False by (metis encodes_Nil list.exhaust)
    finally show ?thesis .
  qed
qed

lemma continue_agrees: "continue_codepoint cs n = Inr c \<longleftrightarrow> continuation cs n = Inr c"
  by (induction cs arbitrary: n) auto

lemma unicodeLength_step:
  assumes "content \<noteq> []"
  shows "unicodeLength content = Inr k \<longleftrightarrow>
    (\<exists>c width. first_scalar content c width \<and> (\<exists>n. unicodeLength (drop width content) = Inr n \<and> k = Suc n))"
proof -
  have length: "width \<le> length content \<longleftrightarrow> width - 1 \<le> length (tl content)" for width using assms by (cases content) auto
  have four: "(4 :: nat) = Suc (Suc (Suc (Suc 0)))" by simp
  have "(\<exists>c. utf8_width lead \<noteq> 0 \<and> utf8_width lead \<le> length content \<and>
        continue_codepoint (take (utf8_width lead - 1) (tl content)) (lead_bits (utf8_width lead) lead) = Inr c \<and>
        \<not> codepoint_invalid (utf8_width lead) c \<and> Q c (utf8_width lead)) \<longleftrightarrow>
      (\<exists>c width. first_scalar content c width \<and> Q c width)" if "lead = code (hd content)" for lead Q
    unfolding first_scalar_def that [symmetric]
    by (auto simp: utf8_width_def utf8_lead_def lead_bits_def codepoint_invalid_def continue_agrees scalar_value_def length
      numeral_2_eq_2 numeral_3_eq_3 four split: if_splits)
  from this [OF refl, of "\<lambda>c width. \<exists>n. unicodeLength (drop width content) = Inr n \<and> k = Suc n"] show ?thesis
    using assms by (subst unicodeLength.simps) (auto simp: Let_def not_less split: if_splits)
qed

lemma unicodeLength_iff: "unicodeLength content = Inr k \<longleftrightarrow> (\<exists>points. encodes points content \<and> length points = k)"
proof (induction "length content" arbitrary: content k rule: less_induct)
  case less
  show ?case
  proof (cases "content = []")
    case True
    then show ?thesis by (auto simp: unicodeLength.simps [of "[]"] encodes_def)
  next
    case False
    have rest: "unicodeLength rest = Inr n \<longleftrightarrow> (\<exists>points. encodes points rest \<and> length points = n)"
      if "content = utf8_encode c @ rest" for c rest n
      using less.hyps [of rest n] that by simp
    have "unicodeLength content = Inr k \<longleftrightarrow>
        (\<exists>c rest. scalar_value c \<and> content = utf8_encode c @ rest \<and> (\<exists>n. unicodeLength rest = Inr n \<and> k = Suc n))"
      using unicodeLength_step [OF False, of k]
        encodes_step [OF False, where P = "\<lambda>c rest. \<exists>n. unicodeLength rest = Inr n \<and> k = Suc n"] by simp
    also have "\<dots> \<longleftrightarrow> (\<exists>c points. encodes (c # points) content \<and> length (c # points) = k)"
      using rest unfolding encodes_Cons by (auto, metis)
    also have "\<dots> \<longleftrightarrow> (\<exists>points. encodes points content \<and> length points = k)"
      using False by (metis encodes_Nil list.exhaust)
    finally show ?thesis .
  qed
qed

text \<open>
  C19. Declared string lengths count Unicode characters: a string passes its limit exactly when it is the UTF-8 encoding of
  at most that many scalar values, and the length the migration generator computes for a literal is the number of scalar
  values it encodes.
\<close>

theorem string_limits_count_characters:
  "(validateStringLength content (Some n) = Inr () \<longleftrightarrow> (\<exists>points. encodes points content \<and> length points \<le> n)) \<and>
   (unicodeLength content = Inr k \<longleftrightarrow> (\<exists>points. encodes points content \<and> length points = k))"
  by (simp add: validateStringLength_def validate_characters_iff unicodeLength_iff)

end
