(* ===== verification/Orm_Context.thy ===== *)
theory Orm_Context
  imports Orm_Query_Support Orm_Utf8 Orm_Value_Codec Orm_Uuid
begin

text \<open>
  The operations of a typed context (\<^verbatim>\<open>modules/orm/database/context.cppm\<close>) on a session, and the checks and helpers of
  \<^verbatim>\<open>src/Database.cpp\<close> they call: tables, junction tables, inserts, updates, removals and links. A model type is its index in
  the schema. Reading the fields of an object is generated by templates; its result (the primary key of an object, or the
  named values of a serialized object) is an argument.
\<close>

section \<open>Strings and keys\<close>

definition ensureStringValueSupported ::
  "column_view \<Rightarrow> query_value option \<Rightarrow> string \<Rightarrow> ('d, unit) dbact" where
  "ensureStringValueSupported column stored operation =
     (case (cv_maxStringLength column, stored) of
        (Some limit, Some v) \<Rightarrow>
          (case qv_value v of
             VString content \<Rightarrow>
               (case validateStringLength content (Some limit) of
                  Inl (ConversionError _) \<Rightarrow>
                    databaseThrow DbConversion operation ''A string cannot be represented by its declared character limit''
                | result \<Rightarrow> liftR result)
           | _ \<Rightarrow> retA ())
      | _ \<Rightarrow> retA ())"

definition requireEndpointKeyColumns :: "model_data \<Rightarrow> primary_key \<Rightarrow> (exn, column_view list) result" where
  "requireEndpointKeyColumns descriptor key =
     bindR (getPrimaryKeyColumns descriptor) (\<lambda>columns.
     bindR (throwIf (length columns \<noteq> length key) (InvalidArgument ''Incomplete relation endpoint primary key'')) (\<lambda>_.
       Inr columns))"

definition ensureEndpointKeySupported :: "model_data \<Rightarrow> primary_key \<Rightarrow> string \<Rightarrow> ('d, unit) dbact" where
  "ensureEndpointKeySupported descriptor key operation =
     bindA (liftR (requireEndpointKeyColumns descriptor key)) (\<lambda>columns.
       forA (\<lambda>(column, stored). ensureStringValueSupported column (Some stored) operation) (zip columns key))"

definition endpoint_part ::
  "sql_dialect \<Rightarrow> nat \<times> column_view \<times> query_value \<Rightarrow> string list \<times> statement \<Rightarrow> (exn, string list \<times> statement) result" where
  "endpoint_part dialect = (\<lambda>(i, column, stored) (parts, statement).
     bindR (sd_quoteIdentifier dialect (cv_name column)) (\<lambda>quoted.
     bindR (addValueParameter dialect (numbered ''orm_endpoint_'' i) stored statement) (\<lambda>(mark, statement).
       Inr (parts @ [quoted @ '' = '' @ mark], statement))))"

definition endpoint_statement ::
  "sql_dialect \<Rightarrow> model_data \<Rightarrow> column_view list \<Rightarrow> primary_key \<Rightarrow> (exn, statement) result" where
  "endpoint_statement dialect model columns key =
     bindR (foldR (endpoint_part dialect) (enumerate 0 (zip columns key)) ([], empty_statement)) (\<lambda>(parts, statement).
     bindR (sd_quoteIdentifier dialect (md_tableName model)) (\<lambda>table.
       Inr (statement\<lparr>st_sql := ''SELECT COUNT(*) FROM '' @ table @ '' WHERE '' @ join_values parts '' AND '' @ '';''\<rparr>)))"

definition endpoint_handler :: "('d, 'r, 'c, 'v) provider \<Rightarrow> exn \<Rightarrow> ('d, 'a) dbact" where
  "endpoint_handler p e =
     (case e of
        ConversionError _ \<Rightarrow>
          databaseThrow DbConversion ''validate relation endpoint'' ''A relation key cannot be represented by the selected backend''
      | _ \<Rightarrow> driver_handler p DbStatement ''validate relation endpoint'' e)"

definition relationEndpointExists :: "('d, 'r, 'c, 'v) provider \<Rightarrow> model_data \<Rightarrow> primary_key \<Rightarrow> ('d, bool) dbact" where
  "relationEndpointExists p model key =
     thenA (ensureEndpointKeySupported model key ''link relation'') (
     bindA (liftR (requireEndpointKeyColumns model key)) (\<lambda>columns.
     thenA (getBackend (pv_ops p)) (
     bindA (liftR (endpoint_statement (pv_dialect p) model columns key)) (\<lambda>statement.
     thenA (forA (ensure_parameter p ''validate relation endpoint'') (st_parameters statement)) (
     thenA (ensureStatementWithinBindLimit p (length (st_parameters statement)) ''validate relation endpoint'') (
     bindA (catchA
       (thenA (getBackend (pv_ops p)) (
        bindA (liftR (bindStatementParameters p (pv_values p) (st_parameters statement))) (\<lambda>values.
          sessionA (pv_count p (st_sql statement) values))))
       (endpoint_handler p)) (\<lambda>number_found.
       retA (number_found > 0))))))))"

section \<open>Tables\<close>

definition hasOwningJunction :: "model_data \<Rightarrow> bool" where
  "hasOwningJunction owner = list_ex owns_junction (md_relations owner)"

definition owningJunctionRelations :: "model_data \<Rightarrow> relation_view list" where
  "owningJunctionRelations owner = filter owns_junction (md_relations owner)"

definition requireOwningJunctionTarget :: "schema_view \<Rightarrow> relation_view \<Rightarrow> (exn, model_data) result" where
  "requireOwningJunctionTarget schema relation =
     (case resolveTarget_relation schema relation of
        None \<Rightarrow> Inl (InvalidArgument ''ManyToMany relation target is outside the selected schema'')
      | Some target \<Rightarrow> Inr target)"

definition junction_endpoints ::
  "('d, 'r, 'c, 'v) provider \<Rightarrow> schema_view \<Rightarrow> model_data \<Rightarrow> relation_view \<Rightarrow> ('d, unit) dbact" where
  "junction_endpoints p schema owner relation =
     bindA (liftR (requireOwningJunctionTarget schema relation)) (\<lambda>target.
     bindA (liftR (getPrimaryKeyColumns owner)) (\<lambda>ownerPrimaryKey.
     bindA (liftR (getPrimaryKeyColumns target)) (\<lambda>targetPrimaryKey.
     thenA (if length ownerPrimaryKey > 1 \<or> length targetPrimaryKey > 1
            then requireCapability (rk_compositeEndpointKeys (bc_relations (pv_capabilities p))) ''create relation tables''
                   ''composite relation endpoint keys are not supported'' else retA ()) (
     thenA (bindA (getA backendType) (\<lambda>backend.
              liftR (forR (\<lambda>column. require_type backend (pv_capabilities p) column ''create relation tables''
                ''A target primary-key type is not supported by the backend'') targetPrimaryKey))) (
     bindA (tableExists p (md_tableName owner)) (\<lambda>ownerExists.
     bindA (if ownerExists then tableExists p (md_tableName target) else retA False) (\<lambda>bothExist.
       throwIfA (\<not> bothExist)
         (InvalidArgument ''ManyToMany endpoint tables must exist before creating relation tables''))))))))"

definition ensureRelationTableEndpointsExist ::
  "('d, 'r, 'c, 'v) provider \<Rightarrow> schema_view \<Rightarrow> model_data \<Rightarrow> ('d, unit) dbact" where
  "ensureRelationTableEndpointsExist p schema owner =
     (let features = bc_schema (pv_capabilities p); operation = ''create relation tables'' in
     thenA (getBackend (pv_ops p)) (
     thenA (requireCapability (sk_createTableIfNotExists features) operation ''idempotent table creation is not supported'') (
     thenA (requireCapability (sk_compositePrimaryKeys features) operation ''composite primary keys are not supported'') (
     thenA (requireCapability (sk_foreignKeys features) operation ''foreign keys are not supported'') (
     thenA (requireCapability (sk_onDeleteCascade features) operation ''cascading foreign keys are not supported'') (
     thenA (requireCapability (rk_junctionTables (bc_relations (pv_capabilities p))) operation ''junction tables are not supported'') (
     thenA (requireCapability (rk_manyToMany (bc_relations (pv_capabilities p))) operation
              ''many-to-many relations are not supported'')
       (forA (junction_endpoints p schema owner) (owningJunctionRelations owner)))))))))"

definition createTableImpl :: "('d, 'r, 'c, 'v) provider \<Rightarrow> schema_view \<Rightarrow> nat \<Rightarrow> ('d, unit) dbact" where
  "createTableImpl p schema model =
     bindA (liftR (model_handle schema model)) (\<lambda>descriptor.
     thenA (ensureModelSupported p schema model ''create table'') (
     thenA (ensureSchemaSupported p schema descriptor False ''create table'') (
     thenA (requireCapability (sk_createTableIfNotExists (bc_schema (pv_capabilities p))) ''create table''
              ''idempotent table creation is not supported'') (
     thenA (getBackend (pv_ops p)) (
     bindA (liftR (generator_createTable (pv_dialect p) schema (Some descriptor))) (\<lambda>command.
       executeSql p command ''create table''))))))"

definition deleteTableImpl :: "('d, 'r, 'c, 'v) provider \<Rightarrow> schema_view \<Rightarrow> nat \<Rightarrow> ('d, unit) dbact" where
  "deleteTableImpl p schema model =
     bindA (liftR (model_handle schema model)) (\<lambda>descriptor.
     thenA (ensureModelSupported p schema model ''drop table'') (
     thenA (requireCapability (sk_dropTableIfExists (bc_schema (pv_capabilities p))) ''drop table''
              ''idempotent table removal is not supported'') (
     thenA (getBackend (pv_ops p)) (
     bindA (liftR (generator_dropTable (pv_dialect p) descriptor)) (\<lambda>command.
       executeSql p command ''drop table'')))))"

definition createRelationTablesImpl :: "('d, 'r, 'c, 'v) provider \<Rightarrow> schema_view \<Rightarrow> nat \<Rightarrow> ('d, unit) dbact" where
  "createRelationTablesImpl p schema model =
     bindA (liftR (model_handle schema model)) (\<lambda>owner.
       if \<not> hasOwningJunction owner then retA ()
       else
         thenA (ensureModelSupported p schema model ''create relation tables'') (
         thenA (ensureSchemaSupported p schema owner True ''create relation tables'') (
         thenA (ensureRelationTableEndpointsExist p schema owner) (
         thenA (getBackend (pv_ops p)) (
         bindA (liftR (createTableStatements (pv_dialect p) schema (Some owner))) (\<lambda>commands.
           forA (\<lambda>command. executeSql p command ''create relation table'') commands))))))"

definition deleteRelationTablesImpl :: "('d, 'r, 'c, 'v) provider \<Rightarrow> schema_view \<Rightarrow> nat \<Rightarrow> ('d, unit) dbact" where
  "deleteRelationTablesImpl p schema model =
     bindA (liftR (model_handle schema model)) (\<lambda>owner.
       if \<not> hasOwningJunction owner then retA ()
       else
         thenA (ensureModelSupported p schema model ''drop relation tables'') (
         thenA (requireCapability (rk_junctionTables (bc_relations (pv_capabilities p))) ''drop relation tables''
                  ''junction tables are not supported'') (
         thenA (requireCapability (sk_dropTableIfExists (bc_schema (pv_capabilities p))) ''drop relation tables''
                  ''idempotent table removal is not supported'') (
         thenA (getBackend (pv_ops p)) (
         bindA (liftR (dropTableStatements (pv_dialect p) owner)) (\<lambda>commands.
           forA (\<lambda>command. executeSql p command ''drop relation table'') commands))))))"

section \<open>Inserts\<close>

text \<open>
  The named values of a serialized object. Reading one with another C++ type than it was stored with throws
  \<^verbatim>\<open>std::bad_cast\<close>; an unknown name is an error of SOCI.
\<close>

datatype soci_value = SociNull | SociInt int | SociUnsigned nat | SociLong int | SociDouble "64 word" | SociString string

type_synonym serialized = "(string \<times> soci_value) list"

definition make_value :: "string \<Rightarrow> column_type \<Rightarrow> query_storage \<Rightarrow> (exn, bound_value) result" where
  "make_value name type stored =
     bindR (throwIf (\<not> isCompatibleStorage type stored)
              (ConversionError (''Serialized model value does not match its logical column type: '' @ name)))
       (\<lambda>_. Inr \<lparr>bv_logicalType = type, bv_value = Some stored\<rparr>)"

text \<open>Any exception but a conversion error becomes one.\<close>

fun converted :: "(exn, 'a) result \<Rightarrow> (exn, 'a) result" where
  "converted (Inl (ConversionError message)) = Inl (ConversionError message)"
| "converted (Inl e) = Inl (ConversionError ''Serialized model value has an incompatible representation'')"
| "converted (Inr x) = Inr x"

definition read_text :: "soci_value \<Rightarrow> (string \<Rightarrow> (exn, 'a) result) \<Rightarrow> (exn, 'a) result" where
  "read_text stored parse = (case stored of SociString content \<Rightarrow> parse content | _ \<Rightarrow> Inl BadCast)"

definition read_value :: "column_type \<Rightarrow> soci_value \<Rightarrow> (exn, query_storage) result" where
  "read_value type stored =
     (if type \<in> {BoolT, CharT, UnsignedCharT, ShortT, UnsignedShortT, IntT}
      then case stored of SociInt n \<Rightarrow> Inr (VInt n) | _ \<Rightarrow> Inl BadCast
      else if type \<in> {UnsignedIntT, UnsignedLongLongT}
      then case stored of SociUnsigned n \<Rightarrow> Inr (VUnsignedLongLong n) | _ \<Rightarrow> Inl BadCast
      else if type = LongLongT then case stored of SociLong n \<Rightarrow> Inr (VLongLong n) | _ \<Rightarrow> Inl BadCast
      else if type \<in> {FloatT, DoubleT} then case stored of SociDouble w \<Rightarrow> Inr (VDouble w) | _ \<Rightarrow> Inl BadCast
      else if type = StringT then read_text stored (\<lambda>content. Inr (VString content))
      else if type = DateT then read_text stored (\<lambda>content. bindR (parseDate content) (\<lambda>d. Inr (VDate d)))
      else if type = TimeOfDayT then read_text stored (\<lambda>content. bindR (parseTimeOfDay content) (\<lambda>t. Inr (VTimeOfDay t)))
      else if type = LocalDateTimeT
      then read_text stored (\<lambda>content. bindR (parseLocalDateTime content) (\<lambda>t. Inr (VLocalDateTime t)))
      else if type = UtcTimestampT
      then read_text stored (\<lambda>content. bindR (parseUtcTimestamp content) (\<lambda>t. Inr (VUtcTimestamp t)))
      else read_text stored (\<lambda>content. bindR (Uuid_parse content) (\<lambda>u. Inr (VUuid u))))"

definition serializedBoundValue :: "serialized \<Rightarrow> string \<Rightarrow> column_type \<Rightarrow> (exn, bound_value) result" where
  "serializedBoundValue values name type =
     (case map_of values name of
        None \<Rightarrow> Inl (SociError None)
      | Some SociNull \<Rightarrow> Inr \<lparr>bv_logicalType = type, bv_value = None\<rparr>
      | Some stored \<Rightarrow> converted (bindR (read_value type stored) (make_value name type)))"

definition bind_model_value ::
  "('d, 'r, 'c, 'v) provider \<Rightarrow> runtime_limits \<Rightarrow> serialized \<Rightarrow> string \<times> column_view \<Rightarrow> 'v \<times> nat \<Rightarrow> (exn, 'v \<times> nat) result" where
  "bind_model_value p limits serialized = (\<lambda>(name, column) (target, parameterCount).
     bindR (optional_type column) (\<lambda>type.
     bindR (serializedBoundValue serialized name type) (\<lambda>bound.
     bindR (throwIf (\<not> isWithinValueLimits type (bv_value bound) (bc_valueLimits (pv_capabilities p)) limits)
              (ConversionError ''A model value exceeds the backend value limits'')) (\<lambda>_.
     bindR (pv_bind p target name bound) (\<lambda>target.
       Inr (target, Suc parameterCount))))))"

definition bind_model_column ::
  "('d, 'r, 'c, 'v) provider \<Rightarrow> runtime_limits \<Rightarrow> schema_view \<Rightarrow> serialized \<Rightarrow> column_view \<Rightarrow> 'v \<times> nat \<Rightarrow> (exn, 'v \<times> nat) result" where
  "bind_model_column p limits schema serialized column progress =
     (if cv_isAutoIncrement column then Inr progress
      else if cv_kind column = ToOneField
      then bindR (requireToOneTarget schema column) (\<lambda>related.
        foldR (bind_model_value p limits serialized)
          (map (\<lambda>key. (cv_name column @ ''_'' @ cv_name key, key)) (filter cv_isPrimaryKey (md_columns related))) progress)
      else bind_model_value p limits serialized (cv_name column, column) progress)"

definition bindModelParameters ::
  "('d, 'r, 'c, 'v) provider \<Rightarrow> runtime_limits \<Rightarrow> schema_view \<Rightarrow> serialized \<Rightarrow> model_data \<Rightarrow> (exn, 'v \<times> nat) result" where
  "bindModelParameters p limits schema serialized descriptor =
     foldR (bind_model_column p limits schema serialized) (md_columns descriptor) (pv_values p, 0)"

definition insert_handler :: "('d, 'r, 'c, 'v) provider \<Rightarrow> exn \<Rightarrow> ('d, 'a) dbact" where
  "insert_handler p e =
     (case e of
        ConversionError _ \<Rightarrow>
          databaseThrow DbConversion ''insert'' ''A model value cannot be represented by the selected backend''
      | _ \<Rightarrow> driver_handler p DbStatement ''insert'' e)"

definition insertImpl ::
  "('d, 'r, 'c, 'v) provider \<Rightarrow> schema_view \<Rightarrow> nat \<Rightarrow> (exn, serialized) result \<Rightarrow> ('d, unit) dbact" where
  "insertImpl p schema model object =
     bindA (liftR (model_handle schema model)) (\<lambda>descriptor.
     thenA (ensureModelSupported p schema model ''insert'') (
     thenA (requireCapability (mk_insert (bc_mutations (pv_capabilities p))) ''insert'' ''insert is not supported'') (
     thenA (getBackend (pv_ops p)) (
     bindA (liftR (generator_insert (pv_dialect p) schema descriptor)) (\<lambda>command.
       catchA
         (bindA (liftR object) (\<lambda>serialized.
          bindA (getBackendRuntimeLimits p) (\<lambda>limits.
          bindA (liftR (bindModelParameters p limits schema serialized descriptor)) (\<lambda>(values, parameterCount).
          thenA (ensureStatementWithinBindLimit p parameterCount ''insert'') (
            if parameterCount = 0 then sessionA (pv_run p command)
            else bindA (sessionA (pv_execute p command (Some values))) (\<lambda>_. retA ()))))))
         (insert_handler p))))))"

section \<open>Updates and removals\<close>

definition assignment_supported ::
  "schema_view \<Rightarrow> model_data \<Rightarrow> string \<times> query_value option \<Rightarrow> ('d, unit) dbact" where
  "assignment_supported schema descriptor = (\<lambda>(path, stored).
     bindA (liftR (parseSqlSource path)) (\<lambda>source.
     bindA (liftS (resolveSqlColumn schema source descriptor True)) (\<lambda>info.
       ensureStringValueSupported (ci_column info) stored ''update'')))"

definition updateImpl ::
  "('d, 'r, 'c, 'v) provider \<Rightarrow> schema_view \<Rightarrow> nat \<Rightarrow> query_value update_spec \<Rightarrow> ('d, nat) dbact" where
  "updateImpl p schema model spec =
     bindA (liftR (model_handle schema model)) (\<lambda>descriptor.
     thenA (ensureModelSupported p schema model ''update'') (
     thenA (requireCapability (mk_update (bc_mutations (pv_capabilities p))) ''update'' ''update is not supported'') (
     thenA (case upd_predicate spec of
              None \<Rightarrow> retA () | Some predicate \<Rightarrow> ensurePredicateSupported p schema model predicate ''update'') (
     thenA (forA (assignment_supported schema descriptor) (upd_assignments spec)) (
     thenA (getBackend (pv_ops p)) (
     bindA (liftS (renderUpdateStatement schema descriptor spec (pv_dialect p))) (\<lambda>statement.
       executeMutation p statement ''update'')))))))"

definition removeImpl ::
  "('d, 'r, 'c, 'v) provider \<Rightarrow> schema_view \<Rightarrow> nat \<Rightarrow> query_value predicate \<Rightarrow> ('d, nat) dbact" where
  "removeImpl p schema model predicate =
     bindA (liftR (model_handle schema model)) (\<lambda>descriptor.
     thenA (ensureModelSupported p schema model ''remove'') (
     thenA (requireCapability (mk_remove (bc_mutations (pv_capabilities p))) ''remove'' ''remove is not supported'') (
     thenA (ensurePredicateSupported p schema model predicate ''remove'') (
     thenA (getBackend (pv_ops p)) (
     bindA (liftS (renderRemoveStatement schema descriptor predicate (pv_dialect p))) (\<lambda>statement.
       executeMutation p statement ''remove''))))))"

section \<open>Links\<close>

text \<open>The type identifier of a model type is unique in a schema, so it is compared as the index of the model.\<close>

definition requireCollectionTarget :: "schema_view \<Rightarrow> relation_view \<Rightarrow> nat \<Rightarrow> (exn, model_data) result" where
  "requireCollectionTarget schema relation expected =
     (case resolveTarget_relation schema relation of
        None \<Rightarrow> Inl (InvalidArgument (''Collection wrapper target does not match relation metadata: '' @ rv_fieldName relation))
      | Some target \<Rightarrow>
          if rv_targetModelIndex relation \<noteq> Some expected
          then Inl (InvalidArgument (''Collection wrapper target does not match relation metadata: '' @ rv_fieldName relation))
          else Inr target)"

definition link_capabilities :: "('d, 'r, 'c, 'v) provider \<Rightarrow> relation_view \<Rightarrow> ('d, unit) dbact" where
  "link_capabilities p relation =
     (let relations = bc_relations (pv_capabilities p); mutations = bc_mutations (pv_capabilities p) in
     thenA (if rv_kind relation = OneToMany
            then requireCapability (rk_oneToMany relations) ''link relation'' ''one-to-many relations are not supported''
            else thenA (requireCapability (rk_manyToMany relations) ''link relation'' ''many-to-many relations are not supported'')
                   (requireCapability (mk_atomicInsertIfAbsent mutations) ''link relation''
                     ''idempotent relation links are not supported''))
       (requireCapability (if rv_kind relation = OneToMany then mk_update mutations else mk_insert mutations) ''link relation''
          ''relation mutations are not supported''))"

definition send_link ::
  "('d, 'r, 'c, 'v) provider \<Rightarrow> schema_view \<Rightarrow> model_data \<Rightarrow> relation_view \<Rightarrow> primary_key \<Rightarrow> primary_key \<Rightarrow> ('d, nat) dbact" where
  "send_link p schema owner relation ownerKey targetKey =
     thenA (getBackend (pv_ops p)) (
     bindA (liftR (linkStatement (pv_dialect p) schema owner relation ownerKey targetKey)) (\<lambda>statement.
       if rv_kind relation = ManyToMany
       then bindA (liftR (linkInsertSpec schema owner relation ownerKey targetKey)) (\<lambda>conflict.
              executeInsertIfAbsent p statement conflict ''link relation'')
       else executeMutation p statement ''link relation''))"

definition linkImpl ::
  "('d, 'r, 'c, 'v) provider \<Rightarrow> schema_view \<Rightarrow> nat \<Rightarrow> string \<Rightarrow> nat \<Rightarrow> (exn, primary_key) result \<Rightarrow> (exn, primary_key) result
     \<Rightarrow> ('d, nat) dbact" where
  "linkImpl p schema owner relationField target ownerKey targetKey =
     bindA (liftR (model_handle schema owner)) (\<lambda>ownerDescriptor.
     bindA (liftR (requireCollectionRelation ownerDescriptor relationField)) (\<lambda>relation.
     bindA (liftR (requireCollectionTarget schema relation target)) (\<lambda>targetDescriptor.
     thenA (ensureModelSupported p schema owner ''link relation'') (
     thenA (ensureModelSupported p schema target ''link relation'') (
     bindA (liftR ownerKey) (\<lambda>ownerKey.
     bindA (liftR targetKey) (\<lambda>targetKey.
     thenA (link_capabilities p relation) (
     bindA (relationEndpointExists p ownerDescriptor ownerKey) (\<lambda>ownerExists.
     bindA (if ownerExists then relationEndpointExists p targetDescriptor targetKey else retA False) (\<lambda>bothExist.
     thenA (throwIfA (\<not> bothExist) (InvalidArgument ''Cannot link relation endpoints that do not exist''))
       (send_link p schema ownerDescriptor relation ownerKey targetKey)))))))))))"

definition unlinkImpl ::
  "('d, 'r, 'c, 'v) provider \<Rightarrow> schema_view \<Rightarrow> nat \<Rightarrow> string \<Rightarrow> nat \<Rightarrow> (exn, primary_key) result \<Rightarrow> (exn, primary_key) result
     \<Rightarrow> ('d, nat) dbact" where
  "unlinkImpl p schema owner relationField target ownerKey targetKey =
     (let relations = bc_relations (pv_capabilities p); mutations = bc_mutations (pv_capabilities p) in
     bindA (liftR (model_handle schema owner)) (\<lambda>ownerDescriptor.
     bindA (liftR (requireCollectionRelation ownerDescriptor relationField)) (\<lambda>relation.
     bindA (liftR (requireCollectionTarget schema relation target)) (\<lambda>targetDescriptor.
     thenA (ensureModelSupported p schema owner ''unlink relation'') (
     thenA (ensureModelSupported p schema target ''unlink relation'') (
     thenA (requireCapability (if rv_kind relation = OneToMany then rk_oneToMany relations else rk_manyToMany relations)
              ''unlink relation'' ''the requested collection relation is not supported'') (
     thenA (requireCapability (if rv_kind relation = OneToMany then mk_update mutations else mk_remove mutations)
              ''unlink relation'' ''relation mutations are not supported'') (
     bindA (liftR ownerKey) (\<lambda>ownerKey.
     bindA (liftR targetKey) (\<lambda>targetKey.
     thenA (ensureEndpointKeySupported ownerDescriptor ownerKey ''unlink relation'') (
     thenA (ensureEndpointKeySupported targetDescriptor targetKey ''unlink relation'') (
     thenA (getBackend (pv_ops p)) (
     bindA (liftS (unlinkStatement (pv_dialect p) schema ownerDescriptor relation ownerKey targetKey)) (\<lambda>statement.
       executeMutation p statement ''unlink relation''))))))))))))))"

end
