(* ===== verification/Orm_Support_Safety.thy ===== *)
theory Orm_Support_Safety
  imports Orm_Support
begin

text \<open>
  The recursive identifier check visits exactly the models reachable from its start, and the index budget bounds the exact
  sum of the key parts.
\<close>

section \<open>Reachable models\<close>

definition leads_to :: "schema_view \<Rightarrow> nat \<Rightarrow> nat \<Rightarrow> bool" where
  "leads_to schema m n \<longleftrightarrow>
     (\<exists>descriptor member. schema_at schema m = Some descriptor \<and> member \<in> set (members descriptor) \<and> next_model member = Some n)"

definition identifiers_ok :: "sql_dialect \<Rightarrow> schema_view \<Rightarrow> nat \<Rightarrow> bool" where
  "identifiers_ok dialect schema m \<longleftrightarrow>
     (\<exists>descriptor. schema_at schema m = Some descriptor \<and> quotable dialect [md_tableName descriptor] = Inr ()
        \<and> (\<forall>member \<in> set (members descriptor). check_member dialect schema descriptor member = Inr ()))"

text \<open>One iteration over the members of a model, with the recursive call as a parameter.\<close>

definition visit_member ::
  "(nat \<Rightarrow> nat list \<Rightarrow> (stop, nat list) result) \<Rightarrow> sql_dialect \<Rightarrow> schema_view \<Rightarrow> model_data \<Rightarrow> member \<Rightarrow> nat list
     \<Rightarrow> (stop, nat list) result" where
  "visit_member recurse dialect schema descriptor member seen =
     bindR (raised (check_member dialect schema descriptor member)) (\<lambda>_.
       case next_model member of None \<Rightarrow> Inr seen | Some target \<Rightarrow> recurse target seen)"

lemma visit_models_step:
  "visit_models (Suc fuel) dialect schema model visited =
     (if model \<in> set visited then Inr visited
      else case schema_at schema model of
        None \<Rightarrow> Inl OutOfBounds
      | Some descriptor \<Rightarrow>
          bindR (raised (quotable dialect [md_tableName descriptor])) (\<lambda>_.
          foldR (visit_member (visit_models fuel dialect schema) dialect schema descriptor) (members descriptor)
            (model # visited)))"
  by (simp add: visit_member_def [abs_def] split: option.splits)

text \<open>What a finished search adds: models that are all right and whose successors have been visited too.\<close>

definition explored :: "sql_dialect \<Rightarrow> schema_view \<Rightarrow> nat list \<Rightarrow> nat list \<Rightarrow> bool" where
  "explored dialect schema before after \<longleftrightarrow>
     set before \<subseteq> set after \<and>
     (\<forall>n \<in> set after - set before. identifiers_ok dialect schema n \<and> (\<forall>k. leads_to schema n k \<longrightarrow> k \<in> set after))"

lemma explored_refl: "explored dialect schema seen seen"
  by (simp add: explored_def)

lemma explored_trans:
  "explored dialect schema s t \<Longrightarrow> explored dialect schema t u \<Longrightarrow> explored dialect schema s u"
  unfolding explored_def by blast

lemma visit_members_explored:
  assumes "foldR (visit_member recurse dialect schema descriptor) parts seen = Inr after"
    and "\<And>m s t. recurse m s = Inr t \<Longrightarrow> m \<in> set t \<and> explored dialect schema s t"
  shows "explored dialect schema seen after \<and> (\<forall>member \<in> set parts.
    check_member dialect schema descriptor member = Inr () \<and> (\<forall>k. next_model member = Some k \<longrightarrow> k \<in> set after))"
  using assms(1)
proof (induction parts arbitrary: seen)
  case Nil
  then show ?case by (simp add: explored_refl)
next
  case (Cons member parts)
  then obtain s where step: "visit_member recurse dialect schema descriptor member seen = Inr s"
    and rest: "foldR (visit_member recurse dialect schema descriptor) parts s = Inr after" by auto
  have checked: "check_member dialect schema descriptor member = Inr ()"
    using step by (cases "check_member dialect schema descriptor member") (auto simp: visit_member_def)
  have one: "explored dialect schema seen s" "\<forall>k. next_model member = Some k \<longrightarrow> k \<in> set s"
    using step assms(2) by (auto simp: visit_member_def checked explored_refl split: option.splits)
  note later = Cons.IH [OF rest]
  then have "set s \<subseteq> set after" by (simp add: explored_def)
  then show ?case using one later checked by (auto intro: explored_trans)
qed

lemma visit_models_explored:
  "visit_models fuel dialect schema m seen = Inr after \<Longrightarrow> m \<in> set after \<and> explored dialect schema seen after"
proof (induction fuel arbitrary: m seen after)
  case (Suc fuel)
  show ?case
  proof (cases "m \<in> set seen")
    case True
    then show ?thesis using Suc.prems by (simp add: explored_refl)
  next
    case False
    then obtain descriptor where at: "schema_at schema m = Some descriptor"
      and table: "quotable dialect [md_tableName descriptor] = Inr ()"
      and parts: "foldR (visit_member (visit_models fuel dialect schema) dialect schema descriptor) (members descriptor)
                    (m # seen) = Inr after"
      using Suc.prems unfolding visit_models_step
      by (cases "schema_at schema m"; cases "quotable dialect [md_tableName (the (schema_at schema m))]") auto
    note inner = visit_members_explored [OF parts Suc.IH]
    then have "identifiers_ok dialect schema m" and "\<forall>k. leads_to schema m k \<longrightarrow> k \<in> set after"
      using at table by (auto simp: identifiers_ok_def leads_to_def)
    with inner show ?thesis by (auto simp: explored_def)
  qed
qed simp

lemma visit_members_fails:
  assumes "foldR (visit_member recurse dialect schema descriptor) parts seen = Inl e"
    and "\<And>m s e. recurse m s = Inl e \<Longrightarrow> bad m e"
  shows "\<exists>member \<in> set parts. check_member dialect schema descriptor member \<noteq> Inr ()
    \<or> (\<exists>k. next_model member = Some k \<and> bad k e)"
  using assms(1)
proof (induction parts arbitrary: seen)
  case (Cons member parts)
  show ?case
  proof (cases "visit_member recurse dialect schema descriptor member seen")
    case (Inl a)
    then have "check_member dialect schema descriptor member \<noteq> Inr () \<or> (\<exists>k. next_model member = Some k \<and> bad k e)"
      using Cons.prems assms(2) by (auto simp: visit_member_def bindR_Inl_iff split: option.splits)
    then show ?thesis by auto
  next
    case (Inr s)
    then show ?thesis using Cons by auto
  qed
qed simp

lemma visit_models_fails:
  "visit_models fuel dialect schema m seen = Inl e \<Longrightarrow>
     e = Endless \<or> (\<exists>n. (leads_to schema)\<^sup>*\<^sup>* m n \<and> \<not> identifiers_ok dialect schema n)"
proof (induction fuel arbitrary: m seen e)
  case (Suc fuel)
  show ?case
  proof (cases "identifiers_ok dialect schema m")
    case True
    then obtain descriptor where at: "schema_at schema m = Some descriptor"
      and table: "quotable dialect [md_tableName descriptor] = Inr ()"
      and fine: "\<forall>member \<in> set (members descriptor). check_member dialect schema descriptor member = Inr ()"
      by (auto simp: identifiers_ok_def)
    then have parts: "foldR (visit_member (visit_models fuel dialect schema) dialect schema descriptor) (members descriptor)
        (m # seen) = Inl e"
      using Suc.prems by (simp add: visit_models_step split: if_splits del: visit_models.simps)
    obtain member k where part: "member \<in> set (members descriptor)" "next_model member = Some k"
      and below: "e = Endless \<or> (\<exists>n. (leads_to schema)\<^sup>*\<^sup>* k n \<and> \<not> identifiers_ok dialect schema n)"
      using visit_members_fails [OF parts, where bad = "\<lambda>k e. e = Endless \<or>
        (\<exists>n. (leads_to schema)\<^sup>*\<^sup>* k n \<and> \<not> identifiers_ok dialect schema n)"] Suc.IH fine by metis
    then have "leads_to schema m k" using at by (auto simp: leads_to_def)
    note this below
    then show ?thesis by (meson converse_rtranclp_into_rtranclp)
  qed blast
qed simp

text \<open>Fuel: every nested call has one model of the schema fewer to visit.\<close>

abbreviation unvisited :: "schema_view \<Rightarrow> nat list \<Rightarrow> nat" where
  "unvisited schema seen \<equiv> card ({..<length schema} - set seen)"

lemma unvisited_less:
  assumes "schema_at schema m = Some descriptor" "m \<notin> set seen" "set (m # seen) \<subseteq> set s"
  shows "unvisited schema s < unvisited schema seen"
proof (rule psubset_card_mono)
  have "m < length schema" using assms(1) by (auto simp: schema_at_def split: if_splits)
  then show "{..<length schema} - set s \<subset> {..<length schema} - set seen" using assms by auto
qed simp

lemma visit_members_ends:
  assumes "\<And>m s. set start \<subseteq> set s \<Longrightarrow> recurse m s \<noteq> Inl Endless"
    and "\<And>m s t. recurse m s = Inr t \<Longrightarrow> set s \<subseteq> set t" and "set start \<subseteq> set seen"
  shows "foldR (visit_member recurse dialect schema descriptor) parts seen \<noteq> Inl Endless"
  using assms(3)
proof (induction parts arbitrary: seen)
  case (Cons member parts)
  show ?case
  proof (cases "visit_member recurse dialect schema descriptor member seen")
    case (Inl a)
    then have "a \<noteq> Endless" using assms(1) [OF Cons.prems]
      by (cases "check_member dialect schema descriptor member") (auto simp: visit_member_def split: option.splits)
    then show ?thesis using Inl by simp
  next
    case (Inr s)
    then have "set seen \<subseteq> set s" using assms(2) by (auto simp: visit_member_def split: option.splits)
    then show ?thesis using Cons Inr by simp
  qed
qed simp

lemma visit_models_ends: "unvisited schema seen < fuel \<Longrightarrow> visit_models fuel dialect schema m seen \<noteq> Inl Endless"
proof (induction fuel arbitrary: m seen)
  case (Suc fuel)
  have grows: "set s \<subseteq> set t" if "visit_models fuel dialect schema k s = Inr t" for k s t
    using visit_models_explored [OF that] by (simp add: explored_def)
  have "foldR (visit_member (visit_models fuel dialect schema) dialect schema descriptor) (members descriptor) (m # seen)
      \<noteq> Inl Endless" if "schema_at schema m = Some descriptor" "m \<notin> set seen" for descriptor
  proof (rule visit_members_ends [where start = "m # seen"])
    fix k s
    assume "set (m # seen) \<subseteq> set s"
    then have "unvisited schema s < unvisited schema seen" by (rule unvisited_less [OF that])
    then show "visit_models fuel dialect schema k s \<noteq> Inl Endless" using Suc by simp
  qed (use grows in auto)
  then show ?case
    by (cases "quotable dialect [md_tableName (the (schema_at schema m))]")
      (auto simp: visit_models_step simp del: visit_models.simps split: option.splits)
qed simp

lemma reachable_visited:
  assumes "explored dialect schema [] after" "m \<in> set after" "(leads_to schema)\<^sup>*\<^sup>* m n"
  shows "n \<in> set after"
  using assms(3,1,2) by (induction rule: rtranclp_induct) (auto simp: explored_def)

text \<open>
  C17. The identifier check accepts a model exactly when every model that can be reached from it along to-one columns and
  relations has a table name, columns, aliases and junctions whose names the dialect can quote and bind, each with its
  target in the schema. Schemas with cycles are included: the check always ends.
\<close>

theorem identifier_check_complete:
  "validateModelIdentifiers dialect schema m \<noteq> Inl Endless \<and>
   (validateModelIdentifiers dialect schema m = Inr () \<longleftrightarrow>
     {n. (leads_to schema)\<^sup>*\<^sup>* m n} \<subseteq> {n. identifiers_ok dialect schema n})"
proof (cases "visit_models (Suc (length schema)) dialect schema m []")
  case (Inl e)
  then have "e \<noteq> Endless" using visit_models_ends [of schema "[]" "Suc (length schema)" dialect m] by auto
  moreover have "\<exists>n. (leads_to schema)\<^sup>*\<^sup>* m n \<and> \<not> identifiers_ok dialect schema n"
    using visit_models_fails [OF Inl] calculation by auto
  ultimately show ?thesis using Inl by (auto simp: validateModelIdentifiers_def simp del: visit_models.simps)
next
  case (Inr after)
  note search = visit_models_explored [OF Inr]
  have "identifiers_ok dialect schema n" if "(leads_to schema)\<^sup>*\<^sup>* m n" for n
    using reachable_visited [of dialect schema after m n] search that by (simp add: explored_def)
  then show ?thesis using Inr by (auto simp: validateModelIdentifiers_def simp del: visit_models.simps)
qed

section \<open>Index budgets\<close>

text \<open>The bytes of a key column without the machine's bounds, and when they are known.\<close>

definition part_bytes :: "column_view \<Rightarrow> nat" where
  "part_bytes column =
     (case cv_type column of
        None \<Rightarrow> 0
      | Some StringT \<Rightarrow> (case cv_maxStringLength column of Some n \<Rightarrow> 4 * n | None \<Rightarrow> 0)
      | Some type \<Rightarrow>
          if type \<in> {BoolT, UnsignedCharT} then 1 else if type \<in> {CharT, ShortT, UnsignedShortT} then 2
          else if type = DateT then 3 else if type \<in> {IntT, UnsignedIntT} then 4 else if type = TimeOfDayT then 6
          else if type = UtcTimestampT then 7 else if type = UuidT then 16 else 8)"

definition part_known :: "column_view \<Rightarrow> bool" where
  "part_known column \<longleftrightarrow>
     cv_type column \<noteq> None \<and> (cv_type column = Some StringT \<longrightarrow> cv_maxStringLength column \<noteq> None)"

definition key_known :: "model_data \<Rightarrow> bool" where
  "key_known endpoint \<longleftrightarrow>
     (\<forall>i \<in> set (md_primaryKeyIndices endpoint). i < length (md_columns endpoint) \<and> part_known (md_columns endpoint ! i))"

definition key_bytes :: "model_data \<Rightarrow> nat" where
  "key_bytes endpoint = (\<Sum>i \<leftarrow> md_primaryKeyIndices endpoint. part_bytes (md_columns endpoint ! i))"

lemma key_part_iff:
  "key_part backend operation column = Inr n \<longleftrightarrow> part_known column \<and> n = part_bytes column \<and> n \<le> size_max"
  by (auto simp: key_part_def optional_type_def part_known_def part_bytes_def size_max_def split: option.splits column_type.splits)

lemma add_part_iff:
  assumes "bytes \<le> size_max"
  shows "add_part backend operation endpoint i bytes = Inr n \<longleftrightarrow>
    i < length (md_columns endpoint) \<and> part_known (md_columns endpoint ! i) \<and>
    n = bytes + part_bytes (md_columns endpoint ! i) \<and> n \<le> size_max"
  using assms by (auto simp: add_part_def column_at_index_def key_part_iff split: if_splits)

lemma keySize_from:
  assumes "bytes \<le> size_max"
  shows "foldR (add_part backend operation endpoint) indices bytes = Inr n \<longleftrightarrow>
    (\<forall>i \<in> set indices. i < length (md_columns endpoint) \<and> part_known (md_columns endpoint ! i)) \<and>
    n = bytes + (\<Sum>i \<leftarrow> indices. part_bytes (md_columns endpoint ! i)) \<and> n \<le> size_max"
  using assms by (induction indices arbitrary: bytes) (auto simp: add_part_iff)

lemma keySize_iff:
  "keySize backend operation endpoint = Inr n \<longleftrightarrow> key_known endpoint \<and> n = key_bytes endpoint \<and> n \<le> size_max"
  by (simp add: keySize_def keySize_from key_known_def key_bytes_def)

definition key_within :: "nat \<Rightarrow> model_data \<Rightarrow> bool" where
  "key_within budget endpoint \<longleftrightarrow> key_known endpoint \<and> key_bytes endpoint \<le> budget"

lemma target_key_iff:
  "target_key backend operation target = Inr n \<longleftrightarrow>
     (\<exists>endpoint. target = Some endpoint \<and> key_known endpoint \<and> n = key_bytes endpoint \<and> n \<le> size_max)"
  by (auto simp: target_key_def keySize_iff split: option.splits)

lemma checkBudget_iff:
  "rl_maxIndexBytes limits = Some budget \<Longrightarrow> checkBudget backend operation limits bytes = Inr u \<longleftrightarrow> bytes \<le> budget"
  by (auto simp: checkBudget_def)

lemma junction_budget_iff:
  assumes "rl_maxIndexBytes limits = Some budget" "budget \<le> size_max" "ownerBytes \<le> budget"
  shows "junction_budget backend operation limits schema ownerBytes relation = Inr u \<longleftrightarrow>
    (rv_kind relation = ManyToMany \<and> jv_owningSide (rv_junction relation) \<longrightarrow>
      (\<exists>target. resolveTarget_relation schema relation = Some target \<and> key_known target \<and>
         ownerBytes + key_bytes target \<le> budget))"
proof (cases "rv_kind relation = ManyToMany \<and> jv_owningSide (rv_junction relation)")
  case True
  have "(\<exists>n. target_key backend operation (resolveTarget_relation schema relation) = Inr n \<and> n \<le> size_max - ownerBytes \<and>
          ownerBytes + n \<le> budget) \<longleftrightarrow>
        (\<exists>target. resolveTarget_relation schema relation = Some target \<and> key_known target \<and>
          ownerBytes + key_bytes target \<le> budget)"
    using assms by (auto simp: target_key_iff)
  then show ?thesis using True by (auto simp: junction_budget_def checkBudget_iff [OF assms(1)] not_less split: if_splits)
qed (auto simp: junction_budget_def)


text \<open>A table with a string key of a given length under the limit of MySQL.\<close>

definition keyed_model :: "nat \<Rightarrow> model_data" where
  "keyed_model n =
     \<lparr>md_schemaIndex = 0, md_typeName = ''models::Country'', md_tableName = ''countries'',
      md_columns = [\<lparr>cv_fieldIndex = 0, cv_fieldName = ''code'', cv_name = ''code'', cv_type = Some StringT,
        cv_kind = ScalarField, cv_targetModelIndex = None, cv_isPrimaryKey = True, cv_isAutoIncrement = False,
        cv_isNotNull = True, cv_maxStringLength = Some n\<rparr>],
      md_primaryKeyIndices = [0], md_relations = []\<rparr>"

definition mysql_index_limits :: runtime_limits where
  "mysql_index_limits = \<lparr>rl_maxBindParameters = Some 65535, rl_maxIndexBytes = Some 3072,
     rl_minUtcTimestamp = None, rl_maxUtcTimestamp = None\<rparr>"

lemma keyed_model_within: "key_within budget (keyed_model n) \<longleftrightarrow> 4 * n \<le> budget"
  by (simp add: key_within_def key_known_def key_bytes_def keyed_model_def part_known_def part_bytes_def)


end
