(* ===== verification/Orm_Backends.thy ===== *)
theory Orm_Backends
  imports Orm_Session
begin

text \<open>
  The built-in backends of \<^verbatim>\<open>src/database\<close>: the capabilities they advertise, the value each binds for a logical value,
  the limits and row counts they report, and how they read driver errors. The checks of \<^verbatim>\<open>Database\<close> use the capabilities;
  the binding uses the native ranges of \<^verbatim>\<open>ValueCodec.cpp\<close>: the two tables are shown to agree.
\<close>

section \<open>Capabilities\<close>

definition all_relations :: relation_capabilities where
  "all_relations = \<lparr>rk_toOne = True, rk_oneToMany = True, rk_manyToMany = True, rk_collectionIncludes = True,
     rk_collectionPredicates = True, rk_junctionTables = True, rk_compositeEndpointKeys = True\<rparr>"

definition all_mutations :: mutation_capabilities where
  "all_mutations = \<lparr>mk_insert = True, mk_update = True, mk_remove = True, mk_atomicInsertIfAbsent = True,
     mk_affectedRows = RowsReliable\<rparr>"

definition basic_types :: "column_type list" where
  "basic_types = [BoolT, CharT, UnsignedCharT, ShortT, UnsignedShortT, IntT, UnsignedIntT, LongLongT, UnsignedLongLongT,
     FloatT, DoubleT, StringT]"

definition int64_max :: nat where
  "int64_max = 9223372036854775807"

definition no_limits :: value_limits where
  "no_limits = \<lparr>vl_maxUnsignedLongLong = None, vl_minDate = None, vl_maxDate = None, vl_minLocalDateTime = None,
     vl_maxLocalDateTime = None, vl_minUtcTimestamp = None, vl_maxUtcTimestamp = None\<rparr>"

definition sqliteCapabilities :: backend_capabilities where
  "sqliteCapabilities =
     \<lparr>bc_schema = \<lparr>sk_createTableIfNotExists = True, sk_dropTableIfExists = True, sk_autoIncrementPrimaryKey = True,
        sk_compositePrimaryKeys = True, sk_foreignKeys = True, sk_onDeleteCascade = True, sk_transactionalDdl = True,
        sk_boundedStringKeys = False\<rparr>,
      bc_query = \<lparr>qk_limit = True, qk_offset = True, qk_offsetWithoutLimit = True, qk_offsetRequiresOrderBy = False,
        qk_projections = True, qk_groupBy = True, qk_having = True, qk_collectionPredicates = True, qk_fullModelGrouping = True,
        qk_distinctOrderByRequiresProjectedColumn = False, qk_strictProjectionGrouping = False,
        qk_maxOrderedStringLength = None\<rparr>,
      bc_mutations = all_mutations, bc_relations = all_relations,
      bc_valueLimits = no_limits\<lparr>vl_maxUnsignedLongLong := Some int64_max\<rparr>,
      bc_migrations = \<lparr>gk_supported = True, gk_atomicity = WholeMigration\<rparr>,
      bc_supportedColumnTypes = basic_types, bc_transactions = True\<rparr>"

definition first_date :: date where
  "first_date = \<lparr>dt_year = 1, dt_month = 1, dt_day = 1\<rparr>"

definition last_date :: date where
  "last_date = \<lparr>dt_year = 9999, dt_month = 12, dt_day = 31\<rparr>"

definition postgresqlCapabilities :: backend_capabilities where
  "postgresqlCapabilities = sqliteCapabilities
     \<lparr>bc_query := (bc_query sqliteCapabilities)\<lparr>qk_fullModelGrouping := False,
        qk_distinctOrderByRequiresProjectedColumn := True, qk_strictProjectionGrouping := True\<rparr>,
      bc_valueLimits :=
        \<lparr>vl_maxUnsignedLongLong = Some int64_max, vl_minDate = Some first_date, vl_maxDate = Some last_date,
         vl_minLocalDateTime = Some (start_of first_date), vl_maxLocalDateTime = Some (start_of last_date + us_day - 1),
         vl_minUtcTimestamp = Some (start_of first_date), vl_maxUtcTimestamp = Some (start_of last_date + us_day - 1)\<rparr>,
      bc_supportedColumnTypes := basic_types @ [DateT, TimeOfDayT, LocalDateTimeT, UtcTimestampT, UuidT]\<rparr>"

definition family_capabilities :: backend_capabilities where
  "family_capabilities =
     \<lparr>bc_schema = (bc_schema sqliteCapabilities)\<lparr>sk_transactionalDdl := False, sk_boundedStringKeys := True\<rparr>,
      bc_query = (bc_query sqliteCapabilities)\<lparr>qk_fullModelGrouping := False,
        qk_distinctOrderByRequiresProjectedColumn := True, qk_strictProjectionGrouping := True\<rparr>,
      bc_mutations = all_mutations, bc_relations = all_relations,
      bc_valueLimits =
        \<lparr>vl_maxUnsignedLongLong = None, vl_minDate = Some \<lparr>dt_year = 1000, dt_month = 1, dt_day = 1\<rparr>,
         vl_maxDate = Some last_date, vl_minLocalDateTime = Some (start_of \<lparr>dt_year = 1000, dt_month = 1, dt_day = 1\<rparr>),
         vl_maxLocalDateTime = Some (start_of last_date + us_day - 500001),
         vl_minUtcTimestamp = Some us_second, vl_maxUtcTimestamp = Some (2147483647 * us_second + 499999)\<rparr>,
      bc_migrations = \<lparr>gk_supported = True, gk_atomicity = NonTransactional\<rparr>,
      bc_supportedColumnTypes = basic_types @ [DateT, TimeOfDayT, LocalDateTimeT, UtcTimestampT], bc_transactions = True\<rparr>"

definition mariadb_capabilities :: backend_capabilities where
  "mariadb_capabilities = family_capabilities
     \<lparr>bc_query := (bc_query family_capabilities)\<lparr>qk_maxOrderedStringLength := Some 16383\<rparr>,
      bc_supportedColumnTypes := bc_supportedColumnTypes family_capabilities @ [UuidT],
      bc_valueLimits := (bc_valueLimits family_capabilities)
        \<lparr>vl_maxLocalDateTime := map_option (\<lambda>t. t + 500000) (vl_maxLocalDateTime (bc_valueLimits family_capabilities)),
         vl_maxUtcTimestamp := Some (4294967295 * us_second + 999999)\<rparr>\<rparr>"

definition backend_capabilities_of :: "backend_type \<Rightarrow> backend_capabilities option" where
  "backend_capabilities_of backend =
     (case backend of
        Sqlite \<Rightarrow> Some sqliteCapabilities
      | Postgres \<Rightarrow> Some postgresqlCapabilities
      | Mysql \<Rightarrow> Some family_capabilities
      | Mariadb \<Rightarrow> Some mariadb_capabilities
      | _ \<Rightarrow> None)"

section \<open>Bound values\<close>

definition hasCompatibleStorage :: "bound_value \<Rightarrow> bool" where
  "hasCompatibleStorage bound \<longleftrightarrow>
     (case bv_value bound of None \<Rightarrow> True | Some stored \<Rightarrow> isCompatibleStorage (bv_logicalType bound) stored)"

text \<open>\<^verbatim>\<open>bindBoundValue\<close>: the value handed to SOCI.\<close>

definition bindBoundValue :: "bound_value \<Rightarrow> (exn, bound_value) result" where
  "bindBoundValue bound =
     bindR (throwIf (\<not> hasCompatibleStorage bound)
              (ConversionError ''Bound value storage does not match its logical column type'')) (\<lambda>_. Inr bound)"

definition require_storage :: "bound_value \<Rightarrow> string \<Rightarrow> (exn, unit) result" where
  "require_storage bound message = throwIf (\<not> hasCompatibleStorage bound) (ConversionError message)"

text \<open>SQLite and PostgreSQL have no unsigned 64-bit integers.\<close>

definition unsigned_as_signed :: "bound_value \<Rightarrow> string \<Rightarrow> (exn, bound_value) result" where
  "unsigned_as_signed bound message =
     bindR (require_storage bound ''Unsigned 64-bit value storage does not match its logical column type'') (\<lambda>_.
       case bv_value bound of
         Some (VUnsignedLongLong n) \<Rightarrow>
           bindR (throwIf (n > int64_max) (ConversionError message)) (\<lambda>_.
             bindBoundValue \<lparr>bv_logicalType = LongLongT, bv_value = Some (VLongLong (int n))\<rparr>)
       | _ \<Rightarrow> bindBoundValue \<lparr>bv_logicalType = LongLongT, bv_value = None\<rparr>)"

definition sqlite_bind :: "bound_value \<Rightarrow> (exn, bound_value) result" where
  "sqlite_bind bound =
     (if bv_logicalType bound = UnsignedLongLongT
      then unsigned_as_signed bound ''SQLite cannot represent an unsigned 64-bit value above INT64_MAX''
      else bindBoundValue bound)"

definition native_types :: "column_type set" where
  "native_types = {DateT, TimeOfDayT, LocalDateTimeT, UtcTimestampT, UuidT}"

definition has_nul :: "bound_value \<Rightarrow> bool" where
  "has_nul bound \<longleftrightarrow> (case bv_value bound of Some (VString s) \<Rightarrow> nul \<in> set s | _ \<Rightarrow> False)"

definition postgres_bind :: "bound_value \<Rightarrow> (exn, bound_value) result" where
  "postgres_bind bound =
     bindR (if bv_logicalType bound \<in> native_types
            then require_storage bound ''Native value storage does not match its logical column type'' else Inr ()) (\<lambda>_.
     bindR (if bv_logicalType bound = StringT
            then bindR (require_storage bound ''String value storage does not match its logical column type'') (\<lambda>_.
                 throwIf (has_nul bound) (ConversionError ''PostgreSQL text values must not contain an embedded NUL byte''))
            else Inr ()) (\<lambda>_.
       if bv_logicalType bound = UnsignedLongLongT
       then unsigned_as_signed bound ''PostgreSQL cannot represent an unsigned 64-bit value above INT64_MAX''
       else bindBoundValue bound))"

text \<open>The visitor that validates a native value, and the handler around it.\<close>

definition validate_stored :: "backend_type \<Rightarrow> query_storage \<Rightarrow> (exn, unit) result" where
  "validate_stored backend stored =
     (case stored of
        VDate d \<Rightarrow> validateNative_Date d backend
      | VTimeOfDay t \<Rightarrow> validateNative_TimeOfDay t backend
      | VLocalDateTime t \<Rightarrow> validateNative_LocalDateTime t backend
      | VUtcTimestamp t \<Rightarrow> validateNative_UtcTimestamp t backend
      | VUuid u \<Rightarrow> validateNativeUuid u backend
      | _ \<Rightarrow> Inr ())"

definition native_range :: "backend_type \<Rightarrow> bound_value \<Rightarrow> (exn, unit) result" where
  "native_range backend bound =
     (case bv_value bound of
        None \<Rightarrow> Inr ()
      | Some stored \<Rightarrow>
          (case validate_stored backend stored of
             Inl (InvalidArgument _) \<Rightarrow> Inl (ConversionError (''Value is outside the backend'' @ [squote] @ ''s native type range''))
           | r \<Rightarrow> r))"

definition timestamp_wire :: "bound_value \<Rightarrow> (exn, bound_value) result" where
  "timestamp_wire bound =
     (case bv_value bound of
        Some (VUtcTimestamp t) \<Rightarrow>
          bindR (format_UtcTimestamp t False) (\<lambda>s. Inr \<lparr>bv_logicalType = StringT, bv_value = Some (VString s)\<rparr>)
      | _ \<Rightarrow> Inr \<lparr>bv_logicalType = StringT, bv_value = None\<rparr>)"

definition family_bind :: "backend_type \<Rightarrow> bound_value \<Rightarrow> (exn, bound_value) result" where
  "family_bind backend bound =
     (if bv_logicalType bound \<in> native_types
      then bindR (throwIf (bv_logicalType bound = UuidT \<and> backend \<noteq> Mariadb)
                    (DatabaseError DbUnsupportedFeature backend ''bind'' ''The backend does not support native UUID values'' None)) (\<lambda>_.
           bindR (require_storage bound ''Native value storage does not match its logical column type'') (\<lambda>_.
           bindR (native_range backend bound) (\<lambda>_.
             if bv_logicalType bound = UtcTimestampT then bindR (timestamp_wire bound) bindBoundValue
             else bindBoundValue bound)))
      else bindBoundValue bound)"

definition backend_bind :: "backend_type \<Rightarrow> bound_value \<Rightarrow> (exn, bound_value) result" where
  "backend_bind backend bound =
     (case backend of
        Sqlite \<Rightarrow> sqlite_bind bound
      | Postgres \<Rightarrow> postgres_bind bound
      | _ \<Rightarrow> family_bind backend bound)"

section \<open>Driver errors\<close>

datatype error_category =
  ConnectionCategory | ConstraintCategory | UnknownTransactionState | InvalidStatement | NoPrivilege | NoData | SystemCategory
  | UnknownCategory

text \<open>The dynamic type of a \<^verbatim>\<open>soci_error\<close> with the data the backends read from it.\<close>

datatype native_error = PlainError | SqliteNative int | PostgresNative string | MysqlNative int | LinkLockNative "nat option"

record driver_error =
  de_category :: error_category
  de_native :: native_error

definition category_code :: "error_category \<Rightarrow> database_error_code \<Rightarrow> database_error_code" where
  "category_code category fallback =
     (case category of
        ConnectionCategory \<Rightarrow> DbConnection
      | ConstraintCategory \<Rightarrow> DbConstraint
      | UnknownTransactionState \<Rightarrow> DbTransaction
      | _ \<Rightarrow> fallback)"

definition signed_text :: "int \<Rightarrow> string" where
  "signed_text n = (if n < 0 then ''-'' else []) @ dec (nat \<bar>n\<bar>)"

definition sqlite_translateError :: "driver_error \<Rightarrow> database_error_code \<Rightarrow> string \<Rightarrow> exn" where
  "sqlite_translateError error fallback operation =
     (let general = category_code (de_category error) fallback;
          (error_code, native) =
            (case de_native error of
               SqliteNative result \<Rightarrow>
                 (if result mod 256 = 19 then DbConstraint else general, Some (signed_text result))
             | _ \<Rightarrow> (general, None))
      in DatabaseError error_code Sqlite operation (''SQLite operation failed: '' @ operation) native)"

definition codeFromSqlState :: "string \<Rightarrow> database_error_code \<Rightarrow> database_error_code" where
  "codeFromSqlState sqlState fallback =
     (if starts_with sqlState ''08'' then DbConnection
      else if sqlState \<in> {''57P01'', ''57P02'', ''57P03'', ''57P04''} then DbConnection
      else if starts_with sqlState ''23'' then DbConstraint
      else if starts_with sqlState ''22'' then DbConversion
      else if starts_with sqlState ''25'' \<or> starts_with sqlState ''40'' then DbTransaction
      else fallback)"

definition postgres_translateError :: "driver_error \<Rightarrow> database_error_code \<Rightarrow> string \<Rightarrow> exn" where
  "postgres_translateError error fallback operation =
     (let general = category_code (de_category error) fallback;
          (specific, native) =
            (case de_native error of
               PostgresNative sqlState \<Rightarrow>
                 if length sqlState = 5 \<and> list_ex (\<lambda>c. c \<noteq> CHR '' '') sqlState
                 then (codeFromSqlState sqlState general, Some sqlState) else (general, None)
             | _ \<Rightarrow> (general, None));
          error_code = (if fallback = DbConnection \<and> operation = ''connect'' then DbConnection else specific)
      in DatabaseError error_code Postgres operation (''PostgreSQL operation failed: '' @ operation) native)"

definition family_code :: "int \<Rightarrow> database_error_code \<Rightarrow> database_error_code" where
  "family_code n general =
     (if n \<in> {1062, 1048, 1451, 1452, 3819, 4025} then DbConstraint
      else if n \<in> {1205, 1213} then DbTransaction
      else if n \<in> {1045, 1049, 2002, 2003, 2006, 2013} then DbConnection
      else if n \<in> {1264, 1292, 1366, 1406, 1441} then DbConversion
      else general)"

definition family_translateError :: "backend_type \<Rightarrow> driver_error \<Rightarrow> database_error_code \<Rightarrow> string \<Rightarrow> exn" where
  "family_translateError backend error fallback operation =
     (let general = category_code (de_category error) fallback;
          (error_code, native) =
            (case de_native error of
               MysqlNative n \<Rightarrow> (family_code n general, Some (signed_text n))
             | LinkLockNative (Some n) \<Rightarrow> (general, Some (dec n))
             | _ \<Rightarrow> (general, None))
      in DatabaseError error_code backend operation (''Database operation failed: '' @ operation) native)"

text \<open>\<^verbatim>\<open>statementErrorInvalidatesTransaction\<close>.\<close>

definition error_invalidates :: "backend_type \<Rightarrow> driver_error \<Rightarrow> bool" where
  "error_invalidates backend error =
     (case backend of
        Postgres \<Rightarrow> (case de_native error of PostgresNative _ \<Rightarrow> True | _ \<Rightarrow> False)
      | Sqlite \<Rightarrow> False
      | _ \<Rightarrow> de_category error = ConnectionCategory \<or>
          (case de_native error of LinkLockNative _ \<Rightarrow> True | MysqlNative n \<Rightarrow> n \<in> {1213, 1205} | _ \<Rightarrow> False))"

section \<open>Limits of a session\<close>

definition sqlite_limits :: runtime_limits where
  "sqlite_limits = \<lparr>rl_maxBindParameters = Some 900, rl_maxIndexBytes = None, rl_minUtcTimestamp = None, rl_maxUtcTimestamp = None\<rparr>"

definition postgres_limits :: runtime_limits where
  "postgres_limits = \<lparr>rl_maxBindParameters = Some 65535, rl_maxIndexBytes = None, rl_minUtcTimestamp = None, rl_maxUtcTimestamp = None\<rparr>"

definition family_limits :: "nat option \<Rightarrow> utc_timestamp option \<Rightarrow> runtime_limits" where
  "family_limits indexBytes timestamp =
     \<lparr>rl_maxBindParameters = None, rl_maxIndexBytes = indexBytes, rl_minUtcTimestamp = Some us_second, rl_maxUtcTimestamp = timestamp\<rparr>"

section \<open>The two range tables agree\<close>

text \<open>
  The values that the checks accept and binding refuses: text with a NUL byte on PostgreSQL, and the UUID variants that
  MariaDB does not store.
\<close>

definition unbindable :: "backend_type \<Rightarrow> bound_value \<Rightarrow> bool" where
  "unbindable backend bound \<longleftrightarrow>
     (backend = Postgres \<and> bv_logicalType bound = StringT \<and> has_nul bound) \<or>
     (backend = Mariadb \<and> (\<exists>u. bv_value bound = Some (VUuid u) \<and> validateNativeUuid u Mariadb \<noteq> Inr ()))"

lemma year_from_1000:
  assumes "start_of \<lparr>dt_year = 1000, dt_month = 1, dt_day = 1\<rparr> \<le> v"
  shows "1000 \<le> dt_year (civil_from_days (v div us_day))"
proof (rule ccontr)
  define d where "d = civil_from_days (v div us_day)"
  note parts = civil_from_days_parts [of "v div us_day", folded d_def]
  note year = days_from_civil_year_bounds [OF parts(1-4), unfolded parts(5)]
  have "start_of \<lparr>dt_year = 1000, dt_month = 1, dt_day = 1\<rparr> = - 354285 * us_day" by code_simp
  with assms have "- 354285 \<le> v div us_day" by linarith
  moreover assume "\<not> 1000 \<le> dt_year (civil_from_days (v div us_day))"
  then have "days_before_years (dt_year d) \<le> days_before_years 999" by (intro days_before_years_mono) (simp add: d_def)
  moreover have "days_before_years 999 = 364877" by code_simp
  ultimately show False using year(2) by linarith
qed

lemma last_moment: "start_of last_date + us_day = start_of afterLastDay"
  by code_simp

lemma local_native:
  assumes "valid_LocalDateTime v" "start_of \<lparr>dt_year = 1000, dt_month = 1, dt_day = 1\<rparr> \<le> v"
    and "backend = Mysql \<Longrightarrow> v \<le> start_of last_date + us_day - 500001" "backend \<in> {Mysql, Mariadb}"
  shows "validateNative_LocalDateTime v backend = Inr ()"
proof -
  have "valid_Date (civil_from_days (v div us_day))"
    using assms(1) by (intro valid_day) (auto simp: valid_LocalDateTime_def)
  with year_from_1000 [OF assms(2)] assms(4) native_ranges [of v "civil_from_days (v div us_day)" backend]
  have "validateNative_Date (civil_from_days (v div us_day)) backend = Inr ()" by blast
  then show ?thesis
    using assms(1,3,4) last_moment
    by (auto simp: validateNative_LocalDateTime_def requireNative_def validate_LocalDateTime_def throwIf_def)
qed

lemma format_utc_ok: "valid_UtcTimestamp v \<Longrightarrow> \<exists>t. format_UtcTimestamp v False = Inr t"
  using format_LocalDateTime_ok [of v]
  by (auto simp: format_UtcTimestamp_def validate_UtcTimestamp_def valid_UtcTimestamp_def valid_LocalDateTime_def)

lemma compatible_limits: "isWithinValueLimits type stored limits runtime \<Longrightarrow> hasCompatibleStorage \<lparr>bv_logicalType = type, bv_value = stored\<rparr>"
  by (auto simp: isWithinValueLimits_def hasCompatibleStorage_def split: option.splits)

lemma accepted_compatible:
  "isWithinValueLimits (bv_logicalType bound) (bv_value bound) limits runtime \<Longrightarrow> hasCompatibleStorage bound"
  by (auto simp: isWithinValueLimits_def hasCompatibleStorage_def split: option.splits)

lemma unsigned_binds:
  assumes "bv_logicalType bound = UnsignedLongLongT" "vl_maxUnsignedLongLong limits = Some int64_max"
    and "isWithinValueLimits (bv_logicalType bound) (bv_value bound) limits runtime"
  shows "\<exists>wire. unsigned_as_signed bound message = Inr wire"
proof -
  note compatible = accepted_compatible [OF assms(3)]
  show ?thesis
  proof (cases "bv_value bound")
    case None
    with compatible show ?thesis by (simp add: unsigned_as_signed_def require_storage_def bindBoundValue_def hasCompatibleStorage_def)
  next
    case (Some stored)
    with assms compatible obtain n where "stored = VUnsignedLongLong n" "n \<le> int64_max"
      by (cases stored) (auto simp: hasCompatibleStorage_def isCompatibleStorage_def isWithinValueLimits_def)
    with Some compatible show ?thesis
      by (simp add: unsigned_as_signed_def require_storage_def bindBoundValue_def hasCompatibleStorage_def isCompatibleStorage_def)
  qed
qed

lemma sqlite_binds:
  assumes "isWithinValueLimits (bv_logicalType bound) (bv_value bound) (bc_valueLimits sqliteCapabilities) runtime"
  shows "\<exists>wire. sqlite_bind bound = Inr wire"
  using unsigned_binds [OF _ _ assms] accepted_compatible [OF assms]
  by (simp add: sqlite_bind_def bindBoundValue_def sqliteCapabilities_def no_limits_def)

lemma postgres_binds:
  assumes "isWithinValueLimits (bv_logicalType bound) (bv_value bound) (bc_valueLimits postgresqlCapabilities) runtime"
  shows "(\<exists>wire. postgres_bind bound = Inr wire) \<longleftrightarrow> \<not> unbindable Postgres bound"
  using unsigned_binds [OF _ _ assms] accepted_compatible [OF assms]
  by (auto simp: postgres_bind_def bindBoundValue_def require_storage_def postgresqlCapabilities_def unbindable_def)

text \<open>The ranges that the MySQL family advertises are those its values are validated against.\<close>

lemma family_native:
  assumes "backend \<in> {Mysql, Mariadb}" "backend_capabilities_of backend = Some capabilities"
    and "isWithinValueLimits (bv_logicalType bound) (bv_value bound) (bc_valueLimits capabilities) runtime"
    and "\<forall>u. bv_value bound \<noteq> Some (VUuid u)"
  shows "native_range backend bound = Inr ()"
proof (cases "bv_value bound")
  case (Some stored)
  have within: "isCompatibleStorage (bv_logicalType bound) stored" using accepted_compatible [OF assms(3)] Some
    by (simp add: hasCompatibleStorage_def)
  note limits = family_capabilities_def mariadb_capabilities_def isWithinValueLimits_def within_def
  have "validate_stored backend stored = Inr ()"
  proof (cases stored)
    case (VDate d)
    with within have "valid_Date d" by (cases "bv_logicalType bound") (auto simp: isCompatibleStorage_def)
    moreover have "1000 \<le> dt_year d"
      using assms(1,2,3) Some VDate by (auto simp: backend_capabilities_of_def limits date_le_def)
    ultimately show ?thesis using assms(1) native_ranges [of 0 d backend] by (simp add: validate_stored_def VDate)
  next
    case (VTimeOfDay t)
    with assms(1) show ?thesis by (auto simp: validate_stored_def validateNative_TimeOfDay_def requireNative_def throwIf_def)
  next
    case (VLocalDateTime t)
    with within have valid: "valid_LocalDateTime t" by (cases "bv_logicalType bound") (auto simp: isCompatibleStorage_def)
    have "start_of \<lparr>dt_year = 1000, dt_month = 1, dt_day = 1\<rparr> \<le> t" "backend = Mysql \<Longrightarrow> t \<le> start_of last_date + us_day - 500001"
      using assms(1,2,3) Some VLocalDateTime by (auto simp: backend_capabilities_of_def limits)
    with valid assms(1) show ?thesis by (simp add: validate_stored_def VLocalDateTime local_native)
  next
    case (VUtcTimestamp t)
    have "us_second \<le> t" "t \<le> (if backend = Mysql then 2147483647499999 else 4294967295999999)"
      using assms(1,2,3) Some VUtcTimestamp by (auto simp: backend_capabilities_of_def limits)
    with assms(1) native_ranges [of t firstDay backend] show ?thesis by (auto simp: validate_stored_def VUtcTimestamp)
  qed (use assms(4) Some in \<open>auto simp: validate_stored_def\<close>)
  then show ?thesis by (simp add: native_range_def Some)
qed (simp add: native_range_def)

lemma timestamp_binds:
  assumes "hasCompatibleStorage bound" "bv_logicalType bound = UtcTimestampT"
  shows "\<exists>wire. bindR (timestamp_wire bound) bindBoundValue = Inr wire"
proof (cases "bv_value bound")
  case (Some stored)
  with assms obtain t where "stored = VUtcTimestamp t" "valid_UtcTimestamp t"
    by (cases stored) (auto simp: hasCompatibleStorage_def isCompatibleStorage_def)
  with Some format_utc_ok [of t] show ?thesis
    by (auto simp: timestamp_wire_def bindBoundValue_def hasCompatibleStorage_def isCompatibleStorage_def)
qed (simp add: timestamp_wire_def bindBoundValue_def hasCompatibleStorage_def)

lemma uuid_native:
  assumes "bv_value bound = Some (VUuid u)"
  shows "native_range Mariadb bound = Inr () \<longleftrightarrow> validateNativeUuid u Mariadb = Inr ()"
  using assms by (auto simp: native_range_def validate_stored_def split: sum.splits exn.splits)

lemma family_binds:
  assumes backend: "backend \<in> {Mysql, Mariadb}" and capabilities: "backend_capabilities_of backend = Some capabilities"
    and supported: "supportsColumnType capabilities (bv_logicalType bound)"
    and within: "isWithinValueLimits (bv_logicalType bound) (bv_value bound) (bc_valueLimits capabilities) runtime"
  shows "(\<exists>wire. family_bind backend bound = Inr wire) \<longleftrightarrow> \<not> unbindable backend bound"
proof -
  note compatible = accepted_compatible [OF within]
  have uuid: "bv_logicalType bound = UuidT \<and> backend = Mariadb" if "bv_value bound = Some (VUuid u)" for u
    using that compatible supported capabilities backend
    by (cases "bv_logicalType bound")
      (auto simp: hasCompatibleStorage_def isCompatibleStorage_def backend_capabilities_of_def supportsColumnType_def
        family_capabilities_def basic_types_def)
  show ?thesis
  proof (cases "\<exists>u. bv_value bound = Some (VUuid u)")
    case True
    then obtain u where u: "bv_value bound = Some (VUuid u)" by blast
    with uuid uuid_native [OF u] compatible show ?thesis
      by (auto simp: family_bind_def native_types_def unbindable_def require_storage_def bindBoundValue_def)
  next
    case False
    then have range: "native_range backend bound = Inr ()" using family_native [OF backend capabilities within] by blast
    have mysql: "bv_logicalType bound = UuidT \<Longrightarrow> backend = Mariadb"
      using supported capabilities backend
      by (auto simp: backend_capabilities_of_def supportsColumnType_def family_capabilities_def basic_types_def)
    have "\<exists>wire. family_bind backend bound = Inr wire"
      using range mysql compatible timestamp_binds [OF compatible]
      by (auto simp: family_bind_def require_storage_def bindBoundValue_def)
    with False backend show ?thesis by (auto simp: unbindable_def)
  qed
qed

section \<open>Properties\<close>

text \<open>
  C20. What the checks of \<^verbatim>\<open>Database\<close> accept, the backend binds: for each built-in backend, a value of an advertised type
  within the advertised limits is converted for the driver without an error, whatever the run-time limits are. The two
  exceptions are text with a NUL byte on PostgreSQL and the UUID variants that MariaDB cannot store.
\<close>

theorem accepted_values_bind:
  assumes "backend_capabilities_of backend = Some capabilities"
    and "supportsColumnType capabilities (bv_logicalType bound)"
    and "isWithinValueLimits (bv_logicalType bound) (bv_value bound) (bc_valueLimits capabilities) runtime"
  shows "(\<exists>wire. backend_bind backend bound = Inr wire) \<longleftrightarrow> \<not> unbindable backend bound"
proof (cases backend)
  case Sqlite
  with assms sqlite_binds show ?thesis by (simp add: backend_capabilities_of_def backend_bind_def unbindable_def)
next
  case Postgres
  with assms postgres_binds show ?thesis by (simp add: backend_capabilities_of_def backend_bind_def)
next
  case Mysql
  with assms family_binds [of backend capabilities bound runtime] show ?thesis by (simp add: backend_bind_def)
next
  case Mariadb
  with assms family_binds [of backend capabilities bound runtime] show ?thesis by (simp add: backend_bind_def)
qed (use assms in \<open>simp_all add: backend_capabilities_of_def\<close>)

theorem accepted_values_bind_witness:
  "\<exists>wire. backend_bind Mysql \<lparr>bv_logicalType = UtcTimestampT, bv_value = Some (VUtcTimestamp 2147483647499999)\<rparr> = Inr wire"
proof -
  let ?bound = "\<lparr>bv_logicalType = UtcTimestampT, bv_value = Some (VUtcTimestamp 2147483647499999)\<rparr>"
  have "supportsColumnType family_capabilities (bv_logicalType ?bound)"
    "isWithinValueLimits (bv_logicalType ?bound) (bv_value ?bound) (bc_valueLimits family_capabilities) postgres_limits"
    by (simp_all add: supportsColumnType_def family_capabilities_def basic_types_def isWithinValueLimits_def within_def
      postgres_limits_def isCompatibleStorage_def valid_UtcTimestamp_def start_of_first start_of_after)
  with accepted_values_bind [of Mysql family_capabilities ?bound postgres_limits] show ?thesis
    by (simp add: backend_capabilities_of_def unbindable_def)
qed

end
