(* ===== verification/Orm_Session_Safety.thy ===== *)
theory Orm_Session_Safety
  imports Orm_Backends Orm_Migration_Progress
begin

text \<open>
  What a connection guarantees: its flags follow the automaton of transaction states, a transaction with a failed statement
  accepts nothing but a rollback, and a statement beyond the limits of the backend never reaches the driver.
\<close>

section \<open>Flags\<close>

type_synonym flags = "backend_type option \<times> bool \<times> bool \<times> bool"

definition flags_of :: "'d database \<Rightarrow> flags" where
  "flags_of db = (db_backend db, db_transaction db, db_transactionFailed db, db_migrationActive db)"

text \<open>How a failed statement may change the flags: it marks the open transaction as failed.\<close>

definition after_error :: "flags \<Rightarrow> flags \<Rightarrow> bool" where
  "after_error s s' \<longleftrightarrow> s' = s \<or> (\<exists>b a. s = (Some b, True, False, a) \<and> s' = (Some b, True, True, a))"

lemma after_error_refl [simp]: "after_error s s"
  by (simp add: after_error_def)

lemma after_error_trans: "after_error s s' \<Longrightarrow> after_error s' s'' \<Longrightarrow> after_error s s''"
  by (auto simp: after_error_def)

text \<open>An action that keeps the flags when it returns, and one that only throws.\<close>

definition quiet :: "('d, 'a) dbact \<Rightarrow> bool" where
  "quiet m \<longleftrightarrow> (\<forall>db r db'. m db = (r, db') \<longrightarrow> r \<noteq> Inl Terminate \<longrightarrow>
     (if isOk r then flags_of db' = flags_of db else after_error (flags_of db) (flags_of db')))"

definition throws :: "('d, 'a) dbact \<Rightarrow> bool" where
  "throws m \<longleftrightarrow> (\<forall>db r db'. m db = (r, db') \<longrightarrow> r \<noteq> Inl Terminate \<longrightarrow>
     \<not> isOk r \<and> after_error (flags_of db) (flags_of db'))"

named_theorems quiet_intros \<open>actions that keep the flags or mark a failed transaction\<close>

lemma quietI:
  assumes "\<And>db x db'. m db = (Inr x, db') \<Longrightarrow> flags_of db' = flags_of db"
    and "\<And>db e db'. m db = (Inl e, db') \<Longrightarrow> e \<noteq> Terminate \<Longrightarrow> after_error (flags_of db) (flags_of db')"
  shows "quiet m"
  unfolding quiet_def
proof (intro allI impI)
  fix db r db'
  assume "m db = (r, db')" "r \<noteq> Inl Terminate"
  then show "if isOk r then flags_of db' = flags_of db else after_error (flags_of db) (flags_of db')"
    using assms by (cases r) auto
qed

lemma quiet_Inr: "quiet m \<Longrightarrow> m db = (Inr x, db') \<Longrightarrow> flags_of db' = flags_of db"
  unfolding quiet_def by (metis isOk.simps(2) sum.distinct(1))

lemma quiet_Inl: "quiet m \<Longrightarrow> m db = (Inl e, db') \<Longrightarrow> e \<noteq> Terminate \<Longrightarrow> after_error (flags_of db) (flags_of db')"
  unfolding quiet_def by (metis isOk.simps(1) sum.inject(1))

lemma throws_quiet: "throws m \<Longrightarrow> quiet m"
  unfolding quiet_def throws_def by fastforce

lemma throws_Inr: "throws m \<Longrightarrow> m db \<noteq> (Inr x, db')"
  unfolding throws_def by (metis isOk.simps(2) sum.distinct(1))

lemma quiet_retA [quiet_intros]: "quiet (retA x)"
  by (rule quietI) auto

lemma throws_throwA [quiet_intros]: "throws (throwA e)"
  by (simp add: throws_def)

lemma quiet_throwA [quiet_intros]: "quiet (throwA e)"
  by (rule throws_quiet, rule throws_throwA)

lemma quiet_liftR [quiet_intros]: "quiet (liftR r)"
  by (rule quietI) auto

lemma quiet_getA [quiet_intros]: "quiet (getA f)"
  by (rule quietI) auto

lemma quiet_throwIfA [quiet_intros]: "quiet (throwIfA b e)"
  by (rule quietI) auto

lemma flags_session [simp]: "flags_of (db\<lparr>db_session := d\<rparr>) = flags_of db"
  by (simp add: flags_of_def)

lemma quiet_sessionA [quiet_intros]: "quiet (sessionA m)"
  by (rule quietI) (auto simp: sessionA_def split: prod.splits)

lemma quiet_bindA [quiet_intros]: "quiet m \<Longrightarrow> (\<And>x. quiet (f x)) \<Longrightarrow> quiet (bindA m f)"
proof (rule quietI)
  assume m: "quiet m" and f: "\<And>x. quiet (f x)"
  show "flags_of db' = flags_of db" if "bindA m f db = (Inr y, db')" for db y db'
    using that by (auto simp: bindA_Inr dest!: quiet_Inr [OF m] quiet_Inr [OF f])
  show "after_error (flags_of db) (flags_of db')" if run: "bindA m f db = (Inl e, db')" and e: "e \<noteq> Terminate" for db e db'
    using run unfolding bindA_Inl
  proof (elim disjE exE conjE)
    assume "m db = (Inl e, db')"
    then show ?thesis using e by (rule quiet_Inl [OF m])
  next
    fix x db1
    assume first: "m db = (Inr x, db1)" and later: "f x db1 = (Inl e, db')"
    have "flags_of db1 = flags_of db" by (rule quiet_Inr [OF m first])
    then show ?thesis using quiet_Inl [OF f later e] by simp
  qed
qed

lemma quiet_thenA [quiet_intros]: "quiet m \<Longrightarrow> quiet n \<Longrightarrow> quiet (thenA m n)"
  by (simp add: thenA_def quiet_bindA)

lemma quiet_catchA [quiet_intros]: "quiet m \<Longrightarrow> (\<And>e. throws (h e)) \<Longrightarrow> quiet (catchA m h)"
proof (rule quietI)
  assume m: "quiet m" and h: "\<And>e. throws (h e)"
  show "flags_of db' = flags_of db" if "catchA m h db = (Inr y, db')" for db y db'
    using that by (auto simp: catchA_Inr throws_Inr [OF h] dest: quiet_Inr [OF m])
  show "after_error (flags_of db) (flags_of db')" if "catchA m h db = (Inl e, db')" "e \<noteq> Terminate" for db e db'
    using that by (auto simp: catchA_Inl dest: quiet_Inl [OF m] quiet_Inl [OF throws_quiet [OF h]] after_error_trans)
qed

lemma quiet_forA [quiet_intros]: "(\<And>x. quiet (f x)) \<Longrightarrow> quiet (forA f xs)"
  by (induction xs) (auto intro: quiet_intros)

lemma quiet_if [quiet_intros]: "(b \<Longrightarrow> quiet m) \<Longrightarrow> (\<not> b \<Longrightarrow> quiet n) \<Longrightarrow> quiet (if b then m else n)"
  by simp

lemma throws_bind_getA [quiet_intros]: "(\<And>x. throws (f x)) \<Longrightarrow> throws (bindA (getA g) f)"
  by (auto simp: throws_def bindA_def)

lemma throws_if [quiet_intros]: "(b \<Longrightarrow> throws m) \<Longrightarrow> (\<not> b \<Longrightarrow> throws n) \<Longrightarrow> throws (if b then m else n)"
  by simp

lemma throws_databaseThrow [quiet_intros]: "throws (databaseThrow c op m)"
  unfolding databaseThrow_def by (intro quiet_intros)

lemma quiet_databaseThrow [quiet_intros]: "quiet (databaseThrow c op m)"
  by (rule throws_quiet, rule throws_databaseThrow)

lemma quiet_option [quiet_intros]:
  "quiet m \<Longrightarrow> (\<And>y. quiet (f y)) \<Longrightarrow> quiet (case x of None \<Rightarrow> m | Some y \<Rightarrow> f y)"
  by (cases x) auto

lemma throws_translated [quiet_intros]: "throws (throwTranslatedError p e fallback op)"
  by (auto simp: throws_def throwTranslatedError_def bindA_def thenA_def after_error_def flags_of_def split: if_splits)

lemma throws_driver_handler [quiet_intros]: "throws (driver_handler p fallback op e)"
  unfolding driver_handler_def by (intro quiet_intros)

lemma throws_mutation_handler [quiet_intros]: "throws (mutation_handler p op e)"
  unfolding mutation_handler_def by (cases e) (auto intro: quiet_intros)

section \<open>Statements keep the flags\<close>

lemma quiet_getBackend [quiet_intros]: "quiet (getBackend ops)"
  unfolding getBackend_def by (intro quiet_intros)

lemma quiet_checks [quiet_intros]:
  "quiet (requireCapability b op m)" "quiet (ensureSessionUsable p op)" "quiet (ensureDdlSupported p op)"
  "quiet (getBackendRuntimeLimits p)" "quiet (ensureAffectedRowsAvailable p op)"
  unfolding requireCapability_def ensureSessionUsable_def ensureDdlSupported_def getBackendRuntimeLimits_def
    ensureAffectedRowsAvailable_def
  by (intro quiet_intros)+

lemma quiet_parameters [quiet_intros]:
  "quiet (ensureStatementWithinBindLimit p n op)" "quiet (ensureBoundValueSupported p v op)"
  unfolding ensureStatementWithinBindLimit_def ensureBoundValueSupported_def
  by (intro quiet_intros)+

lemma quiet_statement [quiet_intros]: "quiet (ensure_statement p st op)"
  unfolding ensure_statement_def ensure_parameter_def by (intro quiet_intros)

lemma quiet_executeMutation: "quiet (executeMutation p st op)"
  unfolding executeMutation_def by (intro quiet_intros)

lemma quiet_executeSql: "quiet (executeSql p sql op)"
  unfolding executeSql_def by (intro quiet_intros)

lemma quiet_executeInsertIfAbsent: "quiet (executeInsertIfAbsent p st conflict op)"
  unfolding executeInsertIfAbsent_def by (intro quiet_intros; auto split: exn.split intro: quiet_intros)

lemma quiet_tableExists: "quiet (tableExists p name)"
  unfolding tableExists_def by (intro quiet_intros)

section \<open>Calls\<close>

datatype 'c call =
    CallConnect backend_type 'c
  | CallDisconnect
  | CallBegin
  | CallCommit
  | CallRollback
  | CallMutation statement string
  | CallSql string string
  | CallInsertIfAbsent statement insert_if_absent string
  | CallTableExists string

fun is_statement :: "'c call \<Rightarrow> bool" where
  "is_statement (CallMutation _ _) = True"
| "is_statement (CallSql _ _) = True"
| "is_statement (CallInsertIfAbsent _ _ _) = True"
| "is_statement (CallTableExists _) = True"
| "is_statement _ = False"

text \<open>The provider that the connected database points to; without a connection every operation but \<open>connect\<close> stops first.\<close>

definition with_provider :: "('d, 'r, 'c, 'v) factory \<Rightarrow> (('d, 'r, 'c, 'v) provider \<Rightarrow> ('d, unit) dbact) \<Rightarrow> ('d, unit) dbact" where
  "with_provider backends action =
     bindA (getA (\<lambda>db. Option.bind (db_backend db) (map_of backends))) (\<lambda>found. case found of
       Some p \<Rightarrow> action p
     | None \<Rightarrow> throwA (DatabaseError DbNotConnected Empty ''database operation'' ''No database session is connected'' None))"

fun perform :: "('d, 'r, 'c, 'v) factory \<Rightarrow> 'c call \<Rightarrow> ('d, unit) dbact" where
  "perform backends (CallConnect backend config) = connect backends backend config"
| "perform backends CallDisconnect =
     bindA (getA db_backend) (\<lambda>current.
       if current = None then retA () else with_provider backends (\<lambda>p. disconnect (pv_ops p)))"
| "perform backends CallBegin = with_provider backends beginTransaction"
| "perform backends CallCommit = with_provider backends commitTransaction"
| "perform backends CallRollback = with_provider backends rollbackTransaction"
| "perform backends (CallMutation st op) = with_provider backends (\<lambda>p. thenA (executeMutation p st op) (retA ()))"
| "perform backends (CallSql sql op) = with_provider backends (\<lambda>p. executeSql p sql op)"
| "perform backends (CallInsertIfAbsent st conflict op) =
     with_provider backends (\<lambda>p. thenA (executeInsertIfAbsent p st conflict op) (retA ()))"
| "perform backends (CallTableExists name) = with_provider backends (\<lambda>p. thenA (tableExists p name) (retA ()))"

section \<open>The automaton\<close>

datatype tx_state = Closed | Idle | Active | Broken

definition tx_of :: "'d database \<Rightarrow> tx_state" where
  "tx_of db =
     (if db_backend db = None then Closed else if \<not> db_transaction db then Idle
      else if db_transactionFailed db then Broken else Active)"

text \<open>\<open>tx_step call ok t t'\<close>: the call, which returns or throws, may lead from one state to another.\<close>

inductive tx_step :: "'c call \<Rightarrow> bool \<Rightarrow> tx_state \<Rightarrow> tx_state \<Rightarrow> bool" where
  refused: "tx_step call False t t"
| connected: "tx_step (CallConnect backend config) True Closed Idle"
| disconnected: "tx_step CallDisconnect ok t Closed"
| begun: "tx_step CallBegin True Idle Active"
| committed: "tx_step CallCommit ok Active Idle"
| rolled_back: "t = Active \<or> t = Broken \<Longrightarrow> tx_step CallRollback ok t Idle"
| executed: "is_statement call \<Longrightarrow> t = Idle \<or> t = Active \<Longrightarrow> tx_step call True t t"
| failed: "is_statement call \<Longrightarrow> tx_step call False Active Broken"

text \<open>The documented behaviour of the driver: ending a transaction throws driver errors only.\<close>

definition soci_driver :: "('d, 'r, 'c, 'v) provider \<Rightarrow> bool" where
  "soci_driver p \<longleftrightarrow>
     (\<forall>d e d'. so_tx_rollback (pv_ops p) d = (Inl e, d') \<longrightarrow> is_soci e) \<and>
     (\<forall>d e d'. pv_commit p d = (Inl e, d') \<longrightarrow> is_soci e)"

lemma soci_driverD:
  "soci_driver p \<Longrightarrow> so_tx_rollback (pv_ops p) d = (Inl e, d') \<Longrightarrow> is_soci e"
  "soci_driver p \<Longrightarrow> pv_commit p d = (Inl e, d') \<Longrightarrow> is_soci e"
  unfolding soci_driver_def by blast+

definition coherent :: "'d database \<Rightarrow> bool" where
  "coherent db \<longleftrightarrow>
     (db_backend db = None \<longrightarrow> \<not> db_transaction db \<and> \<not> db_transactionFailed db) \<and>
     (db_transactionFailed db \<longrightarrow> db_transaction db)"

definition stepped :: "'c call \<Rightarrow> 'd database \<Rightarrow> (exn, unit) result \<times> 'd database \<Rightarrow> bool" where
  "stepped call db outcome \<longleftrightarrow>
     fst outcome = Inl Terminate \<or> coherent (snd outcome) \<and> tx_step call (isOk (fst outcome)) (tx_of db) (tx_of (snd outcome))"

lemma flags_coherent: "flags_of db' = flags_of db \<Longrightarrow> coherent db \<Longrightarrow> coherent db'"
  by (auto simp: flags_of_def coherent_def)

lemma flags_tx: "flags_of db' = flags_of db \<Longrightarrow> tx_of db' = tx_of db"
  by (auto simp: flags_of_def tx_of_def)

lemma after_error_step:
  assumes "after_error (flags_of db) (flags_of db')" "coherent db"
  shows "coherent db' \<and> (tx_of db' = tx_of db \<or> tx_of db = Active \<and> tx_of db' = Broken)"
  using assms by (cases "db_backend db") (auto simp: after_error_def flags_of_def coherent_def tx_of_def)

lemma is_soci_Terminate [simp]: "\<not> is_soci Terminate"
  by (simp add: is_soci_def)

lemma usable: "ensureSessionUsable p op db = (Inr x, db') \<Longrightarrow> db_backend db \<noteq> None \<and> \<not> db_transactionFailed db"
  by (auto simp: ensureSessionUsable_def getBackend_def isConnected_def databaseThrow_def act_results split: if_splits)

lemma statement_stepped:
  assumes "quiet m" "\<And>x db'. m db = (Inr x, db') \<Longrightarrow> db_backend db \<noteq> None \<and> \<not> db_transactionFailed db"
    and "is_statement call" "coherent db"
  shows "stepped call db (thenA m (retA ()) db)"
proof (cases "thenA m (retA ()) db")
  case (Pair r db')
  show ?thesis
  proof (cases r)
    case (Inl e)
    with Pair have run: "m db = (Inl e, db')" by (auto simp: act_results)
    show ?thesis
    proof (cases "e = Terminate")
      case False
      with after_error_step [OF quiet_Inl [OF assms(1) run False] assms(4)] assms(3) show ?thesis
        by (auto simp: Pair Inl stepped_def intro: tx_step.intros)
    qed (simp add: Pair Inl stepped_def)
  next
    case (Inr u)
    with Pair obtain x where run: "m db = (Inr x, db')" by (auto simp: act_results)
    have same: "flags_of db' = flags_of db" by (rule quiet_Inr [OF assms(1) run])
    have "tx_of db = Idle \<or> tx_of db = Active" using assms(2) [OF run] by (auto simp: tx_of_def)
    then show ?thesis
      using assms(3,4) flags_tx [OF same] flags_coherent [OF same] by (auto simp: Pair Inr stepped_def intro: tx_step.executed)
  qed
qed

lemmas statement_defs = executeMutation_def executeSql_def executeInsertIfAbsent_def tableExists_def ensure_statement_def
  ensureDdlSupported_def

section \<open>Transactions, step by step\<close>

lemma getBackend_run [act_simps]:
  "getBackend ops db = (if isConnected ops db then Inr ()
     else Inl (DatabaseError DbNotConnected Empty ''database operation'' ''No database session is connected'' None), db)"
  by (simp add: getBackend_def bindA_def)

lemma databaseThrow_run [act_simps]: "databaseThrow error op message db = (Inl (DatabaseError error (backendType db) op message None), db)"
  by (simp add: databaseThrow_def bindA_def)

lemma requireCapability_run [act_simps]:
  "requireCapability b op message db =
     (if b then Inr () else Inl (DatabaseError DbUnsupportedFeature (backendType db) op message None), db)"
  by (simp add: requireCapability_def databaseThrow_run)

lemma thenA_run [act_simps]: "thenA m n db = (case m db of (Inl e, db') \<Rightarrow> (Inl e, db') | (Inr x, db') \<Rightarrow> n db')"
  by (simp add: thenA_def bindA_def)

lemma throwTranslatedError_run:
  "db_backend db \<noteq> None \<Longrightarrow> throwTranslatedError p e fallback op db =
     (Inl (so_translate (pv_ops p) e fallback op),
      if db_transaction db \<and> pv_invalidates p e then db\<lparr>db_transactionFailed := True\<rparr> else db)"
  by (auto simp: throwTranslatedError_def bindA_def thenA_def)

text \<open>The database with a new session and the transaction flags reset.\<close>

definition reset_with :: "'d \<Rightarrow> 'd database \<Rightarrow> 'd database" where
  "reset_with d db = db\<lparr>db_session := d, db_transaction := False, db_transactionFailed := False\<rparr>"

lemma end_transaction_run:
  assumes "db_backend db \<noteq> None"
  shows "end_transaction p finish op db =
     (case finish (db_session db) of
        (Inr _, d) \<Rightarrow> (Inr (), reset_with d db)
      | (Inl e, d) \<Rightarrow> if is_soci e then (Inl (so_translate (pv_ops p) e DbTransaction op), reset_with d db)
                     else (Inl e, db\<lparr>db_session := d\<rparr>))"
  using assms
  by (cases "finish (db_session db)"; cases "fst (finish (db_session db))")
    (auto simp: end_transaction_def catchA_def thenA_run sessionA_def reset_transaction_def reset_with_def
      throwTranslatedError_run)

lemma beginTransaction_run:
  "beginTransaction p db =
     (if \<not> isConnected (pv_ops p) db
      then (Inl (DatabaseError DbNotConnected Empty ''database operation'' ''No database session is connected'' None), db)
      else if \<not> bc_transactions (pv_capabilities p)
      then (Inl (DatabaseError DbUnsupportedFeature (backendType db) ''begin transaction'' ''transactions are not supported'' None), db)
      else if db_transaction db \<or> db_migrationActive db
      then (Inl (DatabaseError DbTransaction (backendType db) ''begin transaction'' ''A transaction is already active'' None), db)
      else case pv_transaction p (db_session db) of
        (Inr _, d) \<Rightarrow> (Inr (), db\<lparr>db_session := d, db_transaction := True, db_transactionFailed := False\<rparr>)
      | (Inl e, d) \<Rightarrow> (Inl (if is_soci e then so_translate (pv_ops p) e DbTransaction ''begin transaction'' else e),
                      db\<lparr>db_session := d\<rparr>))"
  by (cases "pv_transaction p (db_session db)"; cases "fst (pv_transaction p (db_session db))")
    (auto simp: beginTransaction_def thenA_run getBackend_run requireCapability_run databaseThrow_run bindA_def catchA_def
      sessionA_def driver_handler_def throwTranslatedError_run isConnected_def)

lemma connected_backend: "isConnected ops db \<Longrightarrow> db_backend db \<noteq> None"
  by (simp add: isConnected_def)

lemma begin_stepped:
  assumes "coherent db"
  shows "stepped CallBegin db (beginTransaction p db)"
proof -
  have keep: "coherent (db\<lparr>db_session := d\<rparr>)" "tx_of (db\<lparr>db_session := d\<rparr>) = tx_of db" for d
    using flags_coherent [of "db\<lparr>db_session := d\<rparr>" db] flags_tx [of "db\<lparr>db_session := d\<rparr>" db] assms by simp_all
  have opened: "coherent (db\<lparr>db_session := d, db_transaction := True, db_transactionFailed := False\<rparr>)"
    "tx_of (db\<lparr>db_session := d, db_transaction := True, db_transactionFailed := False\<rparr>) = Active" if "db_backend db \<noteq> None" for d
    using that by (simp_all add: coherent_def tx_of_def)
  have "tx_of db = Idle" if "db_backend db \<noteq> None" "\<not> db_transaction db" using that by (simp add: tx_of_def)
  then show ?thesis
    using assms keep opened connected_backend [of "pv_ops p" db]
    by (auto simp: beginTransaction_run stepped_def intro: tx_step.intros split: prod.splits sum.splits)
qed

lemma end_stepped:
  assumes "db_backend db \<noteq> None" "\<And>d e d'. finish d = (Inl e, d') \<Longrightarrow> is_soci e"
    and "end_transaction p finish op db = (r, db')"
  shows "coherent db' \<and> tx_of db' = Idle"
  using assms by (auto simp: end_transaction_run reset_with_def coherent_def tx_of_def split: prod.splits sum.splits if_splits)

lemma commit_stepped:
  assumes "coherent db" "soci_driver p"
  shows "stepped CallCommit db (commitTransaction p db)"
proof -
  note driver = soci_driverD(2) [OF assms(2)]
  show ?thesis
  proof (cases "isConnected (pv_ops p) db \<and> db_transaction db \<and> \<not> db_transactionFailed db")
    case True
    then have "db_backend db \<noteq> None" "tx_of db = Active" by (auto simp: isConnected_def tx_of_def)
    with True end_stepped [OF _ driver, where op = "''commit transaction''" and p = p and db = db] show ?thesis
      by (cases "end_transaction p (pv_commit p) ''commit transaction'' db")
        (auto simp: commitTransaction_def thenA_run getBackend_run bindA_def stepped_def intro: tx_step.intros)
  qed (use assms(1) in \<open>auto simp: commitTransaction_def thenA_run getBackend_run databaseThrow_run bindA_def stepped_def
      intro: tx_step.intros\<close>)
qed

lemma rollback_stepped:
  assumes "coherent db" "soci_driver p"
  shows "stepped CallRollback db (rollbackTransaction p db)"
proof -
  note driver = soci_driverD(1) [OF assms(2)]
  show ?thesis
  proof (cases "isConnected (pv_ops p) db \<and> db_transaction db")
    case True
    then have "db_backend db \<noteq> None" "tx_of db = Active \<or> tx_of db = Broken" by (auto simp: isConnected_def tx_of_def)
    with True end_stepped [OF _ driver, where op = "''rollback transaction''" and p = p and db = db] show ?thesis
      by (cases "end_transaction p (so_tx_rollback (pv_ops p)) ''rollback transaction'' db")
        (auto simp: rollbackTransaction_def thenA_run getBackend_run bindA_def stepped_def intro: tx_step.intros)
  qed (use assms(1) in \<open>auto simp: rollbackTransaction_def thenA_run getBackend_run databaseThrow_run bindA_def stepped_def
      intro: tx_step.intros\<close>)
qed

lemma disconnect_closed:
  assumes "coherent db" "soci_driver p" "disconnect (pv_ops p) db = (r, db')" "r \<noteq> Inl Terminate"
  shows "coherent db' \<and> tx_of db' = Closed"
proof (cases "db_backend db")
  case None
  with assms show ?thesis by (simp add: disconnect_def bindA_def tx_of_def)
next
  case (Some b)
  note driver = soci_driverD(1) [OF assms(2)]
  let ?first = "if db_transaction db then disconnect_rollback (pv_ops p) else retA None"
  have first: "\<exists>failure db1. ?first db = (Inr failure, db1) \<and> \<not> db_transaction db1 \<and> db_backend db1 = Some b"
  proof (cases "db_transaction db")
    case True
    then show ?thesis
      using driver [of "db_session db"] Some
      by (cases "so_tx_rollback (pv_ops p) (db_session db)"; cases "fst (so_tx_rollback (pv_ops p) (db_session db))")
        (auto simp: disconnect_rollback_def bindA_def thenA_run catchA_def sessionA_def dest: driver)
  qed (use Some in auto)
  then obtain failure db1 where db1: "?first db = (Inr failure, db1)" "\<not> db_transaction db1" by blast
  have close: "(\<exists>later. fst (disconnect_close (pv_ops p) b failure db1) = Inr later) \<or>
      fst (disconnect_close (pv_ops p) b failure db1) = Inl Terminate"
    "\<not> db_transaction (snd (disconnect_close (pv_ops p) b failure db1))"
    using db1(2) by (auto simp: disconnect_close_def catchA_def thenA_run sessionA_def split: prod.splits sum.splits)
  with assms(3,4) Some db1(1) show ?thesis
    by (cases "disconnect_close (pv_ops p) b failure db1")
      (auto simp: disconnect_def bindA_def thenA_run coherent_def tx_of_def split: option.splits)
qed

lemma connect_stepped:
  assumes "coherent db"
  shows "stepped (CallConnect requested config) db (connect backends requested config db)"
proof (cases "db_backend db")
  case (Some b)
  with assms show ?thesis by (auto simp: connect_def bindA_def databaseThrow_run stepped_def intro: tx_step.intros)
next
  case None
  then have closed: "tx_of db = Closed" by (simp add: tx_of_def)
  show ?thesis
  proof (cases "map_of backends requested")
    case None
    with \<open>db_backend db = None\<close> assms show ?thesis by (auto simp: connect_def bindA_def stepped_def intro: tx_step.intros)
  next
    case (Some p)
    have quiet: "quiet (thenA (sessionA (pv_open p config)) (sessionA (pv_onConnect p)))" by (intro quiet_intros)
    show ?thesis
    proof (cases "thenA (sessionA (pv_open p config)) (sessionA (pv_onConnect p)) db")
      case (Pair r db1)
      have flags: "flags_of db1 = flags_of db" if "r \<noteq> Inl Terminate"
      proof (cases r)
        case (Inl e)
        with quiet_Inl [OF quiet, of db e db1] Pair that \<open>db_backend db = None\<close> show ?thesis
          by (auto simp: after_error_def flags_of_def)
      qed (use quiet_Inr [OF quiet] Pair in auto)
      have closing: "flags_of (snd (closeFailedSession p db1)) = flags_of db1" "fst (closeFailedSession p db1) \<in> {Inr (), Inl Terminate}"
        by (auto simp: closeFailedSession_def catchA_def sessionA_def split: prod.splits sum.splits)
      have same: "coherent db2 \<and> tx_of db2 = Closed" if "flags_of db2 = flags_of db" for db2 :: "'a database"
        using flags_coherent [OF that assms] flags_tx [OF that] closed by simp
      have opened: "coherent (db1\<lparr>db_backend := Some requested\<rparr>) \<and> tx_of (db1\<lparr>db_backend := Some requested\<rparr>) = Idle"
        if "flags_of db1 = flags_of db"
        using that assms \<open>db_backend db = None\<close> by (auto simp: flags_of_def coherent_def tx_of_def)
      show ?thesis
        using Pair Some \<open>db_backend db = None\<close> flags closing same opened closed
        by (cases r; cases "closeFailedSession p db1")
          (auto simp: connect_def bindA_def thenA_run [of "catchA _ _"] thenA_run [of "closeFailedSession p"] catchA_def stepped_def
            intro: tx_step.intros)
    qed
  qed
qed

lemma with_provider_stepped:
  assumes "coherent db" "\<And>b p. (b, p) \<in> set backends \<Longrightarrow> stepped call db (action p db)"
  shows "stepped call db (with_provider backends action db)"
proof (cases "Option.bind (db_backend db) (map_of backends)")
  case None
  with assms(1) show ?thesis by (auto simp: with_provider_def bindA_def stepped_def intro: tx_step.refused)
next
  case (Some p)
  then obtain b where "(b, p) \<in> set backends" by (cases "db_backend db") (auto dest: map_of_SomeD)
  with assms(2) Some show ?thesis by (simp add: with_provider_def bindA_def)
qed

lemma thenA_unit: "thenA m (retA ()) = m" for m :: "('s, unit) act"
  by (auto simp: thenA_def bindA_def fun_eq_iff split: prod.splits sum.splits)

lemma statement_guards:
  "executeMutation p st op db = (Inr x, db') \<Longrightarrow> db_backend db \<noteq> None \<and> \<not> db_transactionFailed db"
  "executeSql p sql op db = (Inr y, db') \<Longrightarrow> db_backend db \<noteq> None \<and> \<not> db_transactionFailed db"
  "executeInsertIfAbsent p st conflict op db = (Inr x, db') \<Longrightarrow> db_backend db \<noteq> None \<and> \<not> db_transactionFailed db"
  "tableExists p name db = (Inr z, db') \<Longrightarrow> db_backend db \<noteq> None \<and> \<not> db_transactionFailed db"
  unfolding statement_defs thenA_Inr by (elim exE conjE, erule usable)+

lemma disconnect_stepped:
  assumes "coherent db" "\<forall>(b, p) \<in> set backends. soci_driver p"
  shows "stepped CallDisconnect db (perform backends CallDisconnect db)"
proof (cases "db_backend db")
  case None
  with assms(1) show ?thesis by (auto simp: bindA_def stepped_def tx_of_def intro: tx_step.disconnected)
next
  case (Some b)
  have "stepped CallDisconnect db (disconnect (pv_ops p) db)" if "(b, p) \<in> set backends" for b p
  proof -
    have "soci_driver p" using assms(2) that by auto
    from disconnect_closed [OF assms(1) this] show ?thesis
      by (cases "disconnect (pv_ops p) db") (auto simp: stepped_def intro: tx_step.disconnected)
  qed
  then have "stepped CallDisconnect db (with_provider backends (\<lambda>p. disconnect (pv_ops p)) db)"
    by (rule with_provider_stepped [OF assms(1)])
  with Some show ?thesis by (simp add: bindA_def)
qed

lemma perform_stepped:
  assumes "coherent db" "\<forall>(b, p) \<in> set backends. soci_driver p"
  shows "stepped call db (perform backends call db)"
proof (cases call)
  case (CallConnect backend config)
  then show ?thesis using connect_stepped [OF assms(1)] by simp
next
  case CallDisconnect
  show ?thesis unfolding CallDisconnect by (rule disconnect_stepped [OF assms])
next
  case CallBegin
  show ?thesis unfolding CallBegin perform.simps by (rule with_provider_stepped [OF assms(1)], rule begin_stepped [OF assms(1)])
next
  case CallCommit
  show ?thesis unfolding CallCommit perform.simps
    by (rule with_provider_stepped [OF assms(1)], rule commit_stepped [OF assms(1)]) (use assms(2) in auto)
next
  case CallRollback
  show ?thesis unfolding CallRollback perform.simps
    by (rule with_provider_stepped [OF assms(1)], rule rollback_stepped [OF assms(1)]) (use assms(2) in auto)
next
  case (CallMutation st op)
  show ?thesis unfolding CallMutation perform.simps
    by (rule with_provider_stepped [OF assms(1)],
        rule statement_stepped [OF quiet_executeMutation _ _ assms(1)], erule statement_guards) simp
next
  case (CallSql sql op)
  show ?thesis unfolding CallSql perform.simps
    by (rule with_provider_stepped [OF assms(1)], subst thenA_unit [symmetric],
        rule statement_stepped [OF quiet_executeSql _ _ assms(1)], erule statement_guards) simp
next
  case (CallInsertIfAbsent st conflict op)
  show ?thesis unfolding CallInsertIfAbsent perform.simps
    by (rule with_provider_stepped [OF assms(1)],
        rule statement_stepped [OF quiet_executeInsertIfAbsent _ _ assms(1)], erule statement_guards) simp
next
  case (CallTableExists name)
  show ?thesis unfolding CallTableExists perform.simps
    by (rule with_provider_stepped [OF assms(1)],
        rule statement_stepped [OF quiet_tableExists _ _ assms(1)], erule statement_guards) simp
qed

section \<open>Limits\<close>

text \<open>What the checks before a statement accept.\<close>

definition parameter_accepted :: "backend_capabilities \<Rightarrow> runtime_limits \<Rightarrow> statement_parameter \<Rightarrow> bool" where
  "parameter_accepted capabilities limits parameter \<longleftrightarrow>
     (case getBoundValue parameter of
        Inl _ \<Rightarrow> False
      | Inr bound \<Rightarrow> supportsColumnType capabilities (bv_logicalType bound) \<and>
          isWithinValueLimits (bv_logicalType bound) (bv_value bound) (bc_valueLimits capabilities) limits)"

definition statement_accepted :: "backend_capabilities \<Rightarrow> runtime_limits \<Rightarrow> statement \<Rightarrow> bool" where
  "statement_accepted capabilities limits st \<longleftrightarrow>
     (case rl_maxBindParameters limits of None \<Rightarrow> True | Some maximum \<Rightarrow> length (st_parameters st) \<le> maximum) \<and>
     mk_affectedRows (bc_mutations capabilities) = RowsReliable \<and>
     list_all (parameter_accepted capabilities limits) (st_parameters st)"

text \<open>A connection that can be used and whose limits can be read without changing it.\<close>

definition measured :: "('d, 'r, 'c, 'v) provider \<Rightarrow> runtime_limits \<Rightarrow> 'd database \<Rightarrow> bool" where
  "measured p limits db \<longleftrightarrow> isConnected (pv_ops p) db \<and> \<not> db_transactionFailed db \<and>
     so_limits (pv_ops p) (db_session db) = (Inr limits, db_session db)"

lemma usable_run: "measured p limits db \<Longrightarrow> ensureSessionUsable p op db = (Inr (), db)"
  by (simp add: measured_def ensureSessionUsable_def thenA_run getBackend_run bindA_def)

lemma limits_run: "measured p limits db \<Longrightarrow> getBackendRuntimeLimits p db = (Inr limits, db)"
  using usable_run [of p limits db]
  by (simp add: measured_def getBackendRuntimeLimits_def thenA_run catchA_def getBackend_run sessionA_def)

lemma parameter_run:
  assumes "measured p limits db"
  shows "snd (ensure_parameter p op parameter db) = db \<and>
    (isOk (fst (ensure_parameter p op parameter db)) \<longleftrightarrow> parameter_accepted (pv_capabilities p) limits parameter)"
  using limits_run [OF assms] assms
  by (auto simp: ensure_parameter_def parameter_accepted_def ensureBoundValueSupported_def bindA_def thenA_run getBackend_run
    requireCapability_run databaseThrow_run measured_def split: sum.splits)

lemma parameters_run:
  assumes "measured p limits db"
  shows "snd (forA (ensure_parameter p op) parameters db) = db \<and>
    (isOk (fst (forA (ensure_parameter p op) parameters db)) \<longleftrightarrow>
     list_all (parameter_accepted (pv_capabilities p) limits) parameters)"
proof (induction parameters)
  case (Cons parameter parameters)
  then show ?case
    using parameter_run [OF assms, of op parameter]
    by (cases "ensure_parameter p op parameter db") (auto simp: thenA_run split: sum.splits)
qed simp

lemma statement_run:
  assumes "measured p limits db"
  shows "snd (ensure_statement p st op db) = db \<and>
    (isOk (fst (ensure_statement p st op db)) \<longleftrightarrow> statement_accepted (pv_capabilities p) limits st)"
  using parameters_run [OF assms, of op "st_parameters st"] limits_run [OF assms] usable_run [OF assms, of op] assms
  by (auto simp: ensure_statement_def thenA_run statement_accepted_def ensureStatementWithinBindLimit_def
    ensureAffectedRowsAvailable_def bindA_def getBackend_run databaseThrow_run measured_def split: option.splits)

section \<open>A provider\<close>

text \<open>A session in memory behind the tables of SQLite; one statement of it fails and invalidates the transaction.\<close>

definition memory_provider :: "(memory, memory_row, unit, unit) provider" where
  "memory_provider =
     \<lparr>pv_ops = (memory_ops WholeMigration (\<lambda>_. False))\<lparr>so_limits := retA sqlite_limits\<rparr>,
      pv_capabilities = sqliteCapabilities, pv_dialect = sqlite_dialect, pv_open = (\<lambda>_. retA ()), pv_onConnect = retA (),
      pv_transaction = retA (), pv_commit = retA (), pv_tableExists = (\<lambda>_. retA True), pv_values = (),
      pv_bind = (\<lambda>_ _ bound. bindR (sqlite_bind bound) (\<lambda>_. Inr ())),
      pv_execute = (\<lambda>sql _. if sql = ''fail'' then throwA (SociError None) else retA 1), pv_run = (\<lambda>_. retA ()),
      pv_count = (\<lambda>_ _. retA 0), pv_normalizeAffectedRows = normalizeAffectedRows, pv_insertIfAbsent = (\<lambda>_ _. retA 1),
      pv_invalidates = (\<lambda>_. True)\<rparr>"

definition memory_database :: "bool \<Rightarrow> bool \<Rightarrow> bool \<Rightarrow> memory database" where
  "memory_database connected active failed =
     \<lparr>db_backend = (if connected then Some Sqlite else None), db_transaction = active, db_transactionFailed = failed,
      db_migrationActive = False,
      db_session = \<lparr>mem_history = [], mem_saved = [], mem_journal = [], mem_marker = [], mem_started = False\<rparr>,
      db_scope = None, db_lock = None, db_rebuild = None\<rparr>"

lemma memory_soci: "soci_driver memory_provider"
  by (simp add: soci_driver_def memory_provider_def memory_ops_def)

lemma memory_connected: "isConnected (pv_ops memory_provider) (memory_database True active failed)"
  by (simp add: isConnected_def memory_database_def memory_provider_def memory_ops_def)

section \<open>Properties\<close>

inductive session_reachable :: "('d, 'r, 'c, 'v) factory \<Rightarrow> 'd database \<Rightarrow> bool" for backends where
  start: "flags_of db = (None, False, False, False) \<Longrightarrow> session_reachable backends db"
| after_call: "session_reachable backends db \<Longrightarrow> perform backends call db = (r, db') \<Longrightarrow> r \<noteq> Inl Terminate \<Longrightarrow>
    session_reachable backends db'"

lemma session_coherent:
  assumes "session_reachable backends db" "\<forall>(b, p) \<in> set backends. soci_driver p"
  shows "coherent db"
  using assms(1)
proof (induction rule: session_reachable.induct)
  case (start db)
  then show ?case by (simp add: flags_of_def coherent_def)
next
  case (after_call db call r db')
  then show ?case using perform_stepped [OF after_call.IH assms(2), of call] by (simp add: stepped_def)
qed



text \<open>
  C13. A transaction with a failed statement is frozen: until it is rolled back or the database is disconnected, every call
  throws a \<^verbatim>\<open>DatabaseError\<close> of the connected backend before it reaches the driver, and the session and the flags stay as
  they are.
\<close>

theorem failed_transaction_frozen:
  assumes "db_backend db = Some b" "map_of backends b = Some p" "isConnected (pv_ops p) db"
    and "db_transaction db" "db_transactionFailed db" "call \<noteq> CallRollback" "call \<noteq> CallDisconnect"
  shows "\<exists>error operation message. perform backends call db = (Inl (DatabaseError error b operation message None), db)"
proof -
  have backend: "backendType db = b" using assms(1) by (simp add: backendType_def)
  have found: "with_provider backends action db = action p db" for action
    using assms(1,2) by (simp add: with_provider_def bindA_def)
  have unusable: "ensureSessionUsable p op db =
      (Inl (DatabaseError DbTransaction b op ''The failed transaction must be rolled back before another SQL operation'' None), db)" for op
    using assms(3,5) backend by (simp add: ensureSessionUsable_def thenA_run getBackend_run bindA_def databaseThrow_run)
  show ?thesis
  proof (cases call)
    case (CallConnect requested config)
    with assms(1) backend show ?thesis by (simp add: connect_def bindA_def databaseThrow_run)
  next
    case CallBegin
    with found assms(3,4) backend show ?thesis by (simp add: beginTransaction_run)
  next
    case CallCommit
    with found assms(3,4,5) backend show ?thesis
      by (simp add: commitTransaction_def thenA_run getBackend_run bindA_def databaseThrow_run)
  qed (use assms(6,7) found unusable in \<open>simp_all add: statement_defs thenA_run\<close>)
qed

theorem failed_transaction_frozen_witness:
  "\<exists>error operation message. perform [(Sqlite, memory_provider)] CallCommit (memory_database True True True) =
     (Inl (DatabaseError error Sqlite operation message None), memory_database True True True)"
  by (rule failed_transaction_frozen [where p = memory_provider]) (simp_all add: memory_connected, simp_all add: memory_database_def)

text \<open>
  C14. A statement beyond the limits of the backend never reaches the driver: when it has more parameters than the session
  can bind, a value of an unsupported type or outside the value limits, or a NULL without a type, mutations and links throw
  and leave the database as it was.
\<close>

theorem over_limit_never_sent:
  assumes "measured p limits db" "\<not> statement_accepted (pv_capabilities p) limits st"
  shows "(\<exists>e. executeMutation p st operation db = (Inl e, db)) \<and>
    (\<exists>e. executeInsertIfAbsent p st conflict operation db = (Inl e, db))"
proof -
  from statement_run [OF assms(1), of st operation] assms(2) obtain e where "ensure_statement p st operation db = (Inl e, db)"
    by (cases "ensure_statement p st operation db"; cases "fst (ensure_statement p st operation db)") auto
  then show ?thesis by (simp add: executeMutation_def executeInsertIfAbsent_def thenA_run)
qed

theorem over_limit_never_sent_witness:
  "\<exists>e. executeMutation memory_provider
     \<lparr>st_sql = ''s'', st_parameters = [\<lparr>sm_name = ''p'', sm_value = None, sm_nullType = Some UuidT\<rparr>]\<rparr> ''insert''
     (memory_database True False False) = (Inl e, memory_database True False False)"
proof -
  let ?st = "\<lparr>st_sql = ''s'', st_parameters = [\<lparr>sm_name = ''p'', sm_value = None, sm_nullType = Some UuidT\<rparr>]\<rparr>"
  have "measured memory_provider sqlite_limits (memory_database True False False)"
    using memory_connected [of False False] by (simp add: measured_def memory_provider_def memory_ops_def memory_database_def)
  moreover have "\<not> statement_accepted (pv_capabilities memory_provider) sqlite_limits ?st"
    by (simp add: statement_accepted_def parameter_accepted_def getBoundValue_def getLogicalType_def supportsColumnType_def
      memory_provider_def sqliteCapabilities_def basic_types_def)
  ultimately show ?thesis using over_limit_never_sent by blast
qed

end
