(* ===== verification/Orm_Query_Support_Safety.thy ===== *)
theory Orm_Query_Support_Safety
  imports Orm_Query_Support Orm_Support_Safety Orm_Statements Orm_Session_Safety
begin

text \<open>
  What the checks of queries guarantee. The reference reads a predicate tree directly: each column it names resolves in the
  model it is read against, which changes inside a collection predicate, and has a type of the backend.
\<close>

section \<open>Types of predicates\<close>

definition source_typed :: "backend_capabilities \<Rightarrow> schema_view \<Rightarrow> model_data \<Rightarrow> sql_source \<Rightarrow> bool" where
  "source_typed capabilities schema model source \<longleftrightarrow>
     src_path source \<noteq> [] \<longrightarrow> (\<exists>info type. resolveSqlColumn schema source model False = Inr info \<and>
       cv_type (ci_column info) = Some type \<and> supportsColumnType capabilities type)"

definition path_typed :: "backend_capabilities \<Rightarrow> schema_view \<Rightarrow> model_data \<Rightarrow> string \<Rightarrow> bool" where
  "path_typed capabilities schema model path \<longleftrightarrow>
     (\<exists>source. parseSqlSource path = Inr source \<and> source_typed capabilities schema model source)"

definition collection_typed :: "backend_capabilities \<Rightarrow> schema_view \<Rightarrow> model_data \<Rightarrow> string \<Rightarrow> model_data \<Rightarrow> bool" where
  "collection_typed capabilities schema model field target \<longleftrightarrow>
     (\<exists>relation. findRelation model field = Some relation \<and> rv_kind relation \<noteq> ToOne \<and>
        resolveTarget_relation schema relation = Some target) \<and>
     (\<forall>i \<in> set (md_primaryKeyIndices target). i < length (md_columns target) \<and>
        (\<exists>type. cv_type (md_columns target ! i) = Some type \<and> supportsColumnType capabilities type))"

fun predicate_typed :: "backend_capabilities \<Rightarrow> schema_view \<Rightarrow> 'v predicate \<Rightarrow> model_data \<Rightarrow> bool" where
  "predicate_typed capabilities schema (ComparisonExpression path op v) model = path_typed capabilities schema model path"
| "predicate_typed capabilities schema (NullExpression path op) model = path_typed capabilities schema model path"
| "predicate_typed capabilities schema (ListExpression path op vs) model = path_typed capabilities schema model path"
| "predicate_typed capabilities schema (BetweenExpression path op a b) model = path_typed capabilities schema model path"
| "predicate_typed capabilities schema (LogicalExpression left op right) model \<longleftrightarrow>
     predicate_typed capabilities schema left model \<and> predicate_typed capabilities schema right model"
| "predicate_typed capabilities schema (NotExpression inner) model = predicate_typed capabilities schema inner model"
| "predicate_typed capabilities schema (RawExpression sql parameters) model = True"
| "predicate_typed capabilities schema (CollectionExpression field op None) model \<longleftrightarrow>
     (\<exists>target. collection_typed capabilities schema model field target)"
| "predicate_typed capabilities schema (CollectionExpression field op (Some element)) model \<longleftrightarrow>
     (\<exists>target. collection_typed capabilities schema model field target \<and> predicate_typed capabilities schema element target)"

lemma require_feature_Inr [simp]: "require_feature backend supported operation message = Inr u \<longleftrightarrow> supported"
  by (simp add: require_feature_def)

lemma check_source_Inr [simp]:
  "check_source backend capabilities schema operation source model = Inr u \<longleftrightarrow> source_typed capabilities schema model source"
  by (auto simp: check_source_def source_typed_def split: option.splits)

lemma column_at_index_Inr: "column_at_index model i = Inr column \<longleftrightarrow> i < length (md_columns model) \<and> column = md_columns model ! i"
  by (auto simp: column_at_index_def)

lemma type_value_Inr: "type_value column = Inr type \<longleftrightarrow> cv_type column = Some type"
  by (auto simp: type_value_def split: option.splits)

lemma collection_target_Inr:
  "collection_target backend capabilities schema operation model field = Inr target \<longleftrightarrow>
     collection_typed capabilities schema model field target"
  by (auto simp: collection_target_def collection_typed_def requireCollectionRelation_def requireRelationTarget_def
      check_collection_key_def column_at_index_Inr type_value_Inr split: option.splits)

text \<open>What the check says of the node that was pushed last, as the outcome of one call.\<close>

abbreviation node_check where
  "node_check fuel backend capabilities schema operation query i model \<equiv>
     check_node fuel backend capabilities schema operation (q_nodes query) (Some i) model"

lemma pushed_node:
  assumes "push_node node t = (i, s')" "extends query (fst s')"
  shows "i < length (q_nodes query)" "q_nodes query ! i = node"
proof -
  have "i < length (q_nodes (fst s'))" "q_nodes (fst s') ! i = node"
    using assms(1) by (cases t; auto simp: push_node_def)+
  then show "i < length (q_nodes query)" "q_nodes query ! i = node" using extends_node [OF assms(2)] by auto
qed

lemma check_pushed:
  assumes "push_node node t = (i, s')" "extends query (fst s')" "i < fuel"
  shows "node_check fuel backend capabilities schema operation query i model =
    (let again = check_node (fuel - 1) backend capabilities schema operation (q_nodes query) in
      if nd_kind node = CollectionNode
      then bindR (collection_target backend capabilities schema operation model (nd_relation node)) (again (nd_left node))
      else if nd_kind node \<in> {AndNode, OrNode, NotNode}
      then bindR (again (nd_left node) model) (\<lambda>_. again (nd_right node) model)
      else if nd_kind node = RawNode then Inr ()
      else check_source backend capabilities schema operation (nd_source node) model)"
  using pushed_node [OF assms(1,2)] assms(3)
  by (cases fuel) (auto simp: Let_def split: sql_node_kind.splits)

lemma pushed_operand:
  assumes "push_node node u = (i, s')" "extends query (fst s')" "i < fuel"
  shows "extends query (fst u)" "built s u j parameters added \<Longrightarrow> j < fuel - 1"
  using push_extends [OF assms(1,2)] push_position [OF assms(1)] assms(3) by (auto simp: built_def)

lemma appendPredicate_checked:
  assumes "appendPredicate p s = Inr (i, s')" "context_ok (snd s)" "extends query (fst s')" "i < fuel"
  shows "node_check fuel backend capabilities schema operation query i model = Inr () \<longleftrightarrow>
    predicate_typed capabilities schema p model"
  using assms
proof (induction p s arbitrary: i s' fuel model rule: appendPredicate.induct)
  case (5 left op right s)
  then obtain l t r u where t: "appendPredicate left s = Inr (l, t)" "appendPredicate right t = Inr (r, u)"
    and push: "push_node ((empty_node (logical_kind op))\<lparr>nd_left := Some l, nd_right := Some r\<rparr>) u = (i, s')" by auto
  note one = appendPredicate_builds [OF t(1) "5.prems"(2)]
  note two = appendPredicate_builds [OF t(2) built_ok(1) [OF one]]
  note root = pushed_operand [OF push "5.prems"(3,4)]
  have "node_check (fuel - 1) backend capabilities schema operation query l model = Inr () \<longleftrightarrow>
      predicate_typed capabilities schema left model"
    using one two by (intro "5.IH"(1) [OF t(1) "5.prems"(2) built_extends [OF two root(1)] le_less_trans [OF _ root(2) [OF two]]])
      (auto simp: built_def builds_context)
  moreover have "node_check (fuel - 1) backend capabilities schema operation query r model = Inr () \<longleftrightarrow>
      predicate_typed capabilities schema right model"
    by (rule "5.IH"(2) [OF t(1) refl t(2) built_ok(1) [OF one] root(1) root(2) [OF two]])
  ultimately show ?case
    by (simp add: check_pushed [OF push "5.prems"(3,4)] empty_node_def logical_kind_def Let_def)
next
  case (6 inner s)
  then obtain j t where t: "appendPredicate inner s = Inr (j, t)"
    and push: "push_node ((empty_node NotNode)\<lparr>nd_left := Some j\<rparr>) t = (i, s')" by auto
  note root = pushed_operand [OF push "6.prems"(3,4)]
  have "node_check (fuel - 1) backend capabilities schema operation query j model = Inr () \<longleftrightarrow>
      predicate_typed capabilities schema inner model"
    by (rule "6.IH" [OF t "6.prems"(2) root(1) root(2) [OF appendPredicate_builds [OF t "6.prems"(2)]]])
  then show ?case by (simp add: check_pushed [OF push "6.prems"(3,4)] empty_node_def Let_def)
next
  case (8 relation op s)
  then have push: "push_node (collection_node relation op None) s = (i, s')" by (simp add: collection_node_def empty_node_def)
  show ?case
    by (simp add: check_pushed [OF push "8.prems"(3,4)] collection_node_def empty_node_def Let_def collection_target_Inr)
next
  case (9 relation op element s)
  then obtain j t where t: "appendPredicate element s = Inr (j, t)"
    and push: "push_node (collection_node relation op (Some j)) t = (i, s')" by (auto simp: collection_node_def empty_node_def)
  note root = pushed_operand [OF push "9.prems"(3,4)]
  have "node_check (fuel - 1) backend capabilities schema operation query j target = Inr () \<longleftrightarrow>
      predicate_typed capabilities schema element target" for target
    by (rule "9.IH" [OF t "9.prems"(2) root(1) root(2) [OF appendPredicate_builds [OF t "9.prems"(2)]]])
  then show ?case
    by (simp add: check_pushed [OF push "9.prems"(3,4)] collection_node_def empty_node_def Let_def collection_target_Inr)
qed (auto simp: check_pushed empty_node_def path_typed_def Let_def)

fun having_typed :: "backend_capabilities \<Rightarrow> schema_view \<Rightarrow> 'v aggregate_predicate \<Rightarrow> model_data \<Rightarrow> bool" where
  "having_typed capabilities schema (AggregateComparison expression op v) model \<longleftrightarrow>
     (\<exists>source. aggregate_source expression = Inr source \<and> source_typed capabilities schema model source)"
| "having_typed capabilities schema (AggregateLogical left op right) model \<longleftrightarrow>
     having_typed capabilities schema left model \<and> having_typed capabilities schema right model"
| "having_typed capabilities schema (AggregateNot inner) model = having_typed capabilities schema inner model"

lemma appendHaving_checked:
  assumes "appendHaving p s = Inr (i, s')" "context_ok (snd s)" "extends query (fst s')" "i < fuel"
  shows "node_check fuel backend capabilities schema operation query i model = Inr () \<longleftrightarrow>
    having_typed capabilities schema p model"
  using assms
proof (induction p s arbitrary: i s' fuel rule: appendHaving.induct)
  case (2 left op right s)
  then obtain l t r u where t: "appendHaving left s = Inr (l, t)" "appendHaving right t = Inr (r, u)"
    and push: "push_node ((empty_node (logical_kind op))\<lparr>nd_left := Some l, nd_right := Some r\<rparr>) u = (i, s')" by auto
  note one = appendHaving_builds [OF t(1) "2.prems"(2)]
  note two = appendHaving_builds [OF t(2) built_ok(1) [OF one]]
  note root = pushed_operand [OF push "2.prems"(3,4)]
  have "node_check (fuel - 1) backend capabilities schema operation query l model = Inr () \<longleftrightarrow>
      having_typed capabilities schema left model"
    using one two by (intro "2.IH"(1) [OF t(1) "2.prems"(2) built_extends [OF two root(1)] le_less_trans [OF _ root(2) [OF two]]])
      (auto simp: built_def builds_context)
  moreover have "node_check (fuel - 1) backend capabilities schema operation query r model = Inr () \<longleftrightarrow>
      having_typed capabilities schema right model"
    by (rule "2.IH"(2) [OF t(1) refl t(2) built_ok(1) [OF one] root(1) root(2) [OF two]])
  ultimately show ?case
    by (simp add: check_pushed [OF push "2.prems"(3,4)] empty_node_def logical_kind_def Let_def)
next
  case (3 inner s)
  then obtain j t where t: "appendHaving inner s = Inr (j, t)"
    and push: "push_node ((empty_node NotNode)\<lparr>nd_left := Some j\<rparr>) t = (i, s')" by auto
  note root = pushed_operand [OF push "3.prems"(3,4)]
  have "node_check (fuel - 1) backend capabilities schema operation query j model = Inr () \<longleftrightarrow>
      having_typed capabilities schema inner model"
    by (rule "3.IH" [OF t "3.prems"(2) root(1) root(2) [OF appendHaving_builds [OF t "3.prems"(2)]]])
  then show ?case by (simp add: check_pushed [OF push "3.prems"(3,4)] empty_node_def Let_def)
qed (auto simp: check_pushed empty_node_def Let_def)

text \<open>The root of a predicate in a larger program.\<close>

lemma predicate_root:
  assumes "appendPredicate p s = Inr (i, s')" "context_ok (snd s)" "extends query (fst s')"
  shows "node_check (length (q_nodes query)) backend capabilities schema operation query i model = Inr () \<longleftrightarrow>
    predicate_typed capabilities schema p model"
proof (rule appendPredicate_checked [OF assms])
  have "Suc i = length (q_nodes (fst s'))" using appendPredicate_builds [OF assms(1,2)] by (simp add: built_def)
  then show "i < length (q_nodes query)" using assms(3) by (auto simp: extends_def)
qed

lemma having_root:
  assumes "appendHaving p s = Inr (i, s')" "context_ok (snd s)" "extends query (fst s')"
  shows "node_check (length (q_nodes query)) backend capabilities schema operation query i model = Inr () \<longleftrightarrow>
    having_typed capabilities schema p model"
proof (rule appendHaving_checked [OF assms])
  have "Suc i = length (q_nodes (fst s'))" using appendHaving_builds [OF assms(1,2)] by (simp add: built_def)
  then show "i < length (q_nodes query)" using assms(3) by (auto simp: extends_def)
qed

lemma extends_changed [simp]:
  "extends (program\<lparr>q_predicate := x\<rparr>) program" "extends (program\<lparr>q_having := x\<rparr>) program"
  "extends query (program\<lparr>q_predicate := x\<rparr>) = extends query program"
  by (simp_all add: extends_def)

text \<open>What a built program keeps of its start.\<close>

lemma built_program:
  assumes "built s s' i parameters added"
  shows "\<exists>nodes bindings. fst s' = (fst s)\<lparr>q_nodes := nodes, q_bindings := bindings\<rparr>"
  using assms by (auto simp: built_def builds_def)

section \<open>Predicates of writes\<close>

text \<open>
  The check of a write predicate changes nothing and accepts a predicate exactly when the backend has collection
  predicates in case it contains one outside or inside others, its paths and parameters are well formed, and every
  column it names, read in the model that is meant at its place, has a type of the backend.
\<close>

theorem write_predicate_accepted_iff:
  assumes "isConnected (pv_ops p) db" "schema_at schema m = Some descriptor"
  shows "snd (ensurePredicateSupported p schema m predicate operation db) = db \<and>
    (fst (ensurePredicateSupported p schema m predicate operation db) = Inr () \<longleftrightarrow>
      (containsCollectionPredicate predicate \<longrightarrow> qk_collectionPredicates (bc_query (pv_capabilities p)) \<and>
         rk_collectionPredicates (bc_relations (pv_capabilities p))) \<and>
      isOk (appendPredicate predicate
        (empty_query\<lparr>q_shouldJoin := False\<rparr>, new_context descriptor (pv_dialect p) False False)) \<and>
      predicate_typed (pv_capabilities p) schema predicate descriptor)"
proof -
  let ?start = "(empty_query\<lparr>q_shouldJoin := False\<rparr>, new_context descriptor (pv_dialect p) False False)"
  have types: "ensureQueryTypesSupported backend (pv_capabilities p) schema descriptor query operation = Inr () \<longleftrightarrow>
      predicate_typed (pv_capabilities p) schema predicate descriptor"
    if given: "append_where predicate ?start = Inr (query, context)" for backend query "context"
  proof -
    obtain i program where root: "appendPredicate predicate ?start = Inr (i, program, context)"
      and query: "query = program\<lparr>q_predicate := Some i\<rparr>" using given by (auto simp: append_where_def)
    obtain nodes bindings where program: "program = empty_query\<lparr>q_shouldJoin := False, q_nodes := nodes, q_bindings := bindings\<rparr>"
      using built_program [OF appendPredicate_builds [OF root]] by auto
    have "node_check (length (q_nodes query)) backend (pv_capabilities p) schema operation query i descriptor = Inr () \<longleftrightarrow>
        predicate_typed (pv_capabilities p) schema predicate descriptor"
      using predicate_root [OF root] by (simp add: query)
    then show ?thesis
      by (simp add: ensureQueryTypesSupported_def query program empty_query_def Let_def)
  qed
  have ok: "isOk (appendPredicate predicate ?start) \<longleftrightarrow> (\<exists>query context. append_where predicate ?start = Inr (query, context))"
    by (cases "appendPredicate predicate ?start") (auto simp: append_where_def)
  show ?thesis
    using assms types ok
    by (cases "append_where predicate ?start")
      (auto simp: ensurePredicateSupported_def act_simps bindA_def model_handle_def liftS_def check_collection_use_def require_feature_def
        split: sum.splits)
qed

theorem write_predicate_accepted_iff_witness:
  "fst (ensurePredicateSupported memory_provider [keyed_model 3] 0
      (NotExpression (NullExpression ''code'' IsNull)) ''remove'' (memory_database True False False)) = Inr ()"
proof -
  have connected: "isConnected (pv_ops memory_provider) (memory_database True False False)" by (rule memory_connected)
  have model: "schema_at [keyed_model 3] 0 = Some (keyed_model 3)" by (simp add: schema_at_def)
  have source: "parseSqlSource ''code'' = Inr (empty_source\<lparr>src_path := [''code'']\<rparr>)"
    by (simp add: parseSqlSource_def)
  have "path_typed (pv_capabilities memory_provider) [keyed_model 3] (keyed_model 3) ''code''"
    by (simp add: path_typed_def source source_typed_def resolveSqlColumn_def requireSqlColumn_def findColumn_def keyed_model_def
      type_value_def memory_provider_def sqliteCapabilities_def supportsColumnType_def basic_types_def)
  then show ?thesis
    using write_predicate_accepted_iff [OF connected model, of "NotExpression (NullExpression ''code'' IsNull)" "''remove''"]
    by (simp add: source push_node_def)
qed

section \<open>Selections\<close>

lemma appendPredicate_collects:
  "appendPredicate p s = Inr (i, s') \<Longrightarrow> context_ok (snd s) \<Longrightarrow> containsCollectionPredicate p \<Longrightarrow>
   list_ex (\<lambda>node. nd_kind node = CollectionNode) (q_nodes (fst s'))"
proof (induction p s arbitrary: i s' rule: appendPredicate.induct)
  case (5 left op right s)
  then obtain l t r u node where t: "appendPredicate left s = Inr (l, t)" "appendPredicate right t = Inr (r, u)"
    and push: "push_node node u = (i, s')" by auto
  note one = appendPredicate_builds [OF t(1) "5.prems"(2)]
  note two = appendPredicate_builds [OF t(2) built_ok(1) [OF one]]
  have "list_ex (\<lambda>node. nd_kind node = CollectionNode) (q_nodes (fst u))"
    using "5.IH"(1) [OF t(1) "5.prems"(2)] "5.IH"(2) [OF t(1) refl t(2) built_ok(1) [OF one]] "5.prems"(3) two
    by (auto simp: built_def builds_def)
  then show ?case using push by (cases u) (auto simp: push_node_def)
next
  case (6 inner s)
  then obtain j t node where "appendPredicate inner s = Inr (j, t)" "push_node node t = (i, s')" by auto
  then show ?case using "6.IH" "6.prems" by (cases t) (fastforce simp: push_node_def)
next
  case (8 relation op s)
  then show ?case by (cases s) (auto simp: push_node_def empty_node_def)
next
  case (9 relation op element s)
  then obtain j t where "push_node ((empty_node CollectionNode)\<lparr>nd_operation := collection_number op, nd_left := Some j,
      nd_relation := relation\<rparr>) t = (i, s')" by auto
  then show ?case by (cases t) (auto simp: push_node_def empty_node_def)
qed auto

text \<open>The program of a selection, from the one with its other clauses.\<close>

lemma select_where:
  assumes "append_where predicate (base, start) = Inr (program, context)" "context_ok start"
  shows "(\<exists>nodes bindings i. program = base\<lparr>q_nodes := nodes, q_bindings := bindings, q_predicate := Some i\<rparr>) \<and> context_ok context \<and>
    (extends query program \<longrightarrow> q_predicate query = q_predicate program \<longrightarrow>
      ensureQueryTypesSupported backend capabilities schema descriptor query operation = Inr () \<longrightarrow>
      predicate_typed capabilities schema predicate descriptor) \<and>
    (extends query program \<longrightarrow> containsCollectionPredicate predicate \<longrightarrow>
      list_ex (\<lambda>node. nd_kind node = CollectionNode) (q_nodes query))"
proof -
  obtain i inner where root: "appendPredicate predicate (base, start) = Inr (i, inner, context)"
    and program: "program = inner\<lparr>q_predicate := Some i\<rparr>" using assms(1) by (auto simp: append_where_def)
  note shape = appendPredicate_builds [OF root, simplified, OF assms(2)]
  have typed: "node_check (length (q_nodes query)) backend capabilities schema operation query i descriptor = Inr () \<longleftrightarrow>
      predicate_typed capabilities schema predicate descriptor" if "extends query program"
    using predicate_root [OF root] assms(2) that by (simp add: program)
  have "list_ex (\<lambda>node. nd_kind node = CollectionNode) (q_nodes query)"
    if "extends query program" "containsCollectionPredicate predicate"
    using appendPredicate_collects [OF root] assms(2) that by (auto simp: program extends_def)
  then show ?thesis
    using built_program [OF shape] built_ok(1) [OF shape] typed
    by (auto simp: program ensureQueryTypesSupported_def Let_def)
qed

lemma select_having:
  assumes "append_having having (base, start) = Inr (query, context)" "context_ok start"
  shows "(\<exists>nodes bindings i. query = base\<lparr>q_nodes := nodes, q_bindings := bindings, q_having := Some i\<rparr>) \<and> extends query base \<and>
    (ensureQueryTypesSupported backend capabilities schema descriptor query operation = Inr () \<longrightarrow>
      having_typed capabilities schema having descriptor)"
proof -
  obtain i inner where root: "appendHaving having (base, start) = Inr (i, inner, context)"
    and program: "query = inner\<lparr>q_having := Some i\<rparr>" using assms(1) by (auto simp: append_having_def)
  note shape = appendHaving_builds [OF root, simplified, OF assms(2)]
  have "node_check (length (q_nodes query)) backend capabilities schema operation query i descriptor = Inr () \<longleftrightarrow>
      having_typed capabilities schema having descriptor"
    using having_root [OF root] assms(2) by (simp add: program)
  then show ?thesis
    using built_program [OF shape] built_extends [OF shape, of query]
    by (auto simp: program ensureQueryTypesSupported_def Let_def)
qed

definition same_clauses :: "sql_query \<Rightarrow> sql_query \<Rightarrow> bool" where
  "same_clauses query base \<longleftrightarrow> q_orders query = q_orders base \<and> q_groups query = q_groups base \<and>
     q_projections query = q_projections base \<and> q_isDistinct query = q_isDistinct base \<and>
     q_shouldJoin query = q_shouldJoin base \<and> q_hasLimit query = q_hasLimit base \<and> q_hasOffset query = q_hasOffset base"

lemma select_predicates:
  assumes built: "appendSelectPredicates spec (base, start) = Inr (query, context)" and start: "context_ok start"
    and fresh: "q_having base = None"
    and types: "ensureQueryTypesSupported backend capabilities schema descriptor query operation = Inr ()"
  shows "same_clauses query base \<and> (q_having query = None \<longleftrightarrow> sel_having spec = None)"
    and "sel_predicate spec = Some predicate \<Longrightarrow> predicate_typed capabilities schema predicate descriptor \<and>
      (containsCollectionPredicate predicate \<longrightarrow> list_ex (\<lambda>node. nd_kind node = CollectionNode) (q_nodes query))"
    and "sel_having spec = Some having \<Longrightarrow> having_typed capabilities schema having descriptor"
proof -
  obtain program middle where first: "(case sel_predicate spec of None \<Rightarrow> Inr (base, start)
      | Some predicate \<Rightarrow> append_where predicate (base, start)) = Inr (program, middle)"
    and second: "(case sel_having spec of None \<Rightarrow> Inr (program, middle)
      | Some having \<Rightarrow> append_having having (program, middle)) = Inr (query, context)"
    using built by (auto simp: appendSelectPredicates_def)
  have one: "context_ok middle \<and> same_clauses program base \<and> q_having program = None"
  proof (cases "sel_predicate spec")
    case (Some predicate)
    then have "append_where predicate (base, start) = Inr (program, middle)" using first by simp
    from select_where [OF this start]
    obtain nodes bindings i where "program = base\<lparr>q_nodes := nodes, q_bindings := bindings, q_predicate := Some i\<rparr>"
      and "context_ok middle" by blast
    then show ?thesis using fresh by (simp add: same_clauses_def)
  qed (use first start fresh in \<open>auto simp: same_clauses_def\<close>)
  have two: "extends query program \<and> q_predicate query = q_predicate program \<and> same_clauses query program \<and>
      (q_having query = None \<longleftrightarrow> sel_having spec = None)"
  proof (cases "sel_having spec")
    case (Some having)
    then have "append_having having (program, middle) = Inr (query, context)" using second by simp
    from select_having [OF this conjunct1 [OF one]]
    obtain nodes bindings i where "query = program\<lparr>q_nodes := nodes, q_bindings := bindings, q_having := Some i\<rparr>"
      and "extends query program" by blast
    then show ?thesis using Some by (simp add: same_clauses_def)
  qed (use second one in \<open>auto simp: same_clauses_def\<close>)
  show "same_clauses query base \<and> (q_having query = None \<longleftrightarrow> sel_having spec = None)"
    using one two by (auto simp: same_clauses_def)
  show "predicate_typed capabilities schema predicate descriptor \<and>
      (containsCollectionPredicate predicate \<longrightarrow> list_ex (\<lambda>node. nd_kind node = CollectionNode) (q_nodes query))"
    if "sel_predicate spec = Some predicate"
    using select_where [of predicate base start program middle] first start two types that by simp blast
  show "having_typed capabilities schema having descriptor" if "sel_having spec = Some having"
    using select_having [of having program middle query "context"] second one types that by simp
qed

text \<open>Two paths of a query that mean the same column.\<close>

definition same_column :: "schema_view \<Rightarrow> model_data \<Rightarrow> bool \<Rightarrow> string \<Rightarrow> string \<Rightarrow> bool" where
  "same_column schema descriptor shouldJoin path path' \<longleftrightarrow>
     (\<exists>source source' column. parseSqlSource path = Inr source \<and> parseSqlSource path' = Inr source' \<and>
        columnIdentity schema descriptor shouldJoin source = Inr column \<and>
        columnIdentity schema descriptor shouldJoin source' = Inr column)"

lemma any_of_True: "any_of f xs = Inr True \<Longrightarrow> \<exists>x \<in> set xs. f x = Inr True"
  by (induction xs) (auto split: if_splits)

lemma mapR_element: "mapR f xs = Inr ys \<Longrightarrow> x \<in> set xs \<Longrightarrow> \<exists>y \<in> set ys. f x = Inr y"
  by (induction xs arbitrary: ys) auto

lemma mapR_source: "mapR f xs = Inr ys \<Longrightarrow> y \<in> set ys \<Longrightarrow> \<exists>x \<in> set xs. f x = Inr y"
  by (induction xs arbitrary: ys) auto

lemma mapR_empty: "mapR f xs = Inr ys \<Longrightarrow> ys = [] \<longleftrightarrow> xs = []"
  by (auto dest: mapR_length)

lemma check_grouped_same:
  assumes "check_grouped backend (columnIdentity schema descriptor join) groups message source = Inr u"
    and "mapR parseSqlSource paths = Inr groups" "parseSqlSource path = Inr source"
  shows "\<exists>group \<in> set paths. same_column schema descriptor join path group"
proof -
  obtain column where column: "columnIdentity schema descriptor join source = Inr column"
    and some: "any_of (\<lambda>group. bindR (columnIdentity schema descriptor join group) (\<lambda>other. Inr (other = column))) groups = Inr True"
    using assms(1) by (auto simp: check_grouped_def isGrouped_def)
  obtain group where "group \<in> set groups" "columnIdentity schema descriptor join group = Inr column"
    using any_of_True [OF some] by auto
  then show ?thesis using mapR_source [OF assms(2)] assms(3) column by (fastforce simp: same_column_def)
qed

definition clauses_supported :: "query_capabilities \<Rightarrow> 'v select_spec \<Rightarrow> bool" where
  "clauses_supported features spec \<longleftrightarrow>
     (sel_limit spec \<noteq> None \<longrightarrow> qk_limit features) \<and>
     (sel_offset spec \<noteq> None \<longrightarrow> qk_offset features \<and> (sel_limit spec = None \<longrightarrow> qk_offsetWithoutLimit features) \<and>
        (qk_offsetRequiresOrderBy features \<longrightarrow> sel_orderBy spec \<noteq> [])) \<and>
     (sel_projections spec \<noteq> [] \<longrightarrow> qk_projections features) \<and>
     (sel_projections spec = [] \<and> (sel_groupBy spec \<noteq> [] \<or> sel_having spec \<noteq> None) \<longrightarrow> qk_fullModelGrouping features) \<and>
     (sel_groupBy spec \<noteq> [] \<longrightarrow> qk_groupBy features) \<and> (sel_having spec \<noteq> None \<longrightarrow> qk_having features)"

definition grouped_projections :: "schema_view \<Rightarrow> model_data \<Rightarrow> 'v select_spec \<Rightarrow> bool" where
  "grouped_projections schema descriptor spec \<longleftrightarrow>
     (sel_groupBy spec \<noteq> [] \<or> sel_having spec \<noteq> None \<or> (\<exists>field expression. (field, AggregateSource expression) \<in> set (sel_projections spec)) \<longrightarrow>
        (\<forall>field path. (field, ColumnSource path) \<in> set (sel_projections spec) \<longrightarrow>
           (\<exists>group \<in> set (sel_groupBy spec). same_column schema descriptor (sel_shouldJoin spec) path group)))"

text \<open>The stages of the check, read off an accepted query.\<close>

lemma query_supported_stages:
  assumes "query_supported backend capabilities dialect schema descriptor query = Inr ()"
  shows "ensureQueryTypesSupported backend capabilities schema descriptor query ''select'' = Inr ()"
    "q_projections query = [] \<and> grouping_used query \<longrightarrow> qk_fullModelGrouping (bc_query capabilities)"
    "check_pagination backend (bc_query capabilities) query = Inr ()"
    "q_projections query \<noteq> [] \<longrightarrow> qk_projections (bc_query capabilities)"
    "q_groups query \<noteq> [] \<longrightarrow> qk_groupBy (bc_query capabilities)"
    "q_having query \<noteq> None \<longrightarrow> qk_having (bc_query capabilities)"
    "qk_strictProjectionGrouping (bc_query capabilities) \<and> q_projections query \<noteq> [] \<and>
       (grouping_used query \<or> list_ex (\<lambda>projection. src_isAggregate (pr_source projection)) (q_projections query)) \<longrightarrow>
       check_strict_grouping backend (columnIdentity schema descriptor (q_shouldJoin query)) query = Inr ()"
    "list_ex (\<lambda>node. nd_kind node = CollectionNode) (q_nodes query) \<longrightarrow>
       qk_collectionPredicates (bc_query capabilities) \<and> rk_collectionPredicates (bc_relations capabilities)"
  using assms unfolding query_supported_def Let_def bindR_Inr_iff raised_Inr
  by (auto split: if_splits simp: check_collection_use_def)

lemma accepted_spec_stages:
  assumes "schema_at schema m = Some descriptor" "fst (ensureSpecSupported p schema m spec db) = Inr ()"
  shows "\<exists>base query context. requirements_of spec = Inr base \<and>
    appendSelectPredicates spec (base, new_context descriptor (pv_dialect p) (sel_shouldJoin spec) False) = Inr (query, context) \<and>
    (\<exists>backend. query_supported backend (pv_capabilities p) (pv_dialect p) schema descriptor query = Inr ()) \<and>
    (sel_includes spec \<noteq> [] \<longrightarrow> rk_collectionIncludes (bc_relations (pv_capabilities p)))"
  using assms
  by (auto simp: ensureSpecSupported_def ensureQuerySupported_def act_simps bindA_def liftS_def model_handle_def
    split: sum.splits prod.splits if_splits)

lemma requirements_clauses:
  assumes "requirements_of spec = Inr base"
  shows "q_having base = None" "q_shouldJoin base = sel_shouldJoin spec" "q_hasLimit base \<longleftrightarrow> sel_limit spec \<noteq> None"
    "q_hasOffset base \<longleftrightarrow> sel_offset spec \<noteq> None" "q_orders base = [] \<longleftrightarrow> sel_orderBy spec = []"
    "mapR parseSqlSource (sel_groupBy spec) = Inr (q_groups base)"
    "mapR (\<lambda>(resultField, source). bindR (requirement_source source) (\<lambda>source.
       Inr \<lparr>pr_source = source, pr_alias = resultField\<rparr>)) (sel_projections spec) = Inr (q_projections base)"
  using assms by (auto simp: requirements_of_def empty_query_def dest: mapR_empty)

lemma requirement_column:
  assumes "requirements_of spec = Inr base" "(field, ColumnSource path) \<in> set (sel_projections spec)"
  shows "\<exists>source. parseSqlSource path = Inr source \<and> \<not> src_isAggregate source \<and>
    \<lparr>pr_source = source, pr_alias = field\<rparr> \<in> set (q_projections base)"
  using mapR_element [OF requirements_clauses(7) [OF assms(1)] assms(2)]
  by (auto simp: requirement_source_def dest: parseSqlSource_plain)

lemma requirement_aggregate:
  assumes "requirements_of spec = Inr base" "(field, AggregateSource expression) \<in> set (sel_projections spec)"
  shows "list_ex (\<lambda>projection. src_isAggregate (pr_source projection)) (q_projections base)"
  using mapR_element [OF requirements_clauses(7) [OF assms(1)] assms(2)]
  by (auto simp: requirement_source_def list_ex_iff intro: rev_bexI)

lemma accepted_clauses:
  assumes "requirements_of spec = Inr base" "same_clauses query base" "q_having query = None \<longleftrightarrow> sel_having spec = None"
    and "query_supported backend capabilities dialect schema descriptor query = Inr ()"
  shows "clauses_supported (bc_query capabilities) spec"
proof -
  note base = requirements_clauses [OF assms(1)] and stages = query_supported_stages [OF assms(4)]
  have empty: "q_groups base = [] \<longleftrightarrow> sel_groupBy spec = []" "q_projections base = [] \<longleftrightarrow> sel_projections spec = []"
    using mapR_empty [OF base(6)] mapR_empty [OF base(7)] by auto
  have "check_pagination backend (bc_query capabilities) query = check_pagination backend (bc_query capabilities) base"
    by (simp add: check_pagination_def assms(2) [unfolded same_clauses_def])
  then have "check_pagination backend (bc_query capabilities) base = Inr ()" using stages(3) by simp
  then show ?thesis
    using stages(2,4,5,6) assms(2,3) base(3-5) empty
    by (auto simp: clauses_supported_def check_pagination_def same_clauses_def grouping_used_def split: if_splits)
qed

lemma accepted_grouping:
  assumes base: "requirements_of spec = Inr base" and same: "same_clauses query base" "q_having query = None \<longleftrightarrow> sel_having spec = None"
    and accepted: "query_supported backend capabilities dialect schema descriptor query = Inr ()"
    and strict: "qk_strictProjectionGrouping (bc_query capabilities)"
  shows "grouped_projections schema descriptor spec"
  unfolding grouped_projections_def
proof (intro impI allI)
  fix field path
  assume used: "sel_groupBy spec \<noteq> [] \<or> sel_having spec \<noteq> None \<or>
      (\<exists>field expression. (field, AggregateSource expression) \<in> set (sel_projections spec))"
    and plain: "(field, ColumnSource path) \<in> set (sel_projections spec)"
  note clauses = requirements_clauses [OF base]
  obtain source where source: "parseSqlSource path = Inr source" "\<not> src_isAggregate source"
    "\<lparr>pr_source = source, pr_alias = field\<rparr> \<in> set (q_projections base)" using requirement_column [OF base plain] by blast
  have "grouping_used query \<or> list_ex (\<lambda>projection. src_isAggregate (pr_source projection)) (q_projections query)"
    using used same mapR_empty [OF clauses(6)] requirement_aggregate [OF base] by (auto simp: grouping_used_def same_clauses_def)
  moreover have "q_projections query \<noteq> []" using source(3) same(1) by (auto simp: same_clauses_def)
  ultimately have "check_strict_grouping backend (columnIdentity schema descriptor (q_shouldJoin query)) query = Inr ()"
    using query_supported_stages(7) [OF accepted] strict by blast
  then have "check_grouped backend (columnIdentity schema descriptor (sel_shouldJoin spec)) (q_groups base)
      ''Non-aggregate projected columns must appear in GROUP BY'' source = Inr ()"
    using source(2,3) same(1) clauses(2) by (force simp: check_strict_grouping_def same_clauses_def)
  then show "\<exists>group \<in> set (sel_groupBy spec). same_column schema descriptor (sel_shouldJoin spec) path group"
    by (rule check_grouped_same [OF _ clauses(6) source(1)])
qed


definition grouped_select :: "query_value select_spec" where
  "grouped_select = \<lparr>sel_offset = None, sel_limit = Some 2, sel_predicate = Some (NullExpression ''code'' IsNotNull),
     sel_orderBy = [], sel_projections = [(''code'', ColumnSource ''code''),
       (''total'', AggregateSource \<lparr>ag_function = CountAllF, ag_column = None\<rparr>)], sel_groupBy = [''code''],
     sel_having = None, sel_includes = [], sel_isDistinct = False, sel_shouldJoin = True\<rparr>"

lemma countries_identifiers: "validateModelIdentifiers sqlite_dialect [keyed_model 3] 0 = Inr ()"
  by code_simp

lemma countries_model: "model_supported Sqlite (pv_capabilities memory_provider) sqlite_dialect [keyed_model 3] 0 ''select'' = Inr ()"
  using countries_identifiers
  by (simp add: model_supported_def schema_at_def keyed_model_def column_supported_def require_type_def optional_type_def
    require_feature_def memory_provider_def sqliteCapabilities_def supportsColumnType_def basic_types_def)

lemma countries_code: "resolveSqlColumn [keyed_model 3] (empty_source\<lparr>src_path := [''code'']\<rparr>) (keyed_model 3) False =
    Inr \<lparr>ci_column = hd (md_columns (keyed_model 3)), ci_relation = None, ci_logicalType = StringT, ci_isNotNull = True\<rparr>"
  by (simp add: resolveSqlColumn_def requireSqlColumn_def findColumn_def keyed_model_def type_value_def)

lemma countries_typed: "source_typed (pv_capabilities memory_provider) [keyed_model 3] (keyed_model 3) (empty_source\<lparr>src_path := [''code'']\<rparr>)"
  using countries_code by (simp add: source_typed_def keyed_model_def memory_provider_def sqliteCapabilities_def supportsColumnType_def basic_types_def)

definition grouped_query :: sql_query where
  "grouped_query = empty_query\<lparr>q_hasLimit := True, q_groups := [empty_source\<lparr>src_path := [''code'']\<rparr>],
     q_projections := [\<lparr>pr_source = empty_source\<lparr>src_path := [''code'']\<rparr>, pr_alias = ''code''\<rparr>,
       \<lparr>pr_source = empty_source\<lparr>src_isAggregate := True, src_function := CountAllF\<rparr>, pr_alias = ''total''\<rparr>]\<rparr>"

lemma grouped_requirements: "requirements_of grouped_select = Inr grouped_query"
  by (simp add: requirements_of_def grouped_select_def grouped_query_def requirement_source_def parseSqlSource_def empty_query_def)

lemma grouped_built:
  "appendSelectPredicates grouped_select (grouped_query, start) =
     Inr (grouped_query\<lparr>q_nodes := [(empty_node NullNode)\<lparr>nd_source := empty_source\<lparr>src_path := [''code'']\<rparr>, nd_operation := 1\<rparr>],
       q_predicate := Some 0\<rparr>, start)"
  by (simp add: appendSelectPredicates_def grouped_select_def grouped_query_def append_where_def parseSqlSource_def push_node_def
    empty_query_def null_number_def)

lemma grouped_supported:
  "query_supported Sqlite (pv_capabilities memory_provider) sqlite_dialect [keyed_model 3] (keyed_model 3)
     (grouped_query\<lparr>q_nodes := [(empty_node NullNode)\<lparr>nd_source := empty_source\<lparr>src_path := [''code'']\<rparr>, nd_operation := 1\<rparr>],
       q_predicate := Some 0\<rparr>) = Inr ()"
proof -
  have quoted: "quotable sqlite_dialect [''code'', ''total''] = Inr ()" by code_simp
  have bare: "source_typed capabilities schema model (empty_source\<lparr>src_isAggregate := True, src_function := CountAllF\<rparr>)" for capabilities schema model
    by (simp add: source_typed_def empty_source_def)
  have features: "bc_query (pv_capabilities memory_provider) = bc_query sqliteCapabilities" by (simp add: memory_provider_def)
  show ?thesis
    using quoted countries_typed bare
    by (simp add: query_supported_def ensureQueryTypesSupported_def grouped_query_def empty_query_def empty_node_def Let_def
      check_aliases_def check_pagination_def check_collection_use_def grouping_used_def features sqliteCapabilities_def)
qed

lemma grouped_select_accepted:
  "fst (ensureSpecSupported memory_provider [keyed_model 3] 0 grouped_select (memory_database True False False)) = Inr ()"
proof -
  let ?db = "memory_database True False False"
  have connected: "isConnected (pv_ops memory_provider) ?db" by (rule memory_connected)
  have sqlite: "pv_dialect memory_provider = sqlite_dialect" by (simp add: memory_provider_def)
  have idle: "\<not> db_transactionFailed ?db" "backendType ?db = Sqlite" "sel_includes grouped_select = []"
    by (simp_all add: memory_database_def backendType_def grouped_select_def)
  show ?thesis
    using connected idle countries_model grouped_supported
    by (simp add: ensureSpecSupported_def ensureQuerySupported_def ensureModelSupported_def ensureSessionUsable_def act_simps bindA_def
      liftS_def model_handle_def schema_at_def grouped_requirements grouped_built sqlite)
qed


end
