(* ===== verification/Orm_Context_Safety.thy ===== *)
theory Orm_Context_Safety
  imports Orm_Context Orm_Query_Support_Safety
begin

text \<open>
  What the operations of a context guarantee before they send anything: a link is only sent when both endpoints are stored,
  and an update with a string beyond a declared length is refused.
\<close>

section \<open>Checks that come first\<close>

text \<open>
  A gentle action leaves the database as it was when it returns, and the session as it was when it throws. A refusal throws
  and leaves the session as it was.
\<close>

definition gentle :: "('d, 'a) dbact \<Rightarrow> 'd database \<Rightarrow> bool" where
  "gentle m db \<longleftrightarrow> db_session (snd (m db)) = db_session db \<and> (isOk (fst (m db)) \<longrightarrow> snd (m db) = db)"

definition refuses :: "('d, 'a) dbact \<Rightarrow> 'd database \<Rightarrow> bool" where
  "refuses m db \<longleftrightarrow> (\<exists>e db'. m db = (Inl e, db') \<and> db_session db' = db_session db)"

named_theorems gentle_intros \<open>actions that only check\<close>

lemma gentle_still: "snd (m db) = db \<Longrightarrow> gentle m db"
  by (simp add: gentle_def)

lemma gentle_pure [gentle_intros]:
  "gentle (retA x) db" "gentle (liftR r) db" "gentle (getA f) db" "gentle (throwIfA b e) db" "gentle (getBackend ops) db"
  "gentle (requireCapability b op message) db" "gentle (databaseThrow error op message) db" "gentle (liftS s) db"
  by (simp_all add: gentle_def act_simps liftS_def split: sum.splits)

lemma gentle_cases [gentle_intros]:
  "(b \<Longrightarrow> gentle m db) \<Longrightarrow> (\<not> b \<Longrightarrow> gentle n db) \<Longrightarrow> gentle (if b then m else n) db"
  "(\<And>a c. x = (a, c) \<Longrightarrow> gentle (f a c) db) \<Longrightarrow> gentle (case x of (a, c) \<Rightarrow> f a c) db"
  "(y = None \<Longrightarrow> gentle m db) \<Longrightarrow> (\<And>z. y = Some z \<Longrightarrow> gentle (g z) db) \<Longrightarrow> gentle (case y of None \<Rightarrow> m | Some z \<Rightarrow> g z) db"
  by (auto split: prod.splits option.splits)

lemma gentle_bindA [gentle_intros]:
  "gentle m db \<Longrightarrow> (\<And>x. m db = (Inr x, db) \<Longrightarrow> gentle (n x) db) \<Longrightarrow> gentle (bindA m n) db"
  unfolding gentle_def bindA_def by (cases "m db"; cases "fst (m db)") auto

lemma gentle_thenA [gentle_intros]:
  "gentle m db \<Longrightarrow> (\<And>x. m db = (Inr x, db) \<Longrightarrow> gentle n db) \<Longrightarrow> gentle (thenA m n) db"
  unfolding thenA_def by (rule gentle_bindA)

lemma gentle_forA [gentle_intros]: "(\<And>x. x \<in> set xs \<Longrightarrow> gentle (f x) db) \<Longrightarrow> gentle (forA f xs) db"
  by (induction xs) (auto intro!: gentle_intros)

lemma refuses_bindA: "gentle m db \<Longrightarrow> (\<And>x. m db = (Inr x, db) \<Longrightarrow> refuses (n x) db) \<Longrightarrow> refuses (bindA m n) db"
  unfolding gentle_def refuses_def bindA_def by (cases "m db"; cases "fst (m db)") auto

lemma refuses_thenA: "gentle m db \<Longrightarrow> (\<And>x. m db = (Inr x, db) \<Longrightarrow> refuses n db) \<Longrightarrow> refuses (thenA m n) db"
  unfolding thenA_def by (rule refuses_bindA)

lemma refuses_first: "refuses m db \<Longrightarrow> refuses (bindA m n) db" "refuses m db \<Longrightarrow> refuses (thenA m n') db"
  by (auto simp: refuses_def bindA_def thenA_def)

lemma refuses_forA:
  assumes "\<And>x. x \<in> set xs \<Longrightarrow> gentle (f x) db" "x \<in> set xs" "refuses (f x) db"
  shows "refuses (forA f xs) db"
  using assms
proof (induction xs)
  case (Cons y ys)
  then show ?case by (cases "x = y") (auto intro: refuses_first refuses_thenA)
qed simp

lemma usable_gentle [gentle_intros]: "gentle (ensureSessionUsable p operation) db"
  by (simp add: gentle_def ensureSessionUsable_def act_simps bindA_def)

lemma model_gentle [gentle_intros]: "gentle (ensureModelSupported p schema m operation) db"
  unfolding ensureModelSupported_def by (intro gentle_intros)

lemma predicate_gentle [gentle_intros]: "gentle (ensurePredicateSupported p schema m predicate operation) db"
  unfolding ensurePredicateSupported_def by (intro gentle_intros)

lemma string_gentle [gentle_intros]: "gentle (ensureStringValueSupported column stored operation) db"
  by (auto simp: ensureStringValueSupported_def intro!: gentle_intros split: option.splits query_storage.splits sum.splits exn.splits)

lemma assignment_gentle [gentle_intros]: "gentle (assignment_supported schema descriptor assignment) db"
  unfolding assignment_supported_def by (intro gentle_intros)

section \<open>Updates\<close>

text \<open>
  An update that assigns a string which is not the UTF-8 text of at most as many characters as its column declares is
  refused, and nothing is sent to the session.
\<close>

theorem update_refuses_long_strings:
  assumes "(path, Some v) \<in> set (upd_assignments spec)" "qv_value v = VString content"
    and "schema_at schema m = Some descriptor" "parseSqlSource path = Inr source"
    and "resolveSqlColumn schema source descriptor True = Inr info" "cv_maxStringLength (ci_column info) = Some limit"
    and "\<not> (\<exists>points. encodes points content \<and> length points \<le> limit)"
  shows "\<exists>e db'. updateImpl p schema m spec db = (Inl e, db') \<and> db_session db' = db_session db"
proof -
  have "validateStringLength content (Some limit) \<noteq> Inr ()"
    using assms(7) validate_characters_iff [of 0 limit content] by (simp add: validateStringLength_def)
  then have "refuses (assignment_supported schema descriptor (path, Some v)) db"
    using assms(2,4-6)
    by (cases "validateStringLength content (Some limit)")
      (auto simp: refuses_def assignment_supported_def act_simps bindA_def liftS_def ensureStringValueSupported_def split: exn.splits)
  then have late: "refuses (forA (assignment_supported schema descriptor) (upd_assignments spec)) db"
    by (rule refuses_forA [OF assignment_gentle assms(1)])
  have "refuses (updateImpl p schema m spec) db"
    unfolding updateImpl_def
  proof (rule refuses_bindA [OF gentle_pure(2)])
    fix x
    assume "liftR (model_handle schema m) db = (Inr x, db)"
    then have x: "x = descriptor" using assms(3) by (simp add: model_handle_def)
    have "gentle (case upd_predicate spec of None \<Rightarrow> retA () | Some predicate \<Rightarrow> ensurePredicateSupported p schema m predicate ''update'') db"
      by (intro gentle_intros)
    then show "refuses (thenA (ensureModelSupported p schema m ''update'')
        (thenA (requireCapability (mk_update (bc_mutations (pv_capabilities p))) ''update'' ''update is not supported'')
        (thenA (case upd_predicate spec of None \<Rightarrow> retA () | Some predicate \<Rightarrow> ensurePredicateSupported p schema m predicate ''update'')
        (thenA (forA (assignment_supported schema x) (upd_assignments spec))
        (thenA (getBackend (pv_ops p))
        (bindA (liftS (renderUpdateStatement schema x spec (pv_dialect p))) (\<lambda>statement. executeMutation p statement ''update''))))))) db"
      unfolding x by (intro refuses_thenA [OF model_gentle] refuses_thenA [OF gentle_pure(6)] refuses_thenA refuses_first(2) late)
  qed
  then show ?thesis by (simp add: refuses_def)
qed

definition long_update :: "query_value update_spec" where
  "long_update = \<lparr>upd_assignments = [(''code'', Some \<lparr>qv_logicalType = StringT, qv_value = VString ''Poland''\<rparr>)],
     upd_predicate = Some (NullExpression ''code'' IsNotNull)\<rparr>"

theorem update_refuses_long_strings_witness:
  "\<exists>e db'. updateImpl memory_provider [keyed_model 3] 0 long_update (memory_database True False False) = (Inl e, db') \<and>
     db_session db' = db_session (memory_database True False False)"
proof (rule update_refuses_long_strings)
  show "(''code'', Some \<lparr>qv_logicalType = StringT, qv_value = VString ''Poland''\<rparr>) \<in> set (upd_assignments long_update)"
    by (simp add: long_update_def)
  show "parseSqlSource ''code'' = Inr (empty_source\<lparr>src_path := [''code'']\<rparr>)" by (simp add: parseSqlSource_def)
  show "resolveSqlColumn [keyed_model 3] (empty_source\<lparr>src_path := [''code'']\<rparr>) (keyed_model 3) True =
      Inr \<lparr>ci_column = hd (md_columns (keyed_model 3)), ci_relation = None, ci_logicalType = StringT, ci_isNotNull = True\<rparr>"
    by (simp add: resolveSqlColumn_def requireSqlColumn_def findColumn_def keyed_model_def type_value_def)
  have "validate_characters ''Poland'' 0 3 \<noteq> Inr ()" by (simp add: validate_characters.simps utf8_lead_def)
  then show "\<not> (\<exists>points. encodes points ''Poland'' \<and> length points \<le> 3)" using validate_characters_iff [of 0 3] by simp
qed (simp_all add: schema_at_def keyed_model_def)

section \<open>Links\<close>

text \<open>An endpoint is stored when the session counts a row with its key.\<close>

definition endpoint_stored :: "('d, 'r, 'c, 'v) provider \<Rightarrow> model_data \<Rightarrow> primary_key \<Rightarrow> 'd \<Rightarrow> bool" where
  "endpoint_stored p model key d \<longleftrightarrow>
     (\<exists>columns st values n d'. requireEndpointKeyColumns model key = Inr columns \<and>
        endpoint_statement (pv_dialect p) model columns key = Inr st \<and>
        bindStatementParameters p (pv_values p) (st_parameters st) = Inr values \<and>
        pv_count p (st_sql st) values d = (Inr n, d') \<and> n > 0)"

text \<open>Counting rows reads the session and changes nothing.\<close>

definition counts_only :: "('d, 'r, 'c, 'v) provider \<Rightarrow> bool" where
  "counts_only p \<longleftrightarrow> (\<forall>sql values d. snd (pv_count p sql values d) = d)"

lemma key_gentle [gentle_intros]: "gentle (ensureEndpointKeySupported model key operation) db"
  unfolding ensureEndpointKeySupported_def by (intro gentle_intros)

lemma parameters_gentle: "measured p limits db \<Longrightarrow> gentle (forA (ensure_parameter p op) parameters) db"
  using parameters_run [of p limits db op parameters] by (intro gentle_still) simp

lemma bind_limit_gentle: "measured p limits db \<Longrightarrow> gentle (ensureStatementWithinBindLimit p n op) db"
  using limits_run [of p limits db] by (auto simp: gentle_def ensureStatementWithinBindLimit_def act_simps bindA_def split: option.splits)

lemma count_gentle: "counts_only p \<Longrightarrow> gentle (sessionA (pv_count p sql values)) db"
proof -
  assume "counts_only p"
  then have "snd (pv_count p sql values (db_session db)) = db_session db" by (simp add: counts_only_def)
  then show ?thesis by (cases "pv_count p sql values (db_session db)") (simp add: gentle_def sessionA_def)
qed

lemma handler_keeps: "db_session (snd (endpoint_handler p e db)) = db_session db \<and> \<not> isOk (fst (endpoint_handler p e db))"
  by (auto simp: endpoint_handler_def driver_handler_def throwTranslatedError_def act_simps bindA_def split: exn.splits)

lemma caught_gentle: "gentle m db \<Longrightarrow> gentle (catchA m (endpoint_handler p)) db"
  by (cases "m db"; cases "fst (m db)") (auto simp: gentle_def catchA_def handler_keeps)

lemma endpoint_gentle:
  assumes "measured p limits db" "counts_only p"
  shows "gentle (relationEndpointExists p model key) db"
  unfolding relationEndpointExists_def
  by (intro gentle_intros caught_gentle parameters_gentle [OF assms(1)] bind_limit_gentle [OF assms(1)] count_gentle [OF assms(2)])

text \<open>What a result says after checks that were gentle.\<close>

definition returning :: "('d, 'a) dbact \<Rightarrow> 'd database \<Rightarrow> ('a \<Rightarrow> bool) \<Rightarrow> bool" where
  "returning m db Q \<longleftrightarrow> (\<forall>x db'. m db = (Inr x, db') \<longrightarrow> Q x)"

lemma returning_bindA: "gentle m db \<Longrightarrow> (\<And>x. m db = (Inr x, db) \<Longrightarrow> returning (n x) db Q) \<Longrightarrow> returning (bindA m n) db Q"
  unfolding returning_def gentle_def bindA_Inr by fastforce

lemma returning_thenA: "gentle m db \<Longrightarrow> (\<And>x. m db = (Inr x, db) \<Longrightarrow> returning n db Q) \<Longrightarrow> returning (thenA m n) db Q"
  unfolding thenA_def by (rule returning_bindA)

lemma count_found:
  assumes "catchA (thenA (getBackend (pv_ops p)) (
      bindA (liftR (bindStatementParameters p (pv_values p) (st_parameters st))) (\<lambda>values.
        sessionA (pv_count p (st_sql st) values)))) (endpoint_handler p) db = (Inr n, db')"
  shows "\<exists>values d'. bindStatementParameters p (pv_values p) (st_parameters st) = Inr values \<and>
    pv_count p (st_sql st) values (db_session db) = (Inr n, d')"
proof -
  have "endpoint_handler p e t \<noteq> (Inr n, db')" for e t by (metis handler_keeps fst_conv isOk.simps(2))
  then show ?thesis
    using assms by (auto simp: catchA_Inr thenA_Inr bindA_Inr act_simps sessionA_def split: if_splits) (auto split: prod.splits)
qed

lemma endpoint_found:
  assumes "measured p limits db" "counts_only p"
  shows "returning (relationEndpointExists p model key) db (\<lambda>found. found \<longrightarrow> endpoint_stored p model key (db_session db))"
  unfolding relationEndpointExists_def
proof (intro returning_thenA [OF key_gentle] returning_bindA [OF gentle_pure(2)] returning_thenA [OF gentle_pure(5)]
    returning_thenA [OF parameters_gentle [OF assms(1)]] returning_thenA [OF bind_limit_gentle [OF assms(1)]])
  fix columns st
  assume "liftR (requireEndpointKeyColumns model key) db = (Inr columns, db)"
    and "liftR (endpoint_statement (pv_dialect p) model columns key) db = (Inr st, db)"
  then show "returning (bindA (catchA (thenA (getBackend (pv_ops p)) (
      bindA (liftR (bindStatementParameters p (pv_values p) (st_parameters st))) (\<lambda>values.
        sessionA (pv_count p (st_sql st) values)))) (endpoint_handler p)) (\<lambda>number_found. retA (number_found > 0))) db
      (\<lambda>found. found \<longrightarrow> endpoint_stored p model key (db_session db))"
    by (fastforce simp: returning_def bindA_Inr endpoint_stored_def dest!: count_found)
qed

text \<open>
  C15. A link is sent only between stored rows: when the session does not count a row with the key of the owner, or none
  with the key of the target, the operation throws and the session is as it was.
\<close>

theorem link_needs_both_endpoints:
  assumes "measured p limits db" "counts_only p" "schema_at schema m = Some owner" "findRelation owner field = Some relation"
    and "resolveTarget_relation schema relation = Some target"
    and "\<not> endpoint_stored p owner ownerKey (db_session db) \<or> \<not> endpoint_stored p target targetKey (db_session db)"
  shows "\<exists>e db'. linkImpl p schema m field n (Inr ownerKey) (Inr targetKey) db = (Inl e, db') \<and> db_session db' = db_session db"
proof -
  note gently = endpoint_gentle [OF assms(1,2)] and found = endpoint_found [OF assms(1,2), unfolded returning_def]
  have missing: "refuses (bindA (relationEndpointExists p owner ownerKey) (\<lambda>ownerExists.
      bindA (if ownerExists then relationEndpointExists p target targetKey else retA False) (\<lambda>bothExist.
      thenA (throwIfA (\<not> bothExist) (InvalidArgument ''Cannot link relation endpoints that do not exist''))
        (send_link p schema owner relation ownerKey targetKey)))) db"
  proof (intro refuses_bindA gently gentle_cases(1) gentle_pure(1))
    fix ownerExists bothExist
    assume one: "relationEndpointExists p owner ownerKey db = (Inr ownerExists, db)"
      and both: "(if ownerExists then relationEndpointExists p target targetKey else retA False) db = (Inr bothExist, db)"
    have "\<not> bothExist"
    proof
      assume bothExist
      then have "ownerExists" "relationEndpointExists p target targetKey db = (Inr True, db)"
        using both by (auto split: if_splits)
      then show False using found one assms(6) by blast
    qed
    then show "refuses (thenA (throwIfA (\<not> bothExist) (InvalidArgument ''Cannot link relation endpoints that do not exist''))
        (send_link p schema owner relation ownerKey targetKey)) db"
      by (simp add: refuses_def act_simps)
  qed
  have capabilities: "gentle (link_capabilities p relation) db"
    unfolding link_capabilities_def Let_def by (intro gentle_intros)
  have "refuses (linkImpl p schema m field n (Inr ownerKey) (Inr targetKey)) db"
    unfolding linkImpl_def
  proof (intro refuses_bindA [OF gentle_pure(2)] refuses_thenA [OF model_gentle])
    fix o' r t ok tk
    assume "liftR (model_handle schema m) db = (Inr o', db)" "liftR (requireCollectionRelation o' field) db = (Inr r, db)"
      "liftR (requireCollectionTarget schema r n) db = (Inr t, db)" "liftR (Inr ownerKey) db = (Inr ok, db)"
      "liftR (Inr targetKey) db = (Inr tk, db)"
    then have same: "o' = owner" "r = relation" "t = target" "ok = ownerKey" "tk = targetKey"
      using assms(3-5) by (auto simp: model_handle_def requireCollectionRelation_def requireCollectionTarget_def split: if_splits)
    show "refuses (thenA (link_capabilities p r) (
        bindA (relationEndpointExists p o' ok) (\<lambda>ownerExists.
        bindA (if ownerExists then relationEndpointExists p t tk else retA False) (\<lambda>bothExist.
        thenA (throwIfA (\<not> bothExist) (InvalidArgument ''Cannot link relation endpoints that do not exist''))
          (send_link p schema o' r ok tk))))) db"
      unfolding same by (rule refuses_thenA [OF capabilities missing])
  qed
  then show ?thesis by (simp add: refuses_def)
qed

definition neighbours :: relation_view where
  "neighbours = \<lparr>rv_fieldIndex = 1, rv_fieldName = ''neighbours'',
     rv_columnName = ''neighbours'', rv_kind = ManyToMany, rv_mappedBy = [], rv_nullable = False, rv_targetModelIndex = Some 0,
     rv_junction = \<lparr>jv_tableName = ''borders'', jv_ownerColumns = [''from_code''], jv_targetColumns = [''to_code''],
       jv_owningSide = True\<rparr>\<rparr>"

definition bordering_model :: model_data where
  "bordering_model = (keyed_model 3)\<lparr>md_relations := [neighbours]\<rparr>"

theorem link_needs_both_endpoints_witness:
  "\<exists>e db'. linkImpl memory_provider [bordering_model] 0 ''neighbours'' 0
      (Inr [\<lparr>qv_logicalType = StringT, qv_value = VString ''PL''\<rparr>]) (Inr [\<lparr>qv_logicalType = StringT, qv_value = VString ''DE''\<rparr>])
      (memory_database True False False) = (Inl e, db') \<and> db_session db' = db_session (memory_database True False False)"
proof (rule link_needs_both_endpoints)
  show "measured memory_provider sqlite_limits (memory_database True False False)"
    using memory_connected [of False False] by (simp add: measured_def memory_provider_def memory_ops_def memory_database_def)
  show "schema_at [bordering_model] 0 = Some bordering_model" by (simp add: schema_at_def)
  show "findRelation bordering_model ''neighbours'' = Some neighbours"
    by (simp add: findRelation_def findRelationField_def bordering_model_def neighbours_def)
  show "resolveTarget_relation [bordering_model] neighbours = Some bordering_model"
    by (simp add: resolveTarget_relation_def schema_at_def neighbours_def)
  show "counts_only memory_provider" by (simp add: counts_only_def memory_provider_def)
  show "\<not> endpoint_stored memory_provider bordering_model [\<lparr>qv_logicalType = StringT, qv_value = VString ''PL''\<rparr>]
      (db_session (memory_database True False False)) \<or>
    \<not> endpoint_stored memory_provider bordering_model [\<lparr>qv_logicalType = StringT, qv_value = VString ''DE''\<rparr>]
      (db_session (memory_database True False False))"
    by (simp add: endpoint_stored_def memory_provider_def)
qed

end
