(* ===== verification/Orm_Project.thy ===== *)
theory Orm_Project
  imports Orm_Generate Orm_Effects
begin

text \<open>
  Migration projects on disk (\<^verbatim>\<open>src/migrations/MigrationProject.cpp\<close>): the directory with its migrations, the lock of writers,
  the staging directory, the checks when a project is read, and the operations that create and finalize drafts. The file
  system is a tree; every access may fail, as a list of faults decides. The JSON library is a parameter.
\<close>

section \<open>Files\<close>

text \<open>A symbolic link knows only whether its target exists.\<close>

datatype node = FileNode string | DirNode "(string \<times> node) list" | LinkNode bool

text \<open>
  The project directory, if it exists, and the faults to come: \<open>None\<close> lets an access succeed, \<open>Some k\<close> makes it fail; a
  write then fails at the start for \<open>k = 0\<close> and after \<open>k - 1\<close> bytes otherwise.
\<close>

record disk =
  dk_root :: "node option"
  dk_faults :: "nat option list"

type_synonym 'a diskact = "(disk, 'a) act"

type_synonym path = "string list"

fun node_at :: "node option \<Rightarrow> path \<Rightarrow> node option" where
  "node_at root [] = root"
| "node_at root (name # path) =
     (case root of Some (DirNode entries) \<Rightarrow> node_at (map_of entries name) path | _ \<Rightarrow> None)"

text \<open>The directory with one entry set or removed.\<close>

fun set_entry :: "string \<Rightarrow> node option \<Rightarrow> (string \<times> node) list \<Rightarrow> (string \<times> node) list" where
  "set_entry name given [] = (case given of None \<Rightarrow> [] | Some child \<Rightarrow> [(name, child)])"
| "set_entry name given ((other, child) # entries) =
     (if other = name then (case given of None \<Rightarrow> entries | Some child \<Rightarrow> (name, child) # entries)
      else (other, child) # set_entry name given entries)"

fun put_at :: "path \<Rightarrow> node option \<Rightarrow> node option \<Rightarrow> node option" where
  "put_at [] given root = given"
| "put_at (name # path) given root =
     (case root of
        Some (DirNode entries) \<Rightarrow>
          if path = [] then Some (DirNode (set_entry name given entries))
          else (case map_of entries name of
                  None \<Rightarrow> root
                | Some child \<Rightarrow> Some (DirNode (set_entry name (put_at path given (Some child)) entries)))
      | _ \<Rightarrow> root)"

definition filesystem_error :: exn where
  "filesystem_error = RuntimeError ''filesystem_error''"

definition ios_failure :: exn where
  "ios_failure = RuntimeError ''ios_base::failure''"

definition next_fault :: "nat option diskact" where
  "next_fault s = (case dk_faults s of [] \<Rightarrow> (Inr None, s) | fault # faults \<Rightarrow> (Inr fault, s\<lparr>dk_faults := faults\<rparr>))"

definition access :: "exn \<Rightarrow> unit diskact" where
  "access e = bindA next_fault (\<lambda>fault. throwIfA (fault \<noteq> None) e)"

definition file_status :: "path \<Rightarrow> node option diskact" where
  "file_status path = thenA (access filesystem_error) (getA (\<lambda>s. node_at (dk_root s) path))"

definition put :: "path \<Rightarrow> node option \<Rightarrow> unit diskact" where
  "put path given = modifyA (\<lambda>s. s\<lparr>dk_root := put_at path given (dk_root s)\<rparr>)"

definition parent_exists :: "path \<Rightarrow> node option \<Rightarrow> bool" where
  "parent_exists path root \<longleftrightarrow> (case node_at root (butlast path) of Some (DirNode _) \<Rightarrow> True | _ \<Rightarrow> False)"

fun is_directory :: "node option \<Rightarrow> bool" where
  "is_directory (Some (DirNode _)) = True"
| "is_directory _ = False"

fun present :: "node option \<Rightarrow> bool" where
  "present None = False"
| "present (Some (LinkNode target)) = target"
| "present (Some _) = True"

definition file_exists :: "path \<Rightarrow> bool diskact" where
  "file_exists path = bindA (file_status path) (\<lambda>node. retA (present node))"

text \<open>\<^verbatim>\<open>std::filesystem::directory_iterator\<close>\<close>

definition directory_items :: "path \<Rightarrow> (string \<times> node) list diskact" where
  "directory_items path = bindA (file_status path) (\<lambda>node.
     case node of Some (DirNode entries) \<Rightarrow> retA entries | _ \<Rightarrow> throwA filesystem_error)"

definition create_directory :: "path \<Rightarrow> bool diskact" where
  "create_directory path = bindA (file_status path) (\<lambda>node.
     case node of
       Some (DirNode _) \<Rightarrow> retA False
     | Some (LinkNode True) \<Rightarrow> retA False
     | Some _ \<Rightarrow> throwA filesystem_error
     | None \<Rightarrow> bindA (getA (\<lambda>s. parent_exists path (dk_root s))) (\<lambda>placed.
         if placed then thenA (put path (Some (DirNode []))) (retA True) else throwA filesystem_error))"

definition writeFile :: "path \<Rightarrow> string \<Rightarrow> unit diskact" where
  "writeFile path content =
     bindA next_fault (\<lambda>fault.
     bindA (getA (\<lambda>s. parent_exists path (dk_root s) \<and> \<not> is_directory (node_at (dk_root s) path))) (\<lambda>placed.
       if \<not> placed then throwA ios_failure
       else case fault of
         None \<Rightarrow> put path (Some (FileNode content))
       | Some 0 \<Rightarrow> throwA ios_failure
       | Some (Suc k) \<Rightarrow> thenA (put path (Some (FileNode (take k content)))) (throwA ios_failure)))"

text \<open>\<^verbatim>\<open>rename\<close> replaces a file by a file and an empty directory by a directory.\<close>

definition replaceable :: "node \<Rightarrow> node option \<Rightarrow> bool" where
  "replaceable source target \<longleftrightarrow>
     (case target of
        None \<Rightarrow> True
      | Some (DirNode entries) \<Rightarrow> entries = [] \<and> is_directory (Some source)
      | Some _ \<Rightarrow> \<not> is_directory (Some source))"

definition rename_path :: "path \<Rightarrow> path \<Rightarrow> unit diskact" where
  "rename_path source target =
     bindA (file_status source) (\<lambda>found.
     bindA (getA (\<lambda>s. (parent_exists target (dk_root s), node_at (dk_root s) target))) (\<lambda>(placed, old).
       case found of
         None \<Rightarrow> throwA filesystem_error
       | Some node \<Rightarrow>
           if placed \<and> replaceable node old then thenA (put source None) (put target (Some node)) else throwA filesystem_error))"

text \<open>Removal with an error code: a failure leaves the tree as it is.\<close>

definition remove_quietly :: "path \<Rightarrow> unit diskact" where
  "remove_quietly path = bindA next_fault (\<lambda>fault.
     bindA (getA (\<lambda>s. node_at (dk_root s) path)) (\<lambda>node.
       if fault \<noteq> None then retA ()
       else case node of
         None \<Rightarrow> retA ()
       | Some (DirNode entries) \<Rightarrow> if entries = [] then put path None else retA ()
       | Some _ \<Rightarrow> put path None))"

definition remove_all_quietly :: "path \<Rightarrow> unit diskact" where
  "remove_all_quietly path = bindA next_fault (\<lambda>fault.
     bindA (getA (\<lambda>s. node_at (dk_root s) path)) (\<lambda>node.
       if fault \<noteq> None \<or> node = None then retA () else put path None))"

section \<open>Helpers\<close>

definition project_failure :: "string \<Rightarrow> exn" where
  "project_failure message = MigrationError InvalidCatalog message 0 Empty None"

definition project_check :: "bool \<Rightarrow> string \<Rightarrow> (exn, unit) result" where
  "project_check refused message = throwIf refused (project_failure message)"

definition createExclusiveDirectory :: "path \<Rightarrow> migration_error_code \<Rightarrow> string \<Rightarrow> unit diskact" where
  "createExclusiveDirectory path error message =
     bindA (create_directory path) (\<lambda>created. throwIfA (\<not> created) (MigrationError error message 0 Empty None))"

definition safeProjectName :: "string \<Rightarrow> bool" where
  "safeProjectName name \<longleftrightarrow> name \<noteq> [] \<and>
     list_all (\<lambda>c. is_lower c \<or> is_upper c \<or> is_digit c \<or> c = CHR ''_'' \<or> c = CHR ''-'') name"

definition regularFile :: "path \<Rightarrow> unit diskact" where
  "regularFile path = bindA (file_status path) (\<lambda>node.
     case node of Some (FileNode _) \<Rightarrow> retA ()
     | _ \<Rightarrow> throwA (project_failure ''Migration metadata and SQL must be regular files''))"

definition readFile :: "path \<Rightarrow> string diskact" where
  "readFile path =
     thenA (regularFile path) (
       catchA (thenA (access ios_failure) (bindA (getA (\<lambda>s. node_at (dk_root s) path)) (\<lambda>node.
           case node of Some (FileNode content) \<Rightarrow> retA content | _ \<Rightarrow> throwA ios_failure)))
         (\<lambda>e. if e = ios_failure then throwA (project_failure ''Cannot read migration project file'') else throwA e))"

text \<open>
  The JSON library: the text of metadata (\<^verbatim>\<open>snapshotJson\<close>, \<^verbatim>\<open>contextJson\<close>), of indented documents and of a value;
  the strict parser of metadata, the parser of \<^verbatim>\<open>readJson\<close> with its check of duplicate fields, and the plain one.
\<close>

record json_library =
  jl_metadata :: dumper
  jl_pretty :: dumper
  jl_compact :: dumper
  jl_strict :: json_parser
  jl_project :: json_parser
  jl_plain :: json_parser

definition readJson :: "json_library \<Rightarrow> path \<Rightarrow> json diskact" where
  "readJson lib path =
     catchA (bindA (readFile path) (\<lambda>content. liftR (jl_project lib content)))
       (\<lambda>e. if e = JsonException then throwA (project_failure ''Invalid migration project JSON'') else throwA e)"

definition project_fields :: "json \<Rightarrow> string list \<Rightarrow> (exn, unit) result" where
  "project_fields item names =
     (case item of
        JObject members \<Rightarrow>
          bindR (project_check (length members \<noteq> length names) ''Invalid migration project metadata fields'') (\<lambda>_.
            forR (\<lambda>name. project_check (map_of members name = None) ''Missing migration project metadata field'') names)
      | _ \<Rightarrow> Inl (project_failure ''Invalid migration project metadata fields''))"

definition projectBackendFromName :: "string \<Rightarrow> (exn, backend_type) result" where
  "projectBackendFromName name =
     (case find (\<lambda>backend. backendName backend = Inr name) generationBackends of
        Some backend \<Rightarrow> Inr backend
      | None \<Rightarrow> Inl (project_failure ''Unsupported project backend''))"

definition backendNames :: "backend_type list \<Rightarrow> (exn, string list) result" where
  "backendNames backends =
     bindR (mapR backendName backends) (\<lambda>names.
     let sorted_names = sort names
     in bindR (project_check (sorted_names = [] \<or> \<not> distinct sorted_names) ''Project requires a nonempty unique backend set'') (\<lambda>_.
          Inr sorted_names))"

definition lock_name :: string where
  "lock_name = ''.orm-cxx-lock''"

definition staging_directory :: string where
  "staging_directory = ''.orm-cxx-staging''"

definition ProjectLock :: "'a diskact \<Rightarrow> 'a diskact" where
  "ProjectLock body =
     thenA (createExclusiveDirectory [lock_name] LockUnavailable ''Another migration project writer holds the lock'')
       (finallyA body (remove_quietly [lock_name]))"

definition StagingDirectory :: "'a diskact \<Rightarrow> 'a diskact" where
  "StagingDirectory body =
     thenA (createExclusiveDirectory [staging_directory] InvalidCatalog ''A previous migration staging directory exists'')
       (finallyA body (remove_all_quietly [staging_directory]))"

section \<open>Reading a project\<close>

definition is_integer :: "json \<Rightarrow> bool" where
  "is_integer item = (case item of JInt _ \<Rightarrow> True | _ \<Rightarrow> False)"

text \<open>A 64-bit number of the document as a version.\<close>

definition get_version :: "json \<Rightarrow> (exn, version) result" where
  "get_version item =
     (case item of JInt n \<Rightarrow> Inr (if n > 9223372036854775807 then n - 18446744073709551616 else n) | _ \<Rightarrow> Inl JsonException)"

definition format_one :: "json \<Rightarrow> (exn, bool) result" where
  "format_one item = bindR (json_at item ''formatVersion'') (\<lambda>number. Inr (number = JInt 1))"

definition projectBackends :: "json_library \<Rightarrow> backend_type list diskact" where
  "projectBackends lib =
     bindA (file_status []) (\<lambda>root.
     thenA (liftR (project_check (\<not> is_directory root) ''Migration project must be a directory and cannot be a symlink'')) (
     bindA (readJson lib [''project.json'']) (\<lambda>config.
       liftR (
         bindR (project_fields config [''formatVersion'', ''backends'']) (\<lambda>_.
         bindR (format_one config) (\<lambda>supported.
         bindR (project_check (\<not> supported) ''Unsupported migration project format'') (\<lambda>_.
         bindR (strings_at config ''backends'') (\<lambda>names.
         bindR (mapR projectBackendFromName names) (\<lambda>backends.
         bindR (backendNames backends) (\<lambda>_.
           Inr (sort backends)))))))))))"

definition checkSnapshotBackends :: "schema_snapshot \<Rightarrow> backend_type list \<Rightarrow> (exn, unit) result" where
  "checkSnapshotBackends snapshot backends =
     bindR (project_check (length (ss_backends snapshot) \<noteq> length backends)
              ''Snapshot backend set differs from project configuration'') (\<lambda>_.
       forR (\<lambda>backend. project_check (map_of (ss_backends snapshot) backend = None)
              ''Snapshot backend set differs from project configuration'') backends)"

definition readSql :: "path \<Rightarrow> string diskact" where
  "readSql path = bindA (readFile path) (\<lambda>content. liftR (normalizeSql content))"

definition backend_files ::
  "path \<Rightarrow> backend_type \<Rightarrow> (string, string) omap \<Rightarrow> (string, string) omap diskact" where
  "backend_files entry backend files =
     bindA (liftR (backendName backend)) (\<lambda>name.
     let dialect = entry @ [name] in
     bindA (file_status dialect) (\<lambda>found.
     thenA (liftR (project_check (\<not> is_directory found) ''Missing or invalid project backend directory'')) (
     bindA (directory_items dialect) (\<lambda>items.
     thenA (forA (\<lambda>(file, _).
         thenA (liftR (project_check (file \<noteq> ''up.sql'' \<and> file \<noteq> ''down.sql'') ''Unexpected file in backend directory''))
           (regularFile (dialect @ [file]))) items) (
     bindA (readSql (dialect @ [''up.sql''])) (\<lambda>up.
     let files = omap_insert (name @ ''/up.sql'') (sha256 up) files in
     bindA (file_exists (dialect @ [''down.sql''])) (\<lambda>reversible.
       if reversible
       then bindA (readSql (dialect @ [''down.sql''])) (\<lambda>down. retA (omap_insert (name @ ''/down.sql'') (sha256 down) files))
       else retA files)))))))"

definition sqlFiles :: "path \<Rightarrow> backend_type list \<Rightarrow> (string, string) omap diskact" where
  "sqlFiles entry backends =
     bindA (readFile (entry @ [''migration.json''])) (\<lambda>metadata.
     bindA (readFile (entry @ [''schema.json''])) (\<lambda>schema.
       foldA (backend_files entry) backends
         (omap_insert ''schema.json'' (sha256 schema) (omap_insert ''migration.json'' (sha256 metadata) []))))"

record project_item =
  pi_directory :: string
  pi_version :: version
  pi_name :: string
  pi_ready :: bool

record project_entry =
  pe_item :: project_item
  pe_migration :: migration

text \<open>The version and name of a directory: the digits before the first underscore and the rest.\<close>

definition parse_directory :: "string \<Rightarrow> (exn, version \<times> string) result" where
  "parse_directory name =
     (let digits = takeWhile (\<lambda>c. c \<noteq> CHR ''_'') name; rest = drop (Suc (length digits)) name in
      bindR (project_check (CHR ''_'' \<notin> set name) ''Invalid migration directory name'') (\<lambda>_.
      bindR (project_check (digits = [] \<or> \<not> list_all is_digit digits \<or> dec_val digits = 0 \<or>
               dec_val digits > 9223372036854775807 \<or> \<not> safeProjectName rest) ''Invalid migration directory name'') (\<lambda>_.
        Inr (int (dec_val digits), rest))))"

definition project_item_of :: "string \<times> node \<Rightarrow> project_item list \<Rightarrow> project_item list diskact" where
  "project_item_of = (\<lambda>(name, node) items.
     if name = ''project.json'' then thenA (regularFile [name]) (retA items)
     else if name = lock_name \<and> is_directory (Some node) then retA items
     else
       thenA (liftR (project_check (\<not> is_directory (Some node)) ''Expected a <version>_<name> migration directory'')) (
       bindA (liftR (parse_directory name)) (\<lambda>(version, rest).
       bindA (file_exists [name, ''ready.json'']) (\<lambda>finished.
         retA (items @ [\<lparr>pi_directory = name, pi_version = version, pi_name = rest, pi_ready = finished\<rparr>])))))"

definition entry_file :: "string \<Rightarrow> backend_type list \<Rightarrow> string \<times> node \<Rightarrow> unit diskact" where
  "entry_file directory backends = (\<lambda>(name, _).
     if name \<in> {''migration.json'', ''schema.json'', ''ready.json''} then regularFile [directory, name]
     else liftR (project_check (\<not> list_ex (\<lambda>backend. backendName backend = Inr name) backends)
            ''Unexpected file in migration directory''))"

definition check_identity ::
  "json_library \<Rightarrow> json \<Rightarrow> project_item \<Rightarrow> version \<Rightarrow> schema_snapshot \<Rightarrow> (exn, unit) result" where
  "check_identity lib metadata item parent before =
     (let invalid = (\<lambda>refused. project_check refused ''Migration parent chain or directory identity is invalid'') in
      bindR (project_fields metadata
        [''formatVersion'', ''version'', ''name'', ''kind'', ''parentVersion'', ''parentHash'', ''scripts'']) (\<lambda>_.
      bindR (format_one metadata) (\<lambda>supported.
      bindR (invalid (\<not> supported)) (\<lambda>_.
      bindR (json_at metadata ''version'') (\<lambda>version.
      bindR (invalid (\<not> is_integer version)) (\<lambda>_.
      bindR (json_at metadata ''parentVersion'') (\<lambda>parentVersion.
      bindR (invalid (\<not> is_integer parentVersion)) (\<lambda>_.
      bindR (get_version version) (\<lambda>version.
      bindR (invalid (version \<noteq> pi_version item)) (\<lambda>_.
      bindR (string_at metadata ''name'') (\<lambda>name.
      bindR (invalid (name \<noteq> pi_name item)) (\<lambda>_.
      bindR (json_at metadata ''kind'') (\<lambda>kind.
      bindR (invalid (kind \<noteq> JString ''generated'' \<and> kind \<noteq> JString ''manual'')) (\<lambda>_.
      bindR (get_version parentVersion) (\<lambda>parentVersion.
      bindR (invalid (parentVersion \<noteq> parent)) (\<lambda>_.
      bindR (string_at metadata ''parentHash'') (\<lambda>parentHash.
      bindR (snapshotJson (jl_metadata lib) before) (\<lambda>parentJson.
        invalid (parentHash \<noteq> sha256 parentJson)))))))))))))))))))"

definition read_scripts ::
  "json_library \<Rightarrow> string \<Rightarrow> json \<Rightarrow> schema_snapshot \<Rightarrow> schema_snapshot \<Rightarrow> backend_type \<Rightarrow> (backend_type, sql_migration) omap
     \<Rightarrow> (backend_type, sql_migration) omap diskact" where
  "read_scripts lib directory metadata before after backend scripts =
     bindA (liftR (backendName backend)) (\<lambda>name.
     bindA (liftR (json_at metadata name)) (\<lambda>item.
     thenA (liftR (project_fields item [''beforeHash'', ''afterHash'', ''upContext'', ''downContext''])) (
     bindA (readSql [directory, name, ''up.sql'']) (\<lambda>up.
     bindA (file_exists [directory, name, ''down.sql'']) (\<lambda>reversible.
     bindA (if reversible then bindA (readSql [directory, name, ''down.sql'']) (\<lambda>down. retA (Some down)) else retA None) (\<lambda>down.
       liftR (
         bindR (string_at item ''beforeHash'') (\<lambda>beforeHash.
         bindR (string_at item ''afterHash'') (\<lambda>afterHash.
         bindR (bindR (json_at item ''upContext'') (jl_compact lib)) (\<lambda>upText.
         bindR (contextFromJson (jl_strict lib) upText) (\<lambda>upContext.
         bindR (bindR (json_at item ''downContext'') (jl_compact lib)) (\<lambda>downText.
         bindR (contextFromJson (jl_strict lib) downText) (\<lambda>downContext.
         bindR (snapshotHash (jl_metadata lib) before backend) (\<lambda>wantedBefore.
         bindR (project_check (beforeHash \<noteq> wantedBefore) ''Migration schema hashes do not match the snapshot chain'') (\<lambda>_.
         bindR (snapshotHash (jl_metadata lib) after backend) (\<lambda>wantedAfter.
         bindR (project_check (afterHash \<noteq> wantedAfter) ''Migration schema hashes do not match the snapshot chain'') (\<lambda>_.
           Inr (omap_insert backend \<lparr>sm_up = up, sm_down = down, sm_upContext = upContext, sm_downContext = downContext,
                  sm_beforeHash = beforeHash, sm_afterHash = afterHash\<rparr> scripts))))))))))))))))))"

text \<open>\<^verbatim>\<open>get<std::map<std::string, std::string>>()\<close>\<close>

definition get_files :: "json \<Rightarrow> (exn, (string, string) omap) result" where
  "get_files item =
     (case item of
        JObject members \<Rightarrow> mapR (\<lambda>(name, v). bindR (Orm_Json.get_string v) (\<lambda>content. Inr (name, content))) members
      | _ \<Rightarrow> Inl JsonException)"

definition check_ready ::
  "json_library \<Rightarrow> json \<Rightarrow> (string, string) omap \<Rightarrow> backend_type list \<Rightarrow> migration \<Rightarrow> (exn, unit) result" where
  "check_ready lib document actualFiles backends migration =
     (let modified = (\<lambda>refused. project_check refused ''Ready migration files have been modified'') in
      bindR (project_fields document [''formatVersion'', ''state'', ''files'', ''checksums'']) (\<lambda>_.
      bindR (format_one document) (\<lambda>supported.
      bindR (modified (\<not> supported)) (\<lambda>_.
      bindR (json_at document ''state'') (\<lambda>state.
      bindR (modified (state \<noteq> JString ''ready'')) (\<lambda>_.
      bindR (bindR (json_at document ''files'') get_files) (\<lambda>files.
      bindR (modified (files \<noteq> actualFiles)) (\<lambda>_.
      bindR (json_at document ''checksums'') (\<lambda>checksums.
      case checksums of
        JObject members \<Rightarrow>
          bindR (project_check (length members \<noteq> length backends) ''Invalid ready migration checksum set'') (\<lambda>_.
            forR (\<lambda>(backend, scripts).
              bindR (backendName backend) (\<lambda>name.
              bindR (string_at checksums name) (\<lambda>recorded.
              bindR (checksum (jl_metadata lib) scripts) (\<lambda>actual.
                project_check (recorded \<noteq> actual) ''Ready migration execution metadata has been modified''))))
              (mg_scripts migration))
      | _ \<Rightarrow> Inl (project_failure ''Invalid ready migration checksum set''))))))))))"

text \<open>The state of the loop over the sorted entries.\<close>

record load_state =
  ls_before :: schema_snapshot
  ls_parent :: version
  ls_draft :: bool
  ls_entries :: "project_entry list"

definition load_entry :: "json_library \<Rightarrow> backend_type list \<Rightarrow> project_item \<Rightarrow> load_state \<Rightarrow> load_state diskact" where
  "load_entry lib backends item state =
     (let directory = pi_directory item; before = ls_before state in
     thenA (liftR (project_check (pi_version item \<le> ls_parent state \<or> ls_draft state)
              ''Migration versions must be unique and drafts must be last'')) (
     bindA (directory_items [directory]) (\<lambda>items.
     thenA (forA (entry_file directory backends) items) (
     bindA (readJson lib [directory, ''migration.json'']) (\<lambda>metadata.
     thenA (liftR (check_identity lib metadata item (ls_parent state) before)) (
     bindA (bindA (readFile [directory, ''schema.json'']) (\<lambda>content. liftR (snapshotFromJson (jl_strict lib) content))) (\<lambda>after.
     thenA (liftR (checkSnapshotBackends after backends)) (
     bindA (liftR (json_at metadata ''scripts'')) (\<lambda>scriptsMetadata.
     thenA (liftR (project_check (case scriptsMetadata of JObject members \<Rightarrow> length members \<noteq> length backends | _ \<Rightarrow> True)
              ''Invalid migration backend metadata'')) (
     bindA (foldA (read_scripts lib directory scriptsMetadata before after) backends []) (\<lambda>scripts.
     bindA (sqlFiles [directory] backends) (\<lambda>actualFiles.
     let migration = \<lparr>mg_version = pi_version item, mg_name = pi_name item, mg_scripts = scripts, mg_before = before,
                      mg_after = after\<rparr> in
     bindA (if pi_ready item
            then bindA (liftR (Catalog (jl_metadata lib) [migration])) (\<lambda>validated.
                 let migration = hd validated in
                 bindA (readJson lib [directory, ''ready.json'']) (\<lambda>document.
                 thenA (liftR (check_ready lib document actualFiles backends migration)) (retA migration)))
            else retA migration) (\<lambda>migration.
       retA \<lparr>ls_before = after, ls_parent = pi_version item, ls_draft = \<not> pi_ready item,
             ls_entries = ls_entries state @ [\<lparr>pe_item = item, pe_migration = migration\<rparr>]\<rparr>)))))))))))))"

definition loadEntries :: "json_library \<Rightarrow> backend_type list \<Rightarrow> project_entry list diskact" where
  "loadEntries lib backends =
     bindA (projectBackends lib) (\<lambda>configured.
     thenA (liftR (project_check (configured \<noteq> backends) ''Migration project backend configuration has changed'')) (
     bindA (directory_items []) (\<lambda>nodes.
     bindA (foldA project_item_of nodes []) (\<lambda>items.
     bindA (liftR (emptySnapshot backends)) (\<lambda>before.
     bindA (foldA (load_entry lib backends) (sort_key pi_version items)
              \<lparr>ls_before = before, ls_parent = 0, ls_draft = False, ls_entries = []\<rparr>) (\<lambda>state.
       retA (ls_entries state)))))))"

section \<open>Publishing a draft\<close>

definition script_document ::
  "json_library \<Rightarrow> migration \<Rightarrow> backend_type \<Rightarrow> sql_migration \<Rightarrow> (exn, json) result" where
  "script_document lib migration backend script =
     bindR (snapshotHash (jl_metadata lib) (mg_before migration) backend) (\<lambda>beforeHash.
     bindR (snapshotHash (jl_metadata lib) (mg_after migration) backend) (\<lambda>afterHash.
     bindR (bindR (contextJson (jl_metadata lib) (sm_upContext script)) (jl_plain lib)) (\<lambda>upContext.
     bindR (bindR (contextJson (jl_metadata lib) (sm_downContext script)) (jl_plain lib)) (\<lambda>downContext.
       Inr (mk_object [(''beforeHash'', JString beforeHash), (''afterHash'', JString afterHash),
         (''upContext'', upContext), (''downContext'', downContext)])))))"

definition write_scripts ::
  "json_library \<Rightarrow> migration \<Rightarrow> backend_type \<Rightarrow> (string, json) omap \<Rightarrow> (string, json) omap diskact" where
  "write_scripts lib migration backend scripts =
     bindA (liftR (backendName backend)) (\<lambda>name.
     bindA (liftR (case map_of (mg_scripts migration) backend of None \<Rightarrow> Inl (LogicError ''map::at'') | Some script \<Rightarrow> Inr script)) (\<lambda>script.
     bindA (liftR (script_document lib migration backend script)) (\<lambda>document.
     bindA (create_directory [staging_directory, name]) (\<lambda>_.
     thenA (bindA (liftR (normalizeSql (sm_up script))) (writeFile [staging_directory, name, ''up.sql''])) (
     thenA (case sm_down script of
              None \<Rightarrow> retA ()
            | Some down \<Rightarrow> bindA (liftR (normalizeSql down)) (writeFile [staging_directory, name, ''down.sql'']))
       (retA (omap_insert name document scripts)))))))"

definition migration_document ::
  "json_library \<Rightarrow> migration \<Rightarrow> version \<Rightarrow> bool \<Rightarrow> (string, json) omap \<Rightarrow> (exn, string) result" where
  "migration_document lib migration parent manual scripts =
     bindR (snapshotJson (jl_metadata lib) (mg_before migration)) (\<lambda>parentJson.
     bindR (jl_pretty lib (mk_object [(''formatVersion'', JInt 1), (''version'', JInt (mg_version migration)),
         (''name'', JString (mg_name migration)), (''kind'', JString (if manual then ''manual'' else ''generated'')),
         (''parentVersion'', JInt parent), (''parentHash'', JString (sha256 parentJson)), (''scripts'', JObject scripts)]))
       (\<lambda>content. Inr (content @ [newline])))"

definition directory_name :: "version \<Rightarrow> string \<Rightarrow> string" where
  "directory_name version name = dec (nat version) @ ''_'' @ name"

text \<open>\<^verbatim>\<open>publishDirectory\<close> on a system with POSIX paths.\<close>

definition publishDirectory :: "path \<Rightarrow> path \<Rightarrow> unit diskact" where
  "publishDirectory source destination = rename_path source destination"

definition publishDraft ::
  "json_library \<Rightarrow> backend_type list \<Rightarrow> migration \<Rightarrow> version \<Rightarrow> bool \<Rightarrow> unit diskact" where
  "publishDraft lib backends migration parent manual =
     StagingDirectory (
       thenA (bindA (liftR (snapshotJson (jl_metadata lib) (mg_after migration))) (writeFile [staging_directory, ''schema.json''])) (
       bindA (foldA (write_scripts lib migration) backends []) (\<lambda>scripts.
       thenA (bindA (liftR (migration_document lib migration parent manual scripts))
                (writeFile [staging_directory, ''migration.json'']))
         (publishDirectory [staging_directory] [directory_name (mg_version migration) (mg_name migration)]))))"

section \<open>Operations\<close>

definition projectOperation :: "'a diskact \<Rightarrow> 'a diskact" where
  "projectOperation body = catchA body (\<lambda>e. throwA (
     if e = JsonException then project_failure ''Invalid migration project metadata''
     else if e = filesystem_error then project_failure ''Cannot access migration project files''
     else if e = ios_failure then project_failure ''Cannot write migration project files''
     else e))"

definition MigrationProject :: "json_library \<Rightarrow> backend_type list diskact" where
  "MigrationProject lib =
     bindA (projectOperation (projectBackends lib)) (\<lambda>backends.
     thenA (projectOperation (loadEntries lib backends)) (retA backends))"

definition create_directories :: "unit diskact" where
  "create_directories = bindA (file_status []) (\<lambda>root.
     case root of
       None \<Rightarrow> put [] (Some (DirNode []))
     | Some (DirNode _) \<Rightarrow> retA ()
     | Some _ \<Rightarrow> throwA filesystem_error)"

text \<open>A document is written beside its name and renamed; a failure removes the temporary file.\<close>

definition replace_file :: "path \<Rightarrow> (exn, string) result \<Rightarrow> path \<Rightarrow> unit diskact" where
  "replace_file temporary content target =
     catchA (thenA (bindA (liftR content) (writeFile temporary)) (rename_path temporary target))
       (\<lambda>e. thenA (remove_quietly temporary) (throwA e))"

definition init :: "json_library \<Rightarrow> backend_type list \<Rightarrow> backend_type list diskact" where
  "init lib backends = projectOperation (
     bindA (liftR (backendNames backends)) (\<lambda>names.
     bindA (file_status []) (\<lambda>root.
     thenA (liftR (project_check (case root of Some (LinkNode _) \<Rightarrow> True | _ \<Rightarrow> False)
              ''Migration project directory cannot be a symlink'')) (
     thenA create_directories (
     ProjectLock (
       bindA (directory_items []) (\<lambda>items.
       thenA (liftR (project_check (list_ex (\<lambda>(name, _). name \<noteq> lock_name) items)
                ''Migration project initialization requires an empty directory'')) (
       thenA (replace_file [''.project.json.tmp'']
                (bindR (jl_pretty lib (mk_object [(''formatVersion'', JInt 1), (''backends'', encode_strings names)])) (\<lambda>content.
                   Inr (content @ [newline]))) [''project.json''])
         (MigrationProject lib)))))))))"

definition latestSnapshot :: "json_library \<Rightarrow> backend_type list \<Rightarrow> schema_snapshot diskact" where
  "latestSnapshot lib backends = projectOperation (
     bindA (loadEntries lib backends) (\<lambda>entries.
       liftR (
         bindR (project_check (entries \<noteq> [] \<and> \<not> pi_ready (pe_item (last entries)))
                  ''Finalize the draft before using it as a source snapshot'') (\<lambda>_.
           if entries = [] then emptySnapshot backends else Inr (mg_after (pe_migration (last entries)))))))"

definition draftVersion :: "json_library \<Rightarrow> backend_type list \<Rightarrow> version option diskact" where
  "draftVersion lib backends = projectOperation (
     bindA (loadEntries lib backends) (\<lambda>entries.
       retA (if entries \<noteq> [] \<and> \<not> pi_ready (pe_item (last entries)) then Some (pi_version (pe_item (last entries))) else None)))"

definition project_catalog :: "json_library \<Rightarrow> backend_type list \<Rightarrow> migration list diskact" where
  "project_catalog lib backends = projectOperation (
     bindA (loadEntries lib backends) (\<lambda>entries.
       liftR (
         bindR (forR (\<lambda>entry. project_check (\<not> pi_ready (pe_item entry))
                  ''A draft migration cannot be executed; finalize it first'') entries) (\<lambda>_.
           Catalog (jl_metadata lib) (map pe_migration entries)))))"

definition project_compare ::
  "json_library \<Rightarrow> backend_type list \<Rightarrow> schema_view \<Rightarrow> generation_decisions \<Rightarrow> schema_diff diskact" where
  "project_compare lib backends models decisions =
     bindA (latestSnapshot lib backends) (\<lambda>before.
       liftR (bindR (capture models backends) (\<lambda>after. compare before after decisions)))"

text \<open>What \<^verbatim>\<open>make\<close> and \<^verbatim>\<open>makeManual\<close> find under the lock: the last version and snapshot.\<close>

definition max_version :: version where
  "max_version = 9223372036854775807"

definition draft_parent :: "json_library \<Rightarrow> backend_type list \<Rightarrow> (version \<times> schema_snapshot) diskact" where
  "draft_parent lib backends =
     bindA (loadEntries lib backends) (\<lambda>entries.
       liftR (
         bindR (project_check (entries \<noteq> [] \<and> \<not> pi_ready (pe_item (last entries)))
                  ''Finalize the current draft before creating another migration'') (\<lambda>_.
         let parent = (if entries = [] then 0 else pi_version (pe_item (last entries))) in
         bindR (project_check (parent = max_version) ''Migration version range is exhausted'') (\<lambda>_.
         bindR (if entries = [] then emptySnapshot backends else Inr (mg_after (pe_migration (last entries)))) (\<lambda>before.
           Inr (parent, before))))))"

definition make ::
  "json_library \<Rightarrow> backend_type list \<Rightarrow> string \<Rightarrow> schema_view \<Rightarrow> generation_decisions \<Rightarrow> version diskact" where
  "make lib backends name models decisions = projectOperation (
     thenA (liftR (project_check (\<not> safeProjectName name)
              ''Migration name must contain only ASCII letters, digits, underscores or hyphens'')) (
     ProjectLock (
       bindA (draft_parent lib backends) (\<lambda>(parent, before).
       bindA (liftR (
           bindR (capture models backends) (\<lambda>after.
           bindR (compare before after decisions) (\<lambda>diff.
           bindR (project_check (df_changes diff = [])
                    ''Models have no schema changes; use make --manual for a data migration'') (\<lambda>_.
             generate (jl_metadata lib) (parent + 1) name diff decisions))))) (\<lambda>generated.
       thenA (publishDraft lib backends (gm_migration generated) parent False)
         (retA (parent + 1)))))))"

definition manual_script :: sql_migration where
  "manual_script = \<lparr>sm_up = ''-- Write and review the migration SQL before finalizing.'' @ [newline], sm_down = None,
     sm_upContext = fresh_context, sm_downContext = fresh_context, sm_beforeHash = [], sm_afterHash = []\<rparr>"

definition makeManual :: "json_library \<Rightarrow> backend_type list \<Rightarrow> string \<Rightarrow> schema_view \<Rightarrow> version diskact" where
  "makeManual lib backends name models = projectOperation (
     thenA (liftR (project_check (\<not> safeProjectName name) ''Invalid migration name'')) (
     ProjectLock (
       bindA (draft_parent lib backends) (\<lambda>(parent, before).
       bindA (liftR (capture models backends)) (\<lambda>after.
       thenA (publishDraft lib backends
                \<lparr>mg_version = parent + 1, mg_name = name,
                 mg_scripts = fold (\<lambda>backend. omap_insert backend manual_script) backends [],
                 mg_before = before, mg_after = after\<rparr> parent True)
         (retA (parent + 1)))))))"

definition finalize_checksums :: "json_library \<Rightarrow> version \<Rightarrow> migration \<Rightarrow> (exn, json) result" where
  "finalize_checksums lib version migration =
     bindR (Catalog (jl_metadata lib) [migration]) (\<lambda>validated.
     bindR (foldR (\<lambda>(backend, scripts) checksums.
         bindR (validateScript (sm_up scripts) backend version) (\<lambda>_.
         bindR (case sm_down scripts of None \<Rightarrow> Inr () | Some down \<Rightarrow> validateScript down backend version) (\<lambda>_.
         bindR (backendName backend) (\<lambda>name.
         bindR (checksum (jl_metadata lib) scripts) (\<lambda>sum_text.
           Inr (omap_insert name (JString sum_text) checksums))))))
         (mg_scripts (hd validated)) []) (\<lambda>checksums.
       Inr (JObject checksums)))"

definition finalize :: "json_library \<Rightarrow> backend_type list \<Rightarrow> version \<Rightarrow> schema_view \<Rightarrow> bool \<Rightarrow> unit diskact" where
  "finalize lib backends version models acceptSchema = projectOperation (
     thenA (liftR (project_check (\<not> acceptSchema) ''Finalization requires explicit acceptance of the declared schema'')) (
     ProjectLock (
       bindA (loadEntries lib backends) (\<lambda>entries.
       thenA (liftR (project_check (entries = [] \<or> pi_version (pe_item (last entries)) \<noteq> version \<or> pi_ready (pe_item (last entries)))
                ''Only the current draft migration can be finalized'')) (
       let entry = last entries; directory = pi_directory (pe_item entry) in
       bindA (liftR (capture models backends)) (\<lambda>current.
       thenA (liftR (project_check (mg_after (pe_migration entry) \<noteq> current)
                ''Current models differ from the draft target snapshot'')) (
       bindA (liftR (finalize_checksums lib version (pe_migration entry))) (\<lambda>checksums.
         catchA
           (bindA (sqlFiles [directory] backends) (\<lambda>files.
            bindA (liftR (jl_pretty lib (mk_object [(''formatVersion'', JInt 1), (''state'', JString ''ready''),
                (''files'', JObject (map (\<lambda>(name, digest). (name, JString digest)) files)), (''checksums'', checksums)]))) (\<lambda>content.
            thenA (writeFile [directory, ''.ready.json.tmp''] (content @ [newline]))
              (rename_path [directory, ''.ready.json.tmp''] [directory, ''ready.json'']))))
           (\<lambda>e. thenA (remove_quietly [directory, ''.ready.json.tmp'']) (throwA e))))))))))"

end
