(* ===== verification/Orm_Project_Safety.thy ===== *)
theory Orm_Project_Safety
  imports Orm_Project
begin

text \<open>
  What migration projects guarantee: operations that create a draft publish it whole or not at all, whatever access fails;
  and a project that can be read is a chain of migrations whose drafts come last.
\<close>

section \<open>Reading\<close>

text \<open>An action that only reads keeps the tree, also when it throws.\<close>

definition reads :: "'a diskact \<Rightarrow> bool" where
  "reads m \<longleftrightarrow> (\<forall>root. keeps (\<lambda>s. dk_root s = root) m)"

named_theorems reads_intros \<open>actions that only read\<close>

lemma reads_keeps: "reads m \<Longrightarrow> keeps (\<lambda>s. F (dk_root s)) m"
  unfolding reads_def keeps_def by metis

lemma reads_pure [reads_intros]: "reads (retA x)" "reads (throwA e)" "reads (liftR r)" "reads (getA f)" "reads (throwIfA b e)"
  by (simp_all add: reads_def keeps_intros)

lemma reads_bindA [reads_intros]: "reads m \<Longrightarrow> (\<And>x. reads (f x)) \<Longrightarrow> reads (bindA m f)"
  by (simp add: reads_def keeps_bindA)

lemma reads_thenA [reads_intros]: "reads m \<Longrightarrow> reads n \<Longrightarrow> reads (thenA m n)"
  by (simp add: reads_def keeps_thenA)

lemma reads_catchA [reads_intros]: "reads m \<Longrightarrow> (\<And>e. reads (h e)) \<Longrightarrow> reads (catchA m h)"
  by (simp add: reads_def keeps_catchA)

lemma reads_loops [reads_intros]: "(\<And>x. reads (f x)) \<Longrightarrow> reads (forA f xs)" "(\<And>x y. reads (g x y)) \<Longrightarrow> reads (foldA g xs y)"
  by (simp_all add: reads_def keeps_forA keeps_foldA)

lemma reads_cases [reads_intros]:
  "(b \<Longrightarrow> reads m) \<Longrightarrow> (\<not> b \<Longrightarrow> reads n) \<Longrightarrow> reads (if b then m else n)"
  "(\<And>a c. reads (p a c)) \<Longrightarrow> reads (case x of (a, c) \<Rightarrow> p a c)"
  "reads m \<Longrightarrow> (\<And>z. reads (g z)) \<Longrightarrow> reads (case y of None \<Rightarrow> m | Some z \<Rightarrow> g z)"
  "(\<And>content. reads (f content)) \<Longrightarrow> (\<And>entries. reads (d entries)) \<Longrightarrow> (\<And>target. reads (l target)) \<Longrightarrow>
     reads (case v of FileNode content \<Rightarrow> f content | DirNode entries \<Rightarrow> d entries | LinkNode target \<Rightarrow> l target)"
  by (auto split: prod.splits option.splits node.splits)

lemma reads_fault [reads_intros]: "reads next_fault"
  by (auto simp: reads_def next_fault_def split: list.splits intro!: keepsI)

lemma reads_access [reads_intros]:
  "reads (access e)" "reads (file_status path)" "reads (file_exists path)" "reads (directory_items path)" "reads (regularFile path)"
  "reads (readFile path)" "reads (readJson lib path)" "reads (readSql path)"
  unfolding access_def file_status_def file_exists_def directory_items_def regularFile_def readFile_def readJson_def readSql_def
  by (intro reads_intros)+

lemma reads_backends [reads_intros]: "reads (projectBackends lib)"
  unfolding projectBackends_def by (intro reads_intros)

lemma reads_files [reads_intros]: "reads (backend_files entry backend files)"
  unfolding backend_files_def Let_def by (intro reads_intros)

lemma reads_sqlFiles [reads_intros]: "reads (sqlFiles entry backends)"
  unfolding sqlFiles_def by (intro reads_intros)

lemma reads_item [reads_intros]: "reads (project_item_of item items)"
  by (cases item) (simp only: project_item_of_def prod.case, intro reads_intros)

lemma reads_entry_file [reads_intros]: "reads (entry_file directory backends file)"
  unfolding entry_file_def by (intro reads_intros)

lemma reads_scripts [reads_intros]: "reads (read_scripts lib directory metadata before after backend scripts)"
  unfolding read_scripts_def by (intro reads_intros)

lemma reads_entries [reads_intros]: "reads (load_entry lib backends item state)"
  unfolding load_entry_def Let_def by (intro reads_intros)

lemma reads_loadEntries [reads_intros]: "reads (loadEntries lib backends)" "reads (draft_parent lib backends)"
  unfolding loadEntries_def draft_parent_def by (intro reads_intros)+

section \<open>Trees\<close>

text \<open>The entries of the project directory but for the lock and the staging directory.\<close>

definition visible :: "string \<times> node \<Rightarrow> bool" where
  "visible = (\<lambda>(name, _). name \<noteq> lock_name \<and> name \<noteq> staging_directory)"

fun entries_of :: "node option \<Rightarrow> (string \<times> node) list" where
  "entries_of (Some (DirNode entries)) = entries"
| "entries_of _ = []"

definition published :: "node option \<Rightarrow> (string \<times> node) list" where
  "published root = filter visible (entries_of root)"

lemma visible_name [simp]: "visible (name, node) \<longleftrightarrow> name \<noteq> lock_name \<and> name \<noteq> staging_directory"
  by (simp add: visible_def)

lemma set_entry_hidden: "\<not> visible (name, child) \<Longrightarrow> filter visible (set_entry name given entries) = filter visible entries"
  by (induction name given entries rule: set_entry.induct) (auto split: option.splits)

lemma set_entry_visible:
  "visible (name, child) \<Longrightarrow> filter visible (set_entry name (Some child) entries) = set_entry name (Some child) (filter visible entries)"
  by (induction entries) auto

lemma set_entry_new: "name \<notin> fst ` set entries \<Longrightarrow> set_entry name (Some child) entries = entries @ [(name, child)]"
  by (induction entries) auto

lemma map_of_set_entry_other: "other \<noteq> name \<Longrightarrow> map_of (set_entry name given entries) other = map_of entries other"
  by (induction entries) (auto split: option.splits)

lemma map_of_set_entry [simp]: "map_of (set_entry name (Some child) entries) name = Some child"
  by (induction entries) auto

lemma put_at_published: "\<not> visible (name, child) \<Longrightarrow> published (put_at (name # path) given root) = published root"
  by (auto simp: published_def set_entry_hidden split: option.splits node.splits)

lemma put_at_Some: "path \<noteq> [] \<Longrightarrow> \<exists>child'. put_at path given (Some child) = Some child'"
  by (cases path) (auto split: option.splits node.splits)

lemma node_put_below:
  "path \<noteq> [] \<Longrightarrow> map_of entries name = Some child \<Longrightarrow>
   node_at (put_at (name # path) given (Some (DirNode entries))) (name # q) = node_at (put_at path given (Some child)) q"
  using put_at_Some [of path given child] by auto

lemma parent_below:
  "path \<noteq> [] \<Longrightarrow> parent_exists (name # path) root \<Longrightarrow>
   \<exists>entries child. root = Some (DirNode entries) \<and> map_of entries name = Some child \<and> parent_exists path (Some child)"
proof -
  assume path: "path \<noteq> []" and parent: "parent_exists (name # path) root"
  then obtain entries where root: "root = Some (DirNode entries)"
    by (auto simp: parent_exists_def split: option.splits node.splits)
  have inner: "parent_exists path (map_of entries name)" using parent path by (simp add: parent_exists_def root)
  have absent: "node_at None q = None" for q by (cases q) auto
  have "map_of entries name \<noteq> None" using inner absent by (cases "map_of entries name") (auto simp: parent_exists_def)
  with root inner show ?thesis by auto
qed

lemma node_put_same:
  "path \<noteq> [] \<Longrightarrow> parent_exists path root \<Longrightarrow> node_at (put_at path (Some child) root) path = Some child"
proof (induction path arbitrary: root)
  case (Cons name path)
  show ?case
  proof (cases "path = []")
    case True
    then show ?thesis using Cons.prems by (auto simp: parent_exists_def split: option.splits node.splits)
  next
    case False
    obtain entries inner where "root = Some (DirNode entries)" "map_of entries name = Some inner" "parent_exists path (Some inner)"
      using parent_below [OF False Cons.prems(2)] by blast
    then show ?thesis using Cons.IH [OF False] node_put_below [OF False] by metis
  qed
qed simp

text \<open>Paths that part ways do not disturb each other.\<close>

fun apart :: "path \<Rightarrow> path \<Rightarrow> bool" where
  "apart (a # p) (b # q) \<longleftrightarrow> a \<noteq> b \<or> apart p q"
| "apart _ _ \<longleftrightarrow> False"

lemma node_put_other: "apart p q \<Longrightarrow> node_at (put_at p given root) q = node_at root q"
proof (induction p q arbitrary: root rule: apart.induct)
  case (1 a p b q)
  show ?case
  proof (cases "a = b")
    case True
    then have "apart p q" using 1 by simp
    then have "p \<noteq> []" by (cases p) auto
    then show ?thesis
      using 1 True \<open>apart p q\<close> put_at_Some [of p given] by (auto split: option.splits node.splits) (metis map_of_set_entry)+
  next
    case False
    then show ?thesis by (auto simp: map_of_set_entry_other split: option.splits node.splits)
  qed
qed auto

section \<open>Writing\<close>

text \<open>An action that may change the tree below the lock and the staging directory only.\<close>

definition hidden :: "'a diskact \<Rightarrow> bool" where
  "hidden m \<longleftrightarrow> (\<forall>entries. keeps (\<lambda>s. published (dk_root s) = entries) m)"

named_theorems hidden_intros \<open>actions that change nothing published\<close>

lemma hidden_keeps: "hidden m \<Longrightarrow> keeps (\<lambda>s. published (dk_root s) = entries) m"
  by (simp add: hidden_def)

lemma hidden_reads [hidden_intros]: "reads m \<Longrightarrow> hidden m"
  unfolding hidden_def using reads_keeps [where F = "\<lambda>root. published root = entries" for entries] by blast

lemma hidden_bindA [hidden_intros]: "hidden m \<Longrightarrow> (\<And>x. hidden (f x)) \<Longrightarrow> hidden (bindA m f)"
  by (simp add: hidden_def keeps_bindA)

lemma hidden_thenA [hidden_intros]: "hidden m \<Longrightarrow> hidden n \<Longrightarrow> hidden (thenA m n)"
  by (simp add: hidden_def keeps_thenA)

lemma hidden_foldA [hidden_intros]: "(\<And>x y. hidden (g x y)) \<Longrightarrow> hidden (foldA g xs y)"
  by (simp add: hidden_def keeps_foldA)

lemma hidden_put: "\<not> visible (name, child) \<Longrightarrow> hidden (put (name # path) given)"
  unfolding hidden_def put_def by (auto intro!: keeps_modifyA simp: put_at_published simp del: put_at.simps)

lemma names_hidden: "\<not> visible (lock_name, child)" "\<not> visible (staging_directory, child)"
  by simp_all

lemma hidden_cases [hidden_intros]:
  "(b \<Longrightarrow> hidden m) \<Longrightarrow> (\<not> b \<Longrightarrow> hidden n) \<Longrightarrow> hidden (if b then m else n)"
  "hidden m \<Longrightarrow> (\<And>z. hidden (g z)) \<Longrightarrow> hidden (case y of None \<Rightarrow> m | Some z \<Rightarrow> g z)"
  "(\<And>content. hidden (f content)) \<Longrightarrow> (\<And>entries. hidden (d entries)) \<Longrightarrow> (\<And>target. hidden (l target)) \<Longrightarrow>
     hidden (case v of FileNode content \<Rightarrow> f content | DirNode entries \<Rightarrow> d entries | LinkNode target \<Rightarrow> l target)"
  "hidden z \<Longrightarrow> (\<And>k. hidden (t k)) \<Longrightarrow> hidden (case i of 0 \<Rightarrow> z | Suc k \<Rightarrow> t k)"
  "hidden p \<Longrightarrow> hidden q \<Longrightarrow> hidden (case c of True \<Rightarrow> p | False \<Rightarrow> q)"
  by (auto split: option.splits node.splits nat.splits bool.splits)

lemma hidden_create: "\<not> visible (name, child) \<Longrightarrow> hidden (create_directory (name # path))"
  unfolding create_directory_def by (intro hidden_bindA hidden_thenA hidden_cases hidden_put hidden_reads reads_intros)

lemma hidden_write: "\<not> visible (name, child) \<Longrightarrow> hidden (writeFile (name # path) content)"
  unfolding writeFile_def by (intro hidden_bindA hidden_thenA hidden_cases hidden_put hidden_reads reads_intros)

lemma hidden_remove: "\<not> visible (name, child) \<Longrightarrow> hidden (remove_quietly (name # path))"
  unfolding remove_quietly_def by (intro hidden_bindA hidden_thenA hidden_cases hidden_put hidden_reads reads_intros)

lemma hidden_remove_all: "\<not> visible (name, child) \<Longrightarrow> hidden (remove_all_quietly (name # path))"
  unfolding remove_all_quietly_def by (intro hidden_bindA hidden_thenA hidden_cases hidden_put hidden_reads reads_intros)

lemma hidden_exclusive: "\<not> visible (name, child) \<Longrightarrow> hidden (createExclusiveDirectory (name # path) error message)"
  unfolding createExclusiveDirectory_def by (intro hidden_bindA hidden_create hidden_reads reads_intros)

lemma hidden_scripts: "hidden (write_scripts lib migration backend scripts)"
  unfolding write_scripts_def
  by (intro hidden_bindA hidden_thenA hidden_cases hidden_create hidden_write names_hidden hidden_reads reads_intros)

section \<open>Drafts\<close>

text \<open>What is at a path below the staging directory, and the actions that leave it there.\<close>

definition staged :: "disk \<Rightarrow> path \<Rightarrow> node option" where
  "staged s path = node_at (dk_root s) (staging_directory # path)"

definition spares :: "path \<Rightarrow> 'a diskact \<Rightarrow> bool" where
  "spares path m \<longleftrightarrow> (\<forall>node. keeps (\<lambda>s. staged s path = node) m)"

lemma spares_put: "apart p (staging_directory # path) \<Longrightarrow> spares path (put p given)"
  unfolding spares_def put_def staged_def by (auto intro!: keeps_modifyA simp: node_put_other simp del: put_at.simps node_at.simps)

lemma spares_reads: "reads m \<Longrightarrow> spares path m"
  using reads_keeps [where F = "\<lambda>root. node_at root (staging_directory # path) = node" for node]
  by (auto simp: staged_def [abs_def] spares_def simp del: node_at.simps)

lemma spares_seq:
  "spares path m \<Longrightarrow> (\<And>x. spares path (f x)) \<Longrightarrow> spares path (bindA m f)"
  "spares path m \<Longrightarrow> spares path n \<Longrightarrow> spares path (thenA m n)"
  by (simp_all add: spares_def keeps_bindA keeps_thenA)

lemma spares_cases:
  "(b \<Longrightarrow> spares path m) \<Longrightarrow> (\<not> b \<Longrightarrow> spares path n) \<Longrightarrow> spares path (if b then m else n)"
  "spares path m \<Longrightarrow> (\<And>z. spares path (g z)) \<Longrightarrow> spares path (case y of None \<Rightarrow> m | Some z \<Rightarrow> g z)"
  "(\<And>content. spares path (f content)) \<Longrightarrow> (\<And>entries. spares path (d entries)) \<Longrightarrow> (\<And>target. spares path (l target)) \<Longrightarrow>
     spares path (case v of FileNode content \<Rightarrow> f content | DirNode entries \<Rightarrow> d entries | LinkNode target \<Rightarrow> l target)"
  "spares path z \<Longrightarrow> (\<And>k. spares path (t k)) \<Longrightarrow> spares path (case i of 0 \<Rightarrow> z | Suc k \<Rightarrow> t k)"
  "spares path p \<Longrightarrow> spares path q \<Longrightarrow> spares path (case c of True \<Rightarrow> p | False \<Rightarrow> q)"
  by (auto split: option.splits node.splits nat.splits bool.splits)

lemma spares_writes:
  assumes "apart p (staging_directory # path)"
  shows "spares path (create_directory p)" "spares path (writeFile p content)"
  unfolding create_directory_def writeFile_def
  by (intro spares_seq spares_cases spares_put [OF assms] spares_reads reads_intros)+

lemma spares_staged_write: "apart p path \<Longrightarrow> spares path (bindA (liftR r) (writeFile (staging_directory # p)))"
  by (intro spares_seq spares_reads reads_intros spares_writes) simp

lemma spares_scripts:
  assumes "backendName backend \<noteq> Inr name"
  shows "spares (name # path) (write_scripts lib migration backend scripts)"
proof (cases "backendName backend")
  case (Inl e)
  then show ?thesis by (simp add: write_scripts_def bindA_def spares_def keeps_def)
next
  case (Inr other)
  then have "apart (staging_directory # other # rest) (staging_directory # name # path)" for rest using assms by simp
  then show ?thesis
    unfolding write_scripts_def Inr bindA_liftR by (intro spares_seq spares_cases spares_writes spares_reads reads_intros)
qed

lemma sparesD: "spares path m \<Longrightarrow> m s = (r, s') \<Longrightarrow> r \<noteq> Inl Terminate \<Longrightarrow> staged s' path = staged s path"
  using keepsD [where P = "\<lambda>t. staged t path = staged s path" and s = s] unfolding spares_def by blast

lemma backendName_plain: "backendName backend \<noteq> Inr ''schema.json''" "backendName backend \<noteq> Inr ''migration.json''"
  by (auto simp: backendName_def split: backend_type.splits)

text \<open>Running an access.\<close>

lemma hidden_any: "hidden m \<Longrightarrow> keeps (\<lambda>s. G (published (dk_root s))) m"
  unfolding hidden_def keeps_def by metis

lemma hiddenD: "hidden m \<Longrightarrow> m s = (r, s') \<Longrightarrow> r \<noteq> Inl Terminate \<Longrightarrow> published (dk_root s') = published (dk_root s)"
  using keepsD [where P = "\<lambda>t. published (dk_root t) = published (dk_root s)" and s = s] unfolding hidden_def by blast

lemma node_at_below: "node_at root (name # path) = node_at (node_at root [name]) path"
proof -
  have "node_at None path = None" by (cases path) auto
  then show ?thesis by (auto split: option.splits node.splits)
qed

lemma next_fault_root: "next_fault s = (r, s') \<Longrightarrow> dk_root s' = dk_root s \<and> isOk r"
  by (auto simp: next_fault_def split: list.splits)

lemma status_root: "file_status path s = (Inr found, s') \<Longrightarrow> dk_root s' = dk_root s \<and> found = node_at (dk_root s) path"
  by (auto simp: file_status_def access_def thenA_Inr bindA_Inr dest!: next_fault_root split: if_splits)

lemma writeFile_Inr:
  "writeFile path content s = (Inr u, s') \<Longrightarrow>
   parent_exists path (dk_root s) \<and> dk_root s' = put_at path (Some (FileNode content)) (dk_root s)"
  by (auto simp: writeFile_def bindA_Inr thenA_Inr put_def dest!: next_fault_root split: if_splits option.splits nat.splits)

lemma rename_Inr:
  assumes "rename_path source target s = (Inr u, s')"
  shows "\<exists>node. node_at (dk_root s) source = Some node \<and> parent_exists target (dk_root s) \<and>
    dk_root s' = put_at target (Some node) (put_at source None (dk_root s))"
proof -
  obtain found t where found: "file_status source s = (Inr found, t)"
    using assms by (auto simp: rename_path_def bindA_Inr)
  then show ?thesis
    using assms status_root [OF found]
    by (cases "node_at (dk_root s) source") (auto simp: rename_path_def bindA_def thenA_def put_def split: if_splits)
qed

lemma rename_Inl: "rename_path source target s = (Inl e, s') \<Longrightarrow> dk_root s' = dk_root s"
proof -
  assume "rename_path source target s = (Inl e, s')"
  then have "file_status source s = (Inl e, s') \<or> (\<exists>found t. file_status source s = (Inr found, t) \<and> dk_root s' = dk_root t)"
    by (auto simp: rename_path_def bindA_Inl thenA_Inl put_def split: option.splits if_splits)
  moreover have "dk_root t = dk_root s" if "file_status source s = (r, t)" for r t
    using that by (auto simp: file_status_def access_def thenA_def bindA_def dest!: next_fault_root split: prod.splits sum.splits if_splits)
  ultimately show ?thesis by metis
qed

text \<open>A draft that has everything: the schema and the metadata of its migration, and the scripts of every backend.\<close>

definition has_script :: "migration \<Rightarrow> (path \<Rightarrow> node option) \<Rightarrow> backend_type \<Rightarrow> bool" where
  "has_script migration look backend \<longleftrightarrow>
     (\<exists>name script up. backendName backend = Inr name \<and> map_of (mg_scripts migration) backend = Some script \<and>
        normalizeSql (sm_up script) = Inr up \<and> look [name, ''up.sql''] = Some (FileNode up) \<and>
        (\<forall>down. sm_down script = Some down \<longrightarrow>
           (\<exists>content. normalizeSql down = Inr content \<and> look [name, ''down.sql''] = Some (FileNode content))))"

definition has_schema :: "json_library \<Rightarrow> migration \<Rightarrow> (path \<Rightarrow> node option) \<Rightarrow> bool" where
  "has_schema lib migration look \<longleftrightarrow>
     (\<exists>schema. snapshotJson (jl_metadata lib) (mg_after migration) = Inr schema \<and> look [''schema.json''] = Some (FileNode schema))"

definition has_metadata :: "json_library \<Rightarrow> migration \<Rightarrow> version \<Rightarrow> bool \<Rightarrow> (path \<Rightarrow> node option) \<Rightarrow> bool" where
  "has_metadata lib migration parent manual look \<longleftrightarrow>
     (\<exists>scripts document. migration_document lib migration parent manual scripts = Inr document \<and>
        look [''migration.json''] = Some (FileNode document))"

definition draft_of :: "json_library \<Rightarrow> backend_type list \<Rightarrow> migration \<Rightarrow> version \<Rightarrow> bool \<Rightarrow> node \<Rightarrow> bool" where
  "draft_of lib backends migration parent manual node \<longleftrightarrow>
     has_schema lib migration (node_at (Some node)) \<and> has_metadata lib migration parent manual (node_at (Some node)) \<and>
     list_all (has_script migration (node_at (Some node))) backends"

lemma write_staged:
  assumes "bindA (liftR r) (writeFile (staging_directory # path)) s = (Inr u, s')"
  shows "\<exists>content. r = Inr content \<and> staged s' path = Some (FileNode content)"
  using assms node_put_same [of "staging_directory # path" "dk_root s"]
  by (auto simp: bindA_Inr staged_def simp del: put_at.simps node_at.simps dest!: writeFile_Inr)

lemma hidden_staged_write: "hidden (bindA (liftR r) (writeFile (staging_directory # path)))"
  by (intro hidden_bindA hidden_write names_hidden hidden_reads reads_intros)

lemma write_scripts_staged:
  assumes "write_scripts lib migration backend scripts s = (Inr scripts', s')"
  shows "has_script migration (staged s') backend"
proof -
  obtain name script t u where names: "backendName backend = Inr name" "map_of (mg_scripts migration) backend = Some script"
    and up: "bindA (liftR (normalizeSql (sm_up script))) (writeFile [staging_directory, name, ''up.sql'']) t = (Inr (), u)"
    and down: "(case sm_down script of None \<Rightarrow> retA ()
      | Some down \<Rightarrow> bindA (liftR (normalizeSql down)) (writeFile [staging_directory, name, ''down.sql''])) u = (Inr (), s')"
    using assms by (auto simp: write_scripts_def bindA_Inr thenA_Inr split: option.splits)
  obtain content where content: "normalizeSql (sm_up script) = Inr content" "staged u [name, ''up.sql''] = Some (FileNode content)"
    using write_staged [OF up] by blast
  have apart: "apart [name, ''down.sql''] [name, ''up.sql'']" by simp
  have "staged s' [name, ''up.sql''] = staged u [name, ''up.sql'']"
    using down sparesD [OF spares_staged_write [OF apart]] by (cases "sm_down script") auto
  moreover have "\<exists>content. normalizeSql d = Inr content \<and> staged s' [name, ''down.sql''] = Some (FileNode content)"
    if "sm_down script = Some d" for d using down write_staged [of "normalizeSql d"] by (simp add: that)
  ultimately show ?thesis using names content by (auto simp: has_script_def)
qed

lemma has_script_other:
  assumes "write_scripts lib migration other scripts s = (Inr scripts', s')" "has_script migration (staged s) backend" "other \<noteq> backend"
  shows "has_script migration (staged s') backend"
proof -
  obtain name where name: "backendName backend = Inr name" using assms(2) by (auto simp: has_script_def)
  then have "backendName other \<noteq> Inr name" using assms(3) backendName_inj by metis
  then have "staged s' (name # path) = staged s (name # path)" for path
    using sparesD [OF spares_scripts assms(1)] by simp
  then show ?thesis using assms(2) name by (auto simp: has_script_def)
qed

lemma write_all_scripts:
  "foldA (write_scripts lib migration) backends scripts s = (Inr scripts', s') \<Longrightarrow> list_all (has_script migration (staged s)) written \<Longrightarrow>
   list_all (has_script migration (staged s')) (written @ backends) \<and> staged s' [''schema.json''] = staged s [''schema.json'']"
proof (induction backends arbitrary: scripts s written)
  case (Cons backend backends)
  then obtain middle t where step: "write_scripts lib migration backend scripts s = (Inr middle, t)"
    and rest: "foldA (write_scripts lib migration) backends middle t = (Inr scripts', s')"
    by (auto simp: bindA_Inr)
  have "has_script migration (staged t) other" if "other \<in> set (written @ [backend])" for other
    using write_scripts_staged [OF step] has_script_other [OF step, of other] that Cons.prems(2) by (auto simp: list_all_iff)
  then have "list_all (has_script migration (staged t)) (written @ [backend])" by (simp only: list_all_iff) blast
  moreover have "staged t [''schema.json''] = staged s [''schema.json'']"
    using sparesD [OF spares_scripts [OF backendName_plain(1)] step] by simp
  ultimately show ?case using Cons.IH [OF rest, of "written @ [backend]"] by simp
qed simp

end
