(* ===== verification/Orm_Project_Chain.thy ===== *)
theory Orm_Project_Chain
  imports Orm_Project_Safety
begin

text \<open>
  A migration project that can be read is a chain of migrations in which a draft comes last, and every directory of it has
  a version of the chain.
\<close>

section \<open>The chain\<close>

text \<open>
  Versions grow from the parent's, the migration of an entry carries the version and the name of its directory and starts
  from the schema the entry before ends in, and only the last entry may be a draft.
\<close>

fun project_chain :: "schema_snapshot \<Rightarrow> version \<Rightarrow> project_entry list \<Rightarrow> bool" where
  "project_chain before parent [] \<longleftrightarrow> True"
| "project_chain before parent (e # es) \<longleftrightarrow>
     parent < pi_version (pe_item e) \<and> mg_version (pe_migration e) = pi_version (pe_item e) \<and>
     mg_name (pe_migration e) = pi_name (pe_item e) \<and>
     canonicalize (mg_before (pe_migration e)) = canonicalize before \<and> (pi_ready (pe_item e) \<or> es = []) \<and>
     project_chain (mg_after (pe_migration e)) (pi_version (pe_item e)) es"

fun chain_end :: "schema_snapshot \<Rightarrow> version \<Rightarrow> project_entry list \<Rightarrow> schema_snapshot \<times> version \<times> bool" where
  "chain_end before parent [] = (before, parent, False)"
| "chain_end before parent es =
     (mg_after (pe_migration (last es)), pi_version (pe_item (last es)), \<not> pi_ready (pe_item (last es)))"

lemma chain_snoc:
  assumes "project_chain before parent es" "chain_end before parent es = (snapshot, version, False)"
    and "version < pi_version (pe_item e)" "mg_version (pe_migration e) = pi_version (pe_item e)"
    "mg_name (pe_migration e) = pi_name (pe_item e)" "canonicalize (mg_before (pe_migration e)) = canonicalize snapshot"
  shows "project_chain before parent (es @ [e])"
  using assms
proof (induction es arbitrary: before parent)
  case (Cons a es)
  then show ?case by (cases es) auto
qed simp

lemma chain_end_snoc [simp]:
  "chain_end before parent (es @ [e]) = (mg_after (pe_migration e), pi_version (pe_item e), \<not> pi_ready (pe_item e))"
  by (cases es) auto

text \<open>The loop of \<^verbatim>\<open>loadEntries\<close> builds the chain.\<close>

lemma Catalog_single:
  assumes "Catalog dump [m] = Inr ms"
  shows "mg_version (hd ms) = mg_version m \<and> mg_name (hd ms) = mg_name m \<and>
    canonicalize (mg_before (hd ms)) = canonicalize (mg_before m) \<and> canonicalize (mg_after (hd ms)) = canonicalize (mg_after m)"
  using assms by (auto simp: Catalog_def check_migration_def Let_def)

definition loop_ok :: "schema_snapshot \<Rightarrow> load_state \<Rightarrow> bool" where
  "loop_ok start state \<longleftrightarrow>
     project_chain start 0 (ls_entries state) \<and>
     (\<exists>snapshot. chain_end start 0 (ls_entries state) = (snapshot, ls_parent state, ls_draft state) \<and>
        canonicalize snapshot = canonicalize (ls_before state))"

lemma load_entry_Inr:
  assumes "load_entry lib backends item state s = (Inr state', s')"
  shows "\<exists>m. ls_parent state < pi_version item \<and> \<not> ls_draft state \<and> mg_version m = pi_version item \<and> mg_name m = pi_name item \<and>
    canonicalize (mg_before m) = canonicalize (ls_before state) \<and> canonicalize (mg_after m) = canonicalize (ls_before state') \<and>
    ls_parent state' = pi_version item \<and> ls_draft state' = (\<not> pi_ready item) \<and>
    ls_entries state' = ls_entries state @ [\<lparr>pe_item = item, pe_migration = m\<rparr>]"
proof -
  have guard: "\<not> (pi_version item \<le> ls_parent state \<or> ls_draft state)"
    using assms by (auto simp: load_entry_def Let_def thenA_Inr project_check_def throwIf_def split: if_splits)
  obtain scripts after m t t' where m: "(if pi_ready item then \<exists>ms. Catalog (jl_metadata lib)
        [\<lparr>mg_version = pi_version item, mg_name = pi_name item, mg_scripts = scripts, mg_before = ls_before state, mg_after = after\<rparr>] = Inr ms \<and> m = hd ms
      else m = \<lparr>mg_version = pi_version item, mg_name = pi_name item, mg_scripts = scripts, mg_before = ls_before state, mg_after = after\<rparr>)"
    "state' = \<lparr>ls_before = after, ls_parent = pi_version item, ls_draft = \<not> pi_ready item,
       ls_entries = ls_entries state @ [\<lparr>pe_item = item, pe_migration = m\<rparr>]\<rparr>"
    using assms unfolding load_entry_def Let_def thenA_Inr bindA_Inr
    by (cases "pi_ready item") (auto simp: bindA_Inr thenA_Inr)
  show ?thesis
  proof (cases "pi_ready item")
    case True
    then show ?thesis using guard m Catalog_single by (intro exI [of _ m]) fastforce
  next
    case False
    then show ?thesis using guard m by (intro exI [of _ m]) simp
  qed
qed

lemma load_entry_loop:
  assumes "loop_ok start state" "load_entry lib backends item state s = (Inr state', s')"
  shows "loop_ok start state' \<and> map pe_item (ls_entries state') = map pe_item (ls_entries state) @ [item]"
proof -
  obtain m where m: "ls_parent state < pi_version item" "\<not> ls_draft state" "mg_version m = pi_version item" "mg_name m = pi_name item"
    "canonicalize (mg_before m) = canonicalize (ls_before state)" "canonicalize (mg_after m) = canonicalize (ls_before state')"
    "ls_parent state' = pi_version item" "ls_draft state' = (\<not> pi_ready item)"
    "ls_entries state' = ls_entries state @ [\<lparr>pe_item = item, pe_migration = m\<rparr>]"
    using load_entry_Inr [OF assms(2)] by blast
  obtain snapshot where "chain_end start 0 (ls_entries state) = (snapshot, ls_parent state, False)"
    "canonicalize snapshot = canonicalize (ls_before state)"
    using assms(1) m(2) by (auto simp: loop_ok_def)
  then have "project_chain start 0 (ls_entries state')"
    unfolding m(9) using assms(1) m by (intro chain_snoc [where snapshot = snapshot]) (auto simp: loop_ok_def)
  with m show ?thesis by (simp add: loop_ok_def)
qed

lemma load_entries_loop:
  "foldA (load_entry lib backends) items state s = (Inr state', s') \<Longrightarrow> loop_ok start state \<Longrightarrow>
   loop_ok start state' \<and> map pe_item (ls_entries state') = map pe_item (ls_entries state) @ items"
proof (induction items arbitrary: state s)
  case (Cons item items)
  then obtain t middle where "load_entry lib backends item state s = (Inr middle, t)"
    "foldA (load_entry lib backends) items middle t = (Inr state', s')"
    by (auto simp: bindA_Inr)
  then show ?case using Cons load_entry_loop by fastforce
qed simp

text \<open>Every entry of the project directory is the configuration, the lock or a migration of the chain.\<close>

definition listed :: "project_item list \<Rightarrow> string \<Rightarrow> bool" where
  "listed items name \<longleftrightarrow> name = ''project.json'' \<or> name = lock_name \<or>
     (\<exists>item \<in> set items. pi_directory item = name \<and> parse_directory name = Inr (pi_version item, pi_name item))"

lemma project_item_listed:
  assumes "project_item_of (name, node) items s = (Inr items', s')"
  shows "set items \<subseteq> set items' \<and> listed items' name"
  using assms by (auto simp: project_item_of_def listed_def thenA_Inr bindA_Inr split: if_splits)

lemma project_items_listed:
  "foldA project_item_of nodes items s = (Inr items', s') \<Longrightarrow>
   set items \<subseteq> set items' \<and> (\<forall>(name, node) \<in> set nodes. listed items' name)"
proof (induction nodes arbitrary: items s)
  case (Cons node nodes)
  then obtain t middle where step: "project_item_of (fst node, snd node) items s = (Inr middle, t)"
    and rest: "foldA project_item_of nodes middle t = (Inr items', s')"
    by (auto simp: bindA_Inr)
  then show ?case
    using project_item_listed [OF step] Cons.IH [OF rest] by (cases node) (fastforce simp: listed_def)
qed simp

lemma readsD: "reads m \<Longrightarrow> m s = (r, s') \<Longrightarrow> r \<noteq> Inl Terminate \<Longrightarrow> dk_root s' = dk_root s"
  using keepsD [where P = "\<lambda>t. dk_root t = dk_root s" and s = s] unfolding reads_def by blast

lemma directory_items_Inr:
  assumes "directory_items path s = (Inr items, s')"
  shows "node_at (dk_root s) path = Some (DirNode items) \<and> dk_root s' = dk_root s"
proof -
  obtain found t where found: "file_status path s = (Inr found, t)" using assms by (auto simp: directory_items_def bindA_Inr)
  then show ?thesis
    using assms status_root [OF found] by (auto simp: directory_items_def bindA_def split: option.splits node.splits)
qed

lemma loadEntries_Inr:
  assumes "loadEntries lib backends s = (Inr entries, s')"
  shows "\<exists>start. emptySnapshot backends = Inr start \<and> project_chain start 0 entries \<and> dk_root s' = dk_root s \<and>
    (\<exists>nodes. dk_root s = Some (DirNode nodes) \<and> (\<forall>(name, node) \<in> set nodes. listed (map pe_item entries) name))"
proof -
  obtain t0 t1 nodes t2 items t3 start t4 state where run:
    "projectBackends lib s = (Inr backends, t0)" "directory_items [] t0 = (Inr nodes, t2)"
    "foldA project_item_of nodes [] t2 = (Inr items, t3)" "emptySnapshot backends = Inr start"
    "foldA (load_entry lib backends) (sort_key pi_version items)
       \<lparr>ls_before = start, ls_parent = 0, ls_draft = False, ls_entries = []\<rparr> t3 = (Inr state, s')" "entries = ls_entries state"
    using assms by (auto simp: loadEntries_def bindA_Inr thenA_Inr project_check_def throwIf_def split: if_splits)
  have "loop_ok start state \<and> map pe_item (ls_entries state) = sort_key pi_version items"
    using load_entries_loop [OF run(5), of start] by (simp add: loop_ok_def)
  moreover have "dk_root t0 = dk_root s" using readsD [OF reads_backends run(1)] by simp
  moreover have "dk_root s' = dk_root s" using readsD [OF reads_loadEntries(1) assms] by simp
  ultimately show ?thesis
    using run(4, 6) directory_items_Inr [OF run(2)] project_items_listed [OF run(3)] by (auto simp: loop_ok_def listed_def)
qed

section \<open>A new version\<close>

lemma chain_sorted: "project_chain before parent es \<Longrightarrow> sorted_wrt (<) (parent # map (\<lambda>e. pi_version (pe_item e)) es)"
  by (induction es arbitrary: before parent) fastforce+

lemma sorted_le_last: "sorted_wrt (<) (xs :: int list) \<Longrightarrow> x \<in> set xs \<Longrightarrow> x \<le> last xs"
  by (induction xs) (auto simp: less_imp_le)

lemma chain_versions:
  assumes "project_chain before parent es" "e \<in> set es"
  shows "pi_version (pe_item e) \<le> fst (snd (chain_end start version es))"
proof -
  have "pi_version (pe_item e) \<le> last (map (\<lambda>e. pi_version (pe_item e)) es)"
    using sorted_le_last chain_sorted [OF assms(1)] assms(2) by simp
  then show ?thesis using assms(2) by (cases es) (auto simp: last_map)
qed

lemma underscore [simp]: "CHR ''_'' \<notin> set (dec n)" "\<not> is_digit (CHR ''_'')" "\<not> is_digit (CHR ''.'')" "CHR ''.'' \<notin> set (dec n)"
  using dec_digit [of "CHR ''_''" n] dec_digit [of "CHR ''.''" n] by (auto simp: between_def)

lemma directory_name_parsed:
  assumes "parse_directory (directory_name version name) = Inr (version', name')" "0 < version"
  shows "version' = version"
proof -
  have "takeWhile (\<lambda>c. c \<noteq> CHR ''_'') (dec (nat version) @ ''_'' @ name) = dec (nat version)"
    by (subst takeWhile_append2) (auto dest: dec_digit)
  with assms show ?thesis by (auto simp: parse_directory_def directory_name_def Let_def)
qed

lemma directory_name_first: "\<exists>c rest. directory_name version name = c # rest \<and> is_digit c"
  using dec_digit [of _ "nat version"] by (cases "dec (nat version)") (auto simp: directory_name_def)

lemma directory_name_visible: "visible (directory_name version name, node)"
  using directory_name_first [of version name] by (auto simp: lock_name_def staging_directory_def between_def)

lemma directory_name_fresh:
  assumes "loadEntries lib backends s = (Inr entries, s')" "dk_root s = Some (DirNode nodes)"
    and "fst (snd (chain_end start 0 entries)) < version" "0 < version"
  shows "directory_name version name \<notin> fst ` set nodes"
proof
  assume "directory_name version name \<in> fst ` set nodes"
  then have "listed (map pe_item entries) (directory_name version name)" and chain: "\<exists>start. project_chain start 0 entries"
    using loadEntries_Inr [OF assms(1)] assms(2) by auto
  moreover have "directory_name version name \<noteq> ''project.json''" "directory_name version name \<noteq> lock_name"
    using directory_name_first [of version name] by (auto simp: lock_name_def between_def)
  ultimately obtain e where e: "e \<in> set entries" "parse_directory (directory_name version name) = Inr (pi_version (pe_item e), pi_name (pe_item e))"
    by (auto simp: listed_def)
  have "pi_version (pe_item e) = version" using directory_name_parsed [OF e(2) assms(4)] by simp
  moreover have "pi_version (pe_item e) \<le> fst (snd (chain_end start 0 entries))"
    using chain chain_versions [OF _ e(1)] by blast
  ultimately show False using assms(3) by simp
qed

end
