(* ===== verification/Orm_Project_Drafts.thy ===== *)
theory Orm_Project_Drafts
  imports Orm_Project_Chain Orm_Diff_Correctness
begin

text \<open>
  The operations that create drafts: whatever access fails, the project keeps its entries, or it gains one complete draft
  behind them.
\<close>

section \<open>Publishing\<close>

lemma rename_published:
  assumes "rename_path [staging_directory] [directory] s = (Inr u, s')" "visible (directory, child)"
  shows "\<exists>node. staged s = node_at (Some node) \<and> published (dk_root s') = set_entry directory (Some node) (published (dk_root s))"
proof -
  obtain node where node: "node_at (dk_root s) [staging_directory] = Some node" "parent_exists [directory] (dk_root s)"
    "dk_root s' = put_at [directory] (Some node) (put_at [staging_directory] None (dk_root s))"
    using rename_Inr [OF assms(1)] by blast
  then obtain entries where "dk_root s = Some (DirNode entries)"
    by (auto simp: parent_exists_def split: option.splits node.splits)
  then have "published (dk_root s') = set_entry directory (Some node) (published (dk_root s))"
    using node assms(2) set_entry_visible [of directory node] set_entry_hidden [OF names_hidden(2)] by (auto simp: published_def)
  moreover have "staged s path = node_at (Some node) path" for path
    using node_at_below [of "dk_root s" staging_directory path] node(1) by (simp only: staged_def)
  ultimately show ?thesis by (intro exI [of _ node]) auto
qed

lemma publish_staged:
  assumes "visible (directory, child)"
  shows "hoare (\<lambda>s. published (dk_root s) = entries)
    (thenA (bindA (liftR (snapshotJson (jl_metadata lib) (mg_after migration))) (writeFile [staging_directory, ''schema.json''])) (
     bindA (foldA (write_scripts lib migration) backends []) (\<lambda>scripts.
     thenA (bindA (liftR (migration_document lib migration parent manual scripts)) (writeFile [staging_directory, ''migration.json'']))
       (publishDirectory [staging_directory] [directory]))))
    (\<lambda>_ s. \<exists>node. draft_of lib backends migration parent manual node \<and> published (dk_root s) = set_entry directory (Some node) entries)
    (\<lambda>_ s. published (dk_root s) = entries)"
    (is "hoare ?P (thenA ?schema (bindA ?scripts (\<lambda>scripts. thenA (?document scripts) ?publish))) ?Q ?E")
proof (rule hoareI)
  fix s u s'
  assume before: "?P s" and "thenA ?schema (bindA ?scripts (\<lambda>scripts. thenA (?document scripts) ?publish)) s = (Inr u, s')"
  then obtain s1 scripts s2 s3 where run: "?schema s = (Inr (), s1)" "?scripts s1 = (Inr scripts, s2)"
    "?document scripts s2 = (Inr (), s3)" "?publish s3 = (Inr u, s')"
    by (auto simp: bindA_Inr thenA_Inr)
  have kept: "published (dk_root s3) = entries"
    using before hiddenD [OF hidden_staged_write run(1)] hiddenD [OF hidden_foldA [OF hidden_scripts] run(2)]
      hiddenD [OF hidden_staged_write run(3)] by simp
  have spared: "staged s3 (name # path) = staged s2 (name # path)" if "name \<noteq> ''migration.json''" for name path
    using sparesD [OF spares_staged_write run(3), of "name # path"] that by simp
  note scripts = write_all_scripts [OF run(2), of "[]"]
  have "has_schema lib migration (staged s3)"
    using write_staged [OF run(1)] scripts spared [of "''schema.json''" "[]"] by (auto simp: has_schema_def)
  moreover have "has_metadata lib migration parent manual (staged s3)"
    using write_staged [OF run(3)] by (auto simp: has_metadata_def)
  moreover have "has_script migration (staged s3) backend" if "backend \<in> set backends" for backend
  proof -
    have "has_script migration (staged s2) backend" using scripts that by (auto simp: list_all_iff)
    moreover from this obtain name where name: "backendName backend = Inr name" by (auto simp: has_script_def)
    moreover have "name \<noteq> ''migration.json''" using name backendName_plain(2) by auto
    ultimately show ?thesis using spared by (simp add: has_script_def)
  qed
  ultimately show "?Q u s'"
    using rename_published [OF run(4) [unfolded publishDirectory_def] assms] kept by (auto simp: draft_of_def list_all_iff)
next
  fix s e s'
  assume before: "?P s" and run: "thenA ?schema (bindA ?scripts (\<lambda>scripts. thenA (?document scripts) ?publish)) s = (Inl e, s')" and "e \<noteq> Terminate"
  show "?E e s'"
    using before run \<open>e \<noteq> Terminate\<close>
    by (auto simp: bindA_Inl thenA_Inl publishDirectory_def 
        dest!: hiddenD [OF hidden_staged_write] hiddenD [OF hidden_write [OF names_hidden(2)]]
          hiddenD [OF hidden_foldA [OF hidden_scripts]] rename_Inl)
qed

text \<open>The lock and the staging directory are released, whatever happened.\<close>

lemma hoare_released:
  assumes "hoare P m (\<lambda>x s. Q x (published (dk_root s))) (\<lambda>e s. E (published (dk_root s)))" "hidden d"
  shows "hoare P (finallyA m d) (\<lambda>x s. Q x (published (dk_root s))) (\<lambda>e s. E (published (dk_root s)))"
proof (rule hoare_finallyA [OF assms(1)])
  fix x
  show "hoare (\<lambda>s. Q x (published (dk_root s))) d (\<lambda>_ s. Q x (published (dk_root s))) (\<lambda>_ _. True)"
    by (rule hoare_weaken [OF hidden_any [OF assms(2), unfolded keeps_hoare, of "Q x"]]) simp_all
next
  fix e
  show "hoare (\<lambda>s. E (published (dk_root s))) d (\<lambda>_ s. E (published (dk_root s))) (\<lambda>_ _. True)"
    by (rule hoare_weaken [OF hidden_any [OF assms(2), unfolded keeps_hoare, of E]]) simp_all
qed

lemma hoare_guarded:
  assumes "hoare (\<lambda>s. published (dk_root s) = entries) m (\<lambda>x s. Q x (published (dk_root s))) (\<lambda>e s. published (dk_root s) = entries)"
  shows "hoare (\<lambda>s. published (dk_root s) = entries) (StagingDirectory m) (\<lambda>x s. Q x (published (dk_root s))) (\<lambda>e s. published (dk_root s) = entries)"
    and "hoare (\<lambda>s. published (dk_root s) = entries) (ProjectLock m) (\<lambda>x s. Q x (published (dk_root s))) (\<lambda>e s. published (dk_root s) = entries)"
  unfolding StagingDirectory_def ProjectLock_def
  by (intro keeps_then_hoare hidden_keeps hidden_exclusive names_hidden hoare_released [where E = "\<lambda>x. x = entries"] assms
      hidden_remove hidden_remove_all)+

lemma publishDraft_published:
  "hoare (\<lambda>s. published (dk_root s) = entries) (publishDraft lib backends migration parent manual)
     (\<lambda>_ s. \<exists>node. draft_of lib backends migration parent manual node \<and>
        published (dk_root s) = set_entry (directory_name (mg_version migration) (mg_name migration)) (Some node) entries)
     (\<lambda>_ s. published (dk_root s) = entries)"
  unfolding publishDraft_def
  by (rule hoare_guarded(1) [where Q = "\<lambda>_ es. \<exists>node. draft_of lib backends migration parent manual node \<and>
        es = set_entry (directory_name (mg_version migration) (mg_name migration)) (Some node) entries",
      OF publish_staged [OF directory_name_visible]])

section \<open>Drafts\<close>

lemma draft_parent_fresh:
  "hoare (\<lambda>s. published (dk_root s) = entries) (draft_parent lib backends)
     (\<lambda>found s. published (dk_root s) = entries \<and> directory_name (fst found + 1) name \<notin> fst ` set entries)
     (\<lambda>_ s. published (dk_root s) = entries)"
proof (rule hoareI)
  fix s found s'
  assume before: "published (dk_root s) = entries" and run: "draft_parent lib backends s = (Inr found, s')"
  obtain loaded where load: "loadEntries lib backends s = (Inr loaded, s')"
    and parent: "fst found = (if loaded = [] then 0 else pi_version (pe_item (last loaded)))"
    using run by (auto simp: draft_parent_def bindA_Inr Let_def split: if_splits)
  obtain start nodes where chain: "project_chain start 0 loaded" and nodes: "dk_root s = Some (DirNode nodes)" "dk_root s' = dk_root s"
    using loadEntries_Inr [OF load] by blast
  have ends: "fst (snd (chain_end start 0 loaded)) = fst found" by (cases loaded) (auto simp: parent)
  have "0 \<le> fst found"
    using chain_sorted [OF chain] by (auto simp: parent intro!: less_imp_le)
  then have "directory_name (fst found + 1) name \<notin> fst ` set nodes"
    using directory_name_fresh [OF load nodes(1), of start "fst found + 1"] ends by simp
  then show "published (dk_root s') = entries \<and> directory_name (fst found + 1) name \<notin> fst ` set entries"
    using before nodes by (force simp: published_def)
next
  fix s e s'
  assume "published (dk_root s) = entries" and run: "draft_parent lib backends s = (Inl e, s')" and "e \<noteq> Terminate"
  then show "published (dk_root s') = entries" using readsD [OF reads_loadEntries(2) run] by simp
qed

text \<open>A new draft behind the entries of the project.\<close>

definition gained ::
  "json_library \<Rightarrow> backend_type list \<Rightarrow> string \<Rightarrow> bool \<Rightarrow> (string \<times> node) list \<Rightarrow> version \<Rightarrow> (string \<times> node) list \<Rightarrow> bool" where
  "gained lib backends name manual entries version entries' \<longleftrightarrow>
     (\<exists>migration node. mg_version migration = version \<and> mg_name migration = name \<and>
        draft_of lib backends migration (version - 1) manual node \<and> entries' = entries @ [(directory_name version name, node)])"

lemma publish_gained:
  assumes "mg_version migration = parent + 1" "mg_name migration = name"
  shows "hoare (\<lambda>s. published (dk_root s) = entries \<and> directory_name (parent + 1) name \<notin> fst ` set entries)
    (thenA (publishDraft lib backends migration parent manual) (retA (parent + 1)))
    (\<lambda>version s. gained lib backends name manual entries version (published (dk_root s))) (\<lambda>_ s. published (dk_root s) = entries)"
proof (rule hoare_assume)
  assume "directory_name (parent + 1) name \<notin> fst ` set entries"
  then show "hoare (\<lambda>s. published (dk_root s) = entries) (thenA (publishDraft lib backends migration parent manual) (retA (parent + 1)))
      (\<lambda>version s. gained lib backends name manual entries version (published (dk_root s))) (\<lambda>_ s. published (dk_root s) = entries)"
    by (intro hoare_thenA [OF publishDraft_published] hoareI) (auto simp: gained_def assms set_entry_new)
qed

lemma hoare_operation:
  "hoare P m Q (\<lambda>e s. published (dk_root s) = entries) \<Longrightarrow> hoare P (projectOperation m) Q (\<lambda>e s. published (dk_root s) = entries)"
  unfolding projectOperation_def by (erule hoare_catchA) (rule hoare_throwA)

lemma hoare_lifted:
  "(\<And>x. r = Inr x \<Longrightarrow> hoare P (f x) Q E) \<Longrightarrow> (\<And>e s. P s \<Longrightarrow> E e s) \<Longrightarrow> hoare P (bindA (liftR r) f) Q E"
  by (cases r) (auto simp: bindA_liftR hoare_def bindA_def)

lemma generate_identity: "generate dump version name diff decisions = Inr g \<Longrightarrow>
   mg_version (gm_migration g) = version \<and> mg_name (gm_migration g) = name"
  by (auto simp: generate_def)

lemma hoare_checked: "hoare P m Q E \<Longrightarrow> (\<And>e s. P s \<Longrightarrow> E e s) \<Longrightarrow> hoare P (thenA (liftR r) m) Q E"
  by (simp add: thenA_def hoare_lifted)

lemma make_gained:
  "hoare (\<lambda>s. published (dk_root s) = entries) (make lib backends name models decisions)
     (\<lambda>version s. gained lib backends name False entries version (published (dk_root s))) (\<lambda>_ s. published (dk_root s) = entries)"
  unfolding make_def
proof (intro hoare_operation hoare_checked hoare_guarded(2), rule hoare_bindA [OF draft_parent_fresh [of entries lib backends name]])
  fix found :: "version \<times> schema_snapshot"
  obtain parent before where found: "found = (parent, before)" by (cases found)
  show "hoare (\<lambda>s. published (dk_root s) = entries \<and> directory_name (fst found + 1) name \<notin> fst ` set entries)
    (case found of (parent, before) \<Rightarrow>
       bindA (liftR (
           bindR (capture models backends) (\<lambda>after.
           bindR (compare before after decisions) (\<lambda>diff.
           bindR (project_check (df_changes diff = [])
                    ''Models have no schema changes; use make --manual for a data migration'') (\<lambda>_.
             generate (jl_metadata lib) (parent + 1) name diff decisions))))) (\<lambda>generated.
       thenA (publishDraft lib backends (gm_migration generated) parent False) (retA (parent + 1))))
    (\<lambda>version s. gained lib backends name False entries version (published (dk_root s))) (\<lambda>_ s. published (dk_root s) = entries)"
    unfolding found prod.case fst_conv
    by (rule hoare_lifted, rule publish_gained) (auto dest!: generate_identity)
qed simp

lemma makeManual_gained:
  "hoare (\<lambda>s. published (dk_root s) = entries) (makeManual lib backends name models)
     (\<lambda>version s. gained lib backends name True entries version (published (dk_root s))) (\<lambda>_ s. published (dk_root s) = entries)"
  unfolding makeManual_def
proof (intro hoare_operation hoare_checked hoare_guarded(2), rule hoare_bindA [OF draft_parent_fresh [of entries lib backends name]])
  fix found :: "version \<times> schema_snapshot"
  obtain parent before where found: "found = (parent, before)" by (cases found)
  show "hoare (\<lambda>s. published (dk_root s) = entries \<and> directory_name (fst found + 1) name \<notin> fst ` set entries)
    (case found of (parent, before) \<Rightarrow>
       bindA (liftR (capture models backends)) (\<lambda>after.
       thenA (publishDraft lib backends
                \<lparr>mg_version = parent + 1, mg_name = name,
                 mg_scripts = fold (\<lambda>backend. omap_insert backend manual_script) backends [],
                 mg_before = before, mg_after = after\<rparr> parent True) (retA (parent + 1))))
    (\<lambda>version s. gained lib backends name True entries version (published (dk_root s))) (\<lambda>_ s. published (dk_root s) = entries)"
    unfolding found prod.case fst_conv by (rule hoare_lifted, rule publish_gained) auto
qed simp

section \<open>The file of a finished migration\<close>

text \<open>The directories of the project without the files by which a migration is ready.\<close>

definition ready_file :: "string \<Rightarrow> bool" where
  "ready_file name \<longleftrightarrow> name = ''ready.json'' \<or> name = ''.ready.json.tmp''"

fun unready :: "node \<Rightarrow> node" where
  "unready (DirNode files) = DirNode (filter (\<lambda>(name, _). \<not> ready_file name) files)"
| "unready node = node"

definition without_ready :: "(string \<times> node) list \<Rightarrow> (string \<times> node) list" where
  "without_ready entries = map (\<lambda>(name, node). (name, unready node)) entries"

lemma without_ready_set_entry:
  "map_of entries name = Some old \<Longrightarrow> unready child = unready old \<Longrightarrow>
   without_ready (filter visible (set_entry name (Some child) entries)) = without_ready (filter visible entries)"
  by (induction entries) (auto simp: without_ready_def split: if_splits)

lemma unready_set_entry: "ready_file file \<Longrightarrow> unready (DirNode (set_entry file given files)) = unready (DirNode files)"
  by (induction files) (auto split: option.splits if_splits)

lemma without_ready_put:
  assumes "ready_file file"
  shows "without_ready (published (put_at [directory, file] given root)) = without_ready (published root)"
proof (cases root)
  case (Some node)
  show ?thesis
  proof (cases node)
    case (DirNode entries)
    show ?thesis
    proof (cases "map_of entries directory")
      case found: (Some child)
      have "unready (the (put_at [file] given (Some child))) = unready child"
        using unready_set_entry [OF assms] by (auto split: node.splits)
      moreover obtain child' where "put_at [file] given (Some child) = Some child'"
        using put_at_Some [of "[file]" given child] by auto
      ultimately show ?thesis
        using without_ready_set_entry [OF found, of child'] by (simp add: Some DirNode found published_def del: unready.simps)
    qed (simp add: Some DirNode)
  qed (simp_all add: Some)
qed simp

definition spares_entries :: "'a diskact \<Rightarrow> bool" where
  "spares_entries m \<longleftrightarrow> (\<forall>entries. keeps (\<lambda>s. without_ready (published (dk_root s)) = entries) m)"

lemma spares_entries_put: "ready_file file \<Longrightarrow> spares_entries (put [directory, file] given)"
  unfolding spares_entries_def put_def by (auto intro!: keeps_modifyA simp: without_ready_put simp del: put_at.simps)

lemma spares_entries_hidden: "hidden m \<Longrightarrow> spares_entries m"
  unfolding spares_entries_def using hidden_any [where G = "\<lambda>es. without_ready es = entries" for entries] by blast

lemma spares_entries_intros:
  "spares_entries m \<Longrightarrow> (\<And>x. spares_entries (f x)) \<Longrightarrow> spares_entries (bindA m f)"
  "spares_entries m \<Longrightarrow> spares_entries n \<Longrightarrow> spares_entries (thenA m n)"
  "spares_entries m \<Longrightarrow> (\<And>e. spares_entries (h e)) \<Longrightarrow> spares_entries (catchA m h)"
  "spares_entries m \<Longrightarrow> spares_entries d \<Longrightarrow> spares_entries (finallyA m d)"
  "(b \<Longrightarrow> spares_entries m) \<Longrightarrow> (\<not> b \<Longrightarrow> spares_entries n) \<Longrightarrow> spares_entries (if b then m else n)"
  "spares_entries m \<Longrightarrow> (\<And>z. spares_entries (g z)) \<Longrightarrow> spares_entries (case y of None \<Rightarrow> m | Some z \<Rightarrow> g z)"
  "(\<And>a c. spares_entries (p a c)) \<Longrightarrow> spares_entries (case x of (a, c) \<Rightarrow> p a c)"
  "(\<And>content. spares_entries (fi content)) \<Longrightarrow> (\<And>entries. spares_entries (di entries)) \<Longrightarrow> (\<And>target. spares_entries (li target)) \<Longrightarrow>
     spares_entries (case v of FileNode content \<Rightarrow> fi content | DirNode entries \<Rightarrow> di entries | LinkNode target \<Rightarrow> li target)"
  "spares_entries zero \<Longrightarrow> (\<And>k. spares_entries (suc k)) \<Longrightarrow> spares_entries (case i of 0 \<Rightarrow> zero | Suc k \<Rightarrow> suc k)"
  by (auto simp: spares_entries_def keeps_intros split: option.splits prod.splits node.splits nat.splits)

lemmas spares_entries_reads = spares_entries_hidden [OF hidden_reads]

lemma spares_entries_ready:
  "spares_entries (writeFile [directory, ''.ready.json.tmp''] content)"
  "spares_entries (remove_quietly [directory, ''.ready.json.tmp''])"
  "spares_entries (rename_path [directory, ''.ready.json.tmp''] [directory, ''ready.json''])"
  unfolding writeFile_def remove_quietly_def rename_path_def
  by (intro spares_entries_intros spares_entries_put spares_entries_reads reads_intros; simp add: ready_file_def)+

lemma spares_entries_finalize: "spares_entries (finalize lib backends version models acceptSchema)"
  unfolding finalize_def projectOperation_def ProjectLock_def Let_def
  by (intro spares_entries_intros spares_entries_ready spares_entries_hidden [OF hidden_exclusive [OF names_hidden(1)]]
      spares_entries_hidden [OF hidden_remove [OF names_hidden(1)]] spares_entries_reads reads_intros)

section \<open>The lock\<close>

lemma status_clear: "dk_faults s = [] \<Longrightarrow> file_status path s = (Inr (node_at (dk_root s) path), s)"
  by (simp add: file_status_def access_def next_fault_def thenA_def bindA_def)

lemma locked_out:
  assumes "dk_faults s = []" "node_at (dk_root s) [lock_name] = Some (DirNode held)"
  shows "projectOperation (ProjectLock m) s =
    (Inl (MigrationError LockUnavailable ''Another migration project writer holds the lock'' 0 Empty None), s)"
  using assms status_clear [of s "[lock_name]"]
  by (simp add: projectOperation_def ProjectLock_def createExclusiveDirectory_def create_directory_def thenA_def bindA_def catchA_def
      filesystem_error_def ios_failure_def del: node_at.simps)

lemma checked_passes: "\<not> refused \<Longrightarrow> thenA (liftR (project_check refused message)) m = m"
  by (simp add: project_check_def throwIf_def thenA_def bindA_liftR)

lemma hoare_run:
  "hoare P m Q E \<Longrightarrow> P s \<Longrightarrow> case m s of (Inl e, s') \<Rightarrow> e = Terminate \<or> E e s' | (Inr x, s') \<Rightarrow> Q x s'"
  unfolding hoare_def by (drule spec [where x = s]) (erule mp)

lemma spares_entries_run:
  "spares_entries m \<Longrightarrow> m s = (r, s') \<Longrightarrow> r \<noteq> Inl Terminate \<Longrightarrow>
   without_ready (published (dk_root s')) = without_ready (published (dk_root s))"
  using keepsD [where P = "\<lambda>t. without_ready (published (dk_root t)) = without_ready (published (dk_root s))" and s = s]
  unfolding spares_entries_def by blast

section \<open>Properties\<close>

text \<open>
  C26. A project that \<^verbatim>\<open>loadEntries\<close> reads is a chain: versions grow strictly, every migration carries the version and the name of its
  directory and starts from the schema its predecessor ends in (the first from the empty schema), only the last may be a
  draft, and each directory beside the configuration and the lock is one of its migrations.
\<close>

theorem loaded_project_is_chain:
  "case loadEntries lib backends s of
     (Inl e, s') \<Rightarrow> e = Terminate \<or> dk_root s' = dk_root s
   | (Inr entries, s') \<Rightarrow> dk_root s' = dk_root s \<and>
       (\<exists>start nodes. emptySnapshot backends = Inr start \<and> project_chain start 0 entries \<and> dk_root s = Some (DirNode nodes) \<and>
          list_all (\<lambda>(name, _). listed (map pe_item entries) name) nodes)"
proof (cases "loadEntries lib backends s")
  case (Pair r s')
  show ?thesis
  proof (cases r)
    case (Inl e)
    then show ?thesis using Pair readsD [OF reads_loadEntries(1) Pair] by auto
  next
    case (Inr entries)
    then show ?thesis using Pair loadEntries_Inr [OF Pair [unfolded Inr]] by (fastforce simp: list_all_iff)
  qed
qed

text \<open>
  C25. \<^verbatim>\<open>make\<close> and \<^verbatim>\<open>makeManual\<close> publish a draft whole or not at all: whichever accesses to the files fail, an error leaves the entries of
  the project as they were, but for the lock and the staging directory; a returned version stands for one new directory
  behind them, with the schema, the metadata and the scripts of every backend.
\<close>

theorem drafts_all_or_nothing:
  "(case make lib backends name models decisions s of
      (Inl e, s') \<Rightarrow> e = Terminate \<or> published (dk_root s') = published (dk_root s)
    | (Inr version, s') \<Rightarrow> gained lib backends name False (published (dk_root s)) version (published (dk_root s'))) \<and>
   (case makeManual lib backends name models s of
      (Inl e, s') \<Rightarrow> e = Terminate \<or> published (dk_root s') = published (dk_root s)
    | (Inr version, s') \<Rightarrow> gained lib backends name True (published (dk_root s)) version (published (dk_root s')))"
  by (rule conjI) (rule hoare_run [OF make_gained refl], rule hoare_run [OF makeManual_gained refl])

text \<open>
  C27. \<^verbatim>\<open>finalize\<close> changes no file of a migration: whatever happens, the directories of the project are the same but for
  \<^verbatim>\<open>ready.json\<close> and its temporary file.
\<close>

theorem finalize_changes_no_script:
  "case finalize lib backends version models acceptSchema s of (r, s') \<Rightarrow>
     r = Inl Terminate \<or> without_ready (published (dk_root s')) = without_ready (published (dk_root s))"
proof (cases "finalize lib backends version models acceptSchema s")
  case (Pair r s')
  then show ?thesis using spares_entries_run [OF spares_entries_finalize Pair] by auto
qed


text \<open>A project whose lock is held; the JSON library is not reached.\<close>

definition silent_library :: json_library where
  "silent_library = \<lparr>jl_metadata = (\<lambda>_. Inl JsonException), jl_pretty = (\<lambda>_. Inl JsonException), jl_compact = (\<lambda>_. Inl JsonException),
     jl_strict = (\<lambda>_. Inl JsonException), jl_project = (\<lambda>_. Inl JsonException), jl_plain = (\<lambda>_. Inl JsonException)\<rparr>"

definition locked_disk :: disk where
  "locked_disk = \<lparr>dk_root = Some (DirNode [(''project.json'', FileNode ''{}''), (lock_name, DirNode [])]), dk_faults = []\<rparr>"


end
