(* ===== verification/Spec2Isabelle.thy ===== *)
theory Spec2Isabelle
  imports Orm_Migration_Correctness Orm_Diff_Correctness Orm_Statement_Safety Orm_Relation_Safety Orm_Generate_Safety
    Orm_Context_Safety Orm_Project_Drafts
begin

text \<open>
  A model of the C++ object-relational mapper orm-cxx and the theorems that make it correct. All paths are relative to the
  directory \<^verbatim>\<open>src\<close> of the repository.

  The parts of the program and how they interact. Models are described by immutable views. From them a query builder fills flat
  programs, an emitter turns a program into SQL text with bound values for one of four dialects (SQLite, PostgreSQL, MySQL,
  MariaDB), and a database session sends statements to a driver, guarding its transaction state and the limits of the backend.
  Beside the queries stands the migration system: models are captured as physical snapshots, two snapshots are compared, a
  generator writes scripts for the difference, a project keeps drafts and finished migrations on disk, a catalog validates
  them, and a runner applies them to a database, recording a history with checksums.

  \<^bold>\<open>Conventions.\<close> Code that may throw returns \<open>(exn, 'a) result\<close>, the exception on the left. Code that talks to a session, a
  driver or the file system is an action on an explicit state (\<^verbatim>\<open>Orm_Effects\<close>): the state an action leaves is known also when
  it throws, \<open>catchA\<close> is a handler and \<open>finallyA\<close> a destructor; an exception that leaves a destructor is \<open>Terminate\<close>.
  \<^verbatim>\<open>std::map\<close> is an association list in key order. Text is a list of bytes, and \<^verbatim>\<open>char\<close> is signed where it matters. Integers
  that may wrap around keep their width (words, or explicit bounds). Undefined behaviour, and what the standard library reports
  as \<^verbatim>\<open>std::logic_error\<close>, is \<open>LogicError\<close>, and the theorems show where it cannot occur.

  \<^bold>\<open>Foundation.\<close> \<^verbatim>\<open>Orm_Prelude\<close> holds results, text, decimal numbers and ordered maps; \<^verbatim>\<open>Orm_Results\<close> two relations on results;
  \<^verbatim>\<open>Orm_Foundation\<close> the enumerations and exceptions of \<^verbatim>\<open>modules/orm/foundation/types.cppm\<close>; \<^verbatim>\<open>Orm_Uuid\<close> \<^verbatim>\<open>src/foundation/Uuid.cpp\<close>;
  \<^verbatim>\<open>Orm_Calendar\<close> and \<^verbatim>\<open>Orm_Value_Codec\<close> \<^verbatim>\<open>src/foundation/ValueCodec.cpp\<close>; \<^verbatim>\<open>Orm_Utf8\<close> the lengths of strings; \<^verbatim>\<open>Orm_Value_Limits\<close>
  \<^verbatim>\<open>QueryValue\<close> and \<^verbatim>\<open>src/database/ValueLimits.cpp\<close>. Codecs share the locale \<open>text_codec\<close> (what is formatted is parsed back),
  interpreted for UUIDs, dates, times and date-times.

  \<^bold>\<open>Models and statements.\<close> \<^verbatim>\<open>Orm_Model\<close> has the views of \<^verbatim>\<open>modules/orm/model/views.cppm\<close>; \<^verbatim>\<open>Orm_Dialect\<close> the dialects of
  \<^verbatim>\<open>src/database\<close> and the locale \<open>dialect_contract\<close> that all four satisfy; \<^verbatim>\<open>Orm_Commands\<close> the statements of a model alone;
  \<^verbatim>\<open>Orm_Sql_Emitter\<close> the programs and the emitter (\<^verbatim>\<open>modules/orm/sql/program.cppm\<close>, \<^verbatim>\<open>emitter.cppm\<close>); \<^verbatim>\<open>Orm_Query\<close> predicate
  trees, query specifications and the builder of \<^verbatim>\<open>src/database/defaults/SqlRenderer.cpp\<close>; \<^verbatim>\<open>Orm_Relations\<close> the statements of
  \<^verbatim>\<open>RelationStatements.cpp\<close>. \<^verbatim>\<open>Orm_Query_Correctness\<close>, \<^verbatim>\<open>Orm_Statements\<close>, \<^verbatim>\<open>Orm_Statement_Safety\<close> and \<^verbatim>\<open>Orm_Relation_Safety\<close> show
  that the builder and emitter together render a direct recursive specification, never read outside a program, keep values out
  of the text, agree between the compile-time and the run-time policy (locale \<open>policy_pair\<close>), stay within the bind limit, and
  that link and unlink address the same row. The emitter runs with as much fuel as the program has nodes, which is proved
  enough.

  \<^bold>\<open>Sessions.\<close> \<^verbatim>\<open>Orm_Session\<close> (connection, transactions, execution of \<^verbatim>\<open>src/Database.cpp\<close>), \<^verbatim>\<open>Orm_Backends\<close> (capabilities and binding
  of the built-in backends), \<^verbatim>\<open>Orm_Support\<close> and \<^verbatim>\<open>Orm_Query_Support\<close> (the checks of a model, schema, query or predicate before
  it is used), and \<^verbatim>\<open>Orm_Context\<close> (the operations of \<^verbatim>\<open>modules/orm/database/context.cppm\<close>). The driver is a record of functions,
  a parameter; an engine in memory instantiates it in the witnesses. \<^verbatim>\<open>Orm_Session_Safety\<close>, \<^verbatim>\<open>Orm_Support_Safety\<close>,
  \<^verbatim>\<open>Orm_Query_Support_Safety\<close> and \<^verbatim>\<open>Orm_Context_Safety\<close> show that a session follows the automaton of transaction states, that a
  failed transaction is frozen, that nothing over a limit is sent, that the checks end on cyclic schemas and decide exactly
  what they promise. \<open>visit_models\<close> has one unit of fuel more than the schema has models and \<open>check_node\<close> as many as the
  program has nodes; both are proved enough.

  \<^bold>\<open>Schemas.\<close> \<^verbatim>\<open>Orm_Schema\<close>, \<^verbatim>\<open>Orm_Render\<close> and \<^verbatim>\<open>Orm_Snapshot\<close> model \<^verbatim>\<open>src/migrations/SchemaSnapshot.cpp\<close> (physical names, types, rendering,
  canonical form, validation, capture), \<^verbatim>\<open>Orm_Json\<close> \<^verbatim>\<open>SchemaJson.cpp\<close> with the locale \<open>json_codec\<close>, \<^verbatim>\<open>Orm_Sha256\<close> the hash,
  \<^verbatim>\<open>Orm_Diff\<close> \<^verbatim>\<open>SchemaDiff.cpp\<close>, \<^verbatim>\<open>Orm_Literals\<close> and \<^verbatim>\<open>Orm_Generate\<close> \<^verbatim>\<open>SchemaGeneration.cpp\<close>. Validation decides a declarative predicate,
  comparison notices exactly the differences and never loses data unasked, the catalog accepts what is generated, and a SQLite
  rebuild copies before it drops.

  \<^bold>\<open>Migrations.\<close> \<^verbatim>\<open>Orm_Catalog\<close> and \<^verbatim>\<open>Orm_Sql_Validation\<close> (\<^verbatim>\<open>Catalog.cpp\<close>, \<^verbatim>\<open>SqlValidation.cpp\<close>), \<^verbatim>\<open>Orm_Migration_Plan\<close> and
  \<^verbatim>\<open>Orm_Migration_State\<close> (\<^verbatim>\<open>MigrationState.cpp\<close>), \<^verbatim>\<open>Orm_Preflight\<close> and \<^verbatim>\<open>Orm_Runner\<close> (\<^verbatim>\<open>Runner.cpp\<close>). \<^verbatim>\<open>Orm_Migration_Protocol\<close>,
  \<^verbatim>\<open>Orm_Migration_Progress\<close> and \<^verbatim>\<open>Orm_Migration_Correctness\<close> show that the runner reaches its target on a session that works, that
  an applied migration is one step of an abstract machine on the catalog, that a failure changes nothing durable on a
  transactional engine, that a marker is durable before a script runs on another, and that every call leaves the database idle.

  \<^bold>\<open>Projects.\<close> \<^verbatim>\<open>Orm_Project\<close> models \<^verbatim>\<open>MigrationProject.cpp\<close> on a file tree; a list of faults decides which access fails, and a failing
  write may leave any prefix. The project directory is reached by no other process while an operation runs. The JSON library
  is a parameter. \<^verbatim>\<open>Orm_Project_Safety\<close>, \<^verbatim>\<open>Orm_Project_Chain\<close> and \<^verbatim>\<open>Orm_Project_Drafts\<close> show that drafts are published whole or not at
  all, that a readable project is a chain, that \<^verbatim>\<open>finalize\<close> changes no script, and that writers exclude each other.

  \<^bold>\<open>Not modelled.\<close> The templates that compute model views at compile time (\<^verbatim>\<open>modules/orm/model\<close>, \<^verbatim>\<open>modules/reflection\<close>), the typed
  expression templates and compiled plans (\<^verbatim>\<open>modules/orm/query/expression.cppm\<close>, \<^verbatim>\<open>columns.cppm\<close>, \<^verbatim>\<open>parameters.cppm\<close>,
  \<^verbatim>\<open>modules/orm/sql/compiled.cppm\<close>, \<^verbatim>\<open>modules/orm/static_plan.cppm\<close>): they are metaprograms over C++ types whose results, views and
  programs, are inputs of the model. The templates that move values between objects and rows (\<^verbatim>\<open>modules/orm/database\<close>:
  \<^verbatim>\<open>object_binding\<close>, \<^verbatim>\<open>payload\<close>, \<^verbatim>\<open>result_binding\<close>, \<^verbatim>\<open>result_storage\<close>, \<^verbatim>\<open>numeric\<close>) but for their range and length checks. The calls of the client
  libraries in \<^verbatim>\<open>SqliteBackend.cpp\<close>, \<^verbatim>\<open>PostgresqlBackend.cpp\<close> and \<^verbatim>\<open>MysqlFamily.cpp\<close>, which stand behind the record of driver functions.
  The command line (\<^verbatim>\<open>CommandLine.cpp\<close>, \<^verbatim>\<open>ConnectionEnvironment.cpp\<close>): argument parsing, environment and output around the modelled
  operations. The JSON library, the parser of decisions in \<^verbatim>\<open>SchemaJson.cpp\<close>, and the retries of \<^verbatim>\<open>publishDirectory\<close> on Windows.
\<close>

end
